(* ===== verification/Prelude.thy ===== *)
theory Prelude
  imports Main "HOL-Library.Char_ord" "HOL-Library.List_Lexorder" "HOL-Library.Product_Lexorder"
begin

text \<open>
  Shared vocabulary of the development: identifiers, instants, the errors a
  handler throws, the result of a handler (its value or error together with the
  database it leaves behind), the Prisma operations used on a table, the
  \<open>$transaction\<close> wrapper, and the two interfaces that most services rely on:
  tables whose rows carry a version for optimistic concurrency, and schedules
  that are advanced past an instant.

  A table is the list of its rows in insertion order.  The Prisma client itself is
  a package: the operations below state its documented effect on such a list
  (a row is written exactly when it satisfies the \<open>where\<close> clause, and the count
  of written rows is returned).  \<open>findFirst\<close> without \<open>orderBy\<close> leaves the choice
  among several matches to the database; the model takes the oldest match.
\<close>

named_theorems frame_simps \<open>which tables an operation leaves alone\<close>

subsection \<open>Identifiers, instants, errors and results\<close>

text \<open>A UUID is a 128-bit number; only equality and order are used. An instant is the
  number of milliseconds since the epoch, the time value of a JavaScript \<open>Date\<close>.\<close>

type_synonym uuid = nat
type_synonym timestamp = int

text \<open>The Nest exceptions the services throw, with their messages. \<open>P2002\<close> is Prisma's
  error for a violated unique constraint and \<open>P2025\<close> the one for a missing row.\<close>

datatype api_error =
    BadRequest string
  | Unauthorized string
  | Forbidden string
  | NotFound string
  | Conflict string
  | Gone string
  | VersionConflict int
  | TooManyRequests string int
  | PrismaError string
  | PlainError string

abbreviation P2002 :: api_error where "P2002 \<equiv> PrismaError ''P2002''"
abbreviation P2025 :: api_error where "P2025 \<equiv> PrismaError ''P2025''"

type_synonym ('a, 's) resp = "(api_error + 'a) \<times> 's"

text \<open>Sequencing of two effectful steps: the second runs on the state of the first
  unless the first threw.\<close>

definition and_then :: "('a, 's) resp \<Rightarrow> ('a \<Rightarrow> 's \<Rightarrow> ('b, 's) resp) \<Rightarrow> ('b, 's) resp" where
  "and_then r f = (case r of (Inl e, s) \<Rightarrow> (Inl e, s) | (Inr a, s) \<Rightarrow> f a s)"

text \<open>\<open>prisma.$transaction\<close>: a throwing body leaves the state it started from.\<close>

definition transaction :: "'s \<Rightarrow> ('a, 's) resp \<Rightarrow> ('a, 's) resp" where
  "transaction s r = (case r of (Inl e, _) \<Rightarrow> (Inl e, s) | (Inr a, s') \<Rightarrow> (Inr a, s'))"

lemma and_then_simps [simp]:
  "and_then (Inl e, s) f = (Inl e, s)"
  "and_then (Inr a, s) f = f a s"
  by (simp_all add: and_then_def)

lemma transaction_simps [simp]:
  "transaction s (Inl e, s') = (Inl e, s)"
  "transaction s (Inr a, s') = (Inr a, s')"
  by (simp_all add: transaction_def)

lemma transaction_error_rolls_back:
  "fst (transaction s r) = Inl e \<Longrightarrow> snd (transaction s r) = s"
  by (auto simp: transaction_def split: prod.splits sum.splits)

lemma and_then_split:
  "P (and_then r f) \<longleftrightarrow>
    (\<forall>e s. r = (Inl e, s) \<longrightarrow> P (Inl e, s)) \<and> (\<forall>a s. r = (Inr a, s) \<longrightarrow> P (f a s))"
  by (cases r; cases "fst r") auto

lemma transaction_split:
  "P (transaction s r) \<longleftrightarrow>
    (\<forall>e s'. r = (Inl e, s') \<longrightarrow> P (Inl e, s)) \<and> (\<forall>a s'. r = (Inr a, s') \<longrightarrow> P (Inr a, s'))"
  by (cases r; cases "fst r") auto

lemma if_pair_fst: "fst (if b then x else y) = (if b then fst x else fst y)"
  by simp

text \<open>Whether a step threw.\<close>

lemma isl_and_then: "isl (fst r) \<Longrightarrow> isl (fst (and_then r f))"
  by (cases r; cases "fst r") auto

lemma isl_transaction [simp]: "isl (fst (transaction s r)) = isl (fst r)"
  by (cases r; cases "fst r") auto

lemma transaction_isl: "isl (fst r) \<Longrightarrow> isl (fst (transaction s r)) \<and> snd (transaction s r) = s"
  by (cases r; cases "fst r") auto

lemma and_then_Inr:
  "and_then r f = (Inr b, t) \<longleftrightarrow> (\<exists>a u. r = (Inr a, u) \<and> f a u = (Inr b, t))"
  by (cases r; cases "fst r") auto

lemma transaction_Inr: "transaction s r = (Inr a, t) \<longleftrightarrow> r = (Inr a, t)"
  by (cases r; cases "fst r") auto

text \<open>The \<open>catch\<close> clauses: a Prisma error with one of the codes becomes a conflict.\<close>

definition catch_prisma :: "string list \<Rightarrow> string \<Rightarrow> ('a, 's) resp \<Rightarrow> ('a, 's) resp" where
  "catch_prisma codes msg r = (case r of
     (Inl (PrismaError c), s) \<Rightarrow> (Inl (if c \<in> set codes then Conflict msg else PrismaError c), s)
   | _ \<Rightarrow> r)"

lemma snd_catch_prisma [simp]: "snd (catch_prisma codes msg r) = snd r"
  by (auto simp: catch_prisma_def split: prod.split sum.split api_error.split)

text \<open>Returning a value of the state leaves the state alone.\<close>

lemma snd_and_then_return [simp]: "snd (and_then r (\<lambda>a t. (Inr (h a t), t))) = snd r"
  by (cases r; cases "fst r") auto

text \<open>
  What the operations of a service keep, as a relation between the state before and after.
  The interface is the relation; its laws, reflexivity and transitivity, make it follow the
  sequencing of steps and the roll-back of transactions.
\<close>

locale evolution =
  fixes R :: "'s \<Rightarrow> 's \<Rightarrow> bool"
  assumes evolution_refl: "R s s"
    and evolution_trans: "R a b \<Longrightarrow> R b c \<Longrightarrow> R a c"
begin

lemma and_thenI:
  "R s (snd r) \<Longrightarrow> (\<And>a t. r = (Inr a, t) \<Longrightarrow> R t (snd (f a t))) \<Longrightarrow> R s (snd (and_then r f))"
  by (cases r; cases "fst r") (auto intro: evolution_trans)

lemma transactionI: "(\<And>a t. r = (Inr a, t) \<Longrightarrow> R s t) \<Longrightarrow> R s (snd (transaction s r))"
  by (cases r; cases "fst r") (auto intro: evolution_refl)

lemma transaction_stepI: "R s (snd r) \<Longrightarrow> R s (snd (transaction s r))"
  by (rule transactionI) simp

lemma error_unchanged: "R s (snd (Inl e, s))"
  by (simp add: evolution_refl)

text \<open>The guards of a handler: an early exit leaves the state alone.\<close>

lemma guard_sum:
  "(\<And>x. r = Inr x \<Longrightarrow> R s (snd (f x))) \<Longrightarrow> R s (snd (case r of Inl e \<Rightarrow> (Inl e, s) | Inr x \<Rightarrow> f x))"
  by (cases r) (auto intro: evolution_refl)

lemma guard_option:
  "(\<And>x. r = Some x \<Longrightarrow> R s (snd (f x))) \<Longrightarrow> R s (snd (case r of None \<Rightarrow> (Inl e, s) | Some x \<Rightarrow> f x))"
  by (cases r) (auto intro: evolution_refl)

lemma guard_if: "(\<not> b \<Longrightarrow> R s (snd y)) \<Longrightarrow> R s (snd (if b then (Inl e, s) else y))"
  by (auto intro: evolution_refl)

lemma guard_pair: "(\<And>a b. p = (a, b) \<Longrightarrow> R s (snd (f a b))) \<Longrightarrow> R s (snd (case p of (a, b) \<Rightarrow> f a b))"
  by (cases p) simp

lemmas guards = guard_sum guard_option guard_if guard_pair

text \<open>A step whose error is cleaned up after.\<close>

lemma resp_cases:
  assumes "R s (snd r)" "\<And>e t. R s t \<Longrightarrow> r = (Inl e, t) \<Longrightarrow> R s (snd (f e t))" "\<And>a t. R s t \<Longrightarrow> r = (Inr a, t) \<Longrightarrow> R s (snd (g a t))"
  shows "R s (snd (case r of (Inl e, t) \<Rightarrow> f e t | (Inr a, t) \<Rightarrow> g a t))"
  using assms by (cases r; cases "fst r") auto

text \<open>The transaction around an optimistic write, with and without reading the row back.\<close>

lemma write_tx:
  assumes "R s (snd r)" "\<And>s1. R s s1 \<Longrightarrow> R s (g s1)"
  shows "R s (snd (transaction s (case r of (count, s1) \<Rightarrow> if count \<noteq> n then (Inl e, s1) else (Inr a, g s1))))"
  using assms by (cases r) (auto intro: evolution_refl)

lemma write_body_tx:
  assumes "R s (snd r)" "\<And>s1. R s s1 \<Longrightarrow> r = (n, s1) \<Longrightarrow> R s (snd (body s1))"
  shows "R s (snd (transaction s (case r of (count, s1) \<Rightarrow> if count \<noteq> n then (Inl e, s1) else body s1)))"
  using assms by (cases r) (auto intro: evolution_refl transaction_stepI)

text \<open>A conditional write whose count of rows decides whether the handler goes on.\<close>

lemma counted_write:
  "R s (snd p) \<Longrightarrow> (\<And>t. R s t \<Longrightarrow> R s (snd (g t)))
     \<Longrightarrow> R s (snd (case p of (n, t) \<Rightarrow> if n \<noteq> 1 then (Inl e, t) else g t))"
  by (cases p) auto

lemma later_option:
  "R s s1 \<Longrightarrow> (\<And>x. r = Some x \<Longrightarrow> R s (snd (f x)))
     \<Longrightarrow> R s (snd (case r of None \<Rightarrow> (Inl e, s1) | Some x \<Rightarrow> f x))"
  by (cases r) auto

lemma write_read_tx:
  assumes "R s (snd r)" "\<And>s1 x. R s s1 \<Longrightarrow> R s (g s1 x)"
  shows "R s (snd (transaction s (case r of (count, s1) \<Rightarrow> if count \<noteq> n then (Inl e, s1) else
     (case h s1 of None \<Rightarrow> (Inl e', s1) | Some x \<Rightarrow> (Inr (k s1 x), g s1 x)))))"
  using assms by (cases r) (auto intro: evolution_refl split: option.split)

end

subsection \<open>Strings\<close>

text \<open>\<open>String.prototype.trim\<close> on strings of Latin-1 code units: JavaScript's white space and
  line terminators in that range are tab to carriage return, space and no-break space.\<close>

definition js_space :: "char \<Rightarrow> bool" where
  "js_space c \<longleftrightarrow> (let n = (of_char c :: nat) in (9 \<le> n \<and> n \<le> 13) \<or> n = 32 \<or> n = 160)"

definition js_trim :: "string \<Rightarrow> string" where
  "js_trim cs = rev (dropWhile js_space (rev (dropWhile js_space cs)))"

text \<open>\<open>value?.trim() || null\<close>.\<close>

definition trim_or_null :: "string option \<Rightarrow> string option" where
  "trim_or_null v = (case v of None \<Rightarrow> None
     | Some t \<Rightarrow> (if js_trim t = [] then None else Some (js_trim t)))"

text \<open>\<open>String.prototype.toLowerCase\<close> on Latin-1 code units.\<close>

definition js_lower :: "string \<Rightarrow> string" where
  "js_lower = map (\<lambda>c. let n = (of_char c :: nat) in
     if (65 \<le> n \<and> n \<le> 90) \<or> (192 \<le> n \<and> n \<le> 222 \<and> n \<noteq> 215) then char_of (n + 32) else c)"

text \<open>\<open>contains\<close> of a Prisma filter: the text occurs somewhere.\<close>

fun occurs_in :: "string \<Rightarrow> string \<Rightarrow> bool" where
  "occurs_in p [] = (p = [])"
| "occurs_in p (c # cs) = (take (length p) (c # cs) = p \<or> occurs_in p cs)"

text \<open>\<open>value || null\<close> on an optional string: the empty string is falsy.\<close>

definition or_null :: "string option \<Rightarrow> string option" where
  "or_null v = (case v of None \<Rightarrow> None | Some t \<Rightarrow> (if t = [] then None else Some t))"

text \<open>\<open>data\<close> of an update: \<open>undefined\<close> keeps the column.\<close>

definition keep :: "'a option \<Rightarrow> 'a \<Rightarrow> 'a" where
  "keep v old = (case v of None \<Rightarrow> old | Some x \<Rightarrow> x)"

definition keep_text :: "string option option \<Rightarrow> string option \<Rightarrow> string option" where
  "keep_text v old = (case v of None \<Rightarrow> old | Some x \<Rightarrow> or_null x)"

lemma trim_or_null_nonempty: "trim_or_null v = Some t \<Longrightarrow> t \<noteq> []"
  by (auto simp: trim_or_null_def split: option.splits if_splits)

subsection \<open>Prisma operations on a table\<close>

abbreviation find_first :: "('r \<Rightarrow> bool) \<Rightarrow> 'r list \<Rightarrow> 'r option" where
  "find_first \<equiv> List.find"

definition update_many :: "('r \<Rightarrow> bool) \<Rightarrow> ('r \<Rightarrow> 'r) \<Rightarrow> 'r list \<Rightarrow> nat \<times> 'r list" where
  "update_many P f rs = (length (filter P rs), map (\<lambda>r. if P r then f r else r) rs)"

definition delete_many :: "('r \<Rightarrow> bool) \<Rightarrow> 'r list \<Rightarrow> nat \<times> 'r list" where
  "delete_many P rs = (length (filter P rs), filter (\<lambda>r. \<not> P r) rs)"

text \<open>\<open>skip\<close> and \<open>take\<close> of a page, and the ceiling division of \<open>paginationMeta\<close>.\<close>

definition page_of :: "nat \<Rightarrow> nat \<Rightarrow> 'r list \<Rightarrow> 'r list" where
  "page_of page limit rs = take limit (drop ((page - 1) * limit) rs)"

text \<open>\<open>findFirst\<close> with \<open>orderBy\<close>: the first match in the given order.\<close>

definition find_first_by :: "('r \<Rightarrow> 'k::linorder) \<Rightarrow> ('r \<Rightarrow> bool) \<Rightarrow> 'r list \<Rightarrow> 'r option" where
  "find_first_by k P rs = (case sort_key k (filter P rs) of [] \<Rightarrow> None | r # _ \<Rightarrow> Some r)"

lemma find_first_by_SomeD: "find_first_by k P rs = Some r \<Longrightarrow> r \<in> set rs \<and> P r"
proof -
  assume "find_first_by k P rs = Some r"
  then obtain ys where "sort_key k (filter P rs) = r # ys"
    by (auto simp: find_first_by_def split: list.splits)
  moreover have "set (sort_key k (filter P rs)) = set (filter P rs)" by simp
  ultimately have "r \<in> set (filter P rs)" by (metis list.set_intros(1))
  then show ?thesis by simp
qed

lemma find_first_by_NoneD: "find_first_by k P rs = None \<Longrightarrow> r \<in> set rs \<Longrightarrow> \<not> P r"
proof -
  assume "find_first_by k P rs = None" and r: "r \<in> set rs"
  then have "sort_key k (filter P rs) = []"
    by (simp add: find_first_by_def split: list.splits)
  then have "set (filter P rs) = {}" by (metis set_empty set_sort)
  then show ?thesis using r by auto
qed

lemma find_first_by_least:
  assumes "find_first_by k P rs = Some r" "x \<in> set rs" "P x"
  shows "k r \<le> k x"
proof -
  obtain ys where ys: "sort_key k (filter P rs) = r # ys"
    using assms(1) by (auto simp: find_first_by_def split: list.splits)
  have "x \<in> set (sort_key k (filter P rs))" using assms by simp
  moreover have "sorted (map k (sort_key k (filter P rs)))" by simp
  ultimately show ?thesis using ys by auto
qed

lemma map_if_written: "x \<in> set xs \<Longrightarrow> P x \<Longrightarrow> f x \<in> set (map (\<lambda>r. if P r then f r else r) xs)"
  unfolding set_map by (rule rev_image_eqI) (assumption, auto)

lemma map_if_kept: "x \<in> set xs \<Longrightarrow> \<not> P x \<Longrightarrow> x \<in> set (map (\<lambda>r. if P r then f r else r) xs)"
  unfolding set_map by (rule rev_image_eqI) (assumption, auto)

lemma all_mapped: "(\<forall>x \<in> set (map f xs). Q x) \<longleftrightarrow> (\<forall>x \<in> set xs. Q (f x))"
  by (simp only: set_map ball_simps)

lemma update_many_simps [simp]:
  "fst (update_many P f rs) = length (filter P rs)"
  "snd (update_many P f rs) = map (\<lambda>r. if P r then f r else r) rs"
  by (simp_all add: update_many_def)

lemma delete_many_simps [simp]:
  "fst (delete_many P rs) = length (filter P rs)"
  "snd (delete_many P rs) = filter (\<lambda>r. \<not> P r) rs"
  by (simp_all add: delete_many_def)

lemma find_SomeD: "List.find P xs = Some x \<Longrightarrow> P x \<and> x \<in> set xs"
  by (auto simp: find_Some_iff)

lemma find_NoneD: "List.find P xs = None \<Longrightarrow> x \<in> set xs \<Longrightarrow> \<not> P x"
  by (auto simp: find_None_iff)

lemma find_cong_pred: "(\<And>x. x \<in> set xs \<Longrightarrow> P x = Q x) \<Longrightarrow> List.find P xs = List.find Q xs"
  by (induction xs) auto

lemma find_append: "List.find P (xs @ ys) =
    (case List.find P xs of Some x \<Rightarrow> Some x | None \<Rightarrow> List.find P ys)"
  by (induction xs) auto

lemma find_map_update:
  "(\<And>x. P x \<Longrightarrow> P (f x)) \<Longrightarrow>
     List.find P (map (\<lambda>x. if P x then f x else x) xs) = map_option f (List.find P xs)"
  by (induction xs) auto

text \<open>With distinct keys a row found by key is the only one with that key.\<close>

lemma distinct_key_eq:
  assumes "distinct (map k xs)" "x \<in> set xs" "y \<in> set xs" "k x = k y"
  shows "x = y"
  using assms by (metis distinct_map inj_onD)

lemma distinct_key_count:
  assumes "distinct (map k xs)" and "\<And>x. P x \<Longrightarrow> k x = c"
  shows "length (filter P xs) \<le> 1"
  using assms(1)
proof (induction xs)
  case (Cons x xs)
  then have IH: "length (filter P xs) \<le> 1" by simp
  show ?case
  proof (cases "P x")
    case True
    then have "filter P xs = []"
      using Cons.prems assms(2) by (force simp: filter_empty_conv)
    then show ?thesis by simp
  qed (use IH in simp)
qed simp

lemma distinct_key_count_1:
  assumes "distinct (map k xs)" and "\<And>x. P x \<Longrightarrow> k x = c" and "x \<in> set xs" and "P x"
  shows "length (filter P xs) = 1"
proof -
  have "filter P xs \<noteq> []" using assms(3,4) by (auto simp: filter_empty_conv)
  moreover have "length (filter P xs) \<le> 1"
    by (rule distinct_key_count [OF assms(1)]) (rule assms(2))
  ultimately show ?thesis by (cases "filter P xs") auto
qed

lemma find_unique_key:
  assumes "distinct (map k xs)" and "x \<in> set xs" and "k x = c" and "P x"
    and "\<And>y. P y \<Longrightarrow> k y = c"
  shows "List.find P xs = Some x"
proof (cases "List.find P xs")
  case None
  then show ?thesis using assms(2,4) by (auto dest: find_NoneD)
next
  case (Some y)
  then have "P y" "y \<in> set xs" by (auto dest: find_SomeD)
  with assms have "y = x" by (metis distinct_key_eq)
  with Some show ?thesis by simp
qed

lemma length_filter_pos_iff: "0 < length (filter P xs) \<longleftrightarrow> (\<exists>x \<in> set xs. P x)"
  by (auto simp: filter_empty_conv)

subsection \<open>Rows that stay, possibly changed\<close>

text \<open>No row of the table is removed, each row is related to the one it became, and new rows follow.\<close>

definition rows_kept :: "('r \<Rightarrow> 'r \<Rightarrow> bool) \<Rightarrow> 'r list \<Rightarrow> 'r list \<Rightarrow> bool" where
  "rows_kept same rs rs' \<longleftrightarrow> (\<exists>old new. rs' = old @ new \<and> list_all2 same rs old)"

lemma rows_kept_refl: "(\<And>r. same r r) \<Longrightarrow> rows_kept same rs rs"
  unfolding rows_kept_def by (intro exI [of _ rs] exI [of _ "[]"]) (simp add: list_all2_refl)

lemma rows_kept_append: "(\<And>r. same r r) \<Longrightarrow> rows_kept same rs (rs @ new)"
  unfolding rows_kept_def by (intro exI [of _ rs] exI [of _ new]) (simp add: list_all2_refl)

lemma rows_kept_map: "(\<And>r. r \<in> set rs \<Longrightarrow> same r (f r)) \<Longrightarrow> rows_kept same rs (map f rs)"
  unfolding rows_kept_def
  by (intro exI [of _ "map f rs"] exI [of _ "[]"]) (auto simp: list_all2_conv_all_nth)

lemma rows_kept_trans:
  assumes tr: "\<And>a b c. same a b \<Longrightarrow> same b c \<Longrightarrow> same a c"
    and "rows_kept same rs rs'" "rows_kept same rs' rs''"
  shows "rows_kept same rs rs''"
proof -
  obtain f b f' b' where *: "rs' = f @ b" "list_all2 same rs f" "rs'' = f' @ b'" "list_all2 same rs' f'"
    using assms(2,3) unfolding rows_kept_def by blast
  then obtain g h where "f' = g @ h" "list_all2 same f g"
    by (auto simp: list_all2_append1)
  with * show ?thesis unfolding rows_kept_def
    by (intro exI [of _ g] exI [of _ "h @ b'"]) (auto intro: list_all2_trans [OF tr])
qed

text \<open>Transitivity when the relation depends on the state, for the rows there were at first.\<close>

lemma rows_kept_compose:
  assumes tr: "\<And>a b c. a \<in> set rs \<Longrightarrow> R a b \<Longrightarrow> S b c \<Longrightarrow> T a c"
    and "rows_kept R rs rs'" "rows_kept S rs' rs''"
  shows "rows_kept T rs rs''"
proof -
  obtain f b f' b' where *: "rs' = f @ b" "list_all2 R rs f" "rs'' = f' @ b'" "list_all2 S rs' f'"
    using assms(2,3) unfolding rows_kept_def by blast
  then obtain g h where gh: "f' = g @ h" "list_all2 S f g"
    by (auto simp: list_all2_append1)
  have "list_all2 T rs g"
    using *(2) gh(2) tr by (auto simp: list_all2_conv_all_nth)
  with * gh(1) show ?thesis unfolding rows_kept_def
    by (intro exI [of _ g] exI [of _ "h @ b'"]) auto
qed

lemma rows_kept_rowD:
  assumes "rows_kept same rs rs'" "r \<in> set rs"
  shows "\<exists>r' \<in> set rs'. same r r'"
proof -
  obtain old new where *: "rs' = old @ new" "list_all2 same rs old"
    using assms(1) unfolding rows_kept_def by blast
  obtain i where "i < length rs" "rs ! i = r" using assms(2) by (auto simp: in_set_conv_nth)
  then have "same r (old ! i)" "old ! i \<in> set old"
    using *(2) by (auto simp: list_all2_conv_all_nth)
  then show ?thesis using *(1) by auto
qed

subsection \<open>Optimistic concurrency\<close>

text \<open>
  Most services write a row with
  \<open>updateMany({ where: { id, version: expectedVersion, ... }, data: { ..., version: { increment: 1 } } })\<close>
  and treat a count other than one as a conflict.  The interface is the row's key, its
  version and the write; the laws are what every such write of the code keeps.
\<close>

locale versioned_rows =
  fixes key :: "'r \<Rightarrow> 'k" and ver :: "'r \<Rightarrow> int" and upd :: "'d \<Rightarrow> 'r \<Rightarrow> 'r"
  assumes key_upd: "key (upd d r) = key r"
    and ver_upd: "ver (upd d r) = ver r + 1"
begin

lemma keys_kept: "map key (snd (update_many P (upd d) rs)) = map key rs"
  by (auto simp: key_upd)

lemma count_le_1:
  "distinct (map key rs) \<Longrightarrow> fst (update_many (\<lambda>r. key r = k \<and> Q r) f rs) \<le> 1"
  using distinct_key_count [where k = key and c = k and P = "\<lambda>r. key r = k \<and> Q r"] by simp

lemma others_untouched:
  "r \<in> set rs \<Longrightarrow> key r \<noteq> k \<Longrightarrow>
     r \<in> set (snd (update_many (\<lambda>r. key r = k \<and> Q r) (upd d) rs))"
  by (force simp: image_iff)

lemma written_row:
  assumes "distinct (map key rs)" "r \<in> set rs" "key r = k" "Q r"
  shows "List.find (\<lambda>r. key r = k) (snd (update_many (\<lambda>r. key r = k \<and> Q r) (upd d) rs))
     = Some (upd d r)"
proof (rule find_unique_key [where k = key and c = k])
  show "distinct (map key (snd (update_many (\<lambda>r. key r = k \<and> Q r) (upd d) rs)))"
    using assms(1) by (simp only: keys_kept)
  show "upd d r \<in> set (snd (update_many (\<lambda>r. key r = k \<and> Q r) (upd d) rs))"
    using assms by force
qed (use assms in \<open>auto simp: key_upd\<close>)

text \<open>Two writers that read the same version cannot both succeed.\<close>

lemma no_lost_update:
  assumes "distinct (map key rs)"
    and "fst (update_many (\<lambda>r. key r = k \<and> ver r = v \<and> Q r) (upd d) rs) = 1"
  shows "fst (update_many (\<lambda>r. key r = k \<and> ver r = v \<and> Q' r) (upd d')
           (snd (update_many (\<lambda>r. key r = k \<and> ver r = v \<and> Q r) (upd d) rs))) = 0"
proof -
  let ?P = "\<lambda>r. key r = k \<and> ver r = v \<and> Q r"
  obtain r where r: "r \<in> set rs" "?P r"
    using assms(2) length_filter_pos_iff [of ?P rs] by auto
  have "\<not> (key y = k \<and> ver y = v \<and> Q' y)"
    if y: "y \<in> set (snd (update_many ?P (upd d) rs))" for y
  proof
    assume ky: "key y = k \<and> ver y = v \<and> Q' y"
    obtain x where x: "x \<in> set rs" "y = (if ?P x then upd d x else x)" using y by auto
    show False
    proof (cases "?P x")
      case True
      then show False using x ky by (simp add: ver_upd)
    next
      case False
      then have "x = r" using x ky r distinct_key_eq [OF assms(1)] by auto
      then show False using False r by simp
    qed
  qed
  then show ?thesis by (simp add: filter_empty_conv)
qed

end

text \<open>\<open>...(expectedVersion === undefined ? {} : { version: expectedVersion })\<close> in a \<open>where\<close> clause,
  and the error for a write that found no row.\<close>

definition version_is :: "int option \<Rightarrow> int \<Rightarrow> bool" where
  "version_is expected v \<longleftrightarrow> (case expected of None \<Rightarrow> True | Some n \<Rightarrow> v = n)"

definition write_error :: "int option \<Rightarrow> api_error \<Rightarrow> api_error" where
  "write_error expected e = (case expected of None \<Rightarrow> e | Some n \<Rightarrow> VersionConflict n)"

subsection \<open>Schedules advanced past an instant\<close>

text \<open>The loops \<open>while (next <= now) next = step(next)\<close> of the schedulers.  Nothing bounds
  them for an arbitrary step, so not returning is the value \<open>None\<close>.\<close>

partial_function (option) step_past :: "(int \<Rightarrow> int) \<Rightarrow> int \<Rightarrow> int \<Rightarrow> int option" where
  "step_past f now t = (if t \<le> now then step_past f now (f t) else Some t)"

locale schedule =
  fixes step :: "timestamp \<Rightarrow> timestamp"
  assumes step_increases: "t < step t"
begin

lemma step_past_terminates: "\<exists>k r. step_past step now t = Some r \<and> r = (step ^^ k) t \<and> now < r"
proof (induction "nat (now - t + 1)" arbitrary: t rule: less_induct)
  case less
  show ?case
  proof (cases "t \<le> now")
    case True
    with step_increases [of t] have "nat (now - step t + 1) < nat (now - t + 1)" by linarith
    from less [OF this] obtain k r where
      *: "step_past step now (step t) = Some r" "r = (step ^^ k) (step t)" "now < r" by blast
    then have "step_past step now t = Some r" using True by (simp add: step_past.simps [of step now t])
    moreover have "r = (step ^^ Suc k) t" using * by (simp add: funpow_swap1)
    ultimately show ?thesis using *(3) by blast
  next
    case False
    then have "step_past step now t = Some t \<and> t = (step ^^ 0) t \<and> now < t"
      by (simp add: step_past.simps [of step now t])
    then show ?thesis by blast
  qed
qed

lemma step_past_greater: "step_past step now t = Some r \<Longrightarrow> now < r"
  using step_past_terminates [of now t] by auto

lemma iterate_mono: "t \<le> (step ^^ k) t"
  by (induction k) (auto intro: order_trans less_imp_le step_increases)

lemma step_past_first:
  assumes "step_past step now t = Some r"
  shows "\<exists>k. r = (step ^^ k) t \<and> (\<forall>j < k. (step ^^ j) t \<le> now)"
  using assms
proof (induction "nat (now - t + 1)" arbitrary: t rule: less_induct)
  case less
  show ?case
  proof (cases "t \<le> now")
    case True
    with step_increases [of t] have "nat (now - step t + 1) < nat (now - t + 1)" by linarith
    moreover have "step_past step now (step t) = Some r"
      using True less.prems by (simp add: step_past.simps [of step now t])
    ultimately obtain k where
      k: "r = (step ^^ k) (step t)" "\<forall>j < k. (step ^^ j) (step t) \<le> now"
      using less.hyps by blast
    have "(step ^^ j) t \<le> now" if "j < Suc k" for j
      using that True k(2) by (cases j) (auto simp: funpow_swap1)
    with k(1) show ?thesis by (intro exI [of _ "Suc k"]) (simp add: funpow_swap1)
  next
    case False
    then show ?thesis using less.prems
      by (intro exI [of _ 0]) (simp add: step_past.simps [of step now t])
  qed
qed

end

end
