(* ===== verification/JsDate.thy ===== *)
theory JsDate
  imports Prelude
begin

text \<open>
  The part of JavaScript's \<open>Date\<close> that the schedulers, budgets and statistics use, as
  ECMA-262 defines it: days and years from a time value, \<open>getUTCDate\<close>, \<open>getUTCMonth\<close>,
  \<open>setUTCDate\<close>, \<open>setUTCMonth\<close> (with overflow into the next month), the time value of
  \<open>new Date(`${y}-${m}-${d}T00:00:00.000Z`)\<close> and the date part of \<open>toISOString\<close>.
  Time values are unbounded integers here; the range check of \<open>TimeClip\<close>, reached some
  270000 years from the epoch, is left out.

  The lemmas show that the decomposition of a day inverts its composition, and that
  adding a positive number of days or of months moves an instant forward, which is what
  makes the scheduling loops of the services end.
\<close>

definition ms_per_day :: int where "ms_per_day = 86400000"

definition day_of :: "timestamp \<Rightarrow> int" where "day_of t = t div ms_per_day"
definition time_within_day :: "timestamp \<Rightarrow> int" where "time_within_day t = t mod ms_per_day"

definition day_from_year :: "int \<Rightarrow> int" where
  "day_from_year y = 365 * (y - 1970) + (y - 1969) div 4 - (y - 1901) div 100 + (y - 1601) div 400"

definition leap_year :: "int \<Rightarrow> bool" where
  "leap_year y \<longleftrightarrow> y mod 4 = 0 \<and> (y mod 100 \<noteq> 0 \<or> y mod 400 = 0)"

text \<open>Days of the year before the first of month \<open>m\<close>, counted from 0 for January.\<close>

definition days_before :: "bool \<Rightarrow> int \<Rightarrow> int" where
  "days_before l m = (let k = (if l then 1 else 0) in
     if m = 0 then 0 else if m = 1 then 31 else if m = 2 then 59 + k else if m = 3 then 90 + k
     else if m = 4 then 120 + k else if m = 5 then 151 + k else if m = 6 then 181 + k
     else if m = 7 then 212 + k else if m = 8 then 243 + k else if m = 9 then 273 + k
     else if m = 10 then 304 + k else if m = 11 then 334 + k else 365 + k)"

text \<open>\<open>MakeDay\<close>: the month may lie outside 0 to 11 and the date outside the month.\<close>

definition make_day :: "int \<Rightarrow> int \<Rightarrow> int \<Rightarrow> int" where
  "make_day y m d = (let ym = y + m div 12; mn = m mod 12
     in day_from_year ym + days_before (leap_year ym) mn + d - 1)"

definition year_of_day :: "int \<Rightarrow> int" where
  "year_of_day d = (let y = 1970 + (400 * d) div 146097
     in if d < day_from_year y then y - 1 else if day_from_year (y + 1) \<le> d then y + 1 else y)"

definition month_of_yearday :: "bool \<Rightarrow> int \<Rightarrow> int" where
  "month_of_yearday l n = (if n < days_before l 1 then 0 else if n < days_before l 2 then 1
     else if n < days_before l 3 then 2 else if n < days_before l 4 then 3
     else if n < days_before l 5 then 4 else if n < days_before l 6 then 5
     else if n < days_before l 7 then 6 else if n < days_before l 8 then 7
     else if n < days_before l 9 then 8 else if n < days_before l 10 then 9
     else if n < days_before l 11 then 10 else 11)"

definition month_of_day :: "int \<Rightarrow> int" where
  "month_of_day d = month_of_yearday (leap_year (year_of_day d)) (d - day_from_year (year_of_day d))"

definition date_of_day :: "int \<Rightarrow> int" where
  "date_of_day d = d - day_from_year (year_of_day d)
     - days_before (leap_year (year_of_day d)) (month_of_day d) + 1"

definition getUTCFullYear :: "timestamp \<Rightarrow> int" where "getUTCFullYear t = year_of_day (day_of t)"
definition getUTCMonth :: "timestamp \<Rightarrow> int" where "getUTCMonth t = month_of_day (day_of t)"
definition getUTCDate :: "timestamp \<Rightarrow> int" where "getUTCDate t = date_of_day (day_of t)"

definition setUTCDate :: "timestamp \<Rightarrow> int \<Rightarrow> timestamp" where
  "setUTCDate t d = make_day (getUTCFullYear t) (getUTCMonth t) d * ms_per_day + time_within_day t"

definition setUTCMonth :: "timestamp \<Rightarrow> int \<Rightarrow> timestamp" where
  "setUTCMonth t m = make_day (getUTCFullYear t) m (getUTCDate t) * ms_per_day + time_within_day t"

text \<open>A calendar date \<open>YYYY-MM-DD\<close> as the three numbers it spells.  The ISO parser rejects a
  month outside 1 to 12 and a day outside 1 to 31 (an invalid date, \<open>NaN\<close>) and lets other
  days run over into the next month; the services detect the latter by comparing the
  formatted result with the input.\<close>

record ymd =
  ymd_year :: int
  ymd_month :: int
  ymd_day :: int

definition parse_date :: "ymd \<Rightarrow> timestamp option" where
  "parse_date v = (if 1 \<le> ymd_month v \<and> ymd_month v \<le> 12 \<and> 1 \<le> ymd_day v \<and> ymd_day v \<le> 31
     then Some (make_day (ymd_year v) (ymd_month v - 1) (ymd_day v) * ms_per_day) else None)"

definition iso_date :: "timestamp \<Rightarrow> ymd" where
  "iso_date t = \<lparr>ymd_year = getUTCFullYear t, ymd_month = getUTCMonth t + 1, ymd_day = getUTCDate t\<rparr>"

subsection \<open>Years\<close>

lemma div_bounds: "0 < (k::int) \<Longrightarrow> k * (x div k) \<le> x \<and> x < k * (x div k) + k"
  using pos_mod_sign [of k x] pos_mod_bound [of k x] mult_div_mod_eq [of k x] by linarith

lemma div_mod_add_one:
  assumes "0 < (k::int)"
  shows "(x + 1) div k = x div k + (if x mod k = k - 1 then 1 else 0)"
    and "(x + 1) mod k = (if x mod k = k - 1 then 0 else x mod k + 1)"
proof -
  have r: "0 \<le> x mod k" "x mod k < k" and x: "x = k * (x div k) + x mod k"
    using assms by simp_all
  have "(x + 1) div k = x div k + 1 \<and> (x + 1) mod k = 0" if "x mod k = k - 1"
  proof -
    have "x + 1 = k * (x div k + 1) + 0" using x that by (simp add: distrib_left)
    then show ?thesis using assms int_div_pos_eq int_mod_pos_eq by blast
  qed
  moreover have "(x + 1) div k = x div k \<and> (x + 1) mod k = x mod k + 1" if "x mod k \<noteq> k - 1"
  proof -
    have "x + 1 = k * (x div k) + (x mod k + 1)" "0 \<le> x mod k + 1" "x mod k + 1 < k"
      using x r that by linarith+
    then show ?thesis using int_div_pos_eq int_mod_pos_eq by blast
  qed
  ultimately show "(x + 1) div k = x div k + (if x mod k = k - 1 then 1 else 0)"
    "(x + 1) mod k = (if x mod k = k - 1 then 0 else x mod k + 1)" by auto
qed

lemma div_add_one:
  assumes "0 < (k::int)"
  shows "(x + 1) div k = x div k + (if (x + 1) mod k = 0 then 1 else 0)"
  using div_mod_add_one [OF assms, of x] pos_mod_sign [OF assms, of x] by auto

lemma day_from_year_bounds:
  "146097 * (y - 1970) - 506 \<le> 400 * day_from_year y
    \<and> 400 * day_from_year y \<le> 146097 * (y - 1970) + 589"
  using div_bounds [of 4 "y - 1969"] div_bounds [of 100 "y - 1901"] div_bounds [of 400 "y - 1601"]
  unfolding day_from_year_def by simp

lemma day_from_year_Suc:
  "day_from_year (y + 1) = day_from_year y + (if leap_year y then 366 else 365)"
proof -
  have m: "(y - 1968) mod 4 = y mod 4" "(y - 1900) mod 100 = y mod 100" "(y - 1600) mod 400 = y mod 400"
    unfolding mod_eq_dvd_iff by simp_all
  have 4: "(y - 1968) div 4 = (y - 1969) div 4 + (if y mod 4 = 0 then 1 else 0)"
    using div_add_one [of 4 "y - 1969"] by (simp add: m)
  have 100: "(y - 1900) div 100 = (y - 1901) div 100 + (if y mod 100 = 0 then 1 else 0)"
    using div_add_one [of 100 "y - 1901"] by (simp add: m)
  have 400: "(y - 1600) div 400 = (y - 1601) div 400 + (if y mod 400 = 0 then 1 else 0)"
    using div_add_one [of 400 "y - 1601"] by (simp add: m)
  have "(100::int) dvd y \<Longrightarrow> 4 dvd y" by (rule dvd_trans [of 4 100 y]) simp_all
  moreover have "(400::int) dvd y \<Longrightarrow> 100 dvd y" by (rule dvd_trans [of 100 400 y]) simp_all
  ultimately have d: "y mod 100 = 0 \<Longrightarrow> y mod 4 = 0" "y mod 400 = 0 \<Longrightarrow> y mod 100 = 0"
    by (simp_all add: dvd_eq_mod_eq_0)
  have e: "y + 1 - 1969 = y - 1968" "y + 1 - 1901 = y - 1900" "y + 1 - 1601 = y - 1600" by simp_all
  have sum: "365 * (y + 1 - 1970) + (a + i) - (b + j) + (c + k)
      = 365 * (y - 1970) + a - b + c + (365 + i - j + k)" for a b c i j k :: int by simp
  have total: "day_from_year (y + 1) = day_from_year y + (365 + (if y mod 4 = 0 then 1 else 0)
      - (if y mod 100 = 0 then 1 else 0) + (if y mod 400 = 0 then 1 else 0))"
    unfolding day_from_year_def e 4 100 400 by (rule sum)
  have pick: "x = z + (365 + (if p then 1 else 0) - (if q then 1 else 0) + (if r then 1 else 0)) \<Longrightarrow>
      (q \<Longrightarrow> p) \<Longrightarrow> (r \<Longrightarrow> q) \<Longrightarrow> x = z + (if p \<and> (\<not> q \<or> r) then 366 else 365)" for x z :: int and p q r
    by (cases p; cases q; cases r) simp_all
  show ?thesis unfolding leap_year_def by (rule pick [OF total d])
qed

lemma day_from_year_step: "day_from_year y + 365 \<le> day_from_year (y + 1)"
  by (simp add: day_from_year_Suc)

lemma year_of_day_bounds:
  "day_from_year (year_of_day d) \<le> d" "d < day_from_year (year_of_day d + 1)"
proof -
  define y where "y = 1970 + (400 * d) div 146097"
  have y: "146097 * (y - 1970) \<le> 400 * d" "400 * d < 146097 * (y - 1970) + 146097"
    using div_bounds [of 146097 "400 * d"] unfolding y_def by simp_all
  have lo: "day_from_year (y - 1) \<le> d"
    using day_from_year_bounds [of "y - 1", THEN conjunct2] y by simp
  have hi: "d < day_from_year (y + 1 + 1)"
    using day_from_year_bounds [of "y + 1 + 1", THEN conjunct1] y by simp
  have "year_of_day d = (if d < day_from_year y then y - 1
      else if day_from_year (y + 1) \<le> d then y + 1 else y)"
    by (simp add: year_of_day_def y_def Let_def)
  then show "day_from_year (year_of_day d) \<le> d" "d < day_from_year (year_of_day d + 1)"
    using lo hi by (auto split: if_splits)
qed

lemma day_from_year_mono: "a \<le> b \<Longrightarrow> day_from_year a \<le> day_from_year b"
proof (induction "nat (b - a)" arbitrary: b)
  case (Suc n)
  then have "day_from_year a \<le> day_from_year (b - 1)" by simp
  with day_from_year_step [of "b - 1"] show ?case by simp
qed simp

lemma year_of_day_unique:
  assumes "day_from_year y \<le> d" "d < day_from_year (y + 1)"
  shows "year_of_day d = y"
proof (rule ccontr)
  assume "year_of_day d \<noteq> y"
  then consider "year_of_day d + 1 \<le> y" | "y + 1 \<le> year_of_day d" by linarith
  then show False
  proof cases
    case 1
    with day_from_year_mono have "day_from_year (year_of_day d + 1) \<le> day_from_year y" by blast
    with year_of_day_bounds(2) [of d] assms show False by linarith
  next
    case 2
    with day_from_year_mono have "day_from_year (y + 1) \<le> day_from_year (year_of_day d)" by blast
    with year_of_day_bounds(1) [of d] assms show False by linarith
  qed
qed

subsection \<open>Months\<close>

lemma months_0_11:
  "0 \<le> (m::int) \<Longrightarrow> m \<le> 11 \<Longrightarrow> m \<in> {0,1,2,3,4,5,6,7,8,9,10,11}"
  by simp presburger

lemma days_before_step:
  "0 \<le> m \<Longrightarrow> m \<le> 11 \<Longrightarrow> days_before l m + 28 \<le> days_before l (m + 1)
     \<and> days_before l (m + 1) \<le> days_before l m + 31"
  by (drule (1) months_0_11) (auto simp: days_before_def)

lemma days_before_12: "days_before l 12 = (if l then 366 else 365)" "days_before l 0 = 0"
  by (simp_all add: days_before_def)

lemma month_of_yearday_bounds:
  assumes "0 \<le> n" "n < (if l then 366 else 365)"
  shows "0 \<le> month_of_yearday l n \<and> month_of_yearday l n \<le> 11
    \<and> days_before l (month_of_yearday l n) \<le> n \<and> n < days_before l (month_of_yearday l n + 1)"
  using assms unfolding month_of_yearday_def days_before_def Let_def by (simp split: if_splits)

text \<open>The first day of the month with absolute number \<open>n\<close> (twelve to the year).\<close>

definition month_start :: "int \<Rightarrow> int" where
  "month_start n = day_from_year (n div 12) + days_before (leap_year (n div 12)) (n mod 12)"

lemma make_day_month_start: "make_day y m d = month_start (12 * y + m) + d - 1"
  by (simp add: make_day_def month_start_def Let_def)

lemma month_start_step: "month_start n + 28 \<le> month_start (n + 1) \<and> month_start (n + 1) \<le> month_start n + 31"
proof -
  have m: "0 \<le> n mod 12" "n mod 12 \<le> 11" by simp_all
  show ?thesis
  proof (cases "n mod 12 = 11")
    case True
    then show ?thesis using days_before_step [of 11 "leap_year (n div 12)"] div_mod_add_one [of 12 n]
      by (simp add: month_start_def day_from_year_Suc days_before_12)
  next
    case False
    then show ?thesis using days_before_step [OF m, of "leap_year (n div 12)"] div_mod_add_one [of 12 n]
      by (simp add: month_start_def)
  qed
qed

lemma month_start_mono: "a < b \<Longrightarrow> month_start a + 28 \<le> month_start b"
proof (induction "nat (b - a)" arbitrary: b)
  case (Suc k)
  show ?case
  proof (cases "a < b - 1")
    case True
    with Suc have "month_start a + 28 \<le> month_start (b - 1)" by simp
    with month_start_step [of "b - 1"] show ?thesis by simp
  next
    case False
    with Suc.prems have "b = a + 1" by simp
    with month_start_step [of a] show ?thesis by simp
  qed
qed simp

lemma day_decomposition:
  "0 \<le> month_of_day d" "month_of_day d \<le> 11" "1 \<le> date_of_day d" "date_of_day d \<le> 31"
  "make_day (year_of_day d) (month_of_day d) (date_of_day d) = d"
proof -
  let ?y = "year_of_day d" and ?l = "leap_year (year_of_day d)"
  have n: "0 \<le> d - day_from_year ?y" "d - day_from_year ?y < (if ?l then 366 else 365)"
    using year_of_day_bounds [of d] by (auto simp: day_from_year_Suc split: if_splits)
  note m = month_of_yearday_bounds [OF n, folded month_of_day_def]
  then have "days_before ?l (month_of_day d + 1) \<le> days_before ?l (month_of_day d) + 31"
    using days_before_step by blast
  with m show "0 \<le> month_of_day d" "month_of_day d \<le> 11" "1 \<le> date_of_day d" "date_of_day d \<le> 31"
    by (auto simp: date_of_day_def)
  with m show "make_day ?y (month_of_day d) (date_of_day d) = d"
    by (simp add: make_day_def date_of_day_def Let_def div_pos_pos_trivial mod_pos_pos_trivial)
qed

text \<open>A valid civil date: the day exists in its month.\<close>

definition valid_ymd :: "ymd \<Rightarrow> bool" where
  "valid_ymd v \<longleftrightarrow> 1 \<le> ymd_month v \<and> ymd_month v \<le> 12 \<and> 1 \<le> ymd_day v \<and>
     month_start (12 * ymd_year v + ymd_month v - 1) + ymd_day v
       \<le> month_start (12 * ymd_year v + ymd_month v)"

definition month_number :: "int \<Rightarrow> int" where
  "month_number d = 12 * year_of_day d + month_of_day d"

lemma month_number_parts:
  "month_number d div 12 = year_of_day d" "month_number d mod 12 = month_of_day d"
  using day_decomposition(1,2) [of d] by (simp_all add: month_number_def)

lemma day_month_start: "d = month_start (month_number d) + date_of_day d - 1"
  using day_decomposition(5) [of d] by (simp add: make_day_month_start month_number_def)

lemma month_number_bounds: "month_start (month_number d) \<le> d" "d < month_start (month_number d + 1)"
proof -
  show "month_start (month_number d) \<le> d"
    using day_month_start [of d] day_decomposition(3) [of d] by linarith
  let ?y = "year_of_day d" and ?l = "leap_year (year_of_day d)"
  have n: "0 \<le> d - day_from_year ?y" "d - day_from_year ?y < (if ?l then 366 else 365)"
    using year_of_day_bounds [of d] by (auto simp: day_from_year_Suc split: if_splits)
  note m = month_of_yearday_bounds [OF n, folded month_of_day_def]
  show "d < month_start (month_number d + 1)"
  proof (cases "month_of_day d = 11")
    case True
    have "(month_number d + 1) div 12 = ?y + 1" "(month_number d + 1) mod 12 = 0"
      using div_mod_add_one [of 12 "month_number d"] True by (simp_all add: month_number_parts)
    then show ?thesis using year_of_day_bounds(2) [of d] by (simp add: month_start_def days_before_12)
  next
    case False
    have "(month_number d + 1) div 12 = ?y" "(month_number d + 1) mod 12 = month_of_day d + 1"
      using div_mod_add_one [of 12 "month_number d"] False by (simp_all add: month_number_parts)
    then show ?thesis using m by (simp add: month_start_def)
  qed
qed

lemma month_number_unique:
  assumes "month_start n \<le> d" "d < month_start (n + 1)"
  shows "month_number d = n"
proof (rule ccontr)
  assume "month_number d \<noteq> n"
  then consider "month_number d < n" | "n < month_number d" by linarith
  then show False
  proof cases
    case 1
    then have "month_number d + 1 = n \<or> month_start (month_number d + 1) + 28 \<le> month_start n"
      using month_start_mono [of "month_number d + 1" n] by linarith
    then show False using month_number_bounds(2) [of d] assms by auto
  next
    case 2
    then have "n + 1 = month_number d \<or> month_start (n + 1) + 28 \<le> month_start (month_number d)"
      using month_start_mono [of "n + 1" "month_number d"] by linarith
    then show False using month_number_bounds(1) [of d] assms by auto
  qed
qed

lemma make_day_inverse:
  assumes "valid_ymd v"
  defines "d \<equiv> make_day (ymd_year v) (ymd_month v - 1) (ymd_day v)"
  shows "year_of_day d = ymd_year v \<and> month_of_day d = ymd_month v - 1 \<and> date_of_day d = ymd_day v"
proof -
  let ?n = "12 * ymd_year v + (ymd_month v - 1)"
  have v: "1 \<le> ymd_month v" "ymd_month v \<le> 12" "1 \<le> ymd_day v"
    "month_start ?n + ymd_day v \<le> month_start (?n + 1)"
    using assms(1) by (simp_all add: valid_ymd_def algebra_simps)
  have d: "d = month_start ?n + ymd_day v - 1" unfolding d_def by (simp only: make_day_month_start)
  then have n: "month_number d = ?n" using v by (intro month_number_unique) simp_all
  have "year_of_day d = ?n div 12" "month_of_day d = ?n mod 12"
    using month_number_parts [of d] n by simp_all
  moreover have "?n div 12 = ymd_year v" "?n mod 12 = ymd_month v - 1" using v by simp_all
  moreover have "date_of_day d = ymd_day v" using day_month_start [of d] d n by simp
  ultimately show ?thesis by simp
qed

subsection \<open>Formatting and parsing\<close>

lemma day_of_midnight [simp]: "day_of (d * ms_per_day) = d" "time_within_day (d * ms_per_day) = 0"
  by (simp_all add: day_of_def time_within_day_def ms_per_day_def)

lemma day_time_split: "day_of t * ms_per_day + time_within_day t = t"
  by (simp add: day_of_def time_within_day_def)

lemma valid_ymd_iso_date: "valid_ymd (iso_date t)"
proof -
  let ?d = "day_of t"
  have "month_start (month_number ?d) + date_of_day ?d \<le> month_start (month_number ?d + 1)"
    using month_number_bounds(2) [of ?d] day_month_start [of ?d] by linarith
  then show ?thesis using day_decomposition [of ?d]
    by (simp add: valid_ymd_def iso_date_def getUTCFullYear_def getUTCMonth_def getUTCDate_def
        month_number_def algebra_simps)
qed

lemma valid_ymd_day_31: "valid_ymd v \<Longrightarrow> ymd_day v \<le> 31"
  using month_start_step [of "12 * ymd_year v + ymd_month v - 1"]
  by (simp add: valid_ymd_def)

text \<open>The services accept a date when formatting the parsed instant gives the input back:
  exactly the dates that exist.\<close>

lemma parse_iso_date_roundtrip:
  "(case parse_date v of None \<Rightarrow> False | Some t \<Rightarrow> iso_date t = v) \<longleftrightarrow> valid_ymd v"
proof
  assume v: "valid_ymd v"
  with valid_ymd_day_31 have "parse_date v =
      Some (make_day (ymd_year v) (ymd_month v - 1) (ymd_day v) * ms_per_day)"
    by (auto simp: parse_date_def valid_ymd_def)
  with make_day_inverse [OF v] show "case parse_date v of None \<Rightarrow> False | Some t \<Rightarrow> iso_date t = v"
    by (simp add: iso_date_def getUTCFullYear_def getUTCMonth_def getUTCDate_def)
next
  assume "case parse_date v of None \<Rightarrow> False | Some t \<Rightarrow> iso_date t = v"
  then obtain t where "iso_date t = v" by (auto split: option.splits)
  with valid_ymd_iso_date [of t] show "valid_ymd v" by simp
qed

subsection \<open>Moving forward\<close>

lemma setUTCDate_add:
  "setUTCDate t (getUTCDate t + k) = t + k * ms_per_day"
proof -
  have "make_day (getUTCFullYear t) (getUTCMonth t) (getUTCDate t + k) = day_of t + k"
    using day_decomposition(5) [of "day_of t"]
    by (simp add: make_day_month_start getUTCFullYear_def getUTCMonth_def getUTCDate_def)
  then show ?thesis using day_time_split [of t] by (simp add: setUTCDate_def distrib_right)
qed

lemma setUTCDate_increases: "0 < k \<Longrightarrow> t < setUTCDate t (getUTCDate t + k)"
  by (simp add: setUTCDate_add ms_per_day_def)

lemma setUTCMonth_increases:
  assumes "0 < k"
  shows "t < setUTCMonth t (getUTCMonth t + k)"
proof -
  let ?d = "day_of t"
  have "month_start (month_number ?d) + 28 \<le> month_start (month_number ?d + k)"
    using assms by (intro month_start_mono) simp
  then have "?d + 28 \<le> make_day (getUTCFullYear t) (getUTCMonth t + k) (getUTCDate t)"
    using day_month_start [of ?d]
    by (simp add: make_day_month_start getUTCFullYear_def getUTCMonth_def getUTCDate_def
        month_number_def add.assoc)
  then have "(?d + 28) * ms_per_day
      \<le> make_day (getUTCFullYear t) (getUTCMonth t + k) (getUTCDate t) * ms_per_day"
    by (intro mult_right_mono) (simp_all add: ms_per_day_def)
  then have "?d * ms_per_day + 28 * ms_per_day + time_within_day t \<le> setUTCMonth t (getUTCMonth t + k)"
    by (simp add: setUTCMonth_def distrib_right)
  then show ?thesis using day_time_split [of t] by (simp add: ms_per_day_def)
qed

end
