(* ===== verification/Core.thy ===== *)
theory Core
  imports JsDate
begin

text \<open>
  The tables that every service shares (\<open>prisma/schema.prisma\<close>: users, families, members,
  notification preferences, Telegram connections, push devices, audit events, inbox
  notifications and outbox events) and the three helpers every service calls:
  \<open>FamilyMembershipService\<close>, \<open>AuditService.record\<close> and \<open>paginationMeta\<close>; and the read policy
  of \<open>common/privacy/resource-visibility.policy.ts\<close>.

  The tables written as a side record of an operation (audit, notifications, outbox) form
  the nested record \<open>feed\<close>, so that the effect of auditing and notifying on the rest of the
  database is visible in one field.  The tables of a service extend the record \<open>core\<close>, and
  the shared operations are stated for every such extension.  \<open>randomUUID()\<close> and the default
  \<open>uuid()\<close> of the schema hand out the next number of a counter: identifiers that were not
  used before.
\<close>

subsection \<open>JSON payloads\<close>

text \<open>The text of a UUID and the ISO text of an instant are strings to \<open>typeof\<close>; the model keeps
  the value they denote.\<close>

datatype json =
    JNull
  | JBool bool
  | JNum int
  | JStr string
  | JUuid uuid
  | JInstant timestamp
  | JArr "json list"
  | JObj "(string \<times> json) list"

definition json_is_string :: "json \<Rightarrow> bool" where
  "json_is_string v = (case v of JStr _ \<Rightarrow> True | JUuid _ \<Rightarrow> True | JInstant _ \<Rightarrow> True | _ \<Rightarrow> False)"

text \<open>\<open>payload.field\<close>; an absent field is \<open>undefined\<close>.\<close>

definition json_field :: "(string \<times> json) list \<Rightarrow> string \<Rightarrow> json option" where
  "json_field ob k = map_of ob k"

definition field_is_string :: "(string \<times> json) list \<Rightarrow> string \<Rightarrow> bool" where
  "field_is_string ob k = (case json_field ob k of None \<Rightarrow> False | Some v \<Rightarrow> json_is_string v)"

definition field_is_object :: "(string \<times> json) list \<Rightarrow> string \<Rightarrow> bool" where
  "field_is_object ob k = (case json_field ob k of Some (JObj _) \<Rightarrow> True | _ \<Rightarrow> False)"

subsection \<open>Rows\<close>

datatype family_status = FamilyActive | FamilyArchived | FamilyDissolved
datatype member_role = PARTNER | CHILD

record user =
  user_id :: uuid
  user_firstName :: string
  user_lastName :: string
  user_email :: string
  user_isActive :: bool
  user_locale :: string
  user_timeZone :: string

record family =
  family_id :: uuid
  family_status :: family_status
  family_timeZone :: string
  family_locale :: string
  family_defaultCurrency :: string
  family_archivedAt :: "timestamp option"
  family_dissolvedAt :: "timestamp option"
  family_createdAt :: timestamp

record family_member =
  member_id :: uuid
  member_familyId :: uuid
  member_userId :: uuid
  member_role :: member_role
  member_joinedAt :: timestamp

record preference =
  pref_userId :: uuid
  pref_inAppEnabled :: bool
  pref_emailEnabled :: bool
  pref_telegramEnabled :: bool
  pref_quietHoursEnabled :: bool
  pref_quietHoursStart :: "string option"
  pref_quietHoursEnd :: "string option"

record telegram_connection =
  tg_userId :: uuid
  tg_telegramUserId :: string
  tg_chatId :: string
  tg_status :: string
  tg_revokedAt :: "timestamp option"

datatype device_platform = ANDROID | IOS

record push_device =
  device_id :: uuid
  device_userId :: uuid
  device_token :: string
  device_platform :: device_platform
  device_appVersion :: "string option"
  device_lastSeenAt :: timestamp
  device_disabledAt :: "timestamp option"

record audit_event =
  audit_id :: uuid
  audit_actorId :: "uuid option"
  audit_familyId :: "uuid option"
  audit_action :: string
  audit_resourceType :: string
  audit_resourceId :: "uuid option"
  audit_metadata :: json
  audit_createdAt :: timestamp

record notification =
  notif_id :: uuid
  notif_userId :: uuid
  notif_familyId :: "uuid option"
  notif_type :: string
  notif_title :: string
  notif_body :: "string option"
  notif_readAt :: "timestamp option"
  notif_createdAt :: timestamp

datatype outbox_status = PENDING | PROCESSING | DELIVERED | FAILED

record outbox_event =
  event_id :: uuid
  event_type :: string
  event_dedupeKey :: "uuid option"
  event_payload :: json
  event_status :: outbox_status
  event_attempts :: nat
  event_availableAt :: timestamp
  event_lockedAt :: "timestamp option"
  event_deliveredAt :: "timestamp option"
  event_lastError :: "string option"
  event_createdAt :: timestamp

record feed =
  feed_audits :: "audit_event list"
  feed_notifications :: "notification list"
  feed_outbox :: "outbox_event list"
  feed_nextId :: uuid

record core =
  core_users :: "user list"
  core_families :: "family list"
  core_members :: "family_member list"
  core_preferences :: "preference list"
  core_connections :: "telegram_connection list"
  core_devices :: "push_device list"
  core_feed :: feed
  core_nextId :: uuid

definition empty_feed :: feed where
  "empty_feed = \<lparr>feed_audits = [], feed_notifications = [], feed_outbox = [], feed_nextId = 0\<rparr>"

subsection \<open>The environment of a request\<close>

text \<open>What a handler reads from outside: the clock (every \<open>new Date()\<close> of one handler is the same
  instant in the model) and the time zone database behind \<open>Intl.DateTimeFormat\<close>, which throws
  a \<open>RangeError\<close> for an unknown zone.\<close>

record local_parts =
  lp_year :: int
  lp_month :: int
  lp_day :: int
  lp_hour :: int
  lp_minute :: int

record env =
  env_now :: timestamp
  env_localParts :: "timestamp \<Rightarrow> string \<Rightarrow> local_parts option"

subsection \<open>FamilyMembershipService\<close>

record family_context =
  ctx_familyId :: uuid
  ctx_memberId :: uuid
  ctx_role :: member_role
  ctx_timeZone :: string
  ctx_locale :: string
  ctx_defaultCurrency :: string

definition find_member :: "uuid \<Rightarrow> 'a core_scheme \<Rightarrow> family_member option" where
  "find_member userId s = find_first (\<lambda>m. member_userId m = userId) (core_members s)"

definition find_family :: "uuid \<Rightarrow> 'a core_scheme \<Rightarrow> family option" where
  "find_family familyId s = find_first (\<lambda>f. family_id f = familyId) (core_families s)"

definition find_user :: "uuid \<Rightarrow> 'a core_scheme \<Rightarrow> user option" where
  "find_user userId s = find_first (\<lambda>u. user_id u = userId) (core_users s)"

text \<open>The member's family exists by the foreign key; without it the query returns no member.\<close>

definition requireMembership :: "uuid \<Rightarrow> 'a core_scheme \<Rightarrow> api_error + family_context" where
  "requireMembership userId s = (case find_member userId s of
     None \<Rightarrow> Inl (Forbidden ''An active family membership is required'')
   | Some m \<Rightarrow> (case find_family (member_familyId m) s of
       None \<Rightarrow> Inl (Forbidden ''An active family membership is required'')
     | Some f \<Rightarrow> (if family_status f \<noteq> FamilyActive
         then Inl (Forbidden ''An active family membership is required'')
         else Inr \<lparr>ctx_familyId = member_familyId m, ctx_memberId = member_id m,
           ctx_role = member_role m, ctx_timeZone = family_timeZone f,
           ctx_locale = family_locale f, ctx_defaultCurrency = family_defaultCurrency f\<rparr>)))"

definition requirePartner :: "uuid \<Rightarrow> 'a core_scheme \<Rightarrow> api_error + family_context" where
  "requirePartner userId s = (case requireMembership userId s of
     Inl e \<Rightarrow> Inl e
   | Inr ctx \<Rightarrow> (if ctx_role ctx \<noteq> PARTNER then Inl (Forbidden ''A partner membership is required'')
       else Inr ctx))"

lemma requireMembership_Inr:
  "requireMembership userId s = Inr ctx \<Longrightarrow>
     \<exists>m f. m \<in> set (core_members s) \<and> member_userId m = userId \<and> find_member userId s = Some m
       \<and> member_familyId m = ctx_familyId ctx \<and> member_role m = ctx_role ctx
       \<and> find_family (ctx_familyId ctx) s = Some f \<and> family_status f = FamilyActive"
  by (fastforce simp: requireMembership_def find_member_def split: option.splits if_splits
      dest: find_SomeD)

lemma requirePartner_Inr:
  "requirePartner userId s = Inr ctx \<longleftrightarrow>
     requireMembership userId s = Inr ctx \<and> ctx_role ctx = PARTNER"
  by (auto simp: requirePartner_def split: sum.splits if_splits)

lemma requireMembership_cong:
  "core_members s = core_members t \<Longrightarrow> core_families s = core_families t \<Longrightarrow>
     requireMembership userId s = requireMembership userId t"
  by (simp add: requireMembership_def find_member_def find_family_def cong: option.case_cong)

subsection \<open>Feeds, identifiers and audit\<close>

definition fresh :: "'a core_scheme \<Rightarrow> uuid \<times> 'a core_scheme" where
  "fresh s = (core_nextId s, s\<lparr>core_nextId := core_nextId s + 1\<rparr>)"

definition on_feed :: "(feed \<Rightarrow> ('a, feed) resp) \<Rightarrow> 'b core_scheme \<Rightarrow> ('a, 'b core_scheme) resp" where
  "on_feed f s = (case f (core_feed s) of (r, d) \<Rightarrow> (r, s\<lparr>core_feed := d\<rparr>))"

lemma on_feed_fst [simp]: "fst (on_feed f s) = fst (f (core_feed s))"
  by (simp add: on_feed_def split: prod.split)

lemma on_feed_snd [simp]: "snd (on_feed f s) = s\<lparr>core_feed := snd (f (core_feed s))\<rparr>"
  by (simp add: on_feed_def split: prod.split)

lemma on_feed_eqD:
  "on_feed f s = (r, s') \<Longrightarrow> \<exists>d. f (core_feed s) = (r, d) \<and> s' = s\<lparr>core_feed := d\<rparr>"
  by (auto simp: on_feed_def split: prod.splits)

record audit_input =
  ain_actorId :: "uuid option"
  ain_familyId :: "uuid option"
  ain_action :: string
  ain_resourceType :: string
  ain_resourceId :: "uuid option"
  ain_metadata :: json

definition record_in_feed :: "env \<Rightarrow> audit_input \<Rightarrow> feed \<Rightarrow> feed" where
  "record_in_feed E i d = d\<lparr>feed_audits := feed_audits d @
       [\<lparr>audit_id = feed_nextId d, audit_actorId = ain_actorId i, audit_familyId = ain_familyId i,
         audit_action = ain_action i, audit_resourceType = ain_resourceType i,
         audit_resourceId = ain_resourceId i, audit_metadata = ain_metadata i,
         audit_createdAt = env_now E\<rparr>],
     feed_nextId := feed_nextId d + 1\<rparr>"

definition audit_record :: "env \<Rightarrow> audit_input \<Rightarrow> 'a core_scheme \<Rightarrow> 'a core_scheme" where
  "audit_record E i s = s\<lparr>core_feed := record_in_feed E i (core_feed s)\<rparr>"

text \<open>The shape of nearly every call: actor, family, action and resource.\<close>

definition audit_of :: "uuid \<Rightarrow> uuid \<Rightarrow> string \<Rightarrow> string \<Rightarrow> uuid \<Rightarrow> audit_input" where
  "audit_of actorId familyId action resourceType resourceId =
     \<lparr>ain_actorId = Some actorId, ain_familyId = Some familyId, ain_action = action,
      ain_resourceType = resourceType, ain_resourceId = Some resourceId, ain_metadata = JNull\<rparr>"

subsection \<open>Pagination\<close>

record page_query =
  pq_page :: nat
  pq_limit :: nat

record page_meta =
  pm_total :: nat
  pm_page :: nat
  pm_limit :: nat
  pm_totalPages :: nat

definition paginationMeta :: "nat \<Rightarrow> nat \<Rightarrow> nat \<Rightarrow> page_meta" where
  "paginationMeta n page limit = \<lparr>pm_total = n, pm_page = page, pm_limit = limit,
     pm_totalPages = (n + limit - 1) div limit\<rparr>"

text \<open>The pages 1 to \<open>totalPages\<close> of a listing are its rows, each once and in order.\<close>

lemma pages_cover:
  assumes "0 < limit"
  shows "concat (map (\<lambda>p. page_of p limit xs) [1..<Suc n]) = take (n * limit) xs"
proof (induction n)
  case (Suc n)
  have "[1..<Suc (Suc n)] = [1..<Suc n] @ [Suc n]" by simp
  then have "concat (map (\<lambda>p. page_of p limit xs) [1..<Suc (Suc n)])
      = take (n * limit) xs @ take limit (drop (n * limit) xs)"
    using Suc by (simp add: page_of_def del: upt_Suc)
  also have "\<dots> = take (n * limit + limit) xs" by (simp only: take_add)
  finally show ?case by (simp add: add.commute)
qed simp

lemma total_pages_enough:
  fixes n limit :: nat
  assumes "0 < limit" shows "n \<le> (n + limit - 1) div limit * limit"
proof -
  let ?a = "n + limit - 1"
  have "?a mod limit < limit" using assms by simp
  moreover have "?a = ?a div limit * limit + ?a mod limit" by simp
  ultimately show ?thesis using assms by linarith
qed

subsection \<open>Reading another member's resource\<close>

datatype resource_visibility = VisPrivate | VisPartner | VisFamily

record consent_snapshot =
  cs_grantedAt :: timestamp
  cs_expiresAt :: "timestamp option"
  cs_revokedAt :: "timestamp option"
  cs_scopes :: "string list"

record read_context =
  rc_actorId :: uuid
  rc_ownerId :: uuid
  rc_actorFamilyId :: "uuid option"
  rc_resourceFamilyId :: "uuid option"
  rc_visibility :: resource_visibility
  rc_requiredScope :: "string option"
  rc_consent :: "consent_snapshot option"
  rc_now :: timestamp

definition canReadResource :: "read_context \<Rightarrow> bool" where
  "canReadResource c = (
     if rc_actorId c = rc_ownerId c then True
     else if rc_visibility c = VisPrivate then False
     else if rc_actorFamilyId c = None \<or> rc_resourceFamilyId c = None
       \<or> rc_actorFamilyId c \<noteq> rc_resourceFamilyId c then False
     else case or_null (rc_requiredScope c) of None \<Rightarrow> True
     | Some scope \<Rightarrow> (case rc_consent c of None \<Rightarrow> False
       | Some consent \<Rightarrow>
           if cs_revokedAt consent \<noteq> None then False
           else if cs_grantedAt consent > rc_now c
             \<or> (case cs_expiresAt consent of None \<Rightarrow> False | Some e \<Rightarrow> e \<le> rc_now c) then False
           else List.member (cs_scopes consent) scope))"

end
