(* ===== verification/QuietHours.thy ===== *)
theory QuietHours
  imports Core
begin

text \<open>
  \<open>common/notifications/quiet-hours.service.ts\<close>: the instant at which a Telegram message may
  be delivered.  The reading of an instant in a time zone (\<open>localParts\<close>, built on
  \<open>Intl.DateTimeFormat\<close>) is the parameter \<open>env_localParts\<close>.  The four corrections and the scan of
  361 minutes around a daylight-saving jump are bounded loops, so the search always ends,
  with an instant or with the error of the code.

  The lemmas treat a zone of fixed offset in full: nothing throws, the delivery is never
  moved back, and the instant found is allowed.
\<close>

subsection \<open>Clock strings\<close>

text \<open>\<open>Number\<close> on the strings that occur in a clock: the empty string is 0, digits are their
  value.  The validated pattern of the preferences admits nothing else; other strings
  count as \<open>NaN\<close>, the value \<open>None\<close>.\<close>

definition digit_value :: "char \<Rightarrow> int option" where
  "digit_value c = (let n = (of_char c :: int) in if 48 \<le> n \<and> n \<le> 57 then Some (n - 48) else None)"

fun digits_value :: "int \<Rightarrow> string \<Rightarrow> int option" where
  "digits_value acc [] = Some acc"
| "digits_value acc (c # cs) = (case digit_value c of None \<Rightarrow> None
     | Some d \<Rightarrow> digits_value (10 * acc + d) cs)"

fun split_at :: "char \<Rightarrow> string \<Rightarrow> string list" where
  "split_at c [] = [[]]"
| "split_at c (x # xs) = (if x = c then [] # split_at c xs
     else (case split_at c xs of [] \<Rightarrow> [[x]] | p # ps \<Rightarrow> (x # p) # ps))"

definition minuteOfDay :: "string \<Rightarrow> int option" where
  "minuteOfDay v = (case split_at (CHR '':'') v of
     h # m # _ \<Rightarrow> (case (digits_value 0 h, digits_value 0 m) of
       (Some hour, Some minute) \<Rightarrow> Some (hour * 60 + minute) | _ \<Rightarrow> None)
   | _ \<Rightarrow> None)"

subsection \<open>Civil time\<close>

definition date_UTC :: "local_parts \<Rightarrow> timestamp" where
  "date_UTC p = make_day (lp_year p) (lp_month p - 1) (lp_day p) * ms_per_day
     + lp_hour p * 3600000 + lp_minute p * 60000"

definition parts_at :: "timestamp \<Rightarrow> local_parts" where
  "parts_at t = \<lparr>lp_year = getUTCFullYear t, lp_month = getUTCMonth t + 1, lp_day = getUTCDate t,
     lp_hour = time_within_day t div 3600000, lp_minute = time_within_day t div 60000 mod 60\<rparr>"

definition nextDate :: "local_parts \<Rightarrow> local_parts" where
  "nextDate v = (let date = make_day (lp_year v) (lp_month v - 1) (lp_day v + 1) * ms_per_day
     in \<lparr>lp_year = getUTCFullYear date, lp_month = getUTCMonth date + 1, lp_day = getUTCDate date,
         lp_hour = 0, lp_minute = 0\<rparr>)"

definition range_error :: api_error where
  "range_error = PlainError ''RangeError: Invalid time zone specified''"

text \<open>The first loop: \<open>Inr (True, t)\<close> returns \<open>t\<close>, \<open>Inr (False, candidate)\<close> falls through.\<close>

fun correct_candidate :: "env \<Rightarrow> string \<Rightarrow> timestamp \<Rightarrow> nat \<Rightarrow> timestamp \<Rightarrow> api_error + bool \<times> timestamp" where
  "correct_candidate E tz targetAsUtc 0 candidate = Inr (False, candidate)"
| "correct_candidate E tz targetAsUtc (Suc n) candidate =
    (case env_localParts E candidate tz of
       None \<Rightarrow> Inl range_error
     | Some actual \<Rightarrow> (let correction = targetAsUtc - date_UTC actual in
         if correction = 0 then Inr (True, candidate)
         else correct_candidate E tz targetAsUtc n (candidate + correction)))"

fun scan_minutes :: "env \<Rightarrow> string \<Rightarrow> local_parts \<Rightarrow> timestamp \<Rightarrow> int list \<Rightarrow> api_error + timestamp" where
  "scan_minutes E tz target candidate [] =
     Inl (PlainError ''Unable to resolve quiet-hours boundary in timezone'')"
| "scan_minutes E tz target candidate (offsetMinutes # os) =
    (let instant = candidate + offsetMinutes * 60000 in
     case env_localParts E instant tz of
       None \<Rightarrow> Inl range_error
     | Some actual \<Rightarrow>
         if lp_year actual = lp_year target \<and> lp_month actual = lp_month target
           \<and> lp_day actual = lp_day target
           \<and> lp_hour actual * 60 + lp_minute actual \<ge> lp_hour target * 60 + lp_minute target
         then Inr instant
         else scan_minutes E tz target candidate os)"

definition localTimeToInstant :: "env \<Rightarrow> local_parts \<Rightarrow> string \<Rightarrow> api_error + timestamp" where
  "localTimeToInstant E target tz =
    (case correct_candidate E tz (date_UTC target) 4 (date_UTC target) of
       Inl e \<Rightarrow> Inl e
     | Inr (True, instant) \<Rightarrow> Inr instant
     | Inr (False, candidate) \<Rightarrow> scan_minutes E tz target candidate [-180..180])"

text \<open>A comparison with \<open>NaN\<close> is false, so a clock that is no number leaves the instant alone.\<close>

definition inside_quiet :: "int \<Rightarrow> int \<Rightarrow> int \<Rightarrow> bool" where
  "inside_quiet startMinute endMinute currentMinute =
    (if startMinute > endMinute then currentMinute \<ge> startMinute \<or> currentMinute < endMinute
     else currentMinute \<ge> startMinute \<and> currentMinute < endMinute)"

definition nextAllowedAt :: "env \<Rightarrow> timestamp \<Rightarrow> string \<Rightarrow> preference option \<Rightarrow> api_error + timestamp" where
  "nextAllowedAt E now tz pref = (case pref of None \<Rightarrow> Inr now
   | Some p \<Rightarrow> (if \<not> pref_quietHoursEnabled p then Inr now else
      case (or_null (pref_quietHoursStart p), or_null (pref_quietHoursEnd p)) of
        (Some start, Some endd) \<Rightarrow>
          if start = endd then Inr now else
          (case env_localParts E now tz of None \<Rightarrow> Inl range_error
           | Some loc \<Rightarrow>
             (case (minuteOfDay start, minuteOfDay endd) of
               (Some startMinute, Some endMinute) \<Rightarrow>
                 let currentMinute = lp_hour loc * 60 + lp_minute loc;
                     crossesMidnight = startMinute > endMinute in
                 if \<not> inside_quiet startMinute endMinute currentMinute then Inr now
                 else let targetDate = (if crossesMidnight \<and> currentMinute \<ge> startMinute
                            then nextDate loc else loc)
                   in localTimeToInstant E (targetDate\<lparr>lp_hour := endMinute div 60,
                        lp_minute := endMinute mod 60\<rparr>) tz
              | _ \<Rightarrow> Inr now))
      | _ \<Rightarrow> Inr now))"

subsection \<open>A zone of fixed offset\<close>

definition fixed_zone :: "env \<Rightarrow> string \<Rightarrow> int \<Rightarrow> bool" where
  "fixed_zone E tz off \<longleftrightarrow> (\<forall>t. env_localParts E t tz = Some (parts_at (t + off))) \<and> off mod 60000 = 0"

definition minute_of :: "timestamp \<Rightarrow> int" where "minute_of t = time_within_day t div 60000"


lemma minute_of_bounds: "0 \<le> minute_of t \<and> minute_of t < 1440"
proof -
  have "0 \<le> time_within_day t \<and> time_within_day t < 86400000"
    by (simp add: time_within_day_def ms_per_day_def)
  then show ?thesis using div_bounds [of 60000 "time_within_day t"] unfolding minute_of_def by linarith
qed

lemma parts_minute: "lp_hour (parts_at t) * 60 + lp_minute (parts_at t) = minute_of t"
proof -
  have "time_within_day t div 3600000 = time_within_day t div 60000 div 60"
    using zdiv_zmult2_eq [of 60 "time_within_day t" 60000] by simp
  then show ?thesis by (simp add: parts_at_def minute_of_def)
qed

lemma parts_make_day:
  "make_day (lp_year (parts_at t)) (lp_month (parts_at t) - 1) (lp_day (parts_at t) + k) = day_of t + k"
  using day_decomposition(5) [of "day_of t"]
  by (simp add: parts_at_def make_day_month_start getUTCFullYear_def getUTCMonth_def getUTCDate_def)

lemma date_UTC_parts: "date_UTC (parts_at t) = day_of t * ms_per_day + minute_of t * 60000"
  using parts_minute [of t] parts_make_day [of t 0] by (simp add: date_UTC_def)

lemma parts_of_minute:
  assumes "0 \<le> m" "m < 1440"
  shows "day_of (d * ms_per_day + m * 60000) = d" "minute_of (d * ms_per_day + m * 60000) = m"
  using assms by (simp_all add: day_of_def minute_of_def time_within_day_def ms_per_day_def)

lemma minute_instant: "t mod 60000 = 0 \<Longrightarrow> t = day_of t * ms_per_day + minute_of t * 60000"
proof -
  assume "t mod 60000 = 0"
  moreover have "time_within_day t mod 60000 = t mod 60000"
    by (simp add: time_within_day_def ms_per_day_def mod_mod_cancel)
  ultimately have "minute_of t * 60000 = time_within_day t"
    using div_mult_mod_eq [of "time_within_day t" 60000] by (simp add: minute_of_def)
  then show ?thesis using day_time_split [of t] by simp
qed

lemma fixed_zone_instant:
  assumes z: "fixed_zone E tz off" and T: "date_UTC target mod 60000 = 0"
  shows "localTimeToInstant E target tz = Inr (date_UTC target - off)"
proof -
  let ?T = "date_UTC target"
  have loc: "env_localParts E t tz = Some (parts_at (t + off))" for t
    using z by (simp add: fixed_zone_def)
  have whole: "date_UTC (parts_at t) = t" if "t mod 60000 = 0" for t
    using minute_instant [OF that] by (simp only: date_UTC_parts)
  have "(?T + off) mod 60000 = 0" using z T by (simp add: fixed_zone_def mod_add_eq [symmetric])
  then have "correct_candidate E tz ?T 4 ?T = Inr (True, ?T - off)"
    using T by (simp add: numeral_eq_Suc loc whole)
  then show ?thesis by (simp add: localTimeToInstant_def)
qed

text \<open>The pattern the preferences are validated with: \<open>^([01]\\d|2[0-3]):[0-5]\\d$\<close>.\<close>

definition valid_clock :: "string \<Rightarrow> bool" where
  "valid_clock v = (case v of
     [a, b, c, d, e] \<Rightarrow> (case (digit_value a, digit_value b, digit_value d, digit_value e) of
        (Some h1, Some h2, Some m1, Some m2) \<Rightarrow> (h1 \<le> 1 \<or> h1 = 2 \<and> h2 \<le> 3) \<and> c = CHR '':'' \<and> m1 \<le> 5
      | _ \<Rightarrow> False)
   | _ \<Rightarrow> False)"

lemma digit_value_bounds: "digit_value c = Some d \<Longrightarrow> 0 \<le> d \<and> d \<le> 9 \<and> c \<noteq> CHR '':''"
  by (auto simp: digit_value_def Let_def split: if_splits)

lemma valid_clock_minute:
  assumes "valid_clock v"
  shows "\<exists>m. minuteOfDay v = Some m \<and> 0 \<le> m \<and> m < 1440"
proof -
  obtain a b d e h1 h2 m1 m2 where v: "v = [a, b, CHR '':'', d, e]"
    and dv: "digit_value a = Some h1" "digit_value b = Some h2" "digit_value d = Some m1" "digit_value e = Some m2"
    and r: "h1 \<le> 1 \<or> h1 = 2 \<and> h2 \<le> 3" "m1 \<le> 5"
    using assms by (auto simp: valid_clock_def split: list.splits option.splits)
  note db = digit_value_bounds [OF dv(1)] digit_value_bounds [OF dv(2)]
    digit_value_bounds [OF dv(3)] digit_value_bounds [OF dv(4)]
  have "minuteOfDay v = Some ((10 * h1 + h2) * 60 + (10 * m1 + m2))"
    using db unfolding v by (simp add: minuteOfDay_def dv)
  then show ?thesis using db r by auto
qed

lemma target_instant:
  assumes "0 \<le> e"
  shows "date_UTC ((parts_at t)\<lparr>lp_hour := e div 60, lp_minute := e mod 60\<rparr>)
      = day_of t * ms_per_day + e * 60000"
    and "date_UTC ((nextDate (parts_at t))\<lparr>lp_hour := e div 60, lp_minute := e mod 60\<rparr>)
      = (day_of t + 1) * ms_per_day + e * 60000"
proof -
  have e: "e div 60 * 3600000 + e mod 60 * 60000 = e * 60000"
    using mult_div_mod_eq [of 60 e] by linarith
  then show "date_UTC ((parts_at t)\<lparr>lp_hour := e div 60, lp_minute := e mod 60\<rparr>)
      = day_of t * ms_per_day + e * 60000"
    using parts_make_day [of t 0] by (simp add: date_UTC_def)
  have "nextDate (parts_at t) = (parts_at ((day_of t + 1) * ms_per_day))"
    using parts_make_day [of t 1] by (simp add: nextDate_def parts_at_def Let_def)
  then show "date_UTC ((nextDate (parts_at t))\<lparr>lp_hour := e div 60, lp_minute := e mod 60\<rparr>)
      = (day_of t + 1) * ms_per_day + e * 60000"
    using e parts_make_day [of "(day_of t + 1) * ms_per_day" 0] by (simp add: date_UTC_def)
qed

lemma instant_bounds:
  "day_of t * ms_per_day + minute_of t * 60000 \<le> t"
  "t < day_of t * ms_per_day + (minute_of t + 1) * 60000"
  using day_time_split [of t] div_bounds [of 60000 "time_within_day t"]
  unfolding minute_of_def by (simp_all add: algebra_simps)

text \<open>The decision with both clocks read, in a fixed zone.\<close>

lemma nextAllowedAt_fixed:
  assumes z: "fixed_zone E tz off"
    and p: "pref_quietHoursEnabled p" "or_null (pref_quietHoursStart p) = Some sc"
      "or_null (pref_quietHoursEnd p) = Some ec" "sc \<noteq> ec"
    and m: "minuteOfDay sc = Some a" "minuteOfDay ec = Some e" "0 \<le> e"
  shows "nextAllowedAt E t tz (Some p) = Inr (
    if \<not> inside_quiet a e (minute_of (t + off)) then t
    else if a > e \<and> minute_of (t + off) \<ge> a then (day_of (t + off) + 1) * ms_per_day + e * 60000 - off
    else day_of (t + off) * ms_per_day + e * 60000 - off)"
proof -
  have loc: "env_localParts E t tz = Some (parts_at (t + off))" for t
    using z by (simp add: fixed_zone_def)
  have whole: "(d * ms_per_day + e * 60000) mod 60000 = 0" for d
    by (simp add: ms_per_day_def mod_eq_0_iff_dvd)
  note target = target_instant [OF m(3), of "t + off"]
  have found:
    "localTimeToInstant E ((parts_at (t + off))\<lparr>lp_hour := e div 60, lp_minute := e mod 60\<rparr>) tz
       = Inr (day_of (t + off) * ms_per_day + e * 60000 - off)"
    "localTimeToInstant E ((nextDate (parts_at (t + off)))\<lparr>lp_hour := e div 60, lp_minute := e mod 60\<rparr>) tz
       = Inr ((day_of (t + off) + 1) * ms_per_day + e * 60000 - off)"
    unfolding target [symmetric] by (rule fixed_zone_instant [OF z], simp only: target whole)+
  show ?thesis by (simp add: nextAllowedAt_def p m loc parts_minute Let_def found)
qed

subsection \<open>The first allowed instant\<close>

text \<open>The specification: going round the clock from the start, the minute comes before the end.  Equal clocks give no
  quiet minute, and an interval over midnight needs no case of its own.\<close>

definition quiet_minute :: "int \<Rightarrow> int \<Rightarrow> int \<Rightarrow> bool" where
  "quiet_minute a e m \<longleftrightarrow> (m - a) mod 1440 < (e - a) mod 1440"

definition is_quiet :: "int \<Rightarrow> preference \<Rightarrow> timestamp \<Rightarrow> bool" where
  "is_quiet off p t \<longleftrightarrow> pref_quietHoursEnabled p
     \<and> (case (Option.bind (or_null (pref_quietHoursStart p)) minuteOfDay, Option.bind (or_null (pref_quietHoursEnd p)) minuteOfDay) of
         (Some a, Some e) \<Rightarrow> quiet_minute a e (minute_of (t + off)) | _ \<Rightarrow> False)"

lemma clock_mod: "- 1440 < x \<Longrightarrow> x < 1440 \<Longrightarrow> x mod 1440 = (if x < 0 then x + 1440 else (x::int))"
  using mod_pos_pos_trivial [of "x + 1440" 1440] by (auto simp: mod_pos_pos_trivial)

lemma inside_quiet_minute:
  assumes "0 \<le> a" "a < 1440" "0 \<le> e" "e < 1440" "0 \<le> m" "m < 1440"
  shows "inside_quiet a e m = quiet_minute a e m"
  using assms by (auto simp: inside_quiet_def quiet_minute_def clock_mod)

lemma minute_of_div: "minute_of t = (t div 60000) mod 1440"
proof -
  have "t mod 86400000 div 60000 = t div 60000 mod 1440"
    using zmod_zmult2_eq [of 1440 t 60000] by simp
  then show ?thesis by (simp add: minute_of_def time_within_day_def ms_per_day_def)
qed

lemma quiet_minute_shift: "quiet_minute a e (m mod 1440) = quiet_minute a e m"
  by (simp add: quiet_minute_def mod_diff_left_eq)

text \<open>The minutes before the end of an interval, up to its length, are quiet.\<close>

lemma quiet_minute_before:
  assumes "0 < k" "k \<le> (e - a) mod 1440"
  shows "quiet_minute a e (e - k)"
proof -
  have "(e - k - a) mod 1440 = ((e - a) mod 1440 - k) mod 1440"
    by (simp add: mod_diff_left_eq algebra_simps)
  also have "\<dots> = (e - a) mod 1440 - k"
    using assms pos_mod_bound [of 1440 "e - a"] by (intro mod_pos_pos_trivial) auto
  finally show ?thesis using assms by (simp add: quiet_minute_def)
qed

lemma quiet_until:
  assumes d: "day_of L * 1440 + minute_of L = M" "M \<le> T" "T = D * 1440 + e" "T - M \<le> (e - a) mod 1440"
    and t: "L \<le> t" "t < T * 60000"
  shows "quiet_minute a e (minute_of t)"
proof -
  have "L div 60000 = M"
    using d(1) minute_of_div [of L] mult_div_mod_eq [of 1440 "L div 60000"] zdiv_zmult2_eq [of 1440 L 60000]
    by (simp add: day_of_def ms_per_day_def)
  then have "M \<le> t div 60000" using zdiv_mono1 [OF t(1), of 60000] by simp
  moreover have "t div 60000 < T" using t(2) by (simp add: div_less_iff_less_mult)
  ultimately have "quiet_minute a e (e - (T - t div 60000))" using d(4) by (intro quiet_minute_before) auto
  moreover have "quiet_minute a e (t div 60000) = quiet_minute a e (e - (T - t div 60000))"
  proof -
    have "(t div 60000) mod 1440 = (e - (T - t div 60000)) mod 1440" unfolding d(3)
      using mod_mult_self1 [of "t div 60000 - D * 1440" D 1440] by simp
    then show ?thesis using quiet_minute_shift by metis
  qed
  ultimately show ?thesis unfolding minute_of_div quiet_minute_shift by simp
qed

text \<open>C39. In a zone of fixed offset, with clocks of the validated pattern, quiet hours give the first allowed instant: it is
  not quiet, every instant from now until it is, and it comes within a day; in particular a delivery outside the quiet
  hours is not delayed at all, and nothing is thrown.\<close>

theorem quiet_hours_first_allowed:
  assumes "fixed_zone E tz off"
    and "\<And>v. pref_quietHoursStart p = Some v \<Longrightarrow> valid_clock v"
    and "\<And>v. pref_quietHoursEnd p = Some v \<Longrightarrow> valid_clock v"
  shows "\<exists>r. nextAllowedAt E now tz (Some p) = Inr r \<and> now \<le> r \<and> r < now + ms_per_day
    \<and> \<not> is_quiet off p r \<and> (\<forall>t. now \<le> t \<and> t < r \<longrightarrow> is_quiet off p t)"
proof (cases "pref_quietHoursEnabled p \<and> or_null (pref_quietHoursStart p) \<noteq> None
    \<and> or_null (pref_quietHoursEnd p) \<noteq> None \<and> or_null (pref_quietHoursStart p) \<noteq> or_null (pref_quietHoursEnd p)")
  case False
  then have "nextAllowedAt E now tz (Some p) = Inr now"
    by (auto simp: nextAllowedAt_def split: option.splits)
  moreover have "\<not> is_quiet off p now"
    using False by (auto simp: is_quiet_def quiet_minute_def split: option.splits)
  ultimately show ?thesis by (auto simp: ms_per_day_def)
next
  case True
  then obtain sc ec where p: "pref_quietHoursEnabled p" "or_null (pref_quietHoursStart p) = Some sc"
      "or_null (pref_quietHoursEnd p) = Some ec" "sc \<noteq> ec" by auto
  then have "pref_quietHoursStart p = Some sc" "pref_quietHoursEnd p = Some ec"
    by (auto simp: or_null_def split: option.splits if_splits)
  with assms(2,3) obtain a e where m: "minuteOfDay sc = Some a" "minuteOfDay ec = Some e"
    "0 \<le> e" "e < 1440" "0 \<le> a" "a < 1440" using valid_clock_minute by metis
  note next_at = nextAllowedAt_fixed [OF assms(1) p m(1,2,3)]
  have quiet: "is_quiet off p t = quiet_minute a e (minute_of (t + off))" for t
    by (simp add: is_quiet_def p m)
  have inside: "inside_quiet a e (minute_of t) = quiet_minute a e (minute_of t)" for t
    using inside_quiet_minute m minute_of_bounds by simp
  define L where "L = now + off"
  let ?m = "minute_of L"
  note L = instant_bounds [of L] and mb = minute_of_bounds [of L]
  show ?thesis
  proof (cases "quiet_minute a e ?m")
    case False
    then have "nextAllowedAt E now tz (Some p) = Inr now" "\<not> is_quiet off p now"
      by (simp_all add: next_at inside quiet L_def)
    then show ?thesis by (auto simp: ms_per_day_def)
  next
    case True
    then have q: "inside_quiet a e ?m" by (simp add: inside)
    define D where "D = (if a > e \<and> ?m \<ge> a then day_of L + 1 else day_of L)"
    let ?T = "D * 1440 + e" and ?r = "D * ms_per_day + e * 60000 - off"
    have k: "day_of L * 1440 + ?m \<le> ?T" "?T - (day_of L * 1440 + ?m) \<le> (e - a) mod 1440"
      using q m mb by (auto simp: D_def inside_quiet_def clock_mod split: if_splits)
    have "nextAllowedAt E now tz (Some p) = Inr ?r" using q by (auto simp: next_at L_def D_def)
    moreover have "now \<le> ?r \<and> ?r < now + ms_per_day"
      using L q m mb by (auto simp: L_def D_def ms_per_day_def inside_quiet_def distrib_right split: if_splits)
    moreover have "\<not> is_quiet off p ?r" using m by (simp add: quiet parts_of_minute quiet_minute_def)
    moreover have "is_quiet off p t" if "now \<le> t" "t < ?r" for t
      unfolding quiet
      by (rule quiet_until [OF refl k(1) refl k(2)]) (use that in \<open>simp_all add: L_def ms_per_day_def\<close>)
    ultimately show ?thesis by blast
  qed
qed

text \<open>A night from 22:00 to 08:00 in a zone three hours ahead, at 20:30 UTC of the first day.\<close>

definition moscow_env :: env where
  "moscow_env = \<lparr>env_now = 73800000, env_localParts = (\<lambda>t tz. Some (parts_at (t + 10800000)))\<rparr>"

definition night_preference :: preference where
  "night_preference = \<lparr>pref_userId = 1, pref_inAppEnabled = True, pref_emailEnabled = True,
     pref_telegramEnabled = True, pref_quietHoursEnabled = True,
     pref_quietHoursStart = Some ''22:00'', pref_quietHoursEnd = Some ''08:00''\<rparr>"

lemma quiet_hours_first_allowed_witness:
  "\<exists>r. nextAllowedAt moscow_env 73800000 ''Europe/Moscow'' (Some night_preference) = Inr r
    \<and> 73800000 \<le> r \<and> r < 73800000 + ms_per_day \<and> \<not> is_quiet 10800000 night_preference r
    \<and> (\<forall>t. 73800000 \<le> t \<and> t < r \<longrightarrow> is_quiet 10800000 night_preference t)"
  by (rule quiet_hours_first_allowed [where off = 10800000])
    (auto simp: fixed_zone_def moscow_env_def night_preference_def valid_clock_def digit_value_def)

end
