(* ===== verification/Outbox.thy ===== *)
theory Outbox
  imports QuietHours
begin

text \<open>
  \<open>common/outbox/outbox.service.ts\<close> (the transactional outbox: enqueueing, claiming with a
  lock, delivery with retries) and \<open>common/notifications/notification-producer.service.ts\<close>
  (inbox notifications and the Telegram messages that go with them).

  The providers of e-mail, Telegram and push and the payload encryption are parameters: a
  call gives an error message or its result.  Each iteration of \<open>processAvailable\<close> has its own
  environment, since time passes between deliveries.
\<close>

subsection \<open>Payloads\<close>

record telegram_envelope =
  tge_eventId :: uuid
  tge_type :: string
  tge_recipientUserId :: uuid
  tge_templateData :: "(string \<times> string) list"
  tge_locale :: string
  tge_timeZone :: string
  tge_occurredAt :: timestamp
  tge_availableAt :: timestamp

record push_payload =
  pp_eventId :: uuid
  pp_messageId :: uuid
  pp_conversationId :: uuid
  pp_senderId :: uuid
  pp_recipientUserIds :: "uuid list"
  pp_title :: string
  pp_body :: string
  pp_data :: "(string \<times> json) list"
  pp_occurredAt :: timestamp

record email_payload =
  em_to :: string
  em_subject :: string
  em_text :: "string option"
  em_encryptedText :: "string option"

abbreviation EMAIL :: string where "EMAIL \<equiv> ''email.send''"
abbreviation TELEGRAM :: string where "TELEGRAM \<equiv> ''telegram.notify''"
abbreviation PUSH :: string where "PUSH \<equiv> ''push.notify''"

definition telegram_json :: "telegram_envelope \<Rightarrow> json" where
  "telegram_json m = JObj [
     (''eventId'', JUuid (tge_eventId m)), (''schemaVersion'', JNum 1), (''type'', JStr (tge_type m)),
     (''recipientUserId'', JUuid (tge_recipientUserId m)),
     (''templateData'', JObj (map (\<lambda>(k, v). (k, JStr v)) (tge_templateData m))),
     (''locale'', JStr (tge_locale m)), (''timeZone'', JStr (tge_timeZone m)),
     (''occurredAt'', JInstant (tge_occurredAt m)), (''availableAt'', JInstant (tge_availableAt m))]"

definition push_json :: "push_payload \<Rightarrow> json" where
  "push_json m = JObj [
     (''schemaVersion'', JNum 1), (''eventId'', JUuid (pp_eventId m)),
     (''messageId'', JUuid (pp_messageId m)), (''conversationId'', JUuid (pp_conversationId m)),
     (''senderId'', JUuid (pp_senderId m)),
     (''recipientUserIds'', JArr (map JUuid (pp_recipientUserIds m))),
     (''title'', JStr (pp_title m)), (''body'', JStr (pp_body m)), (''data'', JObj (pp_data m)),
     (''occurredAt'', JInstant (pp_occurredAt m))]"

definition email_json :: "email_payload \<Rightarrow> json" where
  "email_json m = JObj ([(''to'', JStr (em_to m)), (''subject'', JStr (em_subject m))]
     @ (case em_text m of None \<Rightarrow> [] | Some t \<Rightarrow> [(''text'', JStr t)])
     @ (case em_encryptedText m of None \<Rightarrow> [] | Some t \<Rightarrow> [(''encryptedText'', JStr t)]))"

text \<open>\<open>{ ...message, field: v }\<close>\<close>

definition obj_set :: "(string \<times> json) list \<Rightarrow> string \<Rightarrow> json \<Rightarrow> (string \<times> json) list" where
  "obj_set ob k v = (if json_field ob k = None then ob @ [(k, v)]
     else map (\<lambda>(k', v'). (k', if k' = k then v else v')) ob)"

definition schema_is_1 :: "(string \<times> json) list \<Rightarrow> bool" where
  "schema_is_1 ob \<longleftrightarrow> json_field ob ''schemaVersion'' = Some (JNum 1)"

definition parseTelegramPayload :: "json \<Rightarrow> api_error + (string \<times> json) list" where
  "parseTelegramPayload payload = (case payload of
     JObj ob \<Rightarrow> (if \<not> schema_is_1 ob \<or> \<not> field_is_string ob ''eventId''
         \<or> \<not> field_is_string ob ''type'' \<or> \<not> field_is_string ob ''recipientUserId''
         \<or> \<not> field_is_string ob ''locale'' \<or> \<not> field_is_string ob ''timeZone''
         \<or> \<not> field_is_string ob ''occurredAt'' \<or> \<not> field_is_string ob ''availableAt''
         \<or> \<not> field_is_object ob ''templateData''
       then Inl (PlainError ''Invalid Telegram outbox payload'') else Inr ob)
   | _ \<Rightarrow> Inl (PlainError ''Invalid Telegram outbox payload''))"

definition parsePushPayload :: "json \<Rightarrow> api_error + (string \<times> json) list" where
  "parsePushPayload payload = (case payload of
     JObj ob \<Rightarrow> (if \<not> schema_is_1 ob \<or> \<not> field_is_string ob ''eventId''
         \<or> \<not> field_is_string ob ''messageId'' \<or> \<not> field_is_string ob ''conversationId''
         \<or> \<not> field_is_string ob ''senderId''
         \<or> (case json_field ob ''recipientUserIds'' of Some (JArr ids) \<Rightarrow> \<exists>i \<in> set ids. \<not> json_is_string i
             | _ \<Rightarrow> True)
         \<or> \<not> field_is_string ob ''title'' \<or> \<not> field_is_string ob ''body''
         \<or> \<not> field_is_object ob ''data''
       then Inl (PlainError ''Invalid push outbox payload'') else Inr ob)
   | _ \<Rightarrow> Inl (PlainError ''Invalid push outbox payload''))"

text \<open>The text of a string value for a provider; identifiers and instants never occur in the
  fields read this way from an enqueued e-mail.\<close>

definition json_text :: "json option \<Rightarrow> string" where
  "json_text v = (case v of Some (JStr t) \<Rightarrow> t | _ \<Rightarrow> [])"

definition parseEmailPayload :: "(string \<Rightarrow> api_error + string) \<Rightarrow> json \<Rightarrow> api_error + string \<times> string \<times> string" where
  "parseEmailPayload decrypt payload = (case payload of
     JObj ob \<Rightarrow> (if \<not> field_is_string ob ''to'' \<or> \<not> field_is_string ob ''subject''
         \<or> (\<not> field_is_string ob ''text'' \<and> \<not> field_is_string ob ''encryptedText'')
       then Inl (PlainError ''Invalid email outbox payload'')
       else if field_is_string ob ''text''
       then Inr (json_text (json_field ob ''to''), json_text (json_field ob ''subject''),
                 json_text (json_field ob ''text''))
       else (case decrypt (json_text (json_field ob ''encryptedText'')) of
           Inl e \<Rightarrow> Inl e
         | Inr t \<Rightarrow> Inr (json_text (json_field ob ''to''), json_text (json_field ob ''subject''), t)))
   | _ \<Rightarrow> Inl (PlainError ''Invalid email outbox payload''))"

subsection \<open>Enqueueing\<close>

text \<open>The columns a new event gets from the schema: pending, no attempts, available now.\<close>

definition new_event :: "env \<Rightarrow> uuid \<Rightarrow> string \<Rightarrow> uuid option \<Rightarrow> json \<Rightarrow> timestamp \<Rightarrow> outbox_event" where
  "new_event E i ty dedupe payload availableAt =
     \<lparr>event_id = i, event_type = ty, event_dedupeKey = dedupe, event_payload = payload,
      event_status = PENDING, event_attempts = 0, event_availableAt = availableAt,
      event_lockedAt = None, event_deliveredAt = None, event_lastError = None,
      event_createdAt = env_now E\<rparr>"

definition create_event :: "env \<Rightarrow> string \<Rightarrow> uuid option \<Rightarrow> json \<Rightarrow> timestamp \<Rightarrow> feed \<Rightarrow> feed" where
  "create_event E ty dedupe payload availableAt d =
     d\<lparr>feed_outbox := feed_outbox d @ [new_event E (feed_nextId d) ty dedupe payload availableAt],
       feed_nextId := feed_nextId d + 1\<rparr>"

definition enqueueEmail :: "env \<Rightarrow> email_payload \<Rightarrow> feed \<Rightarrow> feed" where
  "enqueueEmail E payload d = create_event E EMAIL None (email_json payload) (env_now E) d"

definition enqueueEncryptedEmail :: "env \<Rightarrow> (string \<Rightarrow> string) \<Rightarrow> string \<Rightarrow> string \<Rightarrow> string \<Rightarrow> feed \<Rightarrow> feed" where
  "enqueueEncryptedEmail E encrypt to subject txt d = enqueueEmail E
     \<lparr>em_to = to, em_subject = subject, em_text = None, em_encryptedText = Some (encrypt txt)\<rparr> d"

definition enqueueTelegram :: "env \<Rightarrow> telegram_envelope \<Rightarrow> feed \<Rightarrow> feed" where
  "enqueueTelegram E payload d =
     create_event E TELEGRAM None (telegram_json payload) (tge_availableAt payload) d"

text \<open>The unique key \<open>chat-message:<messageId>\<close> is named by the message.\<close>

definition enqueuePush :: "env \<Rightarrow> push_payload \<Rightarrow> feed \<Rightarrow> feed" where
  "enqueuePush E payload d =
    (if \<exists>e \<in> set (feed_outbox d). event_dedupeKey e = Some (pp_messageId payload) then d
     else create_event E PUSH (Some (pp_messageId payload)) (push_json payload) (env_now E) d)"

definition enqueueChatMessagePush ::
    "env \<Rightarrow> uuid \<Rightarrow> uuid \<Rightarrow> uuid \<Rightarrow> uuid list \<Rightarrow> string \<Rightarrow> string \<Rightarrow> timestamp \<Rightarrow> feed \<Rightarrow> feed" where
  "enqueueChatMessagePush E messageId conversationId senderId recipientUserIds senderName body occurredAt d =
     enqueuePush E \<lparr>pp_eventId = feed_nextId d, pp_messageId = messageId,
       pp_conversationId = conversationId, pp_senderId = senderId,
       pp_recipientUserIds = recipientUserIds, pp_title = senderName, pp_body = body,
       pp_data = [(''type'', JStr ''chat_message''), (''conversationId'', JUuid conversationId),
         (''messageId'', JUuid messageId), (''senderId'', JUuid senderId)],
       pp_occurredAt = occurredAt\<rparr> (d\<lparr>feed_nextId := feed_nextId d + 1\<rparr>)"

subsection \<open>NotificationProducerService\<close>

record domain_notification =
  dn_userId :: uuid
  dn_familyId :: "uuid option"
  dn_type :: string
  dn_title :: string
  dn_body :: "string option"

record recipient =
  rcp_locale :: string
  rcp_timeZone :: string
  rcp_preference :: "preference option"
  rcp_telegramStatus :: "string option"

definition dispatchToRecipient :: "env \<Rightarrow> domain_notification \<Rightarrow> recipient \<Rightarrow> feed \<Rightarrow> (unit, feed) resp" where
  "dispatchToRecipient E input u d = (
     let inApp = (case rcp_preference u of None \<Rightarrow> True | Some p \<Rightarrow> pref_inAppEnabled p);
         d1 = (if inApp then d\<lparr>feed_notifications := feed_notifications d @
             [\<lparr>notif_id = feed_nextId d, notif_userId = dn_userId input, notif_familyId = dn_familyId input,
               notif_type = dn_type input, notif_title = dn_title input, notif_body = dn_body input,
               notif_readAt = None, notif_createdAt = env_now E\<rparr>],
             feed_nextId := feed_nextId d + 1\<rparr> else d);
         telegram = (case rcp_preference u of None \<Rightarrow> False | Some p \<Rightarrow> pref_telegramEnabled p)
     in if telegram \<and> rcp_telegramStatus u = Some ''ACTIVE'' then
          (case nextAllowedAt E (env_now E) (rcp_timeZone u) (rcp_preference u) of
             Inl e \<Rightarrow> (Inl e, d1)
           | Inr availableAt \<Rightarrow> (Inr (), enqueueTelegram E
               \<lparr>tge_eventId = feed_nextId d1, tge_type = dn_type input,
                tge_recipientUserId = dn_userId input,
                tge_templateData = (''title'', dn_title input)
                  # (case or_null (dn_body input) of None \<Rightarrow> [] | Some b \<Rightarrow> [(''body'', b)]),
                tge_locale = rcp_locale u, tge_timeZone = rcp_timeZone u,
                tge_occurredAt = env_now E, tge_availableAt = availableAt\<rparr>
               (d1\<lparr>feed_nextId := feed_nextId d1 + 1\<rparr>)))
        else (Inr (), d1))"

definition find_preference :: "uuid \<Rightarrow> 'a core_scheme \<Rightarrow> preference option" where
  "find_preference uid s = find_first (\<lambda>p. pref_userId p = uid) (core_preferences s)"

definition find_connection :: "uuid \<Rightarrow> 'a core_scheme \<Rightarrow> telegram_connection option" where
  "find_connection uid s = find_first (\<lambda>c. tg_userId c = uid) (core_connections s)"

definition recipient_of :: "'a core_scheme \<Rightarrow> user \<Rightarrow> recipient" where
  "recipient_of s u = \<lparr>rcp_locale = user_locale u, rcp_timeZone = user_timeZone u,
     rcp_preference = find_preference (user_id u) s,
     rcp_telegramStatus = map_option tg_status (find_connection (user_id u) s)\<rparr>"

definition notifyUserInTransaction :: "env \<Rightarrow> domain_notification \<Rightarrow> 'a core_scheme \<Rightarrow> (unit, 'a core_scheme) resp" where
  "notifyUserInTransaction E input s =
     (case find_first (\<lambda>u. user_id u = dn_userId input \<and> user_isActive u) (core_users s) of
        None \<Rightarrow> (Inr (), s)
      | Some u \<Rightarrow> on_feed (dispatchToRecipient E input (recipient_of s u)) s)"

definition notifyUser :: "env \<Rightarrow> domain_notification \<Rightarrow> 'a core_scheme \<Rightarrow> (unit, 'a core_scheme) resp" where
  "notifyUser E input s = transaction s (notifyUserInTransaction E input s)"

fun dispatch_all :: "env \<Rightarrow> (domain_notification \<times> recipient) list \<Rightarrow> feed \<Rightarrow> (unit, feed) resp" where
  "dispatch_all E [] d = (Inr (), d)"
| "dispatch_all E ((input, u) # rest) d =
     and_then (dispatchToRecipient E input u d) (\<lambda>_ d'. dispatch_all E rest d')"

text \<open>The family's members joined with their users, in the order of the rows.\<close>

definition member_users :: "uuid \<Rightarrow> 'a core_scheme \<Rightarrow> user list" where
  "member_users familyId s = concat (map (\<lambda>m. case find_user (member_userId m) s of
       None \<Rightarrow> [] | Some u \<Rightarrow> [u]) (filter (\<lambda>m. member_familyId m = familyId) (core_members s)))"

definition notifyFamilyMembers ::
    "env \<Rightarrow> uuid \<Rightarrow> uuid \<Rightarrow> string \<Rightarrow> string \<Rightarrow> string option \<Rightarrow> 'a core_scheme \<Rightarrow> (unit, 'a core_scheme) resp" where
  "notifyFamilyMembers E familyId actorId ty title body s = (
     let recipients = filter (\<lambda>u. user_id u \<noteq> actorId) (member_users familyId s) in
     if recipients = [] then (Inr (), s)
     else transaction s (on_feed (dispatch_all E (map (\<lambda>u.
         (\<lparr>dn_userId = user_id u, dn_familyId = Some familyId, dn_type = ty, dn_title = title,
           dn_body = body\<rparr>, recipient_of s u)) recipients)) s))"

text \<open>Whatever is notified, only the feed of the database changes: the feed afterwards gets a
  name, and the state afterwards rewrites to an update of that field.\<close>

definition notifyUser_feed :: "env \<Rightarrow> domain_notification \<Rightarrow> 'a core_scheme \<Rightarrow> feed" where
  "notifyUser_feed E input s = core_feed (snd (notifyUser E input s))"

definition notifyFamily_feed ::
    "env \<Rightarrow> uuid \<Rightarrow> uuid \<Rightarrow> string \<Rightarrow> string \<Rightarrow> string option \<Rightarrow> 'a core_scheme \<Rightarrow> feed" where
  "notifyFamily_feed E f a ty ti b s = core_feed (snd (notifyFamilyMembers E f a ty ti b s))"

lemma notifyUserInTransaction_frame: "\<exists>d. snd (notifyUserInTransaction E input s) = s\<lparr>core_feed := d\<rparr>"
proof (cases "find_first (\<lambda>u. user_id u = dn_userId input \<and> user_isActive u) (core_users s)")
  case None
  then show ?thesis by (intro exI [of _ "core_feed s"]) (simp add: notifyUserInTransaction_def)
qed (auto simp: notifyUserInTransaction_def)

lemma notifyUser_frame [frame_simps]:
  "snd (notifyUser E input s) = s\<lparr>core_feed := notifyUser_feed E input s\<rparr>"
  by (auto simp: notifyUser_feed_def notifyUser_def notifyUserInTransaction_def on_feed_def
      transaction_def split: option.split prod.split sum.split)

lemma notifyFamilyMembers_frame [frame_simps]:
  "snd (notifyFamilyMembers E f a ty ti b s) = s\<lparr>core_feed := notifyFamily_feed E f a ty ti b s\<rparr>"
  by (auto simp: notifyFamily_feed_def notifyFamilyMembers_def Let_def on_feed_def transaction_def
      split: prod.split sum.split)

lemma notifyUser_state: "notifyUser E input s = (r, t) \<Longrightarrow> t = s\<lparr>core_feed := notifyUser_feed E input s\<rparr>"
  by (metis notifyUser_frame snd_conv)

lemma notifyFamilyMembers_state:
  "notifyFamilyMembers E f a ty ti b s = (r, t) \<Longrightarrow> t = s\<lparr>core_feed := notifyFamily_feed E f a ty ti b s\<rparr>"
  by (metis notifyFamilyMembers_frame snd_conv)

subsection \<open>Claiming and delivering\<close>

record providers =
  send_email :: "string \<Rightarrow> string \<Rightarrow> string \<Rightarrow> string option"
  send_telegram :: "(string \<times> json) list \<Rightarrow> string \<Rightarrow> string option"
  send_push :: "push_device list \<Rightarrow> json \<Rightarrow> json \<Rightarrow> json \<Rightarrow> string + uuid list"
  decrypt_payload :: "string \<Rightarrow> api_error + string"

record outbox_config =
  OUTBOX_MAX_ATTEMPTS :: nat
  OUTBOX_LOCK_TIMEOUT_MS :: int

definition locked_before :: "timestamp \<Rightarrow> outbox_event \<Rightarrow> bool" where
  "locked_before t e = (case event_lockedAt e of None \<Rightarrow> False | Some l \<Rightarrow> l \<le> t)"

definition claimable :: "timestamp \<Rightarrow> timestamp \<Rightarrow> outbox_event \<Rightarrow> bool" where
  "claimable now staleLockBefore e \<longleftrightarrow>
     (event_status e = PENDING \<and> event_availableAt e \<le> now)
     \<or> (event_status e = PROCESSING \<and> locked_before staleLockBefore e)"

definition update_outbox :: "(outbox_event \<Rightarrow> bool) \<Rightarrow> (outbox_event \<Rightarrow> outbox_event) \<Rightarrow> feed \<Rightarrow> nat \<times> feed" where
  "update_outbox P f d = (fst (update_many P f (feed_outbox d)),
     d\<lparr>feed_outbox := snd (update_many P f (feed_outbox d))\<rparr>)"

text \<open>The transaction of \<open>claimNext\<close> runs under READ COMMITTED: its two statements may see different tables when
  other workers write between them, so that they are two definitions.  The second one writes only while the row still is
  as the first one relied on, and the claimed event is returned as it was read.\<close>

definition claim_find :: "env \<Rightarrow> outbox_config \<Rightarrow> feed \<Rightarrow> outbox_event option" where
  "claim_find E cfg d = find_first_by event_createdAt
     (claimable (env_now E) (env_now E - OUTBOX_LOCK_TIMEOUT_MS cfg)) (feed_outbox d)"

definition claim_write :: "env \<Rightarrow> outbox_config \<Rightarrow> outbox_event \<Rightarrow> feed \<Rightarrow> outbox_event option \<times> feed" where
  "claim_write E cfg event d = (
     let now = env_now E; staleLockBefore = now - OUTBOX_LOCK_TIMEOUT_MS cfg in
     case update_outbox (\<lambda>e. event_id e = event_id event \<and>
           (if event_status event = PENDING then event_status e = PENDING
            else event_status e = PROCESSING \<and> locked_before staleLockBefore e))
         (\<lambda>e. e\<lparr>event_status := PROCESSING, event_lockedAt := Some now\<rparr>) d of
       (count, d') \<Rightarrow> (if count = 1 then Some event else None, d'))"

definition claimNext :: "env \<Rightarrow> outbox_config \<Rightarrow> feed \<Rightarrow> outbox_event option \<times> feed" where
  "claimNext E cfg d = (case claim_find E cfg d of None \<Rightarrow> (None, d) | Some event \<Rightarrow> claim_write E cfg event d)"

definition deferTelegram :: "uuid \<Rightarrow> (string \<times> json) list \<Rightarrow> timestamp \<Rightarrow> feed \<Rightarrow> feed" where
  "deferTelegram i message availableAt d = snd (update_outbox
     (\<lambda>e. event_id e = i \<and> event_status e = PROCESSING)
     (\<lambda>e. e\<lparr>event_status := PENDING, event_availableAt := availableAt, event_lockedAt := None,
        event_payload := JObj (obj_set message ''availableAt'' (JInstant availableAt))\<rparr>) d)"

definition retry_delay :: "nat \<Rightarrow> int" where
  "retry_delay attempts = min 60000 (1000 * 2 ^ min attempts 6)"

definition error_message :: "api_error \<Rightarrow> string" where
  "error_message e = (case e of BadRequest m \<Rightarrow> m | Unauthorized m \<Rightarrow> m | Forbidden m \<Rightarrow> m
     | NotFound m \<Rightarrow> m | Conflict m \<Rightarrow> m | Gone m \<Rightarrow> m | VersionConflict _ \<Rightarrow> ''Version conflict''
     | TooManyRequests m _ \<Rightarrow> m | PrismaError m \<Rightarrow> m | PlainError m \<Rightarrow> m)"

definition fail_event :: "env \<Rightarrow> outbox_config \<Rightarrow> uuid \<Rightarrow> api_error \<Rightarrow> feed \<Rightarrow> feed" where
  "fail_event E cfg i err d = (case find_first (\<lambda>e. event_id e = i) (feed_outbox d) of
     None \<Rightarrow> d
   | Some event \<Rightarrow> (if event_status event \<noteq> PROCESSING then d else
       let attempts = event_attempts event + 1;
           exhausted = attempts \<ge> OUTBOX_MAX_ATTEMPTS cfg
       in snd (update_outbox (\<lambda>e. event_id e = i)
         (\<lambda>e. e\<lparr>event_attempts := attempts,
            event_status := (if exhausted then FAILED else PENDING),
            event_availableAt := env_now E + retry_delay attempts,
            event_lockedAt := None, event_lastError := Some (take 500 (error_message err))\<rparr>) d)))"

definition mark_delivered :: "env \<Rightarrow> uuid \<Rightarrow> feed \<Rightarrow> feed" where
  "mark_delivered E i d = snd (update_outbox
     (\<lambda>e. event_id e = i \<and> event_status e = PROCESSING)
     (\<lambda>e. e\<lparr>event_status := DELIVERED, event_deliveredAt := Some (env_now E), event_lockedAt := None\<rparr>) d)"

text \<open>What the body of \<open>try\<close> comes to: an error for \<open>catch\<close>, a delivery, or a deferral.\<close>

datatype delivery = Thrown api_error | Sent | Deferred "(string \<times> json) list" timestamp

definition thrown_or_sent :: "string option \<Rightarrow> delivery" where
  "thrown_or_sent r = (case r of None \<Rightarrow> Sent | Some m \<Rightarrow> Thrown (PlainError m))"

text \<open>The recipient is looked up by the id in the payload; a text that is no UUID is an error of
  the database.\<close>

definition deliver_telegram :: "env \<Rightarrow> providers \<Rightarrow> json \<Rightarrow> 'a core_scheme \<Rightarrow> delivery" where
  "deliver_telegram E P payload s = (case parseTelegramPayload payload of
     Inl e \<Rightarrow> Thrown e
   | Inr message \<Rightarrow> (case json_field message ''recipientUserId'' of
       Some (JUuid uid) \<Rightarrow>
         (case find_first (\<lambda>c. tg_userId c = uid \<and> tg_status c = ''ACTIVE''
             \<and> find_user uid s \<noteq> None
             \<and> (case find_preference uid s of None \<Rightarrow> False | Some p \<Rightarrow> pref_telegramEnabled p))
             (core_connections s) of
           None \<Rightarrow> Sent
         | Some c \<Rightarrow> (case find_user uid s of
             None \<Rightarrow> Sent
           | Some u \<Rightarrow> (case nextAllowedAt E (env_now E) (user_timeZone u) (find_preference uid s) of
               Inl e \<Rightarrow> Thrown e
             | Inr availableAt \<Rightarrow> if availableAt > env_now E then Deferred message availableAt
                 else thrown_or_sent (send_telegram P message (tg_chatId c)))))
     | _ \<Rightarrow> Thrown (PrismaError ''P2023'')))"

definition json_uuids :: "json list \<Rightarrow> uuid list option" where
  "json_uuids js = those (map (\<lambda>j. case j of JUuid u \<Rightarrow> Some u | _ \<Rightarrow> None) js)"

definition field_or_null :: "(string \<times> json) list \<Rightarrow> string \<Rightarrow> json" where
  "field_or_null ob k = (case json_field ob k of None \<Rightarrow> JNull | Some v \<Rightarrow> v)"

definition deliver_push :: "env \<Rightarrow> providers \<Rightarrow> json \<Rightarrow> 'a core_scheme \<Rightarrow> delivery \<times> 'a core_scheme" where
  "deliver_push E P payload s = (case parsePushPayload payload of
     Inl e \<Rightarrow> (Thrown e, s)
   | Inr message \<Rightarrow> (case field_or_null message ''recipientUserIds'' of
       JArr ids \<Rightarrow> (case json_uuids ids of
           None \<Rightarrow> (Thrown (PrismaError ''P2023''), s)
         | Some uids \<Rightarrow>
             let devices = filter (\<lambda>v. device_userId v \<in> set uids \<and> device_disabledAt v = None)
                   (core_devices s) in
             (case send_push P devices (field_or_null message ''title'') (field_or_null message ''body'')
                 (field_or_null message ''data'') of
               Inl m \<Rightarrow> (Thrown (PlainError m), s)
             | Inr invalid \<Rightarrow> (Sent, if invalid = [] then s else
                 s\<lparr>core_devices := snd (update_many (\<lambda>v. device_id v \<in> set invalid)
                    (\<lambda>v. v\<lparr>device_disabledAt := Some (env_now E)\<rparr>) (core_devices s))\<rparr>)))
     | _ \<Rightarrow> (Thrown (PlainError ''Invalid push outbox payload''), s)))"

definition deliver_email :: "providers \<Rightarrow> json \<Rightarrow> delivery" where
  "deliver_email P payload = (case parseEmailPayload (decrypt_payload P) payload of
     Inl e \<Rightarrow> Thrown e | Inr (to, subject, txt) \<Rightarrow> thrown_or_sent (send_email P to subject txt))"

definition deliver ::
    "env \<Rightarrow> outbox_config \<Rightarrow> providers \<Rightarrow> uuid \<Rightarrow> string \<Rightarrow> json \<Rightarrow> 'a core_scheme \<Rightarrow> 'a core_scheme" where
  "deliver E cfg P i ty payload s = (
     case (if ty = EMAIL then (deliver_email P payload, s)
           else if ty = TELEGRAM then (deliver_telegram E P payload s, s)
           else if ty = PUSH then deliver_push E P payload s
           else (Thrown (PlainError (''Unsupported outbox event type: '' @ ty)), s)) of
       (Thrown e, s') \<Rightarrow> s'\<lparr>core_feed := fail_event E cfg i e (core_feed s')\<rparr>
     | (Sent, s') \<Rightarrow> s'\<lparr>core_feed := mark_delivered E i (core_feed s')\<rparr>
     | (Deferred message availableAt, s') \<Rightarrow>
         s'\<lparr>core_feed := deferTelegram i message availableAt (core_feed s')\<rparr>)"

text \<open>Iteration \<open>index\<close> claims at one instant and delivers at another.\<close>

fun process_from ::
    "(nat \<Rightarrow> env) \<Rightarrow> (nat \<Rightarrow> env) \<Rightarrow> outbox_config \<Rightarrow> (nat \<Rightarrow> providers) \<Rightarrow> nat \<Rightarrow> nat
       \<Rightarrow> 'a core_scheme \<Rightarrow> nat \<times> 'a core_scheme" where
  "process_from Ec Ed cfg P index 0 s = (0, s)"
| "process_from Ec Ed cfg P index (Suc n) s =
    (case claimNext (Ec index) cfg (core_feed s) of
       (None, d) \<Rightarrow> (0, s\<lparr>core_feed := d\<rparr>)
     | (Some event, d) \<Rightarrow>
         (case process_from Ec Ed cfg P (index + 1) n
             (deliver (Ed index) cfg (P index) (event_id event) (event_type event)
               (event_payload event) (s\<lparr>core_feed := d\<rparr>)) of
           (processed, s') \<Rightarrow> (processed + 1, s')))"

definition processAvailable ::
    "(nat \<Rightarrow> env) \<Rightarrow> (nat \<Rightarrow> env) \<Rightarrow> outbox_config \<Rightarrow> (nat \<Rightarrow> providers) \<Rightarrow> nat
       \<Rightarrow> 'a core_scheme \<Rightarrow> nat \<times> 'a core_scheme" where
  "processAvailable Ec Ed cfg P limit s = process_from Ec Ed cfg P 0 limit s"

record outbox_metrics =
  om_generatedAt :: timestamp
  om_pending :: nat
  om_retrying :: nat
  om_processing :: nat
  om_staleProcessing :: nat
  om_delivered :: nat
  om_failed :: nat
  om_oldestPendingAt :: "timestamp option"

definition count_status :: "outbox_status \<Rightarrow> outbox_event list \<Rightarrow> nat" where
  "count_status st es = length (filter (\<lambda>e. event_status e = st) es)"

definition getMetrics :: "env \<Rightarrow> outbox_config \<Rightarrow> feed \<Rightarrow> outbox_metrics" where
  "getMetrics E cfg d = (
     let now = env_now E; staleLockBefore = now - OUTBOX_LOCK_TIMEOUT_MS cfg; es = feed_outbox d in
     \<lparr>om_generatedAt = now, om_pending = count_status PENDING es,
      om_retrying = length (filter (\<lambda>e. event_status e = PENDING \<and> event_attempts e > 0) es),
      om_processing = count_status PROCESSING es,
      om_staleProcessing = length (filter (\<lambda>e. event_status e = PROCESSING
         \<and> locked_before staleLockBefore e) es),
      om_delivered = count_status DELIVERED es, om_failed = count_status FAILED es,
      om_oldestPendingAt = map_option event_createdAt
         (find_first_by event_createdAt (\<lambda>e. event_status e = PENDING) es)\<rparr>)"

subsection \<open>The life of an event\<close>

text \<open>The transitions one event can make, with the configured number of attempts.\<close>

inductive event_step :: "nat \<Rightarrow> outbox_event \<Rightarrow> outbox_event \<Rightarrow> bool" for mx where
  claimed: "event_status e \<in> {PENDING, PROCESSING} \<Longrightarrow>
    event_step mx e (e\<lparr>event_status := PROCESSING, event_lockedAt := Some now\<rparr>)"
| delivered: "event_status e = PROCESSING \<Longrightarrow>
    event_step mx e (e\<lparr>event_status := DELIVERED, event_deliveredAt := Some now, event_lockedAt := None\<rparr>)"
| deferred: "event_status e = PROCESSING \<Longrightarrow>
    event_step mx e (e\<lparr>event_status := PENDING, event_availableAt := t, event_lockedAt := None,
      event_payload := payload\<rparr>)"
| failed: "event_status e = PROCESSING \<Longrightarrow> attempts = event_attempts e + 1 \<Longrightarrow>
    st = (if mx \<le> attempts then FAILED else PENDING) \<Longrightarrow>
    event_step mx e (e\<lparr>event_attempts := attempts, event_status := st, event_availableAt := t,
      event_lockedAt := None, event_lastError := m\<rparr>)"

inductive_cases event_stepE: "event_step mx e e'"

text \<open>Every event of a list moves along its transitions, in place.\<close>

definition evolves :: "nat \<Rightarrow> outbox_event list \<Rightarrow> outbox_event list \<Rightarrow> bool" where
  "evolves mx = list_all2 (event_step mx)\<^sup>*\<^sup>*"

lemma evolves_refl [simp]: "evolves mx es es"
  by (simp add: evolves_def list_all2_same)

lemma evolves_trans: "evolves mx a b \<Longrightarrow> evolves mx b c \<Longrightarrow> evolves mx a c"
  unfolding evolves_def list_all2_conv_all_nth by (metis rtranclp_trans)

lemma evolves_update:
  assumes "\<And>e. e \<in> set (feed_outbox d) \<Longrightarrow> P e \<Longrightarrow> event_step mx e (f e)"
  shows "evolves mx (feed_outbox d) (feed_outbox (snd (update_outbox P f d)))"
  using assms by (auto simp: evolves_def update_outbox_def list_all2_map2 list_all2_same
      intro: r_into_rtranclp)

lemma event_step_id: "event_step mx e e' \<Longrightarrow> event_id e' = event_id e \<and> event_dedupeKey e' = event_dedupeKey e"
  by (erule event_stepE) auto

lemma event_steps_id: "(event_step mx)\<^sup>*\<^sup>* e e' \<Longrightarrow> event_id e' = event_id e \<and> event_dedupeKey e' = event_dedupeKey e"
  by (induction rule: rtranclp_induct) (auto dest: event_step_id)

lemma evolves_keys:
  assumes "evolves mx es es'"
  shows "map event_id es' = map event_id es" "map event_dedupeKey es' = map event_dedupeKey es"
proof -
  have "length es' = length es" using assms by (simp add: evolves_def list_all2_lengthD)
  moreover have "event_id (es' ! i) = event_id (es ! i) \<and> event_dedupeKey (es' ! i) = event_dedupeKey (es ! i)"
    if "i < length es" for i
    by (rule event_steps_id [of mx]) (use assms that in \<open>simp add: evolves_def list_all2_conv_all_nth\<close>)
  ultimately show "map event_id es' = map event_id es" "map event_dedupeKey es' = map event_dedupeKey es"
    by (auto intro: nth_equalityI)
qed

lemmas claim_defs = claimNext_def claim_find_def claim_write_def

lemma claimNext_evolves: "evolves mx (feed_outbox d) (feed_outbox (snd (claimNext E cfg d)))"
proof (cases "find_first_by event_createdAt
    (claimable (env_now E) (env_now E - OUTBOX_LOCK_TIMEOUT_MS cfg)) (feed_outbox d)")
  case (Some ev)
  show ?thesis unfolding claim_defs Let_def Some option.case case_prod_beta snd_conv
    by (rule evolves_update) (auto intro: claimed split: if_splits)
qed (simp add: claim_defs Let_def)

lemma deferTelegram_evolves: "evolves mx (feed_outbox d) (feed_outbox (deferTelegram i m t d))"
  unfolding deferTelegram_def by (rule evolves_update) (auto intro: deferred)

lemma mark_delivered_evolves: "evolves mx (feed_outbox d) (feed_outbox (mark_delivered E i d))"
  unfolding mark_delivered_def by (rule evolves_update) (auto intro: delivered)

lemma fail_event_evolves:
  assumes "distinct (map event_id (feed_outbox d))"
  shows "evolves (OUTBOX_MAX_ATTEMPTS cfg) (feed_outbox d) (feed_outbox (fail_event E cfg i err d))"
proof (cases "find_first (\<lambda>e. event_id e = i) (feed_outbox d)")
  case (Some ev)
  then have ev: "ev \<in> set (feed_outbox d)" "event_id ev = i" by (auto dest: find_SomeD)
  show ?thesis
  proof (cases "event_status ev = PROCESSING")
    case True
    have same: "e = ev" if "e \<in> set (feed_outbox d)" "event_id e = i" for e
      using distinct_key_eq [OF assms that(1) ev(1)] that ev by simp
    have "fail_event E cfg i err d = snd (update_outbox (\<lambda>e. event_id e = i)
       (\<lambda>e. e\<lparr>event_attempts := event_attempts ev + 1,
          event_status := (if OUTBOX_MAX_ATTEMPTS cfg \<le> event_attempts ev + 1 then FAILED else PENDING),
          event_availableAt := env_now E + retry_delay (event_attempts ev + 1),
          event_lockedAt := None, event_lastError := Some (take 500 (error_message err))\<rparr>) d)"
      using True by (simp add: fail_event_def Some Let_def)
    moreover have "e \<in> set (feed_outbox d) \<Longrightarrow> event_id e = i \<Longrightarrow>
        event_step (OUTBOX_MAX_ATTEMPTS cfg) e (e\<lparr>event_attempts := event_attempts ev + 1,
          event_status := (if OUTBOX_MAX_ATTEMPTS cfg \<le> event_attempts ev + 1 then FAILED else PENDING),
          event_availableAt := env_now E + retry_delay (event_attempts ev + 1),
          event_lockedAt := None, event_lastError := Some (take 500 (error_message err))\<rparr>)" for e
      by (rule failed) (auto dest: same simp: True)
    ultimately show ?thesis by (simp only: evolves_update)
  qed (simp add: fail_event_def Some)
qed (simp add: fail_event_def)

lemma deliver_push_feed: "core_feed (snd (deliver_push E P payload s)) = core_feed s"
  by (auto simp: deliver_push_def Let_def split: sum.split json.split option.split)

text \<open>A delivery ends in one of three writes of the outbox.\<close>

lemma deliver_feed_cases:
  "(\<exists>e. core_feed (deliver E cfg P i ty payload s) = fail_event E cfg i e (core_feed s))
   \<or> core_feed (deliver E cfg P i ty payload s) = mark_delivered E i (core_feed s)
   \<or> (\<exists>m t. core_feed (deliver E cfg P i ty payload s) = deferTelegram i m t (core_feed s))"
proof -
  define r where "r = (if ty = EMAIL then (deliver_email P payload, s)
           else if ty = TELEGRAM then (deliver_telegram E P payload s, s)
           else if ty = PUSH then deliver_push E P payload s
           else (Thrown (PlainError (''Unsupported outbox event type: '' @ ty)), s))"
  have "core_feed (snd r) = core_feed s" by (simp add: r_def deliver_push_feed)
  then show ?thesis unfolding deliver_def r_def [symmetric] by (cases r; cases "fst r") auto
qed

lemma deliver_evolves:
  assumes "distinct (map event_id (feed_outbox (core_feed s)))"
  shows "evolves (OUTBOX_MAX_ATTEMPTS cfg) (feed_outbox (core_feed s))
    (feed_outbox (core_feed (deliver E cfg P i ty payload s)))"
  using deliver_feed_cases [of E cfg P i ty payload s] assms
  by (auto simp: fail_event_evolves mark_delivered_evolves deferTelegram_evolves)

lemma process_from_evolves:
  assumes "distinct (map event_id (feed_outbox (core_feed s)))"
  shows "evolves (OUTBOX_MAX_ATTEMPTS cfg) (feed_outbox (core_feed s))
    (feed_outbox (core_feed (snd (process_from Ec Ed cfg P index n s))))"
  using assms
proof (induction n arbitrary: index s)
  case (Suc n)
  obtain r d where c: "claimNext (Ec index) cfg (core_feed s) = (r, d)" by fastforce
  have d: "evolves (OUTBOX_MAX_ATTEMPTS cfg) (feed_outbox (core_feed s)) (feed_outbox d)"
    using claimNext_evolves [of "OUTBOX_MAX_ATTEMPTS cfg" "core_feed s" "Ec index" cfg] c by simp
  show ?case
  proof (cases r)
    case (Some ev)
    let ?s = "s\<lparr>core_feed := d\<rparr>"
    let ?t = "deliver (Ed index) cfg (P index) (event_id ev) (event_type ev) (event_payload ev) ?s"
    have "distinct (map event_id (feed_outbox (core_feed ?s)))"
      using Suc.prems evolves_keys(1) [OF d] by simp
    note t = deliver_evolves [OF this, of cfg "Ed index" "P index" "event_id ev" "event_type ev" "event_payload ev"]
    have "distinct (map event_id (feed_outbox (core_feed ?t)))"
      using Suc.prems evolves_keys(1) [OF d] evolves_keys(1) [OF t] by simp
    from Suc.IH [OF this, of "index + 1"] t d show ?thesis
      by (auto simp: c Some split: prod.split intro: evolves_trans)
  qed (use d c in simp)
qed simp

subsection \<open>Invariants of the outbox\<close>

definition event_ok :: "nat \<Rightarrow> outbox_event \<Rightarrow> bool" where
  "event_ok mx e \<longleftrightarrow> (event_status e = FAILED \<longleftrightarrow> mx \<le> event_attempts e) \<and> event_attempts e \<le> mx
     \<and> (event_status e = PROCESSING \<longleftrightarrow> event_lockedAt e \<noteq> None)
     \<and> (event_status e = DELIVERED \<longleftrightarrow> event_deliveredAt e \<noteq> None)"

definition outbox_ok :: "nat \<Rightarrow> feed \<Rightarrow> bool" where
  "outbox_ok mx d \<longleftrightarrow> (\<forall>e \<in> set (feed_outbox d). event_ok mx e \<and> event_id e < feed_nextId d)
     \<and> distinct (map event_id (feed_outbox d))
     \<and> distinct (List.map_filter event_dedupeKey (feed_outbox d))"

lemma event_step_ok: "event_step mx e e' \<Longrightarrow> event_ok mx e \<Longrightarrow> event_ok mx e'"
  by (induction rule: event_step.induct) (auto simp: event_ok_def)

lemma event_steps_ok: "(event_step mx)\<^sup>*\<^sup>* e e' \<Longrightarrow> event_ok mx e \<Longrightarrow> event_ok mx e'"
  by (induction rule: rtranclp_induct) (auto intro: event_step_ok)

lemma map_filter_map_eq:
  assumes "map f xs = map f ys"
  shows "List.map_filter f xs = List.map_filter f ys"
proof -
  have "List.map_filter f zs = map the (filter (\<lambda>v. v \<noteq> None) (map f zs))" for zs
    by (induction zs) (auto simp: map_filter_simps)
  with assms show ?thesis by metis
qed

lemma evolves_ok:
  assumes ev: "evolves mx (feed_outbox d) (feed_outbox d')" and ok: "outbox_ok mx d"
    and "feed_nextId d' = feed_nextId d"
  shows "outbox_ok mx d'"
proof -
  have "event_ok mx e' \<and> event_id e' < feed_nextId d" if e': "e' \<in> set (feed_outbox d')" for e'
  proof -
    obtain e where "e \<in> set (feed_outbox d)" "(event_step mx)\<^sup>*\<^sup>* e e'"
      using e' ev unfolding evolves_def list_all2_conv_all_nth by (metis in_set_conv_nth)
    then show ?thesis using ok event_steps_ok event_steps_id unfolding outbox_ok_def by metis
  qed
  then show ?thesis using assms evolves_keys [OF ev] map_filter_map_eq
    unfolding outbox_ok_def by metis
qed

lemma outbox_nextId [simp]:
  "feed_nextId (snd (update_outbox P f d)) = feed_nextId d"
  "feed_nextId (snd (claimNext E cfg d)) = feed_nextId d"
  "feed_nextId (deferTelegram i m t d) = feed_nextId d"
  "feed_nextId (mark_delivered E i d) = feed_nextId d"
  "feed_nextId (fail_event E cfg i err d) = feed_nextId d"
  by (auto simp: update_outbox_def claim_defs deferTelegram_def mark_delivered_def
      fail_event_def Let_def split: option.split)

lemma deliver_nextId: "feed_nextId (core_feed (deliver E cfg P i ty payload s)) = feed_nextId (core_feed s)"
  using deliver_feed_cases [of E cfg P i ty payload s] by auto

lemma process_from_nextId:
  "feed_nextId (core_feed (snd (process_from Ec Ed cfg P index n s))) = feed_nextId (core_feed s)"
proof (induction n arbitrary: index s)
  case (Suc n)
  obtain r d where c: "claimNext (Ec index) cfg (core_feed s) = (r, d)" by fastforce
  then have "feed_nextId d = feed_nextId (core_feed s)"
    using outbox_nextId(2) [of "Ec index" cfg "core_feed s"] by simp
  then show ?case using c Suc
    by (cases r) (simp_all add: deliver_nextId case_prod_beta)
qed simp

lemma map_filter_append: "List.map_filter f (xs @ ys) = List.map_filter f xs @ List.map_filter f ys"
  by (simp add: map_filter_def)

lemma in_map_filter: "k \<in> set (List.map_filter f xs) \<longleftrightarrow> (\<exists>x \<in> set xs. f x = Some k)"
  by (force simp: map_filter_def)

lemma create_event_ok:
  assumes ok: "outbox_ok mx d" and "0 < mx"
    and new: "\<And>k. dedupe = Some k \<Longrightarrow> \<forall>e \<in> set (feed_outbox d). event_dedupeKey e \<noteq> Some k"
  shows "outbox_ok mx (create_event E ty dedupe payload t d)"
proof -
  let ?n = "new_event E (feed_nextId d) ty dedupe payload t"
  have n: "event_id ?n = feed_nextId d" "event_dedupeKey ?n = dedupe" "event_ok mx ?n"
    using assms(2) by (simp_all add: new_event_def event_ok_def)
  have d: "feed_outbox (create_event E ty dedupe payload t d) = feed_outbox d @ [?n]"
    "feed_nextId (create_event E ty dedupe payload t d) = feed_nextId d + 1"
    by (simp_all add: create_event_def)
  have k: "List.map_filter event_dedupeKey [?n] = (case dedupe of None \<Rightarrow> [] | Some k \<Rightarrow> [k])"
    by (simp add: map_filter_simps n split: option.split)
  have "distinct (List.map_filter event_dedupeKey (feed_outbox d @ [?n]))"
    unfolding map_filter_append k using ok new
    by (auto simp: outbox_ok_def in_map_filter split: option.split)
  moreover have "distinct (map event_id (feed_outbox d @ [?n]))"
    using ok n by (auto simp: outbox_ok_def)
  ultimately show ?thesis unfolding outbox_ok_def d using ok n
    by (auto simp: outbox_ok_def less_SucI)
qed

text \<open>The feeds the application can reach: enqueueing in any service, the worker's rounds, and
  changes that leave the outbox table alone.\<close>

inductive outbox_reachable :: "outbox_config \<Rightarrow> 'a core_scheme \<Rightarrow> bool" for cfg where
  start: "feed_outbox (core_feed s) = [] \<Longrightarrow> outbox_reachable cfg s"
| email: "outbox_reachable cfg s \<Longrightarrow>
    outbox_reachable cfg (s\<lparr>core_feed := enqueueEmail E m (core_feed s)\<rparr>)"
| telegram: "outbox_reachable cfg s \<Longrightarrow>
    outbox_reachable cfg (s\<lparr>core_feed := enqueueTelegram E tm (core_feed s)\<rparr>)"
| push: "outbox_reachable cfg s \<Longrightarrow>
    outbox_reachable cfg (s\<lparr>core_feed := enqueuePush E pm (core_feed s)\<rparr>)"
| work: "outbox_reachable cfg s \<Longrightarrow>
    outbox_reachable cfg (snd (processAvailable Ec Ed cfg P limit s))"
| other: "outbox_reachable cfg s \<Longrightarrow> feed_outbox (core_feed s') = feed_outbox (core_feed s) \<Longrightarrow>
    feed_nextId (core_feed s) \<le> feed_nextId (core_feed s') \<Longrightarrow> outbox_reachable cfg s'"

text \<open>C37. In every reachable database each event has spent at most the configured number of
  attempts, is \<open>FAILED\<close> exactly when they are used up, holds a lock exactly while it is being
  processed and a delivery date exactly when delivered; ids and push dedupe keys stay unique.\<close>

theorem outbox_reachable_ok:
  assumes "outbox_reachable cfg s" and "0 < OUTBOX_MAX_ATTEMPTS cfg"
  shows "outbox_ok (OUTBOX_MAX_ATTEMPTS cfg) (core_feed s)"
  using assms(1)
proof (induction rule: outbox_reachable.induct)
  case (start s)
  then show ?case by (simp add: outbox_ok_def map_filter_simps)
next
  case (push s E pm)
  then show ?case using assms(2) by (auto simp: enqueuePush_def intro!: create_event_ok)
next
  case (work s Ec Ed P limit)
  then have "distinct (map event_id (feed_outbox (core_feed s)))" by (simp add: outbox_ok_def)
  from evolves_ok [OF process_from_evolves [OF this] work.IH process_from_nextId]
  show ?case by (simp add: processAvailable_def)
next
  case (other s s')
  then show ?case by (auto simp: outbox_ok_def)
qed (use assms(2) in \<open>auto simp: enqueueEmail_def enqueueTelegram_def intro!: create_event_ok\<close>)

definition outbox_default :: outbox_config where
  "outbox_default = \<lparr>OUTBOX_MAX_ATTEMPTS = 5, OUTBOX_LOCK_TIMEOUT_MS = 300000\<rparr>"

definition empty_core :: core where
  "empty_core = \<lparr>core_users = [], core_families = [], core_members = [], core_preferences = [],
     core_connections = [], core_devices = [], core_feed = empty_feed, core_nextId = 0\<rparr>"

lemma outbox_reachable_ok_witness:
  "outbox_ok 5 (core_feed (empty_core\<lparr>core_feed := enqueueEmail moscow_env
     \<lparr>em_to = ''a@b.c'', em_subject = ''s'', em_text = Some ''t'', em_encryptedText = None\<rparr> empty_feed\<rparr>))"
proof -
  have "outbox_reachable outbox_default empty_core"
    by (rule start) (simp add: empty_core_def empty_feed_def)
  from outbox_reachable_ok [OF email [OF this]] show ?thesis
    by (simp add: outbox_default_def empty_core_def)
qed

lemma event_steps_terminal:
  "(event_step mx)\<^sup>*\<^sup>* e e' \<Longrightarrow> event_status e \<in> {DELIVERED, FAILED} \<Longrightarrow> e' = e"
  by (induction rule: rtranclp_induct) (auto elim: event_stepE)

text \<open>\<open>DELIVERED\<close> and \<open>FAILED\<close> are final: no round of the worker, with whatever outcomes of the
  providers, changes such an event in any column, or removes it.\<close>

theorem outbox_terminal_kept:
  assumes "distinct (map event_id (feed_outbox (core_feed s)))"
    and "e \<in> set (feed_outbox (core_feed s))" and "event_status e \<in> {DELIVERED, FAILED}"
  shows "e \<in> set (feed_outbox (core_feed (snd (processAvailable Ec Ed cfg P limit s))))"
proof -
  obtain i where i: "i < length (feed_outbox (core_feed s))" "feed_outbox (core_feed s) ! i = e"
    using assms(2) by (meson in_set_conv_nth)
  note ev = process_from_evolves [OF assms(1), of cfg Ec Ed P 0 limit, folded processAvailable_def]
  from ev i have "(event_step (OUTBOX_MAX_ATTEMPTS cfg))\<^sup>*\<^sup>* e
      (feed_outbox (core_feed (snd (processAvailable Ec Ed cfg P limit s))) ! i)"
    by (auto simp: evolves_def list_all2_conv_all_nth)
  with assms(3) event_steps_terminal
  have "feed_outbox (core_feed (snd (processAvailable Ec Ed cfg P limit s))) ! i = e" by blast
  then show ?thesis using ev i by (metis evolves_def list_all2_lengthD nth_mem)
qed

text \<open>One exhausted event beside a fresh one, and providers that never fail.\<close>

definition sample_event :: "uuid \<Rightarrow> outbox_status \<Rightarrow> nat \<Rightarrow> outbox_event" where
  "sample_event i st n = \<lparr>event_id = i, event_type = EMAIL, event_dedupeKey = None,
     event_payload = email_json \<lparr>em_to = ''a@b.c'', em_subject = ''s'', em_text = Some ''t'', em_encryptedText = None\<rparr>,
     event_status = st, event_attempts = n, event_availableAt = 0, event_lockedAt = None,
     event_deliveredAt = None, event_lastError = None, event_createdAt = int i\<rparr>"

definition sample_outbox :: core where
  "sample_outbox = empty_core\<lparr>core_feed := empty_feed\<lparr>feed_outbox := [sample_event 1 FAILED 5, sample_event 2 PENDING 0],
     feed_nextId := 3\<rparr>\<rparr>"

definition good_providers :: providers where
  "good_providers = \<lparr>send_email = (\<lambda>_ _ _. None), send_telegram = (\<lambda>_ _. None),
     send_push = (\<lambda>_ _ _ _. Inr []), decrypt_payload = Inr\<rparr>"

lemma outbox_terminal_kept_witness:
  "sample_event 1 FAILED 5 \<in> set (feed_outbox (core_feed (snd (processAvailable
     (\<lambda>_. moscow_env) (\<lambda>_. moscow_env) outbox_default (\<lambda>_. good_providers) 20 sample_outbox))))"
  by (rule outbox_terminal_kept)
    (simp_all add: sample_outbox_def sample_event_def empty_core_def empty_feed_def)

lemma update_outbox_count:
  "fst (update_outbox P f d) = length (filter P (feed_outbox d))"
  by (simp add: update_outbox_def)

lemma claimNext_Some:
  assumes "claimNext E cfg d = (Some ev, d')"
  shows "ev \<in> set (feed_outbox d) \<and> claimable (env_now E) (env_now E - OUTBOX_LOCK_TIMEOUT_MS cfg) ev
    \<and> ev\<lparr>event_status := PROCESSING, event_lockedAt := Some (env_now E)\<rparr> \<in> set (feed_outbox d')"
proof -
  let ?stale = "env_now E - OUTBOX_LOCK_TIMEOUT_MS cfg"
  obtain x where x: "find_first_by event_createdAt (claimable (env_now E) ?stale) (feed_outbox d) = Some x"
    using assms by (auto simp: claim_defs Let_def split: option.splits)
  then have c: "x \<in> set (feed_outbox d)" "claimable (env_now E) ?stale x"
    by (auto dest: find_first_by_SomeD)
  let ?f = "\<lambda>e. e\<lparr>event_status := PROCESSING, event_lockedAt := Some (env_now E)\<rparr>"
  let ?P = "\<lambda>e. event_id e = event_id x \<and> (if event_status x = PENDING then event_status e = PENDING
            else event_status e = PROCESSING \<and> locked_before ?stale e)"
  have "claimNext E cfg d = (if fst (update_outbox ?P ?f d) = 1 then Some x else None,
      snd (update_outbox ?P ?f d))"
    by (simp add: claim_defs Let_def x case_prod_beta)
  with assms have "x = ev" and d': "d' = snd (update_outbox ?P ?f d)" by (auto split: if_splits)
  moreover have "?P x" using c(2) by (auto simp: claimable_def)
  then have "?f x \<in> set (feed_outbox d')" using c(1) by (force simp: d' update_outbox_def)
  ultimately show ?thesis using c by simp
qed

text \<open>What may happen while a worker holds the claim on event \<open>i\<close>: the statements of other claims with clocks before the
  timeout of the lock, each with whatever event it has read before, outcomes of other events, new events, and
  changes of other tables.\<close>

inductive held_step :: "outbox_config \<Rightarrow> timestamp \<Rightarrow> uuid \<Rightarrow> feed \<Rightarrow> feed \<Rightarrow> bool" for cfg timeout i where
  other_claim: "env_now E < timeout \<Longrightarrow> held_step cfg timeout i d (snd (claim_write E cfg read_event d))"
| other_delivered: "j \<noteq> i \<Longrightarrow> held_step cfg timeout i d (mark_delivered E j d)"
| other_failed: "j \<noteq> i \<Longrightarrow> held_step cfg timeout i d (fail_event E cfg j err d)"
| other_deferred: "j \<noteq> i \<Longrightarrow> held_step cfg timeout i d (deferTelegram j message t d)"
| new_event: "held_step cfg timeout i d (create_event E ty dedupe payload t d)"
| other_table: "feed_outbox d' = feed_outbox d \<Longrightarrow> feed_nextId d \<le> feed_nextId d' \<Longrightarrow> held_step cfg timeout i d d'"

definition held_since :: "timestamp \<Rightarrow> uuid \<Rightarrow> feed \<Rightarrow> bool" where
  "held_since t i d \<longleftrightarrow> i < feed_nextId d
     \<and> (\<forall>e \<in> set (feed_outbox d). event_id e = i \<longrightarrow> event_status e = PROCESSING \<and> event_lockedAt e = Some t)"

lemma update_outbox_none: "(\<And>e. e \<in> set (feed_outbox d) \<Longrightarrow> \<not> P e) \<Longrightarrow> update_outbox P f d = (0, d)"
  by (simp add: update_outbox_def update_many_def map_idI)

lemma held_claim_refused:
  assumes "held_since t i d" "env_now E < t + OUTBOX_LOCK_TIMEOUT_MS cfg" "event_id read_event = i"
  shows "claim_write E cfg read_event d = (None, d)"
  unfolding claim_write_def Let_def
proof (subst update_outbox_none)
  show "\<not> (event_id e = event_id read_event \<and> (if event_status read_event = PENDING then event_status e = PENDING
      else event_status e = PROCESSING \<and> locked_before (env_now E - OUTBOX_LOCK_TIMEOUT_MS cfg) e))"
    if "e \<in> set (feed_outbox d)" for e
    using assms that by (auto simp: held_since_def locked_before_def)
qed simp

lemma held_update:
  assumes "held_since t i d" "\<And>e. P e \<Longrightarrow> event_id e \<noteq> i" "\<And>e. event_id (f e) = event_id e"
  shows "held_since t i (snd (update_outbox P f d))"
  using assms by (fastforce simp: held_since_def update_outbox_def)

lemma held_step_keeps:
  assumes "held_step cfg (t + OUTBOX_LOCK_TIMEOUT_MS cfg) i d d'" "held_since t i d"
  shows "held_since t i d'"
  using assms
proof (induction rule: held_step.induct)
  case (other_claim E d read_event)
  show ?case
  proof (cases "event_id read_event = i")
    case True
    then show ?thesis using held_claim_refused [OF other_claim(2,1)] other_claim(2) by simp
  next
    case False
    then show ?thesis unfolding claim_write_def Let_def case_prod_beta snd_conv
      by (intro held_update other_claim(2)) auto
  qed
next
  case (other_failed j d E err)
  then show ?case
    by (auto simp: fail_event_def Let_def intro!: held_update split: option.split)
next
  case (new_event d E ty dedupe payload t)
  then show ?case by (auto simp: held_since_def create_event_def new_event_def)
next
  case (other_table d' d)
  then show ?case by (auto simp: held_since_def)
qed (auto simp: mark_delivered_def deferTelegram_def intro!: held_update)

lemma claim_write_Some: "claim_write E cfg c d = (Some b, d') \<Longrightarrow> b = c"
  by (auto simp: claim_write_def Let_def split: prod.splits if_splits)

lemma claimed_held:
  assumes "outbox_ok mx d" "claim_write E1 cfg read_event d = (Some a, d1)"
  shows "held_since (env_now E1) (event_id a) d1"
proof -
  define P where "P = (\<lambda>e. event_id e = event_id read_event \<and> (if event_status read_event = PENDING then event_status e = PENDING
      else event_status e = PROCESSING \<and> locked_before (env_now E1 - OUTBOX_LOCK_TIMEOUT_MS cfg) e))"
  let ?f = "\<lambda>e. e\<lparr>event_status := PROCESSING, event_lockedAt := Some (env_now E1)\<rparr>"
  have "claim_write E1 cfg read_event d
      = (if length (filter P (feed_outbox d)) = 1 then Some read_event else None, snd (update_outbox P ?f d))"
    unfolding P_def claim_write_def Let_def case_prod_beta update_outbox_count ..
  with assms(2) have a: "read_event = a" and d1: "d1 = snd (update_outbox P ?f d)" and one: "length (filter P (feed_outbox d)) = 1"
    by (auto split: if_splits)
  have "0 < length (filter P (feed_outbox d))" using one by simp
  then obtain x where x: "x \<in> set (feed_outbox d)" "P x" unfolding length_filter_pos_iff by blast
  have id: "event_id e = event_id a" if "P e" for e using that by (simp add: P_def a)
  have same: "e = x" if "e \<in> set (feed_outbox d)" "event_id e = event_id a" for e
    using assms(1) x that id distinct_key_eq [of event_id "feed_outbox d" e x] by (simp add: outbox_ok_def)
  have row: "event_status e = PROCESSING \<and> event_lockedAt e = Some (env_now E1)"
    if e: "e \<in> set (feed_outbox d1)" "event_id e = event_id a" for e
  proof -
    from e(1) obtain y where y: "y \<in> set (feed_outbox d)" "e = (if P y then ?f y else y)"
      by (auto simp: d1 update_outbox_def)
    then have "event_id y = event_id a" using e(2) by (simp split: if_splits)
    then show ?thesis using y x(2) same by simp
  qed
  have "event_id x < feed_nextId d1" using assms(1) x(1) by (simp add: d1 outbox_ok_def)
  then show ?thesis using row id [OF x(2)] by (simp add: held_since_def)
qed

text \<open>C38. A claim is exclusive until its lock times out: after one worker has claimed an event, and whatever other
  workers read and write meanwhile, no claim with a clock before the timeout gets the event, not even with a row read
  before the first claim was written; the second statement of \<open>claimNext\<close> then writes nothing.  The claim ends earlier
  only when an outcome of the event itself is recorded.\<close>

theorem claim_exclusive:
  assumes "outbox_ok mx d" "claim_write E1 cfg read_event d = (Some a, d1)"
    and "(held_step cfg (env_now E1 + OUTBOX_LOCK_TIMEOUT_MS cfg) (event_id a))\<^sup>*\<^sup>* d1 d2"
    and "env_now E2 < env_now E1 + OUTBOX_LOCK_TIMEOUT_MS cfg"
  shows "(\<forall>b. event_id b = event_id a \<longrightarrow> claim_write E2 cfg b d2 = (None, d2))
    \<and> (\<forall>b d3. claimNext E2 cfg d2 = (Some b, d3) \<longrightarrow> event_id b \<noteq> event_id a)"
proof -
  from assms(3) have held: "held_since (env_now E1) (event_id a) d2"
    by (induction rule: rtranclp_induct) (auto intro: held_step_keeps claimed_held [OF assms(1,2)])
  note refused = held_claim_refused [OF this assms(4)]
  have "event_id b \<noteq> event_id a" if got: "claimNext E2 cfg d2 = (Some b, d3)" for b d3
  proof
    assume b: "event_id b = event_id a"
    obtain c where c: "claim_write E2 cfg c d2 = (Some b, d3)" using got by (auto simp: claimNext_def split: option.splits)
    with refused [of b] claim_write_Some [OF c] b show False by simp
  qed
  then show ?thesis using refused by blast
qed

definition two_pending :: feed where
  "two_pending = empty_feed\<lparr>feed_outbox := [sample_event 1 PENDING 0, sample_event 2 PENDING 0], feed_nextId := 3\<rparr>"

definition after_first_claim :: feed where
  "after_first_claim = snd (claimNext moscow_env outbox_default two_pending)"

lemma claims_in_order:
  "claim_write moscow_env outbox_default (sample_event 1 PENDING 0) two_pending = (Some (sample_event 1 PENDING 0), after_first_claim)"
  "claimNext moscow_env outbox_default two_pending = (Some (sample_event 1 PENDING 0), after_first_claim)"
  by (simp_all add: after_first_claim_def claim_defs two_pending_def empty_feed_def sample_event_def
      find_first_by_def claimable_def locked_before_def moscow_env_def outbox_default_def
      update_outbox_def sort_key_def)

text \<open>A second worker that had read the event before the first one claimed it, and wrote another event meanwhile.\<close>

lemma claim_exclusive_witness:
  "claim_write moscow_env outbox_default (sample_event 1 PENDING 0)
     (snd (claim_write moscow_env outbox_default (sample_event 2 PENDING 0) after_first_claim))
   = (None, snd (claim_write moscow_env outbox_default (sample_event 2 PENDING 0) after_first_claim))"
proof -
  have ok: "outbox_ok 5 two_pending"
    by (simp add: outbox_ok_def two_pending_def sample_event_def event_ok_def map_filter_simps)
  have later: "env_now moscow_env < env_now moscow_env + OUTBOX_LOCK_TIMEOUT_MS outbox_default" by (simp add: outbox_default_def)
  have "held_step outbox_default (env_now moscow_env + OUTBOX_LOCK_TIMEOUT_MS outbox_default) (event_id (sample_event 1 PENDING 0))
      after_first_claim (snd (claim_write moscow_env outbox_default (sample_event 2 PENDING 0) after_first_claim))"
    using later by (rule other_claim)
  from claim_exclusive [OF ok claims_in_order(1) r_into_rtranclp [where r = "held_step _ _ _", OF this] later] show ?thesis by blast
qed

lemma retry_delay_bounds: "0 < n \<Longrightarrow> 2000 \<le> retry_delay n \<and> retry_delay n \<le> 60000"
proof -
  assume "0 < n"
  then have "(2::int) ^ 1 \<le> 2 ^ min n 6" by (intro power_increasing) auto
  then show ?thesis by (simp add: retry_delay_def)
qed

text \<open>A failed delivery spends one attempt of exactly the failed event: below the limit the
  event waits between two and sixty seconds and can be claimed as soon as that time has come,
  not before; at the limit it is \<open>FAILED\<close> and can never be claimed again.\<close>

theorem fail_event_retries:
  assumes "distinct (map event_id (feed_outbox d))" and "e \<in> set (feed_outbox d)"
    and "event_status e = PROCESSING"
  shows "\<exists>e'. find_first (\<lambda>x. event_id x = event_id e) (feed_outbox (fail_event E cfg (event_id e) err d)) = Some e'
    \<and> feed_outbox (fail_event E cfg (event_id e) err d) = map (\<lambda>x. if x = e then e' else x) (feed_outbox d)
    \<and> event_attempts e' = event_attempts e + 1
    \<and> (if event_attempts e + 1 < OUTBOX_MAX_ATTEMPTS cfg
       then \<exists>w. 2000 \<le> w \<and> w \<le> 60000 \<and> (\<forall>now stale. claimable now stale e' \<longleftrightarrow> env_now E + w \<le> now)
       else event_status e' = FAILED \<and> (\<forall>now stale. \<not> claimable now stale e'))"
proof -
  let ?k = "event_attempts e + 1"
  let ?w = "retry_delay ?k"
  let ?f = "\<lambda>x. x\<lparr>event_attempts := ?k,
          event_status := (if OUTBOX_MAX_ATTEMPTS cfg \<le> ?k then FAILED else PENDING),
          event_availableAt := env_now E + ?w, event_lockedAt := None,
          event_lastError := Some (take 500 (error_message err))\<rparr>"
  have "find_first (\<lambda>x. event_id x = event_id e) (feed_outbox d) = Some e"
    by (rule find_unique_key [OF assms(1,2)]) simp_all
  then have d': "feed_outbox (fail_event E cfg (event_id e) err d)
      = map (\<lambda>x. if event_id x = event_id e then ?f x else x) (feed_outbox d)"
    using assms(3) by (simp add: fail_event_def Let_def update_outbox_def)
  have "map event_id (map (\<lambda>x. if event_id x = event_id e then ?f x else x) (feed_outbox d))
      = map event_id (feed_outbox d)" by simp
  then have "distinct (map event_id (map (\<lambda>x. if event_id x = event_id e then ?f x else x) (feed_outbox d)))"
    using assms(1) by (simp only:)
  then have "find_first (\<lambda>x. event_id x = event_id e) (feed_outbox (fail_event E cfg (event_id e) err d)) = Some (?f e)"
    unfolding d' by (rule find_unique_key) (use assms(2) in auto)
  moreover have "feed_outbox (fail_event E cfg (event_id e) err d) = map (\<lambda>x. if x = e then ?f e else x) (feed_outbox d)"
    unfolding d' by (rule map_cong [OF refl]) (use distinct_key_eq [OF assms(1) _ assms(2)] in auto)
  moreover have "claimable now stale (?f e) \<longleftrightarrow> \<not> OUTBOX_MAX_ATTEMPTS cfg \<le> ?k \<and> env_now E + ?w \<le> now"
    for now stale by (auto simp: claimable_def)
  moreover have "2000 \<le> ?w \<and> ?w \<le> 60000" by (rule retry_delay_bounds) simp
  ultimately show ?thesis by (intro exI [of _ "?f e"]) (auto simp: not_le)
qed

lemma fail_event_retries_witness:
  "\<exists>e'. find_first (\<lambda>x. event_id x = 1) (feed_outbox (fail_event moscow_env outbox_default 1 P2025
       (empty_feed\<lparr>feed_outbox := [sample_event 1 PROCESSING 3]\<rparr>))) = Some e'
    \<and> feed_outbox (fail_event moscow_env outbox_default 1 P2025
       (empty_feed\<lparr>feed_outbox := [sample_event 1 PROCESSING 3]\<rparr>)) = [e']
    \<and> event_attempts e' = 3 + 1
    \<and> (if 3 + 1 < OUTBOX_MAX_ATTEMPTS outbox_default
       then \<exists>w. 2000 \<le> w \<and> w \<le> 60000 \<and> (\<forall>now stale. claimable now stale e' \<longleftrightarrow> env_now moscow_env + w \<le> now)
       else event_status e' = FAILED \<and> (\<forall>now stale. \<not> claimable now stale e'))"
  using fail_event_retries [of "empty_feed\<lparr>feed_outbox := [sample_event 1 PROCESSING 3]\<rparr>"
      "sample_event 1 PROCESSING 3" moscow_env outbox_default P2025]
  by (simp add: sample_event_def)

subsection \<open>Who is notified\<close>

text \<open>The inbox entries a dispatch adds, and that the other feeds keep theirs.\<close>

definition in_app :: "recipient \<Rightarrow> bool" where
  "in_app u = (case rcp_preference u of None \<Rightarrow> True | Some p \<Rightarrow> pref_inAppEnabled p)"

lemma dispatch_notifies:
  "dispatchToRecipient E input u d = (r, d') \<Longrightarrow>
     map notif_userId (feed_notifications d') = map notif_userId (feed_notifications d)
       @ (if in_app u then [dn_userId input] else [])
     \<and> feed_audits d' = feed_audits d"
  by (auto simp: dispatchToRecipient_def Let_def in_app_def enqueueTelegram_def create_event_def
      split: if_splits option.splits sum.splits)

lemma dispatch_all_notifies:
  "dispatch_all E xs d = (Inr (), d') \<Longrightarrow>
     map notif_userId (feed_notifications d') = map notif_userId (feed_notifications d)
       @ map (dn_userId \<circ> fst) (filter (in_app \<circ> snd) xs)"
proof (induction E xs d rule: dispatch_all.induct)
  case (2 E input u rest d)
  obtain r d1 where d1: "dispatchToRecipient E input u d = (r, d1)" by fastforce
  with 2 show ?case using dispatch_notifies [OF d1] by (cases r) auto
qed simp

text \<open>When \<open>notifyFamilyMembers\<close> succeeds, the inbox has grown by exactly one entry for every
  other member of the family who has not switched the inbox off, in the order of the members,
  and by none for the actor; when it throws, nothing at all was written.\<close>

theorem notifyFamilyMembers_recipients:
  "case notifyFamilyMembers E familyId actorId ty title body s of
      (Inl e, s') \<Rightarrow> s' = s
    | (Inr _, s') \<Rightarrow> map notif_userId (feed_notifications (core_feed s'))
        = map notif_userId (feed_notifications (core_feed s)) @ map user_id
            (filter (\<lambda>u. user_id u \<noteq> actorId \<and> in_app (recipient_of s u)) (member_users familyId s))"
proof -
  define others where
    "others = filter (\<lambda>u. user_id u \<noteq> actorId \<and> in_app (recipient_of s u)) (member_users familyId s)"
  let ?rs = "filter (\<lambda>u. user_id u \<noteq> actorId) (member_users familyId s)"
  let ?n = "\<lambda>u. (\<lparr>dn_userId = user_id u, dn_familyId = Some familyId, dn_type = ty, dn_title = title,
           dn_body = body\<rparr>, recipient_of s u)"
  have o: "map user_id others = map (dn_userId \<circ> fst) (filter (in_app \<circ> snd) (map ?n ?rs))"
    by (simp add: others_def filter_map o_def conj_commute)
  show ?thesis
  proof (cases "?rs = []")
    case True
    then have "others = []" by (auto simp: others_def filter_empty_conv)
    then show ?thesis using True unfolding others_def [symmetric] by (simp add: notifyFamilyMembers_def)
  next
    case False
    obtain r d where d: "dispatch_all E (map ?n ?rs) (core_feed s) = (r, d)" by fastforce
    have "notifyFamilyMembers E familyId actorId ty title body s
        = transaction s (r, s\<lparr>core_feed := d\<rparr>)"
      using False d by (simp add: notifyFamilyMembers_def on_feed_def Let_def)
    then show ?thesis using dispatch_all_notifies [of E "map ?n ?rs" "core_feed s" d] d o
      unfolding others_def [symmetric] by (cases r) auto
  qed
qed

end
