(* ===== verification/Wallets.thy ===== *)
theory Wallets
  imports Outbox
begin

text \<open>
  The financial tables (\<open>prisma/schema.prisma\<close>) and \<open>modules/finance/wallets.service.ts\<close>.
  The record \<open>finance_db\<close> adds the tables of wallets, categories, budgets, ledger
  transactions with their entries, command results, goals and contributions to the shared
  ones; the services of the other finance theories work on it too.

  Amounts are decimal strings at the API and BigInt inside; the model keeps the integers.
\<close>

subsection \<open>Rows\<close>

datatype wallet_type = WPersonal | WFamily
datatype wallet_visibility = WvPrivate | WvPartner | WvFamily

record wallet =
  wallet_id :: uuid
  wallet_familyId :: uuid
  wallet_ownerId :: "uuid option"
  wallet_createdById :: uuid
  wallet_type :: wallet_type
  wallet_visibility :: wallet_visibility
  wallet_name :: string
  wallet_currency :: string
  wallet_version :: int
  wallet_archivedAt :: "timestamp option"
  wallet_createdAt :: timestamp

datatype category_kind = KIncome | KExpense

record category =
  cat_id :: uuid
  cat_familyId :: uuid
  cat_createdById :: uuid
  cat_name :: string
  cat_kind :: category_kind
  cat_version :: int
  cat_archivedAt :: "timestamp option"
  cat_createdAt :: timestamp

record budget =
  budget_id :: uuid
  budget_familyId :: uuid
  budget_categoryId :: uuid
  budget_createdById :: uuid
  budget_periodStart :: timestamp
  budget_limitMinor :: int
  budget_version :: int
  budget_createdAt :: timestamp

datatype transaction_type = INCOME | EXPENSE | TRANSFER | REVERSAL

record ledger_entry =
  entry_walletId :: "uuid option"
  entry_amountMinor :: int

record ledger_transaction =
  ltx_id :: uuid
  ltx_familyId :: uuid
  ltx_createdById :: uuid
  ltx_type :: transaction_type
  ltx_currency :: string
  ltx_occurredAt :: timestamp
  ltx_note :: "string option"
  ltx_reversesId :: "uuid option"
  ltx_categoryId :: "uuid option"
  ltx_createdAt :: timestamp
  ltx_entries :: "ledger_entry list"

record command_result =
  cmd_userId :: uuid
  cmd_scope :: string
  cmd_key :: string
  cmd_requestHash :: string
  cmd_transactionId :: uuid

record goal =
  goal_id :: uuid
  goal_familyId :: uuid
  goal_walletId :: uuid
  goal_createdById :: uuid
  goal_title :: string
  goal_targetAmountMinor :: int
  goal_targetDate :: "timestamp option"
  goal_achievedAt :: "timestamp option"
  goal_version :: int
  goal_archivedAt :: "timestamp option"
  goal_createdAt :: timestamp

record contribution =
  contrib_id :: uuid
  contrib_goalId :: uuid
  contrib_transactionId :: uuid
  contrib_createdById :: uuid

record finance_db = core +
  fin_wallets :: "wallet list"
  fin_categories :: "category list"
  fin_budgets :: "budget list"
  fin_transactions :: "ledger_transaction list"
  fin_commands :: "command_result list"
  fin_goals :: "goal list"
  fin_contributions :: "contribution list"

text \<open>Postgres orders an enum by the position of its values.\<close>

instantiation wallet_type :: linorder
begin

fun wallet_type_rank :: "wallet_type \<Rightarrow> nat" where
  "wallet_type_rank WPersonal = 0"
| "wallet_type_rank WFamily = 1"

definition less_eq_wallet_type :: "wallet_type \<Rightarrow> wallet_type \<Rightarrow> bool" where
  "less_eq_wallet_type a b \<longleftrightarrow> wallet_type_rank a \<le> wallet_type_rank b"

definition less_wallet_type :: "wallet_type \<Rightarrow> wallet_type \<Rightarrow> bool" where
  "less_wallet_type a b \<longleftrightarrow> wallet_type_rank a < wallet_type_rank b"

instance
proof
  fix x y :: wallet_type
  show "x \<le> y \<Longrightarrow> y \<le> x \<Longrightarrow> x = y"
    by (cases x; cases y) (simp_all add: less_eq_wallet_type_def)
qed (auto simp: less_eq_wallet_type_def less_wallet_type_def)

end

subsection \<open>Access\<close>

definition find_wallet :: "uuid \<Rightarrow> 'a finance_db_scheme \<Rightarrow> wallet option" where
  "find_wallet i s = find_first (\<lambda>w. wallet_id w = i) (fin_wallets s)"

definition assertVisibility :: "wallet_type \<Rightarrow> wallet_visibility \<Rightarrow> api_error + unit" where
  "assertVisibility ty v = (
     let valid = (if ty = WFamily then v = WvFamily else v = WvPrivate \<or> v = WvPartner)
     in if \<not> valid then Inl (BadRequest ''Visibility is incompatible with wallet type'') else Inr ())"

definition resolveCreateVisibility :: "wallet_type \<Rightarrow> wallet_visibility option \<Rightarrow> api_error + wallet_visibility" where
  "resolveCreateVisibility ty v = (
     let resolved = (case v of Some x \<Rightarrow> x | None \<Rightarrow> (if ty = WFamily then WvFamily else WvPrivate))
     in case assertVisibility ty resolved of Inl e \<Rightarrow> Inl e | Inr _ \<Rightarrow> Inr resolved)"

definition visibleTo :: "uuid \<Rightarrow> member_role \<Rightarrow> wallet \<Rightarrow> bool" where
  "visibleTo userId role w \<longleftrightarrow> wallet_type w = WFamily \<or> wallet_ownerId w = Some userId
     \<or> (role = PARTNER \<and> wallet_type w = WPersonal \<and> wallet_visibility w = WvPartner)"

definition canManage :: "wallet \<Rightarrow> uuid \<Rightarrow> member_role \<Rightarrow> bool" where
  "canManage w userId role \<longleftrightarrow> wallet_ownerId w = Some userId \<or> (wallet_type w = WFamily \<and> role = PARTNER)"

definition requireManageable ::
    "uuid \<Rightarrow> uuid \<Rightarrow> uuid \<Rightarrow> member_role \<Rightarrow> 'a finance_db_scheme \<Rightarrow> api_error + wallet" where
  "requireManageable userId walletId familyId role s =
    (case find_first (\<lambda>w. wallet_id w = walletId \<and> wallet_familyId w = familyId \<and> wallet_archivedAt w = None)
        (fin_wallets s) of
       None \<Rightarrow> Inl (NotFound ''Wallet not found'')
     | Some w \<Rightarrow> (if canManage w userId role then Inr w else Inl (NotFound ''Wallet not found'')))"

subsection \<open>Writes\<close>

datatype wallet_change = ChangeWallet "string option" wallet_visibility | ArchiveWallet timestamp | RestoreWallet

definition write_wallet :: "wallet_change \<Rightarrow> wallet \<Rightarrow> wallet" where
  "write_wallet c w = (case c of
     ChangeWallet name v \<Rightarrow> w\<lparr>wallet_name := (case name of None \<Rightarrow> wallet_name w | Some n \<Rightarrow> n),
       wallet_visibility := v, wallet_version := wallet_version w + 1\<rparr>
   | ArchiveWallet t \<Rightarrow> w\<lparr>wallet_archivedAt := Some t, wallet_version := wallet_version w + 1\<rparr>
   | RestoreWallet \<Rightarrow> w\<lparr>wallet_archivedAt := None, wallet_version := wallet_version w + 1\<rparr>)"

interpretation wallet_rows: versioned_rows wallet_id wallet_version write_wallet
  by unfold_locales (auto simp: write_wallet_def split: wallet_change.split)

definition update_wallets ::
    "(wallet \<Rightarrow> bool) \<Rightarrow> (wallet \<Rightarrow> wallet) \<Rightarrow> 'a finance_db_scheme \<Rightarrow> nat \<times> 'a finance_db_scheme" where
  "update_wallets P f s = (fst (update_many P f (fin_wallets s)),
     s\<lparr>fin_wallets := snd (update_many P f (fin_wallets s))\<rparr>)"

text \<open>The schema's defaults: version 1, not archived.\<close>

definition new_wallet ::
    "env \<Rightarrow> uuid \<Rightarrow> uuid \<Rightarrow> uuid \<Rightarrow> wallet_type \<Rightarrow> wallet_visibility \<Rightarrow> string \<Rightarrow> string \<Rightarrow> wallet" where
  "new_wallet E i familyId userId ty v name currency =
     \<lparr>wallet_id = i, wallet_familyId = familyId,
      wallet_ownerId = (if ty = WPersonal then Some userId else None),
      wallet_createdById = userId, wallet_type = ty, wallet_visibility = v, wallet_name = name,
      wallet_currency = currency, wallet_version = 1, wallet_archivedAt = None,
      wallet_createdAt = env_now E\<rparr>"

record create_wallet_dto =
  cw_type :: wallet_type
  cw_name :: string
  cw_visibility :: "wallet_visibility option"
  cw_currency :: "string option"

definition visibility_json :: "wallet_visibility \<Rightarrow> json" where
  "visibility_json v = JStr (case v of WvPrivate \<Rightarrow> ''PRIVATE'' | WvPartner \<Rightarrow> ''PARTNER'' | WvFamily \<Rightarrow> ''FAMILY'')"

definition wallets_create ::
    "env \<Rightarrow> uuid \<Rightarrow> create_wallet_dto \<Rightarrow> 'a finance_db_scheme \<Rightarrow> (wallet, 'a finance_db_scheme) resp" where
  "wallets_create E userId dto s = (case requireMembership userId s of Inl e \<Rightarrow> (Inl e, s)
   | Inr ctx \<Rightarrow> (case resolveCreateVisibility (cw_type dto) (cw_visibility dto) of Inl e \<Rightarrow> (Inl e, s)
     | Inr v \<Rightarrow>
       if cw_type dto = WFamily \<and> ctx_role ctx \<noteq> PARTNER
       then (Inl (Forbidden ''A partner membership is required''), s)
       else transaction s (case fresh s of (i, s1) \<Rightarrow>
         let w = new_wallet E i (ctx_familyId ctx) userId (cw_type dto) v (cw_name dto)
               (case cw_currency dto of None \<Rightarrow> ctx_defaultCurrency ctx | Some c \<Rightarrow> c)
         in (Inr w, audit_record E ((audit_of userId (ctx_familyId ctx) ''wallet.created'' ''wallet'' i)
              \<lparr>ain_metadata := JObj [(''type'', JStr (if cw_type dto = WFamily then ''FAMILY'' else ''PERSONAL'')),
                (''visibility'', visibility_json v)]\<rparr>)
              (s1\<lparr>fin_wallets := fin_wallets s1 @ [w]\<rparr>)))))"

definition wallets_list :: "uuid \<Rightarrow> 'a finance_db_scheme \<Rightarrow> api_error + wallet list" where
  "wallets_list userId s = (case requireMembership userId s of Inl e \<Rightarrow> Inl e
   | Inr ctx \<Rightarrow> Inr (sort_key (\<lambda>w. (wallet_type w, wallet_createdAt w)) (filter (\<lambda>w.
       wallet_familyId w = ctx_familyId ctx \<and> wallet_archivedAt w = None
       \<and> visibleTo userId (ctx_role ctx) w) (fin_wallets s))))"

definition wallets_archived :: "uuid \<Rightarrow> 'a finance_db_scheme \<Rightarrow> api_error + wallet list" where
  "wallets_archived userId s = (case requireMembership userId s of Inl e \<Rightarrow> Inl e
   | Inr ctx \<Rightarrow> Inr (sort_key (\<lambda>w. (wallet_type w, wallet_createdAt w)) (filter (\<lambda>w.
       wallet_familyId w = ctx_familyId ctx \<and> wallet_archivedAt w \<noteq> None
       \<and> visibleTo userId (ctx_role ctx) w) (fin_wallets s))))"

definition wallets_get :: "uuid \<Rightarrow> uuid \<Rightarrow> 'a finance_db_scheme \<Rightarrow> api_error + wallet" where
  "wallets_get userId walletId s = (case requireMembership userId s of Inl e \<Rightarrow> Inl e
   | Inr ctx \<Rightarrow> (case find_first (\<lambda>w. wallet_id w = walletId \<and> wallet_familyId w = ctx_familyId ctx
         \<and> wallet_archivedAt w = None \<and> visibleTo userId (ctx_role ctx) w) (fin_wallets s) of
       None \<Rightarrow> Inl (NotFound ''Wallet not found'') | Some w \<Rightarrow> Inr w))"

definition or_version :: "int option \<Rightarrow> int \<Rightarrow> int" where
  "or_version expected current = (case expected of None \<Rightarrow> current | Some v \<Rightarrow> v)"

definition wallets_update ::
    "env \<Rightarrow> uuid \<Rightarrow> uuid \<Rightarrow> string option \<Rightarrow> wallet_visibility option \<Rightarrow> int option
       \<Rightarrow> 'a finance_db_scheme \<Rightarrow> (wallet, 'a finance_db_scheme) resp" where
  "wallets_update E userId walletId name vis expectedVersion s = (
     case requireMembership userId s of Inl e \<Rightarrow> (Inl e, s)
   | Inr ctx \<Rightarrow> (case requireManageable userId walletId (ctx_familyId ctx) (ctx_role ctx) s of
       Inl e \<Rightarrow> (Inl e, s)
     | Inr wallet \<Rightarrow>
       let visibility = (case vis of None \<Rightarrow> wallet_visibility wallet | Some v \<Rightarrow> v) in
       (case assertVisibility (wallet_type wallet) visibility of Inl e \<Rightarrow> (Inl e, s)
        | Inr _ \<Rightarrow> transaction s (
          case update_wallets (\<lambda>w. wallet_id w = wallet_id wallet \<and> wallet_version w = or_version expectedVersion (wallet_version wallet)
              \<and> wallet_familyId w = ctx_familyId ctx \<and> wallet_archivedAt w = None)
              (write_wallet (ChangeWallet name visibility)) s of
            (count, s1) \<Rightarrow>
              if count \<noteq> 1 then (Inl (Conflict ''Wallet was changed concurrently''), s1) else
              (case find_wallet (wallet_id wallet) s1 of None \<Rightarrow> (Inl P2025, s1)
               | Some updated \<Rightarrow> (Inr updated, audit_record E ((audit_of userId (ctx_familyId ctx)
                   ''wallet.updated'' ''wallet'' (wallet_id wallet))\<lparr>ain_metadata :=
                     JObj [(''visibility'', visibility_json (wallet_visibility updated))]\<rparr>) s1))))))"

definition wallets_archive ::
    "env \<Rightarrow> uuid \<Rightarrow> uuid \<Rightarrow> int option \<Rightarrow> 'a finance_db_scheme \<Rightarrow> (unit, 'a finance_db_scheme) resp" where
  "wallets_archive E userId walletId expectedVersion s = (
     case requireMembership userId s of Inl e \<Rightarrow> (Inl e, s)
   | Inr ctx \<Rightarrow> (case requireManageable userId walletId (ctx_familyId ctx) (ctx_role ctx) s of
       Inl e \<Rightarrow> (Inl e, s)
     | Inr wallet \<Rightarrow>
       if find_first (\<lambda>g. goal_walletId g = wallet_id wallet \<and> goal_archivedAt g = None) (fin_goals s) \<noteq> None
       then (Inl (Conflict ''Archive the linked financial goal before its envelope wallet''), s)
       else transaction s (
          case update_wallets (\<lambda>w. wallet_id w = wallet_id wallet \<and> wallet_version w = or_version expectedVersion (wallet_version wallet)
              \<and> wallet_familyId w = ctx_familyId ctx \<and> wallet_archivedAt w = None)
              (write_wallet (ArchiveWallet (env_now E))) s of
            (count, s1) \<Rightarrow>
              if count \<noteq> 1 then (Inl (Conflict ''Wallet was changed concurrently''), s1) else
              (Inr (), audit_record E (audit_of userId (ctx_familyId ctx) ''wallet.archived'' ''wallet''
                 (wallet_id wallet)) s1))))"

definition wallets_restore ::
    "env \<Rightarrow> uuid \<Rightarrow> uuid \<Rightarrow> int option \<Rightarrow> 'a finance_db_scheme \<Rightarrow> (wallet, 'a finance_db_scheme) resp" where
  "wallets_restore E userId walletId expectedVersion s = (
     case requireMembership userId s of Inl e \<Rightarrow> (Inl e, s)
   | Inr ctx \<Rightarrow> (case find_first (\<lambda>w. wallet_id w = walletId \<and> wallet_familyId w = ctx_familyId ctx
         \<and> wallet_archivedAt w \<noteq> None) (fin_wallets s) of
       None \<Rightarrow> (Inl (NotFound ''Wallet not found''), s)
     | Some wallet \<Rightarrow>
       if \<not> canManage wallet userId (ctx_role ctx) then (Inl (NotFound ''Wallet not found''), s)
       else transaction s (
          case update_wallets (\<lambda>w. wallet_id w = wallet_id wallet \<and> wallet_version w = or_version expectedVersion (wallet_version wallet)
              \<and> wallet_familyId w = ctx_familyId ctx \<and> wallet_archivedAt w \<noteq> None)
              (write_wallet RestoreWallet) s of
            (count, s1) \<Rightarrow>
              if count \<noteq> 1 then (Inl (Conflict ''Wallet was changed concurrently''), s1) else
              (case find_wallet (wallet_id wallet) s1 of None \<Rightarrow> (Inl P2025, s1)
               | Some restored \<Rightarrow> (Inr restored, audit_record E (audit_of userId (ctx_familyId ctx)
                   ''wallet.restored'' ''wallet'' (wallet_id wallet)) s1)))))"

end
