(* ===== verification/Ledger.thy ===== *)
theory Ledger
  imports Wallets
begin

text \<open>
  The double-entry ledger: \<open>modules/finance/ledger-commands.service.ts\<close> (income, expense,
  transfer and reversal, each replayable under an idempotency key) and
  \<open>modules/finance/ledger-history.service.ts\<close> (reading with the visibility of wallets).

  The digest of a request, \<open>sha256(JSON.stringify({ command, dto }))\<close>, is a parameter on the
  request.  A transaction is serialized by writing its amounts in decimal, which the model
  leaves out.  The unique keys of \<open>ledger_transactions.reverses_id\<close> and of the command results
  are checked where the rows are written.
\<close>

definition MAX_AMOUNT_MINOR :: int where "MAX_AMOUNT_MINOR = 9223372036854775807"

abbreviation LEDGER_SCOPE :: string where "LEDGER_SCOPE \<equiv> ''finance.ledger.v1''"

record ledger_command_dto =
  lc_walletId :: uuid
  lc_categoryId :: "uuid option"
  lc_amountMinor :: string
  lc_occurredAt :: "timestamp option"
  lc_note :: "string option"

record transfer_dto =
  tr_fromWalletId :: uuid
  tr_toWalletId :: uuid
  tr_amountMinor :: string
  tr_occurredAt :: "timestamp option"
  tr_note :: "string option"

record reversal_dto =
  rv_occurredAt :: "timestamp option"
  rv_note :: "string option"

datatype ledger_request =
    WalletRequest transaction_type ledger_command_dto
  | TransferRequest transfer_dto
  | ReversalRequest uuid reversal_dto

text \<open>\<open>/^[1-9]\d{0,18}$/\<close>, the pattern of the amounts.\<close>

definition amount_pattern :: "string \<Rightarrow> bool" where
  "amount_pattern v = (case v of [] \<Rightarrow> False
     | c # cs \<Rightarrow> (case digit_value c of None \<Rightarrow> False | Some d \<Rightarrow> d \<noteq> 0)
         \<and> length cs \<le> 18 \<and> list_all (\<lambda>x. digit_value x \<noteq> None) cs)"

text \<open>\<open>BigInt(value)\<close> on digits; anything else that passes no validation is a \<open>SyntaxError\<close>.\<close>

definition bigInt :: "string \<Rightarrow> api_error + int" where
  "bigInt v = (case digits_value 0 v of None \<Rightarrow> Inl (PlainError ''SyntaxError: Cannot convert to a BigInt'')
     | Some n \<Rightarrow> Inr n)"

definition amount :: "string \<Rightarrow> string \<Rightarrow> api_error + int" where
  "amount field v = (case bigInt v of Inl e \<Rightarrow> Inl e
     | Inr n \<Rightarrow> (if n > MAX_AMOUNT_MINOR then Inl (BadRequest (field @ '' is too large'')) else Inr n))"

definition occurredAt :: "env \<Rightarrow> timestamp option \<Rightarrow> timestamp" where
  "occurredAt E v = (case v of None \<Rightarrow> env_now E | Some t \<Rightarrow> t)"

definition find_command :: "uuid \<Rightarrow> string \<Rightarrow> string \<Rightarrow> 'a finance_db_scheme \<Rightarrow> command_result option" where
  "find_command userId scope key s = find_first (\<lambda>c. cmd_userId c = userId \<and> cmd_scope c = scope \<and> cmd_key c = key)
     (fin_commands s)"

definition find_transaction :: "uuid \<Rightarrow> 'a finance_db_scheme \<Rightarrow> ledger_transaction option" where
  "find_transaction i s = find_first (\<lambda>t. ltx_id t = i) (fin_transactions s)"

text \<open>\<open>Inr None\<close> is \<open>null\<close>: no command under this key yet.  The transaction exists by the
  foreign key.\<close>

definition replay ::
    "uuid \<Rightarrow> string \<Rightarrow> string \<Rightarrow> 'a finance_db_scheme \<Rightarrow> api_error + ledger_transaction option" where
  "replay userId key requestHash s = (case find_command userId LEDGER_SCOPE key s of
     None \<Rightarrow> Inr None
   | Some command \<Rightarrow>
       if cmd_requestHash command \<noteq> requestHash
       then Inl (Conflict ''Idempotency-Key was already used with a different request'')
       else (case find_transaction (cmd_transactionId command) s of
           None \<Rightarrow> Inl P2025 | Some t \<Rightarrow> Inr (Some t)))"

definition replayAfterConflict ::
    "uuid \<Rightarrow> string \<Rightarrow> string \<Rightarrow> string option
       \<Rightarrow> (ledger_transaction, 'a finance_db_scheme) resp \<Rightarrow> (ledger_transaction, 'a finance_db_scheme) resp" where
  "replayAfterConflict userId key requestHash uniqueConflictMessage r = (case r of
     (Inr t, s) \<Rightarrow> (Inr t, s)
   | (Inl e, s) \<Rightarrow>
       if e = P2002 then (case replay userId key requestHash s of
           Inl e' \<Rightarrow> (Inl e', s)
         | Inr (Some t) \<Rightarrow> (Inr t, s)
         | Inr None \<Rightarrow> (case uniqueConflictMessage of None \<Rightarrow> (Inl e, s) | Some m \<Rightarrow> (Inl (Conflict m), s)))
       else (Inl e, s))"

text \<open>Writing a transaction with its entries, and the result of a command, with their unique keys.\<close>

definition insert_transaction :: "ledger_transaction \<Rightarrow> 'a finance_db_scheme \<Rightarrow> (unit, 'a finance_db_scheme) resp" where
  "insert_transaction t s =
    (if \<exists>x \<in> set (fin_transactions s). ltx_reversesId t \<noteq> None \<and> ltx_reversesId x = ltx_reversesId t
     then (Inl P2002, s)
     else (Inr (), s\<lparr>fin_transactions := fin_transactions s @ [t]\<rparr>))"

definition insert_command :: "command_result \<Rightarrow> 'a finance_db_scheme \<Rightarrow> (unit, 'a finance_db_scheme) resp" where
  "insert_command c s =
    (if \<exists>x \<in> set (fin_commands s). (cmd_userId x = cmd_userId c \<and> cmd_scope x = cmd_scope c \<and> cmd_key x = cmd_key c)
         \<or> cmd_transactionId x = cmd_transactionId c
     then (Inl P2002, s)
     else (Inr (), s\<lparr>fin_commands := fin_commands s @ [c]\<rparr>))"

record persist_input =
  pi_type :: transaction_type
  pi_currency :: string
  pi_occurredAt :: timestamp
  pi_note :: "string option"
  pi_reversesId :: "uuid option"
  pi_categoryId :: "uuid option"
  pi_entries :: "ledger_entry list"

fun type_lower :: "transaction_type \<Rightarrow> string" where
  "type_lower INCOME = ''income''"
| "type_lower EXPENSE = ''expense''"
| "type_lower TRANSFER = ''transfer''"
| "type_lower REVERSAL = ''reversal''"

definition transaction_of :: "env \<Rightarrow> uuid \<Rightarrow> uuid \<Rightarrow> uuid \<Rightarrow> persist_input \<Rightarrow> ledger_transaction" where
  "transaction_of E i userId familyId input =
     \<lparr>ltx_id = i, ltx_familyId = familyId, ltx_createdById = userId, ltx_type = pi_type input,
      ltx_currency = pi_currency input, ltx_occurredAt = pi_occurredAt input, ltx_note = pi_note input,
      ltx_reversesId = pi_reversesId input, ltx_categoryId = pi_categoryId input,
      ltx_createdAt = env_now E, ltx_entries = pi_entries input\<rparr>"

definition persist ::
    "env \<Rightarrow> uuid \<Rightarrow> uuid \<Rightarrow> string \<Rightarrow> string \<Rightarrow> persist_input \<Rightarrow> 'a finance_db_scheme
       \<Rightarrow> (ledger_transaction, 'a finance_db_scheme) resp" where
  "persist E userId familyId key requestHash input s = (case fresh s of (i, s1) \<Rightarrow>
     let t = transaction_of E i userId familyId input in
     and_then (insert_transaction t s1) (\<lambda>_ s2.
     and_then (insert_command \<lparr>cmd_userId = userId, cmd_scope = LEDGER_SCOPE, cmd_key = key,
          cmd_requestHash = requestHash, cmd_transactionId = i\<rparr> s2) (\<lambda>_ s3.
     (Inr t, audit_record E (audit_of userId familyId (''ledger.'' @ type_lower (pi_type input))
          ''ledger_transaction'' i) s3))))"

definition wallet_command_tx ::
    "env \<Rightarrow> uuid \<Rightarrow> family_context \<Rightarrow> string \<Rightarrow> string \<Rightarrow> ledger_command_dto \<Rightarrow> transaction_type \<Rightarrow> int
       \<Rightarrow> 'a finance_db_scheme \<Rightarrow> (ledger_transaction, 'a finance_db_scheme) resp" where
  "wallet_command_tx E userId ctx key requestHash dto ty amt s = (
     case find_first (\<lambda>w. wallet_id w = lc_walletId dto \<and> wallet_familyId w = ctx_familyId ctx
         \<and> wallet_archivedAt w = None) (fin_wallets s) of
       None \<Rightarrow> (Inl (NotFound ''Wallet not found''), s)
     | Some wallet \<Rightarrow>
       if \<not> canManage wallet userId (ctx_role ctx) then (Inl (NotFound ''Wallet not found''), s) else
       if (case lc_categoryId dto of None \<Rightarrow> False
           | Some c \<Rightarrow> (case find_first (\<lambda>x. cat_id x = c \<and> cat_familyId x = ctx_familyId ctx
                 \<and> cat_archivedAt x = None) (fin_categories s) of
               None \<Rightarrow> True
             | Some category \<Rightarrow> cat_kind category \<noteq> (if ty = INCOME then KIncome else KExpense)))
       then (Inl (NotFound ''Financial category not found''), s) else
       let walletAmount = (if ty = INCOME then amt else - amt) in
       persist E userId (ctx_familyId ctx) key requestHash
         \<lparr>pi_type = ty, pi_currency = wallet_currency wallet, pi_occurredAt = occurredAt E (lc_occurredAt dto),
          pi_note = lc_note dto, pi_reversesId = None, pi_categoryId = lc_categoryId dto,
          pi_entries = [\<lparr>entry_walletId = Some (wallet_id wallet), entry_amountMinor = walletAmount\<rparr>,
            \<lparr>entry_walletId = None, entry_amountMinor = - walletAmount\<rparr>]\<rparr> s)"

definition createWalletCommand ::
    "env \<Rightarrow> (ledger_request \<Rightarrow> string) \<Rightarrow> uuid \<Rightarrow> string \<Rightarrow> ledger_command_dto \<Rightarrow> transaction_type
       \<Rightarrow> 'a finance_db_scheme \<Rightarrow> (ledger_transaction, 'a finance_db_scheme) resp" where
  "createWalletCommand E sha userId key dto ty s = (case requireMembership userId s of Inl e \<Rightarrow> (Inl e, s)
   | Inr ctx \<Rightarrow> (case amount ''amountMinor'' (lc_amountMinor dto) of Inl e \<Rightarrow> (Inl e, s)
     | Inr amt \<Rightarrow> (let requestHash = sha (WalletRequest ty dto) in
       case replay userId key requestHash s of Inl e \<Rightarrow> (Inl e, s)
       | Inr (Some existing) \<Rightarrow> (Inr existing, s)
       | Inr None \<Rightarrow> replayAfterConflict userId key requestHash None
           (transaction s (wallet_command_tx E userId ctx key requestHash dto ty amt s)))))"

definition ledger_income ::
    "env \<Rightarrow> (ledger_request \<Rightarrow> string) \<Rightarrow> uuid \<Rightarrow> string \<Rightarrow> ledger_command_dto
       \<Rightarrow> 'a finance_db_scheme \<Rightarrow> (ledger_transaction, 'a finance_db_scheme) resp" where
  "ledger_income E sha userId key dto s = createWalletCommand E sha userId key dto INCOME s"

definition ledger_expense ::
    "env \<Rightarrow> (ledger_request \<Rightarrow> string) \<Rightarrow> uuid \<Rightarrow> string \<Rightarrow> ledger_command_dto
       \<Rightarrow> 'a finance_db_scheme \<Rightarrow> (ledger_transaction, 'a finance_db_scheme) resp" where
  "ledger_expense E sha userId key dto s = createWalletCommand E sha userId key dto EXPENSE s"

definition transfer_tx ::
    "env \<Rightarrow> uuid \<Rightarrow> family_context \<Rightarrow> string \<Rightarrow> string \<Rightarrow> transfer_dto \<Rightarrow> int
       \<Rightarrow> 'a finance_db_scheme \<Rightarrow> (ledger_transaction, 'a finance_db_scheme) resp" where
  "transfer_tx E userId ctx key requestHash dto amt s = (
     let wallets = filter (\<lambda>w. wallet_id w \<in> {tr_fromWalletId dto, tr_toWalletId dto}
           \<and> wallet_familyId w = ctx_familyId ctx \<and> wallet_archivedAt w = None) (fin_wallets s) in
     case (find_first (\<lambda>w. wallet_id w = tr_fromWalletId dto) wallets,
           find_first (\<lambda>w. wallet_id w = tr_toWalletId dto) wallets) of
       (Some from, Some to) \<Rightarrow>
         if \<not> canManage from userId (ctx_role ctx) \<or> \<not> canManage to userId (ctx_role ctx)
         then (Inl (NotFound ''Wallet not found''), s) else
         if wallet_currency from \<noteq> wallet_currency to
         then (Inl (BadRequest ''Transfer wallets must use the same currency''), s) else
         persist E userId (ctx_familyId ctx) key requestHash
           \<lparr>pi_type = TRANSFER, pi_currency = wallet_currency from,
            pi_occurredAt = occurredAt E (tr_occurredAt dto), pi_note = tr_note dto,
            pi_reversesId = None, pi_categoryId = None,
            pi_entries = [\<lparr>entry_walletId = Some (wallet_id from), entry_amountMinor = - amt\<rparr>,
              \<lparr>entry_walletId = Some (wallet_id to), entry_amountMinor = amt\<rparr>]\<rparr> s
     | _ \<Rightarrow> (Inl (NotFound ''Wallet not found''), s))"

definition ledger_transfer ::
    "env \<Rightarrow> (ledger_request \<Rightarrow> string) \<Rightarrow> uuid \<Rightarrow> string \<Rightarrow> transfer_dto
       \<Rightarrow> 'a finance_db_scheme \<Rightarrow> (ledger_transaction, 'a finance_db_scheme) resp" where
  "ledger_transfer E sha userId key dto s = (
     if tr_fromWalletId dto = tr_toWalletId dto
     then (Inl (BadRequest ''Transfer wallets must be different''), s) else
     case requireMembership userId s of Inl e \<Rightarrow> (Inl e, s)
   | Inr ctx \<Rightarrow> (case amount ''amountMinor'' (tr_amountMinor dto) of Inl e \<Rightarrow> (Inl e, s)
     | Inr amt \<Rightarrow> (let requestHash = sha (TransferRequest dto) in
       case replay userId key requestHash s of Inl e \<Rightarrow> (Inl e, s)
       | Inr (Some existing) \<Rightarrow> (Inr existing, s)
       | Inr None \<Rightarrow> replayAfterConflict userId key requestHash None
           (transaction s (transfer_tx E userId ctx key requestHash dto amt s)))))"

definition wallet_ids_of :: "ledger_entry list \<Rightarrow> uuid list" where
  "wallet_ids_of es = List.map_filter entry_walletId es"

definition reversal_tx ::
    "env \<Rightarrow> uuid \<Rightarrow> family_context \<Rightarrow> uuid \<Rightarrow> string \<Rightarrow> string \<Rightarrow> reversal_dto
       \<Rightarrow> 'a finance_db_scheme \<Rightarrow> (ledger_transaction, 'a finance_db_scheme) resp" where
  "reversal_tx E userId ctx transactionId key requestHash dto s = (
     case find_first (\<lambda>t. ltx_id t = transactionId \<and> ltx_familyId t = ctx_familyId ctx) (fin_transactions s) of
       None \<Rightarrow> (Inl (NotFound ''Ledger transaction not found''), s)
     | Some original \<Rightarrow>
       if ltx_type original = REVERSAL then (Inl (BadRequest ''A reversal cannot be reversed''), s) else
       if ltx_reversesId original \<noteq> None
         \<or> (\<exists>t \<in> set (fin_transactions s). ltx_reversesId t = Some (ltx_id original))
       then (Inl (Conflict ''Ledger transaction was already reversed''), s) else
       let walletIds = wallet_ids_of (ltx_entries original);
           wallets = filter (\<lambda>w. wallet_id w \<in> set walletIds \<and> wallet_familyId w = ctx_familyId ctx
             \<and> wallet_archivedAt w = None) (fin_wallets s)
       in if length wallets \<noteq> card (set walletIds)
            \<or> (\<exists>w \<in> set wallets. \<not> canManage w userId (ctx_role ctx))
          then (Inl (NotFound ''Ledger transaction not found''), s) else
          persist E userId (ctx_familyId ctx) key requestHash
            \<lparr>pi_type = REVERSAL, pi_currency = ltx_currency original,
             pi_occurredAt = occurredAt E (rv_occurredAt dto), pi_note = rv_note dto,
             pi_reversesId = Some (ltx_id original), pi_categoryId = ltx_categoryId original,
             pi_entries = map (\<lambda>e. e\<lparr>entry_amountMinor := - entry_amountMinor e\<rparr>) (ltx_entries original)\<rparr> s)"

definition ledger_reverse ::
    "env \<Rightarrow> (ledger_request \<Rightarrow> string) \<Rightarrow> uuid \<Rightarrow> uuid \<Rightarrow> string \<Rightarrow> reversal_dto
       \<Rightarrow> 'a finance_db_scheme \<Rightarrow> (ledger_transaction, 'a finance_db_scheme) resp" where
  "ledger_reverse E sha userId transactionId key dto s = (
     case requireMembership userId s of Inl e \<Rightarrow> (Inl e, s)
   | Inr ctx \<Rightarrow> (let requestHash = sha (ReversalRequest transactionId dto) in
       case replay userId key requestHash s of Inl e \<Rightarrow> (Inl e, s)
       | Inr (Some existing) \<Rightarrow> (Inr existing, s)
       | Inr None \<Rightarrow> replayAfterConflict userId key requestHash (Some ''Ledger transaction was already reversed'')
           (transaction s (reversal_tx E userId ctx transactionId key requestHash dto s))))"

subsection \<open>The controller\<close>

text \<open>\<open>ledger-commands.controller.ts\<close>: the four commands behind a required \<open>Idempotency-Key\<close> of
  the pattern \<open>/^[A-Za-z0-9._:-]{8,128}$/\<close>.\<close>

definition key_char :: "char \<Rightarrow> bool" where
  "key_char c \<longleftrightarrow> (let n = (of_char c :: nat) in (65 \<le> n \<and> n \<le> 90) \<or> (97 \<le> n \<and> n \<le> 122)
     \<or> (48 \<le> n \<and> n \<le> 57) \<or> c \<in> {CHR ''.'', CHR ''_'', CHR '':'', CHR ''-''})"

definition requiredKey :: "string option \<Rightarrow> api_error + string" where
  "requiredKey key = (case key of
     Some k \<Rightarrow> (if 8 \<le> length k \<and> length k \<le> 128 \<and> list_all key_char k then Inr k else
       Inl (BadRequest ''Idempotency-Key must contain 8-128 letters, digits, dots, underscores, colons or hyphens''))
   | None \<Rightarrow>
       Inl (BadRequest ''Idempotency-Key must contain 8-128 letters, digits, dots, underscores, colons or hyphens''))"

datatype ledger_call =
    IncomeCall ledger_command_dto
  | ExpenseCall ledger_command_dto
  | TransferCall transfer_dto
  | ReversalCall uuid reversal_dto

definition ledger_call_run ::
    "env \<Rightarrow> (ledger_request \<Rightarrow> string) \<Rightarrow> uuid \<Rightarrow> string \<Rightarrow> ledger_call
       \<Rightarrow> 'a finance_db_scheme \<Rightarrow> (ledger_transaction, 'a finance_db_scheme) resp" where
  "ledger_call_run E sha userId key call s = (case call of
     IncomeCall dto \<Rightarrow> ledger_income E sha userId key dto s
   | ExpenseCall dto \<Rightarrow> ledger_expense E sha userId key dto s
   | TransferCall dto \<Rightarrow> ledger_transfer E sha userId key dto s
   | ReversalCall i dto \<Rightarrow> ledger_reverse E sha userId i key dto s)"

definition ledger_controller ::
    "env \<Rightarrow> (ledger_request \<Rightarrow> string) \<Rightarrow> uuid \<Rightarrow> string option \<Rightarrow> ledger_call
       \<Rightarrow> 'a finance_db_scheme \<Rightarrow> (ledger_transaction, 'a finance_db_scheme) resp" where
  "ledger_controller E sha userId key call s = (case requiredKey key of Inl e \<Rightarrow> (Inl e, s)
   | Inr k \<Rightarrow> ledger_call_run E sha userId k call s)"

text \<open>What \<open>requestHash\<close> digests, and the validation of the amount by the DTO.\<close>

fun call_request :: "ledger_call \<Rightarrow> ledger_request" where
  "call_request (IncomeCall dto) = WalletRequest INCOME dto"
| "call_request (ExpenseCall dto) = WalletRequest EXPENSE dto"
| "call_request (TransferCall dto) = TransferRequest dto"
| "call_request (ReversalCall i dto) = ReversalRequest i dto"

fun call_valid :: "ledger_call \<Rightarrow> bool" where
  "call_valid (IncomeCall dto) = amount_pattern (lc_amountMinor dto)"
| "call_valid (ExpenseCall dto) = amount_pattern (lc_amountMinor dto)"
| "call_valid (TransferCall dto) = amount_pattern (tr_amountMinor dto)"
| "call_valid (ReversalCall i dto) = True"

subsection \<open>Reading\<close>

definition visibleWhere ::
    "uuid \<Rightarrow> uuid \<Rightarrow> member_role \<Rightarrow> uuid option \<Rightarrow> 'a finance_db_scheme \<Rightarrow> ledger_transaction \<Rightarrow> bool" where
  "visibleWhere userId familyId role walletId s t = (
     let visibleWalletIds = map wallet_id (filter (\<lambda>w. wallet_familyId w = familyId \<and> visibleTo userId role w)
           (fin_wallets s)) in
     ltx_familyId t = familyId
     \<and> \<not> (\<exists>e \<in> set (ltx_entries t). case entry_walletId e of None \<Rightarrow> False
            | Some w \<Rightarrow> w \<notin> set visibleWalletIds)
     \<and> (case walletId of None \<Rightarrow> True
        | Some w \<Rightarrow> \<exists>e \<in> set (ltx_entries t). entry_walletId e = Some w))"

definition history_list ::
    "uuid \<Rightarrow> page_query \<Rightarrow> uuid option \<Rightarrow> 'a finance_db_scheme \<Rightarrow> api_error + page_meta \<times> ledger_transaction list" where
  "history_list userId q walletId s = (case requireMembership userId s of Inl e \<Rightarrow> Inl e
   | Inr ctx \<Rightarrow>
     let matching = filter (visibleWhere userId (ctx_familyId ctx) (ctx_role ctx) walletId s) (fin_transactions s)
     in Inr (paginationMeta (length matching) (pq_page q) (pq_limit q),
          page_of (pq_page q) (pq_limit q) (rev (sort_key (\<lambda>t. (ltx_occurredAt t, ltx_id t)) matching))))"

definition history_get ::
    "uuid \<Rightarrow> uuid \<Rightarrow> 'a finance_db_scheme \<Rightarrow> api_error + ledger_transaction" where
  "history_get userId transactionId s = (case requireMembership userId s of Inl e \<Rightarrow> Inl e
   | Inr ctx \<Rightarrow> (case find_first (\<lambda>t. visibleWhere userId (ctx_familyId ctx) (ctx_role ctx) None s t
         \<and> ltx_id t = transactionId) (fin_transactions s) of
       None \<Rightarrow> Inl (NotFound ''Ledger transaction not found'') | Some t \<Rightarrow> Inr t))"

end
