(* ===== verification/Budgets.thy ===== *)
theory Budgets
  imports Ledger
begin

text \<open>
  \<open>modules/finance/financial-categories.service.ts\<close> and \<open>modules/finance/budgets.service.ts\<close>:
  income and expense categories, archived and restored with optimistic concurrency, and one
  budget per expense category and calendar month.
\<close>

subsection \<open>Categories\<close>

datatype category_change = RenameCategory "string option" | ArchiveCategory timestamp | RestoreCategory

definition write_category :: "category_change \<Rightarrow> category \<Rightarrow> category" where
  "write_category c x = (case c of
     RenameCategory name \<Rightarrow> x\<lparr>cat_name := (case name of None \<Rightarrow> cat_name x | Some n \<Rightarrow> n),
       cat_version := cat_version x + 1\<rparr>
   | ArchiveCategory t \<Rightarrow> x\<lparr>cat_archivedAt := Some t, cat_version := cat_version x + 1\<rparr>
   | RestoreCategory \<Rightarrow> x\<lparr>cat_archivedAt := None, cat_version := cat_version x + 1\<rparr>)"

interpretation category_rows: versioned_rows cat_id cat_version write_category
  by unfold_locales (auto simp: write_category_def split: category_change.split)

definition update_categories ::
    "(category \<Rightarrow> bool) \<Rightarrow> (category \<Rightarrow> category) \<Rightarrow> 'a finance_db_scheme \<Rightarrow> nat \<times> 'a finance_db_scheme" where
  "update_categories P f s = (fst (update_many P f (fin_categories s)),
     s\<lparr>fin_categories := snd (update_many P f (fin_categories s))\<rparr>)"

definition find_category :: "uuid \<Rightarrow> 'a finance_db_scheme \<Rightarrow> category option" where
  "find_category i s = find_first (\<lambda>c. cat_id c = i) (fin_categories s)"

definition categories_create ::
    "env \<Rightarrow> uuid \<Rightarrow> string \<Rightarrow> category_kind \<Rightarrow> 'a finance_db_scheme \<Rightarrow> (category, 'a finance_db_scheme) resp" where
  "categories_create E userId name kind s = (case requireMembership userId s of Inl e \<Rightarrow> (Inl e, s)
   | Inr ctx \<Rightarrow> transaction s (case fresh s of (i, s1) \<Rightarrow>
       let c = \<lparr>cat_id = i, cat_familyId = ctx_familyId ctx, cat_createdById = userId, cat_name = name,
             cat_kind = kind, cat_version = 1, cat_archivedAt = None, cat_createdAt = env_now E\<rparr>
       in (Inr c, audit_record E ((audit_of userId (ctx_familyId ctx) ''financial_category.created''
             ''financial_category'' i)\<lparr>ain_metadata := JObj [(''kind'', JStr (if kind = KIncome
               then ''INCOME'' else ''EXPENSE''))]\<rparr>) (s1\<lparr>fin_categories := fin_categories s1 @ [c]\<rparr>))))"

definition kind_rank :: "category_kind \<Rightarrow> nat" where
  "kind_rank k = (if k = KIncome then 0 else 1)"

definition categories_list ::
    "uuid \<Rightarrow> category_kind option \<Rightarrow> 'a finance_db_scheme \<Rightarrow> api_error + category list" where
  "categories_list userId kind s = (case requireMembership userId s of Inl e \<Rightarrow> Inl e
   | Inr ctx \<Rightarrow> Inr (sort_key (\<lambda>c. (kind_rank (cat_kind c), cat_name c)) (filter (\<lambda>c.
       cat_familyId c = ctx_familyId ctx \<and> cat_archivedAt c = None
       \<and> (case kind of None \<Rightarrow> True | Some k \<Rightarrow> cat_kind c = k)) (fin_categories s))))"

definition categories_archived ::
    "uuid \<Rightarrow> category_kind option \<Rightarrow> 'a finance_db_scheme \<Rightarrow> api_error + category list" where
  "categories_archived userId kind s = (case requireMembership userId s of Inl e \<Rightarrow> Inl e
   | Inr ctx \<Rightarrow> Inr (sort_key (\<lambda>c. (kind_rank (cat_kind c), cat_name c)) (filter (\<lambda>c.
       cat_familyId c = ctx_familyId ctx \<and> cat_archivedAt c \<noteq> None
       \<and> (case kind of None \<Rightarrow> True | Some k \<Rightarrow> cat_kind c = k)) (fin_categories s))))"

definition active_category :: "uuid \<Rightarrow> uuid \<Rightarrow> 'a finance_db_scheme \<Rightarrow> api_error + category" where
  "active_category categoryId familyId s =
    (case find_first (\<lambda>c. cat_id c = categoryId \<and> cat_familyId c = familyId \<and> cat_archivedAt c = None)
        (fin_categories s) of
       None \<Rightarrow> Inl (NotFound ''Financial category not found'') | Some c \<Rightarrow> Inr c)"

definition requireManage :: "category \<Rightarrow> uuid \<Rightarrow> member_role \<Rightarrow> api_error + unit" where
  "requireManage c userId role = (if cat_createdById c \<noteq> userId \<and> role \<noteq> PARTNER
     then Inl (NotFound ''Financial category not found'') else Inr ())"

definition categories_update ::
    "env \<Rightarrow> uuid \<Rightarrow> uuid \<Rightarrow> string option \<Rightarrow> int option \<Rightarrow> 'a finance_db_scheme
       \<Rightarrow> (category, 'a finance_db_scheme) resp" where
  "categories_update E userId categoryId name expectedVersion s = (
     case requireMembership userId s of Inl e \<Rightarrow> (Inl e, s)
   | Inr ctx \<Rightarrow> (case active_category categoryId (ctx_familyId ctx) s of Inl e \<Rightarrow> (Inl e, s)
     | Inr c \<Rightarrow> (case requireManage c userId (ctx_role ctx) of Inl e \<Rightarrow> (Inl e, s)
       | Inr _ \<Rightarrow> transaction s (
         case update_categories (\<lambda>x. cat_id x = cat_id c \<and> cat_version x = or_version expectedVersion (cat_version c)
             \<and> cat_archivedAt x = None) (write_category (RenameCategory name)) s of
           (count, s1) \<Rightarrow>
             if count \<noteq> 1 then (Inl (Conflict ''Financial category was changed concurrently''), s1) else
             (case find_category (cat_id c) s1 of None \<Rightarrow> (Inl P2025, s1)
              | Some v \<Rightarrow> (Inr v, audit_record E (audit_of userId (ctx_familyId ctx)
                  ''financial_category.updated'' ''financial_category'' (cat_id c)) s1))))))"

definition categories_archive ::
    "env \<Rightarrow> uuid \<Rightarrow> uuid \<Rightarrow> int option \<Rightarrow> 'a finance_db_scheme \<Rightarrow> (unit, 'a finance_db_scheme) resp" where
  "categories_archive E userId categoryId expectedVersion s = (
     case requireMembership userId s of Inl e \<Rightarrow> (Inl e, s)
   | Inr ctx \<Rightarrow> (case active_category categoryId (ctx_familyId ctx) s of Inl e \<Rightarrow> (Inl e, s)
     | Inr c \<Rightarrow> (case requireManage c userId (ctx_role ctx) of Inl e \<Rightarrow> (Inl e, s)
       | Inr _ \<Rightarrow> transaction s (
         case update_categories (\<lambda>x. cat_id x = cat_id c \<and> cat_version x = or_version expectedVersion (cat_version c)
             \<and> cat_archivedAt x = None) (write_category (ArchiveCategory (env_now E))) s of
           (count, s1) \<Rightarrow>
             if count \<noteq> 1 then (Inl (Conflict ''Financial category was changed concurrently''), s1) else
             (Inr (), audit_record E (audit_of userId (ctx_familyId ctx)
                ''financial_category.archived'' ''financial_category'' (cat_id c)) s1)))))"

definition categories_restore ::
    "env \<Rightarrow> uuid \<Rightarrow> uuid \<Rightarrow> int option \<Rightarrow> 'a finance_db_scheme \<Rightarrow> (category, 'a finance_db_scheme) resp" where
  "categories_restore E userId categoryId expectedVersion s = (
     case requireMembership userId s of Inl e \<Rightarrow> (Inl e, s)
   | Inr ctx \<Rightarrow> (case find_first (\<lambda>c. cat_id c = categoryId \<and> cat_familyId c = ctx_familyId ctx
         \<and> cat_archivedAt c \<noteq> None) (fin_categories s) of
       None \<Rightarrow> (Inl (NotFound ''Financial category not found''), s)
     | Some c \<Rightarrow> (case requireManage c userId (ctx_role ctx) of Inl e \<Rightarrow> (Inl e, s)
       | Inr _ \<Rightarrow> transaction s (
         case update_categories (\<lambda>x. cat_id x = cat_id c \<and> cat_version x = or_version expectedVersion (cat_version c)
             \<and> cat_archivedAt x \<noteq> None) (write_category RestoreCategory) s of
           (count, s1) \<Rightarrow>
             if count \<noteq> 1 then (Inl (Conflict ''Financial category was changed concurrently''), s1) else
             (case find_category (cat_id c) s1 of None \<Rightarrow> (Inl P2025, s1)
              | Some v \<Rightarrow> (Inr v, audit_record E (audit_of userId (ctx_familyId ctx)
                  ''financial_category.restored'' ''financial_category'' (cat_id c)) s1))))))"

subsection \<open>Budgets\<close>

definition periodStart :: "ymd \<Rightarrow> api_error + timestamp" where
  "periodStart v = (
     let bad = Inl (BadRequest ''periodStart must be the first calendar day of a valid month'') in
     case parse_date v of None \<Rightarrow> bad
     | Some date \<Rightarrow> (if iso_date date \<noteq> v \<or> getUTCDate date \<noteq> 1 then bad else Inr date))"

definition write_budget :: "int \<Rightarrow> budget \<Rightarrow> budget" where
  "write_budget limit b = b\<lparr>budget_limitMinor := limit, budget_version := budget_version b + 1\<rparr>"

interpretation budget_rows: versioned_rows budget_id budget_version write_budget
  by unfold_locales (auto simp: write_budget_def)

record create_budget_dto =
  cb_categoryId :: uuid
  cb_periodStart :: ymd
  cb_limitMinor :: string

text \<open>The unique key on category and month.\<close>

definition budgets_create_tx ::
    "env \<Rightarrow> uuid \<Rightarrow> uuid \<Rightarrow> uuid \<Rightarrow> timestamp \<Rightarrow> int \<Rightarrow> 'a finance_db_scheme \<Rightarrow> (budget, 'a finance_db_scheme) resp" where
  "budgets_create_tx E userId familyId categoryId period limit s = (case fresh s of (i, s1) \<Rightarrow>
     if \<exists>b \<in> set (fin_budgets s). budget_categoryId b = categoryId \<and> budget_periodStart b = period
     then (Inl P2002, s1)
     else let b = \<lparr>budget_id = i, budget_familyId = familyId, budget_categoryId = categoryId,
            budget_createdById = userId, budget_periodStart = period, budget_limitMinor = limit,
            budget_version = 1, budget_createdAt = env_now E\<rparr>
       in (Inr b, audit_record E ((audit_of userId familyId ''budget.created'' ''budget'' i)
            \<lparr>ain_metadata := JObj [(''categoryId'', JUuid categoryId), (''periodStart'', JInstant period)]\<rparr>)
            (s1\<lparr>fin_budgets := fin_budgets s1 @ [b]\<rparr>)))"

definition budgets_create ::
    "env \<Rightarrow> uuid \<Rightarrow> create_budget_dto \<Rightarrow> 'a finance_db_scheme \<Rightarrow> (budget, 'a finance_db_scheme) resp" where
  "budgets_create E userId dto s = (case requirePartner userId s of Inl e \<Rightarrow> (Inl e, s)
   | Inr ctx \<Rightarrow> (case periodStart (cb_periodStart dto) of Inl e \<Rightarrow> (Inl e, s)
     | Inr period \<Rightarrow> (case amount ''limitMinor'' (cb_limitMinor dto) of Inl e \<Rightarrow> (Inl e, s)
       | Inr limit \<Rightarrow> (case find_first (\<lambda>c. cat_id c = cb_categoryId dto \<and> cat_familyId c = ctx_familyId ctx
             \<and> cat_kind c = KExpense \<and> cat_archivedAt c = None) (fin_categories s) of
           None \<Rightarrow> (Inl (NotFound ''Expense financial category not found''), s)
         | Some category \<Rightarrow>
             (case transaction s (budgets_create_tx E userId (ctx_familyId ctx) (cat_id category) period limit s) of
                (Inl e, s1) \<Rightarrow> (Inl (if e = P2002 then Conflict ''A budget for this category and month already exists''
                   else e), s1)
              | r \<Rightarrow> r)))))"

definition budgets_list ::
    "uuid \<Rightarrow> ymd option \<Rightarrow> 'a finance_db_scheme \<Rightarrow> api_error + budget list" where
  "budgets_list userId q s = (case requireMembership userId s of Inl e \<Rightarrow> Inl e
   | Inr ctx \<Rightarrow> (case (case q of None \<Rightarrow> Inr None | Some v \<Rightarrow> map_sum id Some (periodStart v)) of Inl e \<Rightarrow> Inl e
     | Inr period \<Rightarrow> Inr (sort_key (\<lambda>b. (- budget_periodStart b, budget_createdAt b)) (filter (\<lambda>b.
         budget_familyId b = ctx_familyId ctx
         \<and> (case period of None \<Rightarrow> True | Some p \<Rightarrow> budget_periodStart b = p)) (fin_budgets s)))))"

definition require_budget :: "uuid \<Rightarrow> uuid \<Rightarrow> 'a finance_db_scheme \<Rightarrow> api_error + budget" where
  "require_budget i familyId s =
    (case find_first (\<lambda>b. budget_id b = i \<and> budget_familyId b = familyId) (fin_budgets s) of
       None \<Rightarrow> Inl (NotFound ''Budget not found'') | Some b \<Rightarrow> Inr b)"

definition update_budgets ::
    "(budget \<Rightarrow> bool) \<Rightarrow> (budget \<Rightarrow> budget) \<Rightarrow> 'a finance_db_scheme \<Rightarrow> nat \<times> 'a finance_db_scheme" where
  "update_budgets P f s = (fst (update_many P f (fin_budgets s)),
     s\<lparr>fin_budgets := snd (update_many P f (fin_budgets s))\<rparr>)"

definition delete_budgets :: "(budget \<Rightarrow> bool) \<Rightarrow> 'a finance_db_scheme \<Rightarrow> nat \<times> 'a finance_db_scheme" where
  "delete_budgets P s = (fst (delete_many P (fin_budgets s)),
     s\<lparr>fin_budgets := snd (delete_many P (fin_budgets s))\<rparr>)"

definition find_budget :: "uuid \<Rightarrow> 'a finance_db_scheme \<Rightarrow> budget option" where
  "find_budget i s = find_first (\<lambda>b. budget_id b = i) (fin_budgets s)"

definition budgets_update ::
    "env \<Rightarrow> uuid \<Rightarrow> uuid \<Rightarrow> string \<Rightarrow> int option \<Rightarrow> 'a finance_db_scheme \<Rightarrow> (budget, 'a finance_db_scheme) resp" where
  "budgets_update E userId budgetId limitMinor expectedVersion s = (
     case requirePartner userId s of Inl e \<Rightarrow> (Inl e, s)
   | Inr ctx \<Rightarrow> (case require_budget budgetId (ctx_familyId ctx) s of Inl e \<Rightarrow> (Inl e, s)
     | Inr budget \<Rightarrow> (case amount ''limitMinor'' limitMinor of Inl e \<Rightarrow> (Inl e, s)
       | Inr limit \<Rightarrow> transaction s (
         case update_budgets (\<lambda>b. budget_id b = budget_id budget \<and> budget_version b = or_version expectedVersion (budget_version budget))
             (write_budget limit) s of
           (count, s1) \<Rightarrow>
             if count \<noteq> 1 then (Inl (Conflict ''Budget was changed concurrently''), s1) else
             (case find_budget (budget_id budget) s1 of None \<Rightarrow> (Inl P2025, s1)
              | Some v \<Rightarrow> (Inr v, audit_record E (audit_of userId (ctx_familyId ctx) ''budget.updated''
                  ''budget'' (budget_id budget)) s1))))))"

definition budgets_remove ::
    "env \<Rightarrow> uuid \<Rightarrow> uuid \<Rightarrow> int option \<Rightarrow> 'a finance_db_scheme \<Rightarrow> (unit, 'a finance_db_scheme) resp" where
  "budgets_remove E userId budgetId expectedVersion s = (
     case requirePartner userId s of Inl e \<Rightarrow> (Inl e, s)
   | Inr ctx \<Rightarrow> (case require_budget budgetId (ctx_familyId ctx) s of Inl e \<Rightarrow> (Inl e, s)
     | Inr budget \<Rightarrow> transaction s (
         case delete_budgets (\<lambda>b. budget_id b = budget_id budget \<and> budget_version b = or_version expectedVersion (budget_version budget)) s of
           (count, s1) \<Rightarrow>
             if count \<noteq> 1 then (Inl (Conflict ''Budget was changed concurrently''), s1) else
             (Inr (), audit_record E (audit_of userId (ctx_familyId ctx) ''budget.deleted''
                ''budget'' (budget_id budget)) s1))))"

text \<open>A budget month is accepted exactly when it is the first day of an existing month, and
  the stored instant spells the accepted date.\<close>

theorem periodStart_valid:
  "(case periodStart v of Inl _ \<Rightarrow> \<not> (valid_ymd v \<and> ymd_day v = 1)
    | Inr t \<Rightarrow> valid_ymd v \<and> ymd_day v = 1 \<and> iso_date t = v \<and> time_within_day t = 0)"
proof (cases "parse_date v")
  case None
  then show ?thesis using parse_iso_date_roundtrip [of v] by (simp add: periodStart_def)
next
  case (Some t)
  then have t: "time_within_day t = 0" by (auto simp: parse_date_def split: if_splits)
  have "getUTCDate t = ymd_day (iso_date t)" by (simp add: iso_date_def)
  then show ?thesis using parse_iso_date_roundtrip [of v] Some t by (auto simp: periodStart_def)
qed

end
