(* ===== verification/Goals.thy ===== *)
theory Goals
  imports Budgets
begin

text \<open>
  \<open>modules/finance/financial-goals.service.ts\<close>: savings goals.  A goal owns an envelope
  wallet; a contribution is a ledger transfer into it, replayable under an idempotency key,
  and the first one that fills the envelope marks the goal achieved.

  Notification texts are Russian in the source and are rendered in English here.
\<close>

abbreviation GOAL_SCOPE :: string where "GOAL_SCOPE \<equiv> ''finance.goal-contribution.v1''"

subsection \<open>Requests and responses\<close>

text \<open>A validated \<open>targetDate\<close> is some ISO 8601 text; only the form \<open>YYYY-MM-DD\<close> survives the
  comparison with \<open>toISOString().slice(0, 10)\<close>.\<close>

datatype date_text = DateOnly ymd | OtherIso string

record create_goal_dto =
  cg_title :: string
  cg_targetAmountMinor :: string
  cg_type :: wallet_type
  cg_visibility :: "wallet_visibility option"
  cg_currency :: "string option"
  cg_targetDate :: "date_text option"

text \<open>\<open>targetDate\<close> may be absent or an explicit \<open>null\<close>.\<close>

record update_goal_dto =
  ug_title :: "string option"
  ug_targetAmountMinor :: "string option"
  ug_targetDate :: "date_text option option"

record contribution_dto =
  gc_fromWalletId :: uuid
  gc_amountMinor :: string
  gc_occurredAt :: "timestamp option"
  gc_note :: "string option"

record goal_response =
  gr_id :: uuid
  gr_title :: string
  gr_targetAmountMinor :: int
  gr_currentAmountMinor :: int
  gr_remainingAmountMinor :: int
  gr_currency :: string
  gr_targetDate :: "ymd option"
  gr_achievedAt :: "timestamp option"
  gr_archived :: bool
  gr_version :: int
  gr_walletId :: uuid
  gr_type :: wallet_type
  gr_visibility :: wallet_visibility

record contribution_response =
  cr_id :: uuid
  cr_goalId :: uuid
  cr_transactionId :: uuid
  cr_amountMinor :: int
  cr_occurredAt :: timestamp
  cr_currentAmountMinor :: int
  cr_achievedAt :: "timestamp option"

definition goal_serialize :: "goal \<Rightarrow> wallet \<Rightarrow> int \<Rightarrow> goal_response" where
  "goal_serialize g w current = \<lparr>gr_id = goal_id g, gr_title = goal_title g,
     gr_targetAmountMinor = goal_targetAmountMinor g, gr_currentAmountMinor = current,
     gr_remainingAmountMinor = (if goal_targetAmountMinor g > current
       then goal_targetAmountMinor g - current else 0),
     gr_currency = wallet_currency w, gr_targetDate = map_option iso_date (goal_targetDate g),
     gr_achievedAt = goal_achievedAt g, gr_archived = (goal_archivedAt g \<noteq> None),
     gr_version = goal_version g, gr_walletId = goal_walletId g, gr_type = wallet_type w,
     gr_visibility = wallet_visibility w\<rparr>"

definition goal_targetDate_of :: "date_text option \<Rightarrow> api_error + timestamp option" where
  "goal_targetDate_of v = (let bad = Inl (BadRequest ''targetDate must be a valid calendar date'') in
     case v of None \<Rightarrow> Inr None
   | Some (OtherIso _) \<Rightarrow> bad
   | Some (DateOnly d) \<Rightarrow> (case parse_date d of None \<Rightarrow> bad
       | Some date \<Rightarrow> (if iso_date date \<noteq> d then bad else Inr (Some date))))"

definition goal_visibility :: "wallet_type \<Rightarrow> wallet_visibility option \<Rightarrow> api_error + wallet_visibility" where
  "goal_visibility ty v = (
     let result = (case v of Some x \<Rightarrow> x | None \<Rightarrow> (if ty = WFamily then WvFamily else WvPrivate))
     in if (ty = WFamily \<and> result \<noteq> WvFamily) \<or> (ty = WPersonal \<and> result = WvFamily)
        then Inl (BadRequest ''Visibility is incompatible with wallet type'') else Inr result)"

subsection \<open>Balances\<close>

definition all_entries :: "ledger_transaction list \<Rightarrow> ledger_entry list" where
  "all_entries ts = concat (map ltx_entries ts)"

definition balance_of :: "uuid \<Rightarrow> ledger_transaction list \<Rightarrow> int" where
  "balance_of w ts = sum_list (map entry_amountMinor
     (filter (\<lambda>e. entry_walletId e = Some w) (all_entries ts)))"

definition balance :: "uuid \<Rightarrow> 'a finance_db_scheme \<Rightarrow> int" where
  "balance w s = balance_of w (fin_transactions s)"

text \<open>The balances of a listing count the transactions that the caller can see.\<close>

definition balances :: "(ledger_transaction \<Rightarrow> bool) \<Rightarrow> 'a finance_db_scheme \<Rightarrow> uuid \<Rightarrow> int" where
  "balances visible s w = balance_of w (filter visible (fin_transactions s))"

subsection \<open>Writes\<close>

text \<open>The changes that count as a version.  Marking a goal achieved leaves its version alone.\<close>

datatype goal_change = ChangeGoal "string option" int "timestamp option" | ArchiveGoal timestamp | RestoreGoal

definition write_goal :: "goal_change \<Rightarrow> goal \<Rightarrow> goal" where
  "write_goal c g = (case c of
     ChangeGoal title amt date \<Rightarrow> g\<lparr>goal_title := (case title of None \<Rightarrow> goal_title g | Some t \<Rightarrow> t),
       goal_targetAmountMinor := amt, goal_targetDate := date, goal_version := goal_version g + 1\<rparr>
   | ArchiveGoal t \<Rightarrow> g\<lparr>goal_archivedAt := Some t, goal_version := goal_version g + 1\<rparr>
   | RestoreGoal \<Rightarrow> g\<lparr>goal_archivedAt := None, goal_version := goal_version g + 1\<rparr>)"

interpretation goal_rows: versioned_rows goal_id goal_version write_goal
  by unfold_locales (auto simp: write_goal_def split: goal_change.split)

definition update_goals ::
    "(goal \<Rightarrow> bool) \<Rightarrow> (goal \<Rightarrow> goal) \<Rightarrow> 'a finance_db_scheme \<Rightarrow> nat \<times> 'a finance_db_scheme" where
  "update_goals P f s = (fst (update_many P f (fin_goals s)),
     s\<lparr>fin_goals := snd (update_many P f (fin_goals s))\<rparr>)"

definition find_goal :: "uuid \<Rightarrow> 'a finance_db_scheme \<Rightarrow> goal option" where
  "find_goal i s = find_first (\<lambda>g. goal_id g = i) (fin_goals s)"

definition goal_audit :: "uuid \<Rightarrow> uuid \<Rightarrow> string \<Rightarrow> uuid \<Rightarrow> audit_input" where
  "goal_audit userId familyId action i = audit_of userId familyId (''financial_goal.'' @ action) ''financial_goal'' i"

definition goals_create_tx ::
    "env \<Rightarrow> uuid \<Rightarrow> family_context \<Rightarrow> create_goal_dto \<Rightarrow> wallet_visibility \<Rightarrow> timestamp option \<Rightarrow> int
       \<Rightarrow> 'a finance_db_scheme \<Rightarrow> (goal_response, 'a finance_db_scheme) resp" where
  "goals_create_tx E userId ctx dto v date amt s = (case fresh s of (wi, s1) \<Rightarrow> (case fresh s1 of (i, s2) \<Rightarrow>
     let w = new_wallet E wi (ctx_familyId ctx) userId (cg_type dto) v (cg_title dto)
           (case cg_currency dto of None \<Rightarrow> ctx_defaultCurrency ctx | Some c \<Rightarrow> c);
         g = \<lparr>goal_id = i, goal_familyId = ctx_familyId ctx, goal_walletId = wi, goal_createdById = userId,
           goal_title = cg_title dto, goal_targetAmountMinor = amt, goal_targetDate = date,
           goal_achievedAt = None, goal_version = 1, goal_archivedAt = None, goal_createdAt = env_now E\<rparr>
     in (Inr (goal_serialize g w 0), audit_record E (goal_audit userId (ctx_familyId ctx) ''created'' i)
          (s2\<lparr>fin_wallets := fin_wallets s2 @ [w], fin_goals := fin_goals s2 @ [g]\<rparr>))))"

definition goals_create ::
    "env \<Rightarrow> uuid \<Rightarrow> create_goal_dto \<Rightarrow> 'a finance_db_scheme \<Rightarrow> (goal_response, 'a finance_db_scheme) resp" where
  "goals_create E userId dto s = (case requireMembership userId s of Inl e \<Rightarrow> (Inl e, s)
   | Inr ctx \<Rightarrow> (case goal_visibility (cg_type dto) (cg_visibility dto) of Inl e \<Rightarrow> (Inl e, s)
     | Inr v \<Rightarrow>
       if cg_type dto = WFamily \<and> ctx_role ctx \<noteq> PARTNER
       then (Inl (Forbidden ''A partner membership is required''), s)
       else (case goal_targetDate_of (cg_targetDate dto) of Inl e \<Rightarrow> (Inl e, s)
         | Inr date \<Rightarrow> (case amount ''targetAmountMinor'' (cg_targetAmountMinor dto) of Inl e \<Rightarrow> (Inl e, s)
           | Inr amt \<Rightarrow> transaction s (goals_create_tx E userId ctx dto v date amt s)))))"

subsection \<open>Reading\<close>

text \<open>A goal with its wallet, which exists by the foreign key.\<close>

definition with_wallet :: "'a finance_db_scheme \<Rightarrow> goal list \<Rightarrow> (goal \<times> wallet) list" where
  "with_wallet s gs = List.map_filter (\<lambda>g. map_option (Pair g) (find_wallet (goal_walletId g) s)) gs"

definition goals_where ::
    "(goal \<Rightarrow> bool) \<Rightarrow> uuid \<Rightarrow> family_context \<Rightarrow> 'a finance_db_scheme \<Rightarrow> (goal \<times> wallet) list" where
  "goals_where P userId ctx s = filter (\<lambda>(g, w). goal_familyId g = ctx_familyId ctx \<and> P g
     \<and> wallet_archivedAt w = None \<and> visibleTo userId (ctx_role ctx) w) (with_wallet s (fin_goals s))"

definition with_balances ::
    "uuid \<Rightarrow> family_context \<Rightarrow> 'a finance_db_scheme \<Rightarrow> (goal \<times> wallet) list \<Rightarrow> goal_response list" where
  "with_balances userId ctx s gs = (
     let visible = visibleWhere userId (ctx_familyId ctx) (ctx_role ctx) None s
     in map (\<lambda>(g, w). goal_serialize g w (balances visible s (goal_walletId g))) gs)"

definition goals_list :: "uuid \<Rightarrow> 'a finance_db_scheme \<Rightarrow> api_error + goal_response list" where
  "goals_list userId s = (case requireMembership userId s of Inl e \<Rightarrow> Inl e
   | Inr ctx \<Rightarrow> Inr (with_balances userId ctx s (sort_key (\<lambda>(g, w). goal_createdAt g)
       (goals_where (\<lambda>g. goal_archivedAt g = None) userId ctx s))))"

definition archived_instant :: "goal \<Rightarrow> timestamp" where
  "archived_instant g = (case goal_archivedAt g of None \<Rightarrow> 0 | Some t \<Rightarrow> t)"

definition goals_listArchived :: "uuid \<Rightarrow> 'a finance_db_scheme \<Rightarrow> api_error + goal_response list" where
  "goals_listArchived userId s = (case requireMembership userId s of Inl e \<Rightarrow> Inl e
   | Inr ctx \<Rightarrow> Inr (with_balances userId ctx s (sort_key (\<lambda>(g, w). - archived_instant g)
       (goals_where (\<lambda>g. goal_archivedAt g \<noteq> None) userId ctx s))))"

definition findManageable ::
    "uuid \<Rightarrow> uuid \<Rightarrow> uuid \<Rightarrow> member_role \<Rightarrow> (goal \<Rightarrow> bool) \<Rightarrow> 'a finance_db_scheme \<Rightarrow> api_error + goal \<times> wallet" where
  "findManageable userId i familyId role P s = (
     let missing = Inl (NotFound ''Financial goal not found'') in
     case find_first (\<lambda>(g, w). goal_id g = i \<and> goal_familyId g = familyId \<and> P g)
         (with_wallet s (fin_goals s)) of
       None \<Rightarrow> missing
     | Some (g, w) \<Rightarrow> (if canManage w userId role then Inr (g, w) else missing))"

subsection \<open>Changing a goal\<close>

definition goals_update_tx ::
    "env \<Rightarrow> uuid \<Rightarrow> uuid \<Rightarrow> goal \<Rightarrow> string option \<Rightarrow> int \<Rightarrow> timestamp option \<Rightarrow> int
       \<Rightarrow> 'a finance_db_scheme \<Rightarrow> (goal_response, 'a finance_db_scheme) resp" where
  "goals_update_tx E userId familyId goal title amt date version s = (
     case update_goals (\<lambda>g. goal_id g = goal_id goal \<and> goal_version g = version \<and> goal_archivedAt g = None)
         (write_goal (ChangeGoal title amt date)) s of
       (count, s1) \<Rightarrow>
         if count \<noteq> 1 then (Inl (Conflict ''Financial goal was changed concurrently''), s1) else
         (let s2 = (case title of None \<Rightarrow> s1 | Some t \<Rightarrow> snd (update_wallets
               (\<lambda>w. wallet_id w = goal_walletId goal)
               (\<lambda>w. w\<lparr>wallet_name := t, wallet_version := wallet_version w + 1\<rparr>) s1)) in
          case find_goal (goal_id goal) s2 of None \<Rightarrow> (Inl P2025, s2)
          | Some updated \<Rightarrow> (case find_wallet (goal_walletId updated) s2 of None \<Rightarrow> (Inl P2025, s2)
            | Some w \<Rightarrow> (Inr (goal_serialize updated w (balance (goal_walletId goal) s2)),
                audit_record E (goal_audit userId familyId ''updated'' (goal_id goal)) s2))))"

text \<open>The guard \<open>!Object.keys(dto).length\<close> never fires and is left out: with the compile target ES2023 the fields that a
  request does not give are own properties of the DTO with the value \<open>undefined\<close>.\<close>

definition goals_update ::
    "env \<Rightarrow> uuid \<Rightarrow> uuid \<Rightarrow> update_goal_dto \<Rightarrow> int option
       \<Rightarrow> 'a finance_db_scheme \<Rightarrow> (goal_response, 'a finance_db_scheme) resp" where
  "goals_update E userId i dto expectedVersion s = (
     case requireMembership userId s of Inl e \<Rightarrow> (Inl e, s)
   | Inr ctx \<Rightarrow> (case findManageable userId i (ctx_familyId ctx) (ctx_role ctx)
         (\<lambda>g. goal_archivedAt g = None) s of Inl e \<Rightarrow> (Inl e, s)
     | Inr (goal, _) \<Rightarrow> (case (case ug_targetAmountMinor dto of None \<Rightarrow> Inr (goal_targetAmountMinor goal)
           | Some a \<Rightarrow> amount ''targetAmountMinor'' a) of Inl e \<Rightarrow> (Inl e, s)
       | Inr amt \<Rightarrow> (case (case ug_targetDate dto of None \<Rightarrow> Inr (goal_targetDate goal)
             | Some d \<Rightarrow> goal_targetDate_of d) of Inl e \<Rightarrow> (Inl e, s)
         | Inr date \<Rightarrow> transaction s (goals_update_tx E userId (ctx_familyId ctx) goal (ug_title dto) amt date
             (or_version expectedVersion (goal_version goal)) s)))))"

definition goals_archive ::
    "env \<Rightarrow> uuid \<Rightarrow> uuid \<Rightarrow> int option \<Rightarrow> 'a finance_db_scheme \<Rightarrow> (unit, 'a finance_db_scheme) resp" where
  "goals_archive E userId i expectedVersion s = (
     case requireMembership userId s of Inl e \<Rightarrow> (Inl e, s)
   | Inr ctx \<Rightarrow> (case findManageable userId i (ctx_familyId ctx) (ctx_role ctx)
         (\<lambda>g. goal_archivedAt g = None) s of Inl e \<Rightarrow> (Inl e, s)
     | Inr (goal, _) \<Rightarrow> transaction s (
         case update_goals (\<lambda>g. goal_id g = goal_id goal \<and> goal_version g = or_version expectedVersion (goal_version goal)
             \<and> goal_archivedAt g = None) (write_goal (ArchiveGoal (env_now E))) s of
           (count, s1) \<Rightarrow>
             if count \<noteq> 1 then (Inl (Conflict ''Financial goal was changed concurrently''), s1) else
             (Inr (), audit_record E (goal_audit userId (ctx_familyId ctx) ''archived'' (goal_id goal)) s1))))"

text \<open>The guard \<open>wallet: { archivedAt: null }\<close> of the write reads the goal's wallet.\<close>

definition goals_restore ::
    "env \<Rightarrow> uuid \<Rightarrow> uuid \<Rightarrow> int option \<Rightarrow> 'a finance_db_scheme \<Rightarrow> (goal_response, 'a finance_db_scheme) resp" where
  "goals_restore E userId i expectedVersion s = (
     case requireMembership userId s of Inl e \<Rightarrow> (Inl e, s)
   | Inr ctx \<Rightarrow> (case findManageable userId i (ctx_familyId ctx) (ctx_role ctx)
         (\<lambda>g. goal_archivedAt g \<noteq> None) s of Inl e \<Rightarrow> (Inl e, s)
     | Inr (goal, _) \<Rightarrow> transaction s (
         case update_goals (\<lambda>g. goal_id g = goal_id goal \<and> goal_version g = or_version expectedVersion (goal_version goal)
             \<and> goal_archivedAt g \<noteq> None
             \<and> (case find_wallet (goal_walletId g) s of None \<Rightarrow> False | Some w \<Rightarrow> wallet_archivedAt w = None))
             (write_goal RestoreGoal) s of
           (count, s1) \<Rightarrow>
             if count \<noteq> 1 then (Inl (Conflict ''Financial goal cannot be restored''), s1) else
             (case find_goal (goal_id goal) s1 of None \<Rightarrow> (Inl P2025, s1)
              | Some restored \<Rightarrow> (case find_wallet (goal_walletId restored) s1 of None \<Rightarrow> (Inl P2025, s1)
                | Some w \<Rightarrow> (Inr (goal_serialize restored w (balance (goal_walletId goal) s1)),
                    audit_record E (goal_audit userId (ctx_familyId ctx) ''restored'' (goal_id goal)) s1))))))"

subsection \<open>Contributions\<close>

datatype goal_request = ContributionRequest uuid contribution_dto

definition goal_replay ::
    "uuid \<Rightarrow> string \<Rightarrow> string \<Rightarrow> 'a finance_db_scheme \<Rightarrow> api_error + contribution_response option" where
  "goal_replay userId key requestHash s = (case find_command userId GOAL_SCOPE key s of
     None \<Rightarrow> Inr None
   | Some command \<Rightarrow>
       if cmd_requestHash command \<noteq> requestHash
       then Inl (Conflict ''Idempotency-Key was already used with a different request'')
       else let unavailable = Inl (Conflict ''Goal contribution result is unavailable'') in
       (case (find_transaction (cmd_transactionId command) s,
           find_first (\<lambda>c. contrib_transactionId c = cmd_transactionId command) (fin_contributions s)) of
         (Some t, Some c) \<Rightarrow> (case find_goal (contrib_goalId c) s of None \<Rightarrow> unavailable
           | Some g \<Rightarrow> Inr (Some \<lparr>cr_id = contrib_id c, cr_goalId = contrib_goalId c,
               cr_transactionId = cmd_transactionId command,
               cr_amountMinor = (case find_first (\<lambda>e. entry_walletId e = Some (goal_walletId g)) (ltx_entries t) of
                   None \<Rightarrow> 0 | Some e \<Rightarrow> entry_amountMinor e),
               cr_occurredAt = ltx_occurredAt t, cr_currentAmountMinor = balance (goal_walletId g) s,
               cr_achievedAt = goal_achievedAt g\<rparr>))
       | _ \<Rightarrow> unavailable))"

definition goal_replayAfterConflict ::
    "uuid \<Rightarrow> string \<Rightarrow> string \<Rightarrow> (contribution_response, 'a finance_db_scheme) resp
       \<Rightarrow> (contribution_response, 'a finance_db_scheme) resp" where
  "goal_replayAfterConflict userId key requestHash r = (case r of
     (Inr c, s) \<Rightarrow> (Inr c, s)
   | (Inl e, s) \<Rightarrow> (if e \<noteq> P2002 then (Inl e, s) else
       (case goal_replay userId key requestHash s of
          Inl e' \<Rightarrow> (Inl e', s) | Inr (Some c) \<Rightarrow> (Inr c, s) | Inr None \<Rightarrow> (Inl e, s))))"

definition contribution_transaction ::
    "env \<Rightarrow> uuid \<Rightarrow> uuid \<Rightarrow> uuid \<Rightarrow> contribution_dto \<Rightarrow> wallet \<Rightarrow> goal \<Rightarrow> int \<Rightarrow> ledger_transaction" where
  "contribution_transaction E i userId familyId dto source goal amt =
     \<lparr>ltx_id = i, ltx_familyId = familyId, ltx_createdById = userId, ltx_type = TRANSFER,
      ltx_currency = wallet_currency source, ltx_occurredAt = occurredAt E (gc_occurredAt dto),
      ltx_note = trim_or_null (gc_note dto), ltx_reversesId = None, ltx_categoryId = None,
      ltx_createdAt = env_now E,
      ltx_entries = [\<lparr>entry_walletId = Some (wallet_id source), entry_amountMinor = - amt\<rparr>,
        \<lparr>entry_walletId = Some (goal_walletId goal), entry_amountMinor = amt\<rparr>]\<rparr>"

text \<open>The end of the contribution: the balance now includes it, and a goal that was not achieved
  before and has reached its target is marked and announced once.\<close>

definition mark_achieved ::
    "env \<Rightarrow> uuid \<Rightarrow> uuid \<Rightarrow> goal \<Rightarrow> 'a finance_db_scheme \<Rightarrow> (timestamp option, 'a finance_db_scheme) resp" where
  "mark_achieved E userId familyId goal s = (
     let current = balance (goal_walletId goal) s;
         achievedAt = (if goal_achievedAt goal = None \<and> current \<ge> goal_targetAmountMinor goal
           then Some (env_now E) else goal_achievedAt goal)
     in if achievedAt \<noteq> None \<and> goal_achievedAt goal = None
        then and_then (notifyUserInTransaction E \<lparr>dn_userId = userId, dn_familyId = Some familyId,
               dn_type = ''FINANCIAL_GOAL_ACHIEVED'', dn_title = ''Goal achieved'',
               dn_body = Some (goal_title goal)\<rparr>
             (snd (update_goals (\<lambda>g. goal_id g = goal_id goal) (\<lambda>g. g\<lparr>goal_achievedAt := achievedAt\<rparr>) s)))
             (\<lambda>_ s'. (Inr achievedAt, s'))
        else (Inr achievedAt, s))"

definition write_contribution ::
    "env \<Rightarrow> uuid \<Rightarrow> uuid \<Rightarrow> string \<Rightarrow> string \<Rightarrow> contribution_dto \<Rightarrow> int \<Rightarrow> goal \<Rightarrow> wallet
       \<Rightarrow> 'a finance_db_scheme \<Rightarrow> (contribution_response, 'a finance_db_scheme) resp" where
  "write_contribution E userId familyId key requestHash dto amt goal source s = (
     case fresh s of (ti, s1) \<Rightarrow> (case fresh s1 of (ci, s2) \<Rightarrow>
     let t = contribution_transaction E ti userId familyId dto source goal amt in
     and_then (insert_transaction t s2) (\<lambda>_ s3.
     and_then (insert_command \<lparr>cmd_userId = userId, cmd_scope = GOAL_SCOPE, cmd_key = key,
         cmd_requestHash = requestHash, cmd_transactionId = ti\<rparr>
       (s3\<lparr>fin_contributions := fin_contributions s3 @
          [\<lparr>contrib_id = ci, contrib_goalId = goal_id goal, contrib_transactionId = ti, contrib_createdById = userId\<rparr>]\<rparr>))
       (\<lambda>_ s4. and_then (mark_achieved E userId familyId goal s4) (\<lambda>achievedAt s5.
          (Inr \<lparr>cr_id = ci, cr_goalId = goal_id goal, cr_transactionId = ti, cr_amountMinor = amt,
             cr_occurredAt = ltx_occurredAt t, cr_currentAmountMinor = balance (goal_walletId goal) s4,
             cr_achievedAt = achievedAt\<rparr>,
           audit_record E (goal_audit userId familyId ''contributed'' (goal_id goal)) s5))))))"

definition contribute_tx ::
    "env \<Rightarrow> uuid \<Rightarrow> family_context \<Rightarrow> uuid \<Rightarrow> string \<Rightarrow> string \<Rightarrow> contribution_dto \<Rightarrow> int
       \<Rightarrow> 'a finance_db_scheme \<Rightarrow> (contribution_response, 'a finance_db_scheme) resp" where
  "contribute_tx E userId ctx i key requestHash dto amt s = (
     case findManageable userId i (ctx_familyId ctx) (ctx_role ctx) (\<lambda>g. goal_archivedAt g = None) s of
       Inl e \<Rightarrow> (Inl e, s)
     | Inr (goal, envelope) \<Rightarrow>
       if gc_fromWalletId dto = goal_walletId goal
       then (Inl (BadRequest ''Contribution source wallet must differ from the envelope''), s) else
       (case find_first (\<lambda>w. wallet_id w = gc_fromWalletId dto \<and> wallet_familyId w = ctx_familyId ctx
            \<and> wallet_archivedAt w = None) (fin_wallets s) of
          None \<Rightarrow> (Inl (NotFound ''Wallet not found''), s)
        | Some source \<Rightarrow>
          if \<not> canManage source userId (ctx_role ctx) then (Inl (NotFound ''Wallet not found''), s) else
          if wallet_currency source \<noteq> wallet_currency envelope
          then (Inl (BadRequest ''Contribution wallets must use the same currency''), s) else
          if wallet_type envelope = WFamily \<and> wallet_type source = WPersonal
             \<and> wallet_visibility source = WvPrivate
          then (Inl (BadRequest ''A private wallet cannot fund a family envelope''), s)
          else write_contribution E userId (ctx_familyId ctx) key requestHash dto amt goal source s))"

definition goals_contribute ::
    "env \<Rightarrow> (goal_request \<Rightarrow> string) \<Rightarrow> uuid \<Rightarrow> uuid \<Rightarrow> string \<Rightarrow> contribution_dto
       \<Rightarrow> 'a finance_db_scheme \<Rightarrow> (contribution_response, 'a finance_db_scheme) resp" where
  "goals_contribute E sha userId i key dto s = (case requireMembership userId s of Inl e \<Rightarrow> (Inl e, s)
   | Inr ctx \<Rightarrow> (let requestHash = sha (ContributionRequest i dto) in
     case goal_replay userId key requestHash s of Inl e \<Rightarrow> (Inl e, s)
     | Inr (Some c) \<Rightarrow> (Inr c, s)
     | Inr None \<Rightarrow> (case amount ''amountMinor'' (gc_amountMinor dto) of Inl e \<Rightarrow> (Inl e, s)
       | Inr amt \<Rightarrow> goal_replayAfterConflict userId key requestHash
           (transaction s (contribute_tx E userId ctx i key requestHash dto amt s)))))"

end
