(* ===== verification/Finance.thy ===== *)
theory Finance
  imports Goals "HOL-Library.Sublist"
begin

text \<open>
  What the finance services keep together.  \<open>finance_ok\<close> is the invariant of the financial
  tables: the constraints of the SQL migrations (wallet type, owner and visibility; balanced
  transactions within one family and currency; unique keys) and what only the services
  maintain (a reversal negates its original, an open goal has an open envelope, a
  contribution pays into the envelope of its goal).  \<open>fin_evolves\<close> adds what no operation
  takes back: posted transactions, command results and contributions stay, the identity of a
  wallet and the first achievement of a goal never change.
\<close>

subsection \<open>The invariant\<close>

definition wallet_row_ok :: "wallet \<Rightarrow> bool" where
  "wallet_row_ok w \<longleftrightarrow> assertVisibility (wallet_type w) (wallet_visibility w) = Inr ()
     \<and> (wallet_ownerId w = None \<longleftrightarrow> wallet_type w = WFamily)"

definition wallets_ok :: "uuid \<Rightarrow> wallet list \<Rightarrow> bool" where
  "wallets_ok n ws \<longleftrightarrow> distinct (map wallet_id ws) \<and> (\<forall>w \<in> set ws. wallet_id w < n \<and> wallet_row_ok w)"

text \<open>\<open>enforce_balanced_ledger_transaction\<close> and the checks of \<open>ledger_entries\<close>.\<close>

definition entry_ok :: "wallet list \<Rightarrow> uuid \<Rightarrow> string \<Rightarrow> ledger_entry \<Rightarrow> bool" where
  "entry_ok ws familyId currency e \<longleftrightarrow> entry_amountMinor e \<noteq> 0 \<and> \<bar>entry_amountMinor e\<bar> \<le> MAX_AMOUNT_MINOR
     \<and> (\<forall>i. entry_walletId e = Some i \<longrightarrow> (\<exists>w \<in> set ws. wallet_id w = i
          \<and> wallet_familyId w = familyId \<and> wallet_currency w = currency))"

definition balanced :: "ledger_transaction \<Rightarrow> bool" where
  "balanced t \<longleftrightarrow> 2 \<le> length (ltx_entries t) \<and> sum_list (map entry_amountMinor (ltx_entries t)) = 0"

definition posted_ok :: "wallet list \<Rightarrow> ledger_transaction \<Rightarrow> bool" where
  "posted_ok ws t \<longleftrightarrow> balanced t \<and> (\<forall>e \<in> set (ltx_entries t). entry_ok ws (ltx_familyId t) (ltx_currency t) e)
     \<and> (ltx_type t = REVERSAL \<longleftrightarrow> ltx_reversesId t \<noteq> None)"

definition negate :: "ledger_entry \<Rightarrow> ledger_entry" where
  "negate e = e\<lparr>entry_amountMinor := - entry_amountMinor e\<rparr>"

definition reverses :: "ledger_transaction \<Rightarrow> ledger_transaction \<Rightarrow> bool" where
  "reverses t original \<longleftrightarrow> ltx_reversesId t = Some (ltx_id original) \<and> ltx_type original \<noteq> REVERSAL
     \<and> ltx_familyId t = ltx_familyId original \<and> ltx_currency t = ltx_currency original
     \<and> ltx_entries t = map negate (ltx_entries original)"

definition ledger_ok :: "uuid \<Rightarrow> wallet list \<Rightarrow> ledger_transaction list \<Rightarrow> bool" where
  "ledger_ok n ws ts \<longleftrightarrow> distinct (map ltx_id ts)
     \<and> (\<forall>t \<in> set ts. ltx_id t < n \<and> posted_ok ws t
          \<and> (ltx_reversesId t \<noteq> None \<longrightarrow> (\<exists>original \<in> set ts. reverses t original)))
     \<and> (\<forall>t \<in> set ts. \<forall>u \<in> set ts. ltx_reversesId t \<noteq> None \<and> ltx_reversesId t = ltx_reversesId u \<longrightarrow> t = u)"

definition command_key :: "command_result \<Rightarrow> uuid \<times> string \<times> string" where
  "command_key c = (cmd_userId c, cmd_scope c, cmd_key c)"

definition commands_ok :: "ledger_transaction list \<Rightarrow> command_result list \<Rightarrow> bool" where
  "commands_ok ts cs \<longleftrightarrow> distinct (map command_key cs) \<and> distinct (map cmd_transactionId cs)
     \<and> (\<forall>c \<in> set cs. cmd_transactionId c \<in> ltx_id ` set ts)"

definition goals_ok :: "uuid \<Rightarrow> wallet list \<Rightarrow> goal list \<Rightarrow> bool" where
  "goals_ok n ws gs \<longleftrightarrow> distinct (map goal_id gs) \<and> distinct (map goal_walletId gs)
     \<and> (\<forall>g \<in> set gs. goal_id g < n \<and> 0 < goal_targetAmountMinor g
          \<and> (\<exists>w \<in> set ws. wallet_id w = goal_walletId g \<and> wallet_familyId w = goal_familyId g
               \<and> (goal_archivedAt g = None \<longrightarrow> wallet_archivedAt w = None)))"

definition contribution_ok :: "goal list \<Rightarrow> ledger_transaction list \<Rightarrow> contribution \<Rightarrow> bool" where
  "contribution_ok gs ts c \<longleftrightarrow> (\<exists>g \<in> set gs. \<exists>t \<in> set ts. goal_id g = contrib_goalId c
     \<and> ltx_id t = contrib_transactionId c \<and> ltx_type t = TRANSFER
     \<and> (\<exists>e \<in> set (ltx_entries t). entry_walletId e = Some (goal_walletId g) \<and> 0 < entry_amountMinor e))"

definition contributions_ok :: "goal list \<Rightarrow> ledger_transaction list \<Rightarrow> contribution list \<Rightarrow> bool" where
  "contributions_ok gs ts cs \<longleftrightarrow> distinct (map contrib_transactionId cs) \<and> list_all (contribution_ok gs ts) cs"

definition categories_ok :: "uuid \<Rightarrow> category list \<Rightarrow> bool" where
  "categories_ok n cs \<longleftrightarrow> distinct (map cat_id cs) \<and> (\<forall>c \<in> set cs. cat_id c < n)"

text \<open>One budget for each category and month, in the family of its expense category.\<close>

definition budgets_ok :: "uuid \<Rightarrow> category list \<Rightarrow> budget list \<Rightarrow> bool" where
  "budgets_ok n cs bs \<longleftrightarrow> distinct (map budget_id bs)
     \<and> distinct (map (\<lambda>b. (budget_categoryId b, budget_periodStart b)) bs)
     \<and> (\<forall>b \<in> set bs. budget_id b < n \<and> 0 < budget_limitMinor b \<and> getUTCDate (budget_periodStart b) = 1
          \<and> (\<exists>c \<in> set cs. cat_id c = budget_categoryId b \<and> cat_familyId c = budget_familyId b
               \<and> cat_kind c = KExpense))"

definition finance_ok :: "'a finance_db_scheme \<Rightarrow> bool" where
  "finance_ok s \<longleftrightarrow> wallets_ok (core_nextId s) (fin_wallets s)
     \<and> ledger_ok (core_nextId s) (fin_wallets s) (fin_transactions s)
     \<and> commands_ok (fin_transactions s) (fin_commands s)
     \<and> goals_ok (core_nextId s) (fin_wallets s) (fin_goals s)
     \<and> contributions_ok (fin_goals s) (fin_transactions s) (fin_contributions s)
     \<and> categories_ok (core_nextId s) (fin_categories s)
     \<and> budgets_ok (core_nextId s) (fin_categories s) (fin_budgets s)"

subsection \<open>What no operation takes back\<close>

definition same_wallet :: "wallet \<Rightarrow> wallet \<Rightarrow> bool" where
  "same_wallet w w' \<longleftrightarrow> wallet_id w' = wallet_id w \<and> wallet_familyId w' = wallet_familyId w
     \<and> wallet_ownerId w' = wallet_ownerId w \<and> wallet_type w' = wallet_type w
     \<and> wallet_currency w' = wallet_currency w \<and> wallet_version w \<le> wallet_version w'"

definition same_goal :: "goal \<Rightarrow> goal \<Rightarrow> bool" where
  "same_goal g g' \<longleftrightarrow> goal_id g' = goal_id g \<and> goal_familyId g' = goal_familyId g
     \<and> goal_walletId g' = goal_walletId g \<and> goal_version g \<le> goal_version g'
     \<and> (goal_achievedAt g \<noteq> None \<longrightarrow> goal_achievedAt g' = goal_achievedAt g)"

definition fin_evolves :: "'a finance_db_scheme \<Rightarrow> 'a finance_db_scheme \<Rightarrow> bool" where
  "fin_evolves s s' \<longleftrightarrow> (finance_ok s \<longrightarrow> finance_ok s'
     \<and> prefix (fin_transactions s) (fin_transactions s')
     \<and> prefix (fin_commands s) (fin_commands s')
     \<and> prefix (fin_contributions s) (fin_contributions s')
     \<and> rows_kept same_wallet (fin_wallets s) (fin_wallets s')
     \<and> rows_kept same_goal (fin_goals s) (fin_goals s'))"

lemma same_wallet_refl [simp]: "same_wallet w w"
  by (simp add: same_wallet_def)

lemma same_goal_refl [simp]: "same_goal g g"
  by (simp add: same_goal_def)

lemma same_wallet_trans: "same_wallet a b \<Longrightarrow> same_wallet b c \<Longrightarrow> same_wallet a c"
  by (simp add: same_wallet_def)

lemma same_goal_trans: "same_goal a b \<Longrightarrow> same_goal b c \<Longrightarrow> same_goal a c"
  by (auto simp: same_goal_def)

lemma wallets_kept_trans:
  "rows_kept same_wallet a b \<Longrightarrow> rows_kept same_wallet b c \<Longrightarrow> rows_kept same_wallet a c"
  by (rule rows_kept_trans) (rule same_wallet_trans)

lemma goals_kept_trans:
  "rows_kept same_goal a b \<Longrightarrow> rows_kept same_goal b c \<Longrightarrow> rows_kept same_goal a c"
  by (rule rows_kept_trans) (rule same_goal_trans)

lemma fin_evolves_trans:
  assumes "fin_evolves a b" "fin_evolves b c"
  shows "fin_evolves a c"
  unfolding fin_evolves_def
proof (intro impI conjI)
  assume a: "finance_ok a"
  note ab = assms(1) [unfolded fin_evolves_def, rule_format, OF a]
  note bc = assms(2) [unfolded fin_evolves_def, rule_format, OF conjunct1 [OF ab]]
  show "finance_ok c" using bc by simp
  show "prefix (fin_transactions a) (fin_transactions c)"
    "prefix (fin_commands a) (fin_commands c)"
    "prefix (fin_contributions a) (fin_contributions c)"
    using ab bc by (auto intro: prefix_order.trans)
  show "rows_kept same_wallet (fin_wallets a) (fin_wallets c)"
    using ab bc wallets_kept_trans by blast
  show "rows_kept same_goal (fin_goals a) (fin_goals c)"
    using ab bc goals_kept_trans by blast
qed

lemma fin_evolves_refl: "fin_evolves s s"
  by (simp add: fin_evolves_def rows_kept_refl)

interpretation fin: evolution fin_evolves
  using fin_evolves_refl fin_evolves_trans by unfold_locales


subsection \<open>Changes of single tables\<close>

lemmas finance_ok_defs = finance_ok_def wallets_ok_def ledger_ok_def commands_ok_def goals_ok_def
  contributions_ok_def categories_ok_def budgets_ok_def

lemma ids_ok_mono:
  "wallets_ok n ws \<Longrightarrow> n \<le> m \<Longrightarrow> wallets_ok m ws"
  "ledger_ok n ws ts \<Longrightarrow> n \<le> m \<Longrightarrow> ledger_ok m ws ts"
  "goals_ok n ws gs \<Longrightarrow> n \<le> m \<Longrightarrow> goals_ok m ws gs"
  "categories_ok n cs \<Longrightarrow> n \<le> m \<Longrightarrow> categories_ok m cs"
  "budgets_ok n cs bs \<Longrightarrow> n \<le> m \<Longrightarrow> budgets_ok m cs bs"
  by (fastforce simp: finance_ok_defs)+

lemma entry_ok_kept: "entry_ok ws fam cur e \<Longrightarrow> rows_kept same_wallet ws ws' \<Longrightarrow> entry_ok ws' fam cur e"
  unfolding entry_ok_def by (fastforce dest: rows_kept_rowD simp: same_wallet_def)

lemma ledger_ok_kept: "ledger_ok n ws ts \<Longrightarrow> rows_kept same_wallet ws ws' \<Longrightarrow> ledger_ok n ws' ts"
  unfolding ledger_ok_def posted_ok_def by (blast intro: entry_ok_kept)

text \<open>Every change below is a change of some tables that leaves the others and the feed alone.\<close>

lemma fin_feed: "fin_evolves s t \<Longrightarrow> fin_evolves s (t\<lparr>core_feed := d\<rparr>)"
  by (simp add: fin_evolves_def finance_ok_def)

lemma fin_audit: "fin_evolves s t \<Longrightarrow> fin_evolves s (audit_record E i t)"
  by (simp add: audit_record_def fin_feed)

lemma fin_bump: "core_nextId s \<le> n \<Longrightarrow> fin_evolves s (s\<lparr>core_nextId := n\<rparr>)"
  by (simp add: fin_evolves_def finance_ok_def rows_kept_refl) (blast intro: ids_ok_mono)

lemma wallets_ok_append:
  "wallets_ok n ws \<Longrightarrow> n \<le> wallet_id w \<Longrightarrow> wallet_id w < m \<Longrightarrow> n \<le> m \<Longrightarrow> wallet_row_ok w
     \<Longrightarrow> wallets_ok m (ws @ [w])"
  by (fastforce simp: wallets_ok_def)

lemma goals_ok_append_wallet: "goals_ok n ws gs \<Longrightarrow> goals_ok n (ws @ new) gs"
  unfolding goals_ok_def by (metis (no_types, lifting) UnCI set_append)

lemma fin_add_wallet:
  assumes "wallet_id w = core_nextId s" "wallet_row_ok w" "core_nextId s < n"
  shows "fin_evolves s (s\<lparr>core_nextId := n, fin_wallets := fin_wallets s @ [w]\<rparr>)"
  unfolding fin_evolves_def
proof (intro impI conjI)
  assume ok: "finance_ok s"
  have kept: "rows_kept same_wallet (fin_wallets s) (fin_wallets s @ [w])"
    by (rule rows_kept_append) simp
  show "finance_ok (s\<lparr>core_nextId := n, fin_wallets := fin_wallets s @ [w]\<rparr>)"
    using ok assms ids_ok_mono(2-5) [where n = "core_nextId s" and m = "n"]
      wallets_ok_append [of "core_nextId s" "fin_wallets s" w "n"]
      ledger_ok_kept [OF _ kept] goals_ok_append_wallet
    by (simp add: finance_ok_def)
qed (simp_all add: rows_kept_refl rows_kept_append)

lemma fin_change_wallets:
  assumes same: "\<And>w. w \<in> set (fin_wallets s) \<Longrightarrow> same_wallet w (f w)"
    and row: "\<And>w. finance_ok s \<Longrightarrow> w \<in> set (fin_wallets s) \<Longrightarrow> wallet_row_ok w \<Longrightarrow> wallet_row_ok (f w)"
    and open_goal: "\<And>w g. finance_ok s \<Longrightarrow> w \<in> set (fin_wallets s) \<Longrightarrow> g \<in> set (fin_goals s)
      \<Longrightarrow> goal_walletId g = wallet_id w \<Longrightarrow> goal_archivedAt g = None \<Longrightarrow> wallet_archivedAt w = None
      \<Longrightarrow> wallet_archivedAt (f w) = None"
  shows "fin_evolves s (s\<lparr>fin_wallets := map f (fin_wallets s)\<rparr>)"
  unfolding fin_evolves_def
proof (intro impI conjI)
  assume ok: "finance_ok s"
  have kept: "rows_kept same_wallet (fin_wallets s) (map f (fin_wallets s))"
    by (rule rows_kept_map) (rule same)
  have ids: "map (wallet_id \<circ> f) (fin_wallets s) = map wallet_id (fin_wallets s)"
    using same by (auto simp: same_wallet_def)
  have "wallets_ok (core_nextId s) (map f (fin_wallets s))"
    using ok row [OF ok] same by (auto simp: finance_ok_def wallets_ok_def ids same_wallet_def)
  moreover have "goals_ok (core_nextId s) (map f (fin_wallets s)) (fin_goals s)"
    unfolding goals_ok_def
  proof (intro conjI ballI)
    fix g assume g: "g \<in> set (fin_goals s)"
    with ok obtain w where w: "w \<in> set (fin_wallets s)" "wallet_id w = goal_walletId g"
      "wallet_familyId w = goal_familyId g" "goal_archivedAt g = None \<longrightarrow> wallet_archivedAt w = None"
      by (auto simp: finance_ok_def goals_ok_def)
    then show "\<exists>w \<in> set (map f (fin_wallets s)). wallet_id w = goal_walletId g
        \<and> wallet_familyId w = goal_familyId g \<and> (goal_archivedAt g = None \<longrightarrow> wallet_archivedAt w = None)"
      using same [OF w(1)] open_goal [OF ok w(1) g] by (auto simp: same_wallet_def intro!: bexI [of _ w])
  qed (use ok in \<open>auto simp: finance_ok_def goals_ok_def\<close>)
  ultimately show "finance_ok (s\<lparr>fin_wallets := map f (fin_wallets s)\<rparr>)"
    using ok ledger_ok_kept [OF _ kept] by (simp add: finance_ok_def)
  show "rows_kept same_wallet (fin_wallets s) (fin_wallets (s\<lparr>fin_wallets := map f (fin_wallets s)\<rparr>))"
    using kept by simp
qed (simp_all add: rows_kept_refl)

lemma goals_ok_append:
  "goals_ok n ws gs \<Longrightarrow> goal_id g = n \<Longrightarrow> n < m \<Longrightarrow> 0 < goal_targetAmountMinor g
     \<Longrightarrow> w \<in> set ws \<Longrightarrow> wallet_id w = goal_walletId g \<Longrightarrow> wallet_familyId w = goal_familyId g
     \<Longrightarrow> wallet_archivedAt w = None \<Longrightarrow> \<forall>g' \<in> set gs. goal_walletId g' \<noteq> goal_walletId g
     \<Longrightarrow> goals_ok m ws (gs @ [g])"
  unfolding goals_ok_def by (auto intro: less_trans)

lemma contribution_ok_kept:
  "contribution_ok gs ts c \<Longrightarrow> rows_kept same_goal gs gs' \<Longrightarrow> prefix ts ts' \<Longrightarrow> contribution_ok gs' ts' c"
  unfolding contribution_ok_def
  by (fastforce dest: rows_kept_rowD set_mono_prefix simp: same_goal_def)

lemma contributions_ok_kept:
  "contributions_ok gs ts cs \<Longrightarrow> rows_kept same_goal gs gs' \<Longrightarrow> prefix ts ts' \<Longrightarrow> contributions_ok gs' ts' cs"
  unfolding contributions_ok_def list_all_iff by (blast intro: contribution_ok_kept)

lemma fin_add_goal:
  assumes "finance_ok s \<Longrightarrow> goal_id g = core_nextId s" "0 < goal_targetAmountMinor g" "core_nextId s < n"
    and "w \<in> set (fin_wallets s)" "wallet_id w = goal_walletId g" "wallet_familyId w = goal_familyId g"
      "wallet_archivedAt w = None"
    and "finance_ok s \<Longrightarrow> \<forall>g' \<in> set (fin_goals s). goal_walletId g' \<noteq> goal_walletId g"
  shows "fin_evolves s (s\<lparr>core_nextId := n, fin_goals := fin_goals s @ [g]\<rparr>)"
  unfolding fin_evolves_def
proof (intro impI conjI)
  assume ok: "finance_ok s"
  have kept: "rows_kept same_goal (fin_goals s) (fin_goals s @ [g])"
    by (rule rows_kept_append) simp
  show "finance_ok (s\<lparr>core_nextId := n, fin_goals := fin_goals s @ [g]\<rparr>)"
    using ok assms ids_ok_mono [where n = "core_nextId s" and m = "n"]
      goals_ok_append [of "core_nextId s" "fin_wallets s" "fin_goals s" g "n" w]
      contributions_ok_kept [OF _ kept prefix_order.refl]
    by (simp add: finance_ok_def)
qed (simp_all add: rows_kept_refl rows_kept_append)

lemma fin_change_goals:
  assumes same: "\<And>g. finance_ok s \<Longrightarrow> g \<in> set (fin_goals s) \<Longrightarrow> same_goal g (f g)"
    and target: "\<And>g. g \<in> set (fin_goals s) \<Longrightarrow> 0 < goal_targetAmountMinor g \<Longrightarrow> 0 < goal_targetAmountMinor (f g)"
    and reopen: "\<And>g. finance_ok s \<Longrightarrow> g \<in> set (fin_goals s) \<Longrightarrow> goal_archivedAt g \<noteq> None
      \<Longrightarrow> goal_archivedAt (f g) = None \<Longrightarrow> \<exists>w. find_wallet (goal_walletId g) s = Some w \<and> wallet_archivedAt w = None"
  shows "fin_evolves s (s\<lparr>fin_goals := map f (fin_goals s)\<rparr>)"
  unfolding fin_evolves_def
proof (intro impI conjI)
  assume ok: "finance_ok s"
  have kept: "rows_kept same_goal (fin_goals s) (map f (fin_goals s))"
    by (rule rows_kept_map) (rule same [OF ok])
  have ids: "map (goal_id \<circ> f) (fin_goals s) = map goal_id (fin_goals s)"
    "map (goal_walletId \<circ> f) (fin_goals s) = map goal_walletId (fin_goals s)"
    using same [OF ok] by (auto simp: same_goal_def)
  have wallets: "distinct (map wallet_id (fin_wallets s))" using ok by (simp add: finance_ok_def wallets_ok_def)
  have "goals_ok (core_nextId s) (fin_wallets s) (map f (fin_goals s))"
    unfolding goals_ok_def
  proof (intro conjI ballI)
    show "distinct (map goal_id (map f (fin_goals s)))" "distinct (map goal_walletId (map f (fin_goals s)))"
      using ok by (simp_all add: finance_ok_def goals_ok_def ids)
  next
    fix h assume "h \<in> set (map f (fin_goals s))"
    then obtain g where g: "g \<in> set (fin_goals s)" "h = f g" by auto
    then obtain w where w: "w \<in> set (fin_wallets s)" "wallet_id w = goal_walletId g"
      "wallet_familyId w = goal_familyId g" "goal_archivedAt g = None \<longrightarrow> wallet_archivedAt w = None"
      using ok by (auto simp: finance_ok_def goals_ok_def)
    have "find_wallet (goal_walletId g) s = Some w"
      using find_unique_key [OF wallets w(1), of "goal_walletId g"] w(2) by (simp add: find_wallet_def)
    then have "goal_archivedAt h = None \<longrightarrow> wallet_archivedAt w = None"
      using reopen [OF ok g(1)] g(2) w(4) by auto
    then show "\<exists>w \<in> set (fin_wallets s). wallet_id w = goal_walletId h
        \<and> wallet_familyId w = goal_familyId h \<and> (goal_archivedAt h = None \<longrightarrow> wallet_archivedAt w = None)"
      using w same [OF ok g(1)] g(2) by (auto simp: same_goal_def)
    show "goal_id h < core_nextId s" "0 < goal_targetAmountMinor h"
      using ok g same [OF ok g(1)] target [OF g(1)] by (auto simp: finance_ok_def goals_ok_def same_goal_def)
  qed
  then show "finance_ok (s\<lparr>fin_goals := map f (fin_goals s)\<rparr>)"
    using ok contributions_ok_kept [OF _ kept prefix_order.refl] by (simp add: finance_ok_def)
  show "rows_kept same_goal (fin_goals s) (fin_goals (s\<lparr>fin_goals := map f (fin_goals s)\<rparr>))"
    using kept by simp
qed (simp_all add: rows_kept_refl)

text \<open>Posting.\<close>

definition may_post :: "'a finance_db_scheme \<Rightarrow> ledger_transaction \<Rightarrow> bool" where
  "may_post s t \<longleftrightarrow> posted_ok (fin_wallets s) t \<and> (ltx_reversesId t \<noteq> None \<longrightarrow>
     (\<exists>original \<in> set (fin_transactions s). reverses t original))"

lemma fin_post:
  assumes i: "ltx_id t = core_nextId s" and may: "finance_ok s \<Longrightarrow> may_post s t"
    and once: "\<forall>u \<in> set (fin_transactions s). ltx_reversesId t \<noteq> None \<longrightarrow> ltx_reversesId u \<noteq> ltx_reversesId t"
    and n: "core_nextId s < n"
  shows "fin_evolves s (s\<lparr>core_nextId := n, fin_transactions := fin_transactions s @ [t]\<rparr>)"
  unfolding fin_evolves_def
proof (intro impI conjI)
  assume ok: "finance_ok s"
  have "ledger_ok n (fin_wallets s) (fin_transactions s @ [t])"
    using ok may [OF ok] i once n unfolding finance_ok_def ledger_ok_def may_post_def by (auto intro: less_trans)
  moreover have "commands_ok (fin_transactions s @ [t]) (fin_commands s)"
    using ok by (auto simp: finance_ok_def commands_ok_def)
  moreover have "contributions_ok (fin_goals s) (fin_transactions s @ [t]) (fin_contributions s)"
    by (rule contributions_ok_kept [of "fin_goals s" "fin_transactions s"])
      (use ok in \<open>auto simp: finance_ok_def rows_kept_refl\<close>)
  ultimately show "finance_ok (s\<lparr>core_nextId := n, fin_transactions := fin_transactions s @ [t]\<rparr>)"
    using ok ids_ok_mono [where n = "core_nextId s" and m = n] n by (simp add: finance_ok_def)
qed (simp_all add: rows_kept_refl)

lemma fin_insert_command:
  assumes "finance_ok s \<Longrightarrow> cmd_transactionId c \<in> ltx_id ` set (fin_transactions s)"
  shows "fin_evolves s (snd (insert_command c s))"
  using assms unfolding fin_evolves_def insert_command_def
  by (auto simp: finance_ok_def commands_ok_def command_key_def rows_kept_refl)

lemma fin_add_contribution:
  assumes "finance_ok s \<Longrightarrow> contribution_ok (fin_goals s) (fin_transactions s) c"
    and "finance_ok s \<Longrightarrow> contrib_transactionId c \<notin> contrib_transactionId ` set (fin_contributions s)"
  shows "fin_evolves s (s\<lparr>fin_contributions := fin_contributions s @ [c]\<rparr>)"
  using assms unfolding fin_evolves_def
  by (auto simp: finance_ok_def contributions_ok_def rows_kept_refl)

text \<open>Categories and budgets.\<close>

lemma budgets_ok_kept:
  assumes "budgets_ok n cs bs" and
    "\<And>c. c \<in> set cs \<Longrightarrow> \<exists>c' \<in> set cs'. cat_id c' = cat_id c \<and> cat_familyId c' = cat_familyId c \<and> cat_kind c' = cat_kind c"
  shows "budgets_ok n cs' bs"
  using assms unfolding budgets_ok_def by (metis (no_types, lifting))

lemma fin_add_category:
  assumes "cat_id c = core_nextId s" "core_nextId s < n"
  shows "fin_evolves s (s\<lparr>core_nextId := n, fin_categories := fin_categories s @ [c]\<rparr>)"
  unfolding fin_evolves_def
proof (intro impI conjI)
  assume ok: "finance_ok s"
  have "budgets_ok (n) (fin_categories s @ [c]) (fin_budgets s)"
    by (rule budgets_ok_kept [of _ "fin_categories s"], rule ids_ok_mono(5) [where n = "core_nextId s"])
      (use ok assms in \<open>auto simp: finance_ok_def\<close>)
  moreover have "categories_ok (n) (fin_categories s @ [c])"
    using ok assms by (auto simp: finance_ok_def categories_ok_def intro: less_trans)
  ultimately show "finance_ok (s\<lparr>core_nextId := n, fin_categories := fin_categories s @ [c]\<rparr>)"
    using ok assms ids_ok_mono(1-3) [where n = "core_nextId s" and m = "n"] by (simp add: finance_ok_def)
qed (simp_all add: rows_kept_refl)

lemma fin_change_categories:
  assumes same: "\<And>c. cat_id (f c) = cat_id c \<and> cat_familyId (f c) = cat_familyId c \<and> cat_kind (f c) = cat_kind c"
  shows "fin_evolves s (s\<lparr>fin_categories := map f (fin_categories s)\<rparr>)"
  unfolding fin_evolves_def
proof (intro impI conjI)
  assume ok: "finance_ok s"
  have "budgets_ok (core_nextId s) (map f (fin_categories s)) (fin_budgets s)"
    by (rule budgets_ok_kept [of _ "fin_categories s"]) (use ok same in \<open>auto simp: finance_ok_def\<close>)
  moreover have "categories_ok (core_nextId s) (map f (fin_categories s))"
    using ok same by (auto simp: finance_ok_def categories_ok_def o_def)
  ultimately show "finance_ok (s\<lparr>fin_categories := map f (fin_categories s)\<rparr>)"
    using ok by (simp add: finance_ok_def)
qed (simp_all add: rows_kept_refl)

lemma fin_set_budgets:
  assumes "finance_ok s \<Longrightarrow> budgets_ok n (fin_categories s) bs" "core_nextId s \<le> n"
  shows "fin_evolves s (s\<lparr>core_nextId := n, fin_budgets := bs\<rparr>)"
  using assms ids_ok_mono(1-4) [where n = "core_nextId s" and m = n] unfolding fin_evolves_def finance_ok_def
  by (simp add: rows_kept_refl)

end
