(* ===== verification/FinanceOps.thy ===== *)
theory FinanceOps
  imports Finance
begin

text \<open>
  Every operation of the finance services keeps \<open>finance_ok\<close> and the ledger: one lemma for each
  operation, from the changes of single tables in \<open>Finance\<close>, and their sum over the step
  relation \<open>finance_step\<close>, whose steps are the calls that pass the validation of the DTOs.
\<close>

subsection \<open>Wallets\<close>

lemma resolveCreateVisibility_valid: "resolveCreateVisibility ty vis = Inr v \<Longrightarrow> assertVisibility ty v = Inr ()"
  by (auto simp: resolveCreateVisibility_def Let_def split: sum.splits)

lemma new_wallet_row_ok: "assertVisibility ty v = Inr () \<Longrightarrow> wallet_row_ok (new_wallet E i fam uid ty v name cur)"
  by (cases ty) (simp_all add: wallet_row_ok_def new_wallet_def)

lemma new_wallet_sel [simp]:
  "wallet_id (new_wallet E i fam uid ty v name cur) = i"
  "wallet_familyId (new_wallet E i fam uid ty v name cur) = fam"
  "wallet_archivedAt (new_wallet E i fam uid ty v name cur) = None"
  by (simp_all add: new_wallet_def)

lemma wallet_unique:
  "finance_ok s \<Longrightarrow> w \<in> set (fin_wallets s) \<Longrightarrow> v \<in> set (fin_wallets s) \<Longrightarrow> wallet_id w = wallet_id v \<Longrightarrow> w = v"
  by (rule distinct_key_eq [of wallet_id "fin_wallets s"]) (simp_all add: finance_ok_def wallets_ok_def)

lemma find_wallet_SomeD: "find_wallet i s = Some w \<Longrightarrow> w \<in> set (fin_wallets s) \<and> wallet_id w = i"
  unfolding find_wallet_def by (drule find_SomeD) simp

lemma update_wallets_snd:
  "snd (update_wallets P f s) = s\<lparr>fin_wallets := map (\<lambda>r. if P r then f r else r) (fin_wallets s)\<rparr>"
  by (simp add: update_wallets_def update_many_def)

lemma requireManageable_Inr:
  "requireManageable uid i fam role s = Inr w \<Longrightarrow> w \<in> set (fin_wallets s) \<and> wallet_id w = i
     \<and> wallet_familyId w = fam \<and> wallet_archivedAt w = None \<and> canManage w uid role"
  by (auto simp: requireManageable_def split: option.splits if_splits dest: find_SomeD)

lemma wallets_create_evolves: "fin_evolves s (snd (wallets_create E userId dto s))"
  unfolding wallets_create_def
  by (auto simp: fresh_def Let_def new_wallet_row_ok resolveCreateVisibility_valid
      split: sum.split intro!: fin_evolves_refl fin_audit fin_add_wallet)

lemma wallets_update_evolves: "fin_evolves s (snd (wallets_update E userId i name vis ver s))"
proof -
  have step: "fin_evolves s (snd (update_wallets (\<lambda>w. wallet_id w = wallet_id wallet \<and> Q w)
        (write_wallet (ChangeWallet name v)) s))"
    if w: "wallet \<in> set (fin_wallets s)" and v: "assertVisibility (wallet_type wallet) v = Inr ()"
    for wallet v Q
    unfolding update_wallets_snd
  proof (rule fin_change_wallets)
    fix r assume "finance_ok s" "r \<in> set (fin_wallets s)" "wallet_row_ok r"
    then show "wallet_row_ok (if wallet_id r = wallet_id wallet \<and> Q r
        then write_wallet (ChangeWallet name v) r else r)"
      using wallet_unique [of s r wallet] w v by (auto simp: write_wallet_def wallet_row_ok_def)
  qed (auto simp: same_wallet_def write_wallet_def)
  show ?thesis
    unfolding wallets_update_def Let_def
    by (intro fin.guards fin.write_read_tx step fin_audit) (auto dest: requireManageable_Inr)
qed

lemma wallets_archive_evolves: "fin_evolves s (snd (wallets_archive E userId i ver s))"
proof -
  have step: "fin_evolves s (snd (update_wallets (\<lambda>w. wallet_id w = wallet_id wallet \<and> Q w)
        (write_wallet (ArchiveWallet t)) s))"
    if "\<not> find_first (\<lambda>g. goal_walletId g = wallet_id wallet \<and> goal_archivedAt g = None) (fin_goals s) \<noteq> None"
    for wallet t Q
    unfolding update_wallets_snd using that
    by (intro fin_change_wallets) (auto simp: same_wallet_def write_wallet_def wallet_row_ok_def find_None_iff)
  show ?thesis
    unfolding wallets_archive_def by (intro fin.guards fin.write_tx step fin_audit)
qed

lemma wallets_restore_evolves: "fin_evolves s (snd (wallets_restore E userId i ver s))"
proof -
  have step: "fin_evolves s (snd (update_wallets P (write_wallet RestoreWallet) s))" for P
    unfolding update_wallets_snd
    by (intro fin_change_wallets) (auto simp: same_wallet_def write_wallet_def wallet_row_ok_def)
  show ?thesis
    unfolding wallets_restore_def by (intro fin.guards fin.write_read_tx step fin_audit)
qed

subsection \<open>Categories and budgets\<close>

lemma update_categories_snd:
  "snd (update_categories P f s) = s\<lparr>fin_categories := map (\<lambda>r. if P r then f r else r) (fin_categories s)\<rparr>"
  by (simp add: update_categories_def update_many_def)

lemma write_category_evolves: "fin_evolves s (snd (update_categories P (write_category c) s))"
  unfolding update_categories_snd
  by (rule fin_change_categories) (simp add: write_category_def split: category_change.split)

lemma categories_create_evolves: "fin_evolves s (snd (categories_create E userId name kind s))"
  unfolding categories_create_def
  by (auto simp: fresh_def Let_def split: sum.split intro!: fin_evolves_refl fin_audit fin_add_category)

lemma categories_update_evolves: "fin_evolves s (snd (categories_update E userId i name ver s))"
  unfolding categories_update_def by (intro fin.guards fin.write_read_tx write_category_evolves fin_audit)

lemma categories_archive_evolves: "fin_evolves s (snd (categories_archive E userId i ver s))"
  unfolding categories_archive_def by (intro fin.guards fin.write_tx write_category_evolves fin_audit)

lemma categories_restore_evolves: "fin_evolves s (snd (categories_restore E userId i ver s))"
  unfolding categories_restore_def by (intro fin.guards fin.write_read_tx write_category_evolves fin_audit)

text \<open>An amount of the validated pattern is positive and fits a \<open>BIGINT\<close>.\<close>

lemma digits_value_ge: "0 \<le> acc \<Longrightarrow> digits_value acc cs = Some n \<Longrightarrow> acc \<le> n"
proof (induction cs arbitrary: acc)
  case (Cons c cs)
  then obtain d where d: "digit_value c = Some d" "digits_value (10 * acc + d) cs = Some n"
    by (auto split: option.splits)
  with Cons.IH [of "10 * acc + d"] Cons.prems(1) digit_value_bounds [OF d(1)] show ?case by linarith
qed simp

lemma amount_bounds:
  assumes "amount_pattern v" "amount field v = Inr n"
  shows "0 < n \<and> n \<le> MAX_AMOUNT_MINOR"
proof -
  obtain c cs d where v: "v = c # cs" "digit_value c = Some d" "d \<noteq> 0"
    using assms(1) by (auto simp: amount_pattern_def split: list.splits option.splits)
  have n: "digits_value 0 v = Some n" "n \<le> MAX_AMOUNT_MINOR"
    using assms(2) by (auto simp: amount_def bigInt_def split: option.splits sum.splits if_splits)
  have "digits_value d cs = Some n" using n(1) v by simp
  from digits_value_ge [OF _ this] digit_value_bounds [OF v(2)] v(3) n(2) show ?thesis by simp
qed

lemma periodStart_first_day: "periodStart v = Inr p \<Longrightarrow> getUTCDate p = 1"
  by (auto simp: periodStart_def Let_def split: option.splits if_splits)

lemma catch_evolves:
  "fin_evolves s (snd r) \<Longrightarrow> fin_evolves s (snd (case r of (Inl e, s1) \<Rightarrow> (Inl (f e), s1) | r' \<Rightarrow> r'))"
  by (cases r; cases "fst r") auto

lemma budgets_ok_append:
  assumes ok: "budgets_ok n cs bs" and b: "budget_id b = n" "0 < budget_limitMinor b" "getUTCDate (budget_periodStart b) = 1"
    and c: "c \<in> set cs" "cat_id c = budget_categoryId b" "cat_familyId c = budget_familyId b" "cat_kind c = KExpense"
    and new: "\<not> (\<exists>x \<in> set bs. budget_categoryId x = budget_categoryId b \<and> budget_periodStart x = budget_periodStart b)"
  shows "budgets_ok (Suc n) cs (bs @ [b])"
  unfolding budgets_ok_def
proof (intro conjI ballI)
  show "distinct (map budget_id (bs @ [b]))" using ok b(1) by (fastforce simp: budgets_ok_def)
  show "distinct (map (\<lambda>b. (budget_categoryId b, budget_periodStart b)) (bs @ [b]))"
    using ok new by (auto simp: budgets_ok_def)
next
  fix x assume x: "x \<in> set (bs @ [b])"
  show "budget_id x < Suc n" "0 < budget_limitMinor x" "getUTCDate (budget_periodStart x) = 1"
    using ok x b by (auto simp: budgets_ok_def)
  show "\<exists>c \<in> set cs. cat_id c = budget_categoryId x \<and> cat_familyId c = budget_familyId x \<and> cat_kind c = KExpense"
    using ok x c by (auto simp: budgets_ok_def)
qed

lemma budgets_create_evolves:
  assumes "amount_pattern (cb_limitMinor dto)"
  shows "fin_evolves s (snd (budgets_create E userId dto s))"
proof -
  have tx: "fin_evolves s (snd (budgets_create_tx E userId fam (cat_id c) p limit s))"
    if c: "find_first (\<lambda>c. cat_id c = k \<and> cat_familyId c = fam \<and> cat_kind c = KExpense \<and> cat_archivedAt c = None)
        (fin_categories s) = Some c" and p: "getUTCDate p = 1" "0 < limit"
    for fam c p limit k
  proof (cases "\<exists>b \<in> set (fin_budgets s). budget_categoryId b = cat_id c \<and> budget_periodStart b = p")
    case True
    then show ?thesis by (simp add: budgets_create_tx_def fresh_def fin_bump)
  next
    case False
    have "c \<in> set (fin_categories s)" "cat_familyId c = fam" "cat_kind c = KExpense"
      using find_SomeD [OF c] by auto
    then have "finance_ok s \<Longrightarrow> budgets_ok (Suc (core_nextId s)) (fin_categories s) (fin_budgets s @
        [\<lparr>budget_id = core_nextId s, budget_familyId = fam, budget_categoryId = cat_id c,
            budget_createdById = userId, budget_periodStart = p, budget_limitMinor = limit,
            budget_version = 1, budget_createdAt = env_now E\<rparr>])"
      using p False by (intro budgets_ok_append) (auto simp: finance_ok_def)
    then show ?thesis using False
      by (simp add: budgets_create_tx_def fresh_def Let_def fin_audit fin_set_budgets fin_bump)
  qed
  show ?thesis
    unfolding budgets_create_def
    by (intro fin.guards catch_evolves fin.transaction_stepI tx)
      (auto intro: periodStart_first_day dest: amount_bounds [OF assms])
qed

lemma budgets_update_evolves:
  assumes "amount_pattern limitMinor"
  shows "fin_evolves s (snd (budgets_update E userId i limitMinor ver s))"
proof -
  have step: "fin_evolves s (snd (update_budgets P (write_budget limit) s))" if "0 < limit" for P limit
  proof -
    have "fin_evolves s (s\<lparr>core_nextId := core_nextId s, fin_budgets := snd (update_many P (write_budget limit) (fin_budgets s))\<rparr>)"
      using that by (intro fin_set_budgets)
        (auto simp: finance_ok_def budgets_ok_def update_many_def write_budget_def o_def if_distrib cong: if_cong)
    then show ?thesis by (simp add: update_budgets_def)
  qed
  show ?thesis
    unfolding budgets_update_def by (intro fin.guards fin.write_read_tx step fin_audit) (auto dest: amount_bounds [OF assms])
qed

lemma budgets_remove_evolves: "fin_evolves s (snd (budgets_remove E userId i ver s))"
proof -
  have step: "fin_evolves s (snd (delete_budgets P s))" for P
  proof -
    have "fin_evolves s (s\<lparr>core_nextId := core_nextId s, fin_budgets := snd (delete_many P (fin_budgets s))\<rparr>)"
      by (intro fin_set_budgets) (auto simp: finance_ok_def budgets_ok_def delete_many_def intro: distinct_map_filter)
    then show ?thesis by (simp add: delete_budgets_def)
  qed
  show ?thesis unfolding budgets_remove_def by (intro fin.guards fin.write_tx step fin_audit)
qed

subsection \<open>The ledger\<close>

lemma replay_evolves:
  "fin_evolves s (snd r) \<Longrightarrow> fin_evolves s (snd (replayAfterConflict userId key h msg r))"
  by (cases r; cases "fst r") (auto simp: replayAfterConflict_def split: sum.split option.split)

lemma goal_replay_evolves:
  "fin_evolves s (snd r) \<Longrightarrow> fin_evolves s (snd (goal_replayAfterConflict userId key h r))"
  by (cases r; cases "fst r") (auto simp: goal_replayAfterConflict_def split: sum.split option.split)

lemma replay_guard:
  "(r = Inr None \<Longrightarrow> fin_evolves s (snd x)) \<Longrightarrow>
     fin_evolves s (snd (case r of Inl e \<Rightarrow> (Inl e, s) | Inr None \<Rightarrow> x | Inr (Some t) \<Rightarrow> (Inr (f t), s)))"
  by (auto intro: fin_evolves_refl split: sum.split option.split)

text \<open>A posting of two entries that cancel out.\<close>

lemma posted_pair:
  assumes "0 < n" "n \<le> MAX_AMOUNT_MINOR" "\<bar>k\<bar> = n"
    and "ltx_entries t = [\<lparr>entry_walletId = a, entry_amountMinor = k\<rparr>, \<lparr>entry_walletId = b, entry_amountMinor = - k\<rparr>]"
    and "\<And>i. a = Some i \<or> b = Some i \<Longrightarrow> \<exists>w \<in> set ws. wallet_id w = i \<and> wallet_familyId w = ltx_familyId t
      \<and> wallet_currency w = ltx_currency t"
    and "ltx_type t \<noteq> REVERSAL" "ltx_reversesId t = None"
  shows "posted_ok ws t"
  using assms by (auto simp: posted_ok_def balanced_def entry_ok_def)

lemma insert_transaction_evolves:
  assumes "ltx_id t = core_nextId s" "finance_ok s \<Longrightarrow> may_post s t" "core_nextId s < n"
  shows "fin_evolves s (snd (insert_transaction t (s\<lparr>core_nextId := n\<rparr>)))"
proof (cases "\<exists>x \<in> set (fin_transactions s). ltx_reversesId t \<noteq> None \<and> ltx_reversesId x = ltx_reversesId t")
  case True
  then show ?thesis using assms by (simp add: insert_transaction_def fin_bump)
next
  case False
  then have "fin_evolves s (s\<lparr>core_nextId := n, fin_transactions := fin_transactions s @ [t]\<rparr>)"
    using assms by (intro fin_post) auto
  then show ?thesis using False by (auto simp: insert_transaction_def)
qed

lemma persist_evolves:
  assumes "finance_ok s \<Longrightarrow> may_post s (transaction_of E (core_nextId s) userId fam input)"
  shows "fin_evolves s (snd (persist E userId fam key h input s))"
  unfolding persist_def fresh_def prod.case Let_def
proof (rule fin.and_thenI)
  show "fin_evolves s (snd (insert_transaction (transaction_of E (core_nextId s) userId fam input)
      (s\<lparr>core_nextId := core_nextId s + 1\<rparr>)))"
    using assms by (intro insert_transaction_evolves) (auto simp: transaction_of_def)
next
  fix a s2
  assume ins: "insert_transaction (transaction_of E (core_nextId s) userId fam input)
      (s\<lparr>core_nextId := core_nextId s + 1\<rparr>) = (Inr a, s2)"
  show "fin_evolves s2 (snd (and_then (insert_command \<lparr>cmd_userId = userId, cmd_scope = LEDGER_SCOPE,
       cmd_key = key, cmd_requestHash = h, cmd_transactionId = core_nextId s\<rparr> s2)
     (\<lambda>_ s3. (Inr (transaction_of E (core_nextId s) userId fam input), audit_record E
        (audit_of userId fam (''ledger.'' @ type_lower (pi_type input)) ''ledger_transaction'' (core_nextId s)) s3))))"
    using ins by (intro fin.and_thenI fin_insert_command)
      (auto simp: insert_transaction_def transaction_of_def split: if_splits intro: fin_audit fin_evolves_refl)
qed

lemma wallet_command_evolves:
  assumes "0 < n" "n \<le> MAX_AMOUNT_MINOR" "ty = INCOME \<or> ty = EXPENSE"
  shows "fin_evolves s (snd (wallet_command_tx E userId ctx key h dto ty n s))"
  unfolding wallet_command_tx_def Let_def
proof (intro fin.guards persist_evolves)
  fix wallet
  assume "find_first (\<lambda>w. wallet_id w = lc_walletId dto \<and> wallet_familyId w = ctx_familyId ctx
      \<and> wallet_archivedAt w = None) (fin_wallets s) = Some wallet"
  then have "wallet \<in> set (fin_wallets s)" "wallet_familyId wallet = ctx_familyId ctx"
    using find_SomeD by fastforce+
  then show "may_post s (transaction_of E (core_nextId s) userId (ctx_familyId ctx)
      \<lparr>pi_type = ty, pi_currency = wallet_currency wallet, pi_occurredAt = occurredAt E (lc_occurredAt dto),
        pi_note = lc_note dto, pi_reversesId = None, pi_categoryId = lc_categoryId dto,
        pi_entries = [\<lparr>entry_walletId = Some (wallet_id wallet), entry_amountMinor = if ty = INCOME then n else - n\<rparr>,
          \<lparr>entry_walletId = None, entry_amountMinor = - (if ty = INCOME then n else - n)\<rparr>]\<rparr>)"
    using assms unfolding may_post_def
    by (intro conjI posted_pair [where k = "if ty = INCOME then n else - n" and n = n]) (auto simp: transaction_of_def)
qed

lemma createWalletCommand_evolves:
  assumes "amount_pattern (lc_amountMinor dto)" "ty = INCOME \<or> ty = EXPENSE"
  shows "fin_evolves s (snd (createWalletCommand E sha userId key dto ty s))"
  unfolding createWalletCommand_def Let_def
  by (intro fin.guard_sum replay_guard replay_evolves fin.transaction_stepI wallet_command_evolves)
    (auto dest: amount_bounds [OF assms(1)] simp: assms(2))

lemma transfer_evolves:
  assumes "0 < n" "n \<le> MAX_AMOUNT_MINOR"
  shows "fin_evolves s (snd (transfer_tx E userId ctx key h dto n s))"
proof (cases "transfer_tx E userId ctx key h dto n s = (Inl (NotFound ''Wallet not found''), s)")
  case True
  then show ?thesis by (simp add: fin_evolves_refl)
next
  case False
  define ws where "ws = filter (\<lambda>w. wallet_id w \<in> {tr_fromWalletId dto, tr_toWalletId dto}
      \<and> wallet_familyId w = ctx_familyId ctx \<and> wallet_archivedAt w = None) (fin_wallets s)"
  obtain src dst where f: "find_first (\<lambda>w. wallet_id w = tr_fromWalletId dto) ws = Some src"
    "find_first (\<lambda>w. wallet_id w = tr_toWalletId dto) ws = Some dst"
    using False unfolding transfer_tx_def ws_def [symmetric] by (auto split: option.splits)
  then have w: "src \<in> set (fin_wallets s)" "dst \<in> set (fin_wallets s)"
    "wallet_familyId src = ctx_familyId ctx" "wallet_familyId dst = ctx_familyId ctx"
    using find_SomeD [OF f(1)] find_SomeD [OF f(2)] by (auto simp: ws_def)
  have "may_post s (transaction_of E (core_nextId s) userId (ctx_familyId ctx)
      \<lparr>pi_type = TRANSFER, pi_currency = wallet_currency src, pi_occurredAt = occurredAt E (tr_occurredAt dto),
       pi_note = tr_note dto, pi_reversesId = None, pi_categoryId = None,
       pi_entries = [\<lparr>entry_walletId = Some (wallet_id src), entry_amountMinor = - n\<rparr>,
         \<lparr>entry_walletId = Some (wallet_id dst), entry_amountMinor = n\<rparr>]\<rparr>)"
    if "wallet_currency src = wallet_currency dst"
    using assms w that unfolding may_post_def
    by (intro conjI posted_pair [where k = "- n" and n = n]) (auto simp: transaction_of_def)
  then show ?thesis
    unfolding transfer_tx_def ws_def [symmetric] Let_def f option.case prod.case
    by (intro fin.guards persist_evolves) simp
qed

lemma ledger_transfer_evolves:
  assumes "amount_pattern (tr_amountMinor dto)"
  shows "fin_evolves s (snd (ledger_transfer E sha userId key dto s))"
  unfolding ledger_transfer_def Let_def
  by (intro fin.guard_if fin.guard_sum replay_guard replay_evolves fin.transaction_stepI transfer_evolves)
    (auto dest: amount_bounds [OF assms])

lemma negate_posted:
  assumes "posted_ok ws original" "ltx_familyId t = ltx_familyId original" "ltx_currency t = ltx_currency original"
    and "ltx_entries t = map negate (ltx_entries original)" "ltx_type t = REVERSAL" "ltx_reversesId t = Some i"
  shows "posted_ok ws t"
proof -
  have "sum_list (map (entry_amountMinor \<circ> negate) es) = - sum_list (map entry_amountMinor es)" for es
    by (induction es) (simp_all add: negate_def)
  then show ?thesis using assms by (auto simp: posted_ok_def balanced_def entry_ok_def negate_def)
qed

lemma reversal_evolves: "fin_evolves s (snd (reversal_tx E userId ctx i key h dto s))"
  unfolding reversal_tx_def Let_def
proof (intro fin.guards persist_evolves)
  fix original
  assume find: "find_first (\<lambda>t. ltx_id t = i \<and> ltx_familyId t = ctx_familyId ctx) (fin_transactions s) = Some original"
    and ty: "ltx_type original \<noteq> REVERSAL" and ok: "finance_ok s"
  have original: "original \<in> set (fin_transactions s)" "ltx_familyId original = ctx_familyId ctx"
    using find_SomeD [OF find] by auto
  have "posted_ok (fin_wallets s) original" using ok original by (auto simp: finance_ok_def ledger_ok_def)
  then have "posted_ok (fin_wallets s) t" "reverses t original"
    if "t = transaction_of E (core_nextId s) userId (ctx_familyId ctx)
      \<lparr>pi_type = REVERSAL, pi_currency = ltx_currency original, pi_occurredAt = occurredAt E (rv_occurredAt dto),
       pi_note = rv_note dto, pi_reversesId = Some (ltx_id original), pi_categoryId = ltx_categoryId original,
       pi_entries = map (\<lambda>e. e\<lparr>entry_amountMinor := - entry_amountMinor e\<rparr>) (ltx_entries original)\<rparr>" for t
    using that original(2) ty negate_posted [of "fin_wallets s" original t "ltx_id original"]
    by (simp_all add: transaction_of_def reverses_def negate_def [abs_def])
  then show "may_post s (transaction_of E (core_nextId s) userId (ctx_familyId ctx)
      \<lparr>pi_type = REVERSAL, pi_currency = ltx_currency original, pi_occurredAt = occurredAt E (rv_occurredAt dto),
       pi_note = rv_note dto, pi_reversesId = Some (ltx_id original), pi_categoryId = ltx_categoryId original,
       pi_entries = map (\<lambda>e. e\<lparr>entry_amountMinor := - entry_amountMinor e\<rparr>) (ltx_entries original)\<rparr>)"
    unfolding may_post_def using original(1) by blast
qed

lemma ledger_reverse_evolves: "fin_evolves s (snd (ledger_reverse E sha userId i key dto s))"
  unfolding ledger_reverse_def Let_def
  by (intro fin.guard_sum replay_guard replay_evolves fin.transaction_stepI reversal_evolves)

subsection \<open>Goals\<close>

lemma fin_evolves_okI: "(finance_ok s \<Longrightarrow> fin_evolves s t) \<Longrightarrow> fin_evolves s t"
  by (auto simp: fin_evolves_def)

lemma goal_unique:
  "finance_ok s \<Longrightarrow> g \<in> set (fin_goals s) \<Longrightarrow> h \<in> set (fin_goals s) \<Longrightarrow> goal_id g = goal_id h \<Longrightarrow> g = h"
  by (rule distinct_key_eq [of goal_id "fin_goals s"]) (simp_all add: finance_ok_def goals_ok_def)

lemma update_goals_snd:
  "snd (update_goals P f s) = s\<lparr>fin_goals := map (\<lambda>r. if P r then f r else r) (fin_goals s)\<rparr>"
  by (simp add: update_goals_def update_many_def)

lemma with_wallet_mem:
  "(g, w) \<in> set (with_wallet s gs) \<longleftrightarrow> g \<in> set gs \<and> find_wallet (goal_walletId g) s = Some w"
  by (auto simp: with_wallet_def map_filter_def image_iff)

lemma findManageable_Inr:
  "findManageable uid i fam role P s = Inr (g, w) \<Longrightarrow> g \<in> set (fin_goals s) \<and> goal_id g = i
     \<and> goal_familyId g = fam \<and> P g \<and> find_wallet (goal_walletId g) s = Some w \<and> canManage w uid role"
  by (auto simp: findManageable_def Let_def with_wallet_mem split: option.splits prod.splits if_splits
      dest!: find_SomeD)

lemma goal_visibility_valid: "goal_visibility ty vis = Inr v \<Longrightarrow> assertVisibility ty v = Inr ()"
  by (cases ty; cases v) (auto simp: goal_visibility_def assertVisibility_def Let_def split: if_splits)

lemma nextId_wallets_swap:
  "s\<lparr>fin_wallets := ws, core_nextId := n\<rparr> = (s :: 'a finance_db_scheme)\<lparr>core_nextId := n, fin_wallets := ws\<rparr>"
  by (cases s) simp

lemma goals_create_tx_evolves:
  assumes "assertVisibility (cg_type dto) v = Inr ()" "0 < amt"
  shows "fin_evolves s (snd (goals_create_tx E userId ctx dto v date amt s))"
proof (rule fin_evolves_okI)
  assume ok: "finance_ok s"
  let ?n = "core_nextId s"
  let ?w = "new_wallet E ?n (ctx_familyId ctx) userId (cg_type dto) v (cg_title dto)
           (case cg_currency dto of None \<Rightarrow> ctx_defaultCurrency ctx | Some c \<Rightarrow> c)"
  let ?t = "s\<lparr>core_nextId := Suc ?n, fin_wallets := fin_wallets s @ [?w]\<rparr>"
  have first: "fin_evolves s ?t"
    using assms by (intro fin_add_wallet) (simp_all add: new_wallet_row_ok)
  have "\<forall>g \<in> set (fin_goals s). goal_walletId g \<noteq> ?n"
    using ok by (fastforce simp: finance_ok_def goals_ok_def wallets_ok_def)
  then have "fin_evolves ?t (?t\<lparr>core_nextId := Suc (Suc ?n), fin_goals := fin_goals ?t @
      [\<lparr>goal_id = Suc ?n, goal_familyId = ctx_familyId ctx, goal_walletId = ?n, goal_createdById = userId,
        goal_title = cg_title dto, goal_targetAmountMinor = amt, goal_targetDate = date,
        goal_achievedAt = None, goal_version = 1, goal_archivedAt = None, goal_createdAt = env_now E\<rparr>]\<rparr>)"
    using assms(2) by (intro fin_add_goal [where w = ?w]) auto
  from fin_evolves_trans [OF first this]
  show "fin_evolves s (snd (goals_create_tx E userId ctx dto v date amt s))"
    by (simp add: goals_create_tx_def fresh_def Let_def fin_audit nextId_wallets_swap)
qed

lemma goals_create_evolves:
  assumes "amount_pattern (cg_targetAmountMinor dto)"
  shows "fin_evolves s (snd (goals_create E userId dto s))"
  unfolding goals_create_def
  by (intro fin.guards fin.transaction_stepI goals_create_tx_evolves)
    (auto intro: goal_visibility_valid dest: amount_bounds [OF assms])

text \<open>The versioned writes of a goal keep its envelope and its achievement.\<close>

lemma write_goal_evolves:
  assumes "\<And>title amt date. c = ChangeGoal title amt date \<Longrightarrow> 0 < amt"
    and "\<And>g. c = RestoreGoal \<Longrightarrow> P g \<Longrightarrow> \<exists>w. find_wallet (goal_walletId g) s = Some w \<and> wallet_archivedAt w = None"
  shows "fin_evolves s (snd (update_goals P (write_goal c) s))"
  unfolding update_goals_snd using assms
  by (intro fin_change_goals) (auto simp: same_goal_def write_goal_def split: goal_change.splits if_splits)

lemma goals_update_tx_evolves:
  assumes "0 < amt"
  shows "fin_evolves s (snd (transaction s (goals_update_tx E userId fam goal title amt date v s)))"
proof -
  have rename: "fin_evolves s' (snd (update_wallets P (\<lambda>w. w\<lparr>wallet_name := t, wallet_version := wallet_version w + 1\<rparr>) s'))"
    for P t and s' :: "'a finance_db_scheme"
    unfolding update_wallets_snd
    by (intro fin_change_wallets) (auto simp: same_wallet_def wallet_row_ok_def)
  have renamed: "fin_evolves s (case title of None \<Rightarrow> s1 | Some t \<Rightarrow> snd (update_wallets
      (\<lambda>w. wallet_id w = goal_walletId goal) (\<lambda>w. w\<lparr>wallet_name := t, wallet_version := wallet_version w + 1\<rparr>) s1))"
    if "fin_evolves s s1" for s1
    using that fin_evolves_trans [OF that rename] by (cases title) auto
  show ?thesis
    unfolding goals_update_tx_def Let_def
    by (intro fin.write_body_tx fin.later_option renamed write_goal_evolves)
      (auto simp: assms intro: fin_audit renamed)
qed

lemma goals_update_evolves:
  assumes "\<And>a. ug_targetAmountMinor dto = Some a \<Longrightarrow> amount_pattern a"
  shows "fin_evolves s (snd (goals_update E userId i dto ver s))"
proof (rule fin_evolves_okI)
  assume ok: "finance_ok s"
  have "0 < amt"
    if "findManageable userId i fam role P s = Inr (goal, w)"
      "(case ug_targetAmountMinor dto of None \<Rightarrow> Inr (goal_targetAmountMinor goal)
           | Some a \<Rightarrow> amount ''targetAmountMinor'' a) = Inr amt" for fam role P goal w amt
    using findManageable_Inr [OF that(1)] that(2) ok assms amount_bounds
    by (auto simp: finance_ok_def goals_ok_def split: option.splits)
  then show "fin_evolves s (snd (goals_update E userId i dto ver s))"
    unfolding goals_update_def
    by (intro fin.guards goals_update_tx_evolves) blast
qed

lemma goals_archive_evolves: "fin_evolves s (snd (goals_archive E userId i ver s))"
  unfolding goals_archive_def by (intro fin.guards fin.write_tx write_goal_evolves fin_audit) auto

lemma goals_restore_evolves: "fin_evolves s (snd (goals_restore E userId i ver s))"
  unfolding goals_restore_def
  by (intro fin.guards fin.write_body_tx fin.later_option write_goal_evolves)
    (auto split: option.splits intro: fin_audit)

lemma notifyUserInTransaction_feed: "\<exists>d. snd (notifyUserInTransaction E input s) = s\<lparr>core_feed := d\<rparr>"
  by (auto simp: notifyUserInTransaction_def split: option.split) (metis core.surjective core.update_convs(7))

lemma mark_achieved_evolves:
  assumes "goal \<in> set (fin_goals s)"
  shows "fin_evolves s (snd (mark_achieved E userId fam goal s))"
proof -
  have mark: "fin_evolves s (snd (update_goals (\<lambda>g. goal_id g = goal_id goal) (\<lambda>g. g\<lparr>goal_achievedAt := a\<rparr>) s))"
    if "goal_achievedAt goal = None" for a
    unfolding update_goals_snd using that
    by (intro fin_change_goals) (auto simp: same_goal_def split: if_splits dest: goal_unique [OF _ _ assms])
  have notify: "fin_evolves s (snd (and_then (notifyUserInTransaction E input s') (\<lambda>_ s''. (Inr a, s''))))"
    if "fin_evolves s s'" for input s' a
    using notifyUserInTransaction_feed [of E input s'] fin_feed [OF that]
    by (auto simp: and_then_def split: prod.split sum.split)
  show ?thesis unfolding mark_achieved_def Let_def using mark notify by (auto intro: fin_evolves_refl)
qed

lemma write_contribution_evolves:
  assumes goal: "goal \<in> set (fin_goals s)" and amt: "0 < amt" "amt \<le> MAX_AMOUNT_MINOR"
    and source: "source \<in> set (fin_wallets s)" "wallet_familyId source = fam"
    and envelope: "find_wallet (goal_walletId goal) s = Some envelope" "wallet_familyId envelope = fam"
      "wallet_currency envelope = wallet_currency source"
  shows "fin_evolves s (snd (write_contribution E userId fam key h dto amt goal source s))"
proof (rule fin_evolves_okI)
  assume ok: "finance_ok s"
  let ?n = "core_nextId s" and ?c = "\<lparr>contrib_id = Suc (core_nextId s), contrib_goalId = goal_id goal,
    contrib_transactionId = core_nextId s, contrib_createdById = userId\<rparr>"
  let ?t = "contribution_transaction E ?n userId fam dto source goal amt"
  let ?r = "insert_transaction ?t (s\<lparr>core_nextId := Suc (Suc ?n)\<rparr>)"
  have posted: "may_post s ?t"
    unfolding may_post_def using amt source envelope find_wallet_SomeD [OF envelope(1)]
    by (intro conjI posted_pair [where k = "- amt" and n = amt]) (auto simp: contribution_transaction_def)
  have ins: "fin_evolves s (snd ?r)"
    using posted by (intro insert_transaction_evolves) (auto simp: contribution_transaction_def)
  have later: "fin_evolves s3 (s3\<lparr>fin_contributions := fin_contributions s3 @ [?c]\<rparr>)"
    if "?r = (Inr u, s3)" for u s3
  proof (rule fin_add_contribution)
    have s3: "fin_goals s3 = fin_goals s" "fin_contributions s3 = fin_contributions s"
      "fin_transactions s3 = fin_transactions s @ [?t]"
      using that by (auto simp: insert_transaction_def split: if_splits)
    show "contribution_ok (fin_goals s3) (fin_transactions s3) ?c"
      using goal amt unfolding contribution_ok_def s3
      by (intro bexI [of _ goal] bexI [of _ ?t]) (auto simp: contribution_transaction_def)
    show "contrib_transactionId ?c \<notin> contrib_transactionId ` set (fin_contributions s3)"
      using ok unfolding s3 by (auto simp: finance_ok_def contributions_ok_def list_all_iff
          contribution_ok_def ledger_ok_def) (metis less_irrefl)
  qed
  have command: "fin_evolves s4 (snd (insert_command \<lparr>cmd_userId = userId, cmd_scope = GOAL_SCOPE, cmd_key = key,
      cmd_requestHash = h, cmd_transactionId = ?n\<rparr> s4))"
    if "?r = (Inr u, s3)" "s4 = s3\<lparr>fin_contributions := fin_contributions s3 @ [?c]\<rparr>" for u s3 s4
    using that by (intro fin_insert_command)
      (auto simp: insert_transaction_def contribution_transaction_def split: if_splits)
  have mark: "fin_evolves s5 (snd (and_then (mark_achieved E userId fam goal s5) (\<lambda>a s6. (Inr (f a), audit_record E i s6))))"
    if "?r = (Inr u, s3)" "insert_command c (s3\<lparr>fin_contributions := cs\<rparr>) = (Inr v, s5)" for u s3 v s5 c f i cs
    using that goal by (intro fin.and_thenI mark_achieved_evolves)
      (auto simp: insert_transaction_def insert_command_def intro: fin_audit fin_evolves_refl split: if_splits)
  show "fin_evolves s (snd (write_contribution E userId fam key h dto amt goal source s))"
    unfolding write_contribution_def fresh_def prod.case Let_def
  proof (rule fin.and_thenI, simp_all add: ins)
    fix s3
    assume r: "?r = (Inr (), s3)"
    show "fin_evolves s3 (snd (and_then (insert_command \<lparr>cmd_userId = userId, cmd_scope = GOAL_SCOPE, cmd_key = key,
          cmd_requestHash = h, cmd_transactionId = ?n\<rparr> (s3\<lparr>fin_contributions := fin_contributions s3 @ [?c]\<rparr>))
        (\<lambda>_ s4. and_then (mark_achieved E userId fam goal s4) (\<lambda>achievedAt s5.
          (Inr \<lparr>cr_id = Suc ?n, cr_goalId = goal_id goal, cr_transactionId = ?n, cr_amountMinor = amt,
             cr_occurredAt = ltx_occurredAt ?t, cr_currentAmountMinor = balance (goal_walletId goal) s4,
             cr_achievedAt = achievedAt\<rparr>,
           audit_record E (goal_audit userId fam ''contributed'' (goal_id goal)) s5)))))"
      by (rule fin.and_thenI [OF fin_evolves_trans [OF later [OF r] command [OF r refl]]])
        (rule mark [OF r])
  qed
qed

lemma contribute_evolves:
  assumes "amount_pattern (gc_amountMinor dto)"
  shows "fin_evolves s (snd (goals_contribute E sha userId i key dto s))"
proof -
  have tx: "fin_evolves s (snd (contribute_tx E userId ctx i key h dto amt s))"
    if "0 < amt \<and> amt \<le> MAX_AMOUNT_MINOR" for ctx h amt
  proof (rule fin_evolves_okI)
    assume ok: "finance_ok s"
    show "fin_evolves s (snd (contribute_tx E userId ctx i key h dto amt s))"
      unfolding contribute_tx_def
    proof (intro fin.guards write_contribution_evolves)
      fix p goal envelope assume f: "findManageable userId i (ctx_familyId ctx) (ctx_role ctx)
          (\<lambda>g. goal_archivedAt g = None) s = Inr p" "p = (goal, envelope)"
      note g = findManageable_Inr [OF f(1) [unfolded f(2)]]
      show "goal \<in> set (fin_goals s)" "find_wallet (goal_walletId goal) s = Some envelope" using g by auto
      obtain w where "w \<in> set (fin_wallets s)" "wallet_id w = goal_walletId goal" "wallet_familyId w = goal_familyId goal"
        using ok g by (auto simp: finance_ok_def goals_ok_def)
      then show "wallet_familyId envelope = ctx_familyId ctx"
        using g wallet_unique [OF ok, of w envelope] find_wallet_SomeD [of "goal_walletId goal" s envelope] by auto
    qed (use that in \<open>auto dest: find_SomeD\<close>)
  qed
  show ?thesis
    unfolding goals_contribute_def Let_def
    by (intro fin.guard_sum replay_guard goal_replay_evolves fin.transaction_stepI tx amount_bounds [OF assms])
qed

end
