(* ===== verification/FinanceSpec.thy ===== *)
theory FinanceSpec
  imports FinanceOps
begin

text \<open>
  The finance services as one machine: \<open>finance_step\<close> is one call of any of them, or any
  work of the other services on the shared tables.  The theorems state what holds over every
  sequence of calls: the ledger stays balanced and is only appended to, a retried command is
  answered from its first execution, a transaction is reversed at most once, stale versions
  are refused, an open goal keeps an open envelope.
\<close>

subsection \<open>Steps\<close>

lemma ledger_call_evolves:
  assumes "call_valid call"
  shows "fin_evolves s (snd (ledger_call_run E sha userId key call s))"
  using assms by (cases call) (auto simp: ledger_call_run_def ledger_income_def ledger_expense_def
      intro: createWalletCommand_evolves ledger_transfer_evolves ledger_reverse_evolves)

text \<open>Work elsewhere changes no financial table and hands out further identifiers.\<close>

definition finance_same :: "'a finance_db_scheme \<Rightarrow> 'a finance_db_scheme \<Rightarrow> bool" where
  "finance_same s s' \<longleftrightarrow> fin_wallets s' = fin_wallets s \<and> fin_categories s' = fin_categories s
     \<and> fin_budgets s' = fin_budgets s \<and> fin_transactions s' = fin_transactions s
     \<and> fin_commands s' = fin_commands s \<and> fin_goals s' = fin_goals s
     \<and> fin_contributions s' = fin_contributions s \<and> core_nextId s \<le> core_nextId s'"

lemma finance_same_evolves: "finance_same s s' \<Longrightarrow> fin_evolves s s'"
  unfolding finance_same_def fin_evolves_def finance_ok_def
  by (simp add: rows_kept_refl) (blast intro: ids_ok_mono)

inductive finance_step ::
    "(ledger_request \<Rightarrow> string) \<Rightarrow> (goal_request \<Rightarrow> string) \<Rightarrow> 'a finance_db_scheme \<Rightarrow> 'a finance_db_scheme \<Rightarrow> bool"
  for sha sha2 where
  ledger_call: "call_valid call \<Longrightarrow> finance_step sha sha2 s (snd (ledger_controller E sha userId key call s))"
| wallet_create: "finance_step sha sha2 s (snd (wallets_create E userId wdto s))"
| wallet_update: "finance_step sha sha2 s (snd (wallets_update E userId i name vis ver s))"
| wallet_archive: "finance_step sha sha2 s (snd (wallets_archive E userId i ver s))"
| wallet_restore: "finance_step sha sha2 s (snd (wallets_restore E userId i ver s))"
| category_create: "finance_step sha sha2 s (snd (categories_create E userId cname kind s))"
| category_update: "finance_step sha sha2 s (snd (categories_update E userId i name ver s))"
| category_archive: "finance_step sha sha2 s (snd (categories_archive E userId i ver s))"
| category_restore: "finance_step sha sha2 s (snd (categories_restore E userId i ver s))"
| budget_create: "amount_pattern (cb_limitMinor bdto) \<Longrightarrow>
    finance_step sha sha2 s (snd (budgets_create E userId bdto s))"
| budget_update: "amount_pattern limit \<Longrightarrow> finance_step sha sha2 s (snd (budgets_update E userId i limit ver s))"
| budget_remove: "finance_step sha sha2 s (snd (budgets_remove E userId i ver s))"
| goal_create: "amount_pattern (cg_targetAmountMinor gdto) \<Longrightarrow>
    finance_step sha sha2 s (snd (goals_create E userId gdto s))"
| goal_update: "(\<And>a. ug_targetAmountMinor udto = Some a \<Longrightarrow> amount_pattern a) \<Longrightarrow>
    finance_step sha sha2 s (snd (goals_update E userId i udto ver s))"
| goal_contribute: "amount_pattern (gc_amountMinor cdto) \<Longrightarrow>
    finance_step sha sha2 s (snd (goals_contribute E sha2 userId i gkey cdto s))"
| goal_archive: "finance_step sha sha2 s (snd (goals_archive E userId i ver s))"
| goal_restore: "finance_step sha sha2 s (snd (goals_restore E userId i ver s))"
| elsewhere: "finance_same s s' \<Longrightarrow> finance_step sha sha2 s s'"

inductive_cases finance_stepE: "finance_step sha sha2 s s'"

abbreviation finance_steps ::
    "(ledger_request \<Rightarrow> string) \<Rightarrow> (goal_request \<Rightarrow> string) \<Rightarrow> 'a finance_db_scheme \<Rightarrow> 'a finance_db_scheme \<Rightarrow> bool" where
  "finance_steps sha sha2 \<equiv> (finance_step sha sha2)\<^sup>*\<^sup>*"

lemma ledger_controller_evolves:
  "call_valid call \<Longrightarrow> fin_evolves s (snd (ledger_controller E sha userId key call s))"
  unfolding ledger_controller_def by (intro fin.guards ledger_call_evolves)

lemma finance_step_evolves: "finance_step sha sha2 s s' \<Longrightarrow> fin_evolves s s'"
proof (induction rule: finance_step.induct)
  case (goal_update udto s E userId i ver)
  then show ?case by (intro goals_update_evolves) blast
qed (auto intro: ledger_controller_evolves wallets_create_evolves wallets_update_evolves wallets_archive_evolves
    wallets_restore_evolves categories_create_evolves categories_update_evolves categories_archive_evolves
    categories_restore_evolves budgets_create_evolves budgets_update_evolves budgets_remove_evolves
    goals_create_evolves contribute_evolves goals_archive_evolves goals_restore_evolves finance_same_evolves)

lemma finance_steps_evolve: "finance_steps sha sha2 s s' \<Longrightarrow> fin_evolves s s'"
  by (induction rule: rtranclp_induct) (auto intro: fin_evolves_refl fin_evolves_trans finance_step_evolves)

subsection \<open>What a successful command did\<close>

lemma find_prefix: "List.find P xs = Some x \<Longrightarrow> prefix xs ys \<Longrightarrow> List.find P ys = Some x"
  by (auto simp: prefix_def find_append)

lemma persist_Inr:
  assumes "persist E userId fam key h input s = (Inr t, s')"
  shows "t = transaction_of E (core_nextId s) userId fam input"
    and "fin_transactions s' = fin_transactions s @ [t]"
    and "fin_commands s' = fin_commands s @ [\<lparr>cmd_userId = userId, cmd_scope = LEDGER_SCOPE, cmd_key = key,
          cmd_requestHash = h, cmd_transactionId = ltx_id t\<rparr>]"
    and "fin_wallets s' = fin_wallets s" "fin_goals s' = fin_goals s"
  using assms by (auto simp: persist_def fresh_def Let_def and_then_Inr insert_transaction_def insert_command_def
      transaction_of_def audit_record_def split: if_splits)

lemma replayAfterConflict_tx:
  "replay userId key h s = Inr None \<Longrightarrow>
     replayAfterConflict userId key h msg (transaction s r) = (Inr t, s') \<longleftrightarrow> r = (Inr t, s')"
  by (cases r; cases "fst r") (auto simp: replayAfterConflict_def split: option.splits if_splits)

lemma replay_None: "replay userId key h s = Inr None \<longleftrightarrow> find_command userId LEDGER_SCOPE key s = None"
  by (auto simp: replay_def split: option.splits)

lemma replay_then:
  "(case replay userId key h s of Inl e \<Rightarrow> (Inl e, s)
      | Inr None \<Rightarrow> replayAfterConflict userId key h msg (transaction s r) | Inr (Some t) \<Rightarrow> (Inr t, s)) = (Inr t', s')
    \<longleftrightarrow> (replay userId key h s = Inr (Some t') \<and> s' = s)
      \<or> (find_command userId LEDGER_SCOPE key s = None \<and> r = (Inr t', s'))"
  unfolding replay_None [of userId key h s, symmetric]
  by (auto simp: replayAfterConflict_tx split: sum.split option.split)

lemma replay_Some:
  "replay userId key h s = Inr (Some t) \<longleftrightarrow> (\<exists>c. find_command userId LEDGER_SCOPE key s = Some c
     \<and> cmd_requestHash c = h \<and> find_transaction (cmd_transactionId c) s = Some t)"
  by (auto simp: replay_def split: option.splits)

text \<open>The body of each command under its request.\<close>

definition call_tx ::
    "env \<Rightarrow> uuid \<Rightarrow> family_context \<Rightarrow> string \<Rightarrow> string \<Rightarrow> ledger_call \<Rightarrow> int
       \<Rightarrow> 'a finance_db_scheme \<Rightarrow> (ledger_transaction, 'a finance_db_scheme) resp" where
  "call_tx E userId ctx key h call n s = (case call of
     IncomeCall dto \<Rightarrow> wallet_command_tx E userId ctx key h dto INCOME n s
   | ExpenseCall dto \<Rightarrow> wallet_command_tx E userId ctx key h dto EXPENSE n s
   | TransferCall dto \<Rightarrow> transfer_tx E userId ctx key h dto n s
   | ReversalCall i dto \<Rightarrow> reversal_tx E userId ctx i key h dto s)"

text \<open>The checks in front of the body; a reversal has no amount of its own.\<close>

definition call_amount :: "ledger_call \<Rightarrow> int \<Rightarrow> bool" where
  "call_amount call n = (case call of
     IncomeCall dto \<Rightarrow> amount ''amountMinor'' (lc_amountMinor dto) = Inr n
   | ExpenseCall dto \<Rightarrow> amount ''amountMinor'' (lc_amountMinor dto) = Inr n
   | TransferCall dto \<Rightarrow> tr_fromWalletId dto \<noteq> tr_toWalletId dto \<and> amount ''amountMinor'' (tr_amountMinor dto) = Inr n
   | ReversalCall i dto \<Rightarrow> n = 0)"

lemmas ledger_call_defs = ledger_call_run_def ledger_income_def ledger_expense_def createWalletCommand_def
  ledger_transfer_def ledger_reverse_def call_amount_def call_tx_def Let_def

lemma ledger_call_Inr:
  "ledger_call_run E sha userId key call s = (Inr t, s') \<longleftrightarrow>
     (\<exists>ctx n. requireMembership userId s = Inr ctx \<and> call_amount call n \<and>
       (replay userId key (sha (call_request call)) s = Inr (Some t) \<and> s' = s
        \<or> find_command userId LEDGER_SCOPE key s = None
          \<and> call_tx E userId ctx key (sha (call_request call)) call n s = (Inr t, s')))"
  by (cases call) (auto simp: ledger_call_defs replay_then split: sum.splits if_splits)

text \<open>A wallet the caller may post to: in the caller's family, open, and managed by the caller.\<close>

definition manages :: "uuid \<Rightarrow> family_context \<Rightarrow> 'a finance_db_scheme \<Rightarrow> uuid \<Rightarrow> bool" where
  "manages userId ctx s i \<longleftrightarrow> (\<exists>w \<in> set (fin_wallets s). wallet_id w = i \<and> wallet_familyId w = ctx_familyId ctx
     \<and> wallet_archivedAt w = None \<and> canManage w userId (ctx_role ctx))"

lemma wallet_command_Inr:
  assumes "wallet_command_tx E userId ctx key h dto ty n s = (Inr t, s')"
  shows "\<exists>input. persist E userId (ctx_familyId ctx) key h input s = (Inr t, s') \<and> pi_reversesId input = None
    \<and> manages userId ctx s (lc_walletId dto)
    \<and> pi_entries input = (let k = (if ty = INCOME then n else - n) in
        [\<lparr>entry_walletId = Some (lc_walletId dto), entry_amountMinor = k\<rparr>,
         \<lparr>entry_walletId = None, entry_amountMinor = - k\<rparr>])"
  using assms unfolding wallet_command_tx_def Let_def manages_def
  by (clarsimp split: option.splits if_split_asm dest!: find_SomeD) (fastforce dest: find_SomeD)+

lemma transfer_Inr:
  assumes "transfer_tx E userId ctx key h dto n s = (Inr t, s')"
  shows "\<exists>input. persist E userId (ctx_familyId ctx) key h input s = (Inr t, s') \<and> pi_reversesId input = None
    \<and> manages userId ctx s (tr_fromWalletId dto) \<and> manages userId ctx s (tr_toWalletId dto)
    \<and> pi_entries input = [\<lparr>entry_walletId = Some (tr_fromWalletId dto), entry_amountMinor = - n\<rparr>,
         \<lparr>entry_walletId = Some (tr_toWalletId dto), entry_amountMinor = n\<rparr>]"
  using assms unfolding transfer_tx_def Let_def manages_def
  by (clarsimp split: option.splits if_split_asm dest!: find_SomeD) (fastforce dest: find_SomeD)+

lemma all_ids_found:
  assumes "length (filter P ws) = card K" "distinct (map wallet_id ws)" "\<And>w. P w \<Longrightarrow> wallet_id w \<in> K" "finite K"
    and "i \<in> K"
  shows "\<exists>w \<in> set ws. P w \<and> wallet_id w = i"
proof -
  have d: "distinct (map wallet_id (filter P ws))" using assms(2) by (rule distinct_map_filter)
  then have "card (wallet_id ` set (filter P ws)) = card K"
    using assms(1) distinct_card [of "map wallet_id (filter P ws)"] by simp
  then have "wallet_id ` set (filter P ws) = K"
    using assms(3,4) by (intro card_subset_eq) auto
  then show ?thesis using assms(5) by auto
qed

lemma reversal_Inr:
  assumes "reversal_tx E userId ctx i key h dto s = (Inr t, s')" "finance_ok s"
  shows "\<exists>input original. persist E userId (ctx_familyId ctx) key h input s = (Inr t, s')
    \<and> original \<in> set (fin_transactions s) \<and> ltx_id original = i \<and> ltx_familyId original = ctx_familyId ctx
    \<and> ltx_type original \<noteq> REVERSAL \<and> pi_reversesId input = Some i
    \<and> (\<forall>u \<in> set (fin_transactions s). ltx_reversesId u \<noteq> Some i)
    \<and> (\<forall>e \<in> set (ltx_entries original). \<forall>j. entry_walletId e = Some j \<longrightarrow> manages userId ctx s j)
    \<and> pi_type input = REVERSAL \<and> pi_currency input = ltx_currency original
    \<and> pi_entries input = map negate (ltx_entries original)"
proof -
  obtain original where find: "find_first (\<lambda>t. ltx_id t = i \<and> ltx_familyId t = ctx_familyId ctx) (fin_transactions s) = Some original"
    using assms(1) by (auto simp: reversal_tx_def split: option.splits)
  have o: "original \<in> set (fin_transactions s)" "ltx_id original = i" "ltx_familyId original = ctx_familyId ctx"
    using find_SomeD [OF find] by auto
  define K where "K = set (wallet_ids_of (ltx_entries original))"
  define P :: "wallet \<Rightarrow> bool" where "P = (\<lambda>w. wallet_id w \<in> K \<and> wallet_familyId w = ctx_familyId ctx \<and> wallet_archivedAt w = None)"
  have g: "ltx_type original \<noteq> REVERSAL" "\<forall>u \<in> set (fin_transactions s). ltx_reversesId u \<noteq> Some i"
    "length (filter P (fin_wallets s)) = card K" "\<forall>w \<in> set (filter P (fin_wallets s)). canManage w userId (ctx_role ctx)"
    using assms(1) find o unfolding reversal_tx_def Let_def K_def P_def by (auto split: if_splits)
  have m: "manages userId ctx s j" if "j \<in> K" for j
    using all_ids_found [OF g(3), of j] that g(4) assms(2)
    unfolding manages_def by (auto simp: P_def K_def finance_ok_def wallets_ok_def)
  have K: "entry_walletId e = Some j \<Longrightarrow> e \<in> set (ltx_entries original) \<Longrightarrow> j \<in> K" for e j
    by (force simp: K_def wallet_ids_of_def map_filter_def image_iff)
  have "\<exists>input. persist E userId (ctx_familyId ctx) key h input s = (Inr t, s') \<and> pi_reversesId input = Some i
      \<and> pi_type input = REVERSAL \<and> pi_currency input = ltx_currency original
      \<and> pi_entries input = map negate (ltx_entries original)"
    using assms(1) find o unfolding reversal_tx_def Let_def negate_def [abs_def] by (auto split: if_splits)
  then show ?thesis using o g(1,2) m K by blast
qed

text \<open>All commands at once: what was posted, and through which wallets.\<close>

lemma call_tx_Inr:
  assumes "call_tx E userId ctx key h call n s = (Inr t, s')" "finance_ok s"
  shows "\<exists>input. persist E userId (ctx_familyId ctx) key h input s = (Inr t, s')
    \<and> (\<forall>e \<in> set (pi_entries input). \<forall>j. entry_walletId e = Some j \<longrightarrow> manages userId ctx s j)"
proof (cases call)
  case (IncomeCall dto)
  then show ?thesis using assms wallet_command_Inr [of E userId ctx key h dto INCOME n s t s']
    by (fastforce simp: call_tx_def)
next
  case (ExpenseCall dto)
  then show ?thesis using assms wallet_command_Inr [of E userId ctx key h dto EXPENSE n s t s']
    by (fastforce simp: call_tx_def)
next
  case (TransferCall dto)
  then show ?thesis using assms transfer_Inr [of E userId ctx key h dto n s t s']
    by (fastforce simp: call_tx_def)
next
  case (ReversalCall i dto)
  then have tx: "reversal_tx E userId ctx i key h dto s = (Inr t, s')" using assms by (simp add: call_tx_def)
  obtain input and original :: ledger_transaction where "persist E userId (ctx_familyId ctx) key h input s = (Inr t, s')"
    "pi_entries input = map negate (ltx_entries original)"
    "\<forall>e \<in> set (ltx_entries original). \<forall>j. entry_walletId e = Some j \<longrightarrow> manages userId ctx s j"
    using reversal_Inr [OF tx assms(2)] by blast
  then show ?thesis by (intro exI [of _ input]) (auto simp: negate_def)
qed

lemma controller_Inr:
  "ledger_controller E sha userId key call s = (Inr t, s') \<longleftrightarrow>
     (\<exists>k. requiredKey key = Inr k \<and> ledger_call_run E sha userId k call s = (Inr t, s'))"
  by (simp add: ledger_controller_def split: sum.split)

lemma replay_error_state:
  "replayAfterConflict userId key h msg (transaction s r) = (Inl e, s') \<Longrightarrow> s' = s"
  by (cases r; cases "fst r") (auto simp: replayAfterConflict_def split: if_splits sum.splits option.splits)

lemma ledger_call_error: "ledger_call_run E sha userId key call s = (Inl e, s') \<Longrightarrow> s' = s"
  by (cases call) (auto simp: ledger_call_defs split: sum.splits if_splits option.splits dest: replay_error_state)

end
