(* ===== verification/LedgerSpec.thy ===== *)
theory LedgerSpec
  imports FinanceSpec
begin

text \<open>
  The promises of the ledger.  Its abstract specification is an account book, a balance for
  each wallet, on which income adds, expense subtracts, a transfer moves and a reversal takes
  back the effect of its original; the commands refine it.  Around it: every reachable ledger
  balances and only grows, money is conserved, a retry is answered from the first execution,
  and a transaction is reversed at most once.
\<close>

subsection \<open>A couple with three wallets and an envelope\<close>

definition member_row :: "uuid \<Rightarrow> uuid \<Rightarrow> family_member" where
  "member_row i uid = \<lparr>member_id = i, member_familyId = 5, member_userId = uid, member_role = PARTNER,
     member_joinedAt = 0\<rparr>"

definition wallet_row :: "uuid \<Rightarrow> uuid option \<Rightarrow> wallet_visibility \<Rightarrow> wallet" where
  "wallet_row i owner v = \<lparr>wallet_id = i, wallet_familyId = 5, wallet_ownerId = owner, wallet_createdById = 1,
     wallet_type = (if owner = None then WFamily else WPersonal), wallet_visibility = v, wallet_name = ''w'',
     wallet_currency = ''RUB'', wallet_version = 1, wallet_archivedAt = None, wallet_createdAt = 0\<rparr>"

definition goal_row :: goal where
  "goal_row = \<lparr>goal_id = 30, goal_familyId = 5, goal_walletId = 23, goal_createdById = 1, goal_title = ''Trip'',
     goal_targetAmountMinor = 500, goal_targetDate = None, goal_achievedAt = None, goal_version = 1,
     goal_archivedAt = None, goal_createdAt = 0\<rparr>"

definition couple :: finance_db where
  "couple = \<lparr>core_users = [], core_families = [\<lparr>family_id = 5, family_status = FamilyActive,
       family_timeZone = ''Europe/Moscow'', family_locale = ''ru-RU'', family_defaultCurrency = ''RUB'',
       family_archivedAt = None, family_dissolvedAt = None, family_createdAt = 0\<rparr>],
     core_members = [member_row 6 1, member_row 7 2], core_preferences = [], core_connections = [],
     core_devices = [], core_feed = empty_feed, core_nextId = 100,
     fin_wallets = [wallet_row 20 None WvFamily, wallet_row 21 (Some 1) WvPrivate,
       wallet_row 22 (Some 2) WvPrivate, wallet_row 23 None WvFamily],
     fin_categories = [], fin_budgets = [], fin_transactions = [], fin_commands = [],
     fin_goals = [goal_row], fin_contributions = []\<rparr>"

lemma couple_ok: "finance_ok couple"
  by (simp add: finance_ok_defs couple_def wallet_row_def wallet_row_ok_def assertVisibility_def goal_row_def)

text \<open>A digest that tells the sample requests apart.\<close>

definition sample_sha :: "ledger_request \<Rightarrow> string" where
  "sample_sha r = (case r of WalletRequest ty dto \<Rightarrow> type_lower ty @ lc_amountMinor dto
     | TransferRequest dto \<Rightarrow> ''transfer'' @ tr_amountMinor dto | ReversalRequest i dto \<Rightarrow> ''reversal'')"

definition salary :: ledger_call where
  "salary = IncomeCall \<lparr>lc_walletId = 20, lc_categoryId = None, lc_amountMinor = ''900'', lc_occurredAt = None,
     lc_note = None\<rparr>"

definition undo :: "uuid \<Rightarrow> ledger_call" where
  "undo i = ReversalCall i \<lparr>rv_occurredAt = None, rv_note = None\<rparr>"

definition after_salary :: finance_db where
  "after_salary = snd (ledger_controller moscow_env sample_sha 1 (Some ''key-0001'') salary couple)"

definition salary_row :: ledger_transaction where
  "salary_row = \<lparr>ltx_id = 100, ltx_familyId = 5, ltx_createdById = 1, ltx_type = INCOME, ltx_currency = ''RUB'',
     ltx_occurredAt = 73800000, ltx_note = None, ltx_reversesId = None, ltx_categoryId = None,
     ltx_createdAt = 73800000, ltx_entries = [\<lparr>entry_walletId = Some 20, entry_amountMinor = 900\<rparr>,
       \<lparr>entry_walletId = None, entry_amountMinor = -900\<rparr>]\<rparr>"

lemmas sample_ledger_defs = ledger_controller_def requiredKey_def key_char_def ledger_call_run_def ledger_income_def
  ledger_reverse_def reversal_tx_def createWalletCommand_def wallet_command_tx_def requireMembership_def find_member_def
  find_family_def amount_def bigInt_def digit_value_def MAX_AMOUNT_MINOR_def replay_def find_command_def
  find_transaction_def persist_def fresh_def
  insert_transaction_def insert_command_def transaction_of_def occurredAt_def audit_record_def canManage_def
  replayAfterConflict_def couple_def salary_def undo_def member_row_def wallet_row_def sample_sha_def moscow_env_def Let_def

lemma salary_posted:
  "ledger_controller moscow_env sample_sha 1 (Some ''key-0001'') salary couple = (Inr salary_row, after_salary)"
proof -
  have "fst (ledger_controller moscow_env sample_sha 1 (Some ''key-0001'') salary couple) = Inr salary_row"
    by (simp add: sample_ledger_defs salary_row_def)
  then show ?thesis unfolding after_salary_def by (metis prod.collapse)
qed

lemma salary_valid: "call_valid salary"
  by (simp add: salary_def amount_pattern_def digit_value_def)

lemma couple_to_salary: "finance_steps sample_sha sha2 couple after_salary"
  unfolding after_salary_def by (rule r_into_rtranclp) (rule finance_step.ledger_call [OF salary_valid])

lemma after_salary_tables:
  "fin_transactions after_salary = [salary_row]" "fin_wallets after_salary = fin_wallets couple"
  "fin_goals after_salary = fin_goals couple" "core_members after_salary = core_members couple"
  "core_families after_salary = core_families couple" "core_users after_salary = core_users couple" "core_nextId after_salary = 101"
  "fin_commands after_salary = [\<lparr>cmd_userId = 1, cmd_scope = LEDGER_SCOPE, cmd_key = ''key-0001'',
     cmd_requestHash = ''income900'', cmd_transactionId = 100\<rparr>]"
  by (simp_all add: after_salary_def sample_ledger_defs salary_row_def)

lemma after_salary_ok: "finance_ok after_salary"
  using finance_steps_evolve [OF couple_to_salary] couple_ok by (simp add: fin_evolves_def)

subsection \<open>Balance and growth\<close>

text \<open>C2. Whatever sequence of calls is made to the wallet, category, budget, goal and ledger services,
  the financial tables stay consistent: every posted transaction balances within one family and
  currency, a reversal negates its original and is the only one, command results are unique,
  an open goal has an open envelope wallet, and a category has one budget a month.\<close>

theorem finance_invariant:
  assumes "finance_ok s" and "finance_steps sha sha2 s s'"
  shows "finance_ok s'"
  using finance_steps_evolve [OF assms(2)] assms(1) by (simp add: fin_evolves_def)

lemma finance_invariant_witness:
  "finance_ok (snd (ledger_controller moscow_env sample_sha 2 (Some ''key-0002'') (undo 100) after_salary))"
proof (rule finance_invariant [OF couple_ok])
  have "finance_step sample_sha (\<lambda>_. []) after_salary
      (snd (ledger_controller moscow_env sample_sha 2 (Some ''key-0002'') (undo 100) after_salary))"
    by (rule finance_step.ledger_call) (simp add: undo_def)
  then show "finance_steps sample_sha (\<lambda>_. []) couple
      (snd (ledger_controller moscow_env sample_sha 2 (Some ''key-0002'') (undo 100) after_salary))"
    by (rule rtranclp.rtrancl_into_rtrancl [OF couple_to_salary])
qed

text \<open>C3. The ledger is append-only: over any sequence of calls the posted transactions, with their
  entries, and the recorded command results stay where they are, and wallets keep their family,
  owner, type and currency.\<close>

theorem ledger_append_only:
  assumes "finance_ok s" and "finance_steps sha sha2 s s'"
  shows "prefix (fin_transactions s) (fin_transactions s') \<and> prefix (fin_commands s) (fin_commands s')
    \<and> (\<forall>w \<in> set (fin_wallets s). \<exists>w' \<in> set (fin_wallets s'). same_wallet w w')"
  using finance_steps_evolve [OF assms(2)] assms(1) by (auto simp: fin_evolves_def intro: rows_kept_rowD)

lemma ledger_append_only_witness:
  "salary_row \<in> set (fin_transactions (snd (ledger_controller moscow_env sample_sha 2 (Some ''key-0002'') (undo 100) after_salary)))"
proof -
  have "finance_steps sample_sha (\<lambda>_. []) after_salary
      (snd (ledger_controller moscow_env sample_sha 2 (Some ''key-0002'') (undo 100) after_salary))"
    by (rule r_into_rtranclp, rule finance_step.ledger_call) (simp add: undo_def)
  from ledger_append_only [OF after_salary_ok this] show ?thesis
    by (auto simp: after_salary_tables prefix_def)
qed

subsection \<open>Conservation of money\<close>

definition outside :: "'a finance_db_scheme \<Rightarrow> int" where
  "outside s = sum_list (map entry_amountMinor (filter (\<lambda>e. entry_walletId e = None) (all_entries (fin_transactions s))))"

lemma entries_by_wallet:
  assumes "distinct ids" "\<forall>e \<in> set es. \<forall>i. entry_walletId e = Some i \<longrightarrow> i \<in> set ids"
  shows "(\<Sum>i\<leftarrow>ids. sum_list (map entry_amountMinor (filter (\<lambda>e. entry_walletId e = Some i) es)))
    + sum_list (map entry_amountMinor (filter (\<lambda>e. entry_walletId e = None) es))
    = sum_list (map entry_amountMinor es)"
  using assms(2)
proof (induction es)
  case (Cons e es)
  have pick: "(\<Sum>i\<leftarrow>ids. if entry_walletId e = Some i then k + f i else f i)
      = (if entry_walletId e = None then 0 else k) + (\<Sum>i\<leftarrow>ids. f i)"
    if "\<forall>i. entry_walletId e = Some i \<longrightarrow> i \<in> set ids" for k :: int and f
  proof (cases "entry_walletId e")
    case None
    then show ?thesis by simp
  next
    case (Some j)
    have "(\<Sum>i\<leftarrow>xs. if j = i then k + f i else f i) = (if j \<in> set xs then k else 0) + (\<Sum>i\<leftarrow>xs. f i)"
      if "distinct xs" for xs
      using that by (induction xs) auto
    then show ?thesis using Some that assms(1) by simp
  qed
  from Cons show ?case by (simp add: if_distrib [of "map _"] if_distrib [of sum_list] pick cong: if_cong)
qed simp

text \<open>C4. Money is conserved: in every reachable state the balances of all wallets together with
  the counter entries of income and expense outside the wallets sum to zero, so that only
  income and expense change the total held in wallets.\<close>

theorem money_conserved:
  assumes "finance_ok s" and "finance_steps sha sha2 s s'"
  shows "(\<Sum>w\<leftarrow>fin_wallets s'. balance (wallet_id w) s') + outside s' = 0"
proof -
  have ok: "finance_ok s'" using finance_steps_evolve [OF assms(2)] assms(1) by (simp add: fin_evolves_def)
  have "sum_list (map entry_amountMinor (all_entries ts)) = 0" if "\<forall>t \<in> set ts. balanced t" for ts
    using that by (induction ts) (auto simp: all_entries_def balanced_def)
  then have zero: "sum_list (map entry_amountMinor (all_entries (fin_transactions s'))) = 0"
    using ok by (auto simp: finance_ok_def ledger_ok_def posted_ok_def)
  have "\<forall>e \<in> set (all_entries (fin_transactions s')). \<forall>i. entry_walletId e = Some i \<longrightarrow> i \<in> set (map wallet_id (fin_wallets s'))"
    using ok by (fastforce simp: finance_ok_def ledger_ok_def posted_ok_def entry_ok_def all_entries_def)
  then show ?thesis
    using entries_by_wallet [of "map wallet_id (fin_wallets s')" "all_entries (fin_transactions s')"] ok zero
    by (simp add: finance_ok_def wallets_ok_def balance_def balance_of_def outside_def o_def)
qed

lemma money_conserved_witness:
  "(\<Sum>w\<leftarrow>fin_wallets after_salary. balance (wallet_id w) after_salary) = 900"
  using money_conserved [OF couple_ok couple_to_salary]
  by (simp add: outside_def all_entries_def after_salary_tables salary_row_def)

subsection \<open>The account book\<close>

text \<open>The abstract state: a balance for each wallet.  A call that is executed for the first time
  acts on it as follows; a reversal takes back what its original did.\<close>

definition accounts :: "'a finance_db_scheme \<Rightarrow> uuid \<Rightarrow> int" where
  "accounts s = (\<lambda>w. balance w s)"

definition effect_of :: "'a finance_db_scheme \<Rightarrow> uuid \<Rightarrow> uuid \<Rightarrow> int" where
  "effect_of s i w = balance_of w (filter (\<lambda>t. ltx_id t = i) (fin_transactions s))"

definition book :: "(uuid \<Rightarrow> uuid \<Rightarrow> int) \<Rightarrow> ledger_call \<Rightarrow> int \<Rightarrow> (uuid \<Rightarrow> int) \<Rightarrow> uuid \<Rightarrow> int" where
  "book effect call n b = (case call of
     IncomeCall dto \<Rightarrow> b(lc_walletId dto := b (lc_walletId dto) + n)
   | ExpenseCall dto \<Rightarrow> b(lc_walletId dto := b (lc_walletId dto) - n)
   | TransferCall dto \<Rightarrow> b(tr_fromWalletId dto := b (tr_fromWalletId dto) - n,
       tr_toWalletId dto := b (tr_toWalletId dto) + n)
   | ReversalCall i dto \<Rightarrow> (\<lambda>w. b w - effect i w))"

lemma balance_of_append: "balance_of w (ts @ us) = balance_of w ts + balance_of w us"
  by (simp add: balance_of_def all_entries_def)

lemma balance_of_single:
  "balance_of w [t] = sum_list (map entry_amountMinor (filter (\<lambda>e. entry_walletId e = Some w) (ltx_entries t)))"
  by (simp add: balance_of_def all_entries_def)

lemma negate_balance:
  "sum_list (map entry_amountMinor (filter (\<lambda>e. entry_walletId e = Some w) (map negate es)))
    = - sum_list (map entry_amountMinor (filter (\<lambda>e. entry_walletId e = Some w) es))"
  by (induction es) (auto simp: negate_def)

lemma filter_other_keys: "c \<notin> k ` set xs \<Longrightarrow> filter (\<lambda>u. k u = c) xs = []"
  by (induction xs) auto

lemma effect_of_original:
  assumes "finance_ok s" "t \<in> set (fin_transactions s)"
  shows "effect_of s (ltx_id t) w = balance_of w [t]"
proof -
  have d: "distinct (map ltx_id (fin_transactions s))" using assms(1) by (simp add: finance_ok_def ledger_ok_def)
  obtain xs ys where xy: "fin_transactions s = xs @ t # ys" using assms(2) by (auto dest: split_list)
  then have "filter (\<lambda>u. ltx_id u = ltx_id t) xs = []" "filter (\<lambda>u. ltx_id u = ltx_id t) ys = []"
    using d by (simp_all add: xy filter_other_keys)
  then have "filter (\<lambda>u. ltx_id u = ltx_id t) (fin_transactions s) = [t]" by (simp add: xy)
  then show ?thesis by (simp add: effect_of_def)
qed

lemma persist_accounts:
  assumes "persist E userId fam key h input s = (Inr t, s')"
  shows "accounts s' = (\<lambda>w. accounts s w + sum_list (map entry_amountMinor (filter (\<lambda>e. entry_walletId e = Some w) (pi_entries input))))"
  using persist_Inr(1,2) [OF assms]
  by (simp add: accounts_def balance_def balance_of_append balance_of_single transaction_of_def)

lemma call_tx_accounts:
  assumes tx: "call_tx E userId ctx key h call n s = (Inr t, s')" and ok: "finance_ok s" and n: "call_amount call n"
  shows "accounts s' = book (effect_of s) call n (accounts s)"
proof (cases call)
  case (IncomeCall dto)
  then show ?thesis using tx wallet_command_Inr [of E userId ctx key h dto INCOME n s t s']
    by (auto simp: call_tx_def book_def fun_eq_iff dest!: persist_accounts)
next
  case (ExpenseCall dto)
  then show ?thesis using tx wallet_command_Inr [of E userId ctx key h dto EXPENSE n s t s']
    by (auto simp: call_tx_def book_def fun_eq_iff dest!: persist_accounts)
next
  case (TransferCall dto)
  then show ?thesis using tx n transfer_Inr [of E userId ctx key h dto n s t s']
    by (auto simp: call_tx_def call_amount_def book_def fun_eq_iff dest!: persist_accounts)
next
  case (ReversalCall i dto)
  then have "reversal_tx E userId ctx i key h dto s = (Inr t, s')" using tx by (simp add: call_tx_def)
  from reversal_Inr [OF this ok] obtain input and original :: ledger_transaction where
    p: "persist E userId (ctx_familyId ctx) key h input s = (Inr t, s')"
    and o: "original \<in> set (fin_transactions s)" "ltx_id original = i"
    and e: "pi_entries input = map negate (ltx_entries original)" by blast
  have "accounts s' w = accounts s w - effect_of s i w" for w
    using persist_accounts [OF p] effect_of_original [OF ok o(1), of w] o(2)
    by (simp add: e negate_balance balance_of_single)
  then show ?thesis using ReversalCall by (simp add: book_def fun_eq_iff)
qed

text \<open>C1. The ledger refines an account book: a command executed under a new idempotency key changes
  the balances exactly as the abstract operation does (income adds, expense subtracts, a
  transfer moves, a reversal takes back its original); a retry and every error change nothing.\<close>

theorem ledger_refines_accounts:
  assumes "finance_ok s" and "ledger_controller E sha userId (Some key) call s = (r, s')"
  shows "case r of
      Inl e \<Rightarrow> s' = s
    | Inr t \<Rightarrow> if find_command userId LEDGER_SCOPE key s = None
        then \<exists>n. call_amount call n \<and> accounts s' = book (effect_of s) call n (accounts s)
        else s' = s"
proof (cases r)
  case (Inl e)
  then show ?thesis using assms(2) ledger_call_error
    by (auto simp: ledger_controller_def split: sum.splits)
next
  case (Inr t)
  then obtain ctx n where n: "call_amount call n" and
    "replay userId key (sha (call_request call)) s = Inr (Some t) \<and> s' = s
     \<or> find_command userId LEDGER_SCOPE key s = None
       \<and> call_tx E userId ctx key (sha (call_request call)) call n s = (Inr t, s')"
    using assms(2) by (auto simp: controller_Inr ledger_call_Inr requiredKey_def split: if_splits)
  then show ?thesis using Inr call_tx_accounts [OF _ assms(1) n] by (auto simp: replay_Some)
qed

lemma ledger_refines_accounts_witness:
  "\<exists>n. call_amount salary n \<and> accounts after_salary = (accounts couple)(20 := accounts couple 20 + n)"
  using ledger_refines_accounts [OF couple_ok salary_posted]
  by (simp add: find_command_def couple_def) (simp add: book_def salary_def)

subsection \<open>Who may post, and how often\<close>

text \<open>C5. A command posts only for a member of an active family and only through open wallets of that
  family which the member manages; the posted transaction belongs to the family and names the
  member as its author.\<close>

theorem posting_authorized:
  assumes "finance_ok s" and "ledger_controller E sha userId (Some key) call s = (Inr t, s')"
    and "find_command userId LEDGER_SCOPE key s = None"
  shows "\<exists>ctx. requireMembership userId s = Inr ctx \<and> fin_transactions s' = fin_transactions s @ [t]
    \<and> ltx_familyId t = ctx_familyId ctx \<and> ltx_createdById t = userId
    \<and> (\<forall>e \<in> set (ltx_entries t). \<forall>i. entry_walletId e = Some i \<longrightarrow>
         (\<exists>w \<in> set (fin_wallets s). wallet_id w = i \<and> wallet_familyId w = ctx_familyId ctx
            \<and> wallet_archivedAt w = None \<and> canManage w userId (ctx_role ctx)))"
proof -
  obtain k ctx n where ctx: "requireMembership userId s = Inr ctx" and k: "key = k"
    and tx: "call_tx E userId ctx k (sha (call_request call)) call n s = (Inr t, s')"
    using assms(2,3) by (auto simp: controller_Inr ledger_call_Inr requiredKey_def replay_Some split: if_splits)
  from call_tx_Inr [OF tx assms(1)] obtain input where
    p: "persist E userId (ctx_familyId ctx) k (sha (call_request call)) input s = (Inr t, s')"
    and m: "\<forall>e \<in> set (pi_entries input). \<forall>j. entry_walletId e = Some j \<longrightarrow> manages userId ctx s j" by blast
  show ?thesis using ctx m persist_Inr(1,2) [OF p]
    by (intro exI [of _ ctx]) (simp add: transaction_of_def manages_def)
qed

lemma posting_authorized_witness:
  "\<exists>ctx. requireMembership 1 couple = Inr ctx \<and> ltx_familyId salary_row = ctx_familyId ctx"
  using posting_authorized [OF couple_ok salary_posted] by (auto simp: find_command_def couple_def)

text \<open>After a command its result stands under the key.\<close>

lemma recorded:
  assumes ok: "finance_ok s" and run: "ledger_call_run E sha userId key call s = (Inr t, s1)"
  shows "replay userId key (sha (call_request call)) s1 = Inr (Some t)"
proof (cases "find_command userId LEDGER_SCOPE key s = None")
  case False
  then show ?thesis using run by (auto simp: ledger_call_Inr)
next
  case True
  then obtain ctx n where tx: "call_tx E userId ctx key (sha (call_request call)) call n s = (Inr t, s1)"
    using run by (auto simp: ledger_call_Inr replay_Some)
  from call_tx_Inr [OF tx ok] obtain input where
    p: "persist E userId (ctx_familyId ctx) key (sha (call_request call)) input s = (Inr t, s1)" by blast
  note p = persist_Inr [OF p]
  have "\<forall>u \<in> set (fin_transactions s). ltx_id u \<noteq> ltx_id t"
    using ok p(1) by (auto simp: finance_ok_def ledger_ok_def transaction_of_def)
  then have "find_transaction (ltx_id t) s1 = Some t"
    by (auto simp: find_transaction_def p(2) find_append split: option.split dest: find_SomeD)
  then show ?thesis using True by (simp add: replay_Some find_command_def p(3) find_append)
qed

lemma recorded_later:
  assumes "finance_ok s" "replay userId key h s = Inr (Some t)" "finance_steps sha sha2 s s'"
  shows "replay userId key h s' = Inr (Some t)"
proof -
  have "prefix (fin_transactions s) (fin_transactions s')" "prefix (fin_commands s) (fin_commands s')"
    using finance_steps_evolve [OF assms(3)] assms(1) by (simp_all add: fin_evolves_def)
  moreover obtain c where "find_command userId LEDGER_SCOPE key s = Some c" "cmd_requestHash c = h"
    "find_transaction (cmd_transactionId c) s = Some t"
    using assms(2) by (auto simp: replay_Some)
  ultimately have "find_command userId LEDGER_SCOPE key s' = Some c \<and> cmd_requestHash c = h
      \<and> find_transaction (cmd_transactionId c) s' = Some t"
    unfolding find_command_def find_transaction_def by (auto elim: find_prefix)
  then show ?thesis unfolding replay_Some by (rule exI)
qed

lemma recorded_after:
  assumes "finance_ok s" "call_valid call" "ledger_controller E sha userId (Some key) call s = (Inr t, s1)"
    "finance_steps sha sha2 s1 s2"
  shows "replay userId key (sha (call_request call)) s2 = Inr (Some t) \<and> requiredKey (Some key) = Inr key"
proof -
  have k: "requiredKey (Some key) = Inr key" and run: "ledger_call_run E sha userId key call s = (Inr t, s1)"
    using assms(3) by (auto simp: controller_Inr requiredKey_def split: if_splits)
  have "finance_ok s1"
    using ledger_call_evolves [OF assms(2), of s E sha userId key] assms(1) run by (simp add: fin_evolves_def)
  then show ?thesis using recorded_later [OF _ recorded [OF assms(1) run] assms(4)] k by simp
qed

text \<open>A retry is safe: once a command has succeeded, repeating it with the same key and request,
  after any calls of anybody, returns the transaction of the first execution and changes
  nothing, as long as the caller is still a member.\<close>

theorem retry_answered:
  assumes "finance_ok s" and "call_valid call"
    and "ledger_controller E sha userId (Some key) call s = (Inr t, s1)"
    and "finance_steps sha sha2 s1 s2" and "requireMembership userId s2 = Inr ctx"
  shows "ledger_controller E' sha userId (Some key) call s2 = (Inr t, s2)"
proof -
  have r: "replay userId key (sha (call_request call)) s2 = Inr (Some t)" "requiredKey (Some key) = Inr key"
    using recorded_after [OF assms(1-4)] by simp_all
  moreover obtain n where "call_amount call n"
    using assms(3) by (auto simp: controller_Inr ledger_call_Inr)
  ultimately show ?thesis using assms(5) by (auto simp: controller_Inr ledger_call_Inr)
qed

lemma requireMembership_couple: "\<exists>ctx. requireMembership 1 after_salary = Inr ctx"
  by (simp add: requireMembership_def find_member_def find_family_def after_salary_tables couple_def member_row_def)

lemma retry_answered_witness:
  "ledger_controller moscow_env sample_sha 1 (Some ''key-0001'') salary after_salary = (Inr salary_row, after_salary)"
proof -
  obtain ctx where "requireMembership 1 after_salary = Inr ctx" using requireMembership_couple by blast
  from retry_answered [OF couple_ok salary_valid salary_posted rtranclp.rtrancl_refl this]
  show ?thesis .
qed

text \<open>C6. A key is bound to its request: using the key of a successful command with a request of
  another digest fails and changes nothing, at any later time.\<close>

theorem key_bound_to_request:
  assumes "finance_ok s" and "call_valid call"
    and "ledger_controller E sha userId (Some key) call s = (Inr t, s1)"
    and "finance_steps sha sha2 s1 s2" and "sha (call_request other) \<noteq> sha (call_request call)"
  shows "\<exists>e. ledger_controller E' sha userId (Some key) other s2 = (Inl e, s2)"
proof -
  have r: "replay userId key (sha (call_request call)) s2 = Inr (Some t)" "requiredKey (Some key) = Inr key"
    using recorded_after [OF assms(1-4)] by simp_all
  obtain r' s3 where run: "ledger_call_run E' sha userId key other s2 = (r', s3)" by fastforce
  have "\<nexists>t'. r' = Inr t'"
    using run r(1) assms(5) by (auto simp: ledger_call_Inr replay_Some)
  then obtain e where "r' = Inl e" by (cases r') auto
  then show ?thesis using run r(2) ledger_call_error by (fastforce simp: ledger_controller_def)
qed

lemma key_bound_to_request_witness:
  "\<exists>e. ledger_controller moscow_env sample_sha 1 (Some ''key-0001'') (undo 100) after_salary = (Inl e, after_salary)"
  by (rule key_bound_to_request [OF couple_ok salary_valid salary_posted rtranclp.rtrancl_refl])
    (simp add: sample_sha_def salary_def undo_def)

text \<open>C7. A transaction is reversed at most once: after a first reversal every further reversal of the
  same transaction under an unused key, by whomever and whenever, fails and changes nothing.\<close>

theorem reversed_at_most_once:
  assumes "finance_ok s" and "ledger_controller E sha userId (Some key) (ReversalCall i dto) s = (Inr t, s1)"
    and "find_command userId LEDGER_SCOPE key s = None" and "finance_steps sha sha2 s1 s2"
    and "find_command userId' LEDGER_SCOPE key' s2 = None"
  shows "\<exists>e. ledger_controller E' sha userId' (Some key') (ReversalCall i dto') s2 = (Inl e, s2)"
proof -
  let ?call = "ReversalCall i dto" and ?again = "ReversalCall i dto'"
  have run: "ledger_call_run E sha userId key ?call s = (Inr t, s1)"
    using assms(2) by (auto simp: controller_Inr requiredKey_def split: if_splits)
  then obtain ctx n where "call_tx E userId ctx key (sha (call_request ?call)) ?call n s = (Inr t, s1)"
    using assms(3) by (auto simp: ledger_call_Inr replay_Some)
  then have "reversal_tx E userId ctx i key (sha (call_request ?call)) dto s = (Inr t, s1)" by (simp add: call_tx_def)
  from reversal_Inr [OF this assms(1)] obtain input where
    p: "persist E userId (ctx_familyId ctx) key (sha (call_request ?call)) input s = (Inr t, s1)" "pi_reversesId input = Some i"
    by blast
  have t: "ltx_reversesId t = Some i" "t \<in> set (fin_transactions s1)"
    using persist_Inr(1,2) [OF p(1)] p(2) by (simp_all add: transaction_of_def)
  have "fin_evolves s s1" using ledger_call_evolves [of ?call s E sha userId key] run by simp
  then have ok1: "finance_ok s1" using assms(1) by (simp add: fin_evolves_def)
  have ev: "finance_ok s2" "prefix (fin_transactions s1) (fin_transactions s2)"
    using finance_steps_evolve [OF assms(4)] ok1 by (simp_all add: fin_evolves_def)
  then have t2: "t \<in> set (fin_transactions s2)" using t(2) set_mono_prefix by blast
  obtain r s3 where again: "ledger_controller E' sha userId' (Some key') ?again s2 = (r, s3)" by fastforce
  have "\<nexists>t'. r = Inr t'"
  proof
    assume "\<exists>t'. r = Inr t'"
    then obtain t' ctx' n' where "call_tx E' userId' ctx' key' (sha (call_request ?again)) ?again n' s2 = (Inr t', s3)"
      using again assms(5) by (auto simp: controller_Inr ledger_call_Inr replay_Some requiredKey_def split: if_splits)
    then have "reversal_tx E' userId' ctx' i key' (sha (call_request ?again)) dto' s2 = (Inr t', s3)"
      by (simp add: call_tx_def)
    from reversal_Inr [OF this ev(1)] have "\<forall>u \<in> set (fin_transactions s2). ltx_reversesId u \<noteq> Some i" by blast
    then show False using t2 t(1) by blast
  qed
  then obtain e where "r = Inl e" by (cases r) auto
  then show ?thesis using again ledger_call_error
    by (fastforce simp: ledger_controller_def split: sum.splits)
qed

definition after_undo :: finance_db where
  "after_undo = snd (ledger_controller moscow_env sample_sha 2 (Some ''key-0002'') (undo 100) after_salary)"

lemma reversed_at_most_once_witness:
  "\<exists>e. ledger_controller moscow_env sample_sha 1 (Some ''key-0003'') (undo 100) after_undo = (Inl e, after_undo)"
proof -
  have undone: "\<exists>t. ledger_controller moscow_env sample_sha 2 (Some ''key-0002'') (undo 100) after_salary = (Inr t, after_undo)"
  proof -
    have "\<exists>t. fst (ledger_controller moscow_env sample_sha 2 (Some ''key-0002'') (undo 100) after_salary) = Inr t"
      by (simp add: after_salary_tables sample_ledger_defs salary_row_def wallet_ids_of_def List.map_filter_simps)
    then show ?thesis unfolding after_undo_def by (metis prod.collapse)
  qed
  then obtain t where t: "ledger_controller moscow_env sample_sha 2 (Some ''key-0002'')
      (ReversalCall 100 \<lparr>rv_occurredAt = None, rv_note = None\<rparr>) after_salary = (Inr t, after_undo)"
    by (auto simp: undo_def)
  have "find_command 2 LEDGER_SCOPE ''key-0002'' after_salary = None" by (simp add: find_command_def after_salary_tables)
  moreover have "find_command 1 LEDGER_SCOPE ''key-0003'' after_undo = None"
    by (simp add: after_undo_def after_salary_tables sample_ledger_defs salary_row_def wallet_ids_of_def List.map_filter_simps)
  ultimately show ?thesis
    using reversed_at_most_once [OF after_salary_ok t _ rtranclp.rtrancl_refl] unfolding undo_def by blast
qed

end
