(* ===== verification/WalletSpec.thy ===== *)
theory WalletSpec
  imports LedgerSpec "HOL-Library.Multiset"
begin

text \<open>
  The promises of the wallet and history services: stale versions are refused for ever,
  archiving and restoring return the wallet unchanged, and a member reads exactly the
  transactions of the family all of whose wallets are visible to that member.
\<close>

subsection \<open>Optimistic concurrency\<close>

lemma update_wallets_pair:
  "update_wallets P f s = (length (filter P (fin_wallets s)),
     s\<lparr>fin_wallets := map (\<lambda>r. if P r then f r else r) (fin_wallets s)\<rparr>)"
  by (simp add: update_wallets_def update_many_def)

lemma count_one: "length (filter P xs) = Suc 0 \<Longrightarrow> \<exists>x \<in> set xs. P x"
  by (metis filter_False length_0_conv nat.distinct(1))

lemma wallets_update_Inr:
  assumes "wallets_update E userId i name vis ver s = (Inr w, s')"
  shows "\<exists>r vis'. r \<in> set (fin_wallets s) \<and> wallet_id r = i \<and> wallet_archivedAt r = None
    \<and> (\<forall>v. ver = Some v \<longrightarrow> wallet_version r = v)
    \<and> write_wallet (ChangeWallet name vis') r \<in> set (fin_wallets s')"
  using assms unfolding wallets_update_def Let_def update_wallets_pair
  by (auto simp: transaction_Inr audit_record_def or_version_def split: sum.splits option.splits if_splits
      dest!: requireManageable_Inr count_one) (force simp: image_iff)+

lemma wallets_archive_Inr:
  assumes "wallets_archive E userId i ver s = (Inr u, s')"
  shows "\<exists>r \<in> set (fin_wallets s). wallet_id r = i \<and> (\<forall>v. ver = Some v \<longrightarrow> wallet_version r = v)"
  using assms unfolding wallets_archive_def Let_def update_wallets_pair
  by (auto simp: transaction_Inr or_version_def split: sum.splits option.splits if_splits
      dest!: requireManageable_Inr count_one)

lemma wallets_restore_Inr:
  assumes "wallets_restore E userId i ver s = (Inr u, s')"
  shows "\<exists>r \<in> set (fin_wallets s). wallet_id r = i \<and> (\<forall>v. ver = Some v \<longrightarrow> wallet_version r = v)"
  using assms unfolding wallets_restore_def Let_def update_wallets_pair
  by (auto simp: transaction_Inr or_version_def split: sum.splits option.splits if_splits
      dest!: find_SomeD count_one)

lemma transaction_Inl: "transaction s r = (Inl e, s') \<Longrightarrow> s' = s"
  by (cases r; cases "fst r") auto

lemma wallet_errors_unchanged:
  "wallets_update E userId i name vis ver s = (Inl e, s') \<Longrightarrow> s' = s"
  "wallets_archive E userId i ver s = (Inl e, s') \<Longrightarrow> s' = s"
  "wallets_restore E userId i ver s = (Inl e, s') \<Longrightarrow> s' = s"
  by (auto simp: wallets_update_def wallets_archive_def wallets_restore_def Let_def
      split: sum.splits option.splits if_splits dest: transaction_Inl)

lemma refused:
  assumes "\<And>x s'. r = (Inr x, s') \<Longrightarrow> False" "\<And>e s'. r = (Inl e, s') \<Longrightarrow> s' = s"
  shows "\<exists>e. r = (Inl e, s)"
  using assms by (cases r; cases "fst r") auto

text \<open>A version is used at most once: after an update of a wallet that named version \<open>v\<close>, every
  later update, archiving or restoring that still names \<open>v\<close>, by whomever and after any other
  calls, is refused and changes nothing.\<close>

theorem stale_version_refused:
  assumes "finance_ok s" and "wallets_update E userId i name vis (Some v) s = (Inr w, s1)"
    and "finance_steps sha sha2 s1 s2"
  shows "(\<exists>e. wallets_update E' userId' i name' vis' (Some v) s2 = (Inl e, s2))
    \<and> (\<exists>e. wallets_archive E' userId' i (Some v) s2 = (Inl e, s2))
    \<and> (\<exists>e. wallets_restore E' userId' i (Some v) s2 = (Inl e, s2))"
proof -
  obtain r vis'' where r: "wallet_id r = i" "wallet_version r = v"
    "write_wallet (ChangeWallet name vis'') r \<in> set (fin_wallets s1)"
    using wallets_update_Inr [OF assms(2)] by blast
  have "finance_ok s1"
    using wallets_update_evolves [of s E userId i name vis "Some v"] assms(1,2) by (simp add: fin_evolves_def)
  then have ev: "finance_ok s2" "rows_kept same_wallet (fin_wallets s1) (fin_wallets s2)"
    using finance_steps_evolve [OF assms(3)] by (simp_all add: fin_evolves_def)
  obtain r2 where r2: "r2 \<in> set (fin_wallets s2)" "wallet_id r2 = i" "v < wallet_version r2"
    using rows_kept_rowD [OF ev(2) r(3)] r(1,2) by (auto simp: same_wallet_def write_wallet_def)
  have no: "\<not> (\<exists>x \<in> set (fin_wallets s2). wallet_id x = i \<and> wallet_version x = v)"
    using wallet_unique [OF ev(1) _ r2(1)] r2(2,3) by fastforce
  show ?thesis
  proof (intro conjI)
    show "\<exists>e. wallets_update E' userId' i name' vis' (Some v) s2 = (Inl e, s2)"
      by (rule refused, drule wallets_update_Inr, use no in fastforce, erule wallet_errors_unchanged(1))
    show "\<exists>e. wallets_archive E' userId' i (Some v) s2 = (Inl e, s2)"
      by (rule refused, drule wallets_archive_Inr, use no in fastforce, erule wallet_errors_unchanged(2))
    show "\<exists>e. wallets_restore E' userId' i (Some v) s2 = (Inl e, s2)"
      by (rule refused, drule wallets_restore_Inr, use no in fastforce, erule wallet_errors_unchanged(3))
  qed
qed

lemma wallets_update_couple: "\<exists>w. wallets_update moscow_env 1 20 (Some ''x'') None (Some 1) couple
    = (Inr w, snd (wallets_update moscow_env 1 20 (Some ''x'') None (Some 1) couple))"
proof -
  have "\<exists>w. fst (wallets_update moscow_env 1 20 (Some ''x'') None (Some 1) couple) = Inr w"
    by (simp add: wallets_update_def requireManageable_def update_wallets_def update_many_def find_wallet_def
        or_version_def write_wallet_def sample_ledger_defs assertVisibility_def)
  then show ?thesis by (metis prod.collapse)
qed

lemma stale_version_refused_witness:
  "\<exists>e. wallets_archive moscow_env 2 20 (Some 1) (snd (wallets_update moscow_env 1 20 (Some ''x'') None (Some 1) couple))
     = (Inl e, snd (wallets_update moscow_env 1 20 (Some ''x'') None (Some 1) couple))"
proof -
  obtain w where "wallets_update moscow_env 1 20 (Some ''x'') None (Some 1) couple
      = (Inr w, snd (wallets_update moscow_env 1 20 (Some ''x'') None (Some 1) couple))"
    using wallets_update_couple by blast
  from stale_version_refused [OF couple_ok this rtranclp.rtrancl_refl [of "finance_step sample_sha (\<lambda>_. [])"]]
  show ?thesis by blast
qed

subsection \<open>Archiving and restoring\<close>

lemma filter_single:
  assumes "distinct (map k xs)" "r \<in> set xs" "\<And>x. P x \<Longrightarrow> k x = k r" "P r"
  shows "filter P xs = [r]"
proof -
  obtain ys zs where xs: "xs = ys @ r # zs" using assms(2) by (auto dest: split_list)
  have "k r \<notin> k ` set ys" "k r \<notin> k ` set zs" using assms(1) by (simp_all add: xs)
  then have "\<forall>x \<in> set ys. \<not> P x" "\<forall>x \<in> set zs. \<not> P x" using assms(3) by (metis image_eqI)+
  then show ?thesis using assms(4) by (simp add: xs)
qed

lemma archive_result:
  assumes ok: "finance_ok s" and run: "wallets_archive E userId i None s = (Inr u, s1)"
  shows "\<exists>ctx r. requireMembership userId s = Inr ctx \<and> r \<in> set (fin_wallets s) \<and> wallet_id r = i
    \<and> wallet_familyId r = ctx_familyId ctx \<and> wallet_archivedAt r = None \<and> canManage r userId (ctx_role ctx)
    \<and> core_members s1 = core_members s \<and> core_families s1 = core_families s
    \<and> fin_wallets s1 = map (\<lambda>w. if wallet_id w = i then write_wallet (ArchiveWallet (env_now E)) w else w) (fin_wallets s)"
proof -
  obtain ctx r where *: "requireMembership userId s = Inr ctx"
      "requireManageable userId i (ctx_familyId ctx) (ctx_role ctx) s = Inr r"
    and s1: "fin_wallets s1 = map (\<lambda>w. if wallet_id w = wallet_id r \<and> wallet_version w = wallet_version r
          \<and> wallet_familyId w = ctx_familyId ctx \<and> wallet_archivedAt w = None
        then write_wallet (ArchiveWallet (env_now E)) w else w) (fin_wallets s)"
      "core_members s1 = core_members s" "core_families s1 = core_families s"
    using run unfolding wallets_archive_def update_wallets_pair
    by (auto simp: transaction_Inr or_version_def audit_record_def split: sum.splits if_splits)
  note r = requireManageable_Inr [OF *(2)]
  have "(wallet_id w = wallet_id r \<and> wallet_version w = wallet_version r
      \<and> wallet_familyId w = ctx_familyId ctx \<and> wallet_archivedAt w = None) = (wallet_id w = i)"
    if "w \<in> set (fin_wallets s)" for w
    using wallet_unique [OF ok that, of r] r by auto
  then show ?thesis using * r s1 by (intro exI [of _ ctx] exI [of _ r]) (simp cong: map_cong)
qed

text \<open>Archiving a wallet and restoring it, both against the current version, returns every wallet as
  it was, with two more versions on the one concerned.\<close>

theorem archive_restore_roundtrip:
  assumes ok: "finance_ok s" and run: "wallets_archive E userId i None s = (Inr (), s1)"
  shows "\<exists>w s2. wallets_restore E' userId i None s1 = (Inr w, s2)
    \<and> fin_wallets s2 = map (\<lambda>w. if wallet_id w = i then w\<lparr>wallet_version := wallet_version w + 2\<rparr> else w) (fin_wallets s)"
proof -
  let ?arch = "write_wallet (ArchiveWallet (env_now E))"
  obtain ctx r where r: "requireMembership userId s = Inr ctx" "r \<in> set (fin_wallets s)" "wallet_id r = i"
      "wallet_familyId r = ctx_familyId ctx" "wallet_archivedAt r = None" "canManage r userId (ctx_role ctx)"
    and same: "core_members s1 = core_members s" "core_families s1 = core_families s"
    and s1: "fin_wallets s1 = map (\<lambda>w. if wallet_id w = i then ?arch w else w) (fin_wallets s)"
    using archive_result [OF ok run] by blast
  have ok1: "finance_ok s1"
    using wallets_archive_evolves [of s E userId i None] ok run by (simp add: fin_evolves_def)
  have d1: "distinct (map wallet_id (fin_wallets s1))" using ok1 by (simp add: finance_ok_def wallets_ok_def)
  let ?Q = "\<lambda>w. wallet_id w = wallet_id (?arch r) \<and> wallet_version w = wallet_version (?arch r)
      \<and> wallet_familyId w = ctx_familyId ctx \<and> wallet_archivedAt w \<noteq> None"
  have m: "?arch r \<in> set (fin_wallets s1)" using r(2,3) by (force simp: s1)
  have arch: "wallet_id (?arch r) = i" "wallet_familyId (?arch r) = ctx_familyId ctx" "wallet_archivedAt (?arch r) \<noteq> None"
    "canManage (?arch r) userId (ctx_role ctx)"
    using r by (simp_all add: write_wallet_def canManage_def)
  have find: "find_first (\<lambda>w. wallet_id w = i \<and> wallet_familyId w = ctx_familyId ctx \<and> wallet_archivedAt w \<noteq> None)
      (fin_wallets s1) = Some (?arch r)"
    by (rule find_unique_key [OF d1 m, where c = i]) (use arch in auto)
  have one: "filter ?Q (fin_wallets s1) = [?arch r]"
    by (rule filter_single [OF d1 m]) (use arch in auto)
  let ?s2 = "s1\<lparr>fin_wallets := map (\<lambda>w. if ?Q w then write_wallet RestoreWallet w else w) (fin_wallets s1)\<rparr>"
  have "write_wallet RestoreWallet (?arch r) \<in> set (fin_wallets ?s2)" using m arch by force
  moreover have "distinct (map wallet_id (fin_wallets ?s2))"
  proof -
    have "map wallet_id (fin_wallets ?s2) = map wallet_id (fin_wallets s1)" by (auto simp: write_wallet_def)
    then show ?thesis using d1 by (simp only:)
  qed
  ultimately have back_again: "find_wallet i ?s2 = Some (write_wallet RestoreWallet (?arch r))"
    unfolding find_wallet_def using arch by (intro find_unique_key [where k = wallet_id and c = i]) (auto simp: write_wallet_def)
  have member: "requireMembership userId s1 = Inr ctx"
    using r(1) requireMembership_cong [of s1 s userId] same by simp
  have "\<exists>d. wallets_restore E' userId i None s1 = (Inr (write_wallet RestoreWallet (?arch r)), ?s2\<lparr>core_feed := d\<rparr>)"
    using member find one back_again arch
    by (simp add: wallets_restore_def update_wallets_pair or_version_def audit_record_def) blast
  moreover have "fin_wallets ?s2 = map (\<lambda>w. if wallet_id w = i then w\<lparr>wallet_version := wallet_version w + 2\<rparr> else w) (fin_wallets s)"
  proof -
    have "?Q (?arch w)" if "w \<in> set (fin_wallets s)" "wallet_id w = i" for w
      using wallet_unique [OF ok that(1) r(2)] that(2) r(3) arch by auto
    moreover have "w\<lparr>wallet_archivedAt := None\<rparr> = w" if "w \<in> set (fin_wallets s)" "wallet_id w = i" for w
      using wallet_unique [OF ok that(1) r(2)] that(2) r(3,5) by simp
    ultimately show ?thesis using arch(1) by (auto simp: s1 write_wallet_def)
  qed
  ultimately show ?thesis by fastforce
qed

lemma archive_restore_roundtrip_witness:
  "\<exists>w s2. wallets_restore moscow_env 1 20 None (snd (wallets_archive moscow_env 1 20 None couple)) = (Inr w, s2)"
proof -
  have "fst (wallets_archive moscow_env 1 20 None couple) = Inr ()"
    by (simp add: wallets_archive_def requireManageable_def update_wallets_def update_many_def
        or_version_def sample_ledger_defs goal_row_def)
  then have "wallets_archive moscow_env 1 20 None couple = (Inr (), snd (wallets_archive moscow_env 1 20 None couple))"
    by (metis prod.collapse)
  from archive_restore_roundtrip [OF couple_ok this] show ?thesis by blast
qed

subsection \<open>Reading the ledger\<close>

lemma visibleTo_iff: "visibleTo userId role w \<longleftrightarrow> wallet_type w = WFamily \<or> wallet_ownerId w = Some userId
   \<or> (role = PARTNER \<and> wallet_visibility w = WvPartner)"
  by (cases "wallet_type w") (auto simp: visibleTo_def)

lemma history_get_visible:
  assumes "finance_ok s" and "requireMembership userId s = Inr ctx"
  shows "history_get userId i s = Inr t \<longleftrightarrow>
    t \<in> set (fin_transactions s) \<and> ltx_id t = i \<and> ltx_familyId t = ctx_familyId ctx
    \<and> (\<forall>e \<in> set (ltx_entries t). \<forall>j. entry_walletId e = Some j \<longrightarrow>
         (\<exists>w \<in> set (fin_wallets s). wallet_id w = j \<and> visibleTo userId (ctx_role ctx) w))"
proof -
  have d: "distinct (map ltx_id (fin_transactions s))" using assms(1) by (simp add: finance_ok_def ledger_ok_def)
  have fam: "wallet_familyId w = ltx_familyId t"
    if h: "t \<in> set (fin_transactions s)" "e \<in> set (ltx_entries t)" "entry_walletId e = Some (wallet_id w)" "w \<in> set (fin_wallets s)"
    for t e w
  proof -
    have "entry_ok (fin_wallets s) (ltx_familyId t) (ltx_currency t) e"
      using assms(1) h(1,2) by (simp add: finance_ok_def ledger_ok_def posted_ok_def)
    then obtain v where "v \<in> set (fin_wallets s)" "wallet_id v = wallet_id w" "wallet_familyId v = ltx_familyId t"
      using h(3) unfolding entry_ok_def by blast
    then show ?thesis using wallet_unique [OF assms(1)] h(4) by metis
  qed
  have v: "visibleWhere userId (ctx_familyId ctx) (ctx_role ctx) None s t \<longleftrightarrow> ltx_familyId t = ctx_familyId ctx
      \<and> (\<forall>e \<in> set (ltx_entries t). \<forall>j. entry_walletId e = Some j \<longrightarrow>
         (\<exists>w \<in> set (fin_wallets s). wallet_id w = j \<and> visibleTo userId (ctx_role ctx) w))"
    if "t \<in> set (fin_transactions s)" for t
    using fam [OF that] by (fastforce simp: visibleWhere_def Let_def split: option.splits)
  show ?thesis
  proof
    assume "history_get userId i s = Inr t"
    then have "find_first (\<lambda>t. visibleWhere userId (ctx_familyId ctx) (ctx_role ctx) None s t \<and> ltx_id t = i)
        (fin_transactions s) = Some t"
      using assms(2) by (simp add: history_get_def split: option.splits)
    from find_SomeD [OF this] show "t \<in> set (fin_transactions s) \<and> ltx_id t = i \<and> ltx_familyId t = ctx_familyId ctx
      \<and> (\<forall>e \<in> set (ltx_entries t). \<forall>j. entry_walletId e = Some j \<longrightarrow>
         (\<exists>w \<in> set (fin_wallets s). wallet_id w = j \<and> visibleTo userId (ctx_role ctx) w))"
      using v by auto
  next
    assume "t \<in> set (fin_transactions s) \<and> ltx_id t = i \<and> ltx_familyId t = ctx_familyId ctx
      \<and> (\<forall>e \<in> set (ltx_entries t). \<forall>j. entry_walletId e = Some j \<longrightarrow>
         (\<exists>w \<in> set (fin_wallets s). wallet_id w = j \<and> visibleTo userId (ctx_role ctx) w))"
    then have t: "t \<in> set (fin_transactions s)" "ltx_id t = i"
      "visibleWhere userId (ctx_familyId ctx) (ctx_role ctx) None s t" using v by auto
    have "find_first (\<lambda>t. visibleWhere userId (ctx_familyId ctx) (ctx_role ctx) None s t \<and> ltx_id t = i)
        (fin_transactions s) = Some t"
      by (rule find_unique_key [OF d t(1), where c = i]) (use t in auto)
    then show "history_get userId i s = Inr t" using assms(2) by (simp add: history_get_def)
  qed
qed

text \<open>C8. A member reads a transaction exactly when it belongs to the member's family and every wallet it
  touches is a wallet of the family, the member's own, or shared with partners while the member is one:
  the private wallet of another member hides a transaction, and so does the shared wallet of a partner
  from a child.\<close>

theorem history_reads_visible:
  assumes "finance_ok s" and "requireMembership userId s = Inr ctx"
  shows "history_get userId i s = Inr t \<longleftrightarrow>
    t \<in> set (fin_transactions s) \<and> ltx_id t = i \<and> ltx_familyId t = ctx_familyId ctx
    \<and> (\<forall>e \<in> set (ltx_entries t). \<forall>j. entry_walletId e = Some j \<longrightarrow>
         (\<exists>w \<in> set (fin_wallets s). wallet_id w = j \<and> (wallet_type w = WFamily \<or> wallet_ownerId w = Some userId
           \<or> (ctx_role ctx = PARTNER \<and> wallet_visibility w = WvPartner))))"
  using history_get_visible [OF assms] by (simp only: visibleTo_iff)

lemma history_reads_visible_witness: "history_get 1 100 after_salary = Inr salary_row"
proof -
  obtain ctx where ctx: "requireMembership 1 after_salary = Inr ctx" using requireMembership_couple by blast
  then have "ctx_familyId ctx = 5"
    by (auto simp: requireMembership_def find_member_def find_family_def after_salary_tables couple_def member_row_def)
  then show ?thesis
    unfolding history_reads_visible [OF after_salary_ok ctx]
    by (simp add: after_salary_tables salary_row_def couple_def wallet_row_def visibleTo_def)
qed

text \<open>Paging through the history shows every visible transaction exactly once, newest first: the
  pages from 1 to the announced number of pages are a partition of the visible transactions
  ordered by date and id.\<close>

theorem history_pages:
  assumes "requireMembership userId s = Inr ctx" and "0 < limit"
  shows "\<exists>n ts. (\<forall>p > 0. history_list userId \<lparr>pq_page = p, pq_limit = limit\<rparr> walletId s = Inr
        (\<lparr>pm_total = length ts, pm_page = p, pm_limit = limit, pm_totalPages = n\<rparr>, page_of p limit ts))
    \<and> concat (map (\<lambda>p. page_of p limit ts) [1..<Suc n]) = ts
    \<and> mset ts = mset (filter (visibleWhere userId (ctx_familyId ctx) (ctx_role ctx) walletId s) (fin_transactions s))
    \<and> sorted (map (\<lambda>t. (ltx_occurredAt t, ltx_id t)) (rev ts))"
proof -
  let ?m = "filter (visibleWhere userId (ctx_familyId ctx) (ctx_role ctx) walletId s) (fin_transactions s)"
  let ?ts = "rev (sort_key (\<lambda>t. (ltx_occurredAt t, ltx_id t)) ?m)"
  let ?n = "(length ?m + limit - 1) div limit"
  have "concat (map (\<lambda>p. page_of p limit ?ts) [1..<Suc ?n]) = ?ts"
    using pages_cover [OF assms(2), of ?ts ?n] total_pages_enough [OF assms(2), of "length ?m"]
    by (simp add: mult.commute)
  then show ?thesis
    by (intro exI [of _ ?n] exI [of _ ?ts]) (simp add: history_list_def assms(1) Let_def paginationMeta_def)
qed

lemma history_pages_witness:
  "\<exists>n ts. concat (map (\<lambda>p. page_of p 20 ts) [1..<Suc n]) = ts \<and> mset ts = {#salary_row#}"
proof -
  obtain ctx where ctx: "requireMembership 1 after_salary = Inr ctx" using requireMembership_couple by blast
  then have "ctx_familyId ctx = 5"
    by (auto simp: requireMembership_def find_member_def find_family_def after_salary_tables couple_def member_row_def)
  then have vis: "filter (visibleWhere 1 (ctx_familyId ctx) (ctx_role ctx) None after_salary)
      (fin_transactions after_salary) = [salary_row]"
    by (simp add: after_salary_tables salary_row_def couple_def wallet_row_def visibleTo_def visibleWhere_def)
  from history_pages [OF ctx, of 20 None] show ?thesis
    unfolding vis by (auto simp del: upt_Suc)
qed

end
