(* ===== verification/GoalSpec.thy ===== *)
theory GoalSpec
  imports WalletSpec
begin

text \<open>
  The promises of the savings goals: an open goal has an open envelope that cannot be archived
  under it; a contribution moves exactly its amount from the source to the envelope, and the
  goal is marked achieved by the contribution that fills it, once and for all.
\<close>

text \<open>An open goal never loses its envelope: in every reachable state its wallet exists in the same
  family and is open, and any attempt to archive that wallet is refused without effect.\<close>

theorem open_goal_keeps_envelope:
  assumes "finance_ok s" and "finance_steps sha sha2 s s'"
    and "g \<in> set (fin_goals s')" and "goal_archivedAt g = None"
  shows "(\<exists>w \<in> set (fin_wallets s'). wallet_id w = goal_walletId g \<and> wallet_familyId w = goal_familyId g
      \<and> wallet_archivedAt w = None)
    \<and> (\<exists>e. wallets_archive E userId (goal_walletId g) ver s' = (Inl e, s'))"
proof
  have "finance_ok s'" using finance_steps_evolve [OF assms(2)] assms(1) by (simp add: fin_evolves_def)
  then show "\<exists>w \<in> set (fin_wallets s'). wallet_id w = goal_walletId g \<and> wallet_familyId w = goal_familyId g
      \<and> wallet_archivedAt w = None"
    using assms(3,4) by (auto simp: finance_ok_def goals_ok_def)
  have "find_first (\<lambda>h. goal_walletId h = goal_walletId g \<and> goal_archivedAt h = None) (fin_goals s') \<noteq> None"
    using assms(3,4) by (auto simp: find_None_iff)
  then show "\<exists>e. wallets_archive E userId (goal_walletId g) ver s' = (Inl e, s')"
    unfolding wallets_archive_def
    by (auto split: sum.split dest!: requireManageable_Inr)
qed

lemma open_goal_keeps_envelope_witness:
  "\<exists>e. wallets_archive moscow_env 1 23 None after_salary = (Inl e, after_salary)"
  using open_goal_keeps_envelope [OF couple_ok couple_to_salary, of goal_row]
  by (simp add: after_salary_tables couple_def goal_row_def)

subsection \<open>Contributions\<close>

lemma insert_transaction_Inr:
  "insert_transaction t s = (Inr u, s') \<Longrightarrow> s' = s\<lparr>fin_transactions := fin_transactions s @ [t]\<rparr>"
  by (auto simp: insert_transaction_def split: if_splits)

lemma insert_command_Inr:
  "insert_command c s = (Inr u, s') \<Longrightarrow> s' = s\<lparr>fin_commands := fin_commands s @ [c]\<rparr>"
  by (auto simp: insert_command_def split: if_splits)

lemma mark_achieved_Inr:
  assumes "mark_achieved E userId fam goal s = (Inr a, s')"
  shows "fin_transactions s' = fin_transactions s
    \<and> a = (if goal_achievedAt goal = None \<and> goal_targetAmountMinor goal \<le> balance (goal_walletId goal) s
         then Some (env_now E) else goal_achievedAt goal)
    \<and> fin_goals s' = (if a \<noteq> goal_achievedAt goal
         then map (\<lambda>g. if goal_id g = goal_id goal then g\<lparr>goal_achievedAt := a\<rparr> else g) (fin_goals s) else fin_goals s)"
proof -
  have n: "notifyUserInTransaction E input t = (r, t') \<Longrightarrow> fin_transactions t' = fin_transactions t \<and> fin_goals t' = fin_goals t"
    for input r and t t' :: "'a finance_db_scheme"
    using notifyUserInTransaction_feed [of E input t] by auto
  show ?thesis using assms unfolding mark_achieved_def Let_def update_goals_snd
    by (auto simp: and_then_Inr split: if_splits dest!: n)
qed

lemma write_contribution_Inr:
  fixes s s' :: "'a finance_db_scheme"
  assumes "write_contribution E userId fam key h dto amt goal source s = (Inr r, s')"
  shows "\<exists>s4 :: 'a finance_db_scheme. fin_transactions s4 = fin_transactions s @
      [contribution_transaction E (core_nextId s) userId fam dto source goal amt]
    \<and> fin_goals s4 = fin_goals s \<and> cr_amountMinor r = amt
    \<and> cr_currentAmountMinor r = balance (goal_walletId goal) s4
    \<and> (\<exists>s5. mark_achieved E userId fam goal s4 = (Inr (cr_achievedAt r), s5)
         \<and> fin_transactions s' = fin_transactions s5 \<and> fin_goals s' = fin_goals s5)"
proof -
  obtain u s3 v s4 a s5 where
    "insert_transaction (contribution_transaction E (core_nextId s) userId fam dto source goal amt)
       (s\<lparr>core_nextId := Suc (Suc (core_nextId s))\<rparr>) = (Inr u, s3)"
    "insert_command \<lparr>cmd_userId = userId, cmd_scope = GOAL_SCOPE, cmd_key = key,
       cmd_requestHash = h, cmd_transactionId = core_nextId s\<rparr> (s3\<lparr>fin_contributions := fin_contributions s3 @
          [\<lparr>contrib_id = Suc (core_nextId s), contrib_goalId = goal_id goal, contrib_transactionId = core_nextId s,
            contrib_createdById = userId\<rparr>]\<rparr>) = (Inr v, s4)"
    and *: "mark_achieved E userId fam goal s4 = (Inr a, s5)" "cr_achievedAt r = a" "cr_amountMinor r = amt"
      "cr_currentAmountMinor r = balance (goal_walletId goal) s4"
      "fin_transactions s' = fin_transactions s5" "fin_goals s' = fin_goals s5"
    using assms by (auto simp: write_contribution_def fresh_def Let_def and_then_Inr audit_record_def)
  then have "fin_transactions s4 = fin_transactions s @
      [contribution_transaction E (core_nextId s) userId fam dto source goal amt]" "fin_goals s4 = fin_goals s"
    by (auto dest!: insert_transaction_Inr insert_command_Inr)
  with * show ?thesis by blast
qed

lemma contribute_tx_Inr:
  assumes "contribute_tx E userId ctx i key h dto amt s = (Inr r, s')"
  shows "\<exists>goal source. goal \<in> set (fin_goals s) \<and> goal_id goal = i \<and> goal_archivedAt goal = None
    \<and> wallet_id source = gc_fromWalletId dto \<and> gc_fromWalletId dto \<noteq> goal_walletId goal
    \<and> write_contribution E userId (ctx_familyId ctx) key h dto amt goal source s = (Inr r, s')"
  using assms unfolding contribute_tx_def
  by (auto split: sum.splits prod.splits option.splits if_splits dest!: findManageable_Inr find_SomeD)

lemma contribute_first:
  assumes "goals_contribute E sha userId i key dto s = (Inr r, s')" "find_command userId GOAL_SCOPE key s = None"
  shows "\<exists>ctx amt. requireMembership userId s = Inr ctx \<and> amount ''amountMinor'' (gc_amountMinor dto) = Inr amt
    \<and> contribute_tx E userId ctx i key (sha (ContributionRequest i dto)) dto amt s = (Inr r, s')"
proof -
  have none: "goal_replay userId key h s = Inr None" for h using assms(2) by (simp add: goal_replay_def)
  have tx: "goal_replayAfterConflict userId key h (transaction s x) = (Inr c, t) \<Longrightarrow> x = (Inr c, t)" for h x c t
    by (cases x; cases "fst x") (auto simp: goal_replayAfterConflict_def none split: if_splits)
  show ?thesis using assms(1) unfolding goals_contribute_def Let_def none
    by (auto split: sum.splits dest!: tx)
qed

text \<open>C11. The first execution of a contribution takes its amount from the source wallet, puts it into
  the envelope and touches no other balance.  It reports the new balance of the envelope; the
  goal counts as achieved from the first contribution that brings the balance to the target,
  and an earlier achievement is kept.\<close>

theorem contribution_fills_goal:
  fixes s s' :: "'a finance_db_scheme"
  assumes "finance_ok s" and "goals_contribute E sha userId i key dto s = (Inr r, s')"
    and "find_command userId GOAL_SCOPE key s = None"
  shows "\<exists>goal \<in> set (fin_goals s). \<exists>n. goal_id goal = i \<and> goal_archivedAt goal = None
    \<and> amount ''amountMinor'' (gc_amountMinor dto) = Inr n \<and> cr_amountMinor r = n
    \<and> accounts s' = (accounts s)(gc_fromWalletId dto := accounts s (gc_fromWalletId dto) - n,
        goal_walletId goal := accounts s (goal_walletId goal) + n)
    \<and> cr_currentAmountMinor r = accounts s' (goal_walletId goal)
    \<and> (\<exists>g'. find_goal i s' = Some g' \<and> goal_achievedAt g' = cr_achievedAt r
        \<and> cr_achievedAt r = (if goal_achievedAt goal = None \<and> goal_targetAmountMinor goal \<le> accounts s' (goal_walletId goal)
            then Some (env_now E) else goal_achievedAt goal))"
proof -
  obtain ctx n where n: "amount ''amountMinor'' (gc_amountMinor dto) = Inr n"
    and tx: "contribute_tx E userId ctx i key (sha (ContributionRequest i dto)) dto n s = (Inr r, s')"
    using contribute_first [OF assms(2,3)] by blast
  obtain goal source where g: "goal \<in> set (fin_goals s)" "goal_id goal = i" "goal_archivedAt goal = None"
    "wallet_id source = gc_fromWalletId dto" "gc_fromWalletId dto \<noteq> goal_walletId goal"
    and w: "write_contribution E userId (ctx_familyId ctx) key (sha (ContributionRequest i dto)) dto n goal source s = (Inr r, s')"
    using contribute_tx_Inr [OF tx] by blast
  let ?t = "contribution_transaction E (core_nextId s) userId (ctx_familyId ctx) dto source goal n"
  obtain s4 s5 :: "'a finance_db_scheme" where s4: "fin_transactions s4 = fin_transactions s @ [?t]" "fin_goals s4 = fin_goals s"
    "cr_amountMinor r = n" "cr_currentAmountMinor r = balance (goal_walletId goal) s4"
    and mark: "mark_achieved E userId (ctx_familyId ctx) goal s4 = (Inr (cr_achievedAt r), s5)"
    and s': "fin_transactions s' = fin_transactions s5" "fin_goals s' = fin_goals s5"
    using write_contribution_Inr [OF w] by blast
  note m = mark_achieved_Inr [OF mark]
  have ts: "fin_transactions s' = fin_transactions s @ [?t]" using m s4(1) s'(1) by simp
  have acc: "accounts s' = (accounts s)(gc_fromWalletId dto := accounts s (gc_fromWalletId dto) - n,
        goal_walletId goal := accounts s (goal_walletId goal) + n)"
    using g(4,5) by (auto simp: accounts_def balance_def ts balance_of_append balance_of_single
        contribution_transaction_def fun_eq_iff)
  have b: "balance (goal_walletId goal) s4 = accounts s' (goal_walletId goal)"
    by (simp add: accounts_def balance_def ts s4(1))
  have "find_goal i s' = Some (goal\<lparr>goal_achievedAt := cr_achievedAt r\<rparr>)"
  proof -
    have "find_first (\<lambda>g. goal_id g = i) (fin_goals s) = Some goal"
      using assms(1) g(1,2) by (intro find_unique_key [where k = goal_id and c = i]) (auto simp: finance_ok_def goals_ok_def)
    moreover have "find_first (\<lambda>g. goal_id g = i) (map (\<lambda>g. if goal_id g = goal_id goal then g\<lparr>goal_achievedAt := a\<rparr> else g) gs)
        = map_option (\<lambda>g. g\<lparr>goal_achievedAt := a\<rparr>) (find_first (\<lambda>g. goal_id g = i) gs)" for a and gs :: "goal list"
      using g(2) find_map_update [of "\<lambda>g. goal_id g = i" "\<lambda>g. g\<lparr>goal_achievedAt := a\<rparr>" gs] by simp
    ultimately show ?thesis using conjunct2 [OF conjunct2 [OF m]] s4(2) s'(2)
      by (cases "cr_achievedAt r = goal_achievedAt goal") (simp_all add: find_goal_def)
  qed
  then show ?thesis using g n s4(3,4) b m acc by (intro bexI [OF _ g(1)] exI [of _ n]) auto
qed

definition pocket :: contribution_dto where
  "pocket = \<lparr>gc_fromWalletId = 20, gc_amountMinor = ''600'', gc_occurredAt = None, gc_note = None\<rparr>"

lemma pocket_contributed:
  "\<exists>r. goals_contribute moscow_env (\<lambda>_. ''h'') 1 30 ''key-0009'' pocket after_salary
     = (Inr r, snd (goals_contribute moscow_env (\<lambda>_. ''h'') 1 30 ''key-0009'' pocket after_salary))"
proof -
  have "\<exists>r. fst (goals_contribute moscow_env (\<lambda>_. ''h'') 1 30 ''key-0009'' pocket after_salary) = Inr r"
    by (simp add: goals_contribute_def goal_replay_def contribute_tx_def findManageable_def with_wallet_def find_wallet_def
        write_contribution_def contribution_transaction_def mark_achieved_def balance_def balance_of_def all_entries_def
        update_goals_def update_many_def notifyUserInTransaction_def goal_replayAfterConflict_def
        after_salary_tables sample_ledger_defs goal_row_def salary_row_def pocket_def List.map_filter_simps)
  then show ?thesis by (metis prod.collapse)
qed

lemma contribution_fills_goal_witness:
  "accounts (snd (goals_contribute moscow_env (\<lambda>_. ''h'') 1 30 ''key-0009'' pocket after_salary)) 23 = 600
   \<and> accounts (snd (goals_contribute moscow_env (\<lambda>_. ''h'') 1 30 ''key-0009'' pocket after_salary)) 20 = 300"
proof -
  let ?s = "snd (goals_contribute moscow_env (\<lambda>_. ''h'') 1 30 ''key-0009'' pocket after_salary)"
  obtain r where r: "goals_contribute moscow_env (\<lambda>_. ''h'') 1 30 ''key-0009'' pocket after_salary = (Inr r, ?s)"
    using pocket_contributed by blast
  have none: "find_command 1 GOAL_SCOPE ''key-0009'' after_salary = None"
    by (simp add: find_command_def after_salary_tables)
  have "\<exists>goal \<in> set (fin_goals after_salary). \<exists>n. amount ''amountMinor'' (gc_amountMinor pocket) = Inr n
      \<and> accounts ?s = (accounts after_salary)(gc_fromWalletId pocket := accounts after_salary (gc_fromWalletId pocket) - n,
        goal_walletId goal := accounts after_salary (goal_walletId goal) + n)"
    using contribution_fills_goal [OF after_salary_ok r none] by blast
  moreover have "amount ''amountMinor'' ''600'' = Inr 600"
    by (simp add: amount_def bigInt_def digit_value_def MAX_AMOUNT_MINOR_def)
  ultimately have acc: "accounts ?s = (accounts after_salary)(20 := accounts after_salary 20 - 600, 23 := accounts after_salary 23 + 600)"
    by (auto simp: after_salary_tables couple_def goal_row_def pocket_def)
  show ?thesis unfolding acc
    by (simp add: accounts_def balance_def balance_of_def all_entries_def after_salary_tables salary_row_def)
qed

end
