(* ===== verification/Recurring.thy ===== *)
theory Recurring
  imports FinanceOps
begin

text \<open>
  \<open>modules/finance/recurring-payments.service.ts\<close>: payments that repeat every so many weeks
  or months, their forecasts, and the two jobs of \<open>common/maintenance/maintenance.service.ts\<close>
  that advance them and deliver their reminders.

  The texts of the reminders are Russian in the source and are rendered in English here; the
  date in them comes from \<open>toLocaleDateString\<close>, which is an argument of the model.
\<close>

subsection \<open>Rows and requests\<close>

datatype payment_frequency = WEEKLY | MONTHLY

text \<open>The enum \<open>RecurringPaymentType\<close> has the values of \<open>FinancialCategoryKind\<close>, with which
  the code compares it.\<close>

record payment =
  pay_id :: uuid
  pay_familyId :: uuid
  pay_walletId :: uuid
  pay_categoryId :: "uuid option"
  pay_createdById :: uuid
  pay_type :: category_kind
  pay_title :: string
  pay_note :: "string option"
  pay_amountMinor :: int
  pay_frequency :: payment_frequency
  pay_interval :: int
  pay_nextDueAt :: timestamp
  pay_reminderOffsetMinutes :: "int option"
  pay_reminderRecipientIds :: "uuid list"
  pay_active :: bool
  pay_version :: int
  pay_archivedAt :: "timestamp option"
  pay_createdAt :: timestamp

record forecast =
  fc_id :: uuid
  fc_recurringPaymentId :: uuid
  fc_dueAt :: timestamp
  fc_reminderAt :: timestamp
  fc_reminderSentAt :: "timestamp option"

record recurring_db = finance_db +
  rec_payments :: "payment list"
  rec_forecasts :: "forecast list"

record create_payment_dto =
  cp_walletId :: uuid
  cp_type :: category_kind
  cp_title :: string
  cp_amountMinor :: string
  cp_frequency :: payment_frequency
  cp_nextDueAt :: timestamp
  cp_categoryId :: "uuid option"
  cp_note :: "string option"
  cp_interval :: "int option"
  cp_reminderOffsetMinutes :: "int option"
  cp_reminderRecipientIds :: "uuid list option"

text \<open>\<open>nextDueAt\<close>, \<open>categoryId\<close> and \<open>reminderOffsetMinutes\<close> may be absent or an explicit \<open>null\<close>.\<close>

record update_payment_dto =
  up_title :: "string option"
  up_note :: "string option"
  up_amountMinor :: "string option"
  up_frequency :: "payment_frequency option"
  up_interval :: "int option"
  up_nextDueAt :: "timestamp option option"
  up_categoryId :: "uuid option option"
  up_reminderOffsetMinutes :: "int option option"
  up_reminderRecipientIds :: "uuid list option"
  up_active :: "bool option"

subsection \<open>Helpers of the service\<close>

definition payment_amount :: "string \<Rightarrow> api_error + int" where
  "payment_amount v = (case bigInt v of Inl e \<Rightarrow> Inl e
     | Inr n \<Rightarrow> (if n > MAX_AMOUNT_MINOR then Inl (BadRequest ''Amount is too large'') else Inr n))"

definition futureDate :: "env \<Rightarrow> timestamp \<Rightarrow> api_error + timestamp" where
  "futureDate E date = (if date \<le> env_now E
     then Inl (BadRequest ''Next due date must be in the future'') else Inr date)"

definition reminderAt :: "timestamp \<Rightarrow> int option \<Rightarrow> timestamp" where
  "reminderAt dueAt offset = dueAt - (case offset of None \<Rightarrow> 0 | Some n \<Rightarrow> n) * 60000"

text \<open>One turn of the loop of \<open>nextDueAt\<close>; its body runs before the first test.\<close>

definition due_step :: "payment_frequency \<Rightarrow> int \<Rightarrow> timestamp \<Rightarrow> timestamp" where
  "due_step frequency interval next = (case frequency of
     WEEKLY \<Rightarrow> setUTCDate next (getUTCDate next + interval * 7)
   | MONTHLY \<Rightarrow> setUTCMonth next (getUTCMonth next + interval))"

definition nextDueAt :: "timestamp \<Rightarrow> payment_frequency \<Rightarrow> int \<Rightarrow> timestamp \<Rightarrow> timestamp option" where
  "nextDueAt current frequency interval now =
     step_past (due_step frequency interval) now (due_step frequency interval current)"

definition payment_canManage :: "wallet \<Rightarrow> uuid \<Rightarrow> member_role \<Rightarrow> bool" where
  "payment_canManage w userId role \<longleftrightarrow>
     wallet_ownerId w = Some userId \<or> (wallet_type w = WFamily \<and> role = PARTNER)"

definition validateCategory :: "uuid \<Rightarrow> uuid option \<Rightarrow> category_kind \<Rightarrow> 'a finance_db_scheme \<Rightarrow> api_error + unit" where
  "validateCategory familyId categoryId ty s = (case categoryId of None \<Rightarrow> Inr ()
   | Some i \<Rightarrow> (case find_first (\<lambda>c. cat_id c = i \<and> cat_familyId c = familyId \<and> cat_archivedAt c = None)
         (fin_categories s) of
       None \<Rightarrow> Inl (NotFound ''Financial category not found'')
     | Some c \<Rightarrow> (if cat_kind c \<noteq> ty then Inl (NotFound ''Financial category not found'') else Inr ())))"

definition may_be_reminded :: "wallet \<Rightarrow> family_member \<Rightarrow> bool" where
  "may_be_reminded w m \<longleftrightarrow> wallet_ownerId w = Some (member_userId m)
     \<or> (wallet_visibility w = WvPartner \<and> member_role m = PARTNER)"

definition payment_recipients ::
    "uuid \<Rightarrow> wallet \<Rightarrow> uuid \<Rightarrow> member_role \<Rightarrow> uuid list \<Rightarrow> 'a core_scheme \<Rightarrow> api_error + uuid list" where
  "payment_recipients familyId w userId role ids s = (
     if ids = [] then Inl (BadRequest ''At least one reminder recipient is required'') else
     let members = filter (\<lambda>m. member_familyId m = familyId \<and> member_userId m \<in> set ids) (core_members s) in
     if length members \<noteq> length ids then Inl (BadRequest ''Reminder recipients must belong to the family'')
     else if wallet_type w = WPersonal \<and> (\<exists>m \<in> set members. \<not> may_be_reminded w m)
     then Inl (BadRequest ''A private wallet reminder cannot be shared'')
     else if \<not> payment_canManage w userId role then Inl (NotFound ''Wallet not found'')
     else Inr ids)"

definition payment_wallet :: "payment \<Rightarrow> 'a finance_db_scheme \<Rightarrow> wallet option" where
  "payment_wallet p s = find_wallet (pay_walletId p) s"

text \<open>A relation filter \<open>wallet: { ... }\<close>.\<close>

definition wallet_is :: "(wallet \<Rightarrow> bool) \<Rightarrow> 'a finance_db_scheme \<Rightarrow> payment \<Rightarrow> bool" where
  "wallet_is P s p \<longleftrightarrow> (case payment_wallet p s of None \<Rightarrow> False | Some w \<Rightarrow> P w)"

definition findVisiblePayment :: "uuid \<Rightarrow> uuid \<Rightarrow> recurring_db \<Rightarrow> api_error + payment" where
  "findVisiblePayment userId i s = (case requireMembership userId s of Inl e \<Rightarrow> Inl e
   | Inr ctx \<Rightarrow> (case find_first (\<lambda>p. pay_id p = i \<and> pay_familyId p = ctx_familyId ctx \<and> pay_archivedAt p = None
         \<and> wallet_is (visibleTo userId (ctx_role ctx)) s p) (rec_payments s) of
       None \<Rightarrow> Inl (NotFound ''Recurring payment not found'') | Some p \<Rightarrow> Inr p))"

definition findManageablePayment ::
    "uuid \<Rightarrow> uuid \<Rightarrow> uuid \<Rightarrow> member_role \<Rightarrow> (payment \<Rightarrow> bool) \<Rightarrow> recurring_db \<Rightarrow> api_error + payment" where
  "findManageablePayment userId i familyId role Q s =
    (case find_first (\<lambda>p. pay_id p = i \<and> pay_familyId p = familyId \<and> Q p) (rec_payments s) of
       None \<Rightarrow> Inl (NotFound ''Recurring payment not found'')
     | Some p \<Rightarrow> (if \<not> wallet_is (\<lambda>w. payment_canManage w userId role) s p
         then Inl (NotFound ''Recurring payment not found'') else Inr p))"

subsection \<open>Writes\<close>

datatype payment_change =
    ChangePayment update_payment_dto "int option" timestamp "int option" "uuid list"
  | ArchivePayment timestamp
  | RestorePayment
  | AdvancePayment timestamp

text \<open>\<open>data\<close> of the update: an absent field keeps its column; \<open>dto.title?.trim()\<close>.\<close>

definition if_given :: "'a option \<Rightarrow> 'a \<Rightarrow> 'a" where
  "if_given v old = (case v of None \<Rightarrow> old | Some x \<Rightarrow> x)"

definition write_payment :: "payment_change \<Rightarrow> payment \<Rightarrow> payment" where
  "write_payment c p = (case c of
     ChangePayment d amt dueAt offset recipients \<Rightarrow> p\<lparr>
       pay_title := if_given (map_option js_trim (up_title d)) (pay_title p),
       pay_note := (case up_note d of None \<Rightarrow> pay_note p | Some n \<Rightarrow> Some (js_trim n)),
       pay_amountMinor := if_given amt (pay_amountMinor p),
       pay_frequency := if_given (up_frequency d) (pay_frequency p),
       pay_interval := if_given (up_interval d) (pay_interval p),
       pay_nextDueAt := (case up_nextDueAt d of Some (Some _) \<Rightarrow> dueAt | _ \<Rightarrow> pay_nextDueAt p),
       pay_categoryId := if_given (up_categoryId d) (pay_categoryId p),
       pay_reminderOffsetMinutes := offset,
       pay_reminderRecipientIds := recipients,
       pay_active := if_given (up_active d) (pay_active p),
       pay_version := pay_version p + 1\<rparr>
   | ArchivePayment t \<Rightarrow> p\<lparr>pay_active := False, pay_archivedAt := Some t, pay_version := pay_version p + 1\<rparr>
   | RestorePayment \<Rightarrow> p\<lparr>pay_active := True, pay_archivedAt := None, pay_version := pay_version p + 1\<rparr>
   | AdvancePayment t \<Rightarrow> p\<lparr>pay_nextDueAt := t, pay_version := pay_version p + 1\<rparr>)"

interpretation payment_rows: versioned_rows pay_id pay_version write_payment
  by unfold_locales (auto simp: write_payment_def split: payment_change.split)

definition update_payments ::
    "(payment \<Rightarrow> bool) \<Rightarrow> (payment \<Rightarrow> payment) \<Rightarrow> recurring_db \<Rightarrow> nat \<times> recurring_db" where
  "update_payments P f s = (fst (update_many P f (rec_payments s)),
     s\<lparr>rec_payments := snd (update_many P f (rec_payments s))\<rparr>)"

definition find_payment :: "uuid \<Rightarrow> recurring_db \<Rightarrow> payment option" where
  "find_payment i s = find_first (\<lambda>p. pay_id p = i) (rec_payments s)"

text \<open>\<open>@@unique([recurringPaymentId, dueAt])\<close>\<close>

definition create_forecast :: "uuid \<Rightarrow> timestamp \<Rightarrow> timestamp \<Rightarrow> recurring_db \<Rightarrow> (unit, recurring_db) resp" where
  "create_forecast paymentId dueAt remindAt s = (case fresh s of (i, s1) \<Rightarrow>
     if \<exists>f \<in> set (rec_forecasts s). fc_recurringPaymentId f = paymentId \<and> fc_dueAt f = dueAt
     then (Inl P2002, s1)
     else (Inr (), s1\<lparr>rec_forecasts := rec_forecasts s1 @ [\<lparr>fc_id = i, fc_recurringPaymentId = paymentId,
         fc_dueAt = dueAt, fc_reminderAt = remindAt, fc_reminderSentAt = None\<rparr>]\<rparr>))"

definition delete_unsent :: "uuid \<Rightarrow> recurring_db \<Rightarrow> recurring_db" where
  "delete_unsent paymentId s = s\<lparr>rec_forecasts := snd (delete_many
     (\<lambda>f. fc_recurringPaymentId f = paymentId \<and> fc_reminderSentAt f = None) (rec_forecasts s))\<rparr>"

definition payment_audit :: "uuid \<Rightarrow> uuid \<Rightarrow> string \<Rightarrow> uuid \<Rightarrow> audit_input" where
  "payment_audit userId familyId action i =
     audit_of userId familyId (''recurring_payment.'' @ action) ''recurring_payment'' i"

subsection \<open>The operations\<close>

definition new_payment ::
    "env \<Rightarrow> uuid \<Rightarrow> uuid \<Rightarrow> uuid \<Rightarrow> create_payment_dto \<Rightarrow> int \<Rightarrow> timestamp \<Rightarrow> uuid list \<Rightarrow> payment" where
  "new_payment E i familyId userId dto amt dueAt recipients =
     \<lparr>pay_id = i, pay_familyId = familyId, pay_walletId = cp_walletId dto, pay_categoryId = cp_categoryId dto,
      pay_createdById = userId, pay_type = cp_type dto, pay_title = js_trim (cp_title dto),
      pay_note = trim_or_null (cp_note dto), pay_amountMinor = amt, pay_frequency = cp_frequency dto,
      pay_interval = if_given (cp_interval dto) 1, pay_nextDueAt = dueAt,
      pay_reminderOffsetMinutes = cp_reminderOffsetMinutes dto, pay_reminderRecipientIds = recipients,
      pay_active = True, pay_version = 1, pay_archivedAt = None, pay_createdAt = env_now E\<rparr>"

definition payments_create_tx ::
    "env \<Rightarrow> uuid \<Rightarrow> family_context \<Rightarrow> create_payment_dto \<Rightarrow> timestamp \<Rightarrow> int \<Rightarrow> recurring_db \<Rightarrow> (payment, recurring_db) resp" where
  "payments_create_tx E userId ctx dto dueAt amt s = (
     case find_first (\<lambda>w. wallet_id w = cp_walletId dto \<and> wallet_familyId w = ctx_familyId ctx
         \<and> wallet_archivedAt w = None) (fin_wallets s) of
       None \<Rightarrow> (Inl (NotFound ''Wallet not found''), s)
     | Some w \<Rightarrow>
       if \<not> payment_canManage w userId (ctx_role ctx) then (Inl (NotFound ''Wallet not found''), s) else
       (case validateCategory (ctx_familyId ctx) (cp_categoryId dto) (cp_type dto) s of Inl e \<Rightarrow> (Inl e, s)
        | Inr _ \<Rightarrow> (case payment_recipients (ctx_familyId ctx) w userId (ctx_role ctx)
              (if_given (cp_reminderRecipientIds dto) [userId]) s of Inl e \<Rightarrow> (Inl e, s)
          | Inr recipients \<Rightarrow> (case fresh s of (i, s1) \<Rightarrow>
              let p = new_payment E i (ctx_familyId ctx) userId dto amt dueAt recipients in
              and_then (create_forecast i dueAt (reminderAt dueAt (cp_reminderOffsetMinutes dto))
                  (s1\<lparr>rec_payments := rec_payments s1 @ [p]\<rparr>)) (\<lambda>_ s2.
                (Inr p, audit_record E (payment_audit userId (ctx_familyId ctx) ''created'' i) s2))))))"

definition payments_create ::
    "env \<Rightarrow> uuid \<Rightarrow> create_payment_dto \<Rightarrow> recurring_db \<Rightarrow> (payment, recurring_db) resp" where
  "payments_create E userId dto s = (case requireMembership userId s of Inl e \<Rightarrow> (Inl e, s)
   | Inr ctx \<Rightarrow> (case futureDate E (cp_nextDueAt dto) of Inl e \<Rightarrow> (Inl e, s)
     | Inr dueAt \<Rightarrow> (case payment_amount (cp_amountMinor dto) of Inl e \<Rightarrow> (Inl e, s)
       | Inr amt \<Rightarrow> transaction s (payments_create_tx E userId ctx dto dueAt amt s))))"

definition payments_list :: "uuid \<Rightarrow> recurring_db \<Rightarrow> api_error + payment list" where
  "payments_list userId s = (case requireMembership userId s of Inl e \<Rightarrow> Inl e
   | Inr ctx \<Rightarrow> Inr (sort_key (\<lambda>p. (pay_nextDueAt p, pay_createdAt p)) (filter (\<lambda>p.
       pay_familyId p = ctx_familyId ctx \<and> pay_archivedAt p = None
       \<and> wallet_is (\<lambda>w. wallet_archivedAt w = None \<and> visibleTo userId (ctx_role ctx) w) s p) (rec_payments s))))"

definition payments_listArchived :: "uuid \<Rightarrow> recurring_db \<Rightarrow> api_error + payment list" where
  "payments_listArchived userId s = (case requireMembership userId s of Inl e \<Rightarrow> Inl e
   | Inr ctx \<Rightarrow> Inr (sort_key (\<lambda>p. (- the (pay_archivedAt p), pay_createdAt p)) (filter (\<lambda>p.
       pay_familyId p = ctx_familyId ctx \<and> pay_archivedAt p \<noteq> None
       \<and> wallet_is (\<lambda>w. wallet_archivedAt w = None \<and> visibleTo userId (ctx_role ctx) w) s p) (rec_payments s))))"

definition listForecasts :: "uuid \<Rightarrow> uuid \<Rightarrow> recurring_db \<Rightarrow> api_error + forecast list" where
  "listForecasts userId i s = (case findVisiblePayment userId i s of Inl e \<Rightarrow> Inl e
   | Inr p \<Rightarrow> Inr (take 50 (sort_key fc_dueAt
       (filter (\<lambda>f. fc_recurringPaymentId f = pay_id p) (rec_forecasts s)))))"

definition replace_forecast :: "uuid \<Rightarrow> timestamp \<Rightarrow> int option \<Rightarrow> recurring_db \<Rightarrow> (unit, recurring_db) resp" where
  "replace_forecast i dueAt offset s = create_forecast i dueAt (reminderAt dueAt offset) (delete_unsent i s)"

definition payments_update_tx ::
    "env \<Rightarrow> uuid \<Rightarrow> family_context \<Rightarrow> payment \<Rightarrow> update_payment_dto \<Rightarrow> timestamp \<Rightarrow> int option
       \<Rightarrow> recurring_db \<Rightarrow> (payment, recurring_db) resp" where
  "payments_update_tx E userId ctx current dto dueAt expectedVersion s = (
     case validateCategory (ctx_familyId ctx) (if_given (up_categoryId dto) None) (pay_type current) s of
       Inl e \<Rightarrow> (Inl e, s)
     | Inr _ \<Rightarrow>
    (case find_first (\<lambda>w. wallet_id w = pay_walletId current \<and> wallet_familyId w = ctx_familyId ctx
         \<and> wallet_archivedAt w = None) (fin_wallets s) of
       None \<Rightarrow> (Inl P2025, s)
     | Some w \<Rightarrow>
    (case (case up_reminderRecipientIds dto of None \<Rightarrow> Inr (pay_reminderRecipientIds current)
         | Some ids \<Rightarrow> payment_recipients (ctx_familyId ctx) w userId (ctx_role ctx) ids s) of
       Inl e \<Rightarrow> (Inl e, s)
     | Inr recipients \<Rightarrow>
     let offset = if_given (up_reminderOffsetMinutes dto) (pay_reminderOffsetMinutes current) in
    (case (case up_amountMinor dto of None \<Rightarrow> Inr None
         | Some a \<Rightarrow> (case payment_amount a of Inl e \<Rightarrow> Inl e | Inr n \<Rightarrow> Inr (Some n))) of
       Inl e \<Rightarrow> (Inl e, s)
     | Inr amt \<Rightarrow>
    (case update_payments (\<lambda>p. pay_id p = pay_id current
           \<and> pay_version p = or_version expectedVersion (pay_version current) \<and> pay_archivedAt p = None)
         (write_payment (ChangePayment dto amt dueAt offset recipients)) s of
       (count, s1) \<Rightarrow>
         if count \<noteq> 1 then (Inl (Conflict ''Recurring payment was changed concurrently''), s1) else
         and_then (if up_nextDueAt dto \<noteq> None \<or> up_reminderOffsetMinutes dto \<noteq> None
           then replace_forecast (pay_id current) dueAt offset s1 else (Inr (), s1)) (\<lambda>_ s2.
         case find_payment (pay_id current) s2 of None \<Rightarrow> (Inl P2025, s2)
         | Some updated \<Rightarrow> (Inr updated,
             audit_record E (payment_audit userId (ctx_familyId ctx) ''updated'' (pay_id current)) s2)))))))"

text \<open>The guard \<open>!Object.keys(dto).length\<close> never fires and is left out: with the compile target ES2023 the fields that a
  request does not give are own properties of the DTO with the value \<open>undefined\<close>.\<close>

definition payments_update ::
    "env \<Rightarrow> uuid \<Rightarrow> uuid \<Rightarrow> update_payment_dto \<Rightarrow> int option \<Rightarrow> recurring_db \<Rightarrow> (payment, recurring_db) resp" where
  "payments_update E userId i dto expectedVersion s = (case requireMembership userId s of Inl e \<Rightarrow> (Inl e, s)
   | Inr ctx \<Rightarrow> (case findManageablePayment userId i (ctx_familyId ctx) (ctx_role ctx)
         (\<lambda>p. pay_archivedAt p = None) s of Inl e \<Rightarrow> (Inl e, s)
     | Inr current \<Rightarrow>
       (case (case up_nextDueAt dto of Some (Some d) \<Rightarrow> futureDate E d | _ \<Rightarrow> Inr (pay_nextDueAt current)) of
          Inl e \<Rightarrow> (Inl e, s)
        | Inr dueAt \<Rightarrow> transaction s (payments_update_tx E userId ctx current dto dueAt expectedVersion s))))"

definition payments_archive ::
    "env \<Rightarrow> uuid \<Rightarrow> uuid \<Rightarrow> int option \<Rightarrow> recurring_db \<Rightarrow> (unit, recurring_db) resp" where
  "payments_archive E userId i expectedVersion s = (case requireMembership userId s of Inl e \<Rightarrow> (Inl e, s)
   | Inr ctx \<Rightarrow> (case findManageablePayment userId i (ctx_familyId ctx) (ctx_role ctx)
         (\<lambda>p. pay_archivedAt p = None) s of Inl e \<Rightarrow> (Inl e, s)
     | Inr p \<Rightarrow> transaction s (
         case update_payments (\<lambda>r. pay_id r = pay_id p \<and> pay_archivedAt r = None
               \<and> pay_version r = or_version expectedVersion (pay_version p))
             (write_payment (ArchivePayment (env_now E))) s of
           (count, s1) \<Rightarrow>
             if count \<noteq> 1 then (Inl (Conflict ''Recurring payment was changed concurrently''), s1) else
             (Inr (), audit_record E (payment_audit userId (ctx_familyId ctx) ''archived'' (pay_id p)) s1))))"

definition payments_restore ::
    "env \<Rightarrow> uuid \<Rightarrow> uuid \<Rightarrow> int option \<Rightarrow> recurring_db \<Rightarrow> (payment, recurring_db) resp" where
  "payments_restore E userId i expectedVersion s = (case requireMembership userId s of Inl e \<Rightarrow> (Inl e, s)
   | Inr ctx \<Rightarrow> (case findManageablePayment userId i (ctx_familyId ctx) (ctx_role ctx)
         (\<lambda>p. pay_archivedAt p \<noteq> None) s of Inl e \<Rightarrow> (Inl e, s)
     | Inr p \<Rightarrow> transaction s (
         case update_payments (\<lambda>r. pay_id r = pay_id p \<and> pay_archivedAt r \<noteq> None
               \<and> pay_version r = or_version expectedVersion (pay_version p)
               \<and> wallet_is (\<lambda>w. wallet_archivedAt w = None) s r)
             (write_payment RestorePayment) s of
           (count, s1) \<Rightarrow>
             if count \<noteq> 1 then (Inl (Conflict ''Recurring payment cannot be restored''), s1) else
             (case find_payment (pay_id p) s1 of None \<Rightarrow> (Inl P2025, s1)
              | Some restored \<Rightarrow> (Inr restored,
                  audit_record E (payment_audit userId (ctx_familyId ctx) ''restored'' (pay_id p)) s1)))))"

subsection \<open>The jobs\<close>

definition payment_due :: "timestamp \<Rightarrow> recurring_db \<Rightarrow> payment \<Rightarrow> bool" where
  "payment_due now s p \<longleftrightarrow> pay_active p \<and> pay_archivedAt p = None \<and> pay_nextDueAt p \<le> now
     \<and> wallet_is (\<lambda>w. wallet_archivedAt w = None) s p"

definition advance_tx :: "payment \<Rightarrow> timestamp \<Rightarrow> recurring_db \<Rightarrow> (bool, recurring_db) resp" where
  "advance_tx p next s = (
     case update_payments (\<lambda>r. pay_id r = pay_id p \<and> pay_active r \<and> pay_archivedAt r = None
           \<and> pay_nextDueAt r = pay_nextDueAt p \<and> pay_version r = pay_version p)
         (write_payment (AdvancePayment next)) s of
       (count, s1) \<Rightarrow> if count \<noteq> 1 then (Inr False, s1) else
         and_then (create_forecast (pay_id p) next (reminderAt next (pay_reminderOffsetMinutes p)) s1)
           (\<lambda>_ s2. (Inr True, s2)))"

text \<open>The loop over the due payments.  \<open>None\<close> is a run that never returns.\<close>

fun generate_from ::
    "timestamp \<Rightarrow> payment list \<Rightarrow> nat \<Rightarrow> recurring_db \<Rightarrow> (nat, recurring_db) resp option" where
  "generate_from now [] generated s = Some (Inr generated, s)"
| "generate_from now (p # ps) generated s =
    (case nextDueAt (pay_nextDueAt p) (pay_frequency p) (pay_interval p) now of None \<Rightarrow> None
     | Some next \<Rightarrow> (case transaction s (advance_tx p next s) of
         (Inl e, s1) \<Rightarrow> Some (Inl e, s1)
       | (Inr advanced, s1) \<Rightarrow> generate_from now ps (if advanced then generated + 1 else generated) s1))"

definition generateDueForecasts :: "timestamp \<Rightarrow> recurring_db \<Rightarrow> (nat, recurring_db) resp option" where
  "generateDueForecasts now s =
     generate_from now (take 100 (filter (payment_due now s) (rec_payments s))) 0 s"

definition reminder_text :: "(timestamp \<Rightarrow> string) \<Rightarrow> payment \<Rightarrow> forecast \<Rightarrow> string" where
  "reminder_text localeDate p f = ''The recurring '' @ (if pay_type p = KExpense then ''expense'' else ''operation'')
     @ '' is planned for '' @ localeDate (fc_dueAt f) @ ''.''"

fun notify_each :: "env \<Rightarrow> domain_notification list \<Rightarrow> 'a core_scheme \<Rightarrow> (unit, 'a core_scheme) resp" where
  "notify_each E [] s = (Inr (), s)"
| "notify_each E (n # ns) s = and_then (notifyUserInTransaction E n s) (\<lambda>_ s1. notify_each E ns s1)"

text \<open>A relation filter on the payment of a forecast.\<close>

definition payment_is :: "(payment \<Rightarrow> bool) \<Rightarrow> recurring_db \<Rightarrow> forecast \<Rightarrow> bool" where
  "payment_is P s f \<longleftrightarrow> (case find_payment (fc_recurringPaymentId f) s of None \<Rightarrow> False | Some p \<Rightarrow> P p)"

definition claim_reminder ::
    "env \<Rightarrow> (timestamp \<Rightarrow> string) \<Rightarrow> forecast \<Rightarrow> payment \<Rightarrow> recurring_db \<Rightarrow> (bool, recurring_db) resp" where
  "claim_reminder E localeDate f p s = (
     case update_many (\<lambda>r. fc_id r = fc_id f \<and> fc_reminderSentAt r = None
           \<and> payment_is (\<lambda>q. pay_active q \<and> pay_archivedAt q = None) s r)
         (\<lambda>r. r\<lparr>fc_reminderSentAt := Some (env_now E)\<rparr>) (rec_forecasts s) of
       (count, fs) \<Rightarrow> if count \<noteq> 1 then (Inr False, s\<lparr>rec_forecasts := fs\<rparr>) else
         and_then (notify_each E (map (\<lambda>userId. \<lparr>dn_userId = userId, dn_familyId = Some (pay_familyId p),
             dn_type = ''RECURRING_PAYMENT_REMINDER'', dn_title = pay_title p,
             dn_body = Some (reminder_text localeDate p f)\<rparr>) (pay_reminderRecipientIds p))
           (s\<lparr>rec_forecasts := fs\<rparr>)) (\<lambda>_ s1. (Inr True, s1)))"

fun deliver_reminders ::
    "env \<Rightarrow> (timestamp \<Rightarrow> string) \<Rightarrow> (forecast \<times> payment) list \<Rightarrow> nat \<Rightarrow> recurring_db \<Rightarrow> (nat, recurring_db) resp" where
  "deliver_reminders E localeDate [] delivered s = (Inr delivered, s)"
| "deliver_reminders E localeDate ((f, p) # rest) delivered s =
     and_then (transaction s (claim_reminder E localeDate f p s)) (\<lambda>claimed s1.
       deliver_reminders E localeDate rest
         (if claimed then delivered + length (pay_reminderRecipientIds p) else delivered) s1)"

definition due_forecasts :: "timestamp \<Rightarrow> recurring_db \<Rightarrow> (forecast \<times> payment) list" where
  "due_forecasts now s = take 100 (List.map_filter (\<lambda>f.
     if fc_reminderSentAt f = None \<and> fc_reminderAt f \<le> now then
       (case find_payment (fc_recurringPaymentId f) s of None \<Rightarrow> None
        | Some p \<Rightarrow> (if pay_active p \<and> pay_archivedAt p = None \<and> wallet_is (\<lambda>w. wallet_archivedAt w = None) s p
            then Some (f, p) else None))
     else None) (rec_forecasts s))"

definition deliverDueRecurringPaymentReminders ::
    "env \<Rightarrow> (timestamp \<Rightarrow> string) \<Rightarrow> recurring_db \<Rightarrow> (nat, recurring_db) resp" where
  "deliverDueRecurringPaymentReminders E localeDate s =
     deliver_reminders E localeDate (due_forecasts (env_now E) s) 0 s"

end
