(* ===== verification/RecurringSpec.thy ===== *)
theory RecurringSpec
  imports Recurring
begin

text \<open>
  What the recurring payments promise.  The loop of \<open>nextDueAt\<close> is an instance of the schedule
  interface for every interval the validation lets through, so the job that advances due
  payments returns; \<open>rec_evolves\<close> is what every operation keeps of the tables.
\<close>

subsection \<open>The schedule\<close>

definition valid_interval :: "int \<Rightarrow> bool" where
  "valid_interval n \<longleftrightarrow> 1 \<le> n \<and> n \<le> 120"

text \<open>The steps of the loop as one function of the frequency and the (natural) number of
  intervals beyond the first.\<close>

interpretation weekly: schedule "due_step WEEKLY (1 + int k)" for k
  by unfold_locales (simp add: due_step_def setUTCDate_increases)

interpretation monthly: schedule "due_step MONTHLY (1 + int k)" for k
  by unfold_locales (simp add: due_step_def setUTCMonth_increases)

text \<open>The schedule of a payment from its current date: the first date of the sequence after
  \<open>now\<close>, at least one step on.\<close>

definition advanced_to :: "payment \<Rightarrow> timestamp \<Rightarrow> timestamp \<Rightarrow> bool" where
  "advanced_to p now t \<longleftrightarrow> now < t \<and> (\<exists>k \<ge> 1. t = (due_step (pay_frequency p) (pay_interval p) ^^ k) (pay_nextDueAt p)
     \<and> (\<forall>j. 1 \<le> j \<and> j < k \<longrightarrow> (due_step (pay_frequency p) (pay_interval p) ^^ j) (pay_nextDueAt p) \<le> now))"

lemma nextDueAt_advances:
  assumes "valid_interval (pay_interval p)"
  obtains t where "nextDueAt (pay_nextDueAt p) (pay_frequency p) (pay_interval p) now = Some t" "advanced_to p now t"
proof -
  let ?f = "due_step (pay_frequency p) (pay_interval p)"
  define k where "k = nat (pay_interval p - 1)"
  have k: "pay_interval p = 1 + int k" using assms by (simp add: valid_interval_def k_def)
  have sched: "\<exists>t. step_past ?f now (?f (pay_nextDueAt p)) = Some t \<and> now < t
      \<and> (\<exists>j. t = (?f ^^ j) (?f (pay_nextDueAt p)) \<and> (\<forall>i < j. (?f ^^ i) (?f (pay_nextDueAt p)) \<le> now))"
  proof (cases "pay_frequency p")
    case WEEKLY
    then show ?thesis using weekly.step_past_terminates [of k now "?f (pay_nextDueAt p)"]
        weekly.step_past_first [of k now "?f (pay_nextDueAt p)"] unfolding k by fastforce
  next
    case MONTHLY
    then show ?thesis using monthly.step_past_terminates [of k now "?f (pay_nextDueAt p)"]
        monthly.step_past_first [of k now "?f (pay_nextDueAt p)"] unfolding k by fastforce
  qed
  then obtain t j where t: "step_past ?f now (?f (pay_nextDueAt p)) = Some t" "now < t"
      "t = (?f ^^ Suc j) (pay_nextDueAt p)" "\<forall>i < j. (?f ^^ Suc i) (pay_nextDueAt p) \<le> now"
    by (auto simp: funpow_swap1)
  have "(?f ^^ i) (pay_nextDueAt p) \<le> now" if "1 \<le> i" "i < Suc j" for i
    using that t(4) by (cases i) auto
  then have "advanced_to p now t"
    unfolding advanced_to_def using t by (intro conjI exI [of _ "Suc j"]) auto
  with t(1) show thesis by (intro that) (auto simp: nextDueAt_def)
qed

subsection \<open>The invariant\<close>

definition forecast_key :: "forecast \<Rightarrow> uuid \<times> timestamp" where
  "forecast_key f = (fc_recurringPaymentId f, fc_dueAt f)"

definition payment_ok :: "uuid \<Rightarrow> payment \<Rightarrow> bool" where
  "payment_ok n p \<longleftrightarrow> pay_id p < n \<and> valid_interval (pay_interval p)
     \<and> 0 < pay_amountMinor p \<and> pay_amountMinor p \<le> MAX_AMOUNT_MINOR
     \<and> pay_reminderRecipientIds p \<noteq> [] \<and> (pay_archivedAt p \<noteq> None \<longrightarrow> \<not> pay_active p)"

definition payments_ok :: "uuid \<Rightarrow> payment list \<Rightarrow> bool" where
  "payments_ok n ps \<longleftrightarrow> distinct (map pay_id ps) \<and> (\<forall>p \<in> set ps. payment_ok n p)"

definition forecasts_ok :: "uuid \<Rightarrow> payment list \<Rightarrow> forecast list \<Rightarrow> bool" where
  "forecasts_ok n ps fs \<longleftrightarrow> distinct (map fc_id fs) \<and> distinct (map forecast_key fs)
     \<and> (\<forall>f \<in> set fs. fc_id f < n \<and> fc_recurringPaymentId f \<in> pay_id ` set ps)"

definition recurring_ok :: "recurring_db \<Rightarrow> bool" where
  "recurring_ok s \<longleftrightarrow> payments_ok (core_nextId s) (rec_payments s)
     \<and> forecasts_ok (core_nextId s) (rec_payments s) (rec_forecasts s)"

text \<open>A payment keeps its identity, and a delivered reminder stays as it was delivered.\<close>

definition same_payment :: "payment \<Rightarrow> payment \<Rightarrow> bool" where
  "same_payment p q \<longleftrightarrow> pay_id q = pay_id p \<and> pay_familyId q = pay_familyId p
     \<and> pay_walletId q = pay_walletId p \<and> pay_createdById q = pay_createdById p
     \<and> pay_type q = pay_type p \<and> pay_version p \<le> pay_version q"

definition sent_kept :: "forecast list \<Rightarrow> forecast list \<Rightarrow> bool" where
  "sent_kept fs gs \<longleftrightarrow> (\<forall>f \<in> set fs. fc_reminderSentAt f \<noteq> None \<longrightarrow> f \<in> set gs)"

definition rec_evolves :: "recurring_db \<Rightarrow> recurring_db \<Rightarrow> bool" where
  "rec_evolves s t \<longleftrightarrow> (recurring_ok s \<longrightarrow> recurring_ok t
     \<and> rows_kept same_payment (rec_payments s) (rec_payments t)
     \<and> sent_kept (rec_forecasts s) (rec_forecasts t))"

lemma same_payment_refl [simp]: "same_payment p p"
  by (simp add: same_payment_def)

lemma same_payment_trans: "same_payment a b \<Longrightarrow> same_payment b c \<Longrightarrow> same_payment a c"
  by (simp add: same_payment_def)

lemma rec_evolves_refl: "rec_evolves s s"
  by (simp add: rec_evolves_def rows_kept_refl sent_kept_def)

lemma payments_kept_trans:
  "rows_kept same_payment a b \<Longrightarrow> rows_kept same_payment b c \<Longrightarrow> rows_kept same_payment a c"
  by (rule rows_kept_trans) (rule same_payment_trans)

lemma sent_kept_trans: "sent_kept a b \<Longrightarrow> sent_kept b c \<Longrightarrow> sent_kept a c"
  by (simp add: sent_kept_def)

lemma rec_evolves_trans: "rec_evolves a b \<Longrightarrow> rec_evolves b c \<Longrightarrow> rec_evolves a c"
  unfolding rec_evolves_def by (meson payments_kept_trans sent_kept_trans)

interpretation rec: evolution rec_evolves
  using rec_evolves_refl rec_evolves_trans by unfold_locales

lemma rec_evolves_okI: "(recurring_ok s \<Longrightarrow> rec_evolves s t) \<Longrightarrow> rec_evolves s t"
  by (auto simp: rec_evolves_def)

subsection \<open>Single changes\<close>

lemma recurring_ok_feed [simp]: "recurring_ok (s\<lparr>core_feed := d\<rparr>) = recurring_ok s"
  by (simp add: recurring_ok_def)

lemma rec_feed: "rec_evolves s t \<Longrightarrow> rec_evolves s (t\<lparr>core_feed := d\<rparr>)"
  by (simp add: rec_evolves_def)

lemma rec_audit: "rec_evolves s t \<Longrightarrow> rec_evolves s (audit_record E i t)"
  by (simp add: audit_record_def rec_feed)

lemma recurring_ids_mono:
  "payments_ok n ps \<Longrightarrow> n \<le> m \<Longrightarrow> payments_ok m ps"
  "forecasts_ok n ps fs \<Longrightarrow> n \<le> m \<Longrightarrow> forecasts_ok m ps fs"
  by (fastforce simp: payments_ok_def payment_ok_def forecasts_ok_def)+

lemma rec_bump: "core_nextId s \<le> n \<Longrightarrow> rec_evolves s (s\<lparr>core_nextId := n\<rparr>)"
  by (simp add: rec_evolves_def recurring_ok_def rows_kept_refl sent_kept_def)
    (blast intro: recurring_ids_mono)

lemma rec_add_payment:
  assumes "pay_id p = core_nextId s" "payment_ok n p" "core_nextId s < n"
  shows "rec_evolves s (s\<lparr>core_nextId := n, rec_payments := rec_payments s @ [p]\<rparr>)"
proof -
  have "payments_ok n (rec_payments s @ [p])" if "payments_ok (core_nextId s) (rec_payments s)"
    using assms that by (fastforce simp: payments_ok_def payment_ok_def)
  moreover have "forecasts_ok n (rec_payments s @ [p]) (rec_forecasts s)"
    if "forecasts_ok (core_nextId s) (rec_payments s) (rec_forecasts s)"
    using assms that by (fastforce simp: forecasts_ok_def)
  ultimately show ?thesis
    by (simp add: rec_evolves_def recurring_ok_def rows_kept_append sent_kept_def)
qed

lemma rec_change_payments:
  assumes "\<And>p. p \<in> set (rec_payments s) \<Longrightarrow> same_payment p (f p)"
    and "\<And>p n. p \<in> set (rec_payments s) \<Longrightarrow> payment_ok n p \<Longrightarrow> payment_ok n (f p)"
  shows "rec_evolves s (s\<lparr>rec_payments := map f (rec_payments s)\<rparr>)"
proof -
  have ids: "map pay_id (map f (rec_payments s)) = map pay_id (rec_payments s)"
    using assms(1) by (simp add: same_payment_def)
  then have "pay_id ` set (map f (rec_payments s)) = pay_id ` set (rec_payments s)"
    by (metis list.set_map)
  then have "recurring_ok (s\<lparr>rec_payments := map f (rec_payments s)\<rparr>)" if "recurring_ok s"
    using that assms(2) by (simp add: recurring_ok_def payments_ok_def forecasts_ok_def ids del: list.map_comp map_map)
  then show ?thesis
    using assms(1) by (simp add: rec_evolves_def sent_kept_def rows_kept_map)
qed

lemma rec_update_payments:
  assumes "\<And>p n. P p \<Longrightarrow> payment_ok n p \<Longrightarrow> payment_ok n (write_payment c p)"
  shows "rec_evolves s (snd (update_payments P (write_payment c) s))"
proof -
  have "same_payment p (write_payment c p)" for p
    by (simp add: same_payment_def write_payment_def split: payment_change.split)
  then show ?thesis
    using rec_change_payments [of s "\<lambda>p. if P p then write_payment c p else p"] assms
    by (simp add: update_payments_def)
qed

lemma rec_delete_unsent: "rec_evolves s (delete_unsent i s)"
  by (auto simp: rec_evolves_def delete_unsent_def recurring_ok_def forecasts_ok_def rows_kept_refl sent_kept_def
      intro: distinct_map_filter)

lemma rec_create_forecast:
  assumes "i \<in> pay_id ` set (rec_payments s)"
  shows "rec_evolves s (snd (create_forecast i dueAt remindAt s))"
proof (cases "\<exists>f \<in> set (rec_forecasts s). fc_recurringPaymentId f = i \<and> fc_dueAt f = dueAt")
  case True
  then show ?thesis by (simp add: create_forecast_def fresh_def rec_bump)
next
  case False
  let ?f = "\<lparr>fc_id = core_nextId s, fc_recurringPaymentId = i, fc_dueAt = dueAt, fc_reminderAt = remindAt,
      fc_reminderSentAt = None\<rparr>"
  have "forecasts_ok (Suc (core_nextId s)) (rec_payments s) (rec_forecasts s @ [?f])" if "recurring_ok s"
    using that False assms by (fastforce simp: recurring_ok_def forecasts_ok_def forecast_key_def)
  then show ?thesis using False
    by (auto simp: create_forecast_def fresh_def rec_evolves_def recurring_ok_def rows_kept_refl sent_kept_def
        intro: recurring_ids_mono(1))
qed

subsection \<open>The operations keep the invariant\<close>

definition create_payment_valid :: "create_payment_dto \<Rightarrow> bool" where
  "create_payment_valid d \<longleftrightarrow> amount_pattern (cp_amountMinor d)
     \<and> (case cp_interval d of None \<Rightarrow> True | Some n \<Rightarrow> valid_interval n)"

definition update_payment_valid :: "update_payment_dto \<Rightarrow> bool" where
  "update_payment_valid d \<longleftrightarrow> (case up_amountMinor d of None \<Rightarrow> True | Some a \<Rightarrow> amount_pattern a)
     \<and> (case up_interval d of None \<Rightarrow> True | Some n \<Rightarrow> valid_interval n)"

lemma payment_amount_bounds:
  "amount_pattern v \<Longrightarrow> payment_amount v = Inr n \<Longrightarrow> 0 < n \<and> n \<le> MAX_AMOUNT_MINOR"
  using amount_bounds [of v "[]" n]
  by (auto simp: payment_amount_def amount_def split: sum.splits if_splits)

lemma payment_recipients_Inr:
  "payment_recipients fam w userId role ids s = Inr rs \<Longrightarrow> rs = ids \<and> ids \<noteq> [] \<and> payment_canManage w userId role"
  by (auto simp: payment_recipients_def Let_def split: if_splits)

lemma create_forecast_evolves:
  assumes "rec_evolves s t" "recurring_ok s \<Longrightarrow> i \<in> pay_id ` set (rec_payments t)"
  shows "rec_evolves s (snd (create_forecast i dueAt remindAt t))"
  using assms rec_create_forecast rec_evolves_okI rec_evolves_trans by meson

lemma new_payment_id: "pay_id (new_payment E i fam userId dto amt dueAt rs) = i"
  by (simp add: new_payment_def)

lemma payments_create_evolves:
  assumes "create_payment_valid dto"
  shows "rec_evolves s (snd (payments_create E userId dto s))"
proof -
  have tx: "rec_evolves s (snd (payments_create_tx E userId ctx dto dueAt amt s))"
    if amt: "0 < amt" "amt \<le> MAX_AMOUNT_MINOR" for ctx dueAt amt
  proof -
    have add: "rec_evolves s (s\<lparr>core_nextId := core_nextId s + 1, rec_payments := rec_payments s
        @ [new_payment E (core_nextId s) fam userId dto amt dueAt rs]\<rparr>)" if "rs \<noteq> []" for fam rs
      using that assms amt
      by (intro rec_add_payment) (auto simp: new_payment_def payment_ok_def create_payment_valid_def
          valid_interval_def if_given_def split: option.splits)
    show ?thesis
      unfolding payments_create_tx_def fresh_def prod.case Let_def
      by (intro rec.guards rec.and_thenI create_forecast_evolves)
        (use add in \<open>auto dest!: payment_recipients_Inr intro!: rec_audit rec_evolves_refl simp: new_payment_id\<close>)
  qed
  show ?thesis
    unfolding payments_create_def
    by (intro rec.guards rec.transaction_stepI tx)
      (use assms in \<open>auto simp: create_payment_valid_def dest: payment_amount_bounds\<close>)
qed

lemma payments_archive_evolves: "rec_evolves s (snd (payments_archive E userId i ver s))"
  unfolding payments_archive_def
  by (intro rec.guards rec.write_tx rec_update_payments rec_audit)
    (auto simp: write_payment_def payment_ok_def)

lemma payments_restore_evolves: "rec_evolves s (snd (payments_restore E userId i ver s))"
  unfolding payments_restore_def
  by (intro rec.guards rec.write_read_tx rec_update_payments rec_audit)
    (auto simp: write_payment_def payment_ok_def)

lemma updated_payment_exists:
  assumes "update_payments (\<lambda>p. pay_id p = i \<and> Q p) (write_payment c) s = (1, s1)"
  shows "i \<in> pay_id ` set (rec_payments s1)"
proof -
  have s1: "s1 = s\<lparr>rec_payments := map (\<lambda>p. if pay_id p = i \<and> Q p then write_payment c p else p) (rec_payments s)\<rparr>"
    and n: "length (filter (\<lambda>p. pay_id p = i \<and> Q p) (rec_payments s)) = 1"
    using assms by (auto simp: update_payments_def)
  obtain p where "p \<in> set (rec_payments s)" "pay_id p = i" "Q p"
    using n length_filter_pos_iff [of "\<lambda>p. pay_id p = i \<and> Q p" "rec_payments s"] by auto
  then show ?thesis unfolding s1 image_iff
    by (intro bexI [of _ "write_payment c p"]) (auto simp: payment_rows.key_upd image_iff)
qed

lemma replace_forecast_evolves:
  assumes "rec_evolves s t" "i \<in> pay_id ` set (rec_payments t)"
  shows "rec_evolves s (snd (replace_forecast i dueAt offset t))"
  unfolding replace_forecast_def
  by (rule create_forecast_evolves [OF rec_evolves_trans [OF assms(1) rec_delete_unsent]])
    (use assms(2) in \<open>simp add: delete_unsent_def\<close>)

lemma given_amount:
  "(case v of None \<Rightarrow> Inr None | Some a \<Rightarrow> (case payment_amount a of Inl e \<Rightarrow> Inl e | Inr n \<Rightarrow> Inr (Some n))) = Inr amt
     \<Longrightarrow> (case v of None \<Rightarrow> True | Some a \<Rightarrow> amount_pattern a)
     \<Longrightarrow> case amt of None \<Rightarrow> True | Some n \<Rightarrow> 0 < n \<and> n \<le> MAX_AMOUNT_MINOR"
  by (auto split: option.splits sum.splits dest: payment_amount_bounds)

lemma change_payment_ok:
  assumes "update_payment_valid dto" "pay_archivedAt p = None" "payment_ok n p" "recipients \<noteq> []"
    and "case amt of None \<Rightarrow> True | Some n \<Rightarrow> 0 < n \<and> n \<le> MAX_AMOUNT_MINOR"
  shows "payment_ok n (write_payment (ChangePayment dto amt dueAt offset recipients) p)"
  using assms by (auto simp: payment_ok_def write_payment_def update_payment_valid_def if_given_def split: option.splits)

lemma payments_update_evolves:
  assumes dto: "update_payment_valid dto"
  shows "rec_evolves s (snd (payments_update E userId i dto ver s))"
proof -
  have tx: "rec_evolves s (snd (transaction s (payments_update_tx E userId ctx p dto dueAt ver s)))"
    if p: "p \<in> set (rec_payments s)" for ctx p dueAt
  proof -
    let ?P = "\<lambda>r. pay_id r = pay_id p \<and> pay_version r = or_version ver (pay_version p) \<and> pay_archivedAt r = None"
    have step: "rec_evolves s (snd (update_payments ?P (write_payment (ChangePayment dto amt dueAt offset rs)) s))"
      if rs: "(case up_reminderRecipientIds dto of None \<Rightarrow> Inr (pay_reminderRecipientIds p)
          | Some ids \<Rightarrow> payment_recipients fam w userId role ids s) = Inr rs"
        and amt: "case amt of None \<Rightarrow> True | Some n \<Rightarrow> 0 < n \<and> n \<le> MAX_AMOUNT_MINOR"
      for amt offset rs fam w role
    proof (rule rec_evolves_okI)
      assume ok: "recurring_ok s"
      have "rs \<noteq> []"
        using rs ok p by (auto simp: recurring_ok_def payments_ok_def payment_ok_def
            split: option.splits dest!: payment_recipients_Inr)
      then show ?thesis by (intro rec_update_payments change_payment_ok [OF dto]) (use amt in auto)
    qed
    have post: "rec_evolves s (snd (and_then (if b then replace_forecast (pay_id p) dueAt offset s1 else (Inr (), s1))
          (\<lambda>_ s2. case find_payment (pay_id p) s2 of None \<Rightarrow> (Inl P2025, s2)
            | Some u \<Rightarrow> (Inr u, audit_record E a s2))))"
      if s1: "rec_evolves s s1" "pay_id p \<in> pay_id ` set (rec_payments s1)" for b offset s1 a
      by (rule rec.and_thenI)
        (use s1 in \<open>auto intro!: replace_forecast_evolves rec_audit rec_evolves_refl split: option.split\<close>)
    have written: "rec_evolves s (snd (case update_payments ?P (write_payment (ChangePayment dto amt dueAt offset rs)) s of
          (count, s1) \<Rightarrow> if count \<noteq> 1 then (Inl e, s1) else
           and_then (if b then replace_forecast (pay_id p) dueAt offset s1 else (Inr (), s1))
          (\<lambda>_ s2. case find_payment (pay_id p) s2 of None \<Rightarrow> (Inl P2025, s2)
            | Some u \<Rightarrow> (Inr u, audit_record E a s2))))"
      if "rec_evolves s (snd (update_payments ?P (write_payment (ChangePayment dto amt dueAt offset rs)) s))"
      for b amt offset rs a e
    proof -
      obtain n s1 where u: "update_payments ?P (write_payment (ChangePayment dto amt dueAt offset rs)) s = (n, s1)"
        by fastforce
      show ?thesis
      proof (cases "n = 1")
        case True
        then show ?thesis using that u post [OF _ updated_payment_exists [OF u [unfolded True]]] by simp
      qed (use that u in simp)
    qed
    show ?thesis
      unfolding payments_update_tx_def Let_def
      by (intro rec.transaction_stepI rec.guards written step)
        (use dto in \<open>auto simp: update_payment_valid_def dest: given_amount\<close>)
  qed
  show ?thesis
    unfolding payments_update_def
    by (intro rec.guards tx) (auto simp: findManageablePayment_def split: option.splits if_splits dest: find_SomeD)
qed

subsection \<open>The jobs keep the invariant\<close>

lemma advance_tx_evolves: "rec_evolves s (snd (advance_tx p next s))"
proof -
  let ?P = "\<lambda>r. pay_id r = pay_id p \<and> pay_active r \<and> pay_archivedAt r = None
      \<and> pay_nextDueAt r = pay_nextDueAt p \<and> pay_version r = pay_version p"
  obtain n s1 where u: "update_payments ?P (write_payment (AdvancePayment next)) s = (n, s1)" by fastforce
  have s1: "rec_evolves s s1"
    using rec_update_payments [of ?P "AdvancePayment next" s] u by (simp add: payment_ok_def write_payment_def)
  show ?thesis
  proof (cases "n = 1")
    case True
    then show ?thesis
      using u create_forecast_evolves [OF s1, of "pay_id p"] updated_payment_exists [OF u [unfolded True]]
      by (simp add: advance_tx_def)
  qed (use u s1 in \<open>simp add: advance_tx_def\<close>)
qed

lemma generate_from_evolves: "generate_from now ps n s = Some (r, t) \<Longrightarrow> rec_evolves s t"
proof (induction ps arbitrary: n s)
  case (Cons p ps)
  then obtain nxt where nxt: "nextDueAt (pay_nextDueAt p) (pay_frequency p) (pay_interval p) now = Some nxt"
    by (auto split: option.splits)
  obtain x s1 where tx: "transaction s (advance_tx p nxt s) = (x, s1)" by fastforce
  then have s1: "rec_evolves s s1" using rec.transaction_stepI [OF advance_tx_evolves] by (metis snd_conv)
  show ?case
  proof (cases x)
    case (Inr b)
    then show ?thesis using Cons s1 nxt tx by (auto intro: rec_evolves_trans)
  qed (use Cons.prems s1 nxt tx in auto)
qed (simp add: rec_evolves_refl)

lemma generateDueForecasts_evolves: "generateDueForecasts now s = Some (r, t) \<Longrightarrow> rec_evolves s t"
  unfolding generateDueForecasts_def by (rule generate_from_evolves)

lemma notify_each_frame: "\<exists>d. snd (notify_each E ns s) = s\<lparr>core_feed := d\<rparr>"
proof (induction ns arbitrary: s)
  case Nil
  show ?case by (intro exI [of _ "core_feed s"]) simp
next
  case (Cons n ns)
  obtain d where d: "snd (notifyUserInTransaction E n s) = s\<lparr>core_feed := d\<rparr>"
    using notifyUserInTransaction_frame by blast
  obtain r u where u: "notifyUserInTransaction E n s = (r, u)" by fastforce
  obtain d' where "snd (notify_each E ns u) = u\<lparr>core_feed := d'\<rparr>" using Cons.IH by blast
  then show ?case using d u by (cases r) auto
qed

lemma notify_each_evolves:
  assumes "rec_evolves s t" shows "rec_evolves s (snd (notify_each E ns t))"
proof -
  obtain d where "snd (notify_each E ns t) = t\<lparr>core_feed := d\<rparr>" using notify_each_frame by blast
  then show ?thesis by (simp add: rec_feed [OF assms])
qed

lemma rec_change_forecasts:
  assumes g: "\<And>f. fc_id (g f) = fc_id f" "\<And>f. forecast_key (g f) = forecast_key f"
    "\<And>f. fc_reminderSentAt f \<noteq> None \<Longrightarrow> g f = f"
  shows "rec_evolves s (s\<lparr>rec_forecasts := map g (rec_forecasts s)\<rparr>)"
proof -
  have "sent_kept fs (map g fs)" for fs
    unfolding sent_kept_def set_map by (metis g(3) image_eqI)
  moreover have "forecasts_ok n ps (map g fs)" if "forecasts_ok n ps fs" for n ps fs
    using that g(2) [unfolded forecast_key_def] by (simp add: forecasts_ok_def comp_def g(1,2))
  ultimately show ?thesis by (simp add: rec_evolves_def recurring_ok_def rows_kept_refl)
qed

lemma rec_mark_sent:
  "rec_evolves s (s\<lparr>rec_forecasts := map (\<lambda>f. if fc_id f = i \<and> fc_reminderSentAt f = None \<and> Q f
     then f\<lparr>fc_reminderSentAt := Some now\<rparr> else f) (rec_forecasts s)\<rparr>)"
  by (rule rec_change_forecasts) (simp_all add: forecast_key_def)

lemma claim_reminder_evolves: "rec_evolves s (snd (claim_reminder E localeDate f p s))"
proof -
  let ?t = "s\<lparr>rec_forecasts := map (\<lambda>r. if fc_id r = fc_id f \<and> fc_reminderSentAt r = None
     \<and> payment_is (\<lambda>q. pay_active q \<and> pay_archivedAt q = None) s r
     then r\<lparr>fc_reminderSentAt := Some (env_now E)\<rparr> else r) (rec_forecasts s)\<rparr>"
  have t: "rec_evolves s ?t" by (rule rec_mark_sent)
  then have "rec_evolves s (snd (notify_each E ns ?t))" for ns by (rule notify_each_evolves)
  then show ?thesis using t by (simp add: claim_reminder_def update_many_def)
qed

lemma deliver_reminders_evolves: "rec_evolves s (snd (deliver_reminders E localeDate fs n s))"
proof (induction fs arbitrary: n s)
  case (Cons x fs)
  show ?case
    by (cases x) (auto intro!: rec.and_thenI rec.transaction_stepI claim_reminder_evolves Cons.IH)
qed (simp add: rec_evolves_refl)

subsection \<open>Sequences of calls\<close>

inductive recurring_step :: "recurring_db \<Rightarrow> recurring_db \<Rightarrow> bool" where
  create: "create_payment_valid dto \<Longrightarrow> recurring_step s (snd (payments_create E userId dto s))"
| update: "update_payment_valid dto \<Longrightarrow> recurring_step s (snd (payments_update E userId i dto ver s))"
| archive: "recurring_step s (snd (payments_archive E userId i ver s))"
| restore: "recurring_step s (snd (payments_restore E userId i ver s))"
| generate: "generateDueForecasts now s = Some (r, t) \<Longrightarrow> recurring_step s t"
| remind: "recurring_step s (snd (deliverDueRecurringPaymentReminders E localeDate s))"

definition recurring_reachable :: "recurring_db \<Rightarrow> recurring_db \<Rightarrow> bool" where
  "recurring_reachable = recurring_step\<^sup>*\<^sup>*"

lemma recurring_step_evolves: "recurring_step s t \<Longrightarrow> rec_evolves s t"
  by (induction rule: recurring_step.induct)
    (auto simp: deliverDueRecurringPaymentReminders_def intro: payments_create_evolves payments_update_evolves
      payments_archive_evolves payments_restore_evolves generateDueForecasts_evolves deliver_reminders_evolves)

lemma recurring_reachable_evolves: "recurring_reachable s t \<Longrightarrow> rec_evolves s t"
  unfolding recurring_reachable_def
  by (induction rule: rtranclp_induct) (auto intro: rec_evolves_refl rec_evolves_trans recurring_step_evolves)

subsection \<open>One payment advanced\<close>

definition advanced_in :: "payment \<Rightarrow> timestamp \<Rightarrow> recurring_db \<Rightarrow> bool" where
  "advanced_in p now s \<longleftrightarrow> (\<exists>q \<in> set (rec_payments s). pay_id q = pay_id p \<and> pay_version q = pay_version p + 1
     \<and> advanced_to p now (pay_nextDueAt q)
     \<and> (\<exists>f \<in> set (rec_forecasts s). fc_recurringPaymentId f = pay_id p \<and> fc_dueAt f = pay_nextDueAt q))"

definition others_kept :: "uuid set \<Rightarrow> recurring_db \<Rightarrow> recurring_db \<Rightarrow> bool" where
  "others_kept ids s t \<longleftrightarrow> (\<forall>p \<in> set (rec_payments s). pay_id p \<notin> ids \<longrightarrow> p \<in> set (rec_payments t))
     \<and> set (rec_forecasts s) \<subseteq> set (rec_forecasts t)"

lemma others_kept_trans: "others_kept A s t \<Longrightarrow> others_kept B t u \<Longrightarrow> others_kept (A \<union> B) s u"
  by (auto simp: others_kept_def)

lemma advanced_in_kept: "advanced_in p now s \<Longrightarrow> others_kept A s t \<Longrightarrow> pay_id p \<notin> A \<Longrightarrow> advanced_in p now t"
  unfolding advanced_in_def others_kept_def by (elim bexE conjE) (intro bexI conjI; auto)

lemma advance_tx_effect:
  assumes ok: "recurring_ok s" and p: "p \<in> set (rec_payments s)" "pay_active p" "pay_archivedAt p = None"
    and to: "advanced_to p now date"
  shows "case transaction s (advance_tx p date s) of
     (Inl e, t) \<Rightarrow> e = P2002
   | (Inr b, t) \<Rightarrow> b \<and> advanced_in p now t \<and> others_kept {pay_id p} s t"
proof -
  let ?P = "\<lambda>r. pay_id r = pay_id p \<and> pay_active r \<and> pay_archivedAt r = None
      \<and> pay_nextDueAt r = pay_nextDueAt p \<and> pay_version r = pay_version p"
  let ?w = "write_payment (AdvancePayment date)"
  let ?s1 = "s\<lparr>rec_payments := map (\<lambda>r. if ?P r then ?w r else r) (rec_payments s)\<rparr>"
  have one: "length (filter ?P (rec_payments s)) = 1"
    using ok p by (intro distinct_key_count_1 [where k = pay_id and c = "pay_id p"])
      (auto simp: recurring_ok_def payments_ok_def)
  have q: "?w p \<in> set (rec_payments ?s1)" using map_if_written [of p _ ?P] p by simp
  have rest: "r \<in> set (rec_payments ?s1)" if "r \<in> set (rec_payments s)" "pay_id r \<noteq> pay_id p" for r
    using map_if_kept [of r _ ?P] that by simp
  show ?thesis
  proof (cases "\<exists>f \<in> set (rec_forecasts s). fc_recurringPaymentId f = pay_id p \<and> fc_dueAt f = date")
    case True
    then show ?thesis using one by (simp add: advance_tx_def update_payments_def create_forecast_def fresh_def)
  next
    case False
    define t where "t = snd (create_forecast (pay_id p) date (reminderAt date (pay_reminderOffsetMinutes p)) ?s1)"
    have t: "rec_payments t = rec_payments ?s1" "set (rec_forecasts s) \<subseteq> set (rec_forecasts t)"
        "\<exists>f \<in> set (rec_forecasts t). fc_recurringPaymentId f = pay_id p \<and> fc_dueAt f = date"
      using False by (auto simp: t_def create_forecast_def fresh_def)
    have "transaction s (advance_tx p date s) = (Inr True, t)"
      using one False by (simp add: advance_tx_def update_payments_def create_forecast_def fresh_def t_def)
    moreover have "others_kept {pay_id p} s t"
      using rest t unfolding others_kept_def by simp
    moreover have "advanced_in p now t"
      unfolding advanced_in_def using q t to
      by (intro bexI [of _ "?w p"]) (simp_all add: write_payment_def)
    ultimately show ?thesis by simp
  qed
qed

lemma generate_from_effect:
  assumes "recurring_ok s" "distinct (map pay_id ps)"
    and "\<And>p. p \<in> set ps \<Longrightarrow> p \<in> set (rec_payments s) \<and> pay_active p \<and> pay_archivedAt p = None"
  shows "\<exists>r t. generate_from now ps n s = Some (r, t)
     \<and> (case r of Inl e \<Rightarrow> e = P2002
        | Inr m \<Rightarrow> m = n + length ps \<and> others_kept (pay_id ` set ps) s t \<and> (\<forall>p \<in> set ps. advanced_in p now t))"
  using assms
proof (induction ps arbitrary: n s)
  case (Cons p ps)
  have p: "p \<in> set (rec_payments s)" "pay_active p" "pay_archivedAt p = None" using Cons.prems(3) by auto
  then have "valid_interval (pay_interval p)"
    using Cons.prems(1) by (simp add: recurring_ok_def payments_ok_def payment_ok_def)
  from nextDueAt_advances [OF this, of now] obtain date where
    date: "nextDueAt (pay_nextDueAt p) (pay_frequency p) (pay_interval p) now = Some date" "advanced_to p now date" .
  obtain x s1 where tx: "transaction s (advance_tx p date s) = (x, s1)" by fastforce
  have ok1: "recurring_ok s1"
    using rec.transaction_stepI [OF advance_tx_evolves, of s p date] Cons.prems(1) tx by (simp add: rec_evolves_def)
  note eff = advance_tx_effect [OF Cons.prems(1) p date(2), unfolded tx]
  show ?case
  proof (cases x)
    case (Inl e)
    then show ?thesis using eff date tx by simp
  next
    case (Inr b)
    then have b: "b" "advanced_in p now s1" "others_kept {pay_id p} s s1" using eff by auto
    have "q \<in> set (rec_payments s1) \<and> pay_active q \<and> pay_archivedAt q = None" if "q \<in> set ps" for q
    proof -
      have "q \<in> set (rec_payments s)" "pay_active q \<and> pay_archivedAt q = None" using Cons.prems(3) that by auto
      moreover have "pay_id q \<notin> {pay_id p}" using Cons.prems(2) that by (auto simp: image_iff)
      ultimately show ?thesis using b(3) by (simp add: others_kept_def)
    qed
    with Cons.IH [OF ok1, of "Suc n"] Cons.prems(2) obtain r t where
      rt: "generate_from now ps (Suc n) s1 = Some (r, t)"
        "case r of Inl e \<Rightarrow> e = P2002
          | Inr m \<Rightarrow> m = Suc n + length ps \<and> others_kept (pay_id ` set ps) s1 t \<and> (\<forall>p \<in> set ps. advanced_in p now t)"
      by auto
    have run: "generate_from now (p # ps) n s = Some (r, t)" using date tx Inr b(1) rt(1) by simp
    have "pay_id p \<notin> pay_id ` set ps" using Cons.prems(2) by simp
    with rt(2) b have "case r of Inl e \<Rightarrow> e = P2002
        | Inr m \<Rightarrow> m = n + length (p # ps) \<and> others_kept (pay_id ` set (p # ps)) s t
           \<and> (\<forall>p \<in> set (p # ps). advanced_in p now t)"
      using others_kept_trans [OF b(3)] advanced_in_kept by (auto split: sum.splits)
    with run show ?thesis by blast
  qed
qed (auto simp: others_kept_def)

subsection \<open>A reminder that was sent\<close>

lemma replace_forecast_blocked:
  assumes "f \<in> set (rec_forecasts s)" "fc_recurringPaymentId f = i" "fc_reminderSentAt f \<noteq> None"
  shows "fst (replace_forecast i (fc_dueAt f) offset s) = Inl P2002"
  using assms by (auto simp: replace_forecast_def create_forecast_def delete_unsent_def fresh_def)

text \<open>\<open>update\<close> recreates the forecast of the unchanged date when only the offset changes, and runs
  into the unique key when the reminder of that date has been delivered.\<close>

lemma offset_frozen_after_reminder:
  assumes "recurring_ok s" "p \<in> set (rec_payments s)" "pay_id p = i"
    and "f \<in> set (rec_forecasts s)" "fc_recurringPaymentId f = i" "fc_dueAt f = pay_nextDueAt p"
    and sent: "fc_reminderSentAt f \<noteq> None"
    and dto: "up_reminderOffsetMinutes dto \<noteq> None" "up_nextDueAt dto = None"
  shows "isl (fst (payments_update E userId i dto ver s)) \<and> snd (payments_update E userId i dto ver s) = s"
proof -
  have only: "x = p" if "x \<in> set (rec_payments s)" "pay_id x = i" for x
    using distinct_key_eq [of pay_id "rec_payments s" x p] assms(1-3) that
    by (simp add: recurring_ok_def payments_ok_def)
  have "isl (fst (payments_update_tx E userId ctx p dto (pay_nextDueAt p) ver s))" for ctx
  proof -
    have "fst (replace_forecast (pay_id p) (pay_nextDueAt p) offset
        (snd (update_payments P (write_payment c) s))) = Inl P2002" for offset P c
      using replace_forecast_blocked [of f "snd (update_payments P (write_payment c) s)" i offset] assms
      by (simp add: update_payments_def)
    then have "isl (fst (and_then (replace_forecast (pay_id p) (pay_nextDueAt p) offset s1) g))"
      if "update_payments P (write_payment c) s = (n, s1)" for offset P c n s1 and g :: "unit \<Rightarrow> recurring_db \<Rightarrow> (payment, recurring_db) resp"
      using that by (intro isl_and_then) (metis snd_conv sum.disc(1))
    then show ?thesis
      using dto by (auto simp: payments_update_tx_def Let_def split: sum.split option.split prod.split)
  qed
  then have tx: "isl (fst (transaction s (payments_update_tx E userId ctx p dto (pay_nextDueAt p) ver s)))
      \<and> snd (transaction s (payments_update_tx E userId ctx p dto (pay_nextDueAt p) ver s)) = s" for ctx
    by (rule transaction_isl)
  show ?thesis
    using tx dto only
    by (auto simp: payments_update_def findManageablePayment_def split: sum.split option.split dest!: find_SomeD)
qed

subsection \<open>A sample database\<close>

definition gym :: payment where
  "gym = \<lparr>pay_id = 20, pay_familyId = 1, pay_walletId = 5, pay_categoryId = None, pay_createdById = 10,
     pay_type = KExpense, pay_title = ''Gym'', pay_note = None, pay_amountMinor = 4500,
     pay_frequency = WEEKLY, pay_interval = 1, pay_nextDueAt = 604800000, pay_reminderOffsetMinutes = Some 60,
     pay_reminderRecipientIds = [10], pay_active = True, pay_version = 1, pay_archivedAt = None,
     pay_createdAt = 0\<rparr>"

definition gym_forecast :: forecast where
  "gym_forecast = \<lparr>fc_id = 21, fc_recurringPaymentId = 20, fc_dueAt = 604800000, fc_reminderAt = 601200000,
     fc_reminderSentAt = Some 601200000\<rparr>"

definition gym_db :: recurring_db where
  "gym_db = \<lparr>core_users = [], core_families = [], core_members = [], core_preferences = [], core_connections = [],
     core_devices = [], core_feed = empty_feed, core_nextId = 100, fin_wallets = [
       \<lparr>wallet_id = 5, wallet_familyId = 1, wallet_ownerId = Some 10, wallet_createdById = 10, wallet_type = WPersonal,
        wallet_visibility = WvPrivate, wallet_name = ''Cash'', wallet_currency = ''RUB'', wallet_version = 1,
        wallet_archivedAt = None, wallet_createdAt = 0\<rparr>],
     fin_categories = [], fin_budgets = [],
     fin_transactions = [], fin_commands = [], fin_goals = [], fin_contributions = [],
     rec_payments = [gym], rec_forecasts = [gym_forecast]\<rparr>"

lemmas gym_defs = gym_db_def gym_def gym_forecast_def

lemma gym_db_ok: "recurring_ok gym_db"
  by (simp add: gym_defs recurring_ok_def payments_ok_def payment_ok_def forecasts_ok_def forecast_key_def
      valid_interval_def MAX_AMOUNT_MINOR_def)

subsection \<open>The properties\<close>

text \<open>C12.  Over every sequence of service calls (creation, update, archiving, restoring) and runs of
  the two jobs, the recurring payments stay well formed: unique payments with intervals of 1 to 120,
  positive amounts that fit a \<open>BIGINT\<close> and at least one recipient, archived payments inactive, and one
  forecast per payment and date.  Every payment keeps its identity with a version that never goes back, and
  a forecast whose reminder was delivered is never changed or removed, so that it is not delivered twice.\<close>

theorem recurring_invariant:
  assumes "recurring_ok s" "recurring_reachable s t"
  shows "recurring_ok t \<and> (\<forall>p \<in> set (rec_payments s). \<exists>q \<in> set (rec_payments t). same_payment p q)
     \<and> (\<forall>f \<in> set (rec_forecasts s). fc_reminderSentAt f \<noteq> None \<longrightarrow> f \<in> set (rec_forecasts t))"
  using recurring_reachable_evolves [OF assms(2)] assms(1)
  by (auto simp: rec_evolves_def sent_kept_def dest: rows_kept_rowD)

theorem recurring_invariant_witness:
  "gym_forecast \<in> set (rec_forecasts (snd (deliverDueRecurringPaymentReminders moscow_env (\<lambda>_. []) gym_db)))"
proof -
  have "recurring_reachable gym_db (snd (deliverDueRecurringPaymentReminders moscow_env (\<lambda>_. []) gym_db))"
    unfolding recurring_reachable_def by (intro r_into_rtranclp recurring_step.remind)
  from recurring_invariant [OF gym_db_ok this] show ?thesis by (simp add: gym_defs)
qed

text \<open> The job that advances due payments returns on every well-formed database: the loop of
  \<open>nextDueAt\<close> ends for every interval the validation lets through.  Unless the date of a payment collides
  with an existing forecast (Prisma's unique-key error), it counts every due payment of the batch of
  100, moves each to the first date of its schedule after \<open>now\<close> with one more version and records a
  forecast for it, and leaves all other payments and all forecasts in place.\<close>

theorem generation_advances:
  assumes "recurring_ok s"
  shows "\<exists>r t. generateDueForecasts now s = Some (r, t) \<and> (case r of Inl e \<Rightarrow> e = P2002
     | Inr n \<Rightarrow> (let batch = take 100 (filter (payment_due now s) (rec_payments s)) in
         n = length batch \<and> others_kept (pay_id ` set batch) s t \<and> (\<forall>p \<in> set batch. advanced_in p now t)))"
proof -
  let ?ps = "take 100 (filter (payment_due now s) (rec_payments s))"
  have "distinct (map pay_id ?ps)"
    using assms by (simp add: recurring_ok_def payments_ok_def take_map [symmetric] distinct_map_filter)
  moreover have "p \<in> set (rec_payments s) \<and> pay_active p \<and> pay_archivedAt p = None" if "p \<in> set ?ps" for p
    using that by (auto simp: payment_due_def dest: in_set_takeD)
  ultimately have "\<exists>r t. generate_from now ?ps 0 s = Some (r, t) \<and> (case r of Inl e \<Rightarrow> e = P2002
      | Inr m \<Rightarrow> m = 0 + length ?ps \<and> others_kept (pay_id ` set ?ps) s t \<and> (\<forall>p \<in> set ?ps. advanced_in p now t))"
    by (rule generate_from_effect [OF assms])
  then show ?thesis unfolding generateDueForecasts_def Let_def add_0 .
qed

theorem generation_advances_witness:
  "\<exists>n t. generateDueForecasts 604800000 gym_db = Some (Inr n, t) \<and> n = 1 \<and> advanced_in gym 604800000 t"
proof -
  have batch: "take 100 (filter (payment_due 604800000 gym_db) (rec_payments gym_db)) = [gym]"
    by (simp add: gym_defs payment_due_def wallet_is_def payment_wallet_def find_wallet_def)
  have "nextDueAt (pay_nextDueAt gym) (pay_frequency gym) (pay_interval gym) 604800000 = Some 1209600000"
    by (simp add: gym_def nextDueAt_def due_step_def setUTCDate_add ms_per_day_def step_past.simps)
  then have "\<exists>t. generateDueForecasts 604800000 gym_db = Some (Inr 1, t)"
    unfolding generateDueForecasts_def batch
    by (simp add: gym_defs advance_tx_def update_payments_def create_forecast_def fresh_def)
  then obtain t where t: "generateDueForecasts 604800000 gym_db = Some (Inr 1, t)" by blast
  from generation_advances [OF gym_db_ok, of 604800000] show ?thesis
    unfolding t batch by (simp add: Let_def)
qed

end
