(* ===== verification/Wishes.thy ===== *)
theory Wishes
  imports Outbox
begin

text \<open>
  \<open>modules/family-wishes/family-wishes.service.ts\<close>: wishes that one partner addresses to the
  other, who accepts or rejects them and later confirms that they came true.

  The operations are followed by the life cycle they implement, an abstract state machine over
  the phases of a wish, and the proof that every operation is a step of it.  The titles of
  notifications are Russian in the source and are rendered in English here.
\<close>

subsection \<open>Rows, requests and responses\<close>

datatype wish_implementation = NotRealized | Realized
datatype wish_approval = WishPending | WishAccepted | WishRejected
datatype wish_confirmation = ConfNotRequested | ConfPending | ConfAccepted | ConfRejected

record wish =
  wish_id :: uuid
  wish_familyId :: uuid
  wish_createdById :: uuid
  wish_partnerId :: uuid
  wish_title :: string
  wish_description :: "string option"
  wish_implementationStatus :: wish_implementation
  wish_partnerApprovalStatus :: wish_approval
  wish_realizationConfirmationStatus :: wish_confirmation
  wish_realizedById :: "uuid option"
  wish_realizedAt :: "timestamp option"
  wish_deletedAt :: "timestamp option"
  wish_version :: int
  wish_createdAt :: timestamp

record wish_db = core +
  wdb_wishes :: "wish list"

record create_wish_dto =
  cwi_title :: string
  cwi_description :: "string option"
  cwi_partnerId :: uuid

text \<open>\<open>description\<close> may be absent or an explicit \<open>null\<close>.\<close>

record update_wish_dto =
  uwi_title :: "string option"
  uwi_description :: "string option option"

record wishes_query = page_query +
  wq_implementationStatus :: "wish_implementation option"
  wq_partnerApprovalStatus :: "wish_approval option"
  wq_createdFrom :: "timestamp option"
  wq_createdTo :: "timestamp option"

record wish_user =
  wu_id :: uuid
  wu_firstName :: string
  wu_lastName :: string

record wish_response =
  wr_wish :: wish
  wr_createdBy :: "wish_user option"
  wr_partner :: "wish_user option"
  wr_realizedBy :: "wish_user option"

definition wish_user_of :: "'a core_scheme \<Rightarrow> uuid \<Rightarrow> wish_user option" where
  "wish_user_of s i = map_option (\<lambda>u. \<lparr>wu_id = user_id u, wu_firstName = user_firstName u,
     wu_lastName = user_lastName u\<rparr>) (find_user i s)"

definition wish_fromEntity :: "'a core_scheme \<Rightarrow> wish \<Rightarrow> wish_response" where
  "wish_fromEntity s w = \<lparr>wr_wish = w, wr_createdBy = wish_user_of s (wish_createdById w),
     wr_partner = wish_user_of s (wish_partnerId w),
     wr_realizedBy = Option.bind (wish_realizedById w) (wish_user_of s)\<rparr>"

subsection \<open>Operations\<close>

definition resolveFamilyPartner :: "uuid \<Rightarrow> uuid \<Rightarrow> 'a core_scheme \<Rightarrow> api_error + uuid" where
  "resolveFamilyPartner familyId identifier s = (case find_first (\<lambda>m. member_familyId m = familyId
       \<and> member_role m = PARTNER
       \<and> (case find_family (member_familyId m) s of None \<Rightarrow> False | Some f \<Rightarrow> family_status f = FamilyActive)
       \<and> (member_userId m = identifier \<or> member_id m = identifier)) (core_members s) of
     None \<Rightarrow> Inl (Forbidden ''The wish partner must be an active partner in your family'')
   | Some m \<Rightarrow> Inr (member_userId m))"

definition find_wish :: "uuid \<Rightarrow> wish_db \<Rightarrow> wish option" where
  "find_wish i s = find_first (\<lambda>w. wish_id w = i) (wdb_wishes s)"

definition find_open_wish :: "uuid \<Rightarrow> uuid \<Rightarrow> wish_db \<Rightarrow> wish option" where
  "find_open_wish i familyId s = find_first (\<lambda>w. wish_id w = i \<and> wish_familyId w = familyId
     \<and> wish_deletedAt w = None) (wdb_wishes s)"

definition update_wishes :: "(wish \<Rightarrow> bool) \<Rightarrow> (wish \<Rightarrow> wish) \<Rightarrow> wish_db \<Rightarrow> nat \<times> wish_db" where
  "update_wishes P f s = (fst (update_many P f (wdb_wishes s)),
     s\<lparr>wdb_wishes := snd (update_many P f (wdb_wishes s))\<rparr>)"

definition new_wish :: "env \<Rightarrow> uuid \<Rightarrow> uuid \<Rightarrow> uuid \<Rightarrow> uuid \<Rightarrow> create_wish_dto \<Rightarrow> wish" where
  "new_wish E i familyId userId partnerId dto = \<lparr>wish_id = i, wish_familyId = familyId,
     wish_createdById = userId, wish_partnerId = partnerId, wish_title = cwi_title dto,
     wish_description = cwi_description dto, wish_implementationStatus = NotRealized,
     wish_partnerApprovalStatus = WishPending, wish_realizationConfirmationStatus = ConfNotRequested,
     wish_realizedById = None, wish_realizedAt = None, wish_deletedAt = None, wish_version = 1,
     wish_createdAt = env_now E\<rparr>"

definition wish_notice :: "uuid \<Rightarrow> uuid \<Rightarrow> string \<Rightarrow> string \<Rightarrow> string \<Rightarrow> domain_notification" where
  "wish_notice userId familyId ty title body = \<lparr>dn_userId = userId, dn_familyId = Some familyId,
     dn_type = ty, dn_title = title, dn_body = Some body\<rparr>"

definition wishes_create :: "env \<Rightarrow> uuid \<Rightarrow> create_wish_dto \<Rightarrow> wish_db \<Rightarrow> (wish_response, wish_db) resp" where
  "wishes_create E userId dto s = (case requirePartner userId s of Inl e \<Rightarrow> (Inl e, s)
   | Inr ctx \<Rightarrow>
     if cwi_partnerId dto = userId then (Inl (BadRequest ''A wish partner must be another user''), s) else
     (case resolveFamilyPartner (ctx_familyId ctx) (cwi_partnerId dto) s of Inl e \<Rightarrow> (Inl e, s)
      | Inr partnerUserId \<Rightarrow>
        if partnerUserId = userId then (Inl (BadRequest ''A wish partner must be another user''), s) else
        transaction s (case fresh s of (i, s1) \<Rightarrow>
          let created = new_wish E i (ctx_familyId ctx) userId partnerUserId dto in
          and_then (notifyUserInTransaction E (wish_notice partnerUserId (ctx_familyId ctx)
               ''FAMILY_WISH_CREATED'' ''A new family wish'' (cwi_title dto))
             (s1\<lparr>wdb_wishes := wdb_wishes s1 @ [created]\<rparr>))
           (\<lambda>_ s2. (Inr (wish_fromEntity s2 created), s2)))))"

definition wishes_findAll ::
    "uuid \<Rightarrow> wishes_query \<Rightarrow> wish_db \<Rightarrow> api_error + page_meta \<times> wish_response list" where
  "wishes_findAll userId q s = (case requirePartner userId s of Inl e \<Rightarrow> Inl e
   | Inr ctx \<Rightarrow>
     if (case (wq_createdFrom q, wq_createdTo q) of (Some a, Some b) \<Rightarrow> a \<ge> b | _ \<Rightarrow> False)
     then Inl (BadRequest ''createdFrom must be earlier than createdTo'') else
     let matching = filter (\<lambda>w. wish_familyId w = ctx_familyId ctx \<and> wish_deletedAt w = None
           \<and> (case wq_implementationStatus q of None \<Rightarrow> True | Some x \<Rightarrow> wish_implementationStatus w = x)
           \<and> (case wq_partnerApprovalStatus q of None \<Rightarrow> True | Some x \<Rightarrow> wish_partnerApprovalStatus w = x)
           \<and> (case wq_createdFrom q of None \<Rightarrow> True | Some t \<Rightarrow> wish_createdAt w \<ge> t)
           \<and> (case wq_createdTo q of None \<Rightarrow> True | Some t \<Rightarrow> wish_createdAt w < t)) (wdb_wishes s)
     in Inr (paginationMeta (length matching) (pq_page q) (pq_limit q),
          map (wish_fromEntity s) (page_of (pq_page q) (pq_limit q)
            (rev (sort_key (\<lambda>w. (wish_createdAt w, wish_id w)) matching)))))"

definition requireWish :: "uuid \<Rightarrow> uuid \<Rightarrow> wish_db \<Rightarrow> api_error + wish" where
  "requireWish userId i s = (case requirePartner userId s of Inl e \<Rightarrow> Inl e
   | Inr ctx \<Rightarrow> (case find_open_wish i (ctx_familyId ctx) s of
       None \<Rightarrow> Inl (NotFound ''Family wish not found'') | Some w \<Rightarrow> Inr w))"

definition wishes_findOne :: "uuid \<Rightarrow> uuid \<Rightarrow> wish_db \<Rightarrow> api_error + wish_response" where
  "wishes_findOne userId i s = (case requireWish userId i s of Inl e \<Rightarrow> Inl e
   | Inr w \<Rightarrow> Inr (wish_fromEntity s w))"

text \<open>The guarded write shared by \<open>update\<close> and \<open>transition\<close>: count and state.\<close>

definition write_open_wish ::
    "uuid \<Rightarrow> uuid \<Rightarrow> int option \<Rightarrow> (wish \<Rightarrow> wish) \<Rightarrow> wish_db \<Rightarrow> nat \<times> wish_db" where
  "write_open_wish i familyId expectedVersion f s = update_wishes (\<lambda>w. wish_id w = i
     \<and> wish_familyId w = familyId \<and> wish_deletedAt w = None \<and> version_is expectedVersion (wish_version w))
     (\<lambda>w. (f w)\<lparr>wish_version := wish_version w + 1\<rparr>) s"

definition wishes_update ::
    "uuid \<Rightarrow> uuid \<Rightarrow> update_wish_dto \<Rightarrow> int option \<Rightarrow> wish_db \<Rightarrow> (wish_response, wish_db) resp" where
  "wishes_update userId i dto expectedVersion s = (
     if uwi_title dto = None \<and> uwi_description dto = None
     then (Inl (BadRequest ''At least one field must be provided''), s) else
     case requirePartner userId s of Inl e \<Rightarrow> (Inl e, s)
   | Inr ctx \<Rightarrow> transaction s (case find_open_wish i (ctx_familyId ctx) s of
       None \<Rightarrow> (Inl (NotFound ''Family wish not found''), s)
     | Some current \<Rightarrow>
       if wish_createdById current \<noteq> userId
       then (Inl (Forbidden ''Only the wish creator can update it''), s) else
       (case write_open_wish i (ctx_familyId ctx) expectedVersion (\<lambda>w. w\<lparr>
             wish_title := (case uwi_title dto of None \<Rightarrow> wish_title w | Some t \<Rightarrow> t),
             wish_description := (case uwi_description dto of None \<Rightarrow> wish_description w | Some d \<Rightarrow> d)\<rparr>) s of
          (count, s1) \<Rightarrow>
            if count \<noteq> 1 then (Inl (write_error expectedVersion (NotFound ''Family wish not found'')), s1)
            else (case find_wish i s1 of None \<Rightarrow> (Inl P2025, s1)
              | Some w \<Rightarrow> (Inr (wish_fromEntity s1 w), s1)))))"

definition wishes_remove :: "env \<Rightarrow> uuid \<Rightarrow> uuid \<Rightarrow> wish_db \<Rightarrow> (unit, wish_db) resp" where
  "wishes_remove E userId i s = (case requirePartner userId s of Inl e \<Rightarrow> (Inl e, s)
   | Inr ctx \<Rightarrow> (case update_wishes (\<lambda>w. wish_id w = i \<and> wish_familyId w = ctx_familyId ctx
         \<and> wish_createdById w = userId \<and> wish_deletedAt w = None)
         (\<lambda>w. w\<lparr>wish_deletedAt := Some (env_now E), wish_version := wish_version w + 1\<rparr>) s of
       (count, s1) \<Rightarrow> if count \<noteq> 1 then (Inl (NotFound ''Family wish not found''), s1) else (Inr (), s1)))"

definition wish_transition ::
    "env \<Rightarrow> uuid \<Rightarrow> uuid \<Rightarrow> int option \<Rightarrow> (wish \<Rightarrow> api_error + (wish \<Rightarrow> wish)) \<Rightarrow> string
       \<Rightarrow> wish_db \<Rightarrow> (wish_response, wish_db) resp" where
  "wish_transition E userId i expectedVersion decide notificationType s = (
     case requirePartner userId s of Inl e \<Rightarrow> (Inl e, s)
   | Inr ctx \<Rightarrow> transaction s (case find_open_wish i (ctx_familyId ctx) s of
       None \<Rightarrow> (Inl (NotFound ''Family wish not found''), s)
     | Some current \<Rightarrow> (case decide current of Inl e \<Rightarrow> (Inl e, s)
       | Inr f \<Rightarrow> (case write_open_wish i (ctx_familyId ctx) expectedVersion f s of (count, s1) \<Rightarrow>
           if count \<noteq> 1 then (Inl (write_error expectedVersion (NotFound ''Family wish not found'')), s1)
           else (case find_wish i s1 of None \<Rightarrow> (Inl P2025, s1)
             | Some updated \<Rightarrow>
               let recipientId = (if wish_createdById updated = userId then wish_partnerId updated
                     else wish_createdById updated) in
               and_then (notifyUserInTransaction E (wish_notice recipientId (ctx_familyId ctx)
                   notificationType ''A family wish changed'' (wish_title updated)) s1)
                 (\<lambda>_ s2. (Inr (wish_fromEntity s2 updated), s2)))))))"

datatype wish_action = AcceptWish | RejectWish

definition decide_wish :: "uuid \<Rightarrow> wish_action \<Rightarrow> wish \<Rightarrow> api_error + (wish \<Rightarrow> wish)" where
  "decide_wish userId action w = (
     if wish_partnerId w \<noteq> userId then Inl (Forbidden ''Only the assigned partner can respond'') else
     if wish_partnerApprovalStatus w \<noteq> WishPending then Inl (Conflict ''The wish was already answered'') else
     Inr (case action of
       AcceptWish \<Rightarrow> (\<lambda>r. r\<lparr>wish_partnerApprovalStatus := WishAccepted, wish_implementationStatus := NotRealized\<rparr>)
     | RejectWish \<Rightarrow> (\<lambda>r. r\<lparr>wish_partnerApprovalStatus := WishRejected\<rparr>)))"

definition respondToWish ::
    "env \<Rightarrow> uuid \<Rightarrow> uuid \<Rightarrow> wish_action \<Rightarrow> int option \<Rightarrow> wish_db \<Rightarrow> (wish_response, wish_db) resp" where
  "respondToWish E userId i action expectedVersion s =
     wish_transition E userId i expectedVersion (decide_wish userId action)
       (case action of AcceptWish \<Rightarrow> ''FAMILY_WISH_ACCEPTED'' | RejectWish \<Rightarrow> ''FAMILY_WISH_REJECTED'') s"

definition wishes_accept :: "env \<Rightarrow> uuid \<Rightarrow> uuid \<Rightarrow> int option \<Rightarrow> wish_db \<Rightarrow> (wish_response, wish_db) resp" where
  "wishes_accept E userId i expectedVersion s = respondToWish E userId i AcceptWish expectedVersion s"

definition wishes_reject :: "env \<Rightarrow> uuid \<Rightarrow> uuid \<Rightarrow> int option \<Rightarrow> wish_db \<Rightarrow> (wish_response, wish_db) resp" where
  "wishes_reject E userId i expectedVersion s = respondToWish E userId i RejectWish expectedVersion s"

definition decide_realized :: "env \<Rightarrow> uuid \<Rightarrow> wish \<Rightarrow> api_error + (wish \<Rightarrow> wish)" where
  "decide_realized E userId w = (
     if wish_partnerApprovalStatus w \<noteq> WishAccepted \<or> wish_implementationStatus w \<noteq> NotRealized
     then Inl (Conflict ''Only an accepted, unrealized wish can be marked realized'') else
     if wish_createdById w \<noteq> userId \<and> wish_partnerId w \<noteq> userId
     then Inl (Forbidden ''Only a wish partner can mark it realized'') else
     Inr (\<lambda>r. r\<lparr>wish_implementationStatus := Realized, wish_realizationConfirmationStatus := ConfPending,
       wish_realizedById := Some userId, wish_realizedAt := Some (env_now E)\<rparr>))"

definition markRealized :: "env \<Rightarrow> uuid \<Rightarrow> uuid \<Rightarrow> int option \<Rightarrow> wish_db \<Rightarrow> (wish_response, wish_db) resp" where
  "markRealized E userId i expectedVersion s =
     wish_transition E userId i expectedVersion (decide_realized E userId) ''FAMILY_WISH_MARKED_REALIZED'' s"

definition decide_realization :: "uuid \<Rightarrow> bool \<Rightarrow> wish \<Rightarrow> api_error + (wish \<Rightarrow> wish)" where
  "decide_realization userId accepted w = (
     if wish_partnerId w \<noteq> userId then Inl (Forbidden ''Only the assigned partner can confirm realization'') else
     if wish_realizationConfirmationStatus w \<noteq> ConfPending
     then Inl (Conflict ''Realization is not awaiting confirmation'') else
     Inr (if accepted then (\<lambda>r. r\<lparr>wish_realizationConfirmationStatus := ConfAccepted\<rparr>)
       else (\<lambda>r. r\<lparr>wish_implementationStatus := NotRealized, wish_realizationConfirmationStatus := ConfRejected\<rparr>)))"

definition respondToRealization ::
    "env \<Rightarrow> uuid \<Rightarrow> uuid \<Rightarrow> bool \<Rightarrow> int option \<Rightarrow> wish_db \<Rightarrow> (wish_response, wish_db) resp" where
  "respondToRealization E userId i accepted expectedVersion s =
     wish_transition E userId i expectedVersion (decide_realization userId accepted)
       (if accepted then ''FAMILY_WISH_REALIZATION_CONFIRMED'' else ''FAMILY_WISH_REALIZATION_REJECTED'') s"

definition confirmRealization :: "env \<Rightarrow> uuid \<Rightarrow> uuid \<Rightarrow> int option \<Rightarrow> wish_db \<Rightarrow> (wish_response, wish_db) resp" where
  "confirmRealization E userId i expectedVersion s = respondToRealization E userId i True expectedVersion s"

definition rejectRealization :: "env \<Rightarrow> uuid \<Rightarrow> uuid \<Rightarrow> int option \<Rightarrow> wish_db \<Rightarrow> (wish_response, wish_db) resp" where
  "rejectRealization E userId i expectedVersion s = respondToRealization E userId i False expectedVersion s"

subsection \<open>The life cycle\<close>

text \<open>The phases of a wish: proposed, declined, agreed, claimed to have come true, disputed (a claim was
  refused) and fulfilled.  The other combinations of the three status columns do not occur.\<close>

datatype wish_phase = Proposed | Declined | Agreed | Claimed | Disputed | Fulfilled

definition phase_of :: "wish \<Rightarrow> wish_phase option" where
  "phase_of w = (case (wish_partnerApprovalStatus w, wish_implementationStatus w,
       wish_realizationConfirmationStatus w) of
     (WishPending, NotRealized, ConfNotRequested) \<Rightarrow> Some Proposed
   | (WishRejected, NotRealized, ConfNotRequested) \<Rightarrow> Some Declined
   | (WishAccepted, NotRealized, ConfNotRequested) \<Rightarrow> Some Agreed
   | (WishAccepted, Realized, ConfPending) \<Rightarrow> Some Claimed
   | (WishAccepted, NotRealized, ConfRejected) \<Rightarrow> Some Disputed
   | (WishAccepted, Realized, ConfAccepted) \<Rightarrow> Some Fulfilled
   | _ \<Rightarrow> None)"

text \<open>Who moves a wish from phase to phase, for a creator, the assigned partner and the actor.\<close>

inductive lifecycle :: "uuid \<Rightarrow> uuid \<Rightarrow> uuid \<Rightarrow> wish_phase \<Rightarrow> wish_phase \<Rightarrow> bool"
  for creator partner where
  agree: "lifecycle creator partner partner Proposed Agreed"
| decline: "lifecycle creator partner partner Proposed Declined"
| claim: "p \<in> {Agreed, Disputed} \<Longrightarrow> actor \<in> {creator, partner} \<Longrightarrow> lifecycle creator partner actor p Claimed"
| confirm: "lifecycle creator partner partner Claimed Fulfilled"
| dispute: "lifecycle creator partner partner Claimed Disputed"

inductive_cases lifecycle_fromE: "lifecycle c p a Fulfilled q" "lifecycle c p a Declined q"

definition wish_ok :: "wish \<Rightarrow> bool" where
  "wish_ok w \<longleftrightarrow> phase_of w \<noteq> None \<and> wish_createdById w \<noteq> wish_partnerId w
     \<and> (phase_of w \<in> {Some Claimed, Some Fulfilled} \<longrightarrow> wish_realizedAt w \<noteq> None
       \<and> (wish_realizedById w = Some (wish_createdById w) \<or> wish_realizedById w = Some (wish_partnerId w)))"

definition wishes_ok :: "wish_db \<Rightarrow> bool" where
  "wishes_ok s \<longleftrightarrow> distinct (map wish_id (wdb_wishes s))
     \<and> (\<forall>w \<in> set (wdb_wishes s). wish_id w < core_nextId s \<and> wish_ok w)"

text \<open>What a call of \<open>actor\<close> may do to a wish: nothing, or one version in which the creator edits or
  deletes it, or a step of the life cycle.  Deleted wishes do not change.\<close>

definition wish_moves :: "uuid \<Rightarrow> wish \<Rightarrow> wish \<Rightarrow> bool" where
  "wish_moves actor w w' \<longleftrightarrow> w' = w \<or>
     (wish_id w' = wish_id w \<and> wish_familyId w' = wish_familyId w \<and> wish_createdById w' = wish_createdById w
      \<and> wish_partnerId w' = wish_partnerId w \<and> wish_version w' = wish_version w + 1 \<and> wish_deletedAt w = None
      \<and> (phase_of w' = phase_of w \<and> actor = wish_createdById w
         \<or> wish_deletedAt w' = None \<and> (\<exists>p q. phase_of w = Some p \<and> phase_of w' = Some q
              \<and> lifecycle (wish_createdById w) (wish_partnerId w) actor p q)))"

inductive wish_call :: "uuid \<Rightarrow> wish_db \<Rightarrow> wish_db \<Rightarrow> bool" where
  create: "wish_call userId s (snd (wishes_create E userId dto s))"
| update: "wish_call userId s (snd (wishes_update userId i dto ver s))"
| remove: "wish_call userId s (snd (wishes_remove E userId i s))"
| accept: "wish_call userId s (snd (wishes_accept E userId i ver s))"
| reject: "wish_call userId s (snd (wishes_reject E userId i ver s))"
| realize: "wish_call userId s (snd (markRealized E userId i ver s))"
| confirm: "wish_call userId s (snd (confirmRealization E userId i ver s))"
| refuse: "wish_call userId s (snd (rejectRealization E userId i ver s))"

text \<open>The effect of a call on the table, the invariant included.\<close>

definition wish_effect :: "uuid \<Rightarrow> wish_db \<Rightarrow> wish_db \<Rightarrow> bool" where
  "wish_effect actor s t \<longleftrightarrow> (wishes_ok s \<longrightarrow> wishes_ok t \<and> rows_kept (wish_moves actor) (wdb_wishes s) (wdb_wishes t))"

lemma wish_moves_refl [simp]: "wish_moves actor w w"
  by (simp add: wish_moves_def)

lemma wish_effect_same:
  "wdb_wishes t = wdb_wishes s \<Longrightarrow> core_nextId s \<le> core_nextId t \<Longrightarrow> wish_effect actor s t"
  by (fastforce simp: wish_effect_def wishes_ok_def rows_kept_refl)

lemma wish_effect_refl: "wish_effect actor s s"
  by (rule wish_effect_same) simp_all

lemma wish_effect_write:
  assumes "\<And>w. wishes_ok s \<Longrightarrow> w \<in> set (wdb_wishes s) \<Longrightarrow> P w \<Longrightarrow> wish_moves actor w (f w) \<and> wish_ok (f w)"
    and "wdb_wishes t = map (\<lambda>w. if P w then f w else w) (wdb_wishes s)" "core_nextId s \<le> core_nextId t"
  shows "wish_effect actor s t"
  unfolding wish_effect_def
proof (intro impI conjI)
  assume ok: "wishes_ok s"
  have row: "wish_moves actor w (if P w then f w else w) \<and> wish_ok (if P w then f w else w)"
    if "w \<in> set (wdb_wishes s)" for w
    using that assms(1) [OF ok that] ok by (simp add: wishes_ok_def)
  then show "rows_kept (wish_moves actor) (wdb_wishes s) (wdb_wishes t)"
    unfolding assms(2) by (intro rows_kept_map) blast
  have id: "wish_id (if P w then f w else w) = wish_id w" if "w \<in> set (wdb_wishes s)" for w
    using row [OF that] by (simp only: wish_moves_def) metis
  then have "map wish_id (wdb_wishes t) = map wish_id (wdb_wishes s)"
    unfolding assms(2) map_map by (intro map_cong refl) simp
  moreover have "wish_id w < core_nextId t \<and> wish_ok w" if "w \<in> set (wdb_wishes t)" for w
  proof -
    obtain v where v: "v \<in> set (wdb_wishes s)" "w = (if P v then f v else v)"
      using \<open>w \<in> set (wdb_wishes t)\<close> unfolding assms(2) by auto
    have "wish_id v < core_nextId s" using ok v(1) by (simp add: wishes_ok_def)
    then show ?thesis using id [OF v(1)] row [OF v(1)] assms(3) unfolding v(2) by linarith
  qed
  ultimately show "wishes_ok t" using ok unfolding wishes_ok_def by simp
qed

lemma wish_effect_feed: "wish_effect actor s t \<Longrightarrow> wish_effect actor s (t\<lparr>core_feed := d\<rparr>)"
  by (simp add: wish_effect_def wishes_ok_def)

lemma wish_effect_transaction:
  "wish_effect actor s (snd r) \<Longrightarrow> wish_effect actor s (snd (transaction s r))"
  by (cases r; cases "fst r") (auto intro: wish_effect_same)

lemma wish_effect_notify:
  assumes "wish_effect actor s t"
  shows "wish_effect actor s (snd (and_then (notifyUserInTransaction E n t) (\<lambda>_ u. (Inr (g u), u))))"
  unfolding snd_and_then_return
  using notifyUserInTransaction_frame [of E n t] wish_effect_feed [OF assms] by auto

lemma found_wish:
  assumes "wishes_ok s" "find_open_wish i fam s = Some w" "x \<in> set (wdb_wishes s)" "wish_id x = i"
  shows "x = w \<and> wish_deletedAt w = None \<and> wish_ok w"
proof -
  have w: "w \<in> set (wdb_wishes s)" "wish_id w = i" "wish_deletedAt w = None"
    using find_SomeD [OF assms(2) [unfolded find_open_wish_def]] by auto
  then have "x = w" using distinct_key_eq [of wish_id "wdb_wishes s" x w] assms by (simp add: wishes_ok_def)
  then show ?thesis using w assms(1) by (simp add: wishes_ok_def)
qed

lemma wish_effect_write_open:
  assumes w: "find_open_wish i fam s = Some w"
    and f: "wish_ok w \<Longrightarrow> wish_deletedAt w = None \<Longrightarrow>
      wish_moves actor w ((f w)\<lparr>wish_version := wish_version w + 1\<rparr>) \<and> wish_ok ((f w)\<lparr>wish_version := wish_version w + 1\<rparr>)"
  shows "wish_effect actor s (snd (write_open_wish i fam ver f s))"
proof (rule wish_effect_write [where P = "\<lambda>w. wish_id w = i \<and> wish_familyId w = fam \<and> wish_deletedAt w = None
      \<and> version_is ver (wish_version w)" and f = "\<lambda>w. (f w)\<lparr>wish_version := wish_version w + 1\<rparr>"])
  fix x assume "wishes_ok s" "x \<in> set (wdb_wishes s)" "wish_id x = i \<and> wish_familyId x = fam
      \<and> wish_deletedAt x = None \<and> version_is ver (wish_version x)"
  then show "wish_moves actor x ((f x)\<lparr>wish_version := wish_version x + 1\<rparr>)
      \<and> wish_ok ((f x)\<lparr>wish_version := wish_version x + 1\<rparr>)"
    using found_wish [OF _ w, of x] f by simp
qed (simp_all add: write_open_wish_def update_wishes_def)

lemma wish_transition_effect:
  assumes step: "\<And>w f. wish_ok w \<Longrightarrow> wish_deletedAt w = None \<Longrightarrow> decide w = Inr f \<Longrightarrow>
      wish_moves userId w ((f w)\<lparr>wish_version := wish_version w + 1\<rparr>) \<and> wish_ok ((f w)\<lparr>wish_version := wish_version w + 1\<rparr>)"
  shows "wish_effect userId s (snd (wish_transition E userId i ver decide ty s))"
proof (cases "requirePartner userId s")
  case (Inr ctx)
  show ?thesis
  proof (cases "find_open_wish i (ctx_familyId ctx) s")
    case (Some w)
    show ?thesis
    proof (cases "decide w")
      case f: (Inr f)
      obtain count s1 where u: "write_open_wish i (ctx_familyId ctx) ver f s = (count, s1)" by fastforce
      have s1: "wish_effect userId s s1"
        using wish_effect_write_open [OF Some, of userId f ver] step [OF _ _ f] u by simp
      show ?thesis
        unfolding wish_transition_def Inr Some f u sum.case option.case prod.case Let_def
      proof (rule wish_effect_transaction, cases "count \<noteq> 1 \<or> find_wish i s1 = None")
        case False
        then obtain v where "count = 1" "find_wish i s1 = Some v" by auto
        with wish_effect_notify [OF s1] show "wish_effect userId s (snd (if count \<noteq> 1
            then (Inl (write_error ver (NotFound ''Family wish not found'')), s1)
            else (case find_wish i s1 of None \<Rightarrow> (Inl P2025, s1) | Some updated \<Rightarrow>
              and_then (notifyUserInTransaction E (wish_notice (if wish_createdById updated = userId
                  then wish_partnerId updated else wish_createdById updated) (ctx_familyId ctx) ty
                  ''A family wish changed'' (wish_title updated)) s1) (\<lambda>_ s2. (Inr (wish_fromEntity s2 updated), s2)))))"
          by simp
      qed (use s1 in auto)
    qed (use Inr Some in \<open>simp add: wish_transition_def wish_effect_same\<close>)
  qed (use Inr in \<open>simp add: wish_transition_def wish_effect_same\<close>)
qed (simp add: wish_transition_def wish_effect_same)

text \<open>The phases by their columns.\<close>

lemma phase_of_cases:
  assumes "wish_ok w"
  shows "wish_partnerApprovalStatus w = WishPending \<Longrightarrow> wish_implementationStatus w = NotRealized
      \<and> wish_realizationConfirmationStatus w = ConfNotRequested \<and> phase_of w = Some Proposed"
    and "wish_partnerApprovalStatus w = WishAccepted \<Longrightarrow> wish_implementationStatus w = NotRealized
      \<Longrightarrow> phase_of w = Some Agreed \<or> phase_of w = Some Disputed"
    and "wish_realizationConfirmationStatus w = ConfPending \<Longrightarrow> wish_partnerApprovalStatus w = WishAccepted
      \<and> wish_implementationStatus w = Realized \<and> phase_of w = Some Claimed"
  using assms unfolding wish_ok_def phase_of_def
  by (cases "wish_partnerApprovalStatus w"; cases "wish_implementationStatus w";
      cases "wish_realizationConfirmationStatus w"; simp)+

lemma wish_step:
  assumes "wish_ok w" "wish_deletedAt w = None" "phase_of w = Some p"
    and "lifecycle (wish_createdById w) (wish_partnerId w) actor p q" "phase_of v = Some q"
    and "v = w\<lparr>wish_partnerApprovalStatus := a, wish_implementationStatus := b,
       wish_realizationConfirmationStatus := c, wish_realizedById := d, wish_realizedAt := e,
       wish_version := wish_version w + 1\<rparr>"
    and "q \<in> {Claimed, Fulfilled} \<Longrightarrow> e \<noteq> None \<and> (d = Some (wish_createdById w) \<or> d = Some (wish_partnerId w))"
  shows "wish_moves actor w v \<and> wish_ok v"
proof -
  have "wish_moves actor w v" using assms(2-6) unfolding wish_moves_def by simp
  moreover have "wish_ok v" using assms(1,5,6,7) unfolding wish_ok_def by simp
  ultimately show ?thesis ..
qed

lemma decide_wish_step:
  assumes "wish_ok w" "wish_deletedAt w = None" "decide_wish userId action w = Inr f"
  shows "wish_moves userId w ((f w)\<lparr>wish_version := wish_version w + 1\<rparr>) \<and> wish_ok ((f w)\<lparr>wish_version := wish_version w + 1\<rparr>)"
proof -
  have pre: "wish_partnerId w = userId" "wish_partnerApprovalStatus w = WishPending"
    using assms(3) by (auto simp: decide_wish_def split: if_splits)
  note st = phase_of_cases(1) [OF assms(1) pre(2)]
  show ?thesis
  proof (cases action)
    case AcceptWish
    then have "f = (\<lambda>r. r\<lparr>wish_partnerApprovalStatus := WishAccepted, wish_implementationStatus := NotRealized\<rparr>)"
      using assms(3) pre by (simp add: decide_wish_def)
    then show ?thesis using st pre
      by (intro wish_step [where w = w, OF assms(1,2), where p = Proposed and q = Agreed and a = WishAccepted
            and b = NotRealized and c = ConfNotRequested and d = "wish_realizedById w" and e = "wish_realizedAt w"]) (auto simp: phase_of_def intro: lifecycle.agree)
  next
    case RejectWish
    then have "f = (\<lambda>r. r\<lparr>wish_partnerApprovalStatus := WishRejected\<rparr>)"
      using assms(3) pre by (simp add: decide_wish_def)
    then show ?thesis using st pre
      by (intro wish_step [where w = w, OF assms(1,2), where p = Proposed and q = Declined and a = WishRejected
            and b = NotRealized and c = ConfNotRequested and d = "wish_realizedById w" and e = "wish_realizedAt w"]) (auto simp: phase_of_def intro: lifecycle.decline)
  qed
qed

lemma decide_realized_step:
  assumes "wish_ok w" "wish_deletedAt w = None" "decide_realized E userId w = Inr f"
  shows "wish_moves userId w ((f w)\<lparr>wish_version := wish_version w + 1\<rparr>) \<and> wish_ok ((f w)\<lparr>wish_version := wish_version w + 1\<rparr>)"
proof -
  have pre: "wish_partnerApprovalStatus w = WishAccepted" "wish_implementationStatus w = NotRealized"
      "userId \<in> {wish_createdById w, wish_partnerId w}"
    using assms(3) by (auto simp: decide_realized_def split: if_splits)
  have f: "f = (\<lambda>r. r\<lparr>wish_implementationStatus := Realized, wish_realizationConfirmationStatus := ConfPending,
       wish_realizedById := Some userId, wish_realizedAt := Some (env_now E)\<rparr>)"
    using assms(3) by (auto simp: decide_realized_def split: if_splits)
  obtain p where p: "phase_of w = Some p" "p \<in> {Agreed, Disputed}"
    using phase_of_cases(2) [OF assms(1) pre(1,2)] by auto
  show ?thesis using p pre unfolding f
    by (intro wish_step [where w = w, OF assms(1,2), where q = Claimed and a = WishAccepted and b = Realized
          and c = ConfPending and d = "Some userId" and e = "Some (env_now E)"])
      (auto simp: phase_of_def intro: lifecycle.claim)
qed

lemma decide_realization_step:
  assumes "wish_ok w" "wish_deletedAt w = None" "decide_realization userId accepted w = Inr f"
  shows "wish_moves userId w ((f w)\<lparr>wish_version := wish_version w + 1\<rparr>) \<and> wish_ok ((f w)\<lparr>wish_version := wish_version w + 1\<rparr>)"
proof -
  have pre: "wish_partnerId w = userId" "wish_realizationConfirmationStatus w = ConfPending"
    using assms(3) by (auto simp: decide_realization_def split: if_splits)
  note st = phase_of_cases(3) [OF assms(1) pre(2)]
  have by_whom: "wish_realizedAt w \<noteq> None \<and> (wish_realizedById w = Some (wish_createdById w)
      \<or> wish_realizedById w = Some (wish_partnerId w))"
    using assms(1) st by (simp add: wish_ok_def)
  show ?thesis
  proof (cases accepted)
    case True
    then have "f = (\<lambda>r. r\<lparr>wish_realizationConfirmationStatus := ConfAccepted\<rparr>)"
      using assms(3) pre by (simp add: decide_realization_def)
    then show ?thesis using st pre by_whom
      by (intro wish_step [where w = w, OF assms(1,2), where p = Claimed and q = Fulfilled and a = WishAccepted
            and b = Realized and c = ConfAccepted and d = "wish_realizedById w" and e = "wish_realizedAt w"])
        (auto simp: phase_of_def intro: lifecycle.confirm)
  next
    case False
    then have "f = (\<lambda>r. r\<lparr>wish_implementationStatus := NotRealized, wish_realizationConfirmationStatus := ConfRejected\<rparr>)"
      using assms(3) pre by (simp add: decide_realization_def)
    then show ?thesis using st pre
      by (intro wish_step [where w = w, OF assms(1,2), where p = Claimed and q = Disputed and a = WishAccepted
            and b = NotRealized and c = ConfRejected and d = "wish_realizedById w" and e = "wish_realizedAt w"])
        (auto simp: phase_of_def intro: lifecycle.dispute)
  qed
qed

lemma wishes_update_effect: "wish_effect userId s (snd (wishes_update userId i dto ver s))"
proof -
  have wr: "wish_effect actor s s1" if "find_open_wish i fam s = Some w" "wish_createdById w = actor"
      "write_open_wish i fam ver (\<lambda>w. w\<lparr>wish_title := T w, wish_description := D w\<rparr>) s = (count, s1)"
    for fam w T D count s1 actor
  proof -
    have "wish_effect actor s (snd (write_open_wish i fam ver (\<lambda>w. w\<lparr>wish_title := T w, wish_description := D w\<rparr>) s))"
      using that(2) by (intro wish_effect_write_open [OF that(1)]) (auto simp: wish_moves_def wish_ok_def phase_of_def)
    then show ?thesis using that(3) by simp
  qed
  show ?thesis
    unfolding wishes_update_def
    by (auto intro!: wish_effect_transaction wish_effect_refl intro: wr split: sum.split option.split prod.split)
qed

lemma wishes_remove_effect: "wish_effect userId s (snd (wishes_remove E userId i s))"
proof -
  have "wish_effect userId s s1" if "update_wishes (\<lambda>w. wish_id w = i \<and> wish_familyId w = fam
      \<and> wish_createdById w = userId \<and> wish_deletedAt w = None)
      (\<lambda>w. w\<lparr>wish_deletedAt := Some (env_now E), wish_version := wish_version w + 1\<rparr>) s = (count, s1)" for fam count s1
    using that by (intro wish_effect_write [where P = "\<lambda>w. wish_id w = i \<and> wish_familyId w = fam
          \<and> wish_createdById w = userId \<and> wish_deletedAt w = None"
          and f = "\<lambda>w. w\<lparr>wish_deletedAt := Some (env_now E), wish_version := wish_version w + 1\<rparr>"])
      (auto simp: update_wishes_def wishes_ok_def wish_moves_def wish_ok_def phase_of_def)
  then show ?thesis
    by (auto simp: wishes_remove_def wish_effect_same split: sum.split prod.split)
qed

lemma resolveFamilyPartner_Inr:
  "resolveFamilyPartner fam i s = Inr u \<Longrightarrow> \<exists>m \<in> set (core_members s). member_userId m = u \<and> member_familyId m = fam
     \<and> member_role m = PARTNER"
  by (auto simp: resolveFamilyPartner_def split: option.splits dest: find_SomeD)

lemma wish_effect_add:
  assumes "wish_id w = core_nextId s" "wish_ok w" "core_nextId s < n"
  shows "wish_effect actor s (s\<lparr>core_nextId := n, wdb_wishes := wdb_wishes s @ [w]\<rparr>)"
  using assms by (fastforce simp: wish_effect_def wishes_ok_def intro: rows_kept_append)

lemma wishes_create_effect: "wish_effect userId s (snd (wishes_create E userId dto s))"
proof -
  have "wish_effect userId s (s\<lparr>core_nextId := Suc (core_nextId s),
      wdb_wishes := wdb_wishes s @ [new_wish E (core_nextId s) fam userId p dto]\<rparr>)" if "p \<noteq> userId" for fam p
    using that by (intro wish_effect_add) (auto simp: new_wish_def wish_ok_def phase_of_def)
  then show ?thesis
    by (auto simp: wishes_create_def fresh_def Let_def split: sum.split
        intro!: wish_effect_refl wish_effect_transaction wish_effect_notify simp del: snd_and_then_return)
qed

lemma respondToWish_effect: "wish_effect userId s (snd (respondToWish E userId i action ver s))"
  unfolding respondToWish_def by (rule wish_transition_effect) (rule decide_wish_step)

lemma markRealized_effect: "wish_effect userId s (snd (markRealized E userId i ver s))"
  unfolding markRealized_def by (rule wish_transition_effect) (rule decide_realized_step)

lemma respondToRealization_effect: "wish_effect userId s (snd (respondToRealization E userId i accepted ver s))"
  unfolding respondToRealization_def by (rule wish_transition_effect) (rule decide_realization_step)

lemma wish_call_effect: "wish_call actor s t \<Longrightarrow> wish_effect actor s t"
  by (induction rule: wish_call.induct)
    (simp_all add: wishes_accept_def wishes_reject_def confirmRealization_def rejectRealization_def
      wishes_create_effect wishes_update_effect wishes_remove_effect respondToWish_effect markRealized_effect
      respondToRealization_effect)

subsection \<open>The properties\<close>

definition sample_wish :: wish where
  "sample_wish = \<lparr>wish_id = 50, wish_familyId = 5, wish_createdById = 1, wish_partnerId = 2,
     wish_title = ''A boat trip'', wish_description = None, wish_implementationStatus = Realized,
     wish_partnerApprovalStatus = WishAccepted, wish_realizationConfirmationStatus = ConfPending,
     wish_realizedById = Some 1, wish_realizedAt = Some 0, wish_deletedAt = None, wish_version = 3,
     wish_createdAt = 0\<rparr>"

definition wish_sample_db :: wish_db where
  "wish_sample_db = \<lparr>core_users = [], core_families = [\<lparr>family_id = 5, family_status = FamilyActive,
       family_timeZone = ''UTC'', family_locale = ''ru'', family_defaultCurrency = ''RUB'', family_archivedAt = None,
       family_dissolvedAt = None, family_createdAt = 0\<rparr>],
     core_members = [\<lparr>member_id = 11, member_familyId = 5, member_userId = 1, member_role = PARTNER, member_joinedAt = 0\<rparr>,
       \<lparr>member_id = 12, member_familyId = 5, member_userId = 2, member_role = PARTNER, member_joinedAt = 0\<rparr>],
     core_preferences = [], core_connections = [], core_devices = [], core_feed = empty_feed, core_nextId = 100,
     wdb_wishes = [sample_wish]\<rparr>"

lemma wish_sample_ok: "wishes_ok wish_sample_db"
  by (simp add: wishes_ok_def wish_sample_db_def sample_wish_def wish_ok_def phase_of_def)

text \<open>C13.  Every service call refines the life cycle of the wishes: whatever is called, each wish stays as it
  is, or gets one more version in which its creator edits or deletes it, or its phase makes a step of the
  life cycle by the actor the life cycle names: only the assigned partner agrees, declines, confirms or
  disputes, and only the two of them claim.  The status columns stay in one of the six phases, the
  claimant is one of the two, and a deleted wish never changes again.\<close>

theorem wish_refines_lifecycle:
  assumes "wishes_ok s" "wish_call actor s t"
  shows "wishes_ok t \<and> rows_kept (wish_moves actor) (wdb_wishes s) (wdb_wishes t)"
  using wish_call_effect [OF assms(2)] assms(1) by (simp add: wish_effect_def)

lemma wish_refines_lifecycle_witness:
  "rows_kept (wish_moves 2) [sample_wish] (wdb_wishes (snd (confirmRealization moscow_env 2 50 (Some 3) wish_sample_db)))"
proof -
  have "wish_call 2 wish_sample_db (snd (confirmRealization moscow_env 2 50 (Some 3) wish_sample_db))"
    by (rule wish_call.confirm)
  from wish_refines_lifecycle [OF wish_sample_ok this] show ?thesis by (simp add: wish_sample_db_def)
qed

end
