(* ===== verification/Tasks.thy ===== *)
theory Tasks
  imports Outbox
begin

text \<open>
  The tasks of a family: \<open>modules/tasks/tasks.service.ts\<close>, the routines that create tasks on a
  schedule (\<open>modules/tasks/task-routines.service.ts\<close>), the reminders of
  \<open>modules/notifications/reminders.service.ts\<close> and the jobs of
  \<open>common/maintenance/maintenance.service.ts\<close> that run them.

  None of the plain operations runs in a transaction: the task, the audit event and the
  notification of the family are written one after the other, and a failing notification
  leaves the earlier writes in place.  Titles of notifications are rendered in English.
\<close>

subsection \<open>Rows and requests\<close>

datatype task_status = TaskOpen | TaskCompleted | TaskArchived
datatype task_priority = LOW | NORMAL | HIGH
datatype routine_frequency = RoutineDaily | RoutineWeekly

instantiation task_status :: linorder
begin

fun task_status_rank :: "task_status \<Rightarrow> nat" where
  "task_status_rank TaskOpen = 0"
| "task_status_rank TaskCompleted = 1"
| "task_status_rank TaskArchived = 2"

definition less_eq_task_status :: "task_status \<Rightarrow> task_status \<Rightarrow> bool" where
  "less_eq_task_status a b \<longleftrightarrow> task_status_rank a \<le> task_status_rank b"

definition less_task_status :: "task_status \<Rightarrow> task_status \<Rightarrow> bool" where
  "less_task_status a b \<longleftrightarrow> task_status_rank a < task_status_rank b"

instance
proof
  fix x y :: task_status
  show "x \<le> y \<Longrightarrow> y \<le> x \<Longrightarrow> x = y"
    by (cases x; cases y) (simp_all add: less_eq_task_status_def)
qed (auto simp: less_eq_task_status_def less_task_status_def)

end

record task =
  task_id :: uuid
  task_familyId :: uuid
  task_createdById :: uuid
  task_assignedToId :: "uuid option"
  task_childId :: "uuid option"
  task_completedById :: "uuid option"
  task_title :: string
  task_description :: "string option"
  task_dueAt :: "timestamp option"
  task_priority :: task_priority
  task_status :: task_status
  task_version :: int
  task_completedAt :: "timestamp option"
  task_createdAt :: timestamp

record routine =
  rt_id :: uuid
  rt_familyId :: uuid
  rt_createdById :: uuid
  rt_assignedToId :: "uuid option"
  rt_childId :: "uuid option"
  rt_title :: string
  rt_description :: "string option"
  rt_priority :: task_priority
  rt_frequency :: routine_frequency
  rt_interval :: int
  rt_nextRunAt :: timestamp
  rt_active :: bool
  rt_version :: int
  rt_updatedAt :: timestamp

record task_reminder =
  rem_id :: uuid
  rem_taskId :: uuid
  rem_userId :: uuid
  rem_remindAt :: timestamp
  rem_sentAt :: "timestamp option"

text \<open>Of a child profile the tasks use the key and the family.\<close>

record child_ref =
  child_id :: uuid
  child_familyId :: uuid

record task_db = core +
  tdb_tasks :: "task list"
  tdb_routines :: "routine list"
  tdb_reminders :: "task_reminder list"
  tdb_children :: "child_ref list"

record create_task_dto =
  ct_title :: string
  ct_description :: "string option"
  ct_dueAt :: "timestamp option"
  ct_priority :: "task_priority option"
  ct_assignedToId :: "uuid option"
  ct_childId :: "uuid option"

text \<open>\<open>PartialType(CreateTaskDto)\<close>: every field may be absent; the nullable columns may be given
  an explicit \<open>null\<close>.\<close>

record update_task_dto =
  ut_title :: "string option"
  ut_description :: "string option option"
  ut_dueAt :: "timestamp option option"
  ut_priority :: "task_priority option"
  ut_assignedToId :: "uuid option option"
  ut_childId :: "uuid option option"

record create_routine_dto =
  crt_title :: string
  crt_description :: "string option"
  crt_priority :: "task_priority option"
  crt_frequency :: routine_frequency
  crt_interval :: int
  crt_nextRunAt :: timestamp
  crt_assignedToId :: "uuid option"
  crt_childId :: "uuid option"

record update_routine_dto =
  urt_title :: "string option"
  urt_description :: "string option option"
  urt_priority :: "task_priority option"
  urt_frequency :: "routine_frequency option"
  urt_interval :: "int option"
  urt_nextRunAt :: "timestamp option"
  urt_assignedToId :: "uuid option option"
  urt_childId :: "uuid option option"

subsection \<open>Guards and writes\<close>

definition ensureFamilyMember :: "uuid \<Rightarrow> uuid option \<Rightarrow> 'a core_scheme \<Rightarrow> api_error + unit" where
  "ensureFamilyMember familyId u s = (case u of None \<Rightarrow> Inr ()
   | Some userId \<Rightarrow> (case find_first (\<lambda>m. member_familyId m = familyId \<and> member_userId m = userId) (core_members s) of
       None \<Rightarrow> Inl (Forbidden ''Assigned user must belong to the family'') | Some _ \<Rightarrow> Inr ()))"

definition ensureFamilyChild :: "string \<Rightarrow> uuid \<Rightarrow> uuid option \<Rightarrow> task_db \<Rightarrow> api_error + unit" where
  "ensureFamilyChild message familyId c s = (case c of None \<Rightarrow> Inr ()
   | Some i \<Rightarrow> (case find_first (\<lambda>x. child_id x = i \<and> child_familyId x = familyId) (tdb_children s) of
       None \<Rightarrow> Inl (Forbidden message) | Some _ \<Rightarrow> Inr ()))"

text \<open>The two checks at the start of an operation, in the order of the code.\<close>

definition ensure_refs :: "string \<Rightarrow> uuid \<Rightarrow> uuid option \<Rightarrow> uuid option \<Rightarrow> task_db \<Rightarrow> api_error + unit" where
  "ensure_refs message familyId assignedToId childId s = (case ensureFamilyMember familyId assignedToId s of
     Inl e \<Rightarrow> Inl e | Inr _ \<Rightarrow> ensureFamilyChild message familyId childId s)"

abbreviation task_child_error :: string where
  "task_child_error \<equiv> ''Child must belong to the family''"
abbreviation routine_child_error :: string where
  "routine_child_error \<equiv> ''Routine child must belong to the family''"

definition update_tasks :: "(task \<Rightarrow> bool) \<Rightarrow> (task \<Rightarrow> task) \<Rightarrow> task_db \<Rightarrow> nat \<times> task_db" where
  "update_tasks P f s = (fst (update_many P f (tdb_tasks s)), s\<lparr>tdb_tasks := snd (update_many P f (tdb_tasks s))\<rparr>)"

definition update_routines :: "(routine \<Rightarrow> bool) \<Rightarrow> (routine \<Rightarrow> routine) \<Rightarrow> task_db \<Rightarrow> nat \<times> task_db" where
  "update_routines P f s = (fst (update_many P f (tdb_routines s)),
     s\<lparr>tdb_routines := snd (update_many P f (tdb_routines s))\<rparr>)"

definition find_task :: "uuid \<Rightarrow> task_db \<Rightarrow> task option" where
  "find_task i s = find_first (\<lambda>t. task_id t = i) (tdb_tasks s)"

definition find_routine :: "uuid \<Rightarrow> task_db \<Rightarrow> routine option" where
  "find_routine i s = find_first (\<lambda>r. rt_id r = i) (tdb_routines s)"

text \<open>The tail of most operations: audit, then notify the other members, then return.\<close>

definition announce ::
    "env \<Rightarrow> uuid \<Rightarrow> uuid \<Rightarrow> string \<Rightarrow> string \<Rightarrow> uuid \<Rightarrow> string \<Rightarrow> string \<Rightarrow> string option
       \<Rightarrow> 'b \<Rightarrow> task_db \<Rightarrow> ('b, task_db) resp" where
  "announce E userId familyId action resourceType i ty title body result s =
     and_then (notifyFamilyMembers E familyId userId ty title body
         (audit_record E (audit_of userId familyId action resourceType i) s))
       (\<lambda>_ s1. (Inr result, s1))"

datatype task_change =
    ChangeTask update_task_dto
  | CompleteTask timestamp uuid
  | ReopenTask
  | ArchiveTask

definition write_task :: "task_change \<Rightarrow> task \<Rightarrow> task" where
  "write_task c t = (case c of
     ChangeTask d \<Rightarrow> t\<lparr>task_title := keep (ut_title d) (task_title t),
       task_description := keep_text (ut_description d) (task_description t),
       task_dueAt := keep (ut_dueAt d) (task_dueAt t), task_priority := keep (ut_priority d) (task_priority t),
       task_assignedToId := keep (ut_assignedToId d) (task_assignedToId t),
       task_childId := keep (ut_childId d) (task_childId t), task_version := task_version t + 1\<rparr>
   | CompleteTask now userId \<Rightarrow> t\<lparr>task_status := TaskCompleted, task_completedAt := Some now,
       task_completedById := Some userId, task_version := task_version t + 1\<rparr>
   | ReopenTask \<Rightarrow> t\<lparr>task_status := TaskOpen, task_completedAt := None, task_completedById := None,
       task_version := task_version t + 1\<rparr>
   | ArchiveTask \<Rightarrow> t\<lparr>task_status := TaskArchived, task_version := task_version t + 1\<rparr>)"

interpretation task_rows: versioned_rows task_id task_version write_task
  by unfold_locales (auto simp: write_task_def split: task_change.split)

datatype routine_change = ChangeRoutine update_routine_dto | ScheduleRoutine timestamp | ActivateRoutine bool

text \<open>Every write also sets \<open>updatedAt\<close>.\<close>

definition write_routine :: "timestamp \<times> routine_change \<Rightarrow> routine \<Rightarrow> routine" where
  "write_routine nc r = (let r1 = (case snd nc of
     ChangeRoutine d \<Rightarrow> r\<lparr>rt_title := keep (urt_title d) (rt_title r),
       rt_description := keep_text (urt_description d) (rt_description r),
       rt_priority := keep (urt_priority d) (rt_priority r),
       rt_frequency := keep (urt_frequency d) (rt_frequency r), rt_interval := keep (urt_interval d) (rt_interval r),
       rt_nextRunAt := keep (urt_nextRunAt d) (rt_nextRunAt r),
       rt_assignedToId := keep (urt_assignedToId d) (rt_assignedToId r),
       rt_childId := keep (urt_childId d) (rt_childId r)\<rparr>
   | ScheduleRoutine next \<Rightarrow> r\<lparr>rt_nextRunAt := next\<rparr>
   | ActivateRoutine b \<Rightarrow> r\<lparr>rt_active := b\<rparr>)
   in r1\<lparr>rt_version := rt_version r + 1, rt_updatedAt := fst nc\<rparr>)"

interpretation routine_rows: versioned_rows rt_id rt_version write_routine
  by unfold_locales (auto simp: write_routine_def Let_def split: routine_change.split)

subsection \<open>TasksService\<close>

definition tasks_create :: "env \<Rightarrow> uuid \<Rightarrow> create_task_dto \<Rightarrow> task_db \<Rightarrow> (task, task_db) resp" where
  "tasks_create E userId dto s = (case requireMembership userId s of Inl e \<Rightarrow> (Inl e, s)
   | Inr ctx \<Rightarrow> (case ensure_refs task_child_error (ctx_familyId ctx) (ct_assignedToId dto) (ct_childId dto) s of
       Inl e \<Rightarrow> (Inl e, s)
     | Inr _ \<Rightarrow> (case fresh s of (i, s1) \<Rightarrow>
         let t = \<lparr>task_id = i, task_familyId = ctx_familyId ctx, task_createdById = userId,
               task_assignedToId = ct_assignedToId dto, task_childId = ct_childId dto, task_completedById = None,
               task_title = ct_title dto, task_description = or_null (ct_description dto), task_dueAt = ct_dueAt dto,
               task_priority = keep (ct_priority dto) NORMAL, task_status = TaskOpen, task_version = 1,
               task_completedAt = None, task_createdAt = env_now E\<rparr>
         in announce E userId (ctx_familyId ctx) ''task.created'' ''task'' i ''TASK_CREATED'' ''New task''
              (Some (task_title t)) t (s1\<lparr>tdb_tasks := tdb_tasks s1 @ [t]\<rparr>))))"

text \<open>\<open>orderBy: [{ status: 'asc' }, { dueAt: 'asc' }, { createdAt: 'desc' }]\<close>; a missing date comes last.\<close>

definition task_order :: "task \<Rightarrow> task_status \<times> (nat \<times> int) \<times> int" where
  "task_order t = (task_status t, (case task_dueAt t of None \<Rightarrow> (1, 0) | Some d \<Rightarrow> (0, d)), - task_createdAt t)"

definition tasks_list ::
    "uuid \<Rightarrow> task_status option \<Rightarrow> page_query \<Rightarrow> task_db \<Rightarrow> api_error + page_meta \<times> task list" where
  "tasks_list userId status q s = (case requireMembership userId s of Inl e \<Rightarrow> Inl e
   | Inr ctx \<Rightarrow>
     let matching = filter (\<lambda>t. task_familyId t = ctx_familyId ctx
           \<and> (case status of None \<Rightarrow> True | Some st \<Rightarrow> task_status t = st)) (tdb_tasks s)
     in Inr (paginationMeta (length matching) (pq_page q) (pq_limit q),
          page_of (pq_page q) (pq_limit q) (sort_key task_order matching)))"

definition tasks_update ::
    "env \<Rightarrow> uuid \<Rightarrow> uuid \<Rightarrow> update_task_dto \<Rightarrow> int option \<Rightarrow> task_db \<Rightarrow> (task, task_db) resp" where
  "tasks_update E i userId dto expectedVersion s = (case requireMembership userId s of Inl e \<Rightarrow> (Inl e, s)
   | Inr ctx \<Rightarrow> (case ensure_refs task_child_error (ctx_familyId ctx) (keep (ut_assignedToId dto) None)
         (keep (ut_childId dto) None) s of
       Inl e \<Rightarrow> (Inl e, s)
     | Inr _ \<Rightarrow> (case find_first (\<lambda>t. task_id t = i \<and> task_familyId t = ctx_familyId ctx
           \<and> task_status t \<noteq> TaskArchived) (tdb_tasks s) of
         None \<Rightarrow> (Inl (NotFound ''Task not found''), s)
       | Some _ \<Rightarrow> (case update_tasks (\<lambda>t. task_id t = i \<and> task_familyId t = ctx_familyId ctx
             \<and> task_status t \<noteq> TaskArchived \<and> version_is expectedVersion (task_version t))
             (write_task (ChangeTask dto)) s of
           (count, s1) \<Rightarrow>
             if count \<noteq> 1 then (Inl (write_error expectedVersion (NotFound ''Task not found'')), s1) else
             (case find_task i s1 of None \<Rightarrow> (Inl P2025, s1)
              | Some t \<Rightarrow> announce E userId (ctx_familyId ctx) ''task.updated'' ''task'' i ''TASK_UPDATED''
                  ''Task changed'' (Some (task_title t)) t s1)))))"

definition setCompleted ::
    "env \<Rightarrow> uuid \<Rightarrow> uuid \<Rightarrow> bool \<Rightarrow> int option \<Rightarrow> task_db \<Rightarrow> (task, task_db) resp" where
  "setCompleted E i userId completed expectedVersion s = (case requireMembership userId s of Inl e \<Rightarrow> (Inl e, s)
   | Inr ctx \<Rightarrow> (case update_tasks (\<lambda>t. task_id t = i \<and> task_familyId t = ctx_familyId ctx
         \<and> task_status t = (if completed then TaskOpen else TaskCompleted)
         \<and> version_is expectedVersion (task_version t))
         (write_task (if completed then CompleteTask (env_now E) userId else ReopenTask)) s of
       (count, s1) \<Rightarrow>
         if count \<noteq> 1 then (Inl (write_error expectedVersion (Conflict ''Task status has changed'')), s1) else
         (case find_task i s1 of None \<Rightarrow> (Inl P2025, s1)
          | Some t \<Rightarrow> announce E userId (ctx_familyId ctx) (if completed then ''task.completed'' else ''task.reopened'')
              ''task'' i (if completed then ''TASK_COMPLETED'' else ''TASK_REOPENED'')
              (if completed then ''Task completed'' else ''Task reopened'') (Some (task_title t)) t s1)))"

definition tasks_archive :: "env \<Rightarrow> uuid \<Rightarrow> uuid \<Rightarrow> task_db \<Rightarrow> (unit, task_db) resp" where
  "tasks_archive E i userId s = (case requireMembership userId s of Inl e \<Rightarrow> (Inl e, s)
   | Inr ctx \<Rightarrow> (case update_tasks (\<lambda>t. task_id t = i \<and> task_familyId t = ctx_familyId ctx
         \<and> task_status t \<noteq> TaskArchived) (write_task ArchiveTask) s of
       (count, s1) \<Rightarrow> if count \<noteq> 1 then (Inl (NotFound ''Task not found''), s1) else
         announce E userId (ctx_familyId ctx) ''task.archived'' ''task'' i ''TASK_ARCHIVED'' ''Task archived'' None () s1))"

subsection \<open>TaskRoutinesService\<close>

definition routines_create :: "env \<Rightarrow> uuid \<Rightarrow> create_routine_dto \<Rightarrow> task_db \<Rightarrow> (routine, task_db) resp" where
  "routines_create E userId dto s = (case requireMembership userId s of Inl e \<Rightarrow> (Inl e, s)
   | Inr ctx \<Rightarrow> (case ensure_refs routine_child_error (ctx_familyId ctx) (crt_assignedToId dto) (crt_childId dto) s of
       Inl e \<Rightarrow> (Inl e, s)
     | Inr _ \<Rightarrow> (case fresh s of (i, s1) \<Rightarrow>
         let r = \<lparr>rt_id = i, rt_familyId = ctx_familyId ctx, rt_createdById = userId,
               rt_assignedToId = crt_assignedToId dto, rt_childId = crt_childId dto, rt_title = crt_title dto,
               rt_description = or_null (crt_description dto), rt_priority = keep (crt_priority dto) NORMAL,
               rt_frequency = crt_frequency dto, rt_interval = crt_interval dto, rt_nextRunAt = crt_nextRunAt dto,
               rt_active = True, rt_version = 1, rt_updatedAt = env_now E\<rparr>
         in announce E userId (ctx_familyId ctx) ''task_routine.created'' ''task_routine'' i
              ''TASK_ROUTINE_CREATED'' ''Routine created'' (Some (rt_title r)) r
              (s1\<lparr>tdb_routines := tdb_routines s1 @ [r]\<rparr>))))"

definition routines_list :: "uuid \<Rightarrow> task_db \<Rightarrow> api_error + routine list" where
  "routines_list userId s = (case requireMembership userId s of Inl e \<Rightarrow> Inl e
   | Inr ctx \<Rightarrow> Inr (sort_key rt_nextRunAt
       (filter (\<lambda>r. rt_familyId r = ctx_familyId ctx \<and> rt_active r) (tdb_routines s))))"

definition routines_listArchived :: "uuid \<Rightarrow> task_db \<Rightarrow> api_error + routine list" where
  "routines_listArchived userId s = (case requireMembership userId s of Inl e \<Rightarrow> Inl e
   | Inr ctx \<Rightarrow> Inr (sort_key (\<lambda>r. - rt_updatedAt r)
       (filter (\<lambda>r. rt_familyId r = ctx_familyId ctx \<and> \<not> rt_active r) (tdb_routines s))))"

text \<open>The write shared by \<open>update\<close>, \<open>restore\<close> and \<open>archive\<close> of a routine that is active (or not).\<close>

definition write_routine_row ::
    "env \<Rightarrow> uuid \<Rightarrow> uuid \<Rightarrow> bool \<Rightarrow> int option \<Rightarrow> routine_change \<Rightarrow> task_db \<Rightarrow> (unit, task_db) resp" where
  "write_routine_row E i familyId active expectedVersion c s =
    (case find_first (\<lambda>r. rt_id r = i \<and> rt_familyId r = familyId \<and> rt_active r = active) (tdb_routines s) of
       None \<Rightarrow> (Inl (NotFound ''Task routine not found''), s)
     | Some _ \<Rightarrow> (case update_routines (\<lambda>r. rt_id r = i \<and> rt_familyId r = familyId \<and> rt_active r = active
           \<and> version_is expectedVersion (rt_version r)) (write_routine (env_now E, c)) s of
         (count, s1) \<Rightarrow>
           if count \<noteq> 1 then (Inl (write_error expectedVersion (NotFound ''Task routine not found'')), s1)
           else (Inr (), s1)))"

definition routine_announce ::
    "env \<Rightarrow> uuid \<Rightarrow> uuid \<Rightarrow> uuid \<Rightarrow> string \<Rightarrow> string \<Rightarrow> string \<Rightarrow> task_db \<Rightarrow> (routine, task_db) resp" where
  "routine_announce E userId familyId i action ty title s = (case find_routine i s of None \<Rightarrow> (Inl P2025, s)
     | Some r \<Rightarrow> announce E userId familyId action ''task_routine'' i ty title (Some (rt_title r)) r s)"

definition routines_update ::
    "env \<Rightarrow> uuid \<Rightarrow> uuid \<Rightarrow> update_routine_dto \<Rightarrow> int option \<Rightarrow> task_db \<Rightarrow> (routine, task_db) resp" where
  "routines_update E i userId dto expectedVersion s = (case requireMembership userId s of Inl e \<Rightarrow> (Inl e, s)
   | Inr ctx \<Rightarrow> (case ensure_refs routine_child_error (ctx_familyId ctx) (keep (urt_assignedToId dto) None)
         (keep (urt_childId dto) None) s of
       Inl e \<Rightarrow> (Inl e, s)
     | Inr _ \<Rightarrow> and_then (write_routine_row E i (ctx_familyId ctx) True expectedVersion (ChangeRoutine dto) s)
         (\<lambda>_ s1. routine_announce E userId (ctx_familyId ctx) i ''task_routine.updated'' ''TASK_ROUTINE_UPDATED''
            ''Routine changed'' s1)))"

definition nextRun :: "routine_frequency \<Rightarrow> int \<Rightarrow> timestamp \<Rightarrow> timestamp" where
  "nextRun frequency interval current = setUTCDate current
     (getUTCDate current + (if frequency = RoutineDaily then interval else 7 * interval))"

definition routine_task :: "env \<Rightarrow> uuid \<Rightarrow> uuid \<Rightarrow> uuid \<Rightarrow> timestamp \<Rightarrow> routine \<Rightarrow> task" where
  "routine_task E i familyId createdById dueAt r = \<lparr>task_id = i, task_familyId = familyId,
     task_createdById = createdById, task_assignedToId = rt_assignedToId r, task_childId = rt_childId r,
     task_completedById = None, task_title = rt_title r, task_description = rt_description r,
     task_dueAt = Some dueAt, task_priority = rt_priority r, task_status = TaskOpen, task_version = 1,
     task_completedAt = None, task_createdAt = env_now E\<rparr>"

definition generated_audit :: "uuid \<Rightarrow> uuid \<Rightarrow> uuid \<Rightarrow> json \<Rightarrow> audit_input" where
  "generated_audit actorId familyId taskId metadata =
     (audit_of actorId familyId ''task_routine.generated'' ''task'' taskId)\<lparr>ain_metadata := metadata\<rparr>"

definition generate_tx ::
    "env \<Rightarrow> uuid \<Rightarrow> uuid \<Rightarrow> uuid \<Rightarrow> task_db \<Rightarrow> (uuid \<times> routine, task_db) resp" where
  "generate_tx E i userId familyId s =
    (case find_first (\<lambda>r. rt_id r = i \<and> rt_familyId r = familyId \<and> rt_active r) (tdb_routines s) of
       None \<Rightarrow> (Inl (NotFound ''Task routine not found''), s)
     | Some r \<Rightarrow> (case fresh s of (taskId, s1) \<Rightarrow>
         let s2 = s1\<lparr>tdb_tasks := tdb_tasks s1 @ [routine_task E taskId familyId userId (rt_nextRunAt r) r]\<rparr> in
         (case update_routines (\<lambda>x. rt_id x = i \<and> rt_familyId x = familyId \<and> rt_active x \<and> rt_version x = rt_version r)
             (write_routine (env_now E, ScheduleRoutine (nextRun (rt_frequency r) (rt_interval r) (rt_nextRunAt r)))) s2 of
           (count, s3) \<Rightarrow>
             if count \<noteq> 1 then (Inl (Conflict ''Routine was changed concurrently''), s3) else
             let s4 = audit_record E (generated_audit userId familyId taskId
                   (JObj [(''routineId'', JUuid (rt_id r))])) s3 in
             (case find_routine i s4 of None \<Rightarrow> (Inl P2025, s4) | Some r' \<Rightarrow> (Inr (taskId, r'), s4)))))"

definition routines_generate :: "env \<Rightarrow> uuid \<Rightarrow> uuid \<Rightarrow> task_db \<Rightarrow> (uuid \<times> routine, task_db) resp" where
  "routines_generate E i userId s = (case requireMembership userId s of Inl e \<Rightarrow> (Inl e, s)
   | Inr ctx \<Rightarrow> and_then (transaction s (generate_tx E i userId (ctx_familyId ctx) s)) (\<lambda>(taskId, r) s1.
       and_then (notifyFamilyMembers E (ctx_familyId ctx) userId ''TASK_ROUTINE_GENERATED''
           ''Task created on schedule'' (Some (rt_title r)) s1)
         (\<lambda>_ s2. (Inr (taskId, r), s2))))"

definition routines_restore :: "env \<Rightarrow> uuid \<Rightarrow> uuid \<Rightarrow> int option \<Rightarrow> task_db \<Rightarrow> (routine, task_db) resp" where
  "routines_restore E i userId expectedVersion s = (case requireMembership userId s of Inl e \<Rightarrow> (Inl e, s)
   | Inr ctx \<Rightarrow> and_then (write_routine_row E i (ctx_familyId ctx) False expectedVersion (ActivateRoutine True) s)
       (\<lambda>_ s1. routine_announce E userId (ctx_familyId ctx) i ''task_routine.restored'' ''TASK_ROUTINE_RESTORED''
          ''Routine restored'' s1))"

definition routines_archive :: "env \<Rightarrow> uuid \<Rightarrow> uuid \<Rightarrow> int option \<Rightarrow> task_db \<Rightarrow> (unit, task_db) resp" where
  "routines_archive E i userId expectedVersion s = (case requireMembership userId s of Inl e \<Rightarrow> (Inl e, s)
   | Inr ctx \<Rightarrow> and_then (write_routine_row E i (ctx_familyId ctx) True expectedVersion (ActivateRoutine False) s)
       (\<lambda>_ s1. announce E userId (ctx_familyId ctx) ''task_routine.archived'' ''task_routine'' i
          ''TASK_ROUTINE_ARCHIVED'' ''Routine switched off'' None () s1))"

definition family_active :: "uuid \<Rightarrow> 'a core_scheme \<Rightarrow> bool" where
  "family_active familyId s \<longleftrightarrow> (case find_family familyId s of None \<Rightarrow> False | Some f \<Rightarrow> family_status f = FamilyActive)"

definition routine_due :: "timestamp \<Rightarrow> task_db \<Rightarrow> routine \<Rightarrow> bool" where
  "routine_due now s r \<longleftrightarrow> rt_active r \<and> rt_nextRunAt r \<le> now \<and> family_active (rt_familyId r) s"

text \<open>The transaction of one candidate.  The outer option is the loop over the schedule not ending, the
  inner one the candidate having been taken by another run.\<close>

definition generate_due_tx :: "env \<Rightarrow> routine \<Rightarrow> task_db \<Rightarrow> (routine option, task_db) resp option" where
  "generate_due_tx E candidate s = (let now = env_now E in
     case find_first (\<lambda>r. rt_id r = rt_id candidate \<and> routine_due now s r \<and> rt_version r = rt_version candidate)
         (tdb_routines s) of
       None \<Rightarrow> Some (Inr None, s)
     | Some r \<Rightarrow> (case step_past (nextRun (rt_frequency r) (rt_interval r)) now
             (nextRun (rt_frequency r) (rt_interval r) (rt_nextRunAt r)) of
         None \<Rightarrow> None
       | Some next \<Rightarrow> Some (case update_routines (\<lambda>x. rt_id x = rt_id r \<and> rt_active x \<and> rt_version x = rt_version r)
             (write_routine (now, ScheduleRoutine next)) s of
           (count, s1) \<Rightarrow> if count \<noteq> 1 then (Inr None, s1) else
             (case fresh s1 of (taskId, s2) \<Rightarrow>
               (Inr (Some r), audit_record E (generated_audit (rt_createdById r) (rt_familyId r) taskId
                   (JObj [(''routineId'', JUuid (rt_id r)), (''scheduled'', JBool True)]))
                 (s2\<lparr>tdb_tasks := tdb_tasks s2 @ [routine_task E taskId (rt_familyId r) (rt_createdById r) now r]\<rparr>))))))"

fun generate_due_from :: "env \<Rightarrow> routine list \<Rightarrow> nat \<Rightarrow> task_db \<Rightarrow> (nat, task_db) resp option" where
  "generate_due_from E [] generated s = Some (Inr generated, s)"
| "generate_due_from E (c # cs) generated s = (case generate_due_tx E c s of None \<Rightarrow> None
     | Some r \<Rightarrow> (case transaction s r of
         (Inl e, s1) \<Rightarrow> Some (Inl e, s1)
       | (Inr None, s1) \<Rightarrow> generate_due_from E cs generated s1
       | (Inr (Some x), s1) \<Rightarrow> (case notifyFamilyMembers E (rt_familyId x) (rt_createdById x)
             ''TASK_ROUTINE_GENERATED'' ''Task created on schedule'' (Some (rt_title x)) s1 of
           (Inl e, s2) \<Rightarrow> Some (Inl e, s2)
         | (Inr _, s2) \<Rightarrow> generate_due_from E cs (generated + 1) s2)))"

definition due_routines :: "timestamp \<Rightarrow> nat \<Rightarrow> task_db \<Rightarrow> routine list" where
  "due_routines now limit s = take limit (sort_key rt_nextRunAt (filter (routine_due now s) (tdb_routines s)))"

definition generateDue :: "env \<Rightarrow> nat \<Rightarrow> task_db \<Rightarrow> (nat, task_db) resp option" where
  "generateDue E limit s = generate_due_from E (due_routines (env_now E) limit s) 0 s"

subsection \<open>RemindersService\<close>

definition reminders_create ::
    "uuid \<Rightarrow> uuid \<Rightarrow> timestamp \<Rightarrow> task_db \<Rightarrow> (task_reminder, task_db) resp" where
  "reminders_create userId taskId remindAt s = (case requireMembership userId s of Inl e \<Rightarrow> (Inl e, s)
   | Inr ctx \<Rightarrow> (case find_first (\<lambda>t. task_id t = taskId \<and> task_familyId t = ctx_familyId ctx
         \<and> task_status t \<noteq> TaskArchived) (tdb_tasks s) of
       None \<Rightarrow> (Inl (NotFound ''Task not found''), s)
     | Some _ \<Rightarrow> (case fresh s of (i, s1) \<Rightarrow>
         let r = \<lparr>rem_id = i, rem_taskId = taskId, rem_userId = userId, rem_remindAt = remindAt, rem_sentAt = None\<rparr>
         in (Inr r, s1\<lparr>tdb_reminders := tdb_reminders s1 @ [r]\<rparr>))))"

text \<open>A relation filter \<open>task: { familyId }\<close>.\<close>

definition reminder_in :: "uuid \<Rightarrow> task_db \<Rightarrow> task_reminder \<Rightarrow> bool" where
  "reminder_in familyId s r \<longleftrightarrow> (case find_task (rem_taskId r) s of None \<Rightarrow> False | Some t \<Rightarrow> task_familyId t = familyId)"

definition reminders_list :: "uuid \<Rightarrow> uuid \<Rightarrow> task_db \<Rightarrow> api_error + task_reminder list" where
  "reminders_list userId taskId s = (case requireMembership userId s of Inl e \<Rightarrow> Inl e
   | Inr ctx \<Rightarrow> Inr (sort_key rem_remindAt (filter (\<lambda>r. rem_taskId r = taskId \<and> rem_userId r = userId
       \<and> reminder_in (ctx_familyId ctx) s r) (tdb_reminders s))))"

definition reminders_remove :: "uuid \<Rightarrow> uuid \<Rightarrow> task_db \<Rightarrow> (unit, task_db) resp" where
  "reminders_remove userId i s = (case requireMembership userId s of Inl e \<Rightarrow> (Inl e, s)
   | Inr ctx \<Rightarrow> (case delete_many (\<lambda>r. rem_id r = i \<and> rem_userId r = userId
         \<and> reminder_in (ctx_familyId ctx) s r) (tdb_reminders s) of
       (count, rs) \<Rightarrow> if count = 0 then (Inl (NotFound ''Reminder not found''), s\<lparr>tdb_reminders := rs\<rparr>)
         else (Inr (), s\<lparr>tdb_reminders := rs\<rparr>)))"

text \<open>The task reminders of \<open>deliverDueReminders\<close>.\<close>

definition claim_task_reminder :: "env \<Rightarrow> task_reminder \<Rightarrow> task \<Rightarrow> task_db \<Rightarrow> (bool, task_db) resp" where
  "claim_task_reminder E r t s = (case update_many (\<lambda>x. rem_id x = rem_id r \<and> rem_sentAt x = None)
       (\<lambda>x. x\<lparr>rem_sentAt := Some (env_now E)\<rparr>) (tdb_reminders s) of
     (count, rs) \<Rightarrow> if count \<noteq> 1 then (Inr False, s\<lparr>tdb_reminders := rs\<rparr>) else
       and_then (notifyUserInTransaction E \<lparr>dn_userId = rem_userId r, dn_familyId = Some (task_familyId t),
           dn_type = ''TASK_REMINDER'', dn_title = task_title t, dn_body = Some ''Task reminder''\<rparr>
           (s\<lparr>tdb_reminders := rs\<rparr>))
         (\<lambda>_ s1. (Inr True, s1)))"

fun deliver_task_reminders ::
    "env \<Rightarrow> (task_reminder \<times> task) list \<Rightarrow> nat \<Rightarrow> task_db \<Rightarrow> (nat, task_db) resp" where
  "deliver_task_reminders E [] delivered s = (Inr delivered, s)"
| "deliver_task_reminders E ((r, t) # rest) delivered s =
     and_then (transaction s (claim_task_reminder E r t s)) (\<lambda>claimed s1.
       deliver_task_reminders E rest (if claimed then delivered + 1 else delivered) s1)"

definition due_task_reminders :: "timestamp \<Rightarrow> task_db \<Rightarrow> (task_reminder \<times> task) list" where
  "due_task_reminders now s = take 100 (List.map_filter (\<lambda>r.
     if rem_sentAt r = None \<and> rem_remindAt r \<le> now
     then map_option (\<lambda>t. (r, t)) (find_task (rem_taskId r) s) else None) (tdb_reminders s))"

definition deliverDueTaskReminders :: "env \<Rightarrow> task_db \<Rightarrow> (nat, task_db) resp" where
  "deliverDueTaskReminders E s = deliver_task_reminders E (due_task_reminders (env_now E) s) 0 s"

end
