(* ===== verification/TaskSpec.thy ===== *)
theory TaskSpec
  imports Tasks
begin

text \<open>
  What the tasks promise: the job that runs the routines returns and creates exactly one task for
  every due routine, however long the routine was overdue, and the life of a task and of a reminder
  over any sequence of calls.
\<close>

subsection \<open>The schedule\<close>

interpretation routine_schedule: schedule "nextRun f (1 + int k)" for f k
  by unfold_locales (simp add: nextRun_def setUTCDate_add ms_per_day_def)

definition routine_interval_ok :: "int \<Rightarrow> bool" where
  "routine_interval_ok n \<longleftrightarrow> 1 \<le> n \<and> n \<le> 365"

text \<open>A routine as a run at \<open>now\<close> leaves it: one version more, at the first date of its schedule after
  \<open>now\<close>; nothing else changes.\<close>

definition rescheduled :: "timestamp \<Rightarrow> routine \<Rightarrow> routine \<Rightarrow> bool" where
  "rescheduled now r r' \<longleftrightarrow> (\<exists>k \<ge> 1. let f = nextRun (rt_frequency r) (rt_interval r); next = (f ^^ k) (rt_nextRunAt r) in
     now < next \<and> (\<forall>j. 1 \<le> j \<and> j < k \<longrightarrow> (f ^^ j) (rt_nextRunAt r) \<le> now)
     \<and> r' = r\<lparr>rt_nextRunAt := next, rt_version := rt_version r + 1, rt_updatedAt := now\<rparr>)"

lemma next_run_found:
  assumes "routine_interval_ok (rt_interval r)"
  obtains date where "step_past (nextRun (rt_frequency r) (rt_interval r)) now
      (nextRun (rt_frequency r) (rt_interval r) (rt_nextRunAt r)) = Some date"
    and "rescheduled now r (write_routine (now, ScheduleRoutine date) r)"
proof -
  let ?f = "nextRun (rt_frequency r) (rt_interval r)"
  obtain k where k: "rt_interval r = 1 + int k"
    using assms zle_iff_zadd [of 1 "rt_interval r"] by (auto simp: routine_interval_ok_def)
  obtain date where date: "step_past ?f now (?f (rt_nextRunAt r)) = Some date" "now < date"
    using routine_schedule.step_past_terminates [of "rt_frequency r" k now "?f (rt_nextRunAt r)"] unfolding k by blast
  obtain j where j: "date = (?f ^^ Suc j) (rt_nextRunAt r)" "\<forall>i < j. (?f ^^ Suc i) (rt_nextRunAt r) \<le> now"
    using routine_schedule.step_past_first [of "rt_frequency r" k now "?f (rt_nextRunAt r)" date] date(1)
    unfolding k by (auto simp: funpow_swap1)
  have "(?f ^^ i) (rt_nextRunAt r) \<le> now" if "1 \<le> i" "i < Suc j" for i
    using that j(2) by (cases i) auto
  then have "rescheduled now r (write_routine (now, ScheduleRoutine date) r)"
    using date(2) j(1) unfolding rescheduled_def by (intro exI [of _ "Suc j"]) (simp add: write_routine_def Let_def)
  with date(1) show thesis by (rule that)
qed

subsection \<open>The tables\<close>

definition task_row_ok :: "task \<Rightarrow> bool" where
  "task_row_ok t \<longleftrightarrow> (task_status t = TaskOpen \<longrightarrow> task_completedAt t = None)
     \<and> (task_status t = TaskCompleted \<longrightarrow> task_completedAt t \<noteq> None \<and> task_completedById t \<noteq> None)"

definition tasks_ok :: "task_db \<Rightarrow> bool" where
  "tasks_ok s \<longleftrightarrow> distinct (map rt_id (tdb_routines s)) \<and> distinct (map task_id (tdb_tasks s))
     \<and> distinct (map rem_id (tdb_reminders s))
     \<and> (\<forall>r \<in> set (tdb_routines s). rt_id r < core_nextId s \<and> routine_interval_ok (rt_interval r))
     \<and> (\<forall>t \<in> set (tdb_tasks s). task_id t < core_nextId s \<and> task_row_ok t)
     \<and> (\<forall>r \<in> set (tdb_reminders s). rem_id r < core_nextId s)"

subsection \<open>One run of the job\<close>

text \<open>The task that a run at \<open>now\<close> creates for a routine.\<close>

definition task_for :: "env \<Rightarrow> routine \<Rightarrow> task \<Rightarrow> bool" where
  "task_for E r t \<longleftrightarrow> t = routine_task E (task_id t) (rt_familyId r) (rt_createdById r) (env_now E) r"

lemma task_for_title: "task_for E r t \<Longrightarrow> task_title t = rt_title r"
  by (drule task_for_def [THEN iffD1], drule arg_cong [of _ _ task_title]) (simp add: routine_task_def)

definition ran :: "env \<Rightarrow> routine list \<Rightarrow> task_db \<Rightarrow> task_db \<Rightarrow> bool" where
  "ran E rs s t \<longleftrightarrow> (\<exists>new. tdb_tasks t = tdb_tasks s @ new \<and> list_all2 (task_for E) rs new)
     \<and> (\<exists>f. tdb_routines t = map f (tdb_routines s) \<and> (\<forall>r \<in> set (tdb_routines s).
          if r \<in> set rs then rescheduled (env_now E) r (f r) else f r = r))
     \<and> tdb_reminders t = tdb_reminders s \<and> core_families t = core_families s"

lemma generate_due_tx_effect:
  assumes ok: "tasks_ok s" and c: "c \<in> set (tdb_routines s)" "routine_due (env_now E) s c"
  shows "\<exists>t. generate_due_tx E c s = Some (Inr (Some c), t) \<and> ran E [c] s t \<and> tasks_ok t"
proof -
  let ?now = "env_now E"
  have "routine_interval_ok (rt_interval c)" using ok c by (simp add: tasks_ok_def)
  then obtain date where date: "step_past (nextRun (rt_frequency c) (rt_interval c)) ?now
      (nextRun (rt_frequency c) (rt_interval c) (rt_nextRunAt c)) = Some date"
      "rescheduled ?now c (write_routine (?now, ScheduleRoutine date) c)"
    by (rule next_run_found)
  have d: "distinct (map rt_id (tdb_routines s))" using ok by (simp add: tasks_ok_def)
  have found: "find_first (\<lambda>r. rt_id r = rt_id c \<and> routine_due ?now s r \<and> rt_version r = rt_version c)
      (tdb_routines s) = Some c"
    by (rule find_unique_key [OF d c(1), where c = "rt_id c"]) (use c in auto)
  let ?P = "\<lambda>x. rt_id x = rt_id c \<and> rt_active x \<and> rt_version x = rt_version c"
  define g where "g = (\<lambda>r. if ?P r then write_routine (?now, ScheduleRoutine date) r else r)"
  have only: "?P r \<longleftrightarrow> r = c" if "r \<in> set (tdb_routines s)" for r
    using distinct_key_eq [OF d that c(1)] c(2) by (auto simp: routine_due_def)
  have one: "length (filter ?P (tdb_routines s)) = 1"
    by (rule distinct_key_count_1 [OF d, where c = "rt_id c"]) (use c in \<open>auto simp: routine_due_def\<close>)
  define t where "t = audit_record E (generated_audit (rt_createdById c) (rt_familyId c) (core_nextId s)
      (JObj [(''routineId'', JUuid (rt_id c)), (''scheduled'', JBool True)]))
      (s\<lparr>tdb_routines := map g (tdb_routines s), core_nextId := core_nextId s + 1,
         tdb_tasks := tdb_tasks s @ [routine_task E (core_nextId s) (rt_familyId c) (rt_createdById c) ?now c]\<rparr>)"
  have run: "generate_due_tx E c s = Some (Inr (Some c), t)"
    using one by (simp add: generate_due_tx_def Let_def found date(1) update_routines_def fresh_def t_def g_def)
  have row: "if r \<in> set [c] then rescheduled ?now r (g r) else g r = r" if "r \<in> set (tdb_routines s)" for r
    by (cases "r = c") (use only [OF that] c date(2) in \<open>auto simp: g_def routine_due_def\<close>)
  have "ran E [c] s t"
    unfolding ran_def using row
    by (intro conjI exI [of _ g] exI [of _ "[routine_task E (core_nextId s) (rt_familyId c) (rt_createdById c) ?now c]"])
      (simp_all add: t_def audit_record_def task_for_def routine_task_def)
  moreover have "tasks_ok t"
  proof -
    have "rt_id (g r) = rt_id r \<and> rt_interval (g r) = rt_interval r" for r
      by (simp add: g_def write_routine_def Let_def)
    then show ?thesis
      using ok by (fastforce simp: tasks_ok_def task_row_ok_def t_def audit_record_def routine_task_def comp_def)
  qed
  ultimately show ?thesis using run by blast
qed

text \<open>Notifying keeps the tables, and so do two runs one after the other.\<close>

lemma ran_feed: "ran E rs s t \<Longrightarrow> ran E rs s (t\<lparr>core_feed := d\<rparr>)"
  by (simp add: ran_def)

lemma tasks_ok_feed [simp]: "tasks_ok (t\<lparr>core_feed := d\<rparr>) = tasks_ok t"
  by (simp add: tasks_ok_def)

lemma ran_none: "ran E [] s s"
  unfolding ran_def by (intro conjI exI [of _ "[]"] exI [of _ id]) simp_all

lemma rescheduled_id: "rescheduled now r r' \<Longrightarrow> rt_id r' = rt_id r"
  by (auto simp: rescheduled_def Let_def)

lemma ran_trans:
  assumes "ran E [c] s t" "ran E cs t u" "tasks_ok s" "c \<in> set (tdb_routines s)" "rt_id c \<notin> rt_id ` set cs"
  shows "ran E (c # cs) s u"
proof -
  obtain n1 f1 where 1: "tdb_tasks t = tdb_tasks s @ n1" "list_all2 (task_for E) [c] n1"
      "tdb_routines t = map f1 (tdb_routines s)"
      "\<And>r. r \<in> set (tdb_routines s) \<Longrightarrow> if r \<in> set [c] then rescheduled (env_now E) r (f1 r) else f1 r = r"
    using assms(1) unfolding ran_def by blast
  obtain n2 f2 where 2: "tdb_tasks u = tdb_tasks t @ n2" "list_all2 (task_for E) cs n2"
      "tdb_routines u = map f2 (tdb_routines t)"
      "\<And>r. r \<in> set (tdb_routines t) \<Longrightarrow> if r \<in> set cs then rescheduled (env_now E) r (f2 r) else f2 r = r"
    using assms(2) unfolding ran_def by blast
  have "if r \<in> set (c # cs) then rescheduled (env_now E) r (f2 (f1 r)) else f2 (f1 r) = r"
    if r: "r \<in> set (tdb_routines s)" for r
  proof (cases "r = c")
    case True
    then have f1: "rescheduled (env_now E) c (f1 c)" using 1(4) [OF r] by simp
    moreover have "f1 c \<in> set (tdb_routines t)" using r True 1(3) by simp
    moreover have "f1 c \<notin> set cs" using rescheduled_id [OF f1] assms(5) by (metis image_eqI)
    ultimately show ?thesis using 2(4) True by auto
  next
    case False
    then have f1: "f1 r = r" using 1(4) [OF r] by simp
    then have "r \<in> set (tdb_routines t)" using r 1(3) by (metis image_eqI list.set_map)
    then show ?thesis using 2(4) [of r] f1 False by auto
  qed
  then show ?thesis
    unfolding ran_def using 1(1,2,3) 2(1,2,3) assms(1,2)
    by (intro conjI exI [of _ "n1 @ n2"] exI [of _ "f2 \<circ> f1"])
      (auto simp: ran_def list_all2_Cons1)
qed

lemma notify_state:
  "notifyFamilyMembers E f a ty ti b t = (r, u) \<Longrightarrow> ran E rs s t \<Longrightarrow> ran E rs s u \<and> tasks_ok u = tasks_ok t"
  using ran_feed by (auto dest: notifyFamilyMembers_state)

lemma generate_due_from_effect:
  assumes "tasks_ok s" "distinct (map rt_id cs)"
    and "\<And>c. c \<in> set cs \<Longrightarrow> c \<in> set (tdb_routines s) \<and> routine_due (env_now E) s c"
  shows "\<exists>r t k. generate_due_from E cs n s = Some (r, t) \<and> ran E (take k cs) s t \<and> tasks_ok t \<and> k \<le> length cs
     \<and> (\<forall>m. r = Inr m \<longrightarrow> k = length cs \<and> m = n + k)"
  using assms
proof (induction cs arbitrary: n s)
  case Nil
  then show ?case using ran_none by fastforce
next
  case (Cons c cs)
  have c: "c \<in> set (tdb_routines s)" "routine_due (env_now E) s c" using Cons.prems(3) by auto
  obtain t1 where t1: "generate_due_tx E c s = Some (Inr (Some c), t1)" "ran E [c] s t1" "tasks_ok t1"
    using generate_due_tx_effect [OF Cons.prems(1) c] by blast
  obtain x u where nf: "notifyFamilyMembers E (rt_familyId c) (rt_createdById c) ''TASK_ROUTINE_GENERATED''
      ''Task created on schedule'' (Some (rt_title c)) t1 = (x, u)" by fastforce
  have u: "ran E [c] s u" "tasks_ok u" using notify_state [OF nf t1(2)] t1(3) by auto
  show ?case
  proof (cases x)
    case (Inl e)
    then have "generate_due_from E (c # cs) n s = Some (Inl e, u)" using t1(1) nf by simp
    then show ?thesis using u by (intro exI [of _ "Inl e"] exI [of _ u] exI [of _ 1]) simp
  next
    case (Inr y)
    have step: "generate_due_from E (c # cs) n s = generate_due_from E cs (n + 1) u" using t1(1) nf Inr by simp
    have "a \<in> set (tdb_routines u) \<and> routine_due (env_now E) u a" if a: "a \<in> set cs" for a
    proof -
      have "a \<in> set (tdb_routines s)" "a \<noteq> c" "routine_due (env_now E) s a"
        using Cons.prems(2,3) a by auto
      moreover obtain f where "tdb_routines u = map f (tdb_routines s)"
          "\<forall>r \<in> set (tdb_routines s). if r \<in> set [c] then rescheduled (env_now E) r (f r) else f r = r"
          "core_families u = core_families s"
        using u(1) unfolding ran_def by blast
      ultimately show ?thesis
        by (auto simp: routine_due_def family_active_def find_family_def image_iff intro!: bexI [of _ a])
    qed
    with Cons.IH [OF u(2), of "n + 1"] Cons.prems(2) obtain r t k where
      rt: "generate_due_from E cs (n + 1) u = Some (r, t)" "ran E (take k cs) u t" "tasks_ok t" "k \<le> length cs"
        "\<forall>m. r = Inr m \<longrightarrow> k = length cs \<and> m = n + 1 + k" by auto
    have "rt_id c \<notin> rt_id ` set (take k cs)" using Cons.prems(2) by (auto dest: in_set_takeD)
    then have "ran E (c # take k cs) s t" by (rule ran_trans [OF u(1) rt(2) Cons.prems(1) c(1)])
    then show ?thesis
      using rt step by (intro exI [of _ r] exI [of _ t] exI [of _ "Suc k"]) auto
  qed
qed

lemma routines_run:
  assumes "tasks_ok s"
  shows "\<exists>r t k. generateDue E limit s = Some (r, t) \<and> tasks_ok t
     \<and> ran E (take k (due_routines (env_now E) limit s)) s t \<and> k \<le> length (due_routines (env_now E) limit s)
     \<and> (\<forall>n. r = Inr n \<longrightarrow> n = k \<and> k = length (due_routines (env_now E) limit s))"
proof -
  let ?cs = "due_routines (env_now E) limit s"
  have "distinct (map rt_id (filter (routine_due (env_now E) s) (tdb_routines s)))"
    using assms by (simp add: tasks_ok_def distinct_map_filter)
  then have "distinct (map rt_id (sort_key rt_nextRunAt (filter (routine_due (env_now E) s) (tdb_routines s))))"
    by (metis distinct_map distinct_sort set_sort)
  then have "distinct (map rt_id ?cs)" unfolding due_routines_def take_map [symmetric] by (rule distinct_take)
  moreover have "c \<in> set (tdb_routines s) \<and> routine_due (env_now E) s c" if "c \<in> set ?cs" for c
    using that by (auto simp: due_routines_def dest!: in_set_takeD)
  ultimately show ?thesis
    unfolding generateDue_def using generate_due_from_effect [OF assms, of ?cs E 0] by fastforce
qed

subsection \<open>Every operation keeps the tables well formed\<close>

definition tasks_keep :: "task_db \<Rightarrow> task_db \<Rightarrow> bool" where
  "tasks_keep s t \<longleftrightarrow> (tasks_ok s \<longrightarrow> tasks_ok t)"

interpretation tk: evolution tasks_keep
  by unfold_locales (simp_all add: tasks_keep_def)

lemma tk_feed: "tasks_keep s t \<Longrightarrow> tasks_keep s (t\<lparr>core_feed := d\<rparr>)"
  by (simp add: tasks_keep_def)

lemma tk_notify: "tasks_keep s t \<Longrightarrow> tasks_keep s (snd (notifyFamilyMembers E f a ty ti b t))"
  by (simp add: notifyFamilyMembers_frame tk_feed)

lemma tk_audit: "tasks_keep s t \<Longrightarrow> tasks_keep s (audit_record E i t)"
  by (simp add: audit_record_def tk_feed)

lemma tk_notify_user: "tasks_keep s t \<Longrightarrow> tasks_keep s (snd (notifyUserInTransaction E n t))"
  using notifyUserInTransaction_frame [of E n t] tk_feed by auto

lemma tk_announce: "tasks_keep s t \<Longrightarrow> tasks_keep s (snd (announce E userId fam act rt i ty ti b x t))"
  unfolding announce_def snd_and_then_return by (intro tk_notify tk_audit)

lemma tk_map_tasks:
  assumes "\<And>t. task_id (g t) = task_id t" "\<And>t. task_row_ok t \<Longrightarrow> task_row_ok (g t)"
  shows "tasks_keep s (s\<lparr>tdb_tasks := map g (tdb_tasks s)\<rparr>)"
  using assms by (simp add: tasks_keep_def tasks_ok_def comp_def)

lemma tk_map_routines:
  assumes "\<And>r. rt_id (g r) = rt_id r" "\<And>r. routine_interval_ok (rt_interval r) \<Longrightarrow> routine_interval_ok (rt_interval (g r))"
  shows "tasks_keep s (s\<lparr>tdb_routines := map g (tdb_routines s)\<rparr>)"
  using assms by (simp add: tasks_keep_def tasks_ok_def comp_def)

lemma tk_update_tasks: "tasks_keep s (snd (update_tasks P (write_task c) s))"
  unfolding update_tasks_def snd_conv update_many_simps
  by (rule tk_map_tasks) (auto simp: write_task_def task_row_ok_def split: task_change.split)

lemma tk_written: "tasks_keep s (snd r) \<Longrightarrow> r = (n, s1) \<Longrightarrow> tasks_keep s s1"
  by simp

lemma tk_write_routine_row:
  assumes "\<And>n. (case c of ChangeRoutine d \<Rightarrow> urt_interval d | _ \<Rightarrow> None) = Some n \<Longrightarrow> routine_interval_ok n"
  shows "tasks_keep s (snd (write_routine_row E i fam active ver c s))"
proof -
  have step: "tasks_keep s (snd (update_routines P (write_routine (now, c)) s))" for P now
    unfolding update_routines_def snd_conv update_many_simps
    by (rule tk_map_routines)
      (use assms in \<open>auto simp: write_routine_def Let_def keep_def split: routine_change.split option.split\<close>)
  show ?thesis
    unfolding write_routine_row_def by (intro tk.guard_option) (auto intro: tk_written [OF step] split: prod.split)
qed

lemma tk_routine_announce: "tasks_keep s t \<Longrightarrow> tasks_keep s (snd (routine_announce E userId fam i action ty ti t))"
  unfolding routine_announce_def by (intro tk.later_option tk_announce)

lemma tk_add_task:
  assumes "task_id t = core_nextId s" "task_status t = TaskOpen" "task_completedAt t = None"
  shows "tasks_keep s (s\<lparr>core_nextId := Suc (core_nextId s), tdb_tasks := tdb_tasks s @ [t]\<rparr>)"
  using assms by (fastforce simp: tasks_keep_def tasks_ok_def task_row_ok_def)

lemma tk_add_routine:
  assumes "rt_id r = core_nextId s" "routine_interval_ok (rt_interval r)"
  shows "tasks_keep s (s\<lparr>core_nextId := Suc (core_nextId s), tdb_routines := tdb_routines s @ [r]\<rparr>)"
  using assms by (fastforce simp: tasks_keep_def tasks_ok_def)

lemma tk_write_read:
  assumes "\<And>P. tasks_keep s (snd (update_tasks P f s))" "\<And>x s1. tasks_keep s s1 \<Longrightarrow> tasks_keep s (snd (g x s1))"
  shows "tasks_keep s (snd (case update_tasks P f s of (count, s1) \<Rightarrow> if count \<noteq> 1 then (Inl e, s1)
     else (case find_task i s1 of None \<Rightarrow> (Inl e', s1) | Some x \<Rightarrow> g x s1)))"
  using tk_written [OF assms(1)] by (auto intro: assms(2) split: prod.split option.split)

lemma tasks_create_keep: "tasks_keep s (snd (tasks_create E userId dto s))"
  unfolding tasks_create_def Let_def fresh_def prod.case
  by (intro tk.guards tk_announce) (simp add: tk_add_task)

lemma tasks_update_keep: "tasks_keep s (snd (tasks_update E i userId dto ver s))"
  unfolding tasks_update_def by (intro tk.guards tk_write_read tk_update_tasks tk_announce)

lemma setCompleted_keep: "tasks_keep s (snd (setCompleted E i userId completed ver s))"
  unfolding setCompleted_def by (intro tk.guards tk_write_read tk_update_tasks tk_announce)

lemma tasks_archive_keep: "tasks_keep s (snd (tasks_archive E i userId s))"
proof -
  have "tasks_keep s s1" if "update_tasks P (write_task c) s = (n, s1)" for P c n s1
    using tk_update_tasks [of s P c] that by simp
  then show ?thesis
    unfolding tasks_archive_def by (intro tk.guard_sum) (auto split: prod.split intro!: tk_announce)
qed

lemma routines_create_keep:
  assumes "routine_interval_ok (crt_interval dto)"
  shows "tasks_keep s (snd (routines_create E userId dto s))"
  unfolding routines_create_def Let_def fresh_def prod.case
  by (intro tk.guards tk_announce) (simp add: tk_add_routine assms)

lemma routines_update_keep:
  assumes "case urt_interval dto of None \<Rightarrow> True | Some n \<Rightarrow> routine_interval_ok n"
  shows "tasks_keep s (snd (routines_update E i userId dto ver s))"
  unfolding routines_update_def
  by (intro tk.guards tk.and_thenI tk_write_routine_row tk_routine_announce)
    (use assms tk.evolution_refl in auto)

lemma routines_restore_keep: "tasks_keep s (snd (routines_restore E i userId ver s))"
  unfolding routines_restore_def
  by (intro tk.guards tk.and_thenI tk_write_routine_row tk_routine_announce) (auto intro: tk.evolution_refl)

lemma routines_archive_keep: "tasks_keep s (snd (routines_archive E i userId ver s))"
  unfolding routines_archive_def
  by (intro tk.guards tk.and_thenI tk_write_routine_row tk_announce) (auto intro: tk.evolution_refl)

lemma tk_schedule: "tasks_keep s (snd (update_routines P (write_routine (now, ScheduleRoutine date)) s))"
  unfolding update_routines_def snd_conv update_many_simps
  by (rule tk_map_routines) (auto simp: write_routine_def Let_def)

lemma tk_add_routine_task:
  "tasks_keep s (s\<lparr>core_nextId := Suc (core_nextId s),
     tdb_tasks := tdb_tasks s @ [routine_task E (core_nextId s) fam by due r]\<rparr>)"
  by (rule tk_add_task) (simp_all add: routine_task_def)

lemma generate_tx_keep: "tasks_keep s (snd (generate_tx E i userId fam s))"
proof -
  have add: "tasks_keep s (s\<lparr>core_nextId := core_nextId s + 1,
     tdb_tasks := tdb_tasks s @ [routine_task E (core_nextId s) fam userId due r]\<rparr>)" for due r
    using tk_add_routine_task by simp
  have "tasks_keep s s3"
    if "update_routines P (write_routine (env_now E, ScheduleRoutine date)) (s\<lparr>core_nextId := core_nextId s + 1,
     tdb_tasks := tdb_tasks s @ [routine_task E (core_nextId s) fam userId due r]\<rparr>) = (n, s3)" for P date due r n s3
    using tk.evolution_trans [OF add tk_schedule] tk_written [OF _ that] by blast
  then show ?thesis
    unfolding generate_tx_def Let_def fresh_def prod.case
    by (intro tk.guard_option) (auto intro!: tk_audit split: prod.split option.split)
qed

lemma routines_generate_keep: "tasks_keep s (snd (routines_generate E i userId s))"
  unfolding routines_generate_def
  by (intro tk.guards tk.and_thenI tk.transaction_stepI generate_tx_keep)
    (auto intro: tk_notify [OF tk.evolution_refl])

lemma generateDue_keep:
  assumes "generateDue E limit s = Some (r, t)" shows "tasks_keep s t"
proof -
  have "tasks_ok t" if "tasks_ok s"
    using routines_run [OF that, of E limit] assms by auto
  then show ?thesis by (simp add: tasks_keep_def)
qed

lemma tk_set_reminders:
  assumes "tasks_ok s \<Longrightarrow> distinct (map rem_id rs) \<and> (\<forall>r \<in> set rs. rem_id r < n)" "core_nextId s \<le> n"
  shows "tasks_keep s (s\<lparr>core_nextId := n, tdb_reminders := rs\<rparr>)"
  using assms by (fastforce simp: tasks_keep_def tasks_ok_def)

lemma reminders_create_keep: "tasks_keep s (snd (reminders_create userId i date s))"
  unfolding reminders_create_def fresh_def prod.case Let_def
  by (intro tk.guards) (fastforce intro!: tk_set_reminders simp: tasks_ok_def)

lemma tk_filter_reminders: "tasks_keep s (s\<lparr>tdb_reminders := filter P (tdb_reminders s)\<rparr>)"
  by (auto simp: tasks_keep_def tasks_ok_def intro: distinct_map_filter)

lemma tk_map_reminders:
  assumes "\<And>r. rem_id (g r) = rem_id r"
  shows "tasks_keep s (s\<lparr>tdb_reminders := map g (tdb_reminders s)\<rparr>)"
  using assms by (simp add: tasks_keep_def tasks_ok_def comp_def)

lemma reminders_remove_keep: "tasks_keep s (snd (reminders_remove userId i s))"
  unfolding reminders_remove_def delete_many_def prod.case
  by (intro tk.guard_sum) (simp add: tk_filter_reminders del: de_Morgan_conj)

lemma claim_task_reminder_keep: "tasks_keep s (snd (claim_task_reminder E r t s))"
proof -
  let ?g = "\<lambda>x. if rem_id x = rem_id r \<and> rem_sentAt x = None then x\<lparr>rem_sentAt := Some (env_now E)\<rparr> else x"
  let ?s1 = "s\<lparr>tdb_reminders := map ?g (tdb_reminders s)\<rparr>"
  have s1: "tasks_keep s ?s1" by (rule tk_map_reminders) simp
  show ?thesis using s1 tk_notify_user [OF s1] by (simp add: claim_task_reminder_def update_many_def)
qed

lemma deliver_task_reminders_keep: "tasks_keep s (snd (deliver_task_reminders E rs n s))"
proof (induction rs arbitrary: n s)
  case (Cons x rs)
  show ?case
    by (cases x) (auto intro!: tk.and_thenI tk.transaction_stepI claim_task_reminder_keep Cons.IH)
qed (simp add: tk.evolution_refl)

inductive task_call :: "task_db \<Rightarrow> task_db \<Rightarrow> bool" where
  create: "task_call s (snd (tasks_create E userId dto s))"
| update: "task_call s (snd (tasks_update E i userId udto ver s))"
| complete: "task_call s (snd (setCompleted E i userId completed ver s))"
| archive: "task_call s (snd (tasks_archive E i userId s))"
| create_routine: "routine_interval_ok (crt_interval rdto) \<Longrightarrow> task_call s (snd (routines_create E userId rdto s))"
| update_routine: "(case urt_interval urdto of None \<Rightarrow> True | Some n \<Rightarrow> routine_interval_ok n)
    \<Longrightarrow> task_call s (snd (routines_update E i userId urdto ver s))"
| generate: "task_call s (snd (routines_generate E i userId s))"
| restore_routine: "task_call s (snd (routines_restore E i userId ver s))"
| archive_routine: "task_call s (snd (routines_archive E i userId ver s))"
| run_due: "generateDue E limit s = Some (r, t) \<Longrightarrow> task_call s t"
| remind: "task_call s (snd (reminders_create userId i date s))"
| forget: "task_call s (snd (reminders_remove userId i s))"
| deliver: "task_call s (snd (deliverDueTaskReminders E s))"

lemma task_call_keep: "task_call s t \<Longrightarrow> tasks_keep s t"
  by (induction rule: task_call.induct)
    (simp_all add: tasks_create_keep tasks_update_keep setCompleted_keep tasks_archive_keep routines_create_keep
      routines_update_keep routines_generate_keep routines_restore_keep routines_archive_keep generateDue_keep
      reminders_create_keep reminders_remove_keep deliverDueTaskReminders_def deliver_task_reminders_keep)

lemma task_calls_keep: "task_call\<^sup>*\<^sup>* s t \<Longrightarrow> tasks_keep s t"
  by (induction rule: rtranclp_induct) (auto intro: tk.evolution_refl tk.evolution_trans task_call_keep)

subsection \<open>A sample database\<close>

definition chores :: routine where
  "chores = \<lparr>rt_id = 30, rt_familyId = 5, rt_createdById = 1, rt_assignedToId = Some 2, rt_childId = None,
     rt_title = ''Water the plants'', rt_description = None, rt_priority = NORMAL, rt_frequency = RoutineDaily,
     rt_interval = 1, rt_nextRunAt = 0, rt_active = True, rt_version = 1, rt_updatedAt = 0\<rparr>"

definition chores_db :: task_db where
  "chores_db = \<lparr>core_users = [], core_families = [\<lparr>family_id = 5, family_status = FamilyActive,
       family_timeZone = ''UTC'', family_locale = ''ru'', family_defaultCurrency = ''RUB'', family_archivedAt = None,
       family_dissolvedAt = None, family_createdAt = 0\<rparr>],
     core_members = [\<lparr>member_id = 11, member_familyId = 5, member_userId = 1, member_role = PARTNER, member_joinedAt = 0\<rparr>],
     core_preferences = [], core_connections = [], core_devices = [], core_feed = empty_feed, core_nextId = 100,
     tdb_tasks = [], tdb_routines = [chores], tdb_reminders = [], tdb_children = []\<rparr>"

lemma chores_ok: "tasks_ok chores_db"
  by (simp add: tasks_ok_def chores_db_def chores_def routine_interval_ok_def)

definition two_days_later :: env where
  "two_days_later = moscow_env\<lparr>env_now := 180000000\<rparr>"

subsection \<open>The properties\<close>

text \<open>C15.  Over every sequence of calls of the tasks, the routines, the reminders and their jobs, the
  tables stay well formed: keys are unique, routines keep an interval of 1 to 365 (which is what lets
  the job return), an open task carries no completion time, and a completed one its time and its member.\<close>

theorem tasks_invariant:
  assumes "tasks_ok s" "task_call\<^sup>*\<^sup>* s t"
  shows "tasks_ok t"
  using task_calls_keep [OF assms(2)] assms(1) by (simp add: tasks_keep_def)

lemma tasks_invariant_witness: "tasks_ok (snd (routines_generate moscow_env 30 1 chores_db))"
  by (rule tasks_invariant [OF chores_ok r_into_rtranclp]) (rule task_call.generate)

text \<open>C14.  A run of the routine job always returns, and on a well-formed database it works through the due
  routines of active families, earliest first and at most \<open>limit\<close> of them: for each, in that order, it creates exactly one
  task carrying the routine's title, assignee, child and priority, due now, and moves the routine to the first
  date of its schedule that lies after now, however many dates were missed.  All other routines, the other
  tasks and the reminders stay as they are.  If a notification throws, the run stops after the routine it
  was announcing; otherwise it counts exactly the routines of the batch.\<close>

theorem routines_run_once:
  assumes "tasks_ok s"
  shows "\<exists>r t k. generateDue E limit s = Some (r, t) \<and> tasks_ok t
     \<and> ran E (take k (due_routines (env_now E) limit s)) s t \<and> k \<le> length (due_routines (env_now E) limit s)
     \<and> (\<forall>n. r = Inr n \<longrightarrow> n = k \<and> k = length (due_routines (env_now E) limit s))"
  by (rule routines_run [OF assms])

lemma routines_run_once_witness:
  "\<exists>t task. generateDue two_days_later 100 chores_db = Some (Inr 1, t) \<and> tdb_tasks t = [task]
     \<and> task_title task = ''Water the plants''"
proof -
  have due: "due_routines (env_now two_days_later) 100 chores_db = [chores]"
    by (simp add: due_routines_def chores_db_def chores_def routine_due_def family_active_def find_family_def
        two_days_later_def)
  have "\<exists>t. generateDue two_days_later 100 chores_db = Some (Inr 1, t)"
  proof -
    obtain t where t: "generate_due_tx two_days_later chores chores_db = Some (Inr (Some chores), t)"
        "ran two_days_later [chores] chores_db t"
      using generate_due_tx_effect [OF chores_ok, of chores two_days_later]
      by (auto simp: chores_db_def chores_def routine_due_def family_active_def find_family_def two_days_later_def)
    have "core_users t = core_users chores_db"
      using t(1) by (auto simp: generate_due_tx_def Let_def update_routines_def fresh_def audit_record_def
          split: option.splits if_splits)
    then show ?thesis
      unfolding generateDue_def due using t(1)
      by (simp add: notifyFamilyMembers_def member_users_def find_user_def chores_db_def chores_def)
  qed
  then obtain t where t: "generateDue two_days_later 100 chores_db = Some (Inr 1, t)" by blast
  from routines_run_once [OF chores_ok, of two_days_later 100]
  have "ran two_days_later [chores] chores_db t" unfolding t due by auto
  then obtain new where "tdb_tasks t = new" "list_all2 (task_for two_days_later) [chores] new"
    unfolding ran_def by (auto simp: chores_db_def)
  then show ?thesis
    using t by (auto simp: list_all2_Cons1 chores_def dest: task_for_title)
qed

end
