(* ===== verification/Media.thy ===== *)
theory Media
  imports Outbox
begin

text \<open>
  \<open>modules/media\<close>: the family's images, videos and audio files.  \<open>media.service.ts\<close> uploads a file
  through the server or lets the client upload its parts to the bucket; \<open>object-storage-cleanup.service.ts\<close>
  deletes objects and aborts uploads later when that failed at once.

  The object store and the image library are packages: whether each of their calls succeeds, and what it
  returns, is the parameter \<open>storage\<close>, chosen anew for every request.  The state keeps which keys
  have an object in the bucket: a successful upload stores one, a successful deletion removes it, and a
  failed call changes nothing.  A key is kept as the four parts from which its text is made.
\<close>

subsection \<open>Constants\<close>

definition MAX_IMAGE_SIZE_BYTES :: int where "MAX_IMAGE_SIZE_BYTES = 10 * 1024 * 1024"
definition MAX_VIDEO_SIZE_BYTES :: int where "MAX_VIDEO_SIZE_BYTES = 500 * 1024 * 1024"
definition MAX_AUDIO_SIZE_BYTES :: int where "MAX_AUDIO_SIZE_BYTES = 100 * 1024 * 1024"
definition MEDIA_UPLOAD_PART_SIZE_BYTES :: int where "MEDIA_UPLOAD_PART_SIZE_BYTES = 10 * 1024 * 1024"
definition MEDIA_UPLOAD_URL_EXPIRES_IN :: int where "MEDIA_UPLOAD_URL_EXPIRES_IN = 3600"

lemmas media_constants = MAX_IMAGE_SIZE_BYTES_def MAX_VIDEO_SIZE_BYTES_def MAX_AUDIO_SIZE_BYTES_def
  MEDIA_UPLOAD_PART_SIZE_BYTES_def MEDIA_UPLOAD_URL_EXPIRES_IN_def

definition VIDEO_MIME_TYPES :: "string list" where
  "VIDEO_MIME_TYPES = [''video/mp4'', ''video/webm'', ''video/quicktime'', ''video/x-msvideo'', ''video/x-matroska'',
     ''video/mpeg'', ''video/3gpp'', ''video/3gpp2'', ''video/x-flv'', ''video/mp2t'']"

definition AUDIO_MIME_TYPES :: "string list" where
  "AUDIO_MIME_TYPES = [''audio/mpeg'', ''audio/mp4'', ''audio/aac'', ''audio/ogg'', ''audio/opus'', ''audio/wav'',
     ''audio/x-wav'', ''audio/webm'', ''audio/flac'', ''audio/x-flac'', ''audio/vnd.wave'']"

datatype media_kind = IMAGE | VIDEO | AUDIO
datatype media_scope = ALBUM | CHAT | RECIPE | FAMILY_EVENT | LEDGER | USER_AVATAR | CHILD_AVATAR
datatype upload_status = INITIATED | COMPLETED | ABORTED | UPLOAD_FAILED
datatype cleanup_action = DELETE_OBJECT | ABORT_MULTIPART_UPLOAD

definition getMediaKind :: "string \<Rightarrow> media_kind option" where
  "getMediaKind mimeType = (if take 6 mimeType = ''image/'' then Some IMAGE
     else if mimeType \<in> set VIDEO_MIME_TYPES then Some VIDEO
     else if mimeType \<in> set AUDIO_MIME_TYPES then Some AUDIO else None)"

definition getMediaMaxSize :: "media_kind \<Rightarrow> int" where
  "getMediaMaxSize kind = (if kind = IMAGE then MAX_IMAGE_SIZE_BYTES
     else if kind = VIDEO then MAX_VIDEO_SIZE_BYTES else MAX_AUDIO_SIZE_BYTES)"

definition getMediaStoragePrefix :: "media_kind \<Rightarrow> string" where
  "getMediaStoragePrefix kind = (if kind = IMAGE then ''images'' else if kind = VIDEO then ''videos'' else ''audio'')"

subsection \<open>Rows\<close>

text \<open>\<open>prefix/owner/id.extension\<close>.\<close>

type_synonym object_key = "string \<times> uuid \<times> uuid \<times> string"

record media =
  med_id :: uuid
  med_userId :: uuid
  med_familyId :: uuid
  med_objectKey :: object_key
  med_previewObjectKey :: "object_key option"
  med_originalName :: string
  med_mimeType :: string
  med_kind :: media_kind
  med_scope :: media_scope
  med_sizeBytes :: int
  med_createdAt :: timestamp

record upload_session =
  ups_id :: uuid
  ups_uploadId :: string
  ups_userId :: uuid
  ups_familyId :: uuid
  ups_objectKey :: object_key
  ups_originalName :: string
  ups_mimeType :: string
  ups_kind :: media_kind
  ups_scope :: media_scope
  ups_sizeBytes :: int
  ups_status :: upload_status
  ups_expiresAt :: timestamp
  ups_createdAt :: timestamp

record cleanup_task =
  clt_id :: uuid
  clt_dedupeKey :: "cleanup_action \<times> object_key \<times> string option"
  clt_action :: cleanup_action
  clt_objectKey :: object_key
  clt_uploadId :: "string option"
  clt_attempts :: nat
  clt_nextAttemptAt :: timestamp
  clt_lockedUntil :: "timestamp option"
  clt_lastError :: string

text \<open>An attachment of a media item to a message, which restricts its deletion; the attachments of the
  other services are deleted with it.\<close>

record message_media =
  mm_messageId :: uuid
  mm_mediaId :: uuid
  mm_createdAt :: timestamp

record media_db = core +
  mdb_media :: "media list"
  mdb_sessions :: "upload_session list"
  mdb_tasks :: "cleanup_task list"
  mdb_messageMedia :: "message_media list"
  mdb_bucket :: "object_key list"

record storage =
  sto_put :: "object_key \<Rightarrow> bool"
  sto_initiate :: "object_key \<Rightarrow> string option"
  sto_partUrl :: "object_key \<Rightarrow> string \<Rightarrow> nat \<Rightarrow> string option"
  sto_parts :: "object_key \<Rightarrow> string \<Rightarrow> int list option"
  sto_complete :: "object_key \<Rightarrow> string \<Rightarrow> (nat \<times> string) list \<Rightarrow> bool"
  sto_head :: "object_key \<Rightarrow> int option"
  sto_preview :: "object_key \<Rightarrow> api_error option"
  sto_delete :: "object_key \<Rightarrow> bool"
  sto_abort :: "object_key \<Rightarrow> string \<Rightarrow> bool"
  sto_url :: "object_key \<Rightarrow> string option"
  sto_stream :: "object_key \<Rightarrow> string option \<Rightarrow> int option"

subsection \<open>The storage calls\<close>

text \<open>The \<open>InternalServerErrorException\<close> of the storage service, of which only the message is read; it is
  answered with status 500 like every other unexpected error.\<close>

definition storage_error :: "string \<Rightarrow> api_error" where
  "storage_error message = PlainError message"

definition put_object :: "storage \<Rightarrow> object_key \<Rightarrow> 'a media_db_scheme \<Rightarrow> (unit, 'a media_db_scheme) resp" where
  "put_object S key s = (if sto_put S key then (Inr (), s\<lparr>mdb_bucket := key # mdb_bucket s\<rparr>)
     else (Inl (storage_error ''Media storage upload failed''), s))"

definition deleteFile :: "storage \<Rightarrow> object_key \<Rightarrow> 'a media_db_scheme \<Rightarrow> (unit, 'a media_db_scheme) resp" where
  "deleteFile S key s = (if sto_delete S key then (Inr (), s\<lparr>mdb_bucket := filter (\<lambda>k. k \<noteq> key) (mdb_bucket s)\<rparr>)
     else (Inl (storage_error ''Media storage delete failed''), s))"

definition abortMultipartUpload :: "storage \<Rightarrow> object_key \<Rightarrow> string \<Rightarrow> api_error + unit" where
  "abortMultipartUpload S key uploadId = (if sto_abort S key uploadId then Inr ()
     else Inl (storage_error ''Media multipart upload abort failed''))"

definition completeMultipartUpload ::
    "storage \<Rightarrow> object_key \<Rightarrow> string \<Rightarrow> (nat \<times> string) list \<Rightarrow> 'a media_db_scheme \<Rightarrow> (unit, 'a media_db_scheme) resp" where
  "completeMultipartUpload S key uploadId parts s =
     (if sto_complete S key uploadId (sort_key fst parts) then (Inr (), s\<lparr>mdb_bucket := key # mdb_bucket s\<rparr>)
      else (Inl (storage_error ''Media multipart upload completion failed''), s))"

definition createDownloadUrl :: "storage \<Rightarrow> object_key \<Rightarrow> api_error + string" where
  "createDownloadUrl S key = (case sto_url S key of
     None \<Rightarrow> Inl (storage_error ''Media storage URL generation failed'') | Some u \<Rightarrow> Inr u)"

subsection \<open>ObjectStorageCleanupService\<close>

definition LOCK_MS :: int where "LOCK_MS = 5 * 60 * 1000"
definition MAX_BACKOFF_MS :: int where "MAX_BACKOFF_MS = 60 * 60 * 1000"
definition CLEANUP_BATCH_SIZE :: nat where "CLEANUP_BATCH_SIZE = 100"

definition backoffMs :: "nat \<Rightarrow> int" where
  "backoffMs attempts = min MAX_BACKOFF_MS (1000 * 2 ^ min attempts 10)"

definition storage_message :: "api_error \<Rightarrow> string" where
  "storage_message e = (case e of PlainError m \<Rightarrow> take 1000 m | _ \<Rightarrow> ''Unknown object storage error'')"

text \<open>\<open>enqueue\<close>: an upsert under the unique key made of action, object and upload.\<close>

definition enqueue_cleanup ::
    "env \<Rightarrow> cleanup_action \<Rightarrow> object_key \<Rightarrow> string option \<Rightarrow> api_error \<Rightarrow> 'a media_db_scheme \<Rightarrow> 'a media_db_scheme" where
  "enqueue_cleanup E action key uploadId error s = (let dedupeKey = (action, key, uploadId) in
     if \<exists>t \<in> set (mdb_tasks s). clt_dedupeKey t = dedupeKey
     then s\<lparr>mdb_tasks := map (\<lambda>t. if clt_dedupeKey t = dedupeKey
         then t\<lparr>clt_nextAttemptAt := env_now E, clt_lockedUntil := None, clt_lastError := storage_message error\<rparr> else t)
       (mdb_tasks s)\<rparr>
     else (case fresh s of (i, s1) \<Rightarrow> s1\<lparr>mdb_tasks := mdb_tasks s1 @
       [\<lparr>clt_id = i, clt_dedupeKey = dedupeKey, clt_action = action, clt_objectKey = key, clt_uploadId = uploadId,
         clt_attempts = 0, clt_nextAttemptAt = env_now E, clt_lockedUntil = None,
         clt_lastError = storage_message error\<rparr>]\<rparr>))"

definition deleteOrEnqueue :: "env \<Rightarrow> storage \<Rightarrow> object_key \<Rightarrow> 'a media_db_scheme \<Rightarrow> 'a media_db_scheme" where
  "deleteOrEnqueue E S key s = (case deleteFile S key s of (Inr _, s1) \<Rightarrow> s1
     | (Inl e, s1) \<Rightarrow> enqueue_cleanup E DELETE_OBJECT key None e s1)"

definition abortOrEnqueue :: "env \<Rightarrow> storage \<Rightarrow> object_key \<Rightarrow> string \<Rightarrow> 'a media_db_scheme \<Rightarrow> 'a media_db_scheme" where
  "abortOrEnqueue E S key uploadId s = (case abortMultipartUpload S key uploadId of Inr _ \<Rightarrow> s
     | Inl e \<Rightarrow> enqueue_cleanup E ABORT_MULTIPART_UPLOAD key (Some uploadId) e s)"

definition update_sessions ::
    "(upload_session \<Rightarrow> bool) \<Rightarrow> upload_status \<Rightarrow> 'a media_db_scheme \<Rightarrow> nat \<times> 'a media_db_scheme" where
  "update_sessions P st s = (fst (update_many P (\<lambda>x. x\<lparr>ups_status := st\<rparr>) (mdb_sessions s)),
     s\<lparr>mdb_sessions := snd (update_many P (\<lambda>x. x\<lparr>ups_status := st\<rparr>) (mdb_sessions s))\<rparr>)"

definition session_expired :: "timestamp \<Rightarrow> upload_session \<Rightarrow> bool" where
  "session_expired now x \<longleftrightarrow> ups_status x = INITIATED \<and> ups_expiresAt x \<le> now"

fun abort_each :: "env \<Rightarrow> storage \<Rightarrow> upload_session list \<Rightarrow> nat \<Rightarrow> 'a media_db_scheme \<Rightarrow> nat \<times> 'a media_db_scheme" where
  "abort_each E S [] aborted s = (aborted, s)"
| "abort_each E S (x # rest) aborted s =
    (case update_sessions (\<lambda>y. ups_id y = ups_id x \<and> session_expired (env_now E) y) ABORTED s of
       (count, s1) \<Rightarrow> if count \<noteq> 1 then abort_each E S rest aborted s1
         else abort_each E S rest (aborted + 1) (abortOrEnqueue E S (ups_objectKey x) (ups_uploadId x) s1))"

definition cleanupExpiredMultipartUploads ::
    "env \<Rightarrow> storage \<Rightarrow> int \<Rightarrow> 'a media_db_scheme \<Rightarrow> (nat \<times> nat) \<times> 'a media_db_scheme" where
  "cleanupExpiredMultipartUploads E S retentionMs s = (
     case abort_each E S (take CLEANUP_BATCH_SIZE (sort_key ups_expiresAt
         (filter (session_expired (env_now E)) (mdb_sessions s)))) 0 s of
       (aborted, s1) \<Rightarrow> (case delete_many (\<lambda>x. ups_status x \<noteq> INITIATED
           \<and> ups_createdAt x \<le> env_now E - retentionMs) (mdb_sessions s1) of
         (purged, xs) \<Rightarrow> ((aborted, purged), s1\<lparr>mdb_sessions := xs\<rparr>)))"

definition task_due :: "timestamp \<Rightarrow> cleanup_task \<Rightarrow> bool" where
  "task_due now t \<longleftrightarrow> clt_nextAttemptAt t \<le> now
     \<and> (case clt_lockedUntil t of None \<Rightarrow> True | Some u \<Rightarrow> u \<le> now)"

definition run_task :: "storage \<Rightarrow> cleanup_task \<Rightarrow> 'a media_db_scheme \<Rightarrow> (unit, 'a media_db_scheme) resp" where
  "run_task S t s = (if clt_action t = DELETE_OBJECT then deleteFile S (clt_objectKey t) s
     else (case clt_uploadId t of None \<Rightarrow> (Inr (), s)
       | Some u \<Rightarrow> if u = [] then (Inr (), s) else (abortMultipartUpload S (clt_objectKey t) u, s)))"

definition retry_task :: "timestamp \<Rightarrow> nat \<Rightarrow> api_error \<Rightarrow> cleanup_task \<Rightarrow> cleanup_task" where
  "retry_task now attempts error t = t\<lparr>clt_attempts := attempts, clt_nextAttemptAt := now + backoffMs attempts,
     clt_lockedUntil := None, clt_lastError := storage_message error\<rparr>"

text \<open>One task of a run: claimed, tried, and deleted or rescheduled.\<close>

definition process_task ::
    "env \<Rightarrow> storage \<Rightarrow> cleanup_task \<Rightarrow> 'a media_db_scheme \<Rightarrow> bool option \<times> 'a media_db_scheme" where
  "process_task E S t s = (let now = env_now E in
     case update_many (\<lambda>x. clt_id x = clt_id t \<and> task_due now x) (\<lambda>x. x\<lparr>clt_lockedUntil := Some (now + LOCK_MS)\<rparr>)
         (mdb_tasks s) of
       (count, ts) \<Rightarrow> if count \<noteq> 1 then (None, s\<lparr>mdb_tasks := ts\<rparr>) else
         (case run_task S t (s\<lparr>mdb_tasks := ts\<rparr>) of
           (Inr _, s1) \<Rightarrow> (Some True, s1\<lparr>mdb_tasks := filter (\<lambda>x. clt_id x \<noteq> clt_id t) (mdb_tasks s1)\<rparr>)
         | (Inl e, s1) \<Rightarrow> (Some False, s1\<lparr>mdb_tasks := map (\<lambda>x. if clt_id x = clt_id t
               then retry_task now (clt_attempts t + 1) e x else x) (mdb_tasks s1)\<rparr>)))"

fun process_each ::
    "env \<Rightarrow> storage \<Rightarrow> cleanup_task list \<Rightarrow> nat \<times> nat \<Rightarrow> 'a media_db_scheme \<Rightarrow> (nat \<times> nat) \<times> 'a media_db_scheme" where
  "process_each E S [] n s = (n, s)"
| "process_each E S (t # rest) (completed, retried) s = (case process_task E S t s of
     (None, s1) \<Rightarrow> process_each E S rest (completed, retried) s1
   | (Some True, s1) \<Rightarrow> process_each E S rest (completed + 1, retried) s1
   | (Some False, s1) \<Rightarrow> process_each E S rest (completed, retried + 1) s1)"

definition processDue :: "env \<Rightarrow> storage \<Rightarrow> 'a media_db_scheme \<Rightarrow> (nat \<times> nat) \<times> 'a media_db_scheme" where
  "processDue E S s = process_each E S (take CLEANUP_BATCH_SIZE (sort_key clt_nextAttemptAt
     (filter (task_due (env_now E)) (mdb_tasks s)))) (0, 0) s"

subsection \<open>MediaService\<close>

text \<open>\<open>extname\<close> of \<open>node:path\<close>, then lower case and only letters, digits and dots.\<close>

definition base_name :: "string \<Rightarrow> string" where
  "base_name path = rev (takeWhile (\<lambda>c. c \<noteq> CHR ''/'') (dropWhile (\<lambda>c. c = CHR ''/'') (rev path)))"

definition extname :: "string \<Rightarrow> string" where
  "extname path = (let base = base_name path; stem = rev (tl (dropWhile (\<lambda>c. c \<noteq> CHR ''.'') (rev base))) in
     if CHR ''.'' \<notin> set base \<or> stem = [] \<or> base = ''..'' then [] else drop (length stem) base)"

definition extension_of :: "string \<Rightarrow> string" where
  "extension_of name = filter (\<lambda>c. let n = (of_char c :: nat) in (97 \<le> n \<and> n \<le> 122) \<or> (48 \<le> n \<and> n \<le> 57) \<or> c = CHR ''.'')
     (js_lower (extname name))"

record media_response =
  mer_id :: uuid
  mer_userId :: uuid
  mer_originalName :: string
  mer_mimeType :: string
  mer_kind :: media_kind
  mer_scope :: media_scope
  mer_sizeBytes :: int
  mer_createdAt :: timestamp
  mer_downloadUrl :: string
  mer_previewUrl :: "string option"

definition media_toResponse :: "storage \<Rightarrow> media \<Rightarrow> api_error + media_response" where
  "media_toResponse S m = (case createDownloadUrl S (med_objectKey m) of Inl e \<Rightarrow> Inl e
   | Inr downloadUrl \<Rightarrow>
     (let response = (\<lambda>previewUrl. \<lparr>mer_id = med_id m, mer_userId = med_userId m, mer_originalName = med_originalName m,
        mer_mimeType = med_mimeType m, mer_kind = med_kind m, mer_scope = med_scope m, mer_sizeBytes = med_sizeBytes m,
        mer_createdAt = med_createdAt m, mer_downloadUrl = downloadUrl, mer_previewUrl = previewUrl\<rparr>) in
      case med_previewObjectKey m of None \<Rightarrow> Inr (response None)
      | Some k \<Rightarrow> (case createDownloadUrl S k of Inl e \<Rightarrow> Inl e | Inr u \<Rightarrow> Inr (response (Some u)))))"

text \<open>\<open>Promise.all(items.map(...))\<close>: the first error, or all results.\<close>

fun all_ok :: "('a \<Rightarrow> api_error + 'b) \<Rightarrow> 'a list \<Rightarrow> api_error + 'b list" where
  "all_ok f [] = Inr []"
| "all_ok f (x # xs) = (case f x of Inl e \<Rightarrow> Inl e
     | Inr y \<Rightarrow> (case all_ok f xs of Inl e \<Rightarrow> Inl e | Inr ys \<Rightarrow> Inr (y # ys)))"

definition size_error :: "media_kind \<Rightarrow> api_error" where
  "size_error kind = BadRequest (''File exceeds the '' @ (if kind = IMAGE then ''10 MB image''
     else if kind = VIDEO then ''500 MB video'' else ''100 MB audio'') @ '' size limit'')"

text \<open>The unique columns of a media row are its id and its object key.\<close>

definition insert_media :: "media \<Rightarrow> 'a media_db_scheme \<Rightarrow> (unit, 'a media_db_scheme) resp" where
  "insert_media m s = (if \<exists>x \<in> set (mdb_media s). med_id x = med_id m \<or> med_objectKey x = med_objectKey m
     then (Inl P2002, s) else (Inr (), s\<lparr>mdb_media := mdb_media s @ [m]\<rparr>))"

text \<open>The preview: the image library may throw, then the object is stored.\<close>

definition make_preview :: "storage \<Rightarrow> object_key \<Rightarrow> object_key \<Rightarrow> 'a media_db_scheme \<Rightarrow> (unit, 'a media_db_scheme) resp" where
  "make_preview S source key s = (case sto_preview S source of Some e \<Rightarrow> (Inl e, s) | None \<Rightarrow> put_object S key s)"

record uploaded_file =
  uf_originalName :: string
  uf_mimeType :: string
  uf_size :: int

definition media_create ::
    "env \<Rightarrow> storage \<Rightarrow> uuid \<Rightarrow> uploaded_file \<Rightarrow> 'a media_db_scheme \<Rightarrow> (media_response, 'a media_db_scheme) resp" where
  "media_create E S userId file s = (case getMediaKind (uf_mimeType file) of
     None \<Rightarrow> (Inl (BadRequest ''Unsupported image, video or audio format''), s)
   | Some kind \<Rightarrow> if uf_size file > getMediaMaxSize kind then (Inl (size_error kind), s) else
     (case requireMembership userId s of Inl e \<Rightarrow> (Inl e, s)
     | Inr ctx \<Rightarrow> (case fresh s of (mediaId, s1) \<Rightarrow>
       let familyId = ctx_familyId ctx;
           objectKey = (getMediaStoragePrefix kind, familyId, mediaId, extension_of (uf_originalName file));
           preview = (if kind = IMAGE then Some (''previews'', familyId, mediaId, ''.webp'') else None);
           m = \<lparr>med_id = mediaId, med_userId = userId, med_familyId = familyId, med_objectKey = objectKey,
             med_previewObjectKey = preview, med_originalName = uf_originalName file, med_mimeType = uf_mimeType file,
             med_kind = kind, med_scope = ALBUM, med_sizeBytes = uf_size file, med_createdAt = env_now E\<rparr>;
           clean = (\<lambda>k s. deleteOrEnqueue E S k s) in
       case put_object S objectKey s1 of (Inl e, s2) \<Rightarrow> (Inl e, clean objectKey s2)
       | (Inr _, s2) \<Rightarrow>
       (case (case preview of None \<Rightarrow> (Inr (), s2) | Some k \<Rightarrow> make_preview S objectKey k s2) of
         (Inl e, s3) \<Rightarrow> (Inl e, (case preview of None \<Rightarrow> id | Some k \<Rightarrow> clean k) (clean objectKey s3))
       | (Inr _, s3) \<Rightarrow> (case insert_media m s3 of
           (Inl e, s4) \<Rightarrow> (Inl e, (case preview of None \<Rightarrow> id | Some k \<Rightarrow> clean k) (clean objectKey s4))
         | (Inr _, s4) \<Rightarrow> (media_toResponse S m, s4))))))"

record upload_init =
  ui_originalName :: string
  ui_mimeType :: string
  ui_sizeBytes :: int
  ui_scope :: "media_scope option"

record upload_response =
  upr_sessionId :: uuid
  upr_objectKey :: object_key
  upr_partSizeBytes :: int
  upr_parts :: "(nat \<times> string) list"
  upr_expiresAt :: timestamp

definition part_count :: "int \<Rightarrow> nat" where
  "part_count sizeBytes = nat (- ((- sizeBytes) div MEDIA_UPLOAD_PART_SIZE_BYTES))"

definition part_url :: "storage \<Rightarrow> object_key \<Rightarrow> string \<Rightarrow> nat \<Rightarrow> api_error + nat \<times> string" where
  "part_url S key uploadId partNumber = (case sto_partUrl S key uploadId partNumber of
     None \<Rightarrow> Inl (storage_error ''Media part URL generation failed'') | Some u \<Rightarrow> Inr (partNumber, u))"

definition initiateUpload ::
    "env \<Rightarrow> storage \<Rightarrow> uuid \<Rightarrow> upload_init \<Rightarrow> 'a media_db_scheme \<Rightarrow> (upload_response, 'a media_db_scheme) resp" where
  "initiateUpload E S userId input s = (case getMediaKind (ui_mimeType input) of
     None \<Rightarrow> (Inl (BadRequest ''Unsupported image, video or audio format''), s)
   | Some kind \<Rightarrow> if ui_sizeBytes input > getMediaMaxSize kind then (Inl (size_error kind), s) else
     (case requireMembership userId s of Inl e \<Rightarrow> (Inl e, s)
     | Inr ctx \<Rightarrow> (case fresh s of (sessionId, s1) \<Rightarrow>
       let objectKey = (getMediaStoragePrefix kind, ctx_familyId ctx, sessionId, extension_of (ui_originalName input));
           expiresAt = env_now E + MEDIA_UPLOAD_URL_EXPIRES_IN * 1000 in
       case sto_initiate S objectKey of
         None \<Rightarrow> (Inl (storage_error ''Media multipart upload initiation failed''), s1)
       | Some uploadId \<Rightarrow>
         if \<exists>x \<in> set (mdb_sessions s1). ups_uploadId x = uploadId
         then (Inl P2002, abortOrEnqueue E S objectKey uploadId s1) else
         let x = \<lparr>ups_id = sessionId, ups_uploadId = uploadId, ups_userId = userId, ups_familyId = ctx_familyId ctx,
               ups_objectKey = objectKey, ups_originalName = ui_originalName input, ups_mimeType = ui_mimeType input,
               ups_kind = kind, ups_scope = (case ui_scope input of None \<Rightarrow> ALBUM | Some c \<Rightarrow> c),
               ups_sizeBytes = ui_sizeBytes input, ups_status = INITIATED, ups_expiresAt = expiresAt,
               ups_createdAt = env_now E\<rparr> in
         (case all_ok (part_url S objectKey uploadId) [1..<part_count (ui_sizeBytes input) + 1] of
            Inl e \<Rightarrow> (Inl e, abortOrEnqueue E S objectKey uploadId s1)
          | Inr parts \<Rightarrow> (Inr \<lparr>upr_sessionId = sessionId, upr_objectKey = objectKey,
                upr_partSizeBytes = MEDIA_UPLOAD_PART_SIZE_BYTES, upr_parts = parts, upr_expiresAt = expiresAt\<rparr>,
              s1\<lparr>mdb_sessions := mdb_sessions s1 @ [x]\<rparr>)))))"

definition find_session :: "uuid \<Rightarrow> uuid \<Rightarrow> uuid \<Rightarrow> 'a media_db_scheme \<Rightarrow> upload_session option" where
  "find_session i userId familyId s =
     find_first (\<lambda>x. ups_id x = i \<and> ups_userId x = userId \<and> ups_familyId x = familyId) (mdb_sessions s)"

definition getUploadStatus ::
    "storage \<Rightarrow> uuid \<Rightarrow> uuid \<Rightarrow> 'a media_db_scheme \<Rightarrow> api_error + upload_status \<times> int \<times> int" where
  "getUploadStatus S userId sessionId s = (case requireMembership userId s of Inl e \<Rightarrow> Inl e
   | Inr ctx \<Rightarrow> (case find_session sessionId userId (ctx_familyId ctx) s of
       None \<Rightarrow> Inl (NotFound ''Upload session not found'')
     | Some x \<Rightarrow> if ups_status x \<noteq> INITIATED then Inr (ups_status x, 0, ups_sizeBytes x) else
         (case sto_parts S (ups_objectKey x) (ups_uploadId x) of
            None \<Rightarrow> Inl (storage_error ''Media multipart upload status failed'')
          | Some sizes \<Rightarrow> Inr (ups_status x, sum_list sizes, ups_sizeBytes x))))"

definition set_session_status :: "uuid \<Rightarrow> upload_status \<Rightarrow> 'a media_db_scheme \<Rightarrow> 'a media_db_scheme" where
  "set_session_status i st s = snd (update_sessions (\<lambda>x. ups_id x = i) st s)"

text \<open>The row made of a session, and what happens to the stored object.\<close>

definition media_of_session :: "env \<Rightarrow> upload_session \<Rightarrow> object_key option \<Rightarrow> media" where
  "media_of_session E x preview = \<lparr>med_id = ups_id x, med_userId = ups_userId x, med_familyId = ups_familyId x,
     med_objectKey = ups_objectKey x, med_previewObjectKey = preview, med_originalName = ups_originalName x,
     med_mimeType = ups_mimeType x, med_kind = ups_kind x, med_scope = ups_scope x, med_sizeBytes = ups_sizeBytes x,
     med_createdAt = env_now E\<rparr>"

definition completeUpload ::
    "env \<Rightarrow> storage \<Rightarrow> uuid \<Rightarrow> uuid \<Rightarrow> (nat \<times> string) list \<Rightarrow> 'a media_db_scheme
       \<Rightarrow> (media_response, 'a media_db_scheme) resp" where
  "completeUpload E S userId sessionId parts s = (case requireMembership userId s of Inl e \<Rightarrow> (Inl e, s)
   | Inr ctx \<Rightarrow> (case find_session sessionId userId (ctx_familyId ctx) s of
       None \<Rightarrow> (Inl (NotFound ''Upload session not found or expired''), s)
     | Some x \<Rightarrow>
       if ups_status x \<noteq> INITIATED \<or> ups_expiresAt x < env_now E
       then (Inl (NotFound ''Upload session not found or expired''), s) else
       and_then (completeMultipartUpload S (ups_objectKey x) (ups_uploadId x) parts s) (\<lambda>_ s1.
       case sto_head S (ups_objectKey x) of None \<Rightarrow> (Inl (storage_error ''Media metadata lookup failed''), s1)
       | Some contentLength \<Rightarrow>
         if contentLength \<noteq> ups_sizeBytes x
         then (Inl (BadRequest ''Uploaded object size does not match the declared size''),
           set_session_status (ups_id x) UPLOAD_FAILED (deleteOrEnqueue E S (ups_objectKey x) s1)) else
         let preview = (if ups_kind x = IMAGE then Some (''previews'', ctx_familyId ctx, ups_id x, ''.webp'') else None);
             m = media_of_session E x preview;
             failed = (\<lambda>s. set_session_status (ups_id x) UPLOAD_FAILED (deleteOrEnqueue E S (ups_objectKey x)
               ((case preview of None \<Rightarrow> id | Some k \<Rightarrow> deleteOrEnqueue E S k) s))) in
         (case (case preview of None \<Rightarrow> (Inr (), s1) | Some k \<Rightarrow> make_preview S (ups_objectKey x) k s1) of
            (Inl e, s2) \<Rightarrow> (Inl e, failed s2)
          | (Inr _, s2) \<Rightarrow> (case transaction s2 (and_then (insert_media m s2)
                (\<lambda>_ s3. (Inr (), set_session_status (ups_id x) COMPLETED s3))) of
              (Inl e, s3) \<Rightarrow> (Inl e, failed s3)
            | (Inr _, s3) \<Rightarrow> (media_toResponse S m, s3))))))"

definition abortUpload :: "env \<Rightarrow> storage \<Rightarrow> uuid \<Rightarrow> uuid \<Rightarrow> 'a media_db_scheme \<Rightarrow> (unit, 'a media_db_scheme) resp" where
  "abortUpload E S userId sessionId s = (case requireMembership userId s of Inl e \<Rightarrow> (Inl e, s)
   | Inr ctx \<Rightarrow> (case find_session sessionId userId (ctx_familyId ctx) s of
       None \<Rightarrow> (Inl (NotFound ''Upload session not found''), s)
     | Some x \<Rightarrow> if ups_status x \<noteq> INITIATED then (Inl (NotFound ''Upload session not found''), s)
         else (Inr (), abortOrEnqueue E S (ups_objectKey x) (ups_uploadId x) (set_session_status (ups_id x) ABORTED s))))"

definition media_findOne :: "storage \<Rightarrow> uuid \<Rightarrow> uuid \<Rightarrow> 'a media_db_scheme \<Rightarrow> api_error + media_response" where
  "media_findOne S userId i s = (case requireMembership userId s of Inl e \<Rightarrow> Inl e
   | Inr ctx \<Rightarrow> (case find_first (\<lambda>m. med_id m = i \<and> med_familyId m = ctx_familyId ctx \<and> med_scope m = ALBUM) (mdb_media s) of
       None \<Rightarrow> Inl (NotFound ''Media not found'') | Some m \<Rightarrow> media_toResponse S m))"

definition findManyByIds :: "storage \<Rightarrow> uuid \<Rightarrow> uuid list \<Rightarrow> 'a media_db_scheme \<Rightarrow> api_error + media_response list" where
  "findManyByIds S userId ids s = (case requireMembership userId s of Inl e \<Rightarrow> Inl e
   | Inr ctx \<Rightarrow> let uniqueIds = remdups ids in
     if uniqueIds = [] then Inr [] else
     let found = sort_key (\<lambda>m. (med_createdAt m, med_id m))
           (filter (\<lambda>m. med_familyId m = ctx_familyId ctx \<and> med_id m \<in> set uniqueIds) (mdb_media s)) in
     if length found \<noteq> length uniqueIds then Inl (NotFound ''Media not found'') else all_ok (media_toResponse S) found)"

record media_query = page_query +
  mq_name :: "string option"
  mq_dateFrom :: "timestamp option"
  mq_dateTo :: "timestamp option"

definition media_findMany ::
    "storage \<Rightarrow> uuid \<Rightarrow> media_query \<Rightarrow> 'a media_db_scheme \<Rightarrow> api_error + page_meta \<times> media_response list" where
  "media_findMany S userId q s = (case requireMembership userId s of Inl e \<Rightarrow> Inl e
   | Inr ctx \<Rightarrow>
     let matching = filter (\<lambda>m. med_familyId m = ctx_familyId ctx \<and> med_scope m = ALBUM
           \<and> (case trim_or_null (mq_name q) of None \<Rightarrow> True | Some n \<Rightarrow> occurs_in (js_lower n) (js_lower (med_originalName m)))
           \<and> (case mq_dateFrom q of None \<Rightarrow> True | Some t \<Rightarrow> med_createdAt m \<ge> t)
           \<and> (case mq_dateTo q of None \<Rightarrow> True | Some t \<Rightarrow> med_createdAt m \<le> t)) (mdb_media s)
     in (case all_ok (media_toResponse S) (page_of (pq_page q) (pq_limit q)
           (rev (sort_key (\<lambda>m. (med_createdAt m, med_id m)) matching))) of
         Inl e \<Rightarrow> Inl e
       | Inr rows \<Rightarrow> Inr (paginationMeta (length matching) (pq_page q) (pq_limit q), rows)))"

text \<open>A media item that is attached to a message cannot be deleted (\<open>P2003\<close>).\<close>

definition media_remove :: "env \<Rightarrow> storage \<Rightarrow> uuid \<Rightarrow> uuid \<Rightarrow> 'a media_db_scheme \<Rightarrow> (unit, 'a media_db_scheme) resp" where
  "media_remove E S userId i s = (case requireMembership userId s of Inl e \<Rightarrow> (Inl e, s)
   | Inr ctx \<Rightarrow> (case find_first (\<lambda>m. med_id m = i \<and> med_userId m = userId \<and> med_familyId m = ctx_familyId ctx
         \<and> med_scope m = ALBUM) (mdb_media s) of
       None \<Rightarrow> (Inl (NotFound ''Media not found''), s)
     | Some m \<Rightarrow>
       if \<exists>a \<in> set (mdb_messageMedia s). mm_mediaId a = med_id m then (Inl (PrismaError ''P2003''), s) else
       let s1 = s\<lparr>mdb_media := filter (\<lambda>x. med_id x \<noteq> med_id m) (mdb_media s)\<rparr>;
           s2 = deleteOrEnqueue E S (med_objectKey m) s1
       in (Inr (), (case med_previewObjectKey m of None \<Rightarrow> id | Some k \<Rightarrow> deleteOrEnqueue E S k) s2)))"

definition media_stream ::
    "storage \<Rightarrow> uuid \<Rightarrow> uuid \<Rightarrow> string option \<Rightarrow> bool \<Rightarrow> media_kind option \<Rightarrow> media_scope option \<Rightarrow> 'a media_db_scheme
       \<Rightarrow> api_error + int \<times> string \<times> string \<times> bool" where
  "media_stream S userId i byteRange download expectedKind expectedScope s = (case requireMembership userId s of
     Inl e \<Rightarrow> Inl e
   | Inr ctx \<Rightarrow> (case find_first (\<lambda>m. med_id m = i \<and> med_familyId m = ctx_familyId ctx
         \<and> (case expectedScope of None \<Rightarrow> True | Some c \<Rightarrow> med_scope m = c)) (mdb_media s) of
       None \<Rightarrow> Inl (NotFound ''Media not found'')
     | Some m \<Rightarrow>
       if (case expectedKind of None \<Rightarrow> False | Some k \<Rightarrow> med_kind m \<noteq> k)
         \<or> (case expectedScope of None \<Rightarrow> False | Some c \<Rightarrow> med_scope m \<noteq> c)
       then Inl (NotFound ''Media not found'') else
       (case sto_stream S (med_objectKey m) byteRange of None \<Rightarrow> Inl (storage_error ''Media streaming failed'')
        | Some contentLength \<Rightarrow> Inr (contentLength, med_mimeType m, med_originalName m, download))))"

end
