(* ===== verification/FamilyEvents.thy ===== *)
theory FamilyEvents
  imports Media Tasks
begin

text \<open>
  The events of a family: \<open>modules/family-events\<close> (proposing, changing, answering and cancelling an event,
  its attachments, its reminders and the status shown to the client) and the job of
  \<open>common/maintenance/maintenance.service.ts\<close> that delivers the reminders.

  The tables extend those of the media service, whose items can be attached to an event.  As for tasks,
  the members are notified after the event is written and not in the same transaction.  Besides the
  hour and minute of \<open>env\<close> the code asks \<open>Intl.DateTimeFormat\<close> for the second of an instant in a zone:
  the argument \<open>sec\<close>.
\<close>

subsection \<open>Rows and requests\<close>

datatype event_decision = EventProposed | EventConfirmed | EventRejected

record family_event =
  fev_id :: uuid
  fev_familyId :: uuid
  fev_childId :: "uuid option"
  fev_proposedById :: uuid
  fev_respondedById :: "uuid option"
  fev_deletedById :: "uuid option"
  fev_name :: string
  fev_description :: "string option"
  fev_scheduledAt :: timestamp
  fev_location :: string
  fev_reminderOffsetMinutes :: "int option"
  fev_reminderRecipientIds :: "uuid list"
  fev_reminderAt :: "timestamp option"
  fev_reminderSentAt :: "timestamp option"
  fev_repeatReminderAt :: "timestamp option"
  fev_repeatReminderSentAt :: "timestamp option"
  fev_status :: event_decision
  fev_respondedAt :: "timestamp option"
  fev_deletedAt :: "timestamp option"
  fev_version :: int
  fev_createdAt :: timestamp
  fev_updatedAt :: timestamp

record event_media =
  fem_eventId :: uuid
  fem_mediaId :: uuid
  fem_createdAt :: timestamp

record events_db = media_db +
  edb_events :: "family_event list"
  edb_eventMedia :: "event_media list"
  edb_children :: "child_ref list"

text \<open>The reminder fields are the same in both requests: absent, an explicit \<open>null\<close>, or a value.\<close>

record reminder_dto =
  rdto_offset :: "int option option"
  rdto_recipients :: "uuid list option option"
  rdto_repeatAt :: "timestamp option option"

record create_event_dto = reminder_dto +
  ce_childId :: "uuid option"
  ce_name :: string
  ce_description :: "string option"
  ce_scheduledAt :: timestamp
  ce_location :: string

text \<open>The validator \<open>IsOptional\<close> of \<open>description\<close> lets an explicit \<open>null\<close> through.\<close>

record update_event_dto = reminder_dto +
  ue_childId :: "uuid option option"
  ue_name :: "string option"
  ue_description :: "string option option"
  ue_scheduledAt :: "timestamp option"
  ue_location :: "string option"

subsection \<open>Local dates\<close>

definition zonedPartsTimestamp ::
    "env \<Rightarrow> (timestamp \<Rightarrow> string \<Rightarrow> int) \<Rightarrow> timestamp \<Rightarrow> string \<Rightarrow> api_error + timestamp" where
  "zonedPartsTimestamp E sec date timeZone = (case env_localParts E date timeZone of
     None \<Rightarrow> Inl range_error
   | Some p \<Rightarrow> Inr (date_UTC p + sec date timeZone * 1000))"

definition localDateStartUtc ::
    "env \<Rightarrow> (timestamp \<Rightarrow> string \<Rightarrow> int) \<Rightarrow> ymd \<Rightarrow> string \<Rightarrow> api_error + timestamp" where
  "localDateStartUtc E sec date timeZone = (
     let utcMidnight = make_day (ymd_year date) (ymd_month date - 1) (ymd_day date) * ms_per_day in
     case zonedPartsTimestamp E sec utcMidnight timeZone of Inl e \<Rightarrow> Inl e
     | Inr z \<Rightarrow> let candidate = utcMidnight - (z - utcMidnight) in
         (case zonedPartsTimestamp E sec candidate timeZone of Inl e \<Rightarrow> Inl e
          | Inr z' \<Rightarrow> Inr (candidate - (z' - utcMidnight))))"

text \<open>The numeric year and the two-digit month and day, joined by hyphens; keys are compared as strings.\<close>

definition digit :: "nat \<Rightarrow> char" where
  "digit n = char_of (48 + n)"

fun decimal :: "nat \<Rightarrow> string" where
  "decimal n = (if n < 10 then [digit n] else decimal (n div 10) @ [digit (n mod 10)])"

declare decimal.simps [simp del]

definition two_digits :: "nat \<Rightarrow> string" where
  "two_digits n = [digit (n div 10), digit (n mod 10)]"

definition localDateKey :: "env \<Rightarrow> timestamp \<Rightarrow> string \<Rightarrow> api_error + string" where
  "localDateKey E date timeZone = (case env_localParts E date timeZone of None \<Rightarrow> Inl range_error
   | Some p \<Rightarrow> Inr (decimal (nat (lp_year p)) @ ''-'' @ two_digits (nat (lp_month p)) @ ''-'' @ two_digits (nat (lp_day p))))"

datatype event_status = StatusProposed | StatusConfirmed | StatusRejected | StatusEventDay | StatusCompleted

definition resolveFamilyEventStatus ::
    "env \<Rightarrow> event_decision \<Rightarrow> timestamp \<Rightarrow> timestamp \<Rightarrow> string \<Rightarrow> api_error + event_status" where
  "resolveFamilyEventStatus E decisionStatus scheduledAt now timeZone =
    (if decisionStatus = EventProposed then Inr StatusProposed
     else if decisionStatus = EventRejected then Inr StatusRejected
     else case localDateKey E scheduledAt timeZone of Inl e \<Rightarrow> Inl e
     | Inr eventDay \<Rightarrow> (case localDateKey E now timeZone of Inl e \<Rightarrow> Inl e
       | Inr currentDay \<Rightarrow> Inr (if eventDay = currentDay then StatusEventDay
           else if eventDay < currentDay then StatusCompleted else StatusConfirmed)))"

subsection \<open>The response\<close>

text \<open>The users are shown with the columns of the shared user row.\<close>

record event_response =
  evr_id :: uuid
  evr_familyId :: uuid
  evr_childId :: "uuid option"
  evr_name :: string
  evr_description :: "string option"
  evr_scheduledAt :: timestamp
  evr_location :: string
  evr_reminderOffsetMinutes :: "int option"
  evr_reminderRecipientIds :: "uuid list"
  evr_repeatReminderAt :: "timestamp option"
  evr_status :: event_status
  evr_proposedBy :: "user option"
  evr_respondedBy :: "user option"
  evr_respondedAt :: "timestamp option"
  evr_version :: int
  evr_createdAt :: timestamp
  evr_updatedAt :: timestamp
  evr_mediaIds :: "uuid list"

definition event_mediaIds :: "uuid \<Rightarrow> events_db \<Rightarrow> uuid list" where
  "event_mediaIds eventId s = map fem_mediaId
     (sort_key fem_createdAt (filter (\<lambda>a. fem_eventId a = eventId) (edb_eventMedia s)))"

definition event_fromEntity :: "env \<Rightarrow> events_db \<Rightarrow> string \<Rightarrow> family_event \<Rightarrow> api_error + event_response" where
  "event_fromEntity E s timeZone e =
    (case resolveFamilyEventStatus E (fev_status e) (fev_scheduledAt e) (env_now E) timeZone of Inl x \<Rightarrow> Inl x
     | Inr status \<Rightarrow> Inr \<lparr>evr_id = fev_id e, evr_familyId = fev_familyId e, evr_childId = fev_childId e,
         evr_name = fev_name e, evr_description = fev_description e, evr_scheduledAt = fev_scheduledAt e,
         evr_location = fev_location e, evr_reminderOffsetMinutes = fev_reminderOffsetMinutes e,
         evr_reminderRecipientIds = fev_reminderRecipientIds e, evr_repeatReminderAt = fev_repeatReminderAt e,
         evr_status = status, evr_proposedBy = find_user (fev_proposedById e) s,
         evr_respondedBy = (case fev_respondedById e of None \<Rightarrow> None | Some u \<Rightarrow> find_user u s),
         evr_respondedAt = fev_respondedAt e, evr_version = fev_version e, evr_createdAt = fev_createdAt e,
         evr_updatedAt = fev_updatedAt e, evr_mediaIds = event_mediaIds (fev_id e) s\<rparr>)"

subsection \<open>Checks and writes\<close>

definition event_in :: "uuid \<Rightarrow> uuid \<Rightarrow> family_event \<Rightarrow> bool" where
  "event_in eventId familyId e \<longleftrightarrow> fev_id e = eventId \<and> fev_familyId e = familyId \<and> fev_deletedAt e = None"

definition find_event :: "uuid \<Rightarrow> uuid \<Rightarrow> events_db \<Rightarrow> family_event option" where
  "find_event eventId familyId s = find_first (event_in eventId familyId) (edb_events s)"

definition events_ensureFamilyChild :: "uuid \<Rightarrow> uuid option option \<Rightarrow> events_db \<Rightarrow> api_error + unit" where
  "events_ensureFamilyChild familyId c s = (case c of None \<Rightarrow> Inr () | Some None \<Rightarrow> Inr ()
   | Some (Some i) \<Rightarrow> (case find_first (\<lambda>x. child_id x = i \<and> child_familyId x = familyId) (edb_children s) of
       None \<Rightarrow> Inl (Forbidden ''Child must belong to the family'') | Some _ \<Rightarrow> Inr ()))"

record reminder_settings =
  rst_offset :: "int option"
  rst_recipients :: "uuid list"
  rst_at :: "timestamp option"
  rst_repeatAt :: "timestamp option"

definition outside_window :: "timestamp \<Rightarrow> timestamp \<Rightarrow> timestamp option \<Rightarrow> bool" where
  "outside_window now scheduledAt t = (case t of None \<Rightarrow> False | Some x \<Rightarrow> x \<le> now \<or> x \<ge> scheduledAt)"

definition resolveReminderSettings ::
    "env \<Rightarrow> uuid \<Rightarrow> 'a reminder_dto_scheme \<Rightarrow> timestamp \<Rightarrow> family_event option \<Rightarrow> events_db
       \<Rightarrow> api_error + reminder_settings" where
  "resolveReminderSettings E familyId dto scheduledAt current s = (
     let offset = (case rdto_offset dto of
           None \<Rightarrow> (case current of None \<Rightarrow> None | Some c \<Rightarrow> fev_reminderOffsetMinutes c) | Some v \<Rightarrow> v);
         repeatAt = (case rdto_repeatAt dto of
           None \<Rightarrow> (case current of None \<Rightarrow> None | Some c \<Rightarrow> fev_repeatReminderAt c) | Some v \<Rightarrow> v);
         recipients = (case rdto_recipients dto of
           None \<Rightarrow> (case current of None \<Rightarrow> [] | Some c \<Rightarrow> fev_reminderRecipientIds c)
         | Some None \<Rightarrow> [] | Some (Some v) \<Rightarrow> v);
         at = map_option (\<lambda>m. scheduledAt - m * 60000) offset
     in if offset = None \<and> repeatAt = None then
          Inr \<lparr>rst_offset = None, rst_recipients = [], rst_at = None, rst_repeatAt = None\<rparr>
        else if recipients = [] then
          Inl (BadRequest ''Reminder recipients are required when a reminder is configured'')
        else if outside_window (env_now E) scheduledAt at then
          Inl (BadRequest ''The first reminder must be in the future and before the event'')
        else if outside_window (env_now E) scheduledAt repeatAt then
          Inl (BadRequest ''The repeat reminder must be in the future and before the event'')
        else if length (filter (\<lambda>m. member_familyId m = familyId \<and> member_userId m \<in> set recipients) (core_members s))
            \<noteq> length recipients then
          Inl (BadRequest ''Reminder recipients must be members of the current family'')
        else Inr \<lparr>rst_offset = offset, rst_recipients = recipients, rst_at = at, rst_repeatAt = repeatAt\<rparr>)"

definition update_events ::
    "(family_event \<Rightarrow> bool) \<Rightarrow> (family_event \<Rightarrow> family_event) \<Rightarrow> events_db \<Rightarrow> nat \<times> events_db" where
  "update_events P f s = (fst (update_many P f (edb_events s)), s\<lparr>edb_events := snd (update_many P f (edb_events s))\<rparr>)"

text \<open>The writes of the handlers, each with its new version and \<open>updatedAt\<close>.\<close>

datatype event_change =
    ChangeEvent update_event_dto "reminder_settings option"
  | AnswerEvent event_decision uuid
  | DeleteEvent uuid

definition write_event :: "timestamp \<times> event_change \<Rightarrow> family_event \<Rightarrow> family_event" where
  "write_event nc e = (let e1 = (case snd nc of
     ChangeEvent d r \<Rightarrow> (let e2 = e\<lparr>fev_name := keep (ue_name d) (fev_name e),
         fev_childId := keep (ue_childId d) (fev_childId e),
         fev_description := keep_text (ue_description d) (fev_description e),
         fev_scheduledAt := keep (ue_scheduledAt d) (fev_scheduledAt e),
         fev_location := keep (ue_location d) (fev_location e),
         fev_status := EventProposed, fev_respondedById := None, fev_respondedAt := None\<rparr>
       in (case r of None \<Rightarrow> e2
         | Some st \<Rightarrow> e2\<lparr>fev_reminderOffsetMinutes := rst_offset st, fev_reminderRecipientIds := rst_recipients st,
             fev_reminderAt := rst_at st, fev_repeatReminderAt := rst_repeatAt st,
             fev_reminderSentAt := None, fev_repeatReminderSentAt := None\<rparr>))
   | AnswerEvent d u \<Rightarrow> e\<lparr>fev_status := d, fev_respondedById := Some u, fev_respondedAt := Some (fst nc)\<rparr>
   | DeleteEvent u \<Rightarrow> e\<lparr>fev_deletedAt := Some (fst nc), fev_deletedById := Some u\<rparr>)
   in e1\<lparr>fev_version := fev_version e + 1, fev_updatedAt := fst nc\<rparr>)"

interpretation event_rows: versioned_rows fev_id fev_version write_event
  by unfold_locales (auto simp: write_event_def Let_def split: event_change.split option.split)

subsection \<open>FamilyEventsService\<close>

definition new_family_event ::
    "env \<Rightarrow> uuid \<Rightarrow> uuid \<Rightarrow> uuid \<Rightarrow> create_event_dto \<Rightarrow> reminder_settings \<Rightarrow> family_event" where
  "new_family_event E i familyId userId dto st = \<lparr>fev_id = i, fev_familyId = familyId, fev_childId = ce_childId dto,
     fev_proposedById = userId, fev_respondedById = None, fev_deletedById = None, fev_name = ce_name dto,
     fev_description = or_null (ce_description dto), fev_scheduledAt = ce_scheduledAt dto,
     fev_location = ce_location dto, fev_reminderOffsetMinutes = rst_offset st,
     fev_reminderRecipientIds = rst_recipients st, fev_reminderAt = rst_at st, fev_reminderSentAt = None,
     fev_repeatReminderAt = rst_repeatAt st, fev_repeatReminderSentAt = None, fev_status = EventProposed,
     fev_respondedAt = None, fev_deletedAt = None, fev_version = 1, fev_createdAt = env_now E,
     fev_updatedAt = env_now E\<rparr>"

definition partner_count :: "uuid \<Rightarrow> 'a core_scheme \<Rightarrow> nat" where
  "partner_count familyId s =
     length (filter (\<lambda>m. member_familyId m = familyId \<and> member_role m = PARTNER) (core_members s))"

definition events_create ::
    "env \<Rightarrow> uuid \<Rightarrow> create_event_dto \<Rightarrow> events_db \<Rightarrow> (event_response, events_db) resp" where
  "events_create E userId dto s = (case requirePartner userId s of Inl e \<Rightarrow> (Inl e, s)
   | Inr ctx \<Rightarrow>
     if ce_scheduledAt dto \<le> env_now E then (Inl (BadRequest ''Event date must be in the future''), s)
     else if partner_count (ctx_familyId ctx) s \<noteq> 2 then
       (Inl (Conflict ''A family must have exactly two partners to plan an event''), s)
     else (case resolveReminderSettings E (ctx_familyId ctx) dto (ce_scheduledAt dto) None s of Inl e \<Rightarrow> (Inl e, s)
     | Inr st \<Rightarrow> (case events_ensureFamilyChild (ctx_familyId ctx) (Some (ce_childId dto)) s of Inl e \<Rightarrow> (Inl e, s)
       | Inr _ \<Rightarrow> (case fresh s of (i, s1) \<Rightarrow>
           let event = new_family_event E i (ctx_familyId ctx) userId dto st in
           and_then (notifyFamilyMembers E (ctx_familyId ctx) userId ''FAMILY_EVENT_PROPOSED'' ''New family event''
               (Some (ce_name dto @ '' - your confirmation is required.'')) (s1\<lparr>edb_events := edb_events s1 @ [event]\<rparr>))
             (\<lambda>_ s2. (event_fromEntity E s2 (ctx_timeZone ctx) event, s2))))))"

record events_query = page_query +
  eq_dateFrom :: "ymd option"
  eq_dateTo :: "ymd option"

definition optional_date ::
    "env \<Rightarrow> (timestamp \<Rightarrow> string \<Rightarrow> int) \<Rightarrow> ymd option \<Rightarrow> string \<Rightarrow> api_error + timestamp option" where
  "optional_date E sec d timeZone = (case d of None \<Rightarrow> Inr None
   | Some v \<Rightarrow> (case localDateStartUtc E sec v timeZone of Inl e \<Rightarrow> Inl e | Inr t \<Rightarrow> Inr (Some t)))"

definition in_dates :: "timestamp option \<Rightarrow> timestamp option \<Rightarrow> timestamp \<Rightarrow> bool" where
  "in_dates dateFrom dateTo t \<longleftrightarrow> (case dateFrom of None \<Rightarrow> True | Some d \<Rightarrow> d \<le> t)
     \<and> (case dateTo of None \<Rightarrow> True | Some d \<Rightarrow> t < d)"

definition events_findAll ::
    "env \<Rightarrow> (timestamp \<Rightarrow> string \<Rightarrow> int) \<Rightarrow> uuid \<Rightarrow> events_query \<Rightarrow> events_db
       \<Rightarrow> api_error + page_meta \<times> event_response list" where
  "events_findAll E sec userId q s = (case requirePartner userId s of Inl e \<Rightarrow> Inl e
   | Inr ctx \<Rightarrow> (case optional_date E sec (eq_dateFrom q) (ctx_timeZone ctx) of Inl e \<Rightarrow> Inl e
     | Inr dateFrom \<Rightarrow> (case optional_date E sec (eq_dateTo q) (ctx_timeZone ctx) of Inl e \<Rightarrow> Inl e
       | Inr dateTo \<Rightarrow>
         if (case dateFrom of None \<Rightarrow> False | Some a \<Rightarrow> (case dateTo of None \<Rightarrow> False | Some b \<Rightarrow> a \<ge> b)) then
           Inl (BadRequest ''dateFrom must be earlier than dateTo'')
         else
         let matching = filter (\<lambda>e. fev_familyId e = ctx_familyId ctx \<and> fev_deletedAt e = None
               \<and> in_dates dateFrom dateTo (fev_scheduledAt e)) (edb_events s)
         in (case all_ok (event_fromEntity E s (ctx_timeZone ctx)) (page_of (pq_page q) (pq_limit q)
               (sort_key (\<lambda>e. (fev_scheduledAt e, fev_createdAt e)) matching)) of Inl e \<Rightarrow> Inl e
             | Inr rows \<Rightarrow> Inr (paginationMeta (length matching) (pq_page q) (pq_limit q), rows)))))"

definition events_findOne :: "env \<Rightarrow> uuid \<Rightarrow> uuid \<Rightarrow> events_db \<Rightarrow> api_error + event_response" where
  "events_findOne E eventId userId s = (case requirePartner userId s of Inl e \<Rightarrow> Inl e
   | Inr ctx \<Rightarrow> (case find_event eventId (ctx_familyId ctx) s of
       None \<Rightarrow> Inl (NotFound ''Family event not found'')
     | Some e \<Rightarrow> event_fromEntity E s (ctx_timeZone ctx) e))"

definition events_listMedia :: "storage \<Rightarrow> uuid \<Rightarrow> uuid \<Rightarrow> events_db \<Rightarrow> api_error + media_response list" where
  "events_listMedia S eventId userId s = (case requirePartner userId s of Inl e \<Rightarrow> Inl e
   | Inr ctx \<Rightarrow> (case find_event eventId (ctx_familyId ctx) s of
       None \<Rightarrow> Inl (NotFound ''Family event not found'')
     | Some e \<Rightarrow> findManyByIds S userId (event_mediaIds (fev_id e) s) s))"

text \<open>\<open>createMany\<close> with \<open>skipDuplicates\<close> over the key (event, media).\<close>

definition attach_row :: "env \<Rightarrow> uuid \<Rightarrow> uuid \<Rightarrow> event_media list \<Rightarrow> event_media list" where
  "attach_row E eventId mediaId rows =
    (if \<exists>a \<in> set rows. fem_eventId a = eventId \<and> fem_mediaId a = mediaId then rows
     else rows @ [\<lparr>fem_eventId = eventId, fem_mediaId = mediaId, fem_createdAt = env_now E\<rparr>])"

definition events_attachMedia ::
    "env \<Rightarrow> storage \<Rightarrow> uuid \<Rightarrow> uuid \<Rightarrow> uuid \<Rightarrow> events_db \<Rightarrow> (media_response list, events_db) resp" where
  "events_attachMedia E S eventId userId mediaId s = (case requirePartner userId s of Inl e \<Rightarrow> (Inl e, s)
   | Inr ctx \<Rightarrow> (case find_event eventId (ctx_familyId ctx) s of
       None \<Rightarrow> (Inl (NotFound ''Family event not found''), s)
     | Some e \<Rightarrow> if fev_proposedById e \<noteq> userId then
           (Inl (Forbidden ''Only the event creator can attach media''), s)
         else (case find_first (\<lambda>m. med_id m = mediaId \<and> med_familyId m = ctx_familyId ctx) (mdb_media s) of
           None \<Rightarrow> (Inl (NotFound ''Media not found''), s)
         | Some _ \<Rightarrow> let s1 = s\<lparr>edb_eventMedia := attach_row E (fev_id e) mediaId (edb_eventMedia s)\<rparr>
             in (events_listMedia S (fev_id e) userId s1, s1))))"

definition events_detachMedia :: "uuid \<Rightarrow> uuid \<Rightarrow> uuid \<Rightarrow> events_db \<Rightarrow> (unit, events_db) resp" where
  "events_detachMedia eventId userId mediaId s = (case requirePartner userId s of Inl e \<Rightarrow> (Inl e, s)
   | Inr ctx \<Rightarrow> (case find_event eventId (ctx_familyId ctx) s of
       None \<Rightarrow> (Inl (NotFound ''Family event not found''), s)
     | Some e \<Rightarrow> if fev_proposedById e \<noteq> userId then
           (Inl (Forbidden ''Only the event creator can detach media''), s)
         else (Inr (), s\<lparr>edb_eventMedia := filter (\<lambda>a. \<not> (fem_eventId a = fev_id e \<and> fem_mediaId a = mediaId))
                 (edb_eventMedia s)\<rparr>)))"

definition reminder_changed :: "update_event_dto \<Rightarrow> bool" where
  "reminder_changed dto \<longleftrightarrow> ue_scheduledAt dto \<noteq> None \<or> rdto_offset dto \<noteq> None
     \<or> rdto_recipients dto \<noteq> None \<or> rdto_repeatAt dto \<noteq> None"

definition nothing_given :: "update_event_dto \<Rightarrow> bool" where
  "nothing_given dto \<longleftrightarrow> ue_name dto = None \<and> ue_description dto = None \<and> ue_scheduledAt dto = None
     \<and> ue_location dto = None \<and> rdto_offset dto = None \<and> rdto_recipients dto = None
     \<and> rdto_repeatAt dto = None \<and> ue_childId dto = None"

text \<open>The body of the transaction of \<open>update\<close>. Reading \<open>length\<close> of a description that is \<open>null\<close> throws.\<close>

definition events_update_tx ::
    "env \<Rightarrow> uuid \<Rightarrow> uuid \<Rightarrow> uuid \<Rightarrow> update_event_dto \<Rightarrow> int option \<Rightarrow> events_db \<Rightarrow> (family_event, events_db) resp" where
  "events_update_tx E familyId eventId userId dto expectedVersion s = (case find_event eventId familyId s of
     None \<Rightarrow> (Inl (NotFound ''Family event not found''), s)
   | Some current \<Rightarrow>
     if fev_proposedById current \<noteq> userId then (Inl (Forbidden ''Only the event creator can update it''), s) else
     if keep (ue_scheduledAt dto) (fev_scheduledAt current) \<le> env_now E then
       (Inl (BadRequest ''Event date must be in the future''), s)
     else (case (if reminder_changed dto then
           (case resolveReminderSettings E familyId dto (keep (ue_scheduledAt dto) (fev_scheduledAt current))
              (Some current) s of Inl e \<Rightarrow> Inl e | Inr st \<Rightarrow> Inr (Some st)) else Inr None) of Inl e \<Rightarrow> (Inl e, s)
     | Inr reminders \<Rightarrow> (case events_ensureFamilyChild familyId (ue_childId dto) s of Inl e \<Rightarrow> (Inl e, s)
       | Inr _ \<Rightarrow>
         if ue_description dto = Some None then
           (Inl (PlainError ''TypeError: Cannot read properties of null''), s)
         else (case update_events (\<lambda>e. event_in (fev_id current) familyId e \<and> version_is expectedVersion (fev_version e))
             (write_event (env_now E, ChangeEvent dto reminders)) s of
           (count, s1) \<Rightarrow>
             if count \<noteq> 1 then (Inl (write_error expectedVersion (NotFound ''Family event not found'')), s1) else
             (case find_event (fev_id current) familyId s1 of
               None \<Rightarrow> (Inl P2025, s1) | Some e \<Rightarrow> (Inr e, s1))))))"

definition events_update ::
    "env \<Rightarrow> uuid \<Rightarrow> uuid \<Rightarrow> update_event_dto \<Rightarrow> int option \<Rightarrow> events_db \<Rightarrow> (event_response, events_db) resp" where
  "events_update E eventId userId dto expectedVersion s = (case requirePartner userId s of Inl e \<Rightarrow> (Inl e, s)
   | Inr ctx \<Rightarrow>
     if nothing_given dto then (Inl (BadRequest ''At least one field must be provided''), s)
     else and_then (transaction s (events_update_tx E (ctx_familyId ctx) eventId userId dto expectedVersion s))
       (\<lambda>updated s1. and_then (notifyFamilyMembers E (ctx_familyId ctx) userId ''FAMILY_EVENT_UPDATED''
            ''Family event changed'' (Some (fev_name updated @ '' - a new confirmation is required.'')) s1)
          (\<lambda>_ s2. (event_fromEntity E s2 (ctx_timeZone ctx) updated, s2))))"

definition events_remove :: "env \<Rightarrow> uuid \<Rightarrow> uuid \<Rightarrow> events_db \<Rightarrow> (unit, events_db) resp" where
  "events_remove E eventId userId s = (case requirePartner userId s of Inl e \<Rightarrow> (Inl e, s)
   | Inr ctx \<Rightarrow> (case find_event eventId (ctx_familyId ctx) s of
       None \<Rightarrow> (Inl (NotFound ''Family event not found''), s)
     | Some e \<Rightarrow> if fev_proposedById e \<noteq> userId then
           (Inl (Forbidden ''Only the event creator can delete it''), s)
         else (case update_events (\<lambda>e. event_in eventId (ctx_familyId ctx) e \<and> fev_proposedById e = userId)
             (write_event (env_now E, DeleteEvent userId)) s of
           (count, s1) \<Rightarrow> if count \<noteq> 1 then (Inl (NotFound ''Family event not found''), s1) else
             notifyFamilyMembers E (ctx_familyId ctx) userId ''FAMILY_EVENT_CANCELLED'' ''Family event cancelled''
               None s1)))"

definition events_respond ::
    "env \<Rightarrow> uuid \<Rightarrow> uuid \<Rightarrow> event_decision \<Rightarrow> events_db \<Rightarrow> (event_response, events_db) resp" where
  "events_respond E eventId userId status s = (case requirePartner userId s of Inl e \<Rightarrow> (Inl e, s)
   | Inr ctx \<Rightarrow> (case find_event eventId (ctx_familyId ctx) s of
       None \<Rightarrow> (Inl (NotFound ''Family event not found''), s)
     | Some current \<Rightarrow>
       if fev_proposedById current = userId then
         (Inl (Forbidden ''Only the partner can respond to an event''), s)
       else if fev_status current \<noteq> EventProposed then
         (Inl (Conflict ''The event proposal has already been answered''), s)
       else if status = EventConfirmed \<and> fev_scheduledAt current \<le> env_now E then
         (Inl (Conflict ''A past event cannot be confirmed''), s)
       else (case update_events (\<lambda>e. event_in eventId (ctx_familyId ctx) e \<and> fev_proposedById e \<noteq> userId
             \<and> fev_status e = EventProposed) (write_event (env_now E, AnswerEvent status userId)) s of
         (count, s1) \<Rightarrow>
           if count \<noteq> 1 then (Inl (Conflict ''The event proposal has already been answered''), s1) else
           (case find_event eventId (ctx_familyId ctx) s1 of
             None \<Rightarrow> (Inl (NotFound ''Family event not found''), s1)
           | Some updated \<Rightarrow> and_then (notifyUser E \<lparr>dn_userId = fev_proposedById current,
                 dn_familyId = Some (ctx_familyId ctx),
                 dn_type = (if status = EventConfirmed then ''FAMILY_EVENT_CONFIRMED'' else ''FAMILY_EVENT_REJECTED''),
                 dn_title = (if status = EventConfirmed then ''Event confirmed'' else ''Event rejected''),
                 dn_body = Some (fev_name updated)\<rparr> s1)
               (\<lambda>_ s2. (event_fromEntity E s2 (ctx_timeZone ctx) updated, s2))))))"

definition events_confirm :: "env \<Rightarrow> uuid \<Rightarrow> uuid \<Rightarrow> events_db \<Rightarrow> (event_response, events_db) resp" where
  "events_confirm E eventId userId s = events_respond E eventId userId EventConfirmed s"

definition events_reject :: "env \<Rightarrow> uuid \<Rightarrow> uuid \<Rightarrow> events_db \<Rightarrow> (event_response, events_db) resp" where
  "events_reject E eventId userId s = events_respond E eventId userId EventRejected s"

subsection \<open>The reminder job\<close>

datatype reminder_kind = PrimaryReminder | RepeatReminder

definition reminder_time :: "reminder_kind \<Rightarrow> family_event \<Rightarrow> timestamp option" where
  "reminder_time k e = (case k of PrimaryReminder \<Rightarrow> fev_reminderAt e | RepeatReminder \<Rightarrow> fev_repeatReminderAt e)"

definition reminder_sent :: "reminder_kind \<Rightarrow> family_event \<Rightarrow> timestamp option" where
  "reminder_sent k e = (case k of PrimaryReminder \<Rightarrow> fev_reminderSentAt e | RepeatReminder \<Rightarrow> fev_repeatReminderSentAt e)"

definition reminder_due :: "timestamp \<Rightarrow> reminder_kind \<Rightarrow> family_event \<Rightarrow> bool" where
  "reminder_due now k e \<longleftrightarrow> fev_deletedAt e = None \<and> fev_status e = EventConfirmed \<and> fev_scheduledAt e > now
     \<and> (case reminder_time k e of None \<Rightarrow> False | Some t \<Rightarrow> t \<le> now) \<and> reminder_sent k e = None"

definition mark_sent :: "timestamp \<Rightarrow> reminder_kind \<Rightarrow> family_event \<Rightarrow> family_event" where
  "mark_sent now k e = (case k of PrimaryReminder \<Rightarrow> e\<lparr>fev_reminderSentAt := Some now, fev_updatedAt := now\<rparr>
     | RepeatReminder \<Rightarrow> e\<lparr>fev_repeatReminderSentAt := Some now, fev_updatedAt := now\<rparr>)"

fun remind_all :: "env \<Rightarrow> family_event \<Rightarrow> uuid list \<Rightarrow> events_db \<Rightarrow> (unit, events_db) resp" where
  "remind_all E e [] s = (Inr (), s)"
| "remind_all E e (u # us) s = and_then (notifyUserInTransaction E \<lparr>dn_userId = u,
       dn_familyId = Some (fev_familyId e), dn_type = ''FAMILY_EVENT_REMINDER'', dn_title = fev_name e,
       dn_body = Some ''Family event reminder''\<rparr> s) (\<lambda>_ s1. remind_all E e us s1)"

definition claim_event_reminder :: "env \<Rightarrow> reminder_kind \<Rightarrow> family_event \<Rightarrow> events_db \<Rightarrow> (bool, events_db) resp" where
  "claim_event_reminder E k event s =
    (case update_events (\<lambda>e. fev_id e = fev_id event \<and> reminder_due (env_now E) k e) (mark_sent (env_now E) k) s of
       (count, s1) \<Rightarrow> if count \<noteq> 1 then (Inr False, s1) else
         and_then (remind_all E event (fev_reminderRecipientIds event) s1) (\<lambda>_ s2. (Inr True, s2)))"

fun deliver_event_reminders ::
    "env \<Rightarrow> reminder_kind \<Rightarrow> family_event list \<Rightarrow> nat \<Rightarrow> events_db \<Rightarrow> (nat, events_db) resp" where
  "deliver_event_reminders E k [] delivered s = (Inr delivered, s)"
| "deliver_event_reminders E k (event # rest) delivered s =
     and_then (transaction s (claim_event_reminder E k event s)) (\<lambda>claimed s1.
       deliver_event_reminders E k rest
         (if claimed then delivered + length (fev_reminderRecipientIds event) else delivered) s1)"

definition due_events :: "timestamp \<Rightarrow> reminder_kind \<Rightarrow> events_db \<Rightarrow> family_event list" where
  "due_events now k s = take 100 (filter (reminder_due now k) (edb_events s))"

definition deliverDueFamilyEventReminders :: "env \<Rightarrow> reminder_kind \<Rightarrow> events_db \<Rightarrow> (nat, events_db) resp" where
  "deliverDueFamilyEventReminders E k s = deliver_event_reminders E k (due_events (env_now E) k s) 0 s"

end
