(* ===== verification/FamilyEventsSpec.thy ===== *)
theory FamilyEventsSpec
  imports FamilyEvents
begin

text \<open>
  What the family events promise.  \<open>fevent_ok\<close> says when a row is consistent (who answered, who deleted,
  when its reminders are sent), \<open>fevent_step\<close> how a row may change, and \<open>events_evolve\<close> that every operation
  and job keeps the one and follows the other.
\<close>

subsection \<open>The rows\<close>

definition before_event :: "family_event \<Rightarrow> timestamp option \<Rightarrow> bool" where
  "before_event e t \<longleftrightarrow> (case t of None \<Rightarrow> True | Some x \<Rightarrow> x < fev_scheduledAt e)"

definition sent_in_time :: "reminder_kind \<Rightarrow> family_event \<Rightarrow> bool" where
  "sent_in_time k e \<longleftrightarrow> (case reminder_sent k e of None \<Rightarrow> True
     | Some t \<Rightarrow> t < fev_scheduledAt e \<and> (case reminder_time k e of None \<Rightarrow> False | Some r \<Rightarrow> r \<le> t))"

definition reminders_ok :: "family_event \<Rightarrow> bool" where
  "reminders_ok e \<longleftrightarrow>
     fev_reminderAt e = map_option (\<lambda>m. fev_scheduledAt e - m * 60000) (fev_reminderOffsetMinutes e)
     \<and> before_event e (fev_reminderAt e) \<and> before_event e (fev_repeatReminderAt e)
     \<and> (fev_reminderRecipientIds e = [] \<longleftrightarrow> fev_reminderOffsetMinutes e = None \<and> fev_repeatReminderAt e = None)
     \<and> sent_in_time PrimaryReminder e \<and> sent_in_time RepeatReminder e"

definition answer_ok :: "family_event \<Rightarrow> bool" where
  "answer_ok e \<longleftrightarrow> (fev_status e = EventProposed \<longleftrightarrow> fev_respondedById e = None)
     \<and> (fev_respondedById e = None \<longleftrightarrow> fev_respondedAt e = None)
     \<and> fev_respondedById e \<noteq> Some (fev_proposedById e)"

definition deletion_ok :: "family_event \<Rightarrow> bool" where
  "deletion_ok e \<longleftrightarrow> fev_deletedById e = (if fev_deletedAt e = None then None else Some (fev_proposedById e))"

definition fevent_ok :: "uuid \<Rightarrow> family_event \<Rightarrow> bool" where
  "fevent_ok n e \<longleftrightarrow> fev_id e < n \<and> 1 \<le> fev_version e \<and> answer_ok e \<and> deletion_ok e \<and> reminders_ok e"

definition attachment_key :: "event_media \<Rightarrow> uuid \<times> uuid" where
  "attachment_key a = (fem_eventId a, fem_mediaId a)"

definition events_ok :: "events_db \<Rightarrow> bool" where
  "events_ok s \<longleftrightarrow> distinct (map fev_id (edb_events s)) \<and> (\<forall>e \<in> set (edb_events s). fevent_ok (core_nextId s) e)
     \<and> distinct (map attachment_key (edb_eventMedia s))"

subsection \<open>How a row changes\<close>

text \<open>The terms of an event: all that the partner agrees to.\<close>

definition terms_of :: "family_event \<Rightarrow> string \<times> string option \<times> timestamp \<times> string \<times> uuid option \<times> int option
    \<times> uuid list \<times> timestamp option \<times> timestamp option" where
  "terms_of e = (fev_name e, fev_description e, fev_scheduledAt e, fev_location e, fev_childId e,
     fev_reminderOffsetMinutes e, fev_reminderRecipientIds e, fev_reminderAt e, fev_repeatReminderAt e)"

definition answer_of :: "family_event \<Rightarrow> event_decision \<times> uuid option \<times> timestamp option" where
  "answer_of e = (fev_status e, fev_respondedById e, fev_respondedAt e)"

definition answered :: "family_event \<Rightarrow> bool" where
  "answered e \<longleftrightarrow> fev_status e \<noteq> EventProposed"

definition fevent_step :: "family_event \<Rightarrow> family_event \<Rightarrow> bool" where
  "fevent_step e f \<longleftrightarrow> fev_id f = fev_id e \<and> fev_familyId f = fev_familyId e
     \<and> fev_proposedById f = fev_proposedById e \<and> fev_createdAt f = fev_createdAt e
     \<and> fev_version e \<le> fev_version f
     \<and> (fev_deletedAt e \<noteq> None \<longrightarrow> f = e)
     \<and> (fev_version f = fev_version e \<longrightarrow> terms_of f = terms_of e \<and> answer_of f = answer_of e
          \<and> (\<forall>k. reminder_sent k e \<noteq> None \<longrightarrow> reminder_sent k f = reminder_sent k e))
     \<and> (answered e \<and> answered f \<and> (terms_of f \<noteq> terms_of e \<or> answer_of f \<noteq> answer_of e)
          \<longrightarrow> fev_version e + 2 \<le> fev_version f)"

lemma fevent_step_refl [simp]: "fevent_step e e"
  by (simp add: fevent_step_def)

lemma answer_of_answered: "answer_of f = answer_of e \<Longrightarrow> answered f = answered e"
  by (simp add: answer_of_def answered_def)

lemma fevent_step_trans:
  assumes ab: "fevent_step a b" and bc: "fevent_step b c"
  shows "fevent_step a c"
proof -
  have ids: "fev_id c = fev_id a" "fev_familyId c = fev_familyId a" "fev_proposedById c = fev_proposedById a"
      "fev_createdAt c = fev_createdAt a" "fev_version a \<le> fev_version b" "fev_version b \<le> fev_version c"
    using ab bc by (simp_all add: fevent_step_def)
  moreover have "c = a" if "fev_deletedAt a \<noteq> None"
    using ab bc that unfolding fevent_step_def by metis
  moreover have "terms_of c = terms_of a \<and> answer_of c = answer_of a
      \<and> (\<forall>k. reminder_sent k a \<noteq> None \<longrightarrow> reminder_sent k c = reminder_sent k a)" if "fev_version c = fev_version a"
  proof -
    have "fev_version b = fev_version a" "fev_version c = fev_version b" using that ids(5,6) by auto
    with ab bc show ?thesis by (simp add: fevent_step_def)
  qed
  moreover have "fev_version a + 2 \<le> fev_version c"
    if "answered a" "answered c" "terms_of c \<noteq> terms_of a \<or> answer_of c \<noteq> answer_of a"
  proof (cases "answered b")
    case True
    then have "fev_version a + 2 \<le> fev_version b \<or> fev_version b + 2 \<le> fev_version c"
      using ab bc that unfolding fevent_step_def by metis
    with ids(5,6) show ?thesis by linarith
  next
    case False
    then have "fev_version a \<noteq> fev_version b" "fev_version b \<noteq> fev_version c"
      using ab bc that(1,2) answer_of_answered unfolding fevent_step_def by metis+
    with ids(5,6) show ?thesis by linarith
  qed
  ultimately show ?thesis by (simp add: fevent_step_def)
qed

definition events_evolve :: "events_db \<Rightarrow> events_db \<Rightarrow> bool" where
  "events_evolve s t \<longleftrightarrow> (events_ok s \<longrightarrow> events_ok t \<and> rows_kept fevent_step (edb_events s) (edb_events t))"

lemma events_kept_trans:
  "rows_kept fevent_step a b \<Longrightarrow> rows_kept fevent_step b c \<Longrightarrow> rows_kept fevent_step a c"
  by (rule rows_kept_trans) (rule fevent_step_trans)

interpretation ev: evolution events_evolve
  by unfold_locales (auto simp: events_evolve_def rows_kept_refl intro: events_kept_trans)

subsection \<open>Single changes\<close>

lemma events_ok_feed [simp]: "events_ok (s\<lparr>core_feed := d\<rparr>) = events_ok s"
  by (simp add: events_ok_def)

lemma ev_feed: "events_evolve s t \<Longrightarrow> events_evolve s (t\<lparr>core_feed := d\<rparr>)"
  by (simp add: events_evolve_def)

lemma ev_notify_family: "events_evolve s t \<Longrightarrow> events_evolve s (snd (notifyFamilyMembers E f a ty ti b t))"
  by (simp add: notifyFamilyMembers_frame ev_feed)

lemma ev_notify_user: "events_evolve s t \<Longrightarrow> events_evolve s (snd (notifyUser E n t))"
  by (simp add: notifyUser_frame ev_feed)

lemma ev_notify_tx: "events_evolve s t \<Longrightarrow> events_evolve s (snd (notifyUserInTransaction E n t))"
  using notifyUserInTransaction_frame [of E n t] ev_feed by auto

lemma ev_map:
  assumes "\<And>e n. e \<in> set (edb_events s) \<Longrightarrow> fevent_ok n e \<Longrightarrow> fevent_ok n (g e) \<and> fevent_step e (g e)"
  shows "events_evolve s (s\<lparr>edb_events := map g (edb_events s)\<rparr>)"
proof -
  have "events_ok (s\<lparr>edb_events := map g (edb_events s)\<rparr>) \<and> rows_kept fevent_step (edb_events s) (map g (edb_events s))"
    if ok: "events_ok s"
  proof -
    have row: "fevent_ok (core_nextId s) (g e) \<and> fevent_step e (g e)" if "e \<in> set (edb_events s)" for e
      using assms [OF that, of "core_nextId s"] ok that by (simp add: events_ok_def)
    then have "map fev_id (map g (edb_events s)) = map fev_id (edb_events s)"
      by (simp add: fevent_step_def)
    with ok row show ?thesis
      by (simp add: events_ok_def rows_kept_map del: map_map)
  qed
  then show ?thesis by (simp add: events_evolve_def)
qed

lemma ev_update:
  assumes "\<And>e n. e \<in> set (edb_events s) \<Longrightarrow> P e \<Longrightarrow> fevent_ok n e \<Longrightarrow> fevent_ok n (f e) \<and> fevent_step e (f e)"
  shows "events_evolve s (snd (update_events P f s))"
  unfolding update_events_def snd_conv update_many_simps using assms by (intro ev_map) auto

lemma ev_written: "events_evolve s (snd r) \<Longrightarrow> r = (n, s1) \<Longrightarrow> events_evolve s s1"
  by simp

lemma ev_okI: "(events_ok s \<Longrightarrow> events_evolve s t) \<Longrightarrow> events_evolve s t"
  by (auto simp: events_evolve_def)

text \<open>What a row has after each write.\<close>

lemma resolved_settings:
  assumes "resolveReminderSettings E fam dto at current s = Inr st"
  shows "rst_at st = map_option (\<lambda>m. at - m * 60000) (rst_offset st)"
    and "\<not> outside_window (env_now E) at (rst_at st)" and "\<not> outside_window (env_now E) at (rst_repeatAt st)"
    and "rst_recipients st = [] \<longleftrightarrow> rst_offset st = None \<and> rst_repeatAt st = None"
  using assms by (auto simp: resolveReminderSettings_def Let_def outside_window_def split: if_splits)

definition settings_for :: "timestamp \<Rightarrow> reminder_settings \<Rightarrow> bool" where
  "settings_for at st \<longleftrightarrow> rst_at st = map_option (\<lambda>m. at - m * 60000) (rst_offset st)
     \<and> (case rst_at st of None \<Rightarrow> True | Some x \<Rightarrow> x < at) \<and> (case rst_repeatAt st of None \<Rightarrow> True | Some x \<Rightarrow> x < at)
     \<and> (rst_recipients st = [] \<longleftrightarrow> rst_offset st = None \<and> rst_repeatAt st = None)"

lemma resolved_settings_for:
  "resolveReminderSettings E fam dto at current s = Inr st \<Longrightarrow> settings_for at st"
  using resolved_settings [of E fam dto at current s st]
  by (auto simp: settings_for_def outside_window_def split: option.splits)

lemmas reminder_defs = reminders_ok_def before_event_def sent_in_time_def reminder_time_def reminder_sent_def
lemmas row_defs = fevent_ok_def fevent_step_def answer_ok_def deletion_ok_def terms_of_def answer_of_def answered_def

text \<open>The reminders depend on the columns about them and the date alone.\<close>

lemma reminders_ok_cong:
  assumes "fev_scheduledAt f = fev_scheduledAt e" "fev_reminderOffsetMinutes f = fev_reminderOffsetMinutes e"
    "fev_reminderRecipientIds f = fev_reminderRecipientIds e" "fev_reminderAt f = fev_reminderAt e"
    "fev_repeatReminderAt f = fev_repeatReminderAt e" "fev_reminderSentAt f = fev_reminderSentAt e"
    "fev_repeatReminderSentAt f = fev_repeatReminderSentAt e"
  shows "reminders_ok f = reminders_ok e"
  using assms by (simp add: reminder_defs cong: option.case_cong)

lemma change_row:
  assumes "fevent_ok n e" "fev_deletedAt e = None"
    and "case r of None \<Rightarrow> keep (ue_scheduledAt d) (fev_scheduledAt e) = fev_scheduledAt e
      | Some st \<Rightarrow> settings_for (keep (ue_scheduledAt d) (fev_scheduledAt e)) st"
  shows "fevent_ok n (write_event (now, ChangeEvent d r) e) \<and> fevent_step e (write_event (now, ChangeEvent d r) e)"
proof -
  define f where "f = write_event (now, ChangeEvent d r) e"
  have "reminders_ok f"
  proof (cases r)
    case None
    then have "reminders_ok f = reminders_ok e" using assms(3)
      by (intro reminders_ok_cong) (simp_all add: f_def write_event_def)
    with assms(1) show ?thesis by (simp add: fevent_ok_def)
  next
    case (Some st)
    then have "settings_for (fev_scheduledAt f) st" "fev_reminderOffsetMinutes f = rst_offset st"
      "fev_reminderRecipientIds f = rst_recipients st" "fev_reminderAt f = rst_at st" "fev_repeatReminderAt f = rst_repeatAt st"
      "fev_reminderSentAt f = None" "fev_repeatReminderSentAt f = None"
      using assms(3) by (simp_all add: f_def write_event_def)
    then show ?thesis by (auto simp: reminder_defs settings_for_def split: option.splits)
  qed
  moreover have "fev_id f = fev_id e" "fev_familyId f = fev_familyId e" "fev_proposedById f = fev_proposedById e"
    "fev_createdAt f = fev_createdAt e" "fev_version f = fev_version e + 1" "fev_status f = EventProposed"
    "fev_respondedById f = None" "fev_respondedAt f = None" "fev_deletedAt f = None" "fev_deletedById f = fev_deletedById e"
    using assms(2) by (simp_all add: f_def write_event_def Let_def split: option.split)
  ultimately show ?thesis using assms(1,2) unfolding f_def [symmetric] by (simp add: row_defs)
qed

lemma answer_row:
  assumes "fevent_ok n e" "fev_deletedAt e = None" "fev_status e = EventProposed" "fev_proposedById e \<noteq> u"
    "d \<noteq> EventProposed"
  shows "fevent_ok n (write_event (now, AnswerEvent d u) e) \<and> fevent_step e (write_event (now, AnswerEvent d u) e)"
proof -
  have "reminders_ok (write_event (now, AnswerEvent d u) e) = reminders_ok e"
    by (rule reminders_ok_cong) (simp_all add: write_event_def)
  then show ?thesis using assms by (simp add: row_defs) (simp add: write_event_def)
qed

lemma delete_row:
  assumes "fevent_ok n e" "fev_deletedAt e = None" "fev_proposedById e = u"
  shows "fevent_ok n (write_event (now, DeleteEvent u) e) \<and> fevent_step e (write_event (now, DeleteEvent u) e)"
proof -
  have "reminders_ok (write_event (now, DeleteEvent u) e) = reminders_ok e"
    by (rule reminders_ok_cong) (simp_all add: write_event_def)
  then show ?thesis using assms by (simp add: row_defs) (simp add: write_event_def reminder_sent_def)
qed

lemma sent_row:
  assumes "fevent_ok n e" "reminder_due now k e"
  shows "fevent_ok n (mark_sent now k e) \<and> fevent_step e (mark_sent now k e)"
proof -
  have "reminders_ok (mark_sent now k e)"
    using assms by (cases k) (auto simp: fevent_ok_def reminder_due_def reminder_defs mark_sent_def split: option.splits)
  moreover have "reminder_sent j (mark_sent now k e) = reminder_sent j e" if "reminder_sent j e \<noteq> None" for j
    using assms(2) that by (cases k; cases j) (simp_all add: reminder_due_def reminder_sent_def mark_sent_def)
  ultimately show ?thesis using assms by (cases k) (auto simp: row_defs mark_sent_def reminder_due_def)
qed

subsection \<open>The operations\<close>

lemma find_event_SomeD:
  "find_event i fam s = Some e \<Longrightarrow> e \<in> set (edb_events s) \<and> fev_id e = i \<and> fev_familyId e = fam \<and> fev_deletedAt e = None"
  by (auto simp: find_event_def event_in_def dest: find_SomeD)

text \<open>The row that a conditional write on a found event can hit is that event.\<close>

lemma written_is_found:
  assumes "events_ok s" "find_event i fam s = Some c" "e \<in> set (edb_events s)" "fev_id e = i"
  shows "e = c"
  using assms find_event_SomeD [OF assms(2)] distinct_key_eq [of fev_id "edb_events s" e c]
  by (auto simp: events_ok_def)

lemma ev_add:
  assumes "fev_id e = core_nextId s" "fevent_ok (Suc (core_nextId s)) e"
  shows "events_evolve s (s\<lparr>core_nextId := Suc (core_nextId s), edb_events := edb_events s @ [e]\<rparr>)"
proof -
  have "fevent_ok (Suc n) x" if "fevent_ok n x" for n x using that by (simp add: fevent_ok_def)
  then show ?thesis using assms
    by (auto simp: events_evolve_def events_ok_def rows_kept_append) (auto simp: fevent_ok_def)
qed

lemma new_event_ok:
  assumes "settings_for (ce_scheduledAt dto) st"
  shows "fevent_ok (Suc i) (new_family_event E i fam u dto st)"
proof -
  have "reminders_ok (new_family_event E i fam u dto st)"
    using assms by (auto simp: reminder_defs settings_for_def new_family_event_def split: option.splits)
  then show ?thesis
    by (simp add: fevent_ok_def answer_ok_def deletion_ok_def) (simp add: new_family_event_def)
qed

lemma events_create_evolve: "events_evolve s (snd (events_create E u dto s))"
proof -
  have add: "events_evolve s (s\<lparr>core_nextId := core_nextId s + 1,
      edb_events := edb_events s @ [new_family_event E (core_nextId s) fam u dto st]\<rparr>)"
    if "resolveReminderSettings E fam dto (ce_scheduledAt dto) None s = Inr st" for fam st
    using ev_add [of "new_family_event E (core_nextId s) fam u dto st" s] new_event_ok [OF resolved_settings_for [OF that]]
    by (simp add: new_family_event_def)
  show ?thesis
    unfolding events_create_def fresh_def prod.case Let_def
    by (intro ev.guards ev.and_thenI ev_notify_family) (use add in \<open>auto intro: ev.evolution_refl\<close>)
qed

lemma ev_write:
  assumes "\<And>c. events_ok s \<Longrightarrow> events_evolve s (snd (update_events P f s))"
    and "\<And>s1. events_evolve s s1 \<Longrightarrow> events_evolve s (snd (g s1))"
  shows "events_evolve s (snd (case update_events P f s of (count, s1) \<Rightarrow> if count \<noteq> 1 then (Inl e, s1) else g s1))"
proof (rule ev_okI)
  assume "events_ok s"
  then have "events_evolve s (snd (update_events P f s))" by (rule assms(1))
  then show "events_evolve s (snd (case update_events P f s of (count, s1) \<Rightarrow> if count \<noteq> 1 then (Inl e, s1) else g s1))"
    by (cases "update_events P f s") (auto intro: assms(2))
qed

lemma events_update_tx_evolve: "events_evolve s (snd (events_update_tx E fam i u dto ver s))"
proof -
  have step: "events_evolve s (snd (update_events (\<lambda>e. event_in (fev_id c) fam e \<and> version_is ver (fev_version e))
      (write_event (env_now E, ChangeEvent dto r)) s))"
    if c: "find_event i fam s = Some c" and ok: "events_ok s"
      and r: "(if reminder_changed dto then (case resolveReminderSettings E fam dto
          (keep (ue_scheduledAt dto) (fev_scheduledAt c)) (Some c) s of Inl e \<Rightarrow> Inl e | Inr st \<Rightarrow> Inr (Some st))
        else Inr None) = Inr r" for c r
  proof (intro ev_update change_row)
    fix e n assume e: "e \<in> set (edb_events s)" "event_in (fev_id c) fam e \<and> version_is ver (fev_version e)"
    show "fev_deletedAt e = None" using e by (simp add: event_in_def)
    have ec: "e = c" using written_is_found [OF ok c e(1)] find_event_SomeD [OF c] e(2) by (simp add: event_in_def)
    show "case r of None \<Rightarrow> keep (ue_scheduledAt dto) (fev_scheduledAt e) = fev_scheduledAt e
      | Some st \<Rightarrow> settings_for (keep (ue_scheduledAt dto) (fev_scheduledAt e)) st"
      using r resolved_settings_for unfolding ec
      by (auto simp: reminder_changed_def keep_def split: if_splits sum.splits option.split)
  qed
  show ?thesis
    unfolding events_update_tx_def
    by (intro ev.guards ev_write step) (auto split: option.split)
qed

lemma events_update_evolve: "events_evolve s (snd (events_update E i u dto ver s))"
  unfolding events_update_def
  by (intro ev.guards ev.and_thenI ev.transaction_stepI events_update_tx_evolve ev_notify_family) (auto intro: ev.evolution_refl)

lemma events_remove_evolve: "events_evolve s (snd (events_remove E i u s))"
  unfolding events_remove_def
  by (intro ev.guards ev_write ev_update delete_row ev_notify_family) (auto simp: event_in_def)

lemma events_respond_evolve:
  assumes "d \<noteq> EventProposed" shows "events_evolve s (snd (events_respond E i u d s))"
  unfolding events_respond_def
  by (intro ev.guards ev_write ev_update answer_row ev.later_option ev.and_thenI ev_notify_user)
    (use assms in \<open>auto simp: event_in_def intro: ev.evolution_refl\<close>)

lemma ev_attachments:
  assumes "distinct (map attachment_key (edb_eventMedia s)) \<Longrightarrow> distinct (map attachment_key rows)"
  shows "events_evolve s (s\<lparr>edb_eventMedia := rows\<rparr>)"
  using assms by (simp add: events_evolve_def events_ok_def rows_kept_refl)

lemma attach_row_distinct:
  "distinct (map attachment_key rows) \<Longrightarrow> distinct (map attachment_key (attach_row E i m rows))"
  by (auto simp: attach_row_def attachment_key_def)

lemma events_attach_evolve: "events_evolve s (snd (events_attachMedia E S i u m s))"
  unfolding events_attachMedia_def Let_def
  by (intro ev.guards) (simp add: ev_attachments attach_row_distinct)

lemma events_detach_evolve: "events_evolve s (snd (events_detachMedia i u m s))"
  unfolding events_detachMedia_def
  by (intro ev.guards) (auto intro!: ev_attachments distinct_map_filter)

lemma remind_all_evolve: "events_evolve s (snd (remind_all E e us s))"
proof (induction us arbitrary: s)
  case (Cons u us)
  then show ?case by (auto intro!: ev.and_thenI ev_notify_tx ev.evolution_refl)
qed (simp add: ev.evolution_refl)

lemma claim_reminder_evolve: "events_evolve s (snd (claim_event_reminder E k e s))"
proof -
  let ?P = "\<lambda>x. fev_id x = fev_id e \<and> reminder_due (env_now E) k x"
  obtain n s1 where u: "update_events ?P (mark_sent (env_now E) k) s = (n, s1)" by fastforce
  have "events_evolve s s1" by (rule ev_written [OF _ u], intro ev_update sent_row) auto
  then show ?thesis
    by (simp add: claim_event_reminder_def u)
      (auto intro!: ev.and_thenI ev.evolution_refl intro: ev.evolution_trans remind_all_evolve)
qed

lemma deliver_reminders_evolve: "events_evolve s (snd (deliver_event_reminders E k es n s))"
proof (induction es arbitrary: n s)
  case (Cons e es)
  show ?case by (auto intro!: ev.and_thenI ev.transaction_stepI claim_reminder_evolve Cons.IH)
qed (simp add: ev.evolution_refl)

subsection \<open>Every sequence of calls and job runs\<close>

inductive events_call :: "events_db \<Rightarrow> events_db \<Rightarrow> bool" where
  create: "events_call s (snd (events_create E userId dto s))"
| update: "events_call s (snd (events_update E eventId userId udto ver s))"
| confirm: "events_call s (snd (events_confirm E eventId userId s))"
| reject: "events_call s (snd (events_reject E eventId userId s))"
| remove: "events_call s (snd (events_remove E eventId userId s))"
| attach: "events_call s (snd (events_attachMedia E S eventId userId mediaId s))"
| detach: "events_call s (snd (events_detachMedia eventId userId mediaId s))"
| reminders: "events_call s (snd (deliverDueFamilyEventReminders E k s))"

lemma events_call_evolve: "events_call s t \<Longrightarrow> events_evolve s t"
  by (induction rule: events_call.induct)
    (simp_all add: events_create_evolve events_update_evolve events_confirm_def events_reject_def events_respond_evolve
      events_remove_evolve events_attach_evolve events_detach_evolve deliverDueFamilyEventReminders_def
      deliver_reminders_evolve)

lemma events_calls_evolve: "events_call\<^sup>*\<^sup>* s t \<Longrightarrow> events_evolve s t"
  by (induction rule: rtranclp_induct) (auto intro: ev.evolution_refl ev.evolution_trans events_call_evolve)

text \<open>A family of two partners, for the witnesses.\<close>

definition event_clock :: "timestamp \<Rightarrow> env" where
  "event_clock t = \<lparr>env_now = t, env_localParts = (\<lambda>x z. Some (parts_at x))\<rparr>"

definition partners_db :: events_db where
  "partners_db = \<lparr>core_users = [], core_families = [\<lparr>family_id = 7, family_status = FamilyActive, family_timeZone = ''UTC'',
       family_locale = ''en'', family_defaultCurrency = ''EUR'', family_archivedAt = None, family_dissolvedAt = None,
       family_createdAt = 0\<rparr>],
     core_members = [\<lparr>member_id = 11, member_familyId = 7, member_userId = 31, member_role = PARTNER, member_joinedAt = 0\<rparr>,
       \<lparr>member_id = 12, member_familyId = 7, member_userId = 32, member_role = PARTNER, member_joinedAt = 0\<rparr>],
     core_preferences = [], core_connections = [], core_devices = [], core_feed = empty_feed, core_nextId = 20,
     mdb_media = [], mdb_sessions = [], mdb_tasks = [], mdb_messageMedia = [], mdb_bucket = [],
     edb_events = [], edb_eventMedia = [], edb_children = []\<rparr>"

definition dinner :: create_event_dto where
  "dinner = \<lparr>rdto_offset = Some (Some 30), rdto_recipients = Some (Some [31, 32]), rdto_repeatAt = None,
     ce_childId = None, ce_name = ''Dinner'', ce_description = None, ce_scheduledAt = 7200000, ce_location = ''Home''\<rparr>"

definition elsewhere :: update_event_dto where
  "elsewhere = \<lparr>rdto_offset = None, rdto_recipients = None, rdto_repeatAt = None, ue_childId = None, ue_name = None,
     ue_description = None, ue_scheduledAt = None, ue_location = Some ''Cafe''\<rparr>"

definition dinner_event :: family_event where
  "dinner_event = new_family_event (event_clock 1) 20 7 31 dinner
     \<lparr>rst_offset = Some 30, rst_recipients = [31, 32], rst_at = Some 5400000, rst_repeatAt = None\<rparr>"

definition dinner_answered :: family_event where
  "dinner_answered = write_event (2, AnswerEvent EventConfirmed 32) dinner_event"

definition partners_with :: "family_event list \<Rightarrow> events_db" where
  "partners_with es = partners_db\<lparr>core_nextId := 21, edb_events := es\<rparr>"

lemma partners_with_simps [simp]:
  "edb_events (partners_with es) = es" "partners_with es\<lparr>edb_events := fs\<rparr> = partners_with fs"
  by (simp_all add: partners_with_def)

lemma partners_of:
  "requirePartner 31 (partners_with es)
     = Inr \<lparr>ctx_familyId = 7, ctx_memberId = 11,
        ctx_role = PARTNER, ctx_timeZone = ''UTC'', ctx_locale = ''en'',
        ctx_defaultCurrency = ''EUR''\<rparr>"
  "requirePartner 32 (partners_with es)
     = Inr \<lparr>ctx_familyId = 7, ctx_memberId = 12,
        ctx_role = PARTNER, ctx_timeZone = ''UTC'', ctx_locale = ''en'',
        ctx_defaultCurrency = ''EUR''\<rparr>"
  by (simp_all add: requirePartner_def requireMembership_def find_member_def find_family_def partners_with_def partners_db_def)

lemma nobody_notified:
  "notifyFamilyMembers E f a ty ti b (partners_with es) = (Inr (), partners_with es)"
  "notifyUser E d (partners_with es) = (Inr (), partners_with es)"
  by (simp_all add: notifyFamilyMembers_def member_users_def find_user_def notifyUser_def notifyUserInTransaction_def partners_with_def partners_db_def)

lemma dinner_fields:
  "fev_id dinner_answered = 20" "fev_familyId dinner_answered = 7" "fev_deletedAt dinner_answered = None"
  "fev_proposedById dinner_answered = 31" "fev_scheduledAt dinner_answered = 7200000" "fev_status dinner_answered = EventConfirmed"
  "fev_version dinner_answered = 2"
  by (simp_all add: dinner_answered_def dinner_event_def write_event_def new_family_event_def dinner_def)

definition dinner_elsewhere :: family_event where
  "dinner_elsewhere = write_event (3, ChangeEvent elsewhere None) dinner_answered"

lemma elsewhere_fields:
  "fev_id dinner_elsewhere = 20" "fev_familyId dinner_elsewhere = 7" "fev_deletedAt dinner_elsewhere = None"
  "fev_proposedById dinner_elsewhere = 31" "fev_scheduledAt dinner_elsewhere = 7200000" "fev_status dinner_elsewhere = EventProposed"
  "fev_version dinner_elsewhere = 3" "fev_location dinner_elsewhere = ''Cafe''"
  by (simp_all add: dinner_elsewhere_def write_event_def dinner_fields elsewhere_def keep_def)

lemmas event_eval = find_event_def event_in_def update_events_def update_many_def version_is_def events_ensureFamilyChild_def keep_def

lemma dinner_updated: "snd (events_update (event_clock 3) 20 31 elsewhere None (partners_with [dinner_answered])) = partners_with [dinner_elsewhere]"
proof -
  have "\<not> reminder_changed elsewhere" "\<not> nothing_given elsewhere" "ue_scheduledAt elsewhere = None" "ue_description elsewhere = None"
    "ue_childId elsewhere = None" by (simp_all add: reminder_changed_def nothing_given_def elsewhere_def)
  then show ?thesis
    by (simp add: partners_of nobody_notified events_update_def events_update_tx_def dinner_fields elsewhere_fields
      dinner_elsewhere_def [symmetric] event_eval event_clock_def)
qed

lemma dinner_reconfirmed: "snd (events_confirm (event_clock 4) 20 32 (partners_with [dinner_elsewhere]))
   = partners_with [write_event (4, AnswerEvent EventConfirmed 32) dinner_elsewhere]"
  by (simp add: partners_of nobody_notified events_confirm_def events_respond_def elsewhere_fields event_eval event_clock_def)

subsection \<open>Properties\<close>



text \<open>C24. An answer is bound to what was answered.  Whatever is called, a deleted event never changes; while the
  version of an event is the same, so are its terms and its answer; and an answered event whose terms or answer
  are others than before has two versions more at least: it was proposed again and answered again.\<close>

theorem events_answer_binds:
  assumes run: "events_call\<^sup>*\<^sup>* s t" and ok: "events_ok s"
    and e: "e \<in> set (edb_events s)" "f \<in> set (edb_events t)" "fev_id f = fev_id e"
  shows "(fev_deletedAt e \<noteq> None \<longrightarrow> f = e)
     \<and> (fev_version f = fev_version e \<longrightarrow> terms_of f = terms_of e \<and> answer_of f = answer_of e)
     \<and> (answered e \<and> answered f \<and> (terms_of f \<noteq> terms_of e \<or> answer_of f \<noteq> answer_of e)
          \<longrightarrow> fev_version e + 2 \<le> fev_version f)"
proof -
  have ev: "events_ok t" "rows_kept fevent_step (edb_events s) (edb_events t)"
    using events_calls_evolve [OF run] ok by (simp_all add: events_evolve_def)
  obtain g where g: "g \<in> set (edb_events t)" "fevent_step e g"
    using rows_kept_rowD [OF ev(2) e(1)] by blast
  have "f = g"
    using distinct_key_eq [of fev_id "edb_events t" f g] ev(1) e(2,3) g by (simp add: events_ok_def fevent_step_def)
  with g(2) show ?thesis by (simp add: fevent_step_def)
qed

lemma events_answer_binds_witness:
  "answered dinner_answered \<and> fev_version dinner_answered + 2
     \<le> fev_version (write_event (4, AnswerEvent EventConfirmed 32) dinner_elsewhere)"
proof -
  let ?f = "write_event (4, AnswerEvent EventConfirmed 32) dinner_elsewhere"
  have "events_call\<^sup>*\<^sup>* (partners_with [dinner_answered]) (partners_with [?f])"
    using events_call.update [of "partners_with [dinner_answered]" "event_clock 3" 20 31 elsewhere None]
      events_call.confirm [of "partners_with [dinner_elsewhere]" "event_clock 4" 20 32]
    unfolding dinner_updated dinner_reconfirmed by (meson rtranclp.rtrancl_refl rtranclp.rtrancl_into_rtrancl)
  moreover have "events_ok (partners_with [dinner_answered])"
  proof -
    have "fevent_ok (Suc 20) dinner_event" unfolding dinner_event_def
      by (rule new_event_ok) (simp add: settings_for_def dinner_def)
    then have "fevent_ok 21 dinner_answered" unfolding dinner_answered_def
      by (intro conjunct1 [OF answer_row]) (simp_all add: dinner_event_def new_family_event_def)
    then show ?thesis by (simp add: events_ok_def) (simp add: partners_with_def partners_db_def)
  qed
  moreover have "fev_location dinner_answered = ''Home''" "fev_location ?f = ''Cafe''" "fev_id ?f = 20"
    "fev_status ?f = EventConfirmed"
    by (simp_all add: dinner_answered_def dinner_event_def new_family_event_def dinner_def write_event_def elsewhere_fields)
  ultimately show ?thesis
    using events_answer_binds [of "partners_with [dinner_answered]" "partners_with [?f]" dinner_answered ?f]
    by (simp add: dinner_fields answered_def terms_of_def)
qed

subsection \<open>Local midnight\<close>

definition utc_midnight :: "ymd \<Rightarrow> timestamp" where
  "utc_midnight d = make_day (ymd_year d) (ymd_month d - 1) (ymd_day d) * ms_per_day"

text \<open>A zone whose clock is ahead of UTC by \<open>a\<close> before the instant \<open>T\<close> and by \<open>b\<close> from then on.\<close>

definition zone_shift :: "timestamp \<Rightarrow> int \<Rightarrow> int \<Rightarrow> timestamp \<Rightarrow> int" where
  "zone_shift T a b t = (if t < T then a else b)"

text \<open>In a zone that changes its offset at most once, the start of a local date is an instant at which the
  clock of the zone shows midnight of that date, whenever there is such an instant; the two corrections of the
  candidate suffice on both sides of the change.\<close>

theorem local_midnight_found:
  assumes clock: "\<And>t. t mod 1000 = 0 \<Longrightarrow> zonedPartsTimestamp E sec t z = Inr (t + zone_shift T a b t)"
    and seconds: "a mod 1000 = 0" "b mod 1000 = 0"
    and u: "u mod 1000 = 0" "zonedPartsTimestamp E sec u z = Inr (utc_midnight d)"
  shows "\<exists>t. localDateStartUtc E sec d z = Inr t \<and> zonedPartsTimestamp E sec t z = Inr (utc_midnight d)"
proof -
  let ?M = "utc_midnight d" and ?f = "zone_shift T a b"
  have exists: "u + ?f u = ?M" using clock [OF u(1)] u(2) by simp
  have M: "?M mod 1000 = 0" by (simp add: utc_midnight_def ms_per_day_def mod_mult_right_eq [symmetric])
  have f: "?f x mod 1000 = 0" for x using seconds by (simp add: zone_shift_def)
  have whole: "(?M - ?f x) mod 1000 = 0" for x using M f by (simp add: mod_diff_eq [symmetric])
  have "localDateStartUtc E sec d z = Inr (?M - ?f (?M - ?f ?M))"
    using clock [OF M] clock [OF whole]
    by (simp add: localDateStartUtc_def Let_def utc_midnight_def [symmetric])
  moreover have "?f (?M - ?f (?M - ?f ?M)) = ?f (?M - ?f ?M)"
    using exists by (auto simp: zone_shift_def split: if_splits)
  ultimately show ?thesis using clock [OF whole] by simp
qed

text \<open>The clock of a zone built from its shift: minutes from the parts, seconds from the second argument.\<close>

definition shifted_env :: "(timestamp \<Rightarrow> int) \<Rightarrow> env" where
  "shifted_env f = \<lparr>env_now = 0, env_localParts = (\<lambda>t z. Some (parts_at (t + f t)))\<rparr>"

definition shifted_second :: "(timestamp \<Rightarrow> int) \<Rightarrow> timestamp \<Rightarrow> string \<Rightarrow> int" where
  "shifted_second f t z = (t + f t) mod 60000 div 1000"

lemma shifted_clock:
  assumes "(t + f t) mod 1000 = 0"
  shows "zonedPartsTimestamp (shifted_env f) (shifted_second f) t z = Inr (t + f t)"
proof -
  let ?w = "t + f t"
  have "date_UTC (parts_at ?w) + ?w mod 60000 div 1000 * 1000 = ?w"
  proof -
    have "?w mod 60000 mod 1000 = 0" using assms by (simp add: mod_mod_cancel)
    then have "?w mod 60000 div 1000 * 1000 = ?w mod 60000"
      using div_mult_mod_eq [of "?w mod 60000" 1000] by linarith
    moreover have "time_within_day ?w mod 60000 = ?w mod 60000"
      by (simp add: time_within_day_def ms_per_day_def mod_mod_cancel)
    ultimately show ?thesis
      using day_time_split [of ?w] div_mult_mod_eq [of "time_within_day ?w" 60000]
      unfolding date_UTC_parts minute_of_def by linarith
  qed
  then show ?thesis by (simp add: zonedPartsTimestamp_def shifted_env_def shifted_second_def)
qed

definition santiago :: "timestamp \<Rightarrow> int" where
  "santiago = zone_shift 18000000 (- 14400000) (- 10800000)"

lemma local_midnight_found_witness:
  "\<exists>t. localDateStartUtc (shifted_env santiago) (shifted_second santiago) \<lparr>ymd_year = 1970, ymd_month = 1, ymd_day = 3\<rparr> ''Z'' = Inr t
     \<and> zonedPartsTimestamp (shifted_env santiago) (shifted_second santiago) t ''Z'' = Inr (utc_midnight \<lparr>ymd_year = 1970, ymd_month = 1, ymd_day = 3\<rparr>)"
proof (rule local_midnight_found [where T = 18000000 and a = "- 14400000" and b = "- 10800000" and u = 183600000])
  show "zonedPartsTimestamp (shifted_env santiago) (shifted_second santiago) t ''Z''
      = Inr (t + zone_shift 18000000 (- 14400000) (- 10800000) t)" if "t mod 1000 = 0" for t
    using shifted_clock [of t santiago] that
    by (simp add: santiago_def [symmetric] santiago_def [unfolded zone_shift_def, THEN fun_cong] mod_add_eq [symmetric] split: if_splits)
  show "zonedPartsTimestamp (shifted_env santiago) (shifted_second santiago) 183600000 ''Z''
      = Inr (utc_midnight \<lparr>ymd_year = 1970, ymd_month = 1, ymd_day = 3\<rparr>)"
    using shifted_clock [of 183600000 santiago]
    by (simp add: santiago_def zone_shift_def utc_midnight_def make_day_def day_from_year_def days_before_def ms_per_day_def)
qed simp_all

end
