(* ===== verification/Calendar.thy ===== *)
theory Calendar
  imports FamilyEventsSpec "HOL-Library.Multiset"
begin

text \<open>
  The calendar of a family (\<open>modules/calendar/calendar.service.ts\<close>): events, tasks and the caller's task
  reminders between two local dates, merged in the order of their start and cut after 500 entries.

  The service reads at most 501 rows of each table.  The property shows that this is enough: the answer is
  the one of a service that reads everything, sorts it once and cuts it.
\<close>

subsection \<open>CalendarService\<close>

record calendar_db = events_db +
  kdb_tasks :: "task list"
  kdb_reminders :: "task_reminder list"

datatype calendar_kind = CalFamilyEvent | CalTask | CalTaskReminder

record calendar_entry =
  cal_kind :: calendar_kind
  cal_sourceId :: uuid
  cal_title :: string
  cal_startsAt :: timestamp
  cal_status :: string
  cal_assignedToId :: "uuid option"
  cal_childId :: "uuid option"

record calendar_query =
  cq_dateFrom :: ymd
  cq_dateTo :: ymd

record calendar_projection =
  cp_dateFrom :: ymd
  cp_dateTo :: ymd
  cp_timeZone :: string
  cp_data :: "calendar_entry list"
  cp_truncated :: bool

definition MAX_RANGE_DAYS :: int where "MAX_RANGE_DAYS = 93"
definition MAX_ENTRIES :: nat where "MAX_ENTRIES = 500"

definition validateRange :: "ymd \<Rightarrow> ymd \<Rightarrow> api_error + unit" where
  "validateRange dateFrom dateTo = (
     let from = make_day (ymd_year dateFrom) (ymd_month dateFrom - 1) (ymd_day dateFrom);
         to = make_day (ymd_year dateTo) (ymd_month dateTo - 1) (ymd_day dateTo);
         days = to - from
     in if days \<le> 0 \<or> days > MAX_RANGE_DAYS then Inl (BadRequest ''Calendar range must be between 1 and 93 days'')
        else Inr ())"

definition decision_text :: "event_decision \<Rightarrow> string" where
  "decision_text d = (case d of EventProposed \<Rightarrow> ''PROPOSED'' | EventConfirmed \<Rightarrow> ''CONFIRMED'' | EventRejected \<Rightarrow> ''REJECTED'')"

definition task_status_text :: "task_status \<Rightarrow> string" where
  "task_status_text t = (case t of TaskOpen \<Rightarrow> ''OPEN'' | TaskCompleted \<Rightarrow> ''COMPLETED'' | TaskArchived \<Rightarrow> ''ARCHIVED'')"

definition event_entry :: "family_event \<Rightarrow> calendar_entry" where
  "event_entry e = \<lparr>cal_kind = CalFamilyEvent, cal_sourceId = fev_id e, cal_title = fev_name e,
     cal_startsAt = fev_scheduledAt e, cal_status = decision_text (fev_status e), cal_assignedToId = None,
     cal_childId = fev_childId e\<rparr>"

definition task_entry :: "task \<times> timestamp \<Rightarrow> calendar_entry" where
  "task_entry td = (case td of (t, dueAt) \<Rightarrow> \<lparr>cal_kind = CalTask, cal_sourceId = task_id t, cal_title = task_title t,
     cal_startsAt = dueAt, cal_status = task_status_text (task_status t), cal_assignedToId = task_assignedToId t,
     cal_childId = task_childId t\<rparr>)"

definition reminder_entry :: "uuid \<Rightarrow> task_reminder \<times> task \<Rightarrow> calendar_entry" where
  "reminder_entry userId rt = (case rt of (r, t) \<Rightarrow> \<lparr>cal_kind = CalTaskReminder, cal_sourceId = rem_id r,
     cal_title = task_title t, cal_startsAt = rem_remindAt r,
     cal_status = (if rem_sentAt r \<noteq> None then ''SENT'' else ''SCHEDULED''), cal_assignedToId = Some userId,
     cal_childId = None\<rparr>)"

text \<open>The rows of the three queries. A task without a date does not match the range, and a reminder comes with
  its task.\<close>

definition events_between :: "uuid \<Rightarrow> timestamp \<Rightarrow> timestamp \<Rightarrow> calendar_db \<Rightarrow> family_event list" where
  "events_between familyId a b s = filter (\<lambda>e. fev_familyId e = familyId \<and> fev_deletedAt e = None
     \<and> a \<le> fev_scheduledAt e \<and> fev_scheduledAt e < b) (edb_events s)"

definition tasks_between :: "uuid \<Rightarrow> timestamp \<Rightarrow> timestamp \<Rightarrow> calendar_db \<Rightarrow> (task \<times> timestamp) list" where
  "tasks_between familyId a b s = List.map_filter (\<lambda>t. case task_dueAt t of None \<Rightarrow> None
     | Some d \<Rightarrow> if task_familyId t = familyId \<and> task_status t \<noteq> TaskArchived \<and> a \<le> d \<and> d < b
         then Some (t, d) else None) (kdb_tasks s)"

definition reminders_between ::
    "uuid \<Rightarrow> uuid \<Rightarrow> timestamp \<Rightarrow> timestamp \<Rightarrow> calendar_db \<Rightarrow> (task_reminder \<times> task) list" where
  "reminders_between userId familyId a b s = List.map_filter (\<lambda>r.
     if rem_userId r = userId \<and> a \<le> rem_remindAt r \<and> rem_remindAt r < b then
       (case find_first (\<lambda>t. task_id t = rem_taskId r) (kdb_tasks s) of None \<Rightarrow> None
        | Some t \<Rightarrow> if task_familyId t = familyId \<and> task_status t \<noteq> TaskArchived then Some (r, t) else None)
     else None) (kdb_reminders s)"

text \<open>The comparison of the merge: the start, then the identifiers \<open>event:...\<close>, \<open>task-reminder:...\<close> and
  \<open>task:...\<close>, whose prefixes compare in this order (a hyphen comes before a colon).\<close>

definition entry_rank :: "calendar_kind \<Rightarrow> nat" where
  "entry_rank k = (case k of CalFamilyEvent \<Rightarrow> 0 | CalTaskReminder \<Rightarrow> 1 | CalTask \<Rightarrow> 2)"

definition entry_order :: "calendar_entry \<Rightarrow> timestamp \<times> nat \<times> uuid" where
  "entry_order e = (cal_startsAt e, entry_rank (cal_kind e), cal_sourceId e)"

definition calendar_project ::
    "env \<Rightarrow> (timestamp \<Rightarrow> string \<Rightarrow> int) \<Rightarrow> uuid \<Rightarrow> calendar_query \<Rightarrow> calendar_db \<Rightarrow> api_error + calendar_projection" where
  "calendar_project E sec userId q s = (case validateRange (cq_dateFrom q) (cq_dateTo q) of Inl e \<Rightarrow> Inl e
   | Inr _ \<Rightarrow> (case requireMembership userId s of Inl e \<Rightarrow> Inl e
   | Inr ctx \<Rightarrow> (case localDateStartUtc E sec (cq_dateFrom q) (ctx_timeZone ctx) of Inl e \<Rightarrow> Inl e
   | Inr from \<Rightarrow> (case localDateStartUtc E sec (cq_dateTo q) (ctx_timeZone ctx) of Inl e \<Rightarrow> Inl e
   | Inr to \<Rightarrow>
     let events = take (MAX_ENTRIES + 1) (sort_key (\<lambda>e. (fev_scheduledAt e, fev_id e))
           (events_between (ctx_familyId ctx) from to s));
         tasks = take (MAX_ENTRIES + 1) (sort_key (\<lambda>td. (snd td, task_id (fst td)))
           (tasks_between (ctx_familyId ctx) from to s));
         reminders = take (MAX_ENTRIES + 1) (sort_key (\<lambda>rt. (rem_remindAt (fst rt), rem_id (fst rt)))
           (reminders_between userId (ctx_familyId ctx) from to s));
         entries = sort_key entry_order (map event_entry events @ map task_entry tasks
           @ map (reminder_entry userId) reminders)
     in Inr \<lparr>cp_dateFrom = cq_dateFrom q, cp_dateTo = cq_dateTo q, cp_timeZone = ctx_timeZone ctx,
          cp_data = take MAX_ENTRIES entries,
          cp_truncated = (length entries > MAX_ENTRIES \<or> length events > MAX_ENTRIES
            \<or> length tasks > MAX_ENTRIES \<or> length reminders > MAX_ENTRIES)\<rparr>))))"

subsection \<open>Sorting and cutting\<close>

text \<open>A stable sort splits at every value of the key.\<close>

lemma sort_key_pivot:
  "sort_key f xs = sort_key f (filter (\<lambda>x. f x < v) xs) @ filter (\<lambda>x. f x = v) xs @ sort_key f (filter (\<lambda>x. v < f x) xs)"
proof (rule properties_for_sort_key)
  show "mset (sort_key f (filter (\<lambda>x. f x < v) xs) @ filter (\<lambda>x. f x = v) xs @ sort_key f (filter (\<lambda>x. v < f x) xs)) = mset xs"
    by (rule multiset_eqI) (auto simp: not_less_iff_gr_or_eq)
next
  fix k
  show "filter (\<lambda>x. f k = f x) (sort_key f (filter (\<lambda>x. f x < v) xs) @ filter (\<lambda>x. f x = v) xs
      @ sort_key f (filter (\<lambda>x. v < f x) xs)) = filter (\<lambda>x. f k = f x) xs"
  proof -
    have stable: "filter (\<lambda>x. f k = f x) (sort_key f ys) = filter (\<lambda>x. f k = f x) ys" for ys
      using sort_key_stable [of f "f k" ys] by (simp add: eq_commute)
    have "(\<lambda>x. f x < v \<and> f k = f x) = (\<lambda>x. f k = f x \<and> f k < v)" "(\<lambda>x. f x = v \<and> f k = f x) = (\<lambda>x. f k = f x \<and> f k = v)"
      "(\<lambda>x. v < f x \<and> f k = f x) = (\<lambda>x. f k = f x \<and> v < f k)" by auto
    then have "filter (\<lambda>x. f k = f x) (sort_key f (filter (\<lambda>x. f x < v) xs) @ filter (\<lambda>x. f x = v) xs
        @ sort_key f (filter (\<lambda>x. v < f x) xs)) = filter (\<lambda>x. f k = f x \<and> f k < v) xs
        @ filter (\<lambda>x. f k = f x \<and> f k = v) xs @ filter (\<lambda>x. f k = f x \<and> v < f k) xs" by (simp add: stable)
    also have "\<dots> = filter (\<lambda>x. f k = f x) xs"
      by (cases "f k" v rule: linorder_cases) (auto simp: filter_empty_conv)
    finally show ?thesis .
  qed
next
  show "sorted (map f (sort_key f (filter (\<lambda>x. f x < v) xs) @ filter (\<lambda>x. f x = v) xs @ sort_key f (filter (\<lambda>x. v < f x) xs)))"
  proof -
    have "sorted (map f (filter (\<lambda>x. f x = v) xs))" by (induction xs) auto
    then show ?thesis by (auto simp: sorted_append)
  qed
qed

text \<open>An element with at least \<open>n\<close> predecessors does not matter for the first \<open>n\<close>.\<close>

lemma take_sort_drop_one:
  assumes "n \<le> length (filter (\<lambda>x. f x \<le> f d) xs)"
  shows "take n (sort_key f (xs @ d # ys)) = take n (sort_key f (xs @ ys))"
proof -
  let ?L = "sort_key f (filter (\<lambda>x. f x < f d) (xs @ ys)) @ filter (\<lambda>x. f x = f d) xs"
  have "length (filter (\<lambda>x. f x \<le> f d) xs) = length (filter (\<lambda>x. f x < f d) xs) + length (filter (\<lambda>x. f x = f d) xs)"
    by (induction xs) auto
  then have "n \<le> length ?L" using assms by simp
  moreover have "sort_key f (xs @ d # ys) = ?L @ d # filter (\<lambda>x. f x = f d) ys @ sort_key f (filter (\<lambda>x. f d < f x) (xs @ ys))"
    by (subst sort_key_pivot [of f _ "f d"]) simp
  moreover have "sort_key f (xs @ ys) = ?L @ filter (\<lambda>x. f x = f d) ys @ sort_key f (filter (\<lambda>x. f d < f x) (xs @ ys))"
    by (subst sort_key_pivot [of f _ "f d"]) simp
  ultimately show ?thesis by simp
qed

lemma take_sort_take:
  assumes "sorted (map f A)" "n \<le> m"
  shows "take n (sort_key f (xs @ take m A @ zs)) = take n (sort_key f (xs @ A @ zs))"
  using assms(1)
proof (induction A rule: rev_induct)
  case (snoc d A)
  show ?case
  proof (cases "length A < m")
    case False
    have le: "\<forall>x \<in> set A. f x \<le> f d" using snoc.prems by (simp add: sorted_append)
    then have "n \<le> length (filter (\<lambda>x. f x \<le> f d) (xs @ A))" using False assms(2) by simp
    from take_sort_drop_one [OF this, of zs] snoc False show ?thesis by (simp add: sorted_append)
  qed simp
qed simp

text \<open>Sorting a part first makes no difference, and neither does the key when it orders alike.\<close>

lemma sort_key_inside: "sort_key f (xs @ sort_key f ys @ zs) = sort_key f (xs @ ys @ zs)"
proof (rule properties_for_sort_key)
  fix k
  have "filter (\<lambda>x. f k = f x) (sort_key f us) = filter (\<lambda>x. f k = f x) us" for us
    using sort_key_stable [of f "f k" us] by (simp add: eq_commute)
  then show "filter (\<lambda>x. f k = f x) (sort_key f (xs @ ys @ zs)) = filter (\<lambda>x. f k = f x) (xs @ sort_key f ys @ zs)"
    by simp
qed simp_all

lemma insort_key_cong_order:
  "(\<And>x y. f x \<le> f y \<longleftrightarrow> g x \<le> g y) \<Longrightarrow> insort_key f x xs = insort_key g x xs"
  by (induction xs) auto

lemma sort_key_cong_order:
  "(\<And>x y. f x \<le> f y \<longleftrightarrow> g x \<le> g y) \<Longrightarrow> sort_key f xs = sort_key g xs"
  by (induction xs) (simp_all add: insort_key_cong_order [of f g])

lemma insort_key_map: "insort_key f (h x) (map h xs) = map h (insort_key (f \<circ> h) x xs)"
  by (induction xs) auto

lemma sort_key_map: "sort_key f (map h xs) = map h (sort_key (f \<circ> h) xs)"
  by (induction xs) (simp_all add: insort_key_map [unfolded comp_def] comp_def)

subsection \<open>The calendar is a cut of everything\<close>

text \<open>The reference: all entries between two instants, sorted once.\<close>

definition calendar_all :: "uuid \<Rightarrow> uuid \<Rightarrow> timestamp \<Rightarrow> timestamp \<Rightarrow> calendar_db \<Rightarrow> calendar_entry list" where
  "calendar_all userId familyId a b s = sort_key entry_order (map event_entry (events_between familyId a b s)
     @ map task_entry (tasks_between familyId a b s) @ map (reminder_entry userId) (reminders_between userId familyId a b s))"

definition calendar_reference ::
    "env \<Rightarrow> (timestamp \<Rightarrow> string \<Rightarrow> int) \<Rightarrow> uuid \<Rightarrow> calendar_query \<Rightarrow> calendar_db \<Rightarrow> api_error + calendar_projection" where
  "calendar_reference E sec userId q s = (case validateRange (cq_dateFrom q) (cq_dateTo q) of Inl e \<Rightarrow> Inl e
   | Inr _ \<Rightarrow> (case requireMembership userId s of Inl e \<Rightarrow> Inl e
   | Inr ctx \<Rightarrow> (case localDateStartUtc E sec (cq_dateFrom q) (ctx_timeZone ctx) of Inl e \<Rightarrow> Inl e
   | Inr from \<Rightarrow> (case localDateStartUtc E sec (cq_dateTo q) (ctx_timeZone ctx) of Inl e \<Rightarrow> Inl e
   | Inr to \<Rightarrow> let everything = calendar_all userId (ctx_familyId ctx) from to s in
       Inr \<lparr>cp_dateFrom = cq_dateFrom q, cp_dateTo = cq_dateTo q, cp_timeZone = ctx_timeZone ctx,
         cp_data = take 500 everything, cp_truncated = (500 < length everything)\<rparr>))))"

text \<open>One table, sorted by its own order and cut, is its entries in the order of the merge, cut.\<close>

lemma entries_sorted:
  assumes "\<And>x y. key x \<le> key y \<longleftrightarrow> entry_order (h x) \<le> entry_order (h y)"
  shows "map h (take m (sort_key key xs)) = take m (sort_key entry_order (map h xs))"
proof -
  have "sort_key key xs = sort_key (entry_order \<circ> h) xs"
    by (rule sort_key_cong_order) (use assms in simp)
  then show ?thesis by (simp add: take_map [symmetric] sort_key_map)
qed

lemma merge_cut:
  assumes "n \<le> m"
  shows "take n (sort_key f (take m (sort_key f A) @ take m (sort_key f B) @ take m (sort_key f C)))
     = take n (sort_key f (A @ B @ C))"
proof -
  have step: "take n (sort_key f (xs @ take m (sort_key f A) @ ys)) = take n (sort_key f (xs @ A @ ys))" for xs A ys
    using take_sort_take [of f "sort_key f A" n m xs ys] assms sort_key_inside [of f xs A ys] by simp
  show ?thesis
    using step [of "[]" A] step [of A B] step [of "A @ B" C "[]"] by simp
qed

text \<open>C26. The calendar answers as if it read all events, tasks and reminders of the period, sorted them once and
  cut the list after 500 entries: reading at most 501 rows of each table neither loses nor reorders an entry,
  and \<open>truncated\<close> says exactly whether entries were cut.\<close>

theorem calendar_is_cut_of_all: "calendar_project E sec userId q s = calendar_reference E sec userId q s"
proof -
  define A where "A = (\<lambda>fam a b. map event_entry (events_between fam a b s))"
  define B where "B = (\<lambda>fam a b. map task_entry (tasks_between fam a b s))"
  define C where "C = (\<lambda>fam a b. map (reminder_entry userId) (reminders_between userId fam a b s))"
  have a: "map event_entry (take m (sort_key (\<lambda>e. (fev_scheduledAt e, fev_id e)) xs))
      = take m (sort_key entry_order (map event_entry xs))" for m xs
    by (rule entries_sorted) (auto simp: entry_order_def event_entry_def)
  have b: "map task_entry (take m (sort_key (\<lambda>td. (snd td, task_id (fst td))) xs))
      = take m (sort_key entry_order (map task_entry xs))" for m xs
    by (rule entries_sorted) (auto simp: entry_order_def task_entry_def split: prod.split)
  have c: "map (reminder_entry userId) (take m (sort_key (\<lambda>rt. (rem_remindAt (fst rt), rem_id (fst rt))) xs))
      = take m (sort_key entry_order (map (reminder_entry userId) xs))" for m xs
    by (rule entries_sorted) (auto simp: entry_order_def reminder_entry_def split: prod.split)
  have cut: "take 500 (sort_key entry_order (take 501 (sort_key entry_order (A fam x y)) @
      take 501 (sort_key entry_order (B fam x y)) @ take 501 (sort_key entry_order (C fam x y))))
      = take 500 (calendar_all userId fam x y s)" for fam x y
    by (simp add: merge_cut calendar_all_def A_def B_def C_def)
  have len: "(500 < min (length (A fam x y)) 501 + (min (length (B fam x y)) 501 + min (length (C fam x y)) 501)
      \<or> 500 < min (length (A fam x y)) 501 \<or> 500 < min (length (B fam x y)) 501 \<or> 500 < min (length (C fam x y)) 501)
      = (500 < length (calendar_all userId fam x y s))" for fam x y
    by (simp add: calendar_all_def A_def B_def C_def) linarith
  show ?thesis
    unfolding calendar_project_def calendar_reference_def Let_def MAX_ENTRIES_def a b c
    using cut len
    by (simp add: A_def B_def C_def split: sum.split)
qed

end
