(* ===== verification/Families.thy ===== *)
theory Families
  imports Outbox
begin

text \<open>
  \<open>modules/families/families.service.ts\<close>: the life of a family (leaving, archiving,
  restoring, and dissolution with the second partner's confirmation) and its audit log.
  The record \<open>family_db\<close> adds the tables of invitations and dissolution requests to the shared
  ones; the invitations themselves are in \<open>Invitations\<close>.

  Notification texts are Russian in the source and are rendered in English here.  The dashboard
  counts rows of other services and is not modelled.
\<close>

datatype invitation_status = InvPending | InvAccepted | InvRejected | InvCancelled | InvExpired

record family_invitation =
  inv_id :: uuid
  inv_senderId :: uuid
  inv_recipientId :: uuid
  inv_status :: invitation_status
  inv_expiresAt :: timestamp
  inv_respondedAt :: "timestamp option"
  inv_createdAt :: timestamp

record private_invitation =
  pinv_id :: uuid
  pinv_senderId :: uuid
  pinv_acceptedById :: "uuid option"
  pinv_recipientEmail :: string
  pinv_tokenHash :: string
  pinv_status :: invitation_status
  pinv_expiresAt :: timestamp
  pinv_useCount :: nat
  pinv_respondedAt :: "timestamp option"
  pinv_createdAt :: timestamp

datatype dissolution_status = DisPending | DisConfirmed | DisCancelled

record dissolution_request =
  dis_id :: uuid
  dis_familyId :: uuid
  dis_requestedById :: uuid
  dis_confirmedById :: "uuid option"
  dis_status :: dissolution_status
  dis_requestedAt :: timestamp
  dis_confirmedAt :: "timestamp option"

record family_db = core +
  fdb_invitations :: "family_invitation list"
  fdb_private :: "private_invitation list"
  fdb_dissolutions :: "dissolution_request list"

subsection \<open>Reading\<close>

record member_response =
  mr_id :: uuid
  mr_role :: member_role
  mr_joinedAt :: timestamp
  mr_user :: user

record family_response =
  fr_id :: uuid
  fr_status :: family_status
  fr_timeZone :: string
  fr_locale :: string
  fr_defaultCurrency :: string
  fr_createdAt :: timestamp
  fr_members :: "member_response list"

definition family_fromEntity :: "family \<Rightarrow> (family_member \<times> user) list \<Rightarrow> family_response" where
  "family_fromEntity f ms = \<lparr>fr_id = family_id f, fr_status = family_status f,
     fr_timeZone = family_timeZone f, fr_locale = family_locale f,
     fr_defaultCurrency = family_defaultCurrency f, fr_createdAt = family_createdAt f,
     fr_members = map (\<lambda>(m, u). \<lparr>mr_id = member_id m, mr_role = member_role m,
       mr_joinedAt = member_joinedAt m, mr_user = u\<rparr>) ms\<rparr>"

definition families_findMine :: "uuid \<Rightarrow> family_db \<Rightarrow> api_error + family_response" where
  "families_findMine userId s = (case requireMembership userId s of Inl e \<Rightarrow> Inl e
   | Inr ctx \<Rightarrow> (case find_family (ctx_familyId ctx) s of
       None \<Rightarrow> Inl (NotFound ''Family not found'')
     | Some f \<Rightarrow> Inr (family_fromEntity f (concat (map (\<lambda>m. case find_user (member_userId m) s of
           None \<Rightarrow> [] | Some u \<Rightarrow> [(m, u)])
         (sort_key member_joinedAt (filter (\<lambda>m. member_familyId m = ctx_familyId ctx) (core_members s))))))))"

record audit_query =
  aq_page :: page_query
  aq_action :: "string option"
  aq_resourceType :: "string option"

definition listAuditEvents ::
    "uuid \<Rightarrow> audit_query \<Rightarrow> family_db \<Rightarrow> api_error + page_meta \<times> audit_event list" where
  "listAuditEvents userId q s = (case requireMembership userId s of Inl e \<Rightarrow> Inl e
   | Inr ctx \<Rightarrow> (
     let matching = filter (\<lambda>a. audit_familyId a = Some (ctx_familyId ctx)
           \<and> (case or_null (aq_action q) of None \<Rightarrow> True | Some v \<Rightarrow> audit_action a = v)
           \<and> (case or_null (aq_resourceType q) of None \<Rightarrow> True | Some v \<Rightarrow> audit_resourceType a = v))
         (feed_audits (core_feed s));
       page = pq_page (aq_page q); limit = pq_limit (aq_page q) in
     Inr (paginationMeta (length matching) page limit,
       page_of page limit (sort_key (\<lambda>a. - audit_createdAt a) matching))))"

subsection \<open>The life of a family\<close>

definition cancel_sent_invitations :: "env \<Rightarrow> uuid \<Rightarrow> family_db \<Rightarrow> family_db" where
  "cancel_sent_invitations E userId s = s\<lparr>fdb_invitations := snd (update_many
     (\<lambda>i. inv_senderId i = userId \<and> inv_status i = InvPending)
     (\<lambda>i. i\<lparr>inv_status := InvCancelled, inv_respondedAt := Some (env_now E)\<rparr>) (fdb_invitations s))\<rparr>"

definition update_family :: "(family \<Rightarrow> bool) \<Rightarrow> (family \<Rightarrow> family) \<Rightarrow> 'a core_scheme \<Rightarrow> nat \<times> 'a core_scheme" where
  "update_family P f s = (fst (update_many P f (core_families s)),
     s\<lparr>core_families := snd (update_many P f (core_families s))\<rparr>)"

definition families_leave :: "env \<Rightarrow> uuid \<Rightarrow> family_db \<Rightarrow> (unit, family_db) resp" where
  "families_leave E userId s = (case requireMembership userId s of
     Inl e \<Rightarrow> (Inl e, s)
   | Inr ctx \<Rightarrow> and_then
     (transaction s (
        if find_member userId s = None then (Inl P2025, s) else
        let s1 = s\<lparr>core_members := snd (delete_many (\<lambda>m. member_userId m = userId) (core_members s))\<rparr>;
            remaining = length (filter (\<lambda>m. member_familyId m = ctx_familyId ctx) (core_members s1));
            s2 = (if remaining = 0 then snd (update_family (\<lambda>f. family_id f = ctx_familyId ctx)
                (\<lambda>f. f\<lparr>family_status := FamilyArchived, family_archivedAt := Some (env_now E)\<rparr>) s1) else s1);
            s3 = cancel_sent_invitations E userId s2
        in (Inr (), audit_record E (audit_of userId (ctx_familyId ctx) ''family.membership.left''
              ''family'' (ctx_familyId ctx)) s3)))
     (\<lambda>_ s'. notifyFamilyMembers E (ctx_familyId ctx) userId ''FAMILY_MEMBER_LEFT''
        ''A member left the family'' None s'))"

definition families_archive :: "env \<Rightarrow> uuid \<Rightarrow> family_db \<Rightarrow> (unit, family_db) resp" where
  "families_archive E userId s = (case requirePartner userId s of
     Inl e \<Rightarrow> (Inl e, s)
   | Inr ctx \<Rightarrow> and_then
     (transaction s (
        case update_family (\<lambda>f. family_id f = ctx_familyId ctx \<and> family_status f = FamilyActive)
          (\<lambda>f. f\<lparr>family_status := FamilyArchived, family_archivedAt := Some (env_now E)\<rparr>) s of
          (count, s1) \<Rightarrow>
            if count \<noteq> 1 then (Inl (Forbidden ''Family is no longer active''), s1)
            else (Inr (), audit_record E (audit_of userId (ctx_familyId ctx) ''family.archived''
                ''family'' (ctx_familyId ctx)) (cancel_sent_invitations E userId s1))))
     (\<lambda>_ s'. notifyFamilyMembers E (ctx_familyId ctx) userId ''FAMILY_ARCHIVED''
        ''The family was archived'' None s'))"

definition families_restore :: "env \<Rightarrow> uuid \<Rightarrow> family_db \<Rightarrow> (unit, family_db) resp" where
  "families_restore E userId s = (case find_member userId s of
     None \<Rightarrow> (Inl (Forbidden ''A partner membership is required''), s)
   | Some m \<Rightarrow>
     if member_role m \<noteq> PARTNER then (Inl (Forbidden ''A partner membership is required''), s) else
     if map_option family_status (find_family (member_familyId m) s) \<noteq> Some FamilyArchived
     then (Inl (Forbidden ''Only an archived family can be restored''), s) else
     and_then
     (transaction s (
        case update_family (\<lambda>f. family_id f = member_familyId m \<and> family_status f = FamilyArchived)
          (\<lambda>f. f\<lparr>family_status := FamilyActive, family_archivedAt := None\<rparr>) s of
          (count, s1) \<Rightarrow>
            if count \<noteq> 1 then (Inl (Forbidden ''Family is no longer archived''), s1)
            else (Inr (), audit_record E (audit_of userId (member_familyId m) ''family.restored''
                ''family'' (member_familyId m)) s1)))
     (\<lambda>_ s'. notifyFamilyMembers E (member_familyId m) userId ''FAMILY_RESTORED''
        ''The family was restored'' None s'))"

subsection \<open>Dissolution\<close>

definition requestDissolution :: "env \<Rightarrow> uuid \<Rightarrow> family_db \<Rightarrow> (dissolution_request, family_db) resp" where
  "requestDissolution E userId s = (case requirePartner userId s of
     Inl e \<Rightarrow> (Inl e, s)
   | Inr ctx \<Rightarrow> and_then
     (transaction s (case fresh s of (i, s1) \<Rightarrow>
        let created = \<lparr>dis_id = i, dis_familyId = ctx_familyId ctx, dis_requestedById = userId,
              dis_confirmedById = None, dis_status = DisPending, dis_requestedAt = env_now E,
              dis_confirmedAt = None\<rparr>
        in (Inr created, audit_record E (audit_of userId (ctx_familyId ctx)
              ''family.dissolution.requested'' ''family_dissolution_request'' i)
              (s1\<lparr>fdb_dissolutions := fdb_dissolutions s1 @ [created]\<rparr>))))
     (\<lambda>request s'. and_then (notifyFamilyMembers E (ctx_familyId ctx) userId
          ''FAMILY_DISSOLUTION_REQUESTED'' ''Dissolution of the family was requested''
          (Some ''The second partner has to confirm it.'') s')
        (\<lambda>_ s''. (Inr request, s''))))"

definition confirmDissolution :: "env \<Rightarrow> uuid \<Rightarrow> family_db \<Rightarrow> (unit, family_db) resp" where
  "confirmDissolution E userId s = (case requirePartner userId s of
     Inl e \<Rightarrow> (Inl e, s)
   | Inr ctx \<Rightarrow> and_then
     (transaction s (
        case find_first (\<lambda>r. dis_familyId r = ctx_familyId ctx \<and> dis_status r = DisPending) (fdb_dissolutions s) of
          None \<Rightarrow> (Inl (Forbidden ''A second partner confirmation is required''), s)
        | Some request \<Rightarrow>
            if dis_requestedById request = userId
            then (Inl (Forbidden ''A second partner confirmation is required''), s)
            else let s1 = s\<lparr>fdb_dissolutions := snd (update_many (\<lambda>r. dis_id r = dis_id request)
                     (\<lambda>r. r\<lparr>dis_status := DisConfirmed, dis_confirmedById := Some userId,
                        dis_confirmedAt := Some (env_now E)\<rparr>) (fdb_dissolutions s))\<rparr>;
                   s2 = snd (update_family (\<lambda>f. family_id f = ctx_familyId ctx)
                     (\<lambda>f. f\<lparr>family_status := FamilyDissolved, family_dissolvedAt := Some (env_now E)\<rparr>) s1)
                 in (Inr (), audit_record E ((audit_of userId (ctx_familyId ctx) ''family.dissolved''
                      ''family'' (ctx_familyId ctx))\<lparr>ain_metadata :=
                        JObj [(''confirmation'', JStr ''second_partner'')]\<rparr>) s2)))
     (\<lambda>_ s'. notifyFamilyMembers E (ctx_familyId ctx) userId ''FAMILY_DISSOLVED''
        ''The family was dissolved'' None s'))"

definition cancelDissolution :: "env \<Rightarrow> uuid \<Rightarrow> family_db \<Rightarrow> (unit, family_db) resp" where
  "cancelDissolution E userId s = (case requirePartner userId s of
     Inl e \<Rightarrow> (Inl e, s)
   | Inr ctx \<Rightarrow>
     (case update_many (\<lambda>r. dis_familyId r = ctx_familyId ctx \<and> dis_status r = DisPending)
          (\<lambda>r. r\<lparr>dis_status := DisCancelled\<rparr>) (fdb_dissolutions s) of
        (count, ds) \<Rightarrow>
          let s1 = s\<lparr>fdb_dissolutions := ds\<rparr> in
          if count > 0 then
            notifyFamilyMembers E (ctx_familyId ctx) userId ''FAMILY_DISSOLUTION_CANCELLED''
              ''Dissolution of the family was cancelled'' None
              (audit_record E (audit_of userId (ctx_familyId ctx) ''family.dissolution.cancelled''
                ''family'' (ctx_familyId ctx)) s1)
          else (Inr (), s1)))"

end
