(* ===== verification/Invitations.thy ===== *)
theory Invitations
  imports Families
begin

text \<open>
  \<open>modules/families/family-invitations.service.ts\<close>: public invitations between two users
  and private invitations by e-mail and one-time token.  \<open>createHash('sha256')\<close> and
  \<open>randomBytes\<close> of \<open>node:crypto\<close> and the configuration are parameters.
\<close>

record family_config =
  FAMILY_INVITATION_EXPIRES_IN :: string
  PRIVATE_FAMILY_INVITATION_COOLDOWN :: string
  FRONTEND_APP_URL :: string
  APP_TIMEZONE :: string
  DEFAULT_LOCALE :: string
  DEFAULT_CURRENCY :: string

text \<open>\<open>/^(\d+)([smhdw])$/\<close> of \<open>common/utils/duration.ts\<close>.\<close>

definition duration_unit :: "char \<Rightarrow> int option" where
  "duration_unit c = (if c = CHR ''s'' then Some 1 else if c = CHR ''m'' then Some 60
     else if c = CHR ''h'' then Some 3600 else if c = CHR ''d'' then Some 86400
     else if c = CHR ''w'' then Some 604800 else None)"

definition durationToSeconds :: "string \<Rightarrow> api_error + int" where
  "durationToSeconds v = (
     let bad = Inl (PlainError (''Invalid duration: '' @ v)) in
     if length v < 2 then bad else
     case (digits_value 0 (butlast v), duration_unit (last v)) of
       (Some n, Some k) \<Rightarrow> Inr (n * k) | _ \<Rightarrow> bad)"

subsection \<open>Responses\<close>

record public_user =
  pu_id :: uuid
  pu_firstName :: string
  pu_lastName :: string
  pu_email :: string
  pu_hasFamily :: bool

definition maskEmail :: "string \<Rightarrow> string" where
  "maskEmail email = (case split_at (CHR ''@'') email of
     loc # domain # _ \<Rightarrow> take 2 loc @ ''***@'' @ domain
   | loc # [] \<Rightarrow> take 2 loc @ ''***@undefined''
   | [] \<Rightarrow> [])"

definition public_user_of :: "'a core_scheme \<Rightarrow> user \<Rightarrow> public_user" where
  "public_user_of s u = \<lparr>pu_id = user_id u, pu_firstName = user_firstName u,
     pu_lastName = user_lastName u, pu_email = maskEmail (user_email u),
     pu_hasFamily = (find_member (user_id u) s \<noteq> None)\<rparr>"

record invitation_response =
  ir_id :: uuid
  ir_status :: invitation_status
  ir_sender :: "public_user option"
  ir_recipient :: "public_user option"
  ir_expiresAt :: timestamp
  ir_respondedAt :: "timestamp option"
  ir_createdAt :: timestamp

definition invitation_fromEntity :: "'a core_scheme \<Rightarrow> family_invitation \<Rightarrow> invitation_response" where
  "invitation_fromEntity s i = \<lparr>ir_id = inv_id i, ir_status = inv_status i,
     ir_sender = map_option (public_user_of s) (find_user (inv_senderId i) s),
     ir_recipient = map_option (public_user_of s) (find_user (inv_recipientId i) s),
     ir_expiresAt = inv_expiresAt i, ir_respondedAt = inv_respondedAt i, ir_createdAt = inv_createdAt i\<rparr>"

record private_response =
  pr_id :: uuid
  pr_recipientEmail :: string
  pr_status :: invitation_status
  pr_expiresAt :: timestamp
  pr_respondedAt :: "timestamp option"
  pr_createdAt :: timestamp

definition private_fromEntity :: "private_invitation \<Rightarrow> private_response" where
  "private_fromEntity i = \<lparr>pr_id = pinv_id i, pr_recipientEmail = pinv_recipientEmail i,
     pr_status = pinv_status i, pr_expiresAt = pinv_expiresAt i, pr_respondedAt = pinv_respondedAt i,
     pr_createdAt = pinv_createdAt i\<rparr>"

definition full_name :: "user option \<Rightarrow> string" where
  "full_name u = (case u of None \<Rightarrow> [] | Some u \<Rightarrow> user_firstName u @ '' '' @ user_lastName u)"

definition plain_notice :: "uuid \<Rightarrow> string \<Rightarrow> string \<Rightarrow> string option \<Rightarrow> domain_notification" where
  "plain_notice uid ty title body = \<lparr>dn_userId = uid, dn_familyId = None, dn_type = ty,
     dn_title = title, dn_body = body\<rparr>"

definition active_user :: "uuid \<Rightarrow> 'a core_scheme \<Rightarrow> user option" where
  "active_user uid s = find_first (\<lambda>u. user_id u = uid \<and> user_isActive u) (core_users s)"

definition has_family :: "uuid \<Rightarrow> 'a core_scheme \<Rightarrow> bool" where
  "has_family uid s \<longleftrightarrow> find_member uid s \<noteq> None"

subsection \<open>Expiry\<close>

definition expirePending :: "env \<Rightarrow> family_db \<Rightarrow> family_db" where
  "expirePending E s = s\<lparr>
     fdb_invitations := snd (update_many (\<lambda>i. inv_status i = InvPending \<and> inv_expiresAt i \<le> env_now E)
       (\<lambda>i. i\<lparr>inv_status := InvExpired, inv_respondedAt := Some (env_now E)\<rparr>) (fdb_invitations s)),
     fdb_private := snd (update_many (\<lambda>i. pinv_status i = InvPending \<and> pinv_expiresAt i \<le> env_now E)
       (\<lambda>i. i\<lparr>pinv_status := InvExpired, pinv_respondedAt := Some (env_now E)\<rparr>) (fdb_private s))\<rparr>"

subsection \<open>Public invitations\<close>

text \<open>The partial unique index: one pending invitation per unordered pair of users.\<close>

definition same_pair :: "uuid \<Rightarrow> uuid \<Rightarrow> family_invitation \<Rightarrow> bool" where
  "same_pair a b i \<longleftrightarrow> (inv_senderId i = a \<and> inv_recipientId i = b) \<or> (inv_senderId i = b \<and> inv_recipientId i = a)"

definition create_tx ::
    "env \<Rightarrow> int \<Rightarrow> uuid \<Rightarrow> uuid \<Rightarrow> family_db \<Rightarrow> (user \<times> family_invitation, family_db) resp" where
  "create_tx E expiresIn senderId recipientId s = (
     case active_user senderId s of None \<Rightarrow> (Inl (NotFound ''Sender not found''), s)
     | Some sender \<Rightarrow> (case active_user recipientId s of
         None \<Rightarrow> (Inl (NotFound ''Recipient not found''), s)
       | Some recipient \<Rightarrow>
         if has_family senderId s then (Inl (Conflict ''You already belong to a family''), s) else
         if has_family recipientId s then (Inl (Conflict ''Recipient already belongs to a family''), s) else
         if \<exists>i \<in> set (fdb_invitations s). inv_status i = InvPending \<and> same_pair senderId recipientId i
         then (Inl P2002, s) else
         (case fresh s of (i, s1) \<Rightarrow>
            let inv = \<lparr>inv_id = i, inv_senderId = senderId, inv_recipientId = recipientId,
                  inv_status = InvPending, inv_expiresAt = env_now E + expiresIn * 1000,
                  inv_respondedAt = None, inv_createdAt = env_now E\<rparr>
            in (Inr (sender, inv), s1\<lparr>fdb_invitations := fdb_invitations s1 @ [inv]\<rparr>))))"

definition invitations_create ::
    "env \<Rightarrow> family_config \<Rightarrow> uuid \<Rightarrow> uuid \<Rightarrow> family_db \<Rightarrow> (invitation_response, family_db) resp" where
  "invitations_create E cfg senderId recipientId s = (
     if senderId = recipientId then (Inl (Conflict ''You cannot invite yourself''), s) else
     let s0 = expirePending E s in
     case durationToSeconds (FAMILY_INVITATION_EXPIRES_IN cfg) of Inl e \<Rightarrow> (Inl e, s0)
     | Inr expiresIn \<Rightarrow>
     catch_prisma [''P2002''] ''A pending invitation already exists between these users''
     (catch_prisma [''P2034''] ''Family membership changed; please refresh and try again''
     (and_then (transaction s0 (create_tx E expiresIn senderId recipientId s0))
      (\<lambda>r s'. and_then
         (notifyUser E (plain_notice recipientId ''FAMILY_INVITATION_CREATED'' ''New family invitation''
            (Some (full_name (Some (fst r)) @ '' invites you to create a family.''))) s')
         (\<lambda>_ s''. (Inr (invitation_fromEntity s' (snd r)), s''))))))"

definition findIncoming :: "env \<Rightarrow> uuid \<Rightarrow> family_db \<Rightarrow> (invitation_response list, family_db) resp" where
  "findIncoming E userId s = (let s0 = expirePending E s in
     (Inr (map (invitation_fromEntity s0) (sort_key (\<lambda>i. - inv_createdAt i)
        (filter (\<lambda>i. inv_recipientId i = userId) (fdb_invitations s0)))), s0))"

definition findOutgoing :: "env \<Rightarrow> uuid \<Rightarrow> family_db \<Rightarrow> (invitation_response list, family_db) resp" where
  "findOutgoing E userId s = (let s0 = expirePending E s in
     (Inr (map (invitation_fromEntity s0) (sort_key (\<lambda>i. - inv_createdAt i)
        (filter (\<lambda>i. inv_senderId i = userId) (fdb_invitations s0)))), s0))"

definition find_invitation :: "uuid \<Rightarrow> family_db \<Rightarrow> family_invitation option" where
  "find_invitation i s = find_first (\<lambda>x. inv_id x = i) (fdb_invitations s)"

definition update_invitations ::
    "(family_invitation \<Rightarrow> bool) \<Rightarrow> (family_invitation \<Rightarrow> family_invitation) \<Rightarrow> family_db \<Rightarrow> nat \<times> family_db" where
  "update_invitations P f s = (fst (update_many P f (fdb_invitations s)),
     s\<lparr>fdb_invitations := snd (update_many P f (fdb_invitations s))\<rparr>)"

definition answer_invitation :: "env \<Rightarrow> invitation_status \<Rightarrow> family_invitation \<Rightarrow> family_invitation" where
  "answer_invitation E st i = i\<lparr>inv_status := st, inv_respondedAt := Some (env_now E)\<rparr>"

definition invitations_cancel ::
    "env \<Rightarrow> uuid \<Rightarrow> uuid \<Rightarrow> family_db \<Rightarrow> (invitation_response, family_db) resp" where
  "invitations_cancel E invitationId userId s = (
     let s0 = expirePending E s in
     case find_invitation invitationId s0 of None \<Rightarrow> (Inl (NotFound ''Invitation not found''), s0)
     | Some invitation \<Rightarrow>
       if inv_senderId invitation \<noteq> userId then (Inl (Forbidden ''Only the sender can cancel it''), s0) else
       if inv_status invitation \<noteq> InvPending then (Inl (Conflict ''Invitation is no longer pending''), s0) else
       (case update_invitations (\<lambda>i. inv_id i = invitationId \<and> inv_senderId i = userId \<and> inv_status i = InvPending)
            (answer_invitation E InvCancelled) s0 of
          (count, s1) \<Rightarrow>
            if count \<noteq> 1 then (Inl (Conflict ''Invitation is no longer pending''), s1) else
            (case find_invitation invitationId s1 of None \<Rightarrow> (Inl (NotFound ''Invitation not found''), s1)
             | Some updated \<Rightarrow> and_then
                 (notifyUser E (plain_notice (inv_recipientId invitation) ''FAMILY_INVITATION_CANCELLED''
                    ''The invitation was cancelled'' None) s1)
                 (\<lambda>_ s2. (Inr (invitation_fromEntity s1 updated), s2)))))"

text \<open>\<open>tx.family.create\<close> with its two members: the unique key on the member's user can reject it.\<close>

definition new_member :: "env \<Rightarrow> uuid \<Rightarrow> uuid \<Rightarrow> uuid \<Rightarrow> family_member" where
  "new_member E i familyId userId = \<lparr>member_id = i, member_familyId = familyId,
     member_userId = userId, member_role = PARTNER, member_joinedAt = env_now E\<rparr>"

definition create_family :: "env \<Rightarrow> family_config \<Rightarrow> uuid \<Rightarrow> uuid \<Rightarrow> family_db \<Rightarrow> (uuid, family_db) resp" where
  "create_family E cfg u1 u2 s = (
     if u1 = u2 \<or> has_family u1 s \<or> has_family u2 s then (Inl P2002, s) else
     let f = core_nextId s in
     (Inr f, s\<lparr>core_families := core_families s @
         [\<lparr>family_id = f, family_status = FamilyActive, family_timeZone = APP_TIMEZONE cfg,
           family_locale = DEFAULT_LOCALE cfg, family_defaultCurrency = DEFAULT_CURRENCY cfg,
           family_archivedAt = None, family_dissolvedAt = None, family_createdAt = env_now E\<rparr>],
       core_members := core_members s @ [new_member E (f + 1) f u1, new_member E (f + 2) f u2],
       core_nextId := f + 3\<rparr>))"

text \<open>The part of an acceptance before the invitation itself is answered, and the answer.\<close>

definition join_partners :: "env \<Rightarrow> family_config \<Rightarrow> family_invitation \<Rightarrow> family_db \<Rightarrow> (unit, family_db) resp" where
  "join_partners E cfg current s = (
     let both = {inv_senderId current, inv_recipientId current} in
     if length (filter (\<lambda>m. member_userId m \<in> both) (core_members s)) > 0
     then (Inl (Conflict ''One of the users already belongs to a family''), s)
     else and_then (create_family E cfg (inv_senderId current) (inv_recipientId current) s)
       (\<lambda>_ s1. (Inr (), snd (update_invitations
          (\<lambda>i. inv_status i = InvPending \<and> inv_id i \<noteq> inv_id current
             \<and> (inv_senderId i \<in> both \<or> inv_recipientId i \<in> both))
          (answer_invitation E InvCancelled) s1))))"

definition settle_invitation ::
    "env \<Rightarrow> invitation_status \<Rightarrow> uuid \<Rightarrow> family_db \<Rightarrow> (family_invitation, family_db) resp" where
  "settle_invitation E status i s = (
     case update_invitations (\<lambda>x. inv_id x = i \<and> inv_status x = InvPending) (answer_invitation E status) s of
       (count, s') \<Rightarrow>
         if count \<noteq> 1 then (Inl (Conflict ''Invitation is no longer pending''), s') else
         (case find_invitation i s' of None \<Rightarrow> (Inl (NotFound ''Invitation not found''), s')
          | Some updated \<Rightarrow> (Inr updated, s')))"

definition respond_tx ::
    "env \<Rightarrow> family_config \<Rightarrow> uuid \<Rightarrow> uuid \<Rightarrow> invitation_status \<Rightarrow> family_db
       \<Rightarrow> (family_invitation, family_db) resp" where
  "respond_tx E cfg invitationId userId status s = (
     case find_invitation invitationId s of None \<Rightarrow> (Inl (NotFound ''Invitation not found''), s)
     | Some current \<Rightarrow>
       if inv_recipientId current \<noteq> userId
         then (Inl (Forbidden ''Only the recipient can respond to it''), s) else
       if inv_status current = InvExpired then (Inl (Gone ''Invitation has expired''), s) else
       if inv_status current \<noteq> InvPending then (Inl (Conflict ''Invitation is no longer pending''), s) else
       and_then (if status = InvAccepted then join_partners E cfg current s else (Inr (), s))
        (\<lambda>_ s2. settle_invitation E status (inv_id current) s2))"

definition respond ::
    "env \<Rightarrow> family_config \<Rightarrow> uuid \<Rightarrow> uuid \<Rightarrow> invitation_status \<Rightarrow> family_db
       \<Rightarrow> (invitation_response, family_db) resp" where
  "respond E cfg invitationId userId status s = (
     let s0 = expirePending E s in
     catch_prisma [''P2002'', ''P2034''] ''Family membership changed; please refresh and try again''
     (and_then (transaction s0 (respond_tx E cfg invitationId userId status s0))
       (\<lambda>invitation s1. and_then
          (notifyUser E (plain_notice (inv_senderId invitation)
             (if status = InvAccepted then ''FAMILY_INVITATION_ACCEPTED'' else ''FAMILY_INVITATION_REJECTED'')
             (if status = InvAccepted then ''The invitation was accepted'' else ''The invitation was rejected'')
             (Some (full_name (find_user (inv_recipientId invitation) s1) @ '' answered the invitation.''))) s1)
          (\<lambda>_ s2. (Inr (invitation_fromEntity s1 invitation), s2)))))"

definition invitations_accept ::
    "env \<Rightarrow> family_config \<Rightarrow> uuid \<Rightarrow> uuid \<Rightarrow> family_db \<Rightarrow> (invitation_response, family_db) resp" where
  "invitations_accept E cfg invitationId userId s = respond E cfg invitationId userId InvAccepted s"

definition invitations_reject ::
    "env \<Rightarrow> family_config \<Rightarrow> uuid \<Rightarrow> uuid \<Rightarrow> family_db \<Rightarrow> (invitation_response, family_db) resp" where
  "invitations_reject E cfg invitationId userId s = respond E cfg invitationId userId InvRejected s"

subsection \<open>Private invitations\<close>

definition update_private ::
    "(private_invitation \<Rightarrow> bool) \<Rightarrow> (private_invitation \<Rightarrow> private_invitation) \<Rightarrow> family_db \<Rightarrow> nat \<times> family_db" where
  "update_private P f s = (fst (update_many P f (fdb_private s)),
     s\<lparr>fdb_private := snd (update_many P f (fdb_private s))\<rparr>)"

definition answer_private :: "env \<Rightarrow> invitation_status \<Rightarrow> private_invitation \<Rightarrow> private_invitation" where
  "answer_private E st i = i\<lparr>pinv_status := st, pinv_respondedAt := Some (env_now E)\<rparr>"

definition user_by_email :: "string \<Rightarrow> 'a core_scheme \<Rightarrow> user option" where
  "user_by_email email s = find_first (\<lambda>u. user_email u = email) (core_users s)"

definition strip_slashes :: "string \<Rightarrow> string" where
  "strip_slashes url = rev (dropWhile (\<lambda>c. c = CHR ''/'') (rev url))"

text \<open>\<open>Math.ceil(x / 1000)\<close>\<close>

definition ceil_seconds :: "int \<Rightarrow> int" where
  "ceil_seconds x = - ((- x) div 1000)"

definition createPrivate_tx ::
    "env \<Rightarrow> int \<Rightarrow> int \<Rightarrow> uuid \<Rightarrow> string \<Rightarrow> string \<Rightarrow> family_db \<Rightarrow> (private_invitation, family_db) resp" where
  "createPrivate_tx E expiresIn cooldown senderId recipientEmail tokenHash s = (
     case active_user senderId s of None \<Rightarrow> (Inl (NotFound ''Sender not found''), s)
     | Some sender \<Rightarrow>
       if has_family senderId s then (Inl (Conflict ''You already belong to a family''), s) else
       if user_email sender = recipientEmail then (Inl (Conflict ''You cannot invite yourself''), s) else
       let mine = (\<lambda>i. pinv_senderId i = senderId \<and> pinv_recipientEmail i = recipientEmail
             \<and> pinv_status i = InvPending);
           wait = (case find_first_by (\<lambda>i. - pinv_createdAt i) mine (fdb_private s) of None \<Rightarrow> 0
             | Some latest \<Rightarrow> ceil_seconds (pinv_createdAt latest + cooldown * 1000 - env_now E))
       in if wait > 0 then (Inl (TooManyRequests
              ''Please wait before creating another invitation for this email'' wait), s) else
       let s1 = snd (update_private mine (answer_private E InvCancelled) s) in
       if \<exists>i \<in> set (fdb_private s1). pinv_tokenHash i = tokenHash then (Inl P2002, s1) else
       (case fresh s1 of (i, s2) \<Rightarrow>
          let inv = \<lparr>pinv_id = i, pinv_senderId = senderId, pinv_acceptedById = None,
                pinv_recipientEmail = recipientEmail, pinv_tokenHash = tokenHash,
                pinv_status = InvPending, pinv_expiresAt = env_now E + expiresIn * 1000,
                pinv_useCount = 0, pinv_respondedAt = None, pinv_createdAt = env_now E\<rparr>
          in (Inr inv, s2\<lparr>fdb_private := fdb_private s2 @ [inv]\<rparr>)))"

text \<open>The token is in the URL's fragment; base64url text is its own \<open>encodeURIComponent\<close>.\<close>

definition createPrivate ::
    "env \<Rightarrow> family_config \<Rightarrow> (string \<Rightarrow> string) \<Rightarrow> string \<Rightarrow> uuid \<Rightarrow> string \<Rightarrow> family_db
       \<Rightarrow> (private_response \<times> string, family_db) resp" where
  "createPrivate E cfg hashToken token senderId recipientEmail s = (
     let s0 = expirePending E s in
     case durationToSeconds (FAMILY_INVITATION_EXPIRES_IN cfg) of Inl e \<Rightarrow> (Inl e, s0)
     | Inr expiresIn \<Rightarrow>
     (case durationToSeconds (PRIVATE_FAMILY_INVITATION_COOLDOWN cfg) of Inl e \<Rightarrow> (Inl e, s0)
     | Inr cooldown \<Rightarrow>
     catch_prisma [''P2034''] ''Invitation state changed; please try again''
     (and_then (transaction s0 (createPrivate_tx E expiresIn cooldown senderId recipientEmail (hashToken token) s0))
       (\<lambda>inv s1.
         let inviteUrl = strip_slashes (FRONTEND_APP_URL cfg) @ ''/join-family#token='' @ token in
         and_then
          (case user_by_email recipientEmail s1 of None \<Rightarrow> (Inr (), s1)
           | Some u \<Rightarrow> notifyUser E (plain_notice (user_id u) ''PRIVATE_FAMILY_INVITATION_CREATED''
               ''New family invitation'' (Some ''A private invitation was created for your email.'')) s1)
          (\<lambda>_ s2. (Inr (private_fromEntity inv, inviteUrl), s2))))))"

definition findOutgoingPrivate :: "env \<Rightarrow> uuid \<Rightarrow> family_db \<Rightarrow> (private_response list, family_db) resp" where
  "findOutgoingPrivate E userId s = (let s0 = expirePending E s in
     (Inr (map private_fromEntity (sort_key (\<lambda>i. - pinv_createdAt i)
        (filter (\<lambda>i. pinv_senderId i = userId) (fdb_private s0)))), s0))"

definition cancel_competing :: "env \<Rightarrow> user \<Rightarrow> user \<Rightarrow> uuid \<Rightarrow> family_db \<Rightarrow> family_db" where
  "cancel_competing E sender recipient current s = (
     let both = {user_id sender, user_id recipient} in
     snd (update_private (\<lambda>i. pinv_status i = InvPending \<and> pinv_id i \<noteq> current \<and>
          (pinv_senderId i \<in> both \<or> pinv_recipientEmail i \<in> {user_email sender, user_email recipient}))
          (answer_private E InvCancelled)
       (snd (update_invitations (\<lambda>i. inv_status i = InvPending \<and>
          (inv_senderId i \<in> both \<or> inv_recipientId i \<in> both)) (answer_invitation E InvCancelled) s))))"

definition settle_private :: "env \<Rightarrow> uuid \<Rightarrow> uuid \<Rightarrow> family_db \<Rightarrow> (private_invitation, family_db) resp" where
  "settle_private E current recipientId s = (
     case update_private (\<lambda>i. pinv_id i = current \<and> pinv_status i = InvPending \<and> pinv_useCount i = 0)
       (\<lambda>i. (answer_private E InvAccepted i)\<lparr>pinv_acceptedById := Some recipientId,
          pinv_useCount := pinv_useCount i + 1\<rparr>) s of
       (count, s') \<Rightarrow>
         if count \<noteq> 1 then (Inl (Conflict ''Invitation is no longer available''), s') else
         (case find_first (\<lambda>i. pinv_id i = current) (fdb_private s') of
            None \<Rightarrow> (Inl (NotFound ''Invitation not found''), s')
          | Some updated \<Rightarrow> (Inr updated, s')))"

definition acceptPrivate_tx ::
    "env \<Rightarrow> family_config \<Rightarrow> uuid \<Rightarrow> string \<Rightarrow> family_db \<Rightarrow> (uuid \<times> private_invitation, family_db) resp" where
  "acceptPrivate_tx E cfg userId tokenHash s = (
     case find_first (\<lambda>i. pinv_tokenHash i = tokenHash) (fdb_private s) of
       None \<Rightarrow> (Inl (NotFound ''Invitation not found''), s)
     | Some current \<Rightarrow>
       if pinv_status current = InvExpired then (Inl (Gone ''Invitation has expired''), s) else
       if pinv_status current \<noteq> InvPending \<or> pinv_useCount current > 0
         then (Inl (Conflict ''Invitation is no longer available''), s) else
       (case (active_user (pinv_senderId current) s, active_user userId s) of
         (Some sender, Some recipient) \<Rightarrow>
           if user_email recipient \<noteq> pinv_recipientEmail current
             then (Inl (Forbidden ''Invitation is intended for another account''), s) else
           if user_id sender = user_id recipient then (Inl (Conflict ''You cannot invite yourself''), s) else
           if has_family (user_id sender) s \<or> has_family (user_id recipient) s
             then (Inl (Conflict ''One of the users already belongs to a family''), s) else
           and_then (create_family E cfg (user_id sender) (user_id recipient) s)
             (\<lambda>familyId s1. and_then
                (settle_private E (pinv_id current) (user_id recipient)
                   (cancel_competing E sender recipient (pinv_id current) s1))
                (\<lambda>updated s4. (Inr (familyId, updated), s4)))
       | _ \<Rightarrow> (Inl (NotFound ''Invitation not found''), s)))"

definition acceptPrivate ::
    "env \<Rightarrow> family_config \<Rightarrow> (string \<Rightarrow> string) \<Rightarrow> uuid \<Rightarrow> string \<Rightarrow> family_db
       \<Rightarrow> (private_response, family_db) resp" where
  "acceptPrivate E cfg hashToken userId token s = (
     let s0 = expirePending E s in
     catch_prisma [''P2002'', ''P2034''] ''Family membership changed; please refresh and try again''
     (and_then (transaction s0 (acceptPrivate_tx E cfg userId (hashToken token) s0))
       (\<lambda>(familyId, invitation) s1. and_then
          (notifyUser E \<lparr>dn_userId = pinv_senderId invitation, dn_familyId = Some familyId,
             dn_type = ''FAMILY_INVITATION_ACCEPTED'', dn_title = ''The invitation was accepted'',
             dn_body = Some ''The user accepted the invitation. The family was created.''\<rparr> s1)
          (\<lambda>_ s2. (Inr (private_fromEntity invitation), s2)))))"

definition revokePrivate :: "env \<Rightarrow> uuid \<Rightarrow> uuid \<Rightarrow> family_db \<Rightarrow> (private_response, family_db) resp" where
  "revokePrivate E invitationId userId s = (
     let s0 = expirePending E s in
     case find_first (\<lambda>i. pinv_id i = invitationId) (fdb_private s0) of
       None \<Rightarrow> (Inl (NotFound ''Invitation not found''), s0)
     | Some invitation \<Rightarrow>
       if pinv_senderId invitation \<noteq> userId then (Inl (Forbidden ''Only the sender can revoke it''), s0) else
       if pinv_status invitation \<noteq> InvPending then (Inl (Conflict ''Invitation is no longer pending''), s0) else
       (case update_private (\<lambda>i. pinv_id i = invitationId \<and> pinv_senderId i = userId \<and> pinv_status i = InvPending)
            (answer_private E InvCancelled) s0 of
          (count, s1) \<Rightarrow>
            if count \<noteq> 1 then (Inl (Conflict ''Invitation is no longer pending''), s1) else
            (case find_first (\<lambda>i. pinv_id i = invitationId) (fdb_private s1) of
               None \<Rightarrow> (Inl (NotFound ''Invitation not found''), s1)
             | Some updated \<Rightarrow> and_then
                 (case user_by_email (pinv_recipientEmail invitation) s1 of None \<Rightarrow> (Inr (), s1)
                  | Some u \<Rightarrow> notifyUser E (plain_notice (user_id u) ''PRIVATE_FAMILY_INVITATION_CANCELLED''
                      ''The private invitation was cancelled'' None) s1)
                 (\<lambda>_ s2. (Inr (private_fromEntity updated), s2)))))"

subsection \<open>What every operation keeps\<close>

definition settled_kept :: "family_db \<Rightarrow> family_db \<Rightarrow> bool" where
  "settled_kept s s' \<longleftrightarrow>
     (\<forall>i \<in> set (fdb_invitations s). inv_status i \<noteq> InvPending \<longrightarrow> i \<in> set (fdb_invitations s'))
     \<and> (\<forall>i \<in> set (fdb_private s). pinv_status i \<noteq> InvPending \<longrightarrow> i \<in> set (fdb_private s'))"

definition dissolved_kept :: "family_db \<Rightarrow> family_db \<Rightarrow> bool" where
  "dissolved_kept s s' \<longleftrightarrow>
     (\<forall>f \<in> set (core_families s). family_status f = FamilyDissolved \<longrightarrow> f \<in> set (core_families s')
        \<and> (\<forall>m \<in> set (core_members s). member_familyId m = family_id f \<longrightarrow> m \<in> set (core_members s')))"

text \<open>Well-formedness: the unique keys of the tables, identifiers below the counter, one use of
  a private invitation exactly when it is accepted, and two different partners behind every
  confirmed dissolution.\<close>

definition members_ok :: "family_db \<Rightarrow> bool" where
  "members_ok s \<longleftrightarrow> distinct (map member_userId (core_members s))
     \<and> distinct (map family_id (core_families s))
     \<and> (\<forall>f \<in> set (core_families s). family_id f < core_nextId s)
     \<and> (\<forall>m \<in> set (core_members s). member_familyId m \<in> family_id ` set (core_families s))"

definition invitations_ok :: "family_db \<Rightarrow> bool" where
  "invitations_ok s \<longleftrightarrow> distinct (map inv_id (fdb_invitations s))
     \<and> (\<forall>i \<in> set (fdb_invitations s). inv_id i < core_nextId s \<and> inv_senderId i \<noteq> inv_recipientId i)
     \<and> (\<forall>i \<in> set (fdb_invitations s). \<forall>j \<in> set (fdb_invitations s).
          inv_status i = InvPending \<longrightarrow> inv_status j = InvPending
          \<longrightarrow> same_pair (inv_senderId i) (inv_recipientId i) j \<longrightarrow> i = j)"

definition private_ok :: "family_db \<Rightarrow> bool" where
  "private_ok s \<longleftrightarrow> distinct (map pinv_id (fdb_private s)) \<and> distinct (map pinv_tokenHash (fdb_private s))
     \<and> (\<forall>i \<in> set (fdb_private s). pinv_id i < core_nextId s
          \<and> pinv_useCount i = (if pinv_status i = InvAccepted then 1 else 0))"

definition dissolutions_ok :: "family_db \<Rightarrow> bool" where
  "dissolutions_ok s \<longleftrightarrow> distinct (map dis_id (fdb_dissolutions s))
     \<and> (\<forall>r \<in> set (fdb_dissolutions s). dis_id r < core_nextId s
          \<and> (dis_status r = DisConfirmed \<longleftrightarrow> dis_confirmedById r \<noteq> None)
          \<and> dis_confirmedById r \<noteq> Some (dis_requestedById r))"

definition families_ok :: "family_db \<Rightarrow> bool" where
  "families_ok s \<longleftrightarrow> members_ok s \<and> invitations_ok s \<and> private_ok s \<and> dissolutions_ok s"

definition fam_evolves :: "family_db \<Rightarrow> family_db \<Rightarrow> bool" where
  "fam_evolves s s' \<longleftrightarrow> (families_ok s \<longrightarrow> families_ok s' \<and> settled_kept s s' \<and> dissolved_kept s s')"

lemmas families_ok_defs = families_ok_def members_ok_def invitations_ok_def private_ok_def dissolutions_ok_def

lemma families_ok_feed [simp]: "families_ok (s\<lparr>core_feed := d\<rparr>) = families_ok s"
  by (simp add: families_ok_defs)

lemma fam_evolves_refl [simp, intro]: "fam_evolves s s"
  by (simp add: fam_evolves_def settled_kept_def dissolved_kept_def)

lemma fam_evolves_trans: "fam_evolves a b \<Longrightarrow> fam_evolves b c \<Longrightarrow> fam_evolves a c"
  unfolding fam_evolves_def settled_kept_def dissolved_kept_def by blast

lemma fam_evolves_feed [simp]: "fam_evolves a (b\<lparr>core_feed := d\<rparr>) = fam_evolves a b"
  by (simp add: fam_evolves_def settled_kept_def dissolved_kept_def)

lemma fam_evolves_audit [simp]: "fam_evolves a (audit_record E i b) = fam_evolves a b"
  by (simp add: audit_record_def)

lemma answer_invitation_keys [simp]:
  "inv_id (answer_invitation E st i) = inv_id i" "inv_senderId (answer_invitation E st i) = inv_senderId i"
  "inv_recipientId (answer_invitation E st i) = inv_recipientId i"
  "inv_status (answer_invitation E st i) = st"
  by (simp_all add: answer_invitation_def)

lemma answer_private_keys [simp]:
  "pinv_id (answer_private E st i) = pinv_id i" "pinv_tokenHash (answer_private E st i) = pinv_tokenHash i"
  "pinv_useCount (answer_private E st i) = pinv_useCount i" "pinv_status (answer_private E st i) = st"
  by (simp_all add: answer_private_def)

lemma map_key_update [simp]:
  "(\<And>x. k (f x) = k x) \<Longrightarrow> map (\<lambda>r. k (if P r then f r else r)) rs = map k rs"
  by auto

text \<open>The writes the handlers are made of.\<close>

lemma evolves_answer:
  assumes st: "st \<noteq> InvPending" and P: "\<And>i. P i \<Longrightarrow> inv_status i = InvPending"
  shows "fam_evolves s (snd (update_invitations P (answer_invitation E st) s))"
proof -
  let ?s = "snd (update_invitations P (answer_invitation E st) s)"
  have ids: "map inv_id (fdb_invitations ?s) = map inv_id (fdb_invitations s)"
    by (simp add: update_invitations_def o_def)
  have "invitations_ok ?s" if ok: "invitations_ok s"
  proof -
    have "i = j" if ij: "i \<in> set (fdb_invitations ?s)" "j \<in> set (fdb_invitations ?s)"
      "inv_status i = InvPending" "inv_status j = InvPending" "same_pair (inv_senderId i) (inv_recipientId i) j" for i j
    proof -
      have "i \<in> set (fdb_invitations s)" "j \<in> set (fdb_invitations s)"
        using ij st by (auto simp: update_invitations_def split: if_splits)
      then show ?thesis using ok ij unfolding invitations_ok_def by blast
    qed
    moreover have "inv_id i < core_nextId ?s \<and> inv_senderId i \<noteq> inv_recipientId i"
      if "i \<in> set (fdb_invitations ?s)" for i
      using that ok by (auto simp: update_invitations_def invitations_ok_def)
    ultimately show ?thesis using ok ids unfolding invitations_ok_def by metis
  qed
  moreover have "settled_kept s ?s" using P by (force simp: settled_kept_def update_invitations_def)
  ultimately show ?thesis
    by (auto simp: fam_evolves_def families_ok_def members_ok_def private_ok_def dissolutions_ok_def
        dissolved_kept_def update_invitations_def)
qed

lemma evolves_private:
  assumes P: "\<And>i. P i \<Longrightarrow> pinv_status i = InvPending"
    and f: "\<And>i. pinv_id (f i) = pinv_id i" "\<And>i. pinv_tokenHash (f i) = pinv_tokenHash i"
      "\<And>i. pinv_useCount i = 0 \<Longrightarrow> pinv_useCount (f i) = (if pinv_status (f i) = InvAccepted then 1 else 0)"
  shows "fam_evolves s (snd (update_private P f s))"
proof -
  let ?s = "snd (update_private P f s)"
  have ids: "map pinv_id (fdb_private ?s) = map pinv_id (fdb_private s)"
    "map pinv_tokenHash (fdb_private ?s) = map pinv_tokenHash (fdb_private s)"
    using f by (simp_all add: update_private_def o_def)
  have "private_ok ?s" if ok: "private_ok s"
  proof -
    have "pinv_id i < core_nextId ?s \<and> pinv_useCount i = (if pinv_status i = InvAccepted then 1 else 0)"
      if "i \<in> set (fdb_private ?s)" for i
      using that ok f P by (fastforce simp: update_private_def private_ok_def)
    then show ?thesis using ok ids unfolding private_ok_def by metis
  qed
  moreover have "settled_kept s ?s" using P by (force simp: settled_kept_def update_private_def)
  ultimately show ?thesis
    by (auto simp: fam_evolves_def families_ok_def members_ok_def invitations_ok_def dissolutions_ok_def
        dissolved_kept_def update_private_def)
qed

lemma expirePending_writes:
  "expirePending E s = snd (update_private (\<lambda>i. pinv_status i = InvPending \<and> pinv_expiresAt i \<le> env_now E)
      (answer_private E InvExpired)
      (snd (update_invitations (\<lambda>i. inv_status i = InvPending \<and> inv_expiresAt i \<le> env_now E)
        (answer_invitation E InvExpired) s)))"
  by (simp add: expirePending_def update_private_def update_invitations_def answer_private_def
      answer_invitation_def)

lemma evolves_expire: "fam_evolves s (expirePending E s)"
  unfolding expirePending_writes
  by (rule fam_evolves_trans [OF evolves_answer evolves_private]) auto

lemma cancel_sent_writes:
  "cancel_sent_invitations E u s = snd (update_invitations (\<lambda>i. inv_senderId i = u \<and> inv_status i = InvPending)
      (answer_invitation E InvCancelled) s)"
  by (simp add: cancel_sent_invitations_def update_invitations_def answer_invitation_def)

lemma evolves_cancel_sent: "fam_evolves s (cancel_sent_invitations E u s)"
  unfolding cancel_sent_writes by (rule evolves_answer) auto

lemma evolves_family:
  assumes f: "\<And>x. family_id (f x) = family_id x"
    and P: "families_ok s \<Longrightarrow> \<forall>x \<in> set (core_families s). P x \<longrightarrow> family_status x \<noteq> FamilyDissolved"
  shows "fam_evolves s (snd (update_family P f s))"
proof -
  let ?s = "snd (update_family P f s)"
  have ids: "map family_id (core_families ?s) = map family_id (core_families s)"
    using f by (simp add: update_family_def o_def)
  have fams: "x \<in> set (core_families ?s) \<Longrightarrow> family_id x \<in> family_id ` set (core_families s)" for x
    by (metis ids image_set imageI)
  have rest: "core_members ?s = core_members s" "core_nextId ?s = core_nextId s"
    by (simp_all add: update_family_def)
  have im: "family_id ` set (core_families ?s) = family_id ` set (core_families s)"
    by (metis ids image_set)
  have "members_ok ?s" if "members_ok s"
    using that fams unfolding members_ok_def ids rest im by fastforce
  moreover have "dissolved_kept s ?s" if "families_ok s"
    using P [OF that] by (force simp: dissolved_kept_def update_family_def)
  ultimately show ?thesis
    by (auto simp: fam_evolves_def families_ok_def private_ok_def invitations_ok_def dissolutions_ok_def
        settled_kept_def update_family_def)
qed

lemma evolves_delete_members:
  assumes "families_ok s \<Longrightarrow> \<forall>m \<in> set (core_members s). P m \<longrightarrow>
      (\<forall>f \<in> set (core_families s). family_id f = member_familyId m \<longrightarrow> family_status f \<noteq> FamilyDissolved)"
  shows "fam_evolves s (s\<lparr>core_members := snd (delete_many P (core_members s))\<rparr>)"
proof -
  let ?s = "s\<lparr>core_members := snd (delete_many P (core_members s))\<rparr>"
  have "members_ok s \<Longrightarrow> members_ok ?s" by (auto simp: members_ok_def distinct_map_filter)
  moreover have "families_ok s \<Longrightarrow> dissolved_kept s ?s" using assms by (auto simp: dissolved_kept_def)
  ultimately show ?thesis
    by (simp add: fam_evolves_def families_ok_def private_ok_def invitations_ok_def dissolutions_ok_def
        settled_kept_def)
qed

text \<open>A write to one table leaves the others well formed.\<close>

lemma ok_frames:
  "core_members s' = core_members s \<Longrightarrow> core_families s' = core_families s \<Longrightarrow>
     core_nextId s \<le> core_nextId s' \<Longrightarrow> members_ok s \<Longrightarrow> members_ok s'"
  "fdb_invitations s' = fdb_invitations s \<Longrightarrow> core_nextId s \<le> core_nextId s' \<Longrightarrow>
     invitations_ok s \<Longrightarrow> invitations_ok s'"
  "fdb_private s' = fdb_private s \<Longrightarrow> core_nextId s \<le> core_nextId s' \<Longrightarrow> private_ok s \<Longrightarrow> private_ok s'"
  "fdb_dissolutions s' = fdb_dissolutions s \<Longrightarrow> core_nextId s \<le> core_nextId s' \<Longrightarrow>
     dissolutions_ok s \<Longrightarrow> dissolutions_ok s'"
  by (auto simp: members_ok_def invitations_ok_def private_ok_def dissolutions_ok_def
      dest!: bspec intro: less_le_trans)

lemma kept_frames:
  "fdb_invitations s' = fdb_invitations s \<Longrightarrow> fdb_private s' = fdb_private s \<Longrightarrow> settled_kept s s'"
  "core_members s' = core_members s \<Longrightarrow> core_families s' = core_families s \<Longrightarrow> dissolved_kept s s'"
  by (simp_all add: settled_kept_def dissolved_kept_def)

lemma has_family_iff: "has_family u s \<longleftrightarrow> u \<in> member_userId ` set (core_members s)"
  by (auto simp: has_family_def find_member_def find_None_iff)

lemma evolves_create_family:
  assumes "create_family E cfg u1 u2 s = (r, s')"
  shows "fam_evolves s s'"
proof (cases "u1 = u2 \<or> has_family u1 s \<or> has_family u2 s")
  case True
  then show ?thesis using assms by (auto simp: create_family_def)
next
  case False
  let ?f = "core_nextId s"
  have s': "fdb_invitations s' = fdb_invitations s" "fdb_private s' = fdb_private s"
    "fdb_dissolutions s' = fdb_dissolutions s" "core_nextId s' = ?f + 3"
    and fams: "\<exists>x. core_families s' = core_families s @ [x] \<and> family_id x = ?f"
    and mems: "core_members s' = core_members s @ [new_member E (?f + 1) ?f u1, new_member E (?f + 2) ?f u2]"
    using assms False by (auto simp: create_family_def Let_def)
  have "members_ok s' \<and> dissolved_kept s s'" if ok: "members_ok s"
  proof -
    obtain x where x: "core_families s' = core_families s @ [x]" "family_id x = ?f" using fams by blast
    have "distinct (map member_userId (core_members s'))"
      using ok False unfolding mems has_family_iff by (auto simp: members_ok_def new_member_def)
    moreover have "\<forall>m \<in> set (core_members s'). member_familyId m \<in> family_id ` set (core_families s')"
      using ok unfolding mems x by (auto simp: members_ok_def new_member_def x)
    moreover have "distinct (map family_id (core_families s'))"
      "\<forall>f \<in> set (core_families s'). family_id f < core_nextId s'"
      using ok unfolding x s'(4) by (auto simp: members_ok_def x)
    ultimately have "members_ok s'" by (simp add: members_ok_def)
    moreover have "dissolved_kept s s'" unfolding dissolved_kept_def x mems by simp
    ultimately show ?thesis by blast
  qed
  then show ?thesis using s'
    by (auto simp: fam_evolves_def families_ok_def private_ok_def invitations_ok_def dissolutions_ok_def
        settled_kept_def)
qed

lemma evolves_new_invitation:
  assumes "inv_id i = core_nextId s" "inv_senderId i \<noteq> inv_recipientId i"
    and "\<forall>j \<in> set (fdb_invitations s). inv_status j = InvPending \<longrightarrow>
      \<not> same_pair (inv_senderId i) (inv_recipientId i) j"
  shows "fam_evolves s (s\<lparr>core_nextId := core_nextId s + 1, fdb_invitations := fdb_invitations s @ [i]\<rparr>)"
proof -
  let ?s = "s\<lparr>core_nextId := core_nextId s + 1, fdb_invitations := fdb_invitations s @ [i]\<rparr>"
  have sym: "same_pair (inv_senderId j) (inv_recipientId j) i = same_pair (inv_senderId i) (inv_recipientId i) j" for j
    by (auto simp: same_pair_def)
  have "invitations_ok ?s" if ok: "invitations_ok s"
  proof -
    have "a = b" if ab: "a \<in> set (fdb_invitations ?s)" "b \<in> set (fdb_invitations ?s)"
      "inv_status a = InvPending" "inv_status b = InvPending" "same_pair (inv_senderId a) (inv_recipientId a) b" for a b
    proof (cases "a = i \<or> b = i")
      case True
      then show ?thesis using ab assms(3) sym by auto
    next
      case False
      then show ?thesis using ab ok unfolding invitations_ok_def by simp
    qed
    moreover have "distinct (map inv_id (fdb_invitations ?s))"
      "\<forall>a \<in> set (fdb_invitations ?s). inv_id a < core_nextId ?s \<and> inv_senderId a \<noteq> inv_recipientId a"
      using ok assms(1,2) by (auto simp: invitations_ok_def)
    ultimately show ?thesis unfolding invitations_ok_def by blast
  qed
  moreover have "settled_kept s ?s" by (simp add: settled_kept_def)
  ultimately show ?thesis unfolding fam_evolves_def families_ok_def
    by (auto intro: ok_frames [where s = s] kept_frames)
qed

lemma evolves_new_private:
  assumes "pinv_id i = core_nextId s" "pinv_status i = InvPending" "pinv_useCount i = 0"
    and "\<forall>j \<in> set (fdb_private s). pinv_tokenHash j \<noteq> pinv_tokenHash i"
  shows "fam_evolves s (s\<lparr>core_nextId := core_nextId s + 1, fdb_private := fdb_private s @ [i]\<rparr>)"
proof -
  let ?s = "s\<lparr>core_nextId := core_nextId s + 1, fdb_private := fdb_private s @ [i]\<rparr>"
  have "private_ok ?s" if "private_ok s"
    using that assms unfolding private_ok_def by (auto simp: less_Suc_eq)
  moreover have "settled_kept s ?s" by (simp add: settled_kept_def)
  ultimately show ?thesis unfolding fam_evolves_def families_ok_def
    by (auto intro: ok_frames [where s = s] kept_frames)
qed

lemma evolves_new_dissolution:
  assumes "dis_id r = core_nextId s" "dis_status r = DisPending" "dis_confirmedById r = None"
  shows "fam_evolves s (s\<lparr>core_nextId := core_nextId s + 1, fdb_dissolutions := fdb_dissolutions s @ [r]\<rparr>)"
proof -
  let ?s = "s\<lparr>core_nextId := core_nextId s + 1, fdb_dissolutions := fdb_dissolutions s @ [r]\<rparr>"
  have "dissolutions_ok ?s" if "dissolutions_ok s"
    using that assms unfolding dissolutions_ok_def by (auto simp: less_Suc_eq)
  then show ?thesis unfolding fam_evolves_def families_ok_def
    by (auto intro: ok_frames [where s = s] kept_frames)
qed

lemma evolves_dissolutions:
  assumes f: "\<And>r. dis_id (f r) = dis_id r" "\<And>r. dis_requestedById (f r) = dis_requestedById r"
    and P: "families_ok s \<Longrightarrow> \<forall>r \<in> set (fdb_dissolutions s). P r \<longrightarrow>
      (dis_status (f r) = DisConfirmed \<longleftrightarrow> dis_confirmedById (f r) \<noteq> None)
      \<and> dis_confirmedById (f r) \<noteq> Some (dis_requestedById r)"
  shows "fam_evolves s (s\<lparr>fdb_dissolutions := snd (update_many P f (fdb_dissolutions s))\<rparr>)"
proof -
  let ?s = "s\<lparr>fdb_dissolutions := snd (update_many P f (fdb_dissolutions s))\<rparr>"
  have ids: "map dis_id (fdb_dissolutions ?s) = map dis_id (fdb_dissolutions s)"
    using f by (simp add: o_def)
  have "dissolutions_ok ?s" if ok: "families_ok s"
  proof -
    have "dis_id r < core_nextId ?s \<and> (dis_status r = DisConfirmed \<longleftrightarrow> dis_confirmedById r \<noteq> None)
          \<and> dis_confirmedById r \<noteq> Some (dis_requestedById r)" if "r \<in> set (fdb_dissolutions ?s)" for r
      using that ok P [OF ok] f by (auto simp: families_ok_def dissolutions_ok_def)
    then show ?thesis using ok ids unfolding dissolutions_ok_def families_ok_def by metis
  qed
  then show ?thesis unfolding fam_evolves_def families_ok_def
    by (auto intro: ok_frames [where s = s] kept_frames)
qed

subsection \<open>The handlers\<close>

interpretation fam: evolution fam_evolves
  by unfold_locales (blast intro: fam_evolves_trans)+

lemma members_family_active:
  assumes "families_ok s" "requireMembership u s = Inr ctx" "f \<in> set (core_families s)"
    and "family_id f = ctx_familyId ctx"
  shows "family_status f = FamilyActive"
proof -
  obtain g where g: "find_family (ctx_familyId ctx) s = Some g" "family_status g = FamilyActive"
    using requireMembership_Inr [OF assms(2)] by blast
  then have "g \<in> set (core_families s)" "family_id g = ctx_familyId ctx"
    by (auto simp: find_family_def dest: find_SomeD)
  then show ?thesis using assms g distinct_key_eq [of family_id "core_families s" f g]
    by (simp add: families_ok_def members_ok_def)
qed

lemma evolves_leave: "fam_evolves s (snd (families_leave E u s))"
proof (cases "requireMembership u s")
  case (Inr ctx)
  obtain m0 where m0: "m0 \<in> set (core_members s)" "member_userId m0 = u" "member_familyId m0 = ctx_familyId ctx"
    using requireMembership_Inr [OF Inr] by blast
  let ?s1 = "s\<lparr>core_members := snd (delete_many (\<lambda>m. member_userId m = u) (core_members s))\<rparr>"
  have same: "m = m0" if "families_ok s" "m \<in> set (core_members s)" "member_userId m = u" for m
    using that m0 distinct_key_eq [of member_userId "core_members s" m m0]
    by (simp add: families_ok_def members_ok_def)
  have 1: "fam_evolves s ?s1"
    by (rule evolves_delete_members) (use members_family_active [OF _ Inr] same m0(3) in fastforce)
  have "families_ok s \<Longrightarrow> families_ok ?s1" using 1 by (simp add: fam_evolves_def)
  have fa: "family_status x \<noteq> FamilyDissolved"
    if "families_ok ?s1" "x \<in> set (core_families s)" "family_id x = ctx_familyId ctx" for x
  proof -
    obtain g where g: "find_family (ctx_familyId ctx) s = Some g" "family_status g = FamilyActive"
      using requireMembership_Inr [OF Inr] by blast
    then have "g \<in> set (core_families s)" "family_id g = ctx_familyId ctx"
      by (auto simp: find_family_def dest: find_SomeD)
    then show ?thesis using that g distinct_key_eq [of family_id "core_families s" x g]
      by (simp add: families_ok_def members_ok_def)
  qed
  have 2: "fam_evolves ?s1 (snd (update_family (\<lambda>f. family_id f = ctx_familyId ctx)
      (\<lambda>f. f\<lparr>family_status := FamilyArchived, family_archivedAt := Some (env_now E)\<rparr>) ?s1))"
    by (rule evolves_family) (use fa in auto)
  show ?thesis unfolding families_leave_def Inr sum.case
    by (rule fam.and_thenI fam.transactionI)+
      (auto simp: frame_simps Let_def split: if_splits
        intro: fam_evolves_trans [OF 1 [simplified] evolves_cancel_sent]
          fam_evolves_trans [OF fam_evolves_trans [OF 1 2, simplified] evolves_cancel_sent])
qed (simp add: families_leave_def)

lemma evolves_archive: "fam_evolves s (snd (families_archive E u s))"
proof (cases "requirePartner u s")
  case (Inr ctx)
  have 1: "fam_evolves s (snd (update_family (\<lambda>f. family_id f = ctx_familyId ctx \<and> family_status f = FamilyActive)
      (\<lambda>f. f\<lparr>family_status := FamilyArchived, family_archivedAt := Some (env_now E)\<rparr>) s))"
    by (rule evolves_family) auto
  show ?thesis unfolding families_archive_def Inr sum.case
    by (rule fam.and_thenI fam.transactionI)+
      (auto simp: frame_simps case_prod_beta split: if_splits
        intro: fam_evolves_trans [OF 1 evolves_cancel_sent])
qed (simp add: families_archive_def)

lemma evolves_restore: "fam_evolves s (snd (families_restore E u s))"
proof (cases "find_member u s")
  case (Some m)
  have 1: "fam_evolves s (snd (update_family (\<lambda>f. family_id f = member_familyId m \<and> family_status f = FamilyArchived)
      (\<lambda>f. f\<lparr>family_status := FamilyActive, family_archivedAt := None\<rparr>) s))"
    by (rule evolves_family) auto
  have "fam_evolves s (snd (and_then (transaction s (
        case update_family (\<lambda>f. family_id f = member_familyId m \<and> family_status f = FamilyArchived)
          (\<lambda>f. f\<lparr>family_status := FamilyActive, family_archivedAt := None\<rparr>) s of
          (count, s1) \<Rightarrow>
            if count \<noteq> 1 then (Inl (Forbidden ''Family is no longer archived''), s1)
            else (Inr (), audit_record E (audit_of u (member_familyId m) ''family.restored''
                ''family'' (member_familyId m)) s1)))
     (\<lambda>_ s'. notifyFamilyMembers E (member_familyId m) u ''FAMILY_RESTORED''
        ''The family was restored'' None s')))"
    by (rule fam.and_thenI fam.transactionI)+
      (use 1 in \<open>auto simp: frame_simps case_prod_beta split: if_splits\<close>)
  then show ?thesis by (simp add: families_restore_def Some)
qed (simp add: families_restore_def)

lemma evolves_requestDissolution: "fam_evolves s (snd (requestDissolution E u s))"
proof (cases "requirePartner u s")
  case (Inr ctx)
  show ?thesis unfolding requestDissolution_def Inr sum.case
    by (rule fam.and_thenI fam.transactionI)+
      (auto simp: frame_simps fresh_def Let_def intro!: evolves_new_dissolution [simplified])
qed (simp add: requestDissolution_def)

lemma evolves_confirmDissolution: "fam_evolves s (snd (confirmDissolution E u s))"
proof (cases "requirePartner u s")
  case (Inr ctx)
  then have ctx: "requireMembership u s = Inr ctx" by (simp add: requirePartner_Inr)
  show ?thesis
  proof (cases "find_first (\<lambda>r. dis_familyId r = ctx_familyId ctx \<and> dis_status r = DisPending) (fdb_dissolutions s)")
    case None
    then show ?thesis by (simp add: confirmDissolution_def Inr)
  next
    case (Some rq)
    then have rq: "rq \<in> set (fdb_dissolutions s)" by (auto dest: find_SomeD)
    let ?f = "\<lambda>r. r\<lparr>dis_status := DisConfirmed, dis_confirmedById := Some u, dis_confirmedAt := Some (env_now E)\<rparr>"
    let ?s1 = "s\<lparr>fdb_dissolutions := snd (update_many (\<lambda>r. dis_id r = dis_id rq) ?f (fdb_dissolutions s))\<rparr>"
    have 1: "fam_evolves s ?s1" if "dis_requestedById rq \<noteq> u"
    proof (rule evolves_dissolutions)
      assume ok: "families_ok s"
      have "r = rq" if "r \<in> set (fdb_dissolutions s)" "dis_id r = dis_id rq" for r
        using distinct_key_eq [of dis_id "fdb_dissolutions s" r rq] rq that ok
        by (simp add: families_ok_def dissolutions_ok_def)
      then show "\<forall>r \<in> set (fdb_dissolutions s). dis_id r = dis_id rq \<longrightarrow>
          (dis_status (?f r) = DisConfirmed \<longleftrightarrow> dis_confirmedById (?f r) \<noteq> None)
          \<and> dis_confirmedById (?f r) \<noteq> Some (dis_requestedById r)"
        using that by auto
    qed simp_all
    have act: "family_status x \<noteq> FamilyDissolved"
      if "families_ok ?s1" "x \<in> set (core_families s)" "family_id x = ctx_familyId ctx" for x
    proof -
      have "members_ok s" using that(1) by (simp add: families_ok_def members_ok_def)
      moreover obtain g where g: "find_family (ctx_familyId ctx) s = Some g" "family_status g = FamilyActive"
        using requireMembership_Inr [OF ctx] by blast
      then have "g \<in> set (core_families s)" "family_id g = ctx_familyId ctx"
        by (auto simp: find_family_def dest: find_SomeD)
      ultimately show ?thesis using that g distinct_key_eq [of family_id "core_families s" x g]
        by (simp add: members_ok_def)
    qed
    have 2: "fam_evolves ?s1 (snd (update_family (\<lambda>f. family_id f = ctx_familyId ctx)
        (\<lambda>f. f\<lparr>family_status := FamilyDissolved, family_dissolvedAt := Some (env_now E)\<rparr>) ?s1))"
      by (rule evolves_family) (use act in auto)
    show ?thesis unfolding confirmDissolution_def Inr sum.case Some option.case
      by (rule fam.and_thenI fam.transactionI)+
        (auto simp: frame_simps Let_def split: if_splits
          intro: fam_evolves_trans [OF 1 2, simplified])
  qed
qed (simp add: confirmDissolution_def)

lemma evolves_cancelDissolution: "fam_evolves s (snd (cancelDissolution E u s))"
proof (cases "requirePartner u s")
  case (Inr ctx)
  have "fam_evolves s (s\<lparr>fdb_dissolutions := snd (update_many
      (\<lambda>r. dis_familyId r = ctx_familyId ctx \<and> dis_status r = DisPending)
      (\<lambda>r. r\<lparr>dis_status := DisCancelled\<rparr>) (fdb_dissolutions s))\<rparr>)"
    by (rule evolves_dissolutions) (auto simp: families_ok_def dissolutions_ok_def)
  then show ?thesis
    by (simp add: cancelDissolution_def Inr case_prod_beta Let_def frame_simps)
qed (simp add: cancelDissolution_def)

lemma evolves_create_tx:
  assumes "create_tx E x a b s = (Inr v, t)" "a \<noteq> b"
  shows "fam_evolves s t"
proof -
  have free: "\<not> (\<exists>i \<in> set (fdb_invitations s). inv_status i = InvPending \<and> same_pair a b i)"
    and t: "t = s\<lparr>core_nextId := core_nextId s + 1, fdb_invitations := fdb_invitations s @ [snd v]\<rparr>"
    and v: "inv_id (snd v) = core_nextId s" "inv_senderId (snd v) = a" "inv_recipientId (snd v) = b"
    using assms by (auto simp: create_tx_def fresh_def Let_def split: option.splits if_splits)
  show ?thesis unfolding t by (rule evolves_new_invitation) (use v free assms(2) in auto)
qed

lemma evolves_create: "fam_evolves s (snd (invitations_create E cfg a b s))"
proof (cases "a = b")
  case False
  have "fam_evolves (expirePending E s) (snd (invitations_create E cfg a b s))"
  proof (cases "durationToSeconds (FAMILY_INVITATION_EXPIRES_IN cfg)")
    case (Inr x)
    show ?thesis unfolding invitations_create_def Let_def Inr sum.case if_not_P [OF False] snd_catch_prisma
      by (rule fam.and_thenI fam.transactionI)+
        (auto simp: frame_simps False intro: evolves_create_tx)
  qed (simp add: invitations_create_def False)
  then show ?thesis by (rule fam_evolves_trans [OF evolves_expire])
qed (simp add: invitations_create_def)

lemma evolves_cancel: "fam_evolves s (snd (invitations_cancel E i u s))"
proof -
  let ?s0 = "expirePending E s"
  have 1: "fam_evolves ?s0 (snd (update_invitations
      (\<lambda>x. inv_id x = i \<and> inv_senderId x = u \<and> inv_status x = InvPending) (answer_invitation E InvCancelled) ?s0))"
    by (rule evolves_answer) auto
  have "fam_evolves ?s0 (snd (invitations_cancel E i u s))"
    by (auto simp: invitations_cancel_def Let_def case_prod_beta frame_simps 1 split: option.split)
  then show ?thesis by (rule fam_evolves_trans [OF evolves_expire])
qed

lemma evolves_created: "fam_evolves s (snd (create_family E cfg u1 u2 s))"
  by (cases "create_family E cfg u1 u2 s") (auto dest: evolves_create_family)

lemma evolves_settle: "st \<noteq> InvPending \<Longrightarrow> fam_evolves s (snd (settle_invitation E st i s))"
  using evolves_answer [of st "\<lambda>x. inv_id x = i \<and> inv_status x = InvPending" s E]
  by (auto simp: settle_invitation_def case_prod_beta split: option.split)

lemma evolves_join: "fam_evolves s (snd (join_partners E cfg c s))"
  unfolding join_partners_def Let_def if_distrib [of snd]
  by (auto intro!: fam.and_thenI intro: evolves_created evolves_answer)

lemma evolves_respond_tx:
  assumes "st \<noteq> InvPending"
  shows "fam_evolves s (snd (respond_tx E cfg i u st s))"
proof (cases "find_invitation i s")
  case (Some c)
  have "fam_evolves s (snd (and_then (if st = InvAccepted then join_partners E cfg c s else (Inr (), s))
        (\<lambda>_ s2. settle_invitation E st (inv_id c) s2)))"
    by (rule fam.and_thenI) (simp_all add: evolves_join evolves_settle assms)
  then show ?thesis by (simp add: respond_tx_def Some)
qed (simp add: respond_tx_def)

lemma evolves_respond:
  assumes "st \<noteq> InvPending"
  shows "fam_evolves s (snd (respond E cfg i u st s))"
  unfolding respond_def Let_def snd_catch_prisma
  by (rule fam_evolves_trans [OF evolves_expire], rule fam.and_thenI,
      rule fam.transaction_stepI, rule evolves_respond_tx [OF assms]) (simp add: frame_simps)

lemma evolves_createPrivate_tx:
  assumes "createPrivate_tx E x c a email h s = (Inr v, t)"
  shows "fam_evolves s t"
proof -
  let ?s1 = "snd (update_private (\<lambda>i. pinv_senderId i = a \<and> pinv_recipientEmail i = email
             \<and> pinv_status i = InvPending) (answer_private E InvCancelled) s)"
  have 1: "fam_evolves s ?s1" by (rule evolves_private) auto
  have free: "\<not> (\<exists>i \<in> set (fdb_private ?s1). pinv_tokenHash i = h)"
    and t: "t = ?s1\<lparr>core_nextId := core_nextId ?s1 + 1, fdb_private := fdb_private ?s1 @ [v]\<rparr>"
    and v: "pinv_id v = core_nextId ?s1" "pinv_status v = InvPending" "pinv_useCount v = 0" "pinv_tokenHash v = h"
    using assms by (auto simp: createPrivate_tx_def fresh_def Let_def split: option.splits if_splits)
  have "fam_evolves ?s1 t" unfolding t by (rule evolves_new_private) (use v free in auto)
  with 1 show ?thesis by (rule fam_evolves_trans)
qed

lemma evolves_createPrivate: "fam_evolves s (snd (createPrivate E cfg h tok a email s))"
proof -
  let ?s0 = "expirePending E s"
  have "fam_evolves ?s0 (snd (createPrivate E cfg h tok a email s))"
  proof (cases "durationToSeconds (FAMILY_INVITATION_EXPIRES_IN cfg)")
    case x: (Inr x)
    show ?thesis
    proof (cases "durationToSeconds (PRIVATE_FAMILY_INVITATION_COOLDOWN cfg)")
      case c: (Inr c)
      show ?thesis unfolding createPrivate_def Let_def x c sum.case snd_catch_prisma
        by (rule fam.and_thenI, rule fam.transactionI, erule evolves_createPrivate_tx)
          (simp add: frame_simps split: option.split)
    qed (simp add: createPrivate_def x Let_def)
  qed (simp add: createPrivate_def Let_def)
  then show ?thesis by (rule fam_evolves_trans [OF evolves_expire])
qed

lemma evolves_competing: "fam_evolves s (cancel_competing E a b k s)"
  unfolding cancel_competing_def Let_def
  by (rule fam_evolves_trans [OF evolves_answer evolves_private]) auto

lemma evolves_settle_private: "fam_evolves s (snd (settle_private E k a s))"
proof -
  have "fam_evolves s (snd (update_private (\<lambda>i. pinv_id i = k \<and> pinv_status i = InvPending \<and> pinv_useCount i = 0)
        (\<lambda>i. (answer_private E InvAccepted i)\<lparr>pinv_acceptedById := Some a, pinv_useCount := pinv_useCount i + 1\<rparr>) s))"
    by (rule evolves_private) auto
  then show ?thesis by (auto simp: settle_private_def case_prod_beta split: option.split)
qed

lemma evolves_acceptPrivate_tx: "fam_evolves s (snd (acceptPrivate_tx E cfg u h s))"
proof (cases "find_first (\<lambda>i. pinv_tokenHash i = h) (fdb_private s)")
  case (Some c)
  have "fam_evolves s (snd (and_then (create_family E cfg (user_id a) (user_id b) s)
     (\<lambda>f s1. and_then (settle_private E (pinv_id c) (user_id b) (cancel_competing E a b (pinv_id c) s1))
                (\<lambda>updated s4. (Inr (f, updated), s4)))))" for a b
    by (rule fam.and_thenI [OF evolves_created])
      (simp add: fam_evolves_trans [OF evolves_competing evolves_settle_private])
  then show ?thesis by (simp add: acceptPrivate_tx_def Some split: option.split)
qed (simp add: acceptPrivate_tx_def)

lemma evolves_acceptPrivate: "fam_evolves s (snd (acceptPrivate E cfg h u tok s))"
  unfolding acceptPrivate_def Let_def snd_catch_prisma
  by (rule fam_evolves_trans [OF evolves_expire], rule fam.and_thenI,
      rule fam.transaction_stepI, rule evolves_acceptPrivate_tx) (simp add: frame_simps case_prod_beta)

lemma evolves_revoke: "fam_evolves s (snd (revokePrivate E i u s))"
proof -
  let ?s0 = "expirePending E s"
  have 1: "fam_evolves ?s0 (snd (update_private
      (\<lambda>x. pinv_id x = i \<and> pinv_senderId x = u \<and> pinv_status x = InvPending) (answer_private E InvCancelled) ?s0))"
    by (rule evolves_private) auto
  have "fam_evolves ?s0 (snd (revokePrivate E i u s))"
    by (auto simp: revokePrivate_def Let_def case_prod_beta frame_simps 1 split: option.split)
  then show ?thesis by (rule fam_evolves_trans [OF evolves_expire])
qed

subsection \<open>Reachable databases\<close>

text \<open>One call of a service by any user, with any environment.\<close>

inductive families_step :: "(string \<Rightarrow> string) \<Rightarrow> family_db \<Rightarrow> family_db \<Rightarrow> bool" for h where
  leave: "families_step h s (snd (families_leave E u s))"
| archive: "families_step h s (snd (families_archive E u s))"
| restore: "families_step h s (snd (families_restore E u s))"
| request: "families_step h s (snd (requestDissolution E u s))"
| confirm: "families_step h s (snd (confirmDissolution E u s))"
| cancel_request: "families_step h s (snd (cancelDissolution E u s))"
| create: "families_step h s (snd (invitations_create E cfg u r s))"
| cancel: "families_step h s (snd (invitations_cancel E i u s))"
| accept: "families_step h s (snd (invitations_accept E cfg i u s))"
| reject: "families_step h s (snd (invitations_reject E cfg i u s))"
| incoming: "families_step h s (snd (findIncoming E u s))"
| outgoing: "families_step h s (snd (findOutgoing E u s))"
| create_private: "families_step h s (snd (createPrivate E cfg h tok u email s))"
| accept_private: "families_step h s (snd (acceptPrivate E cfg h u tok s))"
| revoke_private: "families_step h s (snd (revokePrivate E i u s))"
| outgoing_private: "families_step h s (snd (findOutgoingPrivate E u s))"

lemma families_step_evolves: "families_step h s s' \<Longrightarrow> fam_evolves s s'"
  by (induction rule: families_step.induct)
    (auto simp: invitations_accept_def invitations_reject_def findIncoming_def findOutgoing_def
      findOutgoingPrivate_def Let_def
      intro: evolves_leave evolves_archive evolves_restore evolves_requestDissolution
        evolves_confirmDissolution evolves_cancelDissolution evolves_create evolves_cancel
        evolves_respond evolves_createPrivate evolves_acceptPrivate evolves_revoke evolves_expire)

lemma families_steps_evolve: "(families_step h)\<^sup>*\<^sup>* s s' \<Longrightarrow> fam_evolves s s'"
  by (induction rule: rtranclp_induct) (auto intro: fam_evolves_trans families_step_evolves)

text \<open>C36. Whatever sequence of calls the users make, the families stay well formed: nobody belongs
  to two families, no two users have two pending invitations between them in either direction,
  a private invitation is used exactly once if accepted and never otherwise, and every confirmed
  dissolution was confirmed by somebody other than its requester.\<close>

theorem families_invariant:
  assumes "families_ok s" and "(families_step h)\<^sup>*\<^sup>* s s'"
  shows "families_ok s'"
  using families_steps_evolve [OF assms(2)] assms(1) by (simp add: fam_evolves_def)

definition two_users :: family_db where
  "two_users = \<lparr>core_users =
      [\<lparr>user_id = 1, user_firstName = ''Ann'', user_lastName = ''A'', user_email = ''ann@x.y'',
        user_isActive = True, user_locale = ''ru-RU'', user_timeZone = ''Europe/Moscow''\<rparr>,
       \<lparr>user_id = 2, user_firstName = ''Bob'', user_lastName = ''B'', user_email = ''bob@x.y'',
        user_isActive = True, user_locale = ''ru-RU'', user_timeZone = ''Europe/Moscow''\<rparr>],
     core_families = [], core_members = [], core_preferences = [], core_connections = [],
     core_devices = [], core_feed = empty_feed, core_nextId = 10,
     fdb_invitations = [], fdb_private = [], fdb_dissolutions = []\<rparr>"

definition sample_family_config :: family_config where
  "sample_family_config = \<lparr>FAMILY_INVITATION_EXPIRES_IN = ''7d'', PRIVATE_FAMILY_INVITATION_COOLDOWN = ''5m'',
     FRONTEND_APP_URL = ''https://app.x.y/'', APP_TIMEZONE = ''Europe/Moscow'', DEFAULT_LOCALE = ''ru-RU'',
     DEFAULT_CURRENCY = ''RUB''\<rparr>"

lemma two_users_ok: "families_ok two_users"
  by (simp add: families_ok_defs two_users_def)

lemma families_invariant_witness:
  "families_ok (snd (invitations_accept moscow_env sample_family_config 10 2
     (snd (invitations_create moscow_env sample_family_config 1 2 two_users))))"
proof (rule families_invariant [OF two_users_ok])
  let ?s = "snd (invitations_create moscow_env sample_family_config 1 2 two_users)"
  have "families_step id two_users ?s" by (rule create)
  moreover have "families_step id ?s (snd (invitations_accept moscow_env sample_family_config 10 2 ?s))"
    by (rule accept)
  ultimately show "(families_step id)\<^sup>*\<^sup>* two_users
      (snd (invitations_accept moscow_env sample_family_config 10 2 ?s))" by simp
qed

text \<open>An invitation that is no longer pending is final: whatever happens afterwards, its row
  is never changed or removed, so an accepted, rejected, cancelled or expired invitation cannot
  come back to life.\<close>

theorem invitation_final:
  assumes "families_ok s" and "(families_step h)\<^sup>*\<^sup>* s s'"
  shows "(\<forall>i. i \<in> set (fdb_invitations s) \<and> inv_status i \<noteq> InvPending \<longrightarrow> i \<in> set (fdb_invitations s'))
    \<and> (\<forall>i. i \<in> set (fdb_private s) \<and> pinv_status i \<noteq> InvPending \<longrightarrow> i \<in> set (fdb_private s'))"
  using families_steps_evolve [OF assms(2)] assms(1) by (simp add: fam_evolves_def settled_kept_def)

definition rejected_row :: family_invitation where
  "rejected_row = \<lparr>inv_id = 3, inv_senderId = 1, inv_recipientId = 2,
     inv_status = InvRejected, inv_expiresAt = 0, inv_respondedAt = Some 0, inv_createdAt = 0\<rparr>"

definition after_rejection :: family_db where
  "after_rejection = two_users\<lparr>fdb_invitations := [rejected_row]\<rparr>"

lemma invitation_final_witness:
  "rejected_row \<in> set (fdb_invitations (snd (invitations_accept moscow_env sample_family_config 3 2 after_rejection)))"
proof -
  have ok: "families_ok after_rejection"
    by (simp add: families_ok_defs after_rejection_def two_users_def rejected_row_def)
  have step: "(families_step id)\<^sup>*\<^sup>* after_rejection
      (snd (invitations_accept moscow_env sample_family_config 3 2 after_rejection))"
    by (rule r_into_rtranclp) (rule accept)
  show ?thesis using invitation_final [OF ok step]
    by (simp add: after_rejection_def rejected_row_def)
qed

subsection \<open>Dissolution\<close>

lemma find_member_eq:
  assumes "members_ok s" "m \<in> set (core_members s)"
  shows "find_member (member_userId m) s = Some m"
  unfolding find_member_def
  by (rule find_unique_key [where k = member_userId]) (use assms in \<open>auto simp: members_ok_def\<close>)

lemma find_family_eq:
  assumes "members_ok s" "f \<in> set (core_families s)"
  shows "find_family (family_id f) s = Some f"
  unfolding find_family_def
  by (rule find_unique_key [where k = family_id]) (use assms in \<open>auto simp: members_ok_def\<close>)

lemma isl_catch_prisma [simp]: "isl (fst (catch_prisma c m r)) = isl (fst r)"
  by (auto simp: catch_prisma_def split: prod.split sum.split api_error.split)

lemma expirePending_core [simp]:
  "core_members (expirePending E s) = core_members s" "core_families (expirePending E s) = core_families s"
  "core_users (expirePending E s) = core_users s" "core_nextId (expirePending E s) = core_nextId s"
  "has_family u (expirePending E s) = has_family u s"
  by (simp_all add: expirePending_def has_family_def find_member_def)

text \<open>After a dissolution the members keep their membership rows, and this cannot be undone
  through the API: whatever anybody does afterwards, such a user can neither leave the dissolved
  family nor found a new one by inviting somebody or by accepting an invitation.\<close>

theorem dissolved_members_stuck:
  assumes "families_ok s" and "f \<in> set (core_families s)" and "family_status f = FamilyDissolved"
    and "m \<in> set (core_members s)" and "member_familyId m = family_id f"
    and "(families_step h)\<^sup>*\<^sup>* s s'"
  shows "families_leave E (member_userId m) s' = (Inl (Forbidden ''An active family membership is required''), s')
    \<and> isl (fst (invitations_create E cfg (member_userId m) r s'))
    \<and> isl (fst (invitations_accept E cfg i (member_userId m) s'))
    \<and> isl (fst (acceptPrivate E cfg h (member_userId m) tok s'))"
proof -
  have ok: "members_ok s'" and m: "m \<in> set (core_members s')" and f: "f \<in> set (core_families s')"
    using families_steps_evolve [OF assms(6)] assms
    by (auto simp: fam_evolves_def dissolved_kept_def families_ok_def)
  note fm = find_member_eq [OF ok m] and ff = find_family_eq [OF ok f, folded assms(5)]
  have "requireMembership (member_userId m) s' = Inl (Forbidden ''An active family membership is required'')"
    by (simp add: requireMembership_def fm ff assms(3))
  then have 1: "families_leave E (member_userId m) s' = (Inl (Forbidden ''An active family membership is required''), s')"
    by (simp add: families_leave_def)
  have has: "has_family (member_userId m) t" if "core_members t = core_members s'" for t :: family_db
    using m that by (simp add: has_family_iff)
  have "isl (fst (create_tx E x (member_userId m) r (expirePending E s')))" for x
    using m by (auto simp: create_tx_def has_family_iff split: option.split)
  then have 2: "isl (fst (invitations_create E cfg (member_userId m) r s'))"
    by (auto simp: invitations_create_def Let_def split: sum.split intro: isl_and_then)
  have "isl (fst (respond_tx E cfg i (member_userId m) InvAccepted (expirePending E s')))"
    using m by (auto simp: respond_tx_def join_partners_def Let_def filter_empty_conv
        split: option.split intro!: isl_and_then)
  then have 3: "isl (fst (invitations_accept E cfg i (member_userId m) s'))"
    by (auto simp: invitations_accept_def respond_def Let_def intro: isl_and_then)
  have "user_id u = member_userId m" if "active_user (member_userId m) t = Some u" for u and t :: family_db
    using that by (auto simp: active_user_def dest: find_SomeD)
  then have "isl (fst (acceptPrivate_tx E cfg (member_userId m) k (expirePending E s')))" for k
    using m by (auto simp: acceptPrivate_tx_def has_family_iff split: option.split)
  then have 4: "isl (fst (acceptPrivate E cfg h (member_userId m) tok s'))"
    by (auto simp: acceptPrivate_def Let_def intro: isl_and_then)
  show ?thesis using 1 2 3 4 by blast
qed

text \<open>A family of two whose dissolution the second partner confirms.\<close>

definition dissolved_pair :: family_db where
  "dissolved_pair = two_users\<lparr>
     core_families := [\<lparr>family_id = 5, family_status = FamilyDissolved, family_timeZone = ''Europe/Moscow'',
       family_locale = ''ru-RU'', family_defaultCurrency = ''RUB'', family_archivedAt = None,
       family_dissolvedAt = Some 0, family_createdAt = 0\<rparr>],
     core_members := [new_member moscow_env 6 5 1, new_member moscow_env 7 5 2]\<rparr>"

lemma dissolved_members_stuck_witness:
  "families_leave moscow_env 1 dissolved_pair
      = (Inl (Forbidden ''An active family membership is required''), dissolved_pair)
    \<and> isl (fst (invitations_create moscow_env sample_family_config 1 3 dissolved_pair))
    \<and> isl (fst (invitations_accept moscow_env sample_family_config 0 1 dissolved_pair))
    \<and> isl (fst (acceptPrivate moscow_env sample_family_config id 1 [] dissolved_pair))"
  using dissolved_members_stuck [of dissolved_pair "hd (core_families dissolved_pair)"
      "new_member moscow_env 6 5 1" id dissolved_pair moscow_env sample_family_config 3 0 "[]"]
  by (simp add: dissolved_pair_def two_users_def families_ok_defs new_member_def)

text \<open>C40. A family is dissolved only by its second partner: a successful confirmation comes from a
  partner of the active family for a request somebody else made, leaves that request confirmed by
  the caller and the family dissolved.\<close>

theorem dissolution_needs_second_partner:
  assumes "families_ok s" and "confirmDissolution E u s = (Inr (), s')"
  shows "\<exists>ctx rq rq' f. requirePartner u s = Inr ctx
    \<and> rq \<in> set (fdb_dissolutions s) \<and> dis_status rq = DisPending \<and> dis_familyId rq = ctx_familyId ctx
    \<and> dis_requestedById rq \<noteq> u
    \<and> rq' \<in> set (fdb_dissolutions s') \<and> dis_id rq' = dis_id rq \<and> dis_status rq' = DisConfirmed
    \<and> dis_confirmedById rq' = Some u
    \<and> find_family (ctx_familyId ctx) s' = Some f \<and> family_status f = FamilyDissolved"
proof -
  obtain ctx where ctx: "requirePartner u s = Inr ctx"
    using assms(2) by (auto simp: confirmDissolution_def split: sum.splits)
  then obtain g where g: "find_family (ctx_familyId ctx) s = Some g"
    using requireMembership_Inr [of u s ctx] by (auto simp: requirePartner_Inr)
  obtain rq where rq: "find_first (\<lambda>r. dis_familyId r = ctx_familyId ctx \<and> dis_status r = DisPending)
      (fdb_dissolutions s) = Some rq"
    using assms(2) by (auto simp: confirmDissolution_def ctx split: option.splits)
  let ?f = "\<lambda>r. r\<lparr>dis_status := DisConfirmed, dis_confirmedById := Some u, dis_confirmedAt := Some (env_now E)\<rparr>"
  let ?h = "\<lambda>f. f\<lparr>family_status := FamilyDissolved, family_dissolvedAt := Some (env_now E)\<rparr>"
  have ne: "dis_requestedById rq \<noteq> u"
    using assms(2) by (auto simp: confirmDissolution_def ctx rq)
  have ds: "fdb_dissolutions s' = map (\<lambda>r. if dis_id r = dis_id rq then ?f r else r) (fdb_dissolutions s)"
    and fs: "core_families s' = map (\<lambda>f. if family_id f = ctx_familyId ctx then ?h f else f) (core_families s)"
    using assms(2) ne
    by (auto simp: confirmDissolution_def ctx rq and_then_Inr Let_def audit_record_def update_family_def
        frame_simps dest!: arg_cong [where f = snd])
  have "find_family (ctx_familyId ctx) s' = Some (?h g)"
    using g find_map_update [of "\<lambda>f. family_id f = ctx_familyId ctx" ?h "core_families s"]
    unfolding find_family_def fs by simp
  moreover have "rq \<in> set (fdb_dissolutions s)" "dis_familyId rq = ctx_familyId ctx" "dis_status rq = DisPending"
    using rq by (auto dest: find_SomeD)
  moreover from this have "?f rq \<in> set (fdb_dissolutions s')" unfolding ds by force
  ultimately show ?thesis using ctx ne
    by (intro exI [of _ ctx] exI [of _ rq] exI [of _ "?f rq"] exI [of _ "?h g"]) simp
qed

definition asked_pair :: family_db where
  "asked_pair = dissolved_pair\<lparr>
     core_families := [(hd (core_families dissolved_pair))\<lparr>family_status := FamilyActive, family_dissolvedAt := None\<rparr>],
     fdb_dissolutions := [\<lparr>dis_id = 8, dis_familyId = 5, dis_requestedById = 1, dis_confirmedById = None,
       dis_status = DisPending, dis_requestedAt = 0, dis_confirmedAt = None\<rparr>]\<rparr>"

lemma dissolution_needs_second_partner_witness:
  "\<exists>ctx rq rq' f. requirePartner 2 asked_pair = Inr ctx
    \<and> rq \<in> set (fdb_dissolutions asked_pair) \<and> dis_status rq = DisPending \<and> dis_familyId rq = ctx_familyId ctx
    \<and> dis_requestedById rq \<noteq> 2
    \<and> rq' \<in> set (fdb_dissolutions (snd (confirmDissolution moscow_env 2 asked_pair)))
    \<and> dis_id rq' = dis_id rq \<and> dis_status rq' = DisConfirmed \<and> dis_confirmedById rq' = Some 2
    \<and> find_family (ctx_familyId ctx) (snd (confirmDissolution moscow_env 2 asked_pair)) = Some f
    \<and> family_status f = FamilyDissolved"
proof (rule dissolution_needs_second_partner)
  show "families_ok asked_pair"
    by (simp add: asked_pair_def dissolved_pair_def two_users_def families_ok_defs new_member_def)
  have "fst (confirmDissolution moscow_env 2 asked_pair) = Inr ()"
    by (simp add: confirmDissolution_def requirePartner_def requireMembership_def find_member_def
        find_family_def asked_pair_def dissolved_pair_def two_users_def new_member_def
        update_family_def audit_record_def notifyFamilyMembers_def member_users_def find_user_def
        recipient_of_def find_preference_def find_connection_def on_feed_def dispatchToRecipient_def)
  then show "confirmDissolution moscow_env 2 asked_pair
      = (Inr (), snd (confirmDissolution moscow_env 2 asked_pair))"
    by (metis prod.collapse)
qed

subsection \<open>Acceptance founds a family\<close>

lemma create_family_Inr:
  assumes "create_family E cfg a b s = (Inr f, s')" "members_ok s"
  shows "a \<noteq> b" "\<not> has_family a s" "\<not> has_family b s" "f = core_nextId s"
    "fdb_invitations s' = fdb_invitations s" "fdb_private s' = fdb_private s"
    "\<exists>x. find_family f s' = Some x \<and> family_status x = FamilyActive"
    "map (\<lambda>m. (member_userId m, member_role m)) (filter (\<lambda>m. member_familyId m = f) (core_members s'))
       = [(a, PARTNER), (b, PARTNER)]"
proof -
  show ab: "a \<noteq> b" "\<not> has_family a s" "\<not> has_family b s" and f: "f = core_nextId s"
    and "fdb_invitations s' = fdb_invitations s" "fdb_private s' = fdb_private s"
    using assms(1) by (auto simp: create_family_def Let_def split: if_splits)
  have old: "m \<in> set (core_members s) \<Longrightarrow> member_familyId m \<noteq> f"
    and oldf: "x \<in> set (core_families s) \<Longrightarrow> family_id x \<noteq> f" for m x
    using assms(2) f unfolding members_ok_def by fastforce+
  have "filter (\<lambda>m. member_familyId m = f) (core_members s) = []"
    using old by (auto simp: filter_empty_conv)
  then show "map (\<lambda>m. (member_userId m, member_role m)) (filter (\<lambda>m. member_familyId m = f) (core_members s'))
       = [(a, PARTNER), (b, PARTNER)]"
    using assms(1) ab f by (auto simp: create_family_def Let_def new_member_def)
  have "find_first (\<lambda>x. family_id x = f) (core_families s) = None"
    using oldf by (auto simp: find_None_iff)
  then show "\<exists>x. find_family f s' = Some x \<and> family_status x = FamilyActive"
    using assms(1) ab f by (auto simp: create_family_def Let_def find_family_def find_append)
qed

text \<open>The result of an acceptance, for both kinds of invitation.\<close>

definition couple_founded :: "uuid \<Rightarrow> uuid \<Rightarrow> family_db \<Rightarrow> family_db \<Rightarrow> bool" where
  "couple_founded a b s s' \<longleftrightarrow> a \<noteq> b \<and> \<not> has_family a s \<and> \<not> has_family b s
     \<and> (\<exists>f x. f \<notin> family_id ` set (core_families s) \<and> find_family f s' = Some x \<and> family_status x = FamilyActive
        \<and> map (\<lambda>m. (member_userId m, member_role m)) (filter (\<lambda>m. member_familyId m = f) (core_members s'))
          = [(a, PARTNER), (b, PARTNER)])
     \<and> (\<forall>i \<in> set (fdb_invitations s'). inv_status i = InvPending \<longrightarrow>
          {inv_senderId i, inv_recipientId i} \<inter> {a, b} = {})"

lemma catch_prisma_Inr [simp]: "catch_prisma c m r = (Inr a, t) \<longleftrightarrow> r = (Inr a, t)"
  by (auto simp: catch_prisma_def split: prod.splits sum.splits api_error.splits)

lemma expire_ok: "families_ok s \<Longrightarrow> families_ok (expirePending E s)"
  using evolves_expire [of s E] by (simp add: fam_evolves_def)

lemma pending_after_expire:
  "i \<in> set (fdb_invitations (expirePending E s)) \<Longrightarrow> inv_status i = InvPending \<Longrightarrow>
     i \<in> set (fdb_invitations s) \<and> env_now E < inv_expiresAt i"
  "p \<in> set (fdb_private (expirePending E s)) \<Longrightarrow> pinv_status p = InvPending \<Longrightarrow>
     p \<in> set (fdb_private s) \<and> env_now E < pinv_expiresAt p"
  by (auto simp: expirePending_def split: if_splits)

lemma still_pending:
  "x \<in> set (fdb_invitations (snd (update_invitations P (answer_invitation E st) s))) \<Longrightarrow>
     inv_status x = InvPending \<Longrightarrow> st \<noteq> InvPending \<Longrightarrow> x \<in> set (fdb_invitations s) \<and> \<not> P x"
  by (auto simp: update_invitations_def split: if_splits)

lemma couple_foundedI:
  assumes "members_ok s0" "core_families s0 = core_families s" "core_members s0 = core_members s"
    and "create_family E cfg a b s0 = (Inr f, s1)"
    and "core_members s' = core_members s1" "core_families s' = core_families s1"
    and "\<And>i. i \<in> set (fdb_invitations s') \<Longrightarrow> inv_status i = InvPending \<Longrightarrow>
      {inv_senderId i, inv_recipientId i} \<inter> {a, b} = {}"
  shows "couple_founded a b s s'"
proof -
  note c = create_family_Inr [OF assms(4,1)]
  have "f \<notin> family_id ` set (core_families s)"
    using assms(1,2) c(4) by (auto simp: members_ok_def)
  moreover have "has_family u s0 = has_family u s" for u by (simp add: has_family_iff assms(3))
  moreover have "find_family f s' = find_family f s1" by (simp add: find_family_def assms(6))
  ultimately show ?thesis unfolding couple_founded_def using c assms(5,7) by auto
qed

text \<open>Accepting an invitation succeeds only for the recipient of a pending, unexpired one; it
  founds one active family whose only members are the two partners, neither of whom had a family,
  and leaves no other pending public invitation that names either of them (private ones stay as they are).\<close>

theorem accept_founds_family:
  assumes "families_ok s" and "invitations_accept E cfg i u s = (Inr r, s')"
  shows "\<exists>v v'. v \<in> set (fdb_invitations s) \<and> inv_id v = i \<and> inv_status v = InvPending
    \<and> env_now E < inv_expiresAt v \<and> inv_recipientId v = u
    \<and> v' \<in> set (fdb_invitations s') \<and> inv_id v' = i \<and> inv_status v' = InvAccepted
    \<and> couple_founded (inv_senderId v) u s s'"
proof -
  let ?s0 = "expirePending E s"
  obtain v' s1 where tx: "respond_tx E cfg i u InvAccepted ?s0 = (Inr v', s1)"
    and s': "core_members s' = core_members s1" "core_families s' = core_families s1"
      "fdb_invitations s' = fdb_invitations s1"
    using assms(2) by (auto simp: invitations_accept_def respond_def Let_def and_then_Inr transaction_Inr
        dest!: notifyUser_state)
  then obtain c s2 where c: "find_invitation i ?s0 = Some c" "inv_recipientId c = u" "inv_status c = InvPending"
    and j: "join_partners E cfg c ?s0 = (Inr (), s2)"
    and e: "settle_invitation E InvAccepted (inv_id c) s2 = (Inr v', s1)"
    by (auto simp: respond_tx_def and_then_Inr split: option.splits if_splits)
  have ci: "c \<in> set (fdb_invitations ?s0)" "inv_id c = i"
    using c(1) by (auto simp: find_invitation_def dest: find_SomeD)
  obtain f s3 where f: "create_family E cfg (inv_senderId c) u ?s0 = (Inr f, s3)"
    and s2: "s2 = snd (update_invitations (\<lambda>x. inv_status x = InvPending \<and> inv_id x \<noteq> inv_id c
             \<and> (inv_senderId x \<in> {inv_senderId c, u} \<or> inv_recipientId x \<in> {inv_senderId c, u}))
          (answer_invitation E InvCancelled) s3)"
    using j c(2) by (auto simp: join_partners_def Let_def and_then_Inr split: if_splits)
  have s1: "s1 = snd (update_invitations (\<lambda>x. inv_id x = inv_id c \<and> inv_status x = InvPending)
       (answer_invitation E InvAccepted) s2)" and v': "find_invitation (inv_id c) s1 = Some v'"
    using e by (auto simp: settle_invitation_def split: prod.splits if_splits option.splits)
  have ok: "members_ok ?s0" using expire_ok [OF assms(1)] by (simp add: families_ok_def)
  have "couple_founded (inv_senderId c) u s s'"
  proof (rule couple_foundedI [OF ok _ _ f])
    show "core_members s' = core_members s3" "core_families s' = core_families s3"
      using s' by (simp_all add: s1 s2 update_invitations_def)
    show "{inv_senderId x, inv_recipientId x} \<inter> {inv_senderId c, u} = {}"
      if "x \<in> set (fdb_invitations s')" "inv_status x = InvPending" for x
    proof -
      have 1: "x \<in> set (fdb_invitations s2)" "inv_id x \<noteq> inv_id c"
        using still_pending [of x _ E InvAccepted s2] that unfolding s'(3) s1 by auto
      from still_pending [OF 1(1) [unfolded s2] that(2)] 1(2) that(2) show ?thesis by auto
    qed
  qed simp_all
  moreover have "c \<in> set (fdb_invitations s) \<and> env_now E < inv_expiresAt c"
    using pending_after_expire(1) ci(1) c(3) by blast
  moreover have "v' \<in> set (fdb_invitations s1)" "inv_id v' = i"
    using v' ci by (auto simp: find_invitation_def dest: find_SomeD)
  moreover have "inv_status v' = InvAccepted"
  proof -
    have ok2: "families_ok s2"
      using evolves_join [of ?s0 E cfg c] expire_ok [OF assms(1)] j by (simp add: fam_evolves_def)
    have c2: "c \<in> set (fdb_invitations s2)"
      using ci(1) create_family_Inr(5) [OF f ok] by (auto simp: s2 update_invitations_def)
    obtain w where w: "w \<in> set (fdb_invitations s2)"
      "v' = (if inv_id w = inv_id c \<and> inv_status w = InvPending then answer_invitation E InvAccepted w else w)"
      using \<open>v' \<in> set (fdb_invitations s1)\<close> by (auto simp: s1 update_invitations_def)
    then have "inv_id w = inv_id c" using \<open>inv_id v' = i\<close> ci(2) by (auto split: if_splits)
    then have "w = c" using ok2 w(1) c2 distinct_key_eq [of inv_id "fdb_invitations s2" w c]
      by (simp add: families_ok_def invitations_ok_def)
    then show ?thesis using w(2) c(3) by simp
  qed
  ultimately show ?thesis using ci c s'(3) by (intro exI [of _ c] exI [of _ v']) simp
qed

definition invited :: family_db where
  "invited = two_users\<lparr>fdb_invitations := [\<lparr>inv_id = 3, inv_senderId = 1, inv_recipientId = 2,
     inv_status = InvPending, inv_expiresAt = 80000000, inv_respondedAt = None, inv_createdAt = 0\<rparr>],
   fdb_private := [\<lparr>pinv_id = 4, pinv_senderId = 1, pinv_acceptedById = None, pinv_recipientEmail = ''bob@x.y'',
     pinv_tokenHash = ''h'', pinv_status = InvPending, pinv_expiresAt = 80000000, pinv_useCount = 0,
     pinv_respondedAt = None, pinv_createdAt = 0\<rparr>]\<rparr>"

lemmas family_execution = invited_def two_users_def moscow_env_def expirePending_def respond_tx_def
  find_invitation_def join_partners_def create_family_def has_family_def find_member_def
  update_invitations_def settle_invitation_def answer_invitation_def notifyUser_def
  notifyUserInTransaction_def plain_notice_def find_user_def recipient_of_def find_preference_def
  find_connection_def on_feed_def dispatchToRecipient_def empty_feed_def new_member_def
  catch_prisma_def

lemma invited_accept:
  "\<exists>r. fst (invitations_accept moscow_env sample_family_config 3 2 invited) = Inr r"
  by (simp add: invitations_accept_def respond_def family_execution)

lemma accept_founds_family_witness:
  "\<exists>v v'. v \<in> set (fdb_invitations invited) \<and> inv_id v = 3 \<and> inv_status v = InvPending
    \<and> env_now moscow_env < inv_expiresAt v \<and> inv_recipientId v = 2
    \<and> v' \<in> set (fdb_invitations (snd (invitations_accept moscow_env sample_family_config 3 2 invited)))
    \<and> inv_id v' = 3 \<and> inv_status v' = InvAccepted
    \<and> couple_founded (inv_senderId v) 2 invited
        (snd (invitations_accept moscow_env sample_family_config 3 2 invited))"
proof -
  obtain r where "fst (invitations_accept moscow_env sample_family_config 3 2 invited) = Inr r"
    using invited_accept by blast
  then have "invitations_accept moscow_env sample_family_config 3 2 invited
      = (Inr r, snd (invitations_accept moscow_env sample_family_config 3 2 invited))"
    by (metis prod.collapse)
  moreover have "families_ok invited"
    by (simp add: families_ok_defs invited_def two_users_def same_pair_def)
  ultimately show ?thesis using accept_founds_family by blast
qed

text \<open>A private invitation can be accepted only while pending, unused and unexpired, with its
  token, by an active account whose e-mail is the invited one and which is not the sender's; like
  a public acceptance it founds one family of exactly the two, and it uses the invitation up.\<close>

theorem accept_private_founds_family:
  assumes "families_ok s" and "acceptPrivate E cfg h u tok s = (Inr r, s')"
  shows "\<exists>v v' b. v \<in> set (fdb_private s) \<and> pinv_tokenHash v = h tok \<and> pinv_status v = InvPending
    \<and> env_now E < pinv_expiresAt v \<and> b \<in> set (core_users s) \<and> user_id b = u \<and> user_isActive b
    \<and> user_email b = pinv_recipientEmail v
    \<and> v' \<in> set (fdb_private s') \<and> pinv_id v' = pinv_id v \<and> pinv_status v' = InvAccepted
    \<and> pinv_acceptedById v' = Some u \<and> pinv_useCount v' = 1
    \<and> couple_founded (pinv_senderId v) u s s'"
proof -
  let ?s0 = "expirePending E s"
  obtain f v' s4 where tx: "acceptPrivate_tx E cfg u (h tok) ?s0 = (Inr (f, v'), s4)"
    and s': "core_members s' = core_members s4" "core_families s' = core_families s4"
      "fdb_invitations s' = fdb_invitations s4" "fdb_private s' = fdb_private s4"
    using assms(2) by (auto simp: acceptPrivate_def Let_def and_then_Inr transaction_Inr
        dest!: notifyUser_state)
  then obtain c a b s1 where c: "find_first (\<lambda>i. pinv_tokenHash i = h tok) (fdb_private ?s0) = Some c"
    and st: "pinv_status c = InvPending" "pinv_useCount c = 0"
    and ab: "active_user (pinv_senderId c) ?s0 = Some a" "active_user u ?s0 = Some b"
      "user_email b = pinv_recipientEmail c"
    and f: "create_family E cfg (user_id a) (user_id b) ?s0 = (Inr f, s1)"
    and e: "settle_private E (pinv_id c) (user_id b) (cancel_competing E a b (pinv_id c) s1) = (Inr v', s4)"
    by (auto simp: acceptPrivate_tx_def and_then_Inr split: option.splits if_splits)
  have ids: "user_id a = pinv_senderId c" "user_id b = u" and b: "b \<in> set (core_users s)" "user_isActive b"
    using ab by (auto simp: active_user_def dest!: find_SomeD)
  have ci: "c \<in> set (fdb_private ?s0)" "pinv_tokenHash c = h tok" using c by (auto dest: find_SomeD)
  let ?t = "cancel_competing E a b (pinv_id c) s1"
  let ?g = "\<lambda>i. (answer_private E InvAccepted i)\<lparr>pinv_acceptedById := Some (user_id b), pinv_useCount := pinv_useCount i + 1\<rparr>"
  have s4: "s4 = snd (update_private (\<lambda>i. pinv_id i = pinv_id c \<and> pinv_status i = InvPending \<and> pinv_useCount i = 0) ?g ?t)"
    and v': "find_first (\<lambda>i. pinv_id i = pinv_id c) (fdb_private s4) = Some v'"
    using e by (auto simp: settle_private_def split: prod.splits if_splits option.splits)
  have ok: "members_ok ?s0" using expire_ok [OF assms(1)] by (simp add: families_ok_def)
  have "couple_founded (user_id a) (user_id b) s s'"
  proof (rule couple_foundedI [OF ok _ _ f])
    show "core_members s' = core_members s1" "core_families s' = core_families s1"
      using s' by (simp_all add: s4 cancel_competing_def Let_def update_invitations_def update_private_def)
    show "{inv_senderId x, inv_recipientId x} \<inter> {user_id a, user_id b} = {}"
      if "x \<in> set (fdb_invitations s')" "inv_status x = InvPending" for x
    proof -
      have "x \<in> set (fdb_invitations (snd (update_invitations (\<lambda>i. inv_status i = InvPending \<and>
          (inv_senderId i \<in> {user_id a, user_id b} \<or> inv_recipientId i \<in> {user_id a, user_id b}))
          (answer_invitation E InvCancelled) s1)))"
        using that(1) by (simp add: s' s4 cancel_competing_def Let_def update_private_def)
      from still_pending [OF this that(2)] that(2) show ?thesis by auto
    qed
  qed simp_all
  moreover have "pinv_status v' = InvAccepted \<and> pinv_acceptedById v' = Some u \<and> pinv_useCount v' = 1"
  proof -
    have ok1: "families_ok ?t"
      using fam_evolves_trans [OF evolves_create_family [OF f] evolves_competing] expire_ok [OF assms(1)]
      by (simp add: fam_evolves_def)
    have c1: "c \<in> set (fdb_private ?t)"
      using ci(1) create_family_Inr(6) [OF f ok]
      by (auto simp: cancel_competing_def Let_def update_private_def update_invitations_def)
    have "?g c \<in> set (fdb_private s4)" using c1 st by (force simp: s4 update_private_def)
    moreover have "map pinv_id (fdb_private s4) = map pinv_id (fdb_private ?t)"
      by (simp add: s4 update_private_def)
    then have "distinct (map pinv_id (fdb_private s4))" using ok1 by (simp add: families_ok_def private_ok_def)
    ultimately have "v' = ?g c"
      using v' distinct_key_eq [of pinv_id "fdb_private s4" v' "?g c"] by (auto dest: find_SomeD)
    then show ?thesis using st ids by simp
  qed
  moreover have "c \<in> set (fdb_private s) \<and> env_now E < pinv_expiresAt c"
    using pending_after_expire(2) ci(1) st(1) by blast
  moreover have "v' \<in> set (fdb_private s')" "pinv_id v' = pinv_id c"
    using v' s' by (auto dest: find_SomeD)
  ultimately show ?thesis using ci ids b ab(3) st(1)
    by (intro exI [of _ c] exI [of _ v'] exI [of _ b]) simp
qed

lemma accept_private_founds_family_witness:
  "\<exists>v v' b. v \<in> set (fdb_private invited) \<and> pinv_tokenHash v = id ''h'' \<and> pinv_status v = InvPending
    \<and> env_now moscow_env < pinv_expiresAt v \<and> b \<in> set (core_users invited) \<and> user_id b = 2 \<and> user_isActive b
    \<and> user_email b = pinv_recipientEmail v
    \<and> v' \<in> set (fdb_private (snd (acceptPrivate moscow_env sample_family_config id 2 ''h'' invited)))
    \<and> pinv_id v' = pinv_id v \<and> pinv_status v' = InvAccepted
    \<and> pinv_acceptedById v' = Some 2 \<and> pinv_useCount v' = 1
    \<and> couple_founded (pinv_senderId v) 2 invited
        (snd (acceptPrivate moscow_env sample_family_config id 2 ''h'' invited))"
proof -
  have "\<exists>r. fst (acceptPrivate moscow_env sample_family_config id 2 ''h'' invited) = Inr r"
    by (simp add: acceptPrivate_def acceptPrivate_tx_def active_user_def cancel_competing_def
        settle_private_def update_private_def answer_private_def family_execution)
  then obtain r where "acceptPrivate moscow_env sample_family_config id 2 ''h'' invited
      = (Inr r, snd (acceptPrivate moscow_env sample_family_config id 2 ''h'' invited))"
    by (metis prod.collapse)
  moreover have "families_ok invited"
    by (simp add: families_ok_defs invited_def two_users_def same_pair_def)
  ultimately show ?thesis using accept_private_founds_family by blast
qed

end
