(* ===== verification/Auth.thy ===== *)
theory Auth
  imports Invitations
begin

text \<open>
  \<open>modules/auth/auth.service.ts\<close> with \<open>strategies/jwt.strategy.ts\<close>: accounts, sessions and the
  one-time tokens for password resets, e-mail changes and account recovery, the user operations of
  \<open>modules/users/users.service.ts\<close> they call, and the two account jobs of
  \<open>common/maintenance/maintenance.service.ts\<close>.

  The columns of a user row that only these services read form a second record, \<open>account\<close>, in a
  table of its own keyed by the user.  Argon2, SHA-256, \<open>randomBytes\<close>, the signing of access tokens
  and the encryption of mails are packages: they are the fields of the parameter \<open>crypto\<close>.  The
  text of mails is Russian in the source and is rendered in English here.
\<close>

subsection \<open>Parameters\<close>

text \<open>\<open>cr_random n\<close> is the base64url text of the draw that the \<open>n\<close>-th identifier numbers,
  \<open>cr_hash n\<close> the Argon2id hash with the salt of that draw.\<close>

record crypto =
  cr_hash :: "uuid \<Rightarrow> string \<Rightarrow> string"
  cr_verify :: "string \<Rightarrow> string \<Rightarrow> bool"
  cr_sha256 :: "string \<Rightarrow> string"
  cr_uuidText :: "uuid \<Rightarrow> string"
  cr_random :: "uuid \<Rightarrow> string"
  cr_sign :: "uuid \<Rightarrow> string \<Rightarrow> string \<Rightarrow> int \<Rightarrow> string"
  cr_encrypt :: "string \<Rightarrow> string"
  cr_isoText :: "timestamp \<Rightarrow> string"

record auth_config =
  JWT_ACCESS_EXPIRES_IN :: string
  PASSWORD_RESET_EXPIRES_IN :: string
  EMAIL_CHANGE_EXPIRES_IN :: string
  ACCOUNT_DELETION_GRACE_PERIOD :: string
  AUTH_FRONTEND_APP_URL :: string

subsection \<open>Rows\<close>

datatype gender = MALE | FEMALE | OTHER | NOT_SPECIFIED

record account =
  acc_userId :: uuid
  acc_passwordHash :: "string option"
  acc_gender :: gender
  acc_description :: "string option"
  acc_birthDate :: timestamp
  acc_phone :: "string option"
  acc_version :: int
  acc_deletionRequestedAt :: "timestamp option"
  acc_deletionScheduledAt :: "timestamp option"
  acc_retentionAnonymizedAt :: "timestamp option"
  acc_avatarObjectKey :: "string option"
  acc_avatarPreviewObjectKey :: "string option"
  acc_avatarPreviewToken :: "string option"
  acc_createdAt :: timestamp

record auth_session =
  ses_id :: uuid
  ses_tokenHash :: string
  ses_userId :: uuid
  ses_ipAddress :: "string option"
  ses_userAgent :: "string option"
  ses_lastSeenAt :: timestamp
  ses_expiresAt :: timestamp
  ses_createdAt :: timestamp

text \<open>The three tables of one-time tokens have the same columns, one of them has one more.\<close>

record one_time_token =
  tok_id :: uuid
  tok_userId :: uuid
  tok_hash :: string
  tok_expiresAt :: timestamp
  tok_usedAt :: "timestamp option"

record email_change_token = one_time_token +
  ect_requestedEmail :: string

record consent_parties =
  cp_ownerId :: uuid
  cp_recipientId :: uuid

record auth_db = family_db +
  adb_accounts :: "account list"
  adb_sessions :: "auth_session list"
  adb_resets :: "one_time_token list"
  adb_emailChanges :: "email_change_token list"
  adb_deletions :: "one_time_token list"
  adb_links :: "one_time_token list"
  adb_consents :: "consent_parties list"

subsection \<open>Requests and responses\<close>

record register_dto =
  rg_firstName :: string
  rg_lastName :: string
  rg_email :: string
  rg_password :: string
  rg_gender :: gender
  rg_description :: "string option"
  rg_birthDate :: timestamp
  rg_phone :: "string option"

record session_metadata =
  smd_ipAddress :: "string option"
  smd_userAgent :: "string option"

record user_response =
  ur_id :: uuid
  ur_firstName :: string
  ur_lastName :: string
  ur_email :: string
  ur_gender :: gender
  ur_description :: "string option"
  ur_birthDate :: timestamp
  ur_phone :: "string option"
  ur_avatarUrl :: "string option"
  ur_locale :: string
  ur_timeZone :: string
  ur_version :: int
  ur_createdAt :: timestamp

record auth_response =
  ar_accessToken :: string
  ar_tokenType :: string
  ar_expiresIn :: int
  ar_user :: user_response

record session_response =
  sr_id :: uuid
  sr_ipAddress :: "string option"
  sr_userAgent :: "string option"
  sr_lastSeenAt :: timestamp
  sr_expiresAt :: timestamp
  sr_createdAt :: timestamp
  sr_isCurrent :: bool

text \<open>\<open>key && token\<close>: the empty string is falsy.  A token is a UUID, its own \<open>encodeURIComponent\<close>.\<close>

definition user_fromEntity :: "crypto \<Rightarrow> user \<Rightarrow> account \<Rightarrow> user_response" where
  "user_fromEntity C u a = \<lparr>ur_id = user_id u, ur_firstName = user_firstName u, ur_lastName = user_lastName u,
     ur_email = user_email u, ur_gender = acc_gender a, ur_description = acc_description a,
     ur_birthDate = acc_birthDate a, ur_phone = acc_phone a,
     ur_avatarUrl = (case (or_null (acc_avatarPreviewObjectKey a), or_null (acc_avatarPreviewToken a)) of
         (Some _, Some t) \<Rightarrow> Some (''/api/v1/users/'' @ cr_uuidText C (user_id u) @ ''/avatar?token='' @ t)
       | _ \<Rightarrow> None),
     ur_locale = user_locale u, ur_timeZone = user_timeZone u, ur_version = acc_version a,
     ur_createdAt = acc_createdAt a\<rparr>"

definition session_fromEntity :: "auth_session \<Rightarrow> string \<Rightarrow> session_response" where
  "session_fromEntity x currentTokenHash = \<lparr>sr_id = ses_id x, sr_ipAddress = ses_ipAddress x,
     sr_userAgent = ses_userAgent x, sr_lastSeenAt = ses_lastSeenAt x, sr_expiresAt = ses_expiresAt x,
     sr_createdAt = ses_createdAt x, sr_isCurrent = (ses_tokenHash x = currentTokenHash)\<rparr>"

subsection \<open>The two halves of a user row\<close>

definition account_of :: "uuid \<Rightarrow> auth_db \<Rightarrow> account option" where
  "account_of uid s = find_first (\<lambda>a. acc_userId a = uid) (adb_accounts s)"

definition with_account :: "auth_db \<Rightarrow> user option \<Rightarrow> (user \<times> account) option" where
  "with_account s u = Option.bind u (\<lambda>u. map_option (Pair u) (account_of (user_id u) s))"

definition findByEmail :: "string \<Rightarrow> auth_db \<Rightarrow> (user \<times> account) option" where
  "findByEmail email s = with_account s (user_by_email (js_lower (js_trim email)) s)"

definition findActive :: "uuid \<Rightarrow> auth_db \<Rightarrow> (user \<times> account) option" where
  "findActive uid s = with_account s (active_user uid s)"

text \<open>\<open>user.update\<close> on either half; the row is the one with the key.\<close>

definition write_user :: "uuid \<Rightarrow> (user \<Rightarrow> user) \<Rightarrow> auth_db \<Rightarrow> auth_db" where
  "write_user uid f s = s\<lparr>core_users := map (\<lambda>u. if user_id u = uid then f u else u) (core_users s)\<rparr>"

definition write_account :: "uuid \<Rightarrow> (account \<Rightarrow> account) \<Rightarrow> auth_db \<Rightarrow> auth_db" where
  "write_account uid f s = s\<lparr>adb_accounts := map (\<lambda>a. if acc_userId a = uid then f a else a) (adb_accounts s)\<rparr>"

text \<open>\<open>user?.passwordHash && argon2.verify\<close>\<close>

definition password_is :: "crypto \<Rightarrow> account \<Rightarrow> string \<Rightarrow> bool" where
  "password_is C a p = (case or_null (acc_passwordHash a) of None \<Rightarrow> False | Some h \<Rightarrow> cr_verify C h p)"

definition hashToken :: "crypto \<Rightarrow> string \<Rightarrow> string" where
  "hashToken C t = cr_sha256 C t"

definition session_hash :: "crypto \<Rightarrow> uuid \<Rightarrow> string" where
  "session_hash C jti = cr_sha256 C (cr_uuidText C jti)"

subsection \<open>Registering, logging in and sessions\<close>

definition users_create :: "env \<Rightarrow> crypto \<Rightarrow> register_dto \<Rightarrow> auth_db \<Rightarrow> (user \<times> account, auth_db) resp" where
  "users_create E C dto s = (if \<exists>u \<in> set (core_users s). user_email u = rg_email dto then (Inl P2002, s) else
     (case fresh s of (i, s1) \<Rightarrow>
       let u = \<lparr>user_id = i, user_firstName = js_trim (rg_firstName dto), user_lastName = js_trim (rg_lastName dto),
             user_email = rg_email dto, user_isActive = True, user_locale = ''ru-RU'',
             user_timeZone = ''Europe/Moscow''\<rparr>;
           a = \<lparr>acc_userId = i, acc_passwordHash = Some (cr_hash C i (rg_password dto)), acc_gender = rg_gender dto,
             acc_description = trim_or_null (rg_description dto), acc_birthDate = rg_birthDate dto,
             acc_phone = trim_or_null (rg_phone dto), acc_version = 1, acc_deletionRequestedAt = None,
             acc_deletionScheduledAt = None, acc_retentionAnonymizedAt = None, acc_avatarObjectKey = None,
             acc_avatarPreviewObjectKey = None, acc_avatarPreviewToken = None, acc_createdAt = env_now E\<rparr>
       in (Inr (u, a), s1\<lparr>core_users := core_users s1 @ [u], adb_accounts := adb_accounts s1 @ [a]\<rparr>)))"

text \<open>The session's token hash is a unique column.\<close>

definition issueAccessToken ::
    "env \<Rightarrow> crypto \<Rightarrow> auth_config \<Rightarrow> user \<times> account \<Rightarrow> session_metadata \<Rightarrow> auth_db \<Rightarrow> (auth_response, auth_db) resp" where
  "issueAccessToken E C cfg ua metadata s = (case fresh s of (jti, s1) \<Rightarrow>
     let tokenHash = session_hash C jti; u = fst ua in
     case durationToSeconds (JWT_ACCESS_EXPIRES_IN cfg) of Inl e \<Rightarrow> (Inl e, s1)
   | Inr expiresIn \<Rightarrow>
     if \<exists>x \<in> set (adb_sessions s1). ses_tokenHash x = tokenHash then (Inl P2002, s1) else
     (case fresh s1 of (i, s2) \<Rightarrow>
       let x = \<lparr>ses_id = i, ses_tokenHash = tokenHash, ses_userId = user_id u,
             ses_ipAddress = smd_ipAddress metadata, ses_userAgent = smd_userAgent metadata,
             ses_lastSeenAt = env_now E, ses_expiresAt = env_now E + expiresIn * 1000, ses_createdAt = env_now E\<rparr>
       in (Inr \<lparr>ar_accessToken = cr_sign C (user_id u) (user_email u) (cr_uuidText C jti) expiresIn,
             ar_tokenType = ''Bearer'', ar_expiresIn = expiresIn, ar_user = user_fromEntity C u (snd ua)\<rparr>,
           s2\<lparr>adb_sessions := adb_sessions s2 @ [x]\<rparr>)))"

text \<open>The \<open>catch\<close> of \<open>register\<close> sees the errors of \<open>create\<close> only: the promise of
  \<open>issueAccessToken\<close> is returned without being awaited.\<close>

definition register ::
    "env \<Rightarrow> crypto \<Rightarrow> auth_config \<Rightarrow> register_dto \<Rightarrow> session_metadata \<Rightarrow> auth_db \<Rightarrow> (auth_response, auth_db) resp" where
  "register E C cfg dto metadata s = (case findByEmail (rg_email dto) s of
     Some _ \<Rightarrow> (Inl (Conflict ''User with this email already exists''), s)
   | None \<Rightarrow> and_then (catch_prisma [''P2002''] ''User with this email already exists'' (users_create E C dto s))
       (\<lambda>ua s1. issueAccessToken E C cfg ua metadata s1))"

definition login ::
    "env \<Rightarrow> crypto \<Rightarrow> auth_config \<Rightarrow> string \<Rightarrow> string \<Rightarrow> session_metadata \<Rightarrow> auth_db \<Rightarrow> (auth_response, auth_db) resp" where
  "login E C cfg email password metadata s = (
     let refused = (Inl (Unauthorized ''Invalid email or password''), s) in
     case findByEmail email s of None \<Rightarrow> refused
   | Some (u, a) \<Rightarrow> if \<not> user_isActive u \<or> \<not> password_is C a password then refused
       else issueAccessToken E C cfg (u, a) metadata s)"

definition delete_sessions :: "(auth_session \<Rightarrow> bool) \<Rightarrow> auth_db \<Rightarrow> nat \<times> auth_db" where
  "delete_sessions P s = (fst (delete_many P (adb_sessions s)), s\<lparr>adb_sessions := snd (delete_many P (adb_sessions s))\<rparr>)"

definition logout :: "string \<Rightarrow> auth_db \<Rightarrow> (unit, auth_db) resp" where
  "logout tokenHash s = (Inr (), snd (delete_sessions (\<lambda>x. ses_tokenHash x = tokenHash) s))"

definition listSessions :: "env \<Rightarrow> uuid \<Rightarrow> string \<Rightarrow> auth_db \<Rightarrow> session_response list" where
  "listSessions E userId currentTokenHash s = map (\<lambda>x. session_fromEntity x currentTokenHash)
     (sort_key (\<lambda>x. - ses_createdAt x) (filter (\<lambda>x. ses_userId x = userId \<and> ses_expiresAt x > env_now E) (adb_sessions s)))"

definition revokeSession :: "uuid \<Rightarrow> uuid \<Rightarrow> auth_db \<Rightarrow> (unit, auth_db) resp" where
  "revokeSession userId sessionId s = (case delete_sessions (\<lambda>x. ses_id x = sessionId \<and> ses_userId x = userId) s of
     (count, s1) \<Rightarrow> if count \<noteq> 1 then (Inl (NotFound ''Session not found''), s1) else (Inr (), s1))"

definition revokeOtherSessions :: "uuid \<Rightarrow> string \<Rightarrow> auth_db \<Rightarrow> (unit, auth_db) resp" where
  "revokeOtherSessions userId currentTokenHash s =
     (Inr (), snd (delete_sessions (\<lambda>x. ses_userId x = userId \<and> ses_tokenHash x \<noteq> currentTokenHash) s))"

text \<open>\<open>JwtStrategy.validate\<close> for the identifier of a token whose signature was checked.\<close>

record authenticated_user =
  au_id :: uuid
  au_email :: string
  au_tokenHash :: string

definition validate :: "env \<Rightarrow> crypto \<Rightarrow> string \<Rightarrow> auth_db \<Rightarrow> (authenticated_user, auth_db) resp" where
  "validate E C jti s = (
     let tokenHash = cr_sha256 C jti; refused = (Inl (Unauthorized ''Token is invalid or has been revoked''), s) in
     case find_first (\<lambda>x. ses_tokenHash x = tokenHash) (adb_sessions s) of None \<Rightarrow> refused
   | Some x \<Rightarrow> (case find_user (ses_userId x) s of None \<Rightarrow> refused
     | Some u \<Rightarrow> if ses_expiresAt x \<le> env_now E \<or> \<not> user_isActive u then refused
       else (Inr \<lparr>au_id = user_id u, au_email = user_email u, au_tokenHash = tokenHash\<rparr>,
         s\<lparr>adb_sessions := map (\<lambda>y. if ses_id y = ses_id x then y\<lparr>ses_lastSeenAt := env_now E\<rparr> else y) (adb_sessions s)\<rparr>)))"

subsection \<open>Passwords\<close>

definition changePassword ::
    "crypto \<Rightarrow> uuid \<Rightarrow> string \<Rightarrow> string \<Rightarrow> string \<Rightarrow> auth_db \<Rightarrow> (unit, auth_db) resp" where
  "changePassword C userId currentTokenHash currentPassword newPassword s = (
     let wrong = (Inl (Forbidden ''Current password is incorrect''), s) in
     case findActive userId s of None \<Rightarrow> wrong
   | Some (u, a) \<Rightarrow>
     if \<not> password_is C a currentPassword then wrong else
     if password_is C a newPassword
     then (Inl (Conflict ''New password must differ from the current password''), s) else
     (case fresh s of (salt, s1) \<Rightarrow> (Inr (),
       snd (delete_sessions (\<lambda>x. ses_userId x = userId \<and> ses_tokenHash x \<noteq> currentTokenHash)
         (write_account userId (\<lambda>a. a\<lparr>acc_passwordHash := Some (cr_hash C salt newPassword)\<rparr>) s1)))))"

definition token_link :: "auth_config \<Rightarrow> string \<Rightarrow> string \<Rightarrow> string" where
  "token_link cfg page token = strip_slashes (AUTH_FRONTEND_APP_URL cfg) @ page @ ''?token='' @ token"

text \<open>The unused tokens of a user, deleted before a new one is created.\<close>

definition unused_of :: "uuid \<Rightarrow> 'a one_time_token_scheme \<Rightarrow> bool" where
  "unused_of userId t \<longleftrightarrow> tok_userId t = userId \<and> tok_usedAt t = None"

definition drop_unused :: "uuid \<Rightarrow> 'a one_time_token_scheme list \<Rightarrow> 'a one_time_token_scheme list" where
  "drop_unused userId ts = snd (delete_many (unused_of userId) ts)"

definition hash_taken :: "string \<Rightarrow> 'a one_time_token_scheme list \<Rightarrow> bool" where
  "hash_taken h ts \<longleftrightarrow> (\<exists>t \<in> set ts. tok_hash t = h)"

definition new_token :: "uuid \<Rightarrow> uuid \<Rightarrow> string \<Rightarrow> timestamp \<Rightarrow> one_time_token" where
  "new_token i userId tokenHash expiresAt = \<lparr>tok_id = i, tok_userId = userId, tok_hash = tokenHash,
     tok_expiresAt = expiresAt, tok_usedAt = None\<rparr>"

text \<open>\<open>updateMany\<close> with \<open>usedAt: null\<close> and \<open>expiresAt > now\<close>: the token is claimed at most once.\<close>

definition consume_token ::
    "timestamp \<Rightarrow> uuid \<Rightarrow> 'a one_time_token_scheme list \<Rightarrow> nat \<times> 'a one_time_token_scheme list" where
  "consume_token now i = update_many (\<lambda>t. tok_id t = i \<and> tok_usedAt t = None \<and> tok_expiresAt t > now)
     (\<lambda>t. t\<lparr>tok_usedAt := Some now\<rparr>)"

definition find_token :: "string \<Rightarrow> 'a one_time_token_scheme list \<Rightarrow> 'a one_time_token_scheme option" where
  "find_token h ts = find_first (\<lambda>t. tok_hash t = h) ts"

definition token_usable :: "timestamp \<Rightarrow> 'a one_time_token_scheme \<Rightarrow> bool" where
  "token_usable now t \<longleftrightarrow> tok_usedAt t = None \<and> tok_expiresAt t > now"

definition requestPasswordReset ::
    "env \<Rightarrow> crypto \<Rightarrow> auth_config \<Rightarrow> string \<Rightarrow> auth_db \<Rightarrow> (unit, auth_db) resp" where
  "requestPasswordReset E C cfg email s = (case findByEmail email s of None \<Rightarrow> (Inr (), s)
   | Some (u, a) \<Rightarrow>
     if \<not> user_isActive u \<or> or_null (acc_passwordHash a) = None then (Inr (), s) else
     (case fresh s of (draw, s1) \<Rightarrow>
       let token = cr_random C draw; tokenHash = hashToken C token in
       case durationToSeconds (PASSWORD_RESET_EXPIRES_IN cfg) of Inl e \<Rightarrow> (Inl e, s1)
     | Inr expiresIn \<Rightarrow> transaction s1 (
         let kept = drop_unused (user_id u) (adb_resets s1) in
         if hash_taken tokenHash kept then (Inl P2002, s1) else
         (case fresh s1 of (i, s2) \<Rightarrow>
           (Inr (), s2\<lparr>core_feed := enqueueEncryptedEmail E (cr_encrypt C) (user_email u)
               ''Password recovery'' (''To set a new password follow the link: '' @ token_link cfg ''/reset-password'' token)
               (core_feed s2),
             adb_resets := kept @ [new_token i (user_id u) tokenHash (env_now E + expiresIn * 1000)]\<rparr>)))))"

definition resetPassword :: "env \<Rightarrow> crypto \<Rightarrow> string \<Rightarrow> string \<Rightarrow> auth_db \<Rightarrow> (unit, auth_db) resp" where
  "resetPassword E C token newPassword s = (
     let invalid = Inl (BadRequest ''Password reset token is invalid or expired'') in
     case find_token (hashToken C token) (adb_resets s) of None \<Rightarrow> (invalid, s)
   | Some t \<Rightarrow> (case find_user (tok_userId t) s of None \<Rightarrow> (invalid, s)
     | Some u \<Rightarrow>
       if \<not> token_usable (env_now E) t \<or> \<not> user_isActive u then (invalid, s) else
       (case fresh s of (salt, s1) \<Rightarrow> (case consume_token (env_now E) (tok_id t) (adb_resets s1) of
         (count, ts) \<Rightarrow>
           if count \<noteq> 1 then (invalid, s1\<lparr>adb_resets := ts\<rparr>) else
           (Inr (), snd (delete_sessions (\<lambda>x. ses_userId x = tok_userId t)
             (write_account (tok_userId t) (\<lambda>a. a\<lparr>acc_passwordHash := Some (cr_hash C salt newPassword)\<rparr>)
               (s1\<lparr>adb_resets := ts\<rparr>))))))))"

subsection \<open>Changing the e-mail\<close>

definition requestEmailChange ::
    "env \<Rightarrow> crypto \<Rightarrow> auth_config \<Rightarrow> uuid \<Rightarrow> string \<Rightarrow> string \<Rightarrow> auth_db \<Rightarrow> (unit, auth_db) resp" where
  "requestEmailChange E C cfg userId email currentPassword s = (
     let wrong = (Inl (Forbidden ''Current password is incorrect''), s) in
     case findActive userId s of None \<Rightarrow> wrong
   | Some (u, a) \<Rightarrow>
     if \<not> password_is C a currentPassword then wrong else
     if user_email u = email then (Inl (Conflict ''New email must differ from the current email''), s) else
     if findByEmail email s \<noteq> None then (Inl (Conflict ''Email is already registered''), s) else
     (case fresh s of (draw, s1) \<Rightarrow>
       let token = cr_random C draw; tokenHash = hashToken C token in
       case durationToSeconds (EMAIL_CHANGE_EXPIRES_IN cfg) of Inl e \<Rightarrow> (Inl e, s1)
     | Inr expiresIn \<Rightarrow> catch_prisma [''P2002''] ''Email is already registered'' (transaction s1 (
         let kept = drop_unused userId (adb_emailChanges s1) in
         if hash_taken tokenHash kept then (Inl P2002, s1) else
         (case fresh s1 of (i, s2) \<Rightarrow>
           (Inr (), s2\<lparr>core_feed := enqueueEncryptedEmail E (cr_encrypt C) email
               ''Confirm the new email'' (''To change the email follow the link: '' @ token_link cfg ''/confirm-email-change'' token)
               (core_feed s2),
             adb_emailChanges := kept @ [\<lparr>tok_id = i, tok_userId = userId, tok_hash = tokenHash,
               tok_expiresAt = env_now E + expiresIn * 1000, tok_usedAt = None, ect_requestedEmail = email\<rparr>]\<rparr>))))))"

text \<open>The e-mail is a unique column.\<close>

definition confirmEmailChange :: "env \<Rightarrow> crypto \<Rightarrow> string \<Rightarrow> auth_db \<Rightarrow> (unit, auth_db) resp" where
  "confirmEmailChange E C token s = (
     let invalid = Inl (BadRequest ''Email change token is invalid or expired'') in
     case find_token (hashToken C token) (adb_emailChanges s) of None \<Rightarrow> (invalid, s)
   | Some t \<Rightarrow> (case find_user (tok_userId t) s of None \<Rightarrow> (invalid, s)
     | Some u \<Rightarrow>
       if \<not> token_usable (env_now E) t \<or> \<not> user_isActive u then (invalid, s) else
       catch_prisma [''P2002''] ''Email is already registered'' (transaction s
         (case consume_token (env_now E) (tok_id t) (adb_emailChanges s) of (count, ts) \<Rightarrow>
           let s1 = s\<lparr>adb_emailChanges := ts\<rparr> in
           if count \<noteq> 1 then (invalid, s1) else
           if \<exists>x \<in> set (core_users s1). user_id x \<noteq> tok_userId t \<and> user_email x = ect_requestedEmail t
           then (Inl P2002, s1) else
           (Inr (), snd (delete_sessions (\<lambda>x. ses_userId x = tok_userId t)
             (write_account (tok_userId t) (\<lambda>a. a\<lparr>acc_version := acc_version a + 1\<rparr>)
               (write_user (tok_userId t) (\<lambda>x. x\<lparr>user_email := ect_requestedEmail t\<rparr>) s1))))))))"

subsection \<open>Deleting an account and recovering it\<close>

text \<open>The invitations that the account sent are cancelled.\<close>

definition cancel_sent :: "env \<Rightarrow> uuid \<Rightarrow> auth_db \<Rightarrow> auth_db" where
  "cancel_sent E userId s = s\<lparr>
     fdb_invitations := snd (update_many (\<lambda>i. inv_senderId i = userId \<and> inv_status i = InvPending)
       (answer_invitation E InvCancelled) (fdb_invitations s)),
     fdb_private := snd (update_many (\<lambda>i. pinv_senderId i = userId \<and> pinv_status i = InvPending)
       (answer_private E InvCancelled) (fdb_private s))\<rparr>"

definition deactivate :: "env \<Rightarrow> uuid \<Rightarrow> timestamp \<Rightarrow> auth_db \<Rightarrow> auth_db" where
  "deactivate E userId scheduledFor s = write_account userId (\<lambda>a. a\<lparr>acc_version := acc_version a + 1,
       acc_deletionRequestedAt := Some (env_now E), acc_deletionScheduledAt := Some scheduledFor\<rparr>)
     (write_user userId (\<lambda>u. u\<lparr>user_isActive := False\<rparr>) s)"

definition requestAccountDeletion ::
    "env \<Rightarrow> crypto \<Rightarrow> auth_config \<Rightarrow> uuid \<Rightarrow> string \<Rightarrow> auth_db \<Rightarrow> (timestamp, auth_db) resp" where
  "requestAccountDeletion E C cfg userId currentPassword s = (
     let wrong = (Inl (Forbidden ''Current password is incorrect''), s) in
     case findActive userId s of None \<Rightarrow> wrong
   | Some (u, a) \<Rightarrow>
     if \<not> password_is C a currentPassword then wrong else
     (case durationToSeconds (ACCOUNT_DELETION_GRACE_PERIOD cfg) of Inl e \<Rightarrow> (Inl e, s)
     | Inr gracePeriod \<Rightarrow> (case fresh s of (draw, s1) \<Rightarrow>
       let scheduledFor = env_now E + gracePeriod * 1000; token = cr_random C draw; tokenHash = hashToken C token in
       transaction s1 (
         if length (filter (\<lambda>x. user_id x = userId \<and> user_isActive x) (core_users s1)) \<noteq> 1
         then (Inl (Conflict ''Account deletion is already pending''), s1) else
         let s2 = deactivate E userId scheduledFor s1;
             s3 = snd (delete_sessions (\<lambda>x. ses_userId x = userId) s2);
             s4 = cancel_sent E userId (s3\<lparr>adb_resets := drop_unused userId (adb_resets s3),
               adb_emailChanges := drop_unused userId (adb_emailChanges s3),
               adb_deletions := drop_unused userId (adb_deletions s3)\<rparr>) in
         if hash_taken tokenHash (adb_deletions s4) then (Inl P2002, s4) else
         (case fresh s4 of (i, s5) \<Rightarrow> (Inr scheduledFor,
           s5\<lparr>core_feed := enqueueEncryptedEmail E (cr_encrypt C) (user_email u) ''Account deletion scheduled''
               (''The account is disabled and will be deleted on '' @ cr_isoText C scheduledFor @ ''. To cancel follow the link: ''
                 @ token_link cfg ''/cancel-account-deletion'' token) (core_feed s5),
             adb_deletions := adb_deletions s5 @ [new_token i userId tokenHash scheduledFor]\<rparr>))))))"

definition scheduled_after :: "timestamp \<Rightarrow> account \<Rightarrow> bool" where
  "scheduled_after now a \<longleftrightarrow> (case acc_deletionScheduledAt a of None \<Rightarrow> False | Some t \<Rightarrow> t > now)"

definition cancelAccountDeletion :: "env \<Rightarrow> crypto \<Rightarrow> string \<Rightarrow> auth_db \<Rightarrow> (unit, auth_db) resp" where
  "cancelAccountDeletion E C token s = (
     let invalid = Inl (BadRequest ''Account recovery token is invalid or expired''); now = env_now E in
     case find_token (hashToken C token) (adb_deletions s) of None \<Rightarrow> (invalid, s)
   | Some t \<Rightarrow> (case with_account s (find_user (tok_userId t) s) of None \<Rightarrow> (invalid, s)
     | Some (u, a) \<Rightarrow>
       if \<not> token_usable now t \<or> user_isActive u \<or> \<not> scheduled_after now a then (invalid, s) else
       transaction s (case consume_token now (tok_id t) (adb_deletions s) of (count, ts) \<Rightarrow>
         let s1 = s\<lparr>adb_deletions := ts\<rparr> in
         if count \<noteq> 1 then (invalid, s1) else
         (Inr (), (write_account (tok_userId t) (\<lambda>a. a\<lparr>acc_version := acc_version a + 1,
               acc_deletionRequestedAt := None, acc_deletionScheduledAt := None\<rparr>)
             (write_user (tok_userId t) (\<lambda>x. x\<lparr>user_isActive := True\<rparr>) s1))
           \<lparr>adb_deletions := drop_unused (tok_userId t) ts\<rparr>))))"

subsection \<open>The jobs\<close>

text \<open>The transaction of \<open>cleanupExpiredSecurityArtifacts\<close>, with its counts.\<close>

definition drop_expired :: "timestamp \<Rightarrow> 'a one_time_token_scheme list \<Rightarrow> nat \<times> 'a one_time_token_scheme list" where
  "drop_expired now = delete_many (\<lambda>t. tok_expiresAt t \<le> now)"

definition cleanupExpired :: "env \<Rightarrow> auth_db \<Rightarrow> nat list \<times> auth_db" where
  "cleanupExpired E s = (let now = env_now E;
       sessions = delete_many (\<lambda>x. ses_expiresAt x \<le> now) (adb_sessions s);
       resets = drop_expired now (adb_resets s); changes = drop_expired now (adb_emailChanges s);
       deletions = drop_expired now (adb_deletions s); links = drop_expired now (adb_links s);
       invitations = update_many (\<lambda>i. inv_status i = InvPending \<and> inv_expiresAt i \<le> now)
         (answer_invitation E InvExpired) (fdb_invitations s);
       private = update_many (\<lambda>i. pinv_status i = InvPending \<and> pinv_expiresAt i \<le> now)
         (answer_private E InvExpired) (fdb_private s)
     in ([fst sessions, fst resets, fst changes, fst deletions, fst links, fst invitations, fst private],
         s\<lparr>fdb_invitations := snd invitations, fdb_private := snd private, adb_sessions := snd sessions,
           adb_resets := snd resets, adb_emailChanges := snd changes, adb_deletions := snd deletions,
           adb_links := snd links\<rparr>))"

text \<open>\<open>anonymizeExpiredAccounts\<close> without the deletion of the avatar objects in the bucket.\<close>

definition telegram_pending_for :: "uuid \<Rightarrow> outbox_event \<Rightarrow> bool" where
  "telegram_pending_for uid e \<longleftrightarrow> event_type e = TELEGRAM \<and> event_status e = PENDING
     \<and> (case event_payload e of JObj ob \<Rightarrow> json_field ob ''recipientUserId'' = Some (JUuid uid) | _ \<Rightarrow> False)"

definition forget_user :: "uuid \<Rightarrow> auth_db \<Rightarrow> auth_db" where
  "forget_user uid s = (let d = core_feed s in s\<lparr>
     core_preferences := snd (delete_many (\<lambda>p. pref_userId p = uid) (core_preferences s)),
     core_connections := snd (delete_many (\<lambda>c. tg_userId c = uid) (core_connections s)),
     core_feed := d\<lparr>feed_notifications := snd (delete_many (\<lambda>n. notif_userId n = uid) (feed_notifications d)),
       feed_outbox := snd (delete_many (telegram_pending_for uid) (feed_outbox d))\<rparr>,
     adb_links := snd (delete_many (\<lambda>t. tok_userId t = uid) (adb_links s)),
     adb_consents := snd (delete_many (\<lambda>c. cp_ownerId c = uid \<or> cp_recipientId c = uid) (adb_consents s))\<rparr>)"

text \<open>The condition of the two queries on the halves of a user row.\<close>

definition retention_pending :: "uuid \<Rightarrow> auth_db \<Rightarrow> bool" where
  "retention_pending uid s \<longleftrightarrow> (case with_account s (find_user uid s) of None \<Rightarrow> False
     | Some (u, a) \<Rightarrow> \<not> user_isActive u \<and> acc_retentionAnonymizedAt a = None)"

definition deleted_email :: "crypto \<Rightarrow> uuid \<Rightarrow> string" where
  "deleted_email C uid = ''deleted+'' @ cr_uuidText C uid @ ''@invalid.local''"

definition anonymize_row :: "env \<Rightarrow> crypto \<Rightarrow> uuid \<Rightarrow> auth_db \<Rightarrow> auth_db" where
  "anonymize_row E C uid s = write_account uid (\<lambda>a. a\<lparr>acc_description := None, acc_birthDate := 0, acc_phone := None,
       acc_retentionAnonymizedAt := Some (env_now E), acc_avatarObjectKey := None,
       acc_avatarPreviewObjectKey := None, acc_avatarPreviewToken := None\<rparr>)
     (write_user uid (\<lambda>u. u\<lparr>user_firstName := ''Deleted'', user_lastName := ''User'', user_email := deleted_email C uid\<rparr>) s)"

definition anonymize_one :: "env \<Rightarrow> crypto \<Rightarrow> uuid \<Rightarrow> auth_db \<Rightarrow> (nat, auth_db) resp" where
  "anonymize_one E C uid s = (let s1 = forget_user uid s in
     if \<not> retention_pending uid s1 then (Inr 0, s1) else
     if \<exists>x \<in> set (core_users s1). user_id x \<noteq> uid \<and> user_email x = deleted_email C uid then (Inl P2002, s1) else
     (Inr 1, anonymize_row E C uid s1))"

fun anonymize_each :: "env \<Rightarrow> crypto \<Rightarrow> uuid list \<Rightarrow> nat \<Rightarrow> auth_db \<Rightarrow> (nat, auth_db) resp" where
  "anonymize_each E C [] n s = (Inr n, s)"
| "anonymize_each E C (uid # rest) n s = and_then (transaction s (anonymize_one E C uid s))
     (\<lambda>k s1. anonymize_each E C rest (n + k) s1)"

definition deletion_due :: "timestamp \<Rightarrow> account \<Rightarrow> bool" where
  "deletion_due now a \<longleftrightarrow> (case acc_deletionScheduledAt a of None \<Rightarrow> False | Some t \<Rightarrow> t \<le> now)"

definition anonymizeExpiredAccounts :: "env \<Rightarrow> crypto \<Rightarrow> auth_db \<Rightarrow> (nat, auth_db) resp" where
  "anonymizeExpiredAccounts E C s = anonymize_each E C (take 100 (map user_id (filter (\<lambda>u.
       case account_of (user_id u) s of None \<Rightarrow> False
       | Some a \<Rightarrow> \<not> user_isActive u \<and> acc_retentionAnonymizedAt a = None \<and> deletion_due (env_now E) a)
     (core_users s)))) 0 s"

end
