(* ===== verification/AuthSpec.thy ===== *)
theory AuthSpec
  imports Auth
begin

text \<open>
  What authentication guarantees: the consistency of users, accounts, sessions and one-time tokens
  over every sequence of calls; sessions and tokens that are gone stay gone, because their secrets
  are never drawn again; the effect of a password reset; and the recovery of a deleted account.

  About the packages the proofs use only what \<open>crypto_ok\<close> says: Argon2 accepts exactly the password
  that was hashed, and different draws have different SHA-256 digests.
\<close>

definition crypto_ok :: "crypto \<Rightarrow> bool" where
  "crypto_ok C \<longleftrightarrow> (\<forall>n p q. cr_hash C n p \<noteq> [] \<and> (cr_verify C (cr_hash C n p) q \<longleftrightarrow> q = p))
     \<and> inj (\<lambda>n. hashToken C (cr_random C n)) \<and> inj (session_hash C)"

subsection \<open>The tables\<close>

definition account_for :: "user \<Rightarrow> account \<Rightarrow> bool" where
  "account_for u a \<longleftrightarrow> acc_userId a = user_id u \<and> (user_isActive u \<longleftrightarrow> acc_deletionScheduledAt a = None)"

definition users_ok :: "uuid \<Rightarrow> user list \<Rightarrow> account list \<Rightarrow> bool" where
  "users_ok n us accs \<longleftrightarrow> distinct (map user_id us) \<and> distinct (map user_email us)
     \<and> (\<forall>u \<in> set us. user_id u < n) \<and> list_all2 account_for us accs"

definition active_id :: "user list \<Rightarrow> uuid \<Rightarrow> bool" where
  "active_id us i \<longleftrightarrow> (\<exists>u \<in> set us. user_id u = i \<and> user_isActive u)"

definition sessions_ok :: "crypto \<Rightarrow> uuid \<Rightarrow> user list \<Rightarrow> auth_session list \<Rightarrow> bool" where
  "sessions_ok C n us xs \<longleftrightarrow> distinct (map ses_id xs) \<and> distinct (map ses_tokenHash xs)
     \<and> (\<forall>x \<in> set xs. ses_id x < n \<and> active_id us (ses_userId x) \<and> (\<exists>j < n. ses_tokenHash x = session_hash C j))"

definition tokens_ok :: "crypto \<Rightarrow> uuid \<Rightarrow> 'a one_time_token_scheme list \<Rightarrow> bool" where
  "tokens_ok C n ts \<longleftrightarrow> distinct (map tok_id ts) \<and> distinct (map tok_hash ts)
     \<and> distinct (map tok_userId (filter (\<lambda>t. tok_usedAt t = None) ts))
     \<and> (\<forall>t \<in> set ts. tok_id t < n \<and> (\<exists>j < n. tok_hash t = hashToken C (cr_random C j)))"

text \<open>An unused recovery token belongs to an account that is scheduled for deletion when it expires.\<close>

definition recovery_ok :: "account list \<Rightarrow> one_time_token list \<Rightarrow> bool" where
  "recovery_ok accs ts \<longleftrightarrow> (\<forall>t \<in> set ts. tok_usedAt t = None \<longrightarrow>
     (\<exists>a \<in> set accs. acc_userId a = tok_userId t \<and> acc_deletionScheduledAt a = Some (tok_expiresAt t)))"

definition auth_ok :: "crypto \<Rightarrow> auth_db \<Rightarrow> bool" where
  "auth_ok C s \<longleftrightarrow> users_ok (core_nextId s) (core_users s) (adb_accounts s)
     \<and> sessions_ok C (core_nextId s) (core_users s) (adb_sessions s)
     \<and> tokens_ok C (core_nextId s) (adb_resets s) \<and> tokens_ok C (core_nextId s) (adb_emailChanges s)
     \<and> tokens_ok C (core_nextId s) (adb_deletions s) \<and> recovery_ok (adb_accounts s) (adb_deletions s)"

lemma users_ok_mono: "users_ok n us accs \<Longrightarrow> n \<le> m \<Longrightarrow> users_ok m us accs"
  by (auto simp: users_ok_def)

lemma users_ok_write:
  assumes "users_ok n us accs" "\<And>u. user_id (g u) = user_id u"
    "distinct (map (\<lambda>u. user_email (g u)) us)"
    "\<And>u a. u \<in> set us \<Longrightarrow> a \<in> set accs \<Longrightarrow> account_for u a \<Longrightarrow> account_for (g u) (h a)"
  shows "users_ok n (map g us) (map h accs)"
  using assms unfolding users_ok_def
  by (auto simp: comp_def list_all2_map1 list_all2_map2 elim!: list.rel_mono_strong)

lemma users_ok_accounts:
  assumes "users_ok n us accs" "\<And>u a. u \<in> set us \<Longrightarrow> account_for u a \<Longrightarrow> account_for u (h a)"
  shows "users_ok n us (map h accs)"
  using users_ok_write [OF assms(1), of "\<lambda>u. u" h] assms by (auto simp: users_ok_def)

lemma users_ok_add:
  assumes "users_ok n us accs" "\<forall>u \<in> set us. user_email u \<noteq> user_email v" "user_id v = n" "account_for v b"
  shows "users_ok (Suc n) (us @ [v]) (accs @ [b])"
  using assms by (fastforce simp: users_ok_def list_all2_appendI)

lemma sessions_ok_mono: "sessions_ok C n us xs \<Longrightarrow> n \<le> m \<Longrightarrow> sessions_ok C m us xs"
  unfolding sessions_ok_def by (meson less_le_trans)

lemma sessions_ok_filter: "sessions_ok C n us xs \<Longrightarrow> sessions_ok C n us (filter P xs)"
  by (auto simp: sessions_ok_def intro: distinct_map_filter)

lemma sessions_ok_users:
  "sessions_ok C n us xs \<Longrightarrow> (\<And>x. x \<in> set xs \<Longrightarrow> active_id us (ses_userId x) \<Longrightarrow> active_id us' (ses_userId x))
     \<Longrightarrow> sessions_ok C n us' xs"
  by (simp add: sessions_ok_def)

lemma sessions_ok_map:
  assumes "sessions_ok C n us xs" "\<And>x. ses_id (g x) = ses_id x" "\<And>x. ses_tokenHash (g x) = ses_tokenHash x"
    "\<And>x. ses_userId (g x) = ses_userId x"
  shows "sessions_ok C n us (map g xs)"
  using assms by (simp add: sessions_ok_def comp_def)

lemma sessions_ok_add:
  assumes "sessions_ok C n us xs" "n \<le> ses_id x" "ses_id x < m" "active_id us (ses_userId x)"
    "ses_tokenHash x = session_hash C j" "j < m" "\<forall>y \<in> set xs. ses_tokenHash y \<noteq> ses_tokenHash x"
  shows "sessions_ok C m us (xs @ [x])"
proof -
  have "sessions_ok C m us xs" by (rule sessions_ok_mono [OF assms(1)]) (use assms(2,3) in simp)
  moreover have "ses_id x \<notin> ses_id ` set xs" using assms(1,2) by (auto simp: sessions_ok_def)
  ultimately show ?thesis using assms by (auto simp: sessions_ok_def)
qed

lemma active_id_map:
  assumes "\<And>u. user_id (g u) = user_id u" "\<And>u. u \<in> set us \<Longrightarrow> user_id u = i \<Longrightarrow> user_isActive u \<Longrightarrow> user_isActive (g u)"
    "active_id us i"
  shows "active_id (map g us) i"
  using assms by (auto simp: active_id_def)

lemma tokens_ok_mono: "tokens_ok C n ts \<Longrightarrow> n \<le> m \<Longrightarrow> tokens_ok C m ts"
  unfolding tokens_ok_def by (meson less_le_trans)

lemma tokens_ok_filter:
  assumes "tokens_ok C n ts" shows "tokens_ok C n (filter P ts)"
proof -
  have "filter (\<lambda>t. tok_usedAt t = None) (filter P ts) = filter P (filter (\<lambda>t. tok_usedAt t = None) ts)"
    by (simp add: conj_commute)
  then show ?thesis using assms unfolding tokens_ok_def by (simp only: distinct_map_filter) auto
qed

lemma drop_unused_eq: "drop_unused uid ts = filter (\<lambda>t. \<not> unused_of uid t) ts"
  by (simp add: drop_unused_def)

lemma tokens_ok_drop: "tokens_ok C n ts \<Longrightarrow> tokens_ok C n (drop_unused uid ts)"
  by (simp only: drop_unused_eq tokens_ok_filter)

lemma tokens_ok_renew:
  assumes "tokens_ok C n ts" "n \<le> tok_id t" "tok_id t < m" "tok_hash t = hashToken C (cr_random C j)" "j < m"
    "\<not> hash_taken (tok_hash t) (drop_unused (tok_userId t) ts)"
  shows "tokens_ok C m (drop_unused (tok_userId t) ts @ [t])"
proof -
  have "tokens_ok C m (drop_unused (tok_userId t) ts)"
    by (rule tokens_ok_mono [OF tokens_ok_drop [OF assms(1)]]) (use assms(2,3) in simp)
  moreover have "tok_id t \<notin> tok_id ` set (drop_unused (tok_userId t) ts)"
    using assms(1,2) by (auto simp: tokens_ok_def drop_unused_def)
  moreover have "tok_userId t \<notin> tok_userId ` (set (drop_unused (tok_userId t) ts) \<inter> {t. tok_usedAt t = None})"
    by (auto simp: drop_unused_def unused_of_def)
  ultimately show ?thesis
    using assms(3-6) by (auto simp: tokens_ok_def hash_taken_def)
qed

lemma consume_token_snd: "snd (consume_token now i ts)
    = map (\<lambda>t. if tok_id t = i \<and> tok_usedAt t = None \<and> now < tok_expiresAt t then t\<lparr>tok_usedAt := Some now\<rparr> else t) ts"
  by (simp add: consume_token_def)

lemma tokens_ok_map:
  assumes "tokens_ok C n ts" "\<And>t. tok_id (g t) = tok_id t" "\<And>t. tok_hash (g t) = tok_hash t"
    "\<And>t. tok_userId (g t) = tok_userId t" "\<And>t. tok_usedAt (g t) = None \<Longrightarrow> g t = t"
  shows "tokens_ok C n (map g ts)"
proof -
  have "filter (\<lambda>t. tok_usedAt t = None) (map g ts)
      = filter (\<lambda>t. tok_usedAt (g t) = None) (filter (\<lambda>t. tok_usedAt t = None) ts)"
    using assms(5) by (induction ts) (auto, metis+)
  then show ?thesis using assms(1-4) unfolding tokens_ok_def
    by (simp add: comp_def distinct_map_filter del: filter_filter)
qed

lemma tokens_ok_consume: "tokens_ok C n ts \<Longrightarrow> tokens_ok C n (snd (consume_token now i ts))"
  unfolding consume_token_snd by (rule tokens_ok_map) (auto split: if_splits)

lemma recovery_ok_subset: "recovery_ok accs ts \<Longrightarrow> set ts' \<subseteq> set ts \<Longrightarrow> recovery_ok accs ts'"
  by (auto simp: recovery_ok_def)

subsection \<open>What every operation keeps\<close>

text \<open>Sessions and usable tokens only come from old ones or from secrets not drawn before.\<close>

definition sessions_from :: "crypto \<Rightarrow> uuid \<Rightarrow> auth_session list \<Rightarrow> auth_session list \<Rightarrow> bool" where
  "sessions_from C n xs ys \<longleftrightarrow> (\<forall>y \<in> set ys.
     (\<exists>x \<in> set xs. ses_tokenHash x = ses_tokenHash y \<and> ses_userId x = ses_userId y)
     \<or> (\<exists>j \<ge> n. ses_tokenHash y = session_hash C j))"

definition tokens_from ::
    "crypto \<Rightarrow> uuid \<Rightarrow> 'a one_time_token_scheme list \<Rightarrow> 'a one_time_token_scheme list \<Rightarrow> bool" where
  "tokens_from C n xs ys \<longleftrightarrow> (\<forall>y \<in> set ys. tok_usedAt y = None \<longrightarrow>
     (\<exists>x \<in> set xs. tok_usedAt x = None \<and> tok_hash x = tok_hash y \<and> tok_expiresAt x = tok_expiresAt y)
     \<or> (\<exists>j \<ge> n. tok_hash y = hashToken C (cr_random C j)))"

lemma sessions_from_subset: "set ys \<subseteq> set xs \<Longrightarrow> sessions_from C n xs ys"
  by (auto simp: sessions_from_def)

lemma sessions_from_trans:
  "sessions_from C n xs ys \<Longrightarrow> sessions_from C m ys zs \<Longrightarrow> n \<le> m \<Longrightarrow> sessions_from C n xs zs"
  unfolding sessions_from_def by (rule ballI, drule (1) bspec, erule disjE) (fastforce, meson order_trans)

lemma tokens_from_subset: "set ys \<subseteq> set xs \<Longrightarrow> tokens_from C n xs ys"
  by (auto simp: tokens_from_def)

lemma tokens_from_trans:
  "tokens_from C n xs ys \<Longrightarrow> tokens_from C m ys zs \<Longrightarrow> n \<le> m \<Longrightarrow> tokens_from C n xs zs"
  unfolding tokens_from_def
  by (intro ballI impI, drule (1) bspec, drule (1) mp, erule disjE) (fastforce, meson order_trans)

lemma tokens_from_renew:
  "tok_hash t = hashToken C (cr_random C j) \<Longrightarrow> n \<le> j \<Longrightarrow> tokens_from C n ts (drop_unused uid ts @ [t])"
  by (auto simp: tokens_from_def drop_unused_def)

lemma tokens_from_consume: "tokens_from C n ts (snd (consume_token now i ts))"
  unfolding consume_token_snd tokens_from_def by (auto split: if_splits)

definition auth_from :: "crypto \<Rightarrow> auth_db \<Rightarrow> auth_db \<Rightarrow> bool" where
  "auth_from C s t \<longleftrightarrow> core_nextId s \<le> core_nextId t
     \<and> sessions_from C (core_nextId s) (adb_sessions s) (adb_sessions t)
     \<and> tokens_from C (core_nextId s) (adb_resets s) (adb_resets t)
     \<and> tokens_from C (core_nextId s) (adb_emailChanges s) (adb_emailChanges t)
     \<and> tokens_from C (core_nextId s) (adb_deletions s) (adb_deletions t)"

definition auth_keep :: "crypto \<Rightarrow> auth_db \<Rightarrow> auth_db \<Rightarrow> bool" where
  "auth_keep C s t \<longleftrightarrow> (auth_ok C s \<longrightarrow> auth_ok C t \<and> auth_from C s t)"

lemma auth_from_trans: "auth_from C a b \<Longrightarrow> auth_from C b c \<Longrightarrow> auth_from C a c"
  unfolding auth_from_def by (meson order_trans sessions_from_trans tokens_from_trans)

interpretation au: evolution "auth_keep C" for C
proof
  show "auth_keep C s s" for s
    by (simp add: auth_keep_def auth_from_def sessions_from_subset tokens_from_subset)
  show "auth_keep C a b \<Longrightarrow> auth_keep C b c \<Longrightarrow> auth_keep C a c" for a b c
    unfolding auth_keep_def by (meson auth_from_trans)
qed

text \<open>A step that leaves users, accounts, sessions and tokens alone.\<close>

lemma auth_keep_same:
  assumes "core_users t = core_users s" "adb_accounts t = adb_accounts s" "adb_sessions t = adb_sessions s"
    "adb_resets t = adb_resets s" "adb_emailChanges t = adb_emailChanges s" "adb_deletions t = adb_deletions s"
    "core_nextId s \<le> core_nextId t"
  shows "auth_keep C s t"
  using assms unfolding auth_keep_def auth_ok_def auth_from_def
  by (auto intro: users_ok_mono sessions_ok_mono tokens_ok_mono sessions_from_subset tokens_from_subset)

lemma keep_delete_sessions: "auth_keep C s (snd (delete_sessions P s))"
  by (simp add: auth_keep_def auth_ok_def auth_from_def delete_sessions_def sessions_ok_filter
      sessions_from_subset tokens_from_subset)

lemma keep_resets:
  assumes "auth_ok C s \<Longrightarrow> tokens_ok C (core_nextId s) ts \<and> tokens_from C (core_nextId s) (adb_resets s) ts"
  shows "auth_keep C s (s\<lparr>adb_resets := ts\<rparr>)"
  using assms by (simp add: auth_keep_def auth_ok_def auth_from_def sessions_from_subset tokens_from_subset)

lemma keep_emailChanges:
  assumes "auth_ok C s \<Longrightarrow> tokens_ok C (core_nextId s) ts \<and> tokens_from C (core_nextId s) (adb_emailChanges s) ts"
  shows "auth_keep C s (s\<lparr>adb_emailChanges := ts\<rparr>)"
  using assms by (simp add: auth_keep_def auth_ok_def auth_from_def sessions_from_subset tokens_from_subset)

lemma keep_accounts:
  assumes "\<And>a. acc_userId (h a) = acc_userId a" "\<And>a. acc_deletionScheduledAt (h a) = acc_deletionScheduledAt a"
  shows "auth_keep C s (s\<lparr>adb_accounts := map h (adb_accounts s)\<rparr>)"
proof -
  have "users_ok n us (map h accs)" if "users_ok n us accs" for n us accs
    by (rule users_ok_accounts [OF that]) (auto simp: account_for_def assms)
  moreover have "recovery_ok (map h accs) ts" if "recovery_ok accs ts" for accs ts
    using that by (simp add: recovery_ok_def assms)
  ultimately show ?thesis
    by (simp add: auth_keep_def auth_ok_def auth_from_def sessions_from_subset tokens_from_subset)
qed

lemma keep_write_account:
  assumes "\<And>a. acc_userId (h a) = acc_userId a" "\<And>a. acc_deletionScheduledAt (h a) = acc_deletionScheduledAt a"
  shows "auth_keep C s (write_account uid h s)"
  unfolding write_account_def by (rule keep_accounts) (simp_all add: assms)

lemma keep_fresh: "fresh s = (i, s1) \<Longrightarrow> auth_keep C s s1"
  by (rule auth_keep_same) (auto simp: fresh_def)

lemma keep_sessions_map:
  assumes "\<And>x. ses_id (g x) = ses_id x" "\<And>x. ses_tokenHash (g x) = ses_tokenHash x" "\<And>x. ses_userId (g x) = ses_userId x"
  shows "auth_keep C s (s\<lparr>adb_sessions := map g (adb_sessions s)\<rparr>)"
  using sessions_ok_map [of C _ _ _ g] assms
  by (auto simp: auth_keep_def auth_ok_def auth_from_def sessions_from_def tokens_from_subset)

subsection \<open>Each operation\<close>

lemma keep_add_session:
  assumes "auth_ok C s \<Longrightarrow> active_id (core_users s) (ses_userId x)"
    "ses_id x = core_nextId s + 1" "ses_tokenHash x = session_hash C (core_nextId s)"
    "\<forall>y \<in> set (adb_sessions s). ses_tokenHash y \<noteq> session_hash C (core_nextId s)" "m = core_nextId s + 2"
  shows "auth_keep C s (s\<lparr>core_nextId := m, adb_sessions := adb_sessions s @ [x]\<rparr>)"
proof -
  have "sessions_ok C m (core_users s) (adb_sessions s @ [x])" if "auth_ok C s"
    by (rule sessions_ok_add [where n = "core_nextId s" and j = "core_nextId s"])
      (use that assms in \<open>auto simp: auth_ok_def\<close>)
  moreover have "sessions_from C (core_nextId s) (adb_sessions s) (adb_sessions s @ [x])"
    using assms(3) by (auto simp: sessions_from_def)
  ultimately show ?thesis
    using assms(5) unfolding auth_keep_def auth_ok_def auth_from_def
    by (auto intro: users_ok_mono tokens_ok_mono tokens_from_subset)
qed

lemma issueAccessToken_keep:
  assumes "auth_ok C s \<Longrightarrow> active_id (core_users s) (user_id (fst ua))"
  shows "auth_keep C s (snd (issueAccessToken E C cfg ua md s))"
proof -
  have "auth_keep C s (s\<lparr>core_nextId := core_nextId s + 1\<rparr>)" by (rule auth_keep_same) auto
  then show ?thesis
    unfolding issueAccessToken_def Let_def fresh_def prod.case
    by (auto simp: assms split: sum.split intro!: keep_add_session)
qed

lemma account_of_Some: "account_of i s = Some a \<Longrightarrow> a \<in> set (adb_accounts s) \<and> acc_userId a = i"
  by (auto simp: account_of_def dest: find_SomeD)

lemma with_account_Some:
  "with_account s u = Some (v, a) \<longleftrightarrow> u = Some v \<and> account_of (user_id v) s = Some a"
  by (auto simp: with_account_def split: bind_splits)

lemma findByEmail_Some: "findByEmail e s = Some (u, a) \<Longrightarrow> u \<in> set (core_users s)
    \<and> user_email u = js_lower (js_trim e) \<and> account_of (user_id u) s = Some a"
  by (auto simp: findByEmail_def with_account_Some user_by_email_def dest: find_SomeD)

lemma findActive_Some: "findActive i s = Some (u, a) \<Longrightarrow> u \<in> set (core_users s) \<and> user_id u = i \<and> user_isActive u
    \<and> account_of i s = Some a"
  by (auto simp: findActive_def with_account_Some active_user_def dest: find_SomeD)

lemma login_keep: "auth_keep C s (snd (login E C cfg email pw md s))"
  unfolding login_def Let_def
  by (auto split: option.split intro!: au.evolution_refl issueAccessToken_keep)
    (meson active_id_def findByEmail_Some)

lemma keep_add_user:
  assumes "\<forall>u \<in> set (core_users s). user_email u \<noteq> user_email v" "user_id v = core_nextId s" "account_for v b"
    "m = Suc (core_nextId s)"
  shows "auth_keep C s (s\<lparr>core_nextId := m, core_users := core_users s @ [v],
    adb_accounts := adb_accounts s @ [b]\<rparr>)"
proof -
  have "users_ok (Suc (core_nextId s)) (core_users s @ [v]) (adb_accounts s @ [b])" if "auth_ok C s"
    using users_ok_add [OF _ assms(1-3)] that by (simp add: auth_ok_def)
  moreover have "sessions_ok C (Suc (core_nextId s)) (core_users s @ [v]) (adb_sessions s)" if "auth_ok C s"
    by (rule sessions_ok_users [OF sessions_ok_mono]) (use that in \<open>auto simp: auth_ok_def active_id_def\<close>)
  moreover have "recovery_ok (adb_accounts s @ [b]) (adb_deletions s)" if "auth_ok C s"
    using that by (fastforce simp: auth_ok_def recovery_ok_def)
  ultimately show ?thesis
    unfolding auth_keep_def auth_ok_def auth_from_def assms(4)
    by (auto intro: tokens_ok_mono sessions_from_subset tokens_from_subset)
qed

lemma users_create_keep: "auth_keep C s (snd (users_create E C dto s))"
  unfolding users_create_def Let_def fresh_def prod.case
  by (auto intro!: au.evolution_refl keep_add_user simp: account_for_def)

lemma users_create_active: "users_create E C dto s = (Inr ua, t) \<Longrightarrow> active_id (core_users t) (user_id (fst ua))"
  by (auto simp: users_create_def Let_def fresh_def active_id_def split: if_splits)

lemma register_keep: "auth_keep C s (snd (register E C cfg dto md s))"
proof (cases "findByEmail (rg_email dto) s")
  case None
  show ?thesis
    unfolding register_def None option.case
    by (rule au.and_thenI) (auto simp: users_create_keep intro!: issueAccessToken_keep dest: users_create_active)
qed (simp add: register_def au.evolution_refl)

lemma revokeSession_keep: "auth_keep C s (snd (revokeSession u i s))"
  using keep_delete_sessions [of C s "\<lambda>x. ses_id x = i \<and> ses_userId x = u"]
  by (auto simp: revokeSession_def split: prod.split)

lemma validate_keep: "auth_keep C s (snd (validate E C jti s))"
  unfolding validate_def Let_def by (auto intro!: au.evolution_refl keep_sessions_map split: option.split)

lemma changePassword_keep: "auth_keep C s (snd (changePassword C u h p q s))"
proof -
  have "auth_keep C s (snd (delete_sessions P (write_account u (\<lambda>a. a\<lparr>acc_passwordHash := x\<rparr>) t)))"
    if "fresh s = (i, t)" for P x i t
    by (rule au.evolution_trans [OF keep_fresh [OF that] au.evolution_trans [OF keep_write_account keep_delete_sessions]]) auto
  then show ?thesis
    unfolding changePassword_def Let_def by (auto intro!: au.evolution_refl split: option.split prod.split)
qed

text \<open>Asking for a token: the user's unused tokens are replaced by one of a new draw.\<close>

lemma keep_renew:
  assumes "tok_hash t = hashToken C (cr_random C (core_nextId s))" "tok_id t = core_nextId s + 1"
    "\<not> hash_taken (tok_hash t) (drop_unused (tok_userId t) ts)" "m = core_nextId s + 2"
    "tokens_ok C (core_nextId s) ts"
  shows "tokens_ok C m (drop_unused (tok_userId t) ts @ [t])"
    "tokens_from C (core_nextId s) ts (drop_unused (tok_userId t) ts @ [t])"
proof -
  show "tokens_ok C m (drop_unused (tok_userId t) ts @ [t])"
    by (rule tokens_ok_renew [OF assms(5) _ _ assms(1)]) (use assms in auto)
  show "tokens_from C (core_nextId s) ts (drop_unused (tok_userId t) ts @ [t])"
    by (rule tokens_from_renew [OF assms(1) order_refl])
qed

lemma auth_keep_counted:
  assumes "auth_keep C s (t\<lparr>core_nextId := core_nextId s\<rparr>)" "core_nextId s \<le> core_nextId t"
  shows "auth_keep C s t"
proof -
  have "auth_keep C (t\<lparr>core_nextId := core_nextId s\<rparr>) t" by (rule auth_keep_same) (use assms(2) in auto)
  with assms(1) show ?thesis by (rule au.evolution_trans)
qed

lemma keep_new_reset:
  assumes "tok_hash t = hashToken C (cr_random C (core_nextId s))" "tok_id t = core_nextId s + 1" "tok_userId t = uid"
    "\<not> hash_taken (tok_hash t) (drop_unused uid (adb_resets s))" "m = core_nextId s + 2"
  shows "auth_keep C s (s\<lparr>core_nextId := m, core_feed := d, adb_resets := drop_unused uid (adb_resets s) @ [t]\<rparr>)"
  using keep_renew [OF assms(1,2) _ assms(5), of "adb_resets s"] assms(3-5) unfolding auth_keep_def auth_ok_def auth_from_def
  by (auto intro: users_ok_mono sessions_ok_mono tokens_ok_mono sessions_from_subset tokens_from_subset)

lemma keep_new_emailChange:
  assumes "tok_hash t = hashToken C (cr_random C (core_nextId s))" "tok_id t = core_nextId s + 1" "tok_userId t = uid"
    "\<not> hash_taken (tok_hash t) (drop_unused uid (adb_emailChanges s))" "m = core_nextId s + 2"
  shows "auth_keep C s (s\<lparr>core_nextId := m, core_feed := d, adb_emailChanges := drop_unused uid (adb_emailChanges s) @ [t]\<rparr>)"
  using keep_renew [OF assms(1,2) _ assms(5), of "adb_emailChanges s"] assms(3-5)
  unfolding auth_keep_def auth_ok_def auth_from_def
  by (auto intro: users_ok_mono sessions_ok_mono tokens_ok_mono sessions_from_subset tokens_from_subset)

lemma requestPasswordReset_keep: "auth_keep C s (snd (requestPasswordReset E C cfg email s))"
proof -
  have draw: "auth_keep C s (s\<lparr>core_nextId := core_nextId s + 1\<rparr>)" by (rule auth_keep_same) auto
  then show ?thesis
    unfolding requestPasswordReset_def Let_def fresh_def prod.case
    by (auto intro!: au.evolution_refl keep_new_reset split: option.split sum.split simp: new_token_def)
qed

lemma requestEmailChange_keep: "auth_keep C s (snd (requestEmailChange E C cfg uid email pw s))"
proof -
  have draw: "auth_keep C s (s\<lparr>core_nextId := core_nextId s + 1\<rparr>)" by (rule auth_keep_same) auto
  then show ?thesis
    unfolding requestEmailChange_def Let_def fresh_def prod.case
    by (auto intro!: au.evolution_refl keep_new_emailChange split: option.split sum.split)
qed

lemma keep_consume_reset: "auth_keep C s (s\<lparr>adb_resets := snd (consume_token now i (adb_resets s))\<rparr>)"
  by (rule keep_resets) (simp add: auth_ok_def tokens_ok_consume tokens_from_consume)

lemma keep_consume_emailChange:
  "auth_keep C s (s\<lparr>adb_emailChanges := snd (consume_token now i (adb_emailChanges s))\<rparr>)"
  by (rule keep_emailChanges) (simp add: auth_ok_def tokens_ok_consume tokens_from_consume)

lemma resetPassword_keep: "auth_keep C s (snd (resetPassword E C token pw s))"
proof -
  have consumed: "auth_keep C s (t\<lparr>adb_resets := ts\<rparr>)"
    if "fresh s = (i, t)" "consume_token now k (adb_resets t) = (n, ts)" for i t now k n ts
    using au.evolution_trans [OF keep_fresh [OF that(1)] keep_consume_reset [of C t now k]] that(2) by simp
  moreover have "auth_keep C s (snd (delete_sessions P (write_account u (\<lambda>a. a\<lparr>acc_passwordHash := x\<rparr>) (t\<lparr>adb_resets := ts\<rparr>))))"
    if "fresh s = (i, t)" "consume_token now k (adb_resets t) = (n, ts)" for i t now k n ts P u x
    by (rule au.evolution_trans [OF consumed [OF that] au.evolution_trans [OF keep_write_account keep_delete_sessions]]) auto
  ultimately show ?thesis
    unfolding resetPassword_def Let_def by (auto intro!: au.evolution_refl split: option.split prod.split)
qed

text \<open>Writing both halves of a user row, with the activity and the schedule of deletion unchanged.\<close>

lemma keep_users_accounts:
  assumes "\<And>u. user_id (g u) = user_id u" "\<And>u. user_isActive (g u) = user_isActive u"
    "\<And>a. acc_userId (h a) = acc_userId a" "\<And>a. acc_deletionScheduledAt (h a) = acc_deletionScheduledAt a"
    "auth_ok C s \<Longrightarrow> distinct (map (\<lambda>u. user_email (g u)) (core_users s))"
    "\<And>u a. auth_ok C s \<Longrightarrow> u \<in> set (core_users s) \<Longrightarrow> account_for u a \<Longrightarrow> account_for (g u) (h a)"
  shows "auth_keep C s (s\<lparr>core_users := map g (core_users s), adb_accounts := map h (adb_accounts s)\<rparr>)"
proof -
  have "users_ok n (map g (core_users s)) (map h (adb_accounts s))"
    if "auth_ok C s" "users_ok n (core_users s) (adb_accounts s)" for n
    by (rule users_ok_write [OF that(2)]) (use assms that(1) in auto)
  moreover have "sessions_ok C n (map g (core_users s)) xs" if "sessions_ok C n (core_users s) xs" for n xs
    by (rule sessions_ok_users [OF that]) (auto intro: active_id_map simp: assms)
  moreover have "recovery_ok (map h accs) ts" if "recovery_ok accs ts" for accs ts
    using that by (simp add: recovery_ok_def assms)
  ultimately show ?thesis
    by (auto simp: auth_keep_def auth_ok_def auth_from_def sessions_from_subset tokens_from_subset)
qed

lemma distinct_email_write:
  assumes "distinct (map user_id us)" "distinct (map user_email us)"
    "\<forall>x \<in> set us. user_id x \<noteq> uid \<longrightarrow> user_email x \<noteq> e"
  shows "distinct (map (\<lambda>u. if user_id u = uid then e else user_email u) us)"
  using assms
proof (induction us)
  case (Cons u us)
  have "uid \<notin> user_id ` set us" if "user_id u = uid" using Cons.prems(1) that by auto
  then show ?case using Cons by (auto simp: image_iff)
qed simp

lemma keep_write_email:
  assumes "\<not> (\<exists>x \<in> set (core_users s). user_id x \<noteq> uid \<and> user_email x = e)"
    "\<And>u. user_id (g u) = user_id u" "\<And>u. user_isActive (g u) = user_isActive u" "\<And>u. user_email (g u) = e"
    "\<And>a. acc_userId (h a) = acc_userId a" "\<And>a. acc_deletionScheduledAt (h a) = acc_deletionScheduledAt a"
  shows "auth_keep C s (write_account uid h (write_user uid g s))"
proof -
  have eq: "write_account uid h (write_user uid g s) = s\<lparr>core_users := map (\<lambda>u. if user_id u = uid then g u else u) (core_users s),
      adb_accounts := map (\<lambda>a. if acc_userId a = uid then h a else a) (adb_accounts s)\<rparr>"
    by (simp add: write_account_def write_user_def)
  have emails: "distinct (map (\<lambda>u. user_email (if user_id u = uid then g u else u)) (core_users s))" if "auth_ok C s"
    using distinct_email_write [of "core_users s" uid e] that assms(1)
    by (auto simp: auth_ok_def users_ok_def assms(4) if_distrib [of user_email] cong: if_cong)
  have pair: "account_for (if user_id u = uid then g u else u) (if acc_userId a = uid then h a else a)"
    if "u \<in> set (core_users s)" "account_for u a" for u a
    using that assms(2,3,5,6) by (auto simp: account_for_def)
  show ?thesis unfolding eq by (rule keep_users_accounts) (use emails pair assms in auto)
qed

lemma confirmEmailChange_keep: "auth_keep C s (snd (confirmEmailChange E C token s))"
proof -
  let ?change = "\<lambda>t ts e. snd (delete_sessions (\<lambda>x. ses_userId x = tok_userId t)
     (write_account (tok_userId t) (\<lambda>a. a\<lparr>acc_version := acc_version a + 1\<rparr>)
       (write_user (tok_userId t) (\<lambda>x. x\<lparr>user_email := e\<rparr>) (s\<lparr>adb_emailChanges := ts\<rparr>))))"
  have "auth_keep C s (?change t ts e)"
    if "consume_token now i (adb_emailChanges s) = (n, ts)"
      "\<forall>x \<in> set (core_users s). user_id x = tok_userId t \<or> user_email x \<noteq> e" for now i n ts t e
  proof -
    have "auth_keep C s (s\<lparr>adb_emailChanges := ts\<rparr>)"
      using keep_consume_emailChange [of C s now i] that(1) by simp
    then show ?thesis
      by (rule au.evolution_trans [OF _ au.evolution_trans [OF keep_write_email keep_delete_sessions]]) (use that(2) in auto)
  qed
  then show ?thesis
    unfolding confirmEmailChange_def Let_def snd_catch_prisma
    by (intro au.guards au.transaction_stepI) (auto intro!: au.evolution_refl au.transaction_stepI split: prod.split option.split)
qed

text \<open>Deactivating and reactivating the account \<open>uid\<close>, as the states of the two transactions.\<close>

definition set_active :: "uuid \<Rightarrow> bool \<Rightarrow> user \<Rightarrow> user" where
  "set_active uid b u = (if user_id u = uid then u\<lparr>user_isActive := b\<rparr> else u)"

definition set_deletion :: "uuid \<Rightarrow> timestamp option \<Rightarrow> timestamp option \<Rightarrow> account \<Rightarrow> account" where
  "set_deletion uid requested scheduled a = (if acc_userId a = uid then a\<lparr>acc_version := acc_version a + 1,
     acc_deletionRequestedAt := requested, acc_deletionScheduledAt := scheduled\<rparr> else a)"

lemma set_active_simps [simp]: "user_id (set_active uid b u) = user_id u" "user_email (set_active uid b u) = user_email u"
  by (simp_all add: set_active_def)

lemma set_deletion_id [simp]: "acc_userId (set_deletion uid r d a) = acc_userId a"
  by (simp add: set_deletion_def)

lemma users_ok_set_active:
  assumes "users_ok n us accs" "b \<longleftrightarrow> d = None"
  shows "users_ok n (map (set_active uid b) us) (map (set_deletion uid r d) accs)"
proof (rule users_ok_write [OF assms(1)])
  show "distinct (map (\<lambda>u. user_email (set_active uid b u)) us)" using assms(1) by (simp add: users_ok_def)
  show "account_for (set_active uid b u) (set_deletion uid r d a)" if "account_for u a" for u a
    using that assms(2) by (auto simp: account_for_def set_active_def set_deletion_def)
qed simp

lemma recovery_ok_deactivate:
  assumes "recovery_ok accs ts" "a \<in> set accs" "acc_userId a = uid"
    "tok_userId tok = uid" "tok_expiresAt tok = scheduled"
  shows "recovery_ok (map (set_deletion uid r (Some scheduled)) accs) (drop_unused uid ts @ [tok])"
  unfolding recovery_ok_def
proof (intro ballI impI)
  fix t assume t: "t \<in> set (drop_unused uid ts @ [tok])" "tok_usedAt t = None"
  show "\<exists>a \<in> set (map (set_deletion uid r (Some scheduled)) accs). acc_userId a = tok_userId t
      \<and> acc_deletionScheduledAt a = Some (tok_expiresAt t)"
  proof (cases "t = tok")
    case True
    then show ?thesis
      using assms by (intro bexI [of _ "set_deletion uid r (Some scheduled) a"]) (auto simp: set_deletion_def)
  next
    case False
    then have "t \<in> set ts" "tok_userId t \<noteq> uid" using t by (auto simp: drop_unused_def unused_of_def)
    then obtain c where "c \<in> set accs" "acc_userId c = tok_userId t" "acc_deletionScheduledAt c = Some (tok_expiresAt t)"
      using assms(1) t(2) by (auto simp: recovery_ok_def)
    then show ?thesis
      using \<open>tok_userId t \<noteq> uid\<close>
      by (intro bexI [of _ "set_deletion uid r (Some scheduled) c"]) (auto simp: set_deletion_def)
  qed
qed

lemma keep_deactivation:
  assumes "core_nextId t = core_nextId s + 2" "core_users t = map (set_active uid False) (core_users s)"
    "adb_accounts t = map (set_deletion uid r (Some scheduled)) (adb_accounts s)"
    "adb_sessions t = filter (\<lambda>x. ses_userId x \<noteq> uid) (adb_sessions s)"
    "adb_resets t = drop_unused uid (adb_resets s)" "adb_emailChanges t = drop_unused uid (adb_emailChanges s)"
    "adb_deletions t = drop_unused uid (adb_deletions s) @ [tok]"
    and tok: "tok_userId tok = uid" "tok_hash tok = hashToken C (cr_random C (core_nextId s))"
      "tok_id tok = core_nextId s + 1" "tok_expiresAt tok = scheduled"
      "\<not> hash_taken (tok_hash tok) (drop_unused uid (adb_deletions s))"
    and acc: "\<exists>a \<in> set (adb_accounts s). acc_userId a = uid"
  shows "auth_keep C s t"
  unfolding auth_keep_def
proof
  assume ok: "auth_ok C s"
  then have u: "users_ok (core_nextId s) (core_users s) (adb_accounts s)"
    and x: "sessions_ok C (core_nextId s) (core_users s) (adb_sessions s)"
    and ts: "tokens_ok C (core_nextId s) (adb_resets s)" "tokens_ok C (core_nextId s) (adb_emailChanges s)"
      "tokens_ok C (core_nextId s) (adb_deletions s)"
    and rec: "recovery_ok (adb_accounts s) (adb_deletions s)"
    by (simp_all add: auth_ok_def)
  have "users_ok (core_nextId t) (core_users t) (adb_accounts t)"
    unfolding assms(1-3) by (rule users_ok_mono [OF users_ok_set_active [OF u]]) auto
  moreover have "sessions_ok C (core_nextId t) (core_users t) (adb_sessions t)"
    unfolding assms(1,2,4)
    by (rule sessions_ok_mono [OF sessions_ok_users [OF sessions_ok_filter [OF x]]])
      (auto intro!: active_id_map simp: set_active_def)
  moreover have "tokens_ok C (core_nextId t) (adb_resets t)" "tokens_ok C (core_nextId t) (adb_emailChanges t)"
    unfolding assms(1,5,6) using ts by (auto intro: tokens_ok_mono [OF tokens_ok_drop])
  moreover have "tokens_ok C (core_nextId t) (adb_deletions t)"
    "tokens_from C (core_nextId s) (adb_deletions s) (adb_deletions t)"
    using keep_renew [OF tok(2,3) _ assms(1) ts(3)] tok(1,5) unfolding assms(7) by simp_all
  moreover have "recovery_ok (adb_accounts t) (adb_deletions t)"
    using recovery_ok_deactivate [OF rec] acc tok(1,4) unfolding assms(3,7) by blast
  ultimately show "auth_ok C t \<and> auth_from C s t"
    by (auto simp: auth_ok_def auth_from_def assms(1) sessions_from_def tokens_from_def assms(4-6) drop_unused_def)
qed

lemma write_user_active: "write_user uid (\<lambda>u. u\<lparr>user_isActive := b\<rparr>) s
    = s\<lparr>core_users := map (set_active uid b) (core_users s)\<rparr>"
  by (simp add: write_user_def set_active_def [abs_def])

lemma write_account_deletion:
  "write_account uid (\<lambda>a. a\<lparr>acc_version := acc_version a + 1, acc_deletionRequestedAt := r, acc_deletionScheduledAt := d\<rparr>) s
    = s\<lparr>adb_accounts := map (set_deletion uid r d) (adb_accounts s)\<rparr>"
  by (simp add: write_account_def set_deletion_def [abs_def])

lemmas account_state = write_user_active write_account_deletion deactivate_def cancel_sent_def delete_sessions_def

definition deletion_requested :: "crypto \<Rightarrow> env \<Rightarrow> uuid \<Rightarrow> timestamp \<Rightarrow> auth_db \<Rightarrow> auth_db \<Rightarrow> bool" where
  "deletion_requested C E uid scheduled s t \<longleftrightarrow> core_nextId t = core_nextId s + 2
     \<and> core_users t = map (set_active uid False) (core_users s)
     \<and> adb_accounts t = map (set_deletion uid (Some (env_now E)) (Some scheduled)) (adb_accounts s)
     \<and> adb_sessions t = filter (\<lambda>x. ses_userId x \<noteq> uid) (adb_sessions s)
     \<and> adb_resets t = drop_unused uid (adb_resets s) \<and> adb_emailChanges t = drop_unused uid (adb_emailChanges s)
     \<and> adb_deletions t = drop_unused uid (adb_deletions s)
         @ [new_token (core_nextId s + 1) uid (hashToken C (cr_random C (core_nextId s))) scheduled]
     \<and> \<not> hash_taken (hashToken C (cr_random C (core_nextId s))) (drop_unused uid (adb_deletions s))"

lemma keep_deletion_requested:
  assumes "deletion_requested C E uid scheduled s t" "findActive uid s = Some (u, a)"
  shows "auth_keep C s t"
proof (rule keep_deactivation [where uid = uid and scheduled = scheduled and r = "Some (env_now E)"
      and tok = "new_token (core_nextId s + 1) uid (hashToken C (cr_random C (core_nextId s))) scheduled"])
  show "\<exists>a \<in> set (adb_accounts s). acc_userId a = uid"
    using findActive_Some [OF assms(2)] account_of_Some by blast
qed (use assms(1) in \<open>simp_all add: deletion_requested_def new_token_def\<close>)

lemma requestAccountDeletion_keep: "auth_keep C s (snd (requestAccountDeletion E C cfg uid pw s))"
proof -
  have tx: "auth_keep C s (snd (transaction s1 (if b then (Inl e, s1) else if c then (Inl e', s4) else (Inr v, t))))"
    if "auth_keep C s s1" "findActive uid s = Some (u, a)" "\<not> c \<Longrightarrow> deletion_requested C E uid v s t"
    for b c e e' s1 s4 v t u a
    using that keep_deletion_requested by auto
  have draw: "auth_keep C s (s\<lparr>core_nextId := core_nextId s + 1\<rparr>)" by (rule auth_keep_same) auto
  show ?thesis
    unfolding requestAccountDeletion_def Let_def fresh_def prod.case
    by (intro au.guards; rule tx [OF draw], simp, simp add: deletion_requested_def account_state)
qed

text \<open>Reactivation: the token is used, the user's other unused tokens are dropped.\<close>

definition recovered :: "uuid \<Rightarrow> timestamp \<Rightarrow> uuid \<Rightarrow> auth_db \<Rightarrow> auth_db \<Rightarrow> bool" where
  "recovered uid now i s t \<longleftrightarrow> core_nextId t = core_nextId s \<and> core_users t = map (set_active uid True) (core_users s)
     \<and> adb_accounts t = map (set_deletion uid None None) (adb_accounts s) \<and> adb_sessions t = adb_sessions s
     \<and> adb_resets t = adb_resets s \<and> adb_emailChanges t = adb_emailChanges s
     \<and> adb_deletions t = drop_unused uid (snd (consume_token now i (adb_deletions s)))"

lemma keep_recovered:
  assumes "recovered uid now i s t"
  shows "auth_keep C s t"
  unfolding auth_keep_def
proof
  assume ok: "auth_ok C s"
  have "recovery_ok (map (set_deletion uid None None) accs) (drop_unused uid (snd (consume_token now i ts)))"
    if rec: "recovery_ok accs ts" for accs ts
    unfolding recovery_ok_def
  proof (intro ballI impI)
    fix t assume t: "t \<in> set (drop_unused uid (snd (consume_token now i ts)))" "tok_usedAt t = None"
    then have "t \<in> set ts" "tok_userId t \<noteq> uid"
      by (auto simp: drop_unused_def unused_of_def consume_token_snd split: if_splits)
    then obtain c where "c \<in> set accs" "acc_userId c = tok_userId t" "acc_deletionScheduledAt c = Some (tok_expiresAt t)"
      using rec t(2) by (auto simp: recovery_ok_def)
    then show "\<exists>a \<in> set (map (set_deletion uid None None) accs). acc_userId a = tok_userId t
        \<and> acc_deletionScheduledAt a = Some (tok_expiresAt t)"
      using \<open>tok_userId t \<noteq> uid\<close> by (intro bexI [of _ "set_deletion uid None None c"]) (auto simp: set_deletion_def)
  qed
  moreover have "sessions_ok C n (map (set_active uid True) us) xs" if "sessions_ok C n us xs" for n us xs
    by (rule sessions_ok_users [OF that]) (auto intro!: active_id_map simp: set_active_def)
  moreover have "tokens_from C n ts (drop_unused uid (snd (consume_token now i ts)))" for n and ts :: "one_time_token list"
    by (rule tokens_from_trans [OF tokens_from_consume [of C n] tokens_from_subset [of _ _ C n] order_refl]) (auto simp: drop_unused_def)
  ultimately show "auth_ok C t \<and> auth_from C s t"
    using ok assms unfolding auth_ok_def auth_from_def recovered_def
    by (auto simp: users_ok_set_active tokens_ok_drop tokens_ok_consume sessions_from_subset tokens_from_subset)
qed

lemma cancelAccountDeletion_keep: "auth_keep C s (snd (cancelAccountDeletion E C token s))"
proof -
  have tx: "auth_keep C s (snd (transaction s (case consume_token now (tok_id tk) (adb_deletions s) of (count, ts) \<Rightarrow>
      if count \<noteq> 1 then (Inl e, s\<lparr>adb_deletions := ts\<rparr>) else (Inr (), f ts))))"
    if "recovered (tok_userId tk) now (tok_id tk) s (f (snd (consume_token now (tok_id tk) (adb_deletions s))))"
    for now e f and tk :: one_time_token
    using keep_recovered [OF that] by (auto intro: au.evolution_refl split: prod.split)
  show ?thesis
    unfolding cancelAccountDeletion_def Let_def
    by (intro au.guards; rule tx, simp add: recovered_def account_state)
qed

lemma cleanupExpired_keep: "auth_keep C s (snd (cleanupExpired E s))"
proof -
  have "recovery_ok accs ts \<Longrightarrow> recovery_ok accs (filter P ts)" for accs ts P
    by (erule recovery_ok_subset) simp
  then show ?thesis
    by (auto simp: auth_keep_def auth_ok_def auth_from_def cleanupExpired_def Let_def drop_expired_def
        sessions_ok_filter tokens_ok_filter sessions_from_subset tokens_from_subset)
qed

lemma forget_user_keep: "auth_keep C s (forget_user uid s)"
  by (rule auth_keep_same) (simp_all add: forget_user_def Let_def)

lemma anonymize_one_keep: "auth_keep C s (snd (anonymize_one E C uid s))"
  unfolding anonymize_one_def Let_def anonymize_row_def
  by (auto intro!: forget_user_keep au.evolution_trans [OF forget_user_keep keep_write_email])

lemma anonymize_each_keep: "auth_keep C s (snd (anonymize_each E C us n s))"
  by (induction us arbitrary: n s)
    (auto intro!: au.evolution_refl au.and_thenI au.transaction_stepI anonymize_one_keep)

inductive auth_call :: "crypto \<Rightarrow> auth_db \<Rightarrow> auth_db \<Rightarrow> bool" for C where
  register: "auth_call C s (snd (register E C cfg dto md s))"
| login: "auth_call C s (snd (login E C cfg email pw md s))"
| logout: "auth_call C s (snd (logout h s))"
| revoke: "auth_call C s (snd (revokeSession u i s))"
| revoke_others: "auth_call C s (snd (revokeOtherSessions u h s))"
| validate: "auth_call C s (snd (validate E C jti s))"
| change_password: "auth_call C s (snd (changePassword C u h p q s))"
| request_reset: "auth_call C s (snd (requestPasswordReset E C cfg email s))"
| reset: "auth_call C s (snd (resetPassword E C token pw s))"
| request_change: "auth_call C s (snd (requestEmailChange E C cfg u email pw s))"
| confirm_change: "auth_call C s (snd (confirmEmailChange E C token s))"
| request_deletion: "auth_call C s (snd (requestAccountDeletion E C cfg u pw s))"
| cancel_deletion: "auth_call C s (snd (cancelAccountDeletion E C token s))"
| cleanup: "auth_call C s (snd (cleanupExpired E s))"
| anonymize: "auth_call C s (snd (anonymizeExpiredAccounts E C s))"

lemma auth_call_keep: "auth_call C s t \<Longrightarrow> auth_keep C s t"
  by (induction rule: auth_call.induct)
    (simp_all add: register_keep login_keep logout_def keep_delete_sessions revokeSession_keep revokeOtherSessions_def
      validate_keep changePassword_keep requestPasswordReset_keep resetPassword_keep requestEmailChange_keep
      confirmEmailChange_keep requestAccountDeletion_keep cancelAccountDeletion_keep cleanupExpired_keep
      anonymizeExpiredAccounts_def anonymize_each_keep)

lemma auth_calls_keep: "(auth_call C)\<^sup>*\<^sup>* s t \<Longrightarrow> auth_keep C s t"
  by (induction rule: rtranclp_induct) (auto intro: au.evolution_refl au.evolution_trans auth_call_keep)

subsection \<open>Secrets that are gone stay gone\<close>

lemma session_hash_eq: "crypto_ok C \<Longrightarrow> session_hash C i = session_hash C j \<longleftrightarrow> i = j"
  by (auto simp: crypto_ok_def inj_def)

lemma token_hash_eq: "crypto_ok C \<Longrightarrow> hashToken C (cr_random C i) = hashToken C (cr_random C j) \<longleftrightarrow> i = j"
  by (auto simp: crypto_ok_def inj_def)

lemma session_gone:
  assumes "crypto_ok C" "sessions_from C n xs ys" "\<forall>x \<in> set xs. ses_tokenHash x \<noteq> session_hash C j" "j < n"
  shows "\<forall>y \<in> set ys. ses_tokenHash y \<noteq> session_hash C j"
  using assms session_hash_eq [OF assms(1)] unfolding sessions_from_def by (metis not_less)

lemma token_gone:
  assumes "crypto_ok C" "tokens_from C n xs ys" "\<forall>x \<in> set xs. tok_hash x = hashToken C (cr_random C j) \<longrightarrow> tok_usedAt x \<noteq> None"
    "j < n" "y \<in> set ys" "tok_hash y = hashToken C (cr_random C j)"
  shows "tok_usedAt y \<noteq> None"
  using assms token_hash_eq [OF assms(1)] unfolding tokens_from_def by (metis not_less)

lemma validate_refused:
  assumes "\<forall>x \<in> set (adb_sessions s). ses_tokenHash x \<noteq> cr_sha256 C jti"
  shows "validate E C jti s = (Inl (Unauthorized ''Token is invalid or has been revoked''), s)"
proof -
  have "find_first (\<lambda>x. ses_tokenHash x = cr_sha256 C jti) (adb_sessions s) = None"
    using assms by (auto simp: find_None_iff)
  then show ?thesis by (simp add: validate_def Let_def)
qed

lemma resetPassword_refused:
  assumes "\<forall>x \<in> set (adb_resets s). tok_hash x = hashToken C token \<longrightarrow> tok_usedAt x \<noteq> None"
  shows "resetPassword E C token pw s = (Inl (BadRequest ''Password reset token is invalid or expired''), s)"
  using assms by (auto simp: resetPassword_def Let_def find_token_def token_usable_def split: option.split dest!: find_SomeD)

text \<open>What a successful reset did.\<close>

lemma resetPassword_Inr:
  assumes "resetPassword E C token pw s = (Inr (), t)"
  obtains x u where "x \<in> set (adb_resets s)" "tok_hash x = hashToken C token" "token_usable (env_now E) x"
    "u \<in> set (core_users s)" "user_id u = tok_userId x"
    "adb_sessions t = filter (\<lambda>y. ses_userId y \<noteq> tok_userId x) (adb_sessions s)"
    "adb_resets t = snd (consume_token (env_now E) (tok_id x) (adb_resets s))"
    "adb_accounts t = map (\<lambda>a. if acc_userId a = tok_userId x
       then a\<lparr>acc_passwordHash := Some (cr_hash C (core_nextId s) pw)\<rparr> else a) (adb_accounts s)"
    "core_nextId t = Suc (core_nextId s)"
  using assms
  by (auto simp: resetPassword_def Let_def find_token_def find_user_def fresh_def delete_sessions_def write_account_def
      split: option.splits if_splits prod.splits dest!: find_SomeD)

lemma list_all2_rightD: "list_all2 P xs ys \<Longrightarrow> x \<in> set xs \<Longrightarrow> \<exists>y \<in> set ys. P x y"
  by (induction rule: list_all2_induct) auto

lemma account_exists:
  assumes "users_ok n us (adb_accounts s)" "u \<in> set us"
  shows "\<exists>a. account_of (user_id u) s = Some a"
  using list_all2_rightD [of account_for us "adb_accounts s" u] assms
  by (auto simp: users_ok_def account_of_def account_for_def find_None_iff not_None_eq [symmetric] simp del: not_None_eq)

lemma consumed_used:
  assumes "x \<in> set ts" "token_usable now x" "distinct (map tok_hash ts)" "y \<in> set (snd (consume_token now (tok_id x) ts))"
    "tok_hash y = tok_hash x"
  shows "tok_usedAt y \<noteq> None"
proof -
  obtain z where z: "z \<in> set ts" "y = (if tok_id z = tok_id x \<and> tok_usedAt z = None \<and> now < tok_expiresAt z
      then z\<lparr>tok_usedAt := Some now\<rparr> else z)"
    using assms(4) unfolding consume_token_snd by auto
  then have "tok_hash z = tok_hash x" using assms(5) by (auto split: if_splits)
  then have "z = x" by (rule distinct_key_eq [OF assms(3) z(1) assms(1)])
  then show ?thesis using z(2) assms(2) by (simp add: token_usable_def)
qed

subsection \<open>A sample\<close>

definition sample_crypto :: crypto where
  "sample_crypto = \<lparr>cr_hash = (\<lambda>n p. CHR ''h'' # p), cr_verify = (\<lambda>h p. h = CHR ''h'' # p), cr_sha256 = (\<lambda>t. t),
     cr_uuidText = (\<lambda>n. replicate n (CHR ''u'')), cr_random = (\<lambda>n. replicate n (CHR ''r'')),
     cr_sign = (\<lambda>_ _ jti _. jti), cr_encrypt = (\<lambda>t. t), cr_isoText = (\<lambda>_. [])\<rparr>"

lemma inj_replicate: "inj (\<lambda>n. replicate n c)"
proof (rule injI)
  fix m n assume "replicate m c = replicate n c"
  from arg_cong [OF this, of length] show "m = n" by simp
qed

lemma sample_crypto_ok: "crypto_ok sample_crypto"
  using inj_replicate by (auto simp: crypto_ok_def sample_crypto_def hashToken_def session_hash_def [abs_def])

definition sample_auth_config :: auth_config where
  "sample_auth_config = \<lparr>JWT_ACCESS_EXPIRES_IN = ''7d'', PASSWORD_RESET_EXPIRES_IN = ''1h'',
     EMAIL_CHANGE_EXPIRES_IN = ''1h'', ACCOUNT_DELETION_GRACE_PERIOD = ''7d'', AUTH_FRONTEND_APP_URL = ''https://app''\<rparr>"

text \<open>One account, with one session and one reset token.\<close>

definition sample_auth :: auth_db where
  "sample_auth = \<lparr>core_users = [\<lparr>user_id = 1, user_firstName = ''Ann'', user_lastName = ''Lee'', user_email = ''a@b.c'',
       user_isActive = True, user_locale = ''ru-RU'', user_timeZone = ''Europe/Moscow''\<rparr>],
     core_families = [], core_members = [], core_preferences = [], core_connections = [], core_devices = [],
     core_feed = empty_feed, core_nextId = 10, fdb_invitations = [], fdb_private = [], fdb_dissolutions = [],
     adb_accounts = [\<lparr>acc_userId = 1, acc_passwordHash = Some ''hold'', acc_gender = FEMALE, acc_description = None,
       acc_birthDate = 0, acc_phone = None, acc_version = 1, acc_deletionRequestedAt = None,
       acc_deletionScheduledAt = None, acc_retentionAnonymizedAt = None, acc_avatarObjectKey = None,
       acc_avatarPreviewObjectKey = None, acc_avatarPreviewToken = None, acc_createdAt = 0\<rparr>],
     adb_sessions = [\<lparr>ses_id = 2, ses_tokenHash = ''uuu'', ses_userId = 1, ses_ipAddress = None, ses_userAgent = None,
       ses_lastSeenAt = 0, ses_expiresAt = 9000000000, ses_createdAt = 0\<rparr>],
     adb_resets = [\<lparr>tok_id = 4, tok_userId = 1, tok_hash = ''rrrrr'', tok_expiresAt = 9000000000, tok_usedAt = None\<rparr>],
     adb_emailChanges = [], adb_deletions = [], adb_links = [], adb_consents = []\<rparr>"

lemma sample_auth_ok: "auth_ok sample_crypto sample_auth"
proof -
  have "''uuu'' = session_hash sample_crypto 3" "''rrrrr'' = hashToken sample_crypto (cr_random sample_crypto 5)"
    by (simp_all add: session_hash_def hashToken_def sample_crypto_def numeral_eq_Suc)
  then have "\<exists>j < (10::nat). ''uuu'' = session_hash sample_crypto j"
    "\<exists>j < (10::nat). ''rrrrr'' = hashToken sample_crypto (cr_random sample_crypto j)"
    by (auto intro: exI [of _ 3] exI [of _ 5])
  then show ?thesis
    by (simp add: auth_ok_def sample_auth_def users_ok_def account_for_def sessions_ok_def active_id_def
        tokens_ok_def recovery_ok_def)
qed

subsection \<open>The properties\<close>

text \<open>C27.  Over every sequence of calls of the authentication service and its jobs the tables stay
  consistent: e-mails are unique, sessions belong to active accounts, an account is inactive exactly while its
  deletion is scheduled, every user has at most one unused token of a kind, token digests are unique,
  and an unused recovery token belongs to an account that is deleted when the token expires.\<close>

theorem auth_invariant:
  assumes "auth_ok C s" "(auth_call C)\<^sup>*\<^sup>* s t"
  shows "auth_ok C t"
  using auth_calls_keep [OF assms(2)] assms(1) by (simp add: auth_keep_def)

lemma auth_invariant_witness:
  "auth_ok sample_crypto (snd (requestAccountDeletion moscow_env sample_crypto sample_auth_config 1 ''old'' sample_auth))"
  by (rule auth_invariant [OF sample_auth_ok r_into_rtranclp]) (rule auth_call.request_deletion)

text \<open>C28.  A password is reset only with an unused, unexpired token.  Afterwards exactly the new password is
  accepted for the account; and whatever is called later, no session of the account from before the reset
  authenticates again, and the token cannot be used again.\<close>

theorem password_reset_final:
  assumes "crypto_ok C" "auth_ok C s" "resetPassword E C token pw s = (Inr (), t)" "(auth_call C)\<^sup>*\<^sup>* t v"
  shows "\<exists>x \<in> set (adb_resets s). tok_hash x = hashToken C token \<and> token_usable (env_now E) x
     \<and> (\<exists>a. account_of (tok_userId x) t = Some a \<and> (\<forall>p. password_is C a p \<longleftrightarrow> p = pw))
     \<and> (\<forall>y \<in> set (adb_sessions s). ses_userId y = tok_userId x \<longrightarrow> ses_tokenHash y = cr_sha256 C jti
          \<longrightarrow> validate E' C jti v = (Inl (Unauthorized ''Token is invalid or has been revoked''), v))
     \<and> resetPassword E' C token pw' v = (Inl (BadRequest ''Password reset token is invalid or expired''), v)"
proof -
  have keep: "auth_keep C s t" using resetPassword_keep [of C s E token pw] assms(3) by simp
  then have ok: "auth_ok C t" using assms(2) by (simp add: auth_keep_def)
  from auth_calls_keep [OF assms(4)] ok have from_t: "auth_from C t v" by (simp add: auth_keep_def)
  obtain x u where x: "x \<in> set (adb_resets s)" "tok_hash x = hashToken C token" "token_usable (env_now E) x"
    "u \<in> set (core_users s)" "user_id u = tok_userId x"
    "adb_sessions t = filter (\<lambda>y. ses_userId y \<noteq> tok_userId x) (adb_sessions s)"
    "adb_resets t = snd (consume_token (env_now E) (tok_id x) (adb_resets s))"
    "adb_accounts t = map (\<lambda>a. if acc_userId a = tok_userId x
       then a\<lparr>acc_passwordHash := Some (cr_hash C (core_nextId s) pw)\<rparr> else a) (adb_accounts s)"
    "core_nextId t = Suc (core_nextId s)"
    by (rule resetPassword_Inr [OF assms(3)])
  have "\<exists>a. account_of (tok_userId x) t = Some a \<and> (\<forall>p. password_is C a p \<longleftrightarrow> p = pw)"
  proof -
    have "users_ok (core_nextId s) (core_users s) (adb_accounts s)" using assms(2) by (simp add: auth_ok_def)
    then obtain a where "account_of (tok_userId x) s = Some a" using account_exists x(4,5) by metis
    then have "account_of (tok_userId x) t = Some (a\<lparr>acc_passwordHash := Some (cr_hash C (core_nextId s) pw)\<rparr>)"
      unfolding account_of_def x(8) by (subst find_map_update) auto
    then show ?thesis using assms(1) by (auto simp: password_is_def or_null_def crypto_ok_def)
  qed
  moreover have "validate E' C jti v = (Inl (Unauthorized ''Token is invalid or has been revoked''), v)"
    if y: "y \<in> set (adb_sessions s)" "ses_userId y = tok_userId x" "ses_tokenHash y = cr_sha256 C jti" for y
  proof (rule validate_refused)
    have s: "sessions_ok C (core_nextId s) (core_users s) (adb_sessions s)" using assms(2) by (simp add: auth_ok_def)
    then obtain j where j: "j < core_nextId s" "ses_tokenHash y = session_hash C j"
      using y(1) by (auto simp: sessions_ok_def)
    have "\<forall>z \<in> set (adb_sessions t). ses_tokenHash z \<noteq> session_hash C j"
      using distinct_key_eq [where k = ses_tokenHash, OF _ y(1)] s j(2) y(2) unfolding x(6) by (auto simp: sessions_ok_def)
    moreover have "sessions_from C (core_nextId t) (adb_sessions t) (adb_sessions v)"
      using from_t by (simp add: auth_from_def)
    ultimately show "\<forall>z \<in> set (adb_sessions v). ses_tokenHash z \<noteq> cr_sha256 C jti"
      using session_gone [OF assms(1)] j y(3) x(9) by (metis less_SucI)
  qed
  moreover have "resetPassword E' C token pw' v = (Inl (BadRequest ''Password reset token is invalid or expired''), v)"
  proof (rule resetPassword_refused, intro ballI impI)
    fix z assume z: "z \<in> set (adb_resets v)" "tok_hash z = hashToken C token"
    have r: "tokens_ok C (core_nextId s) (adb_resets s)" using assms(2) by (simp add: auth_ok_def)
    then obtain j where j: "j < core_nextId s" "tok_hash x = hashToken C (cr_random C j)"
      using x(1) by (auto simp: tokens_ok_def)
    have "\<forall>y \<in> set (adb_resets t). tok_hash y = hashToken C (cr_random C j) \<longrightarrow> tok_usedAt y \<noteq> None"
      unfolding x(7) using consumed_used [OF x(1,3)] r j(2) by (simp add: tokens_ok_def)
    moreover have "tokens_from C (core_nextId t) (adb_resets t) (adb_resets v)"
      using from_t by (simp add: auth_from_def)
    ultimately show "tok_usedAt z \<noteq> None"
      using token_gone [OF assms(1)] j x(2,9) z by (metis less_SucI)
  qed
  ultimately show ?thesis using x(1-3) by blast
qed

lemma password_reset_final_witness:
  "\<exists>x \<in> set (adb_resets sample_auth). tok_hash x = hashToken sample_crypto ''rrrrr'' \<and> (let t = snd (resetPassword moscow_env sample_crypto ''rrrrr'' ''new'' sample_auth)
     in resetPassword moscow_env sample_crypto ''rrrrr'' ''other'' t
        = (Inl (BadRequest ''Password reset token is invalid or expired''), t))"
proof -
  let ?t = "snd (resetPassword moscow_env sample_crypto ''rrrrr'' ''new'' sample_auth)"
  have "resetPassword moscow_env sample_crypto ''rrrrr'' ''new'' sample_auth = (Inr (), ?t)"
    by (simp add: resetPassword_def sample_auth_def find_token_def hashToken_def sample_crypto_def find_user_def
        token_usable_def moscow_env_def fresh_def consume_token_def update_many_def)
  from password_reset_final [OF sample_crypto_ok sample_auth_ok this rtranclp.rtrancl_refl,
      of "[]" moscow_env "''other''"]
  show ?thesis unfolding Let_def by blast
qed

text \<open>What a deletion request did.\<close>

lemma requestAccountDeletion_Inr:
  assumes "requestAccountDeletion E C cfg uid pw s = (Inr scheduled, t)"
  shows "deletion_requested C E uid scheduled s t \<and> (\<exists>u a. findActive uid s = Some (u, a))"
proof -
  have "deletion_requested C E uid scheduled s t" if "findActive uid s = Some (u, a)" for u a
    using assms that
    by (auto simp: requestAccountDeletion_def Let_def fresh_def transaction_Inr deletion_requested_def account_state
        split: if_splits sum.splits)
  then show ?thesis
    using assms by (fastforce simp: requestAccountDeletion_def Let_def split: option.splits)
qed

lemma find_token_append:
  "\<not> hash_taken h ts \<Longrightarrow> tok_hash t = h \<Longrightarrow> find_token h (ts @ [t]) = Some t"
  by (auto simp: find_token_def hash_taken_def find_append find_None_iff split: option.split dest: find_SomeD)

lemma deletion_token_found:
  assumes "deletion_requested C E uid scheduled s t"
  shows "find_token (hashToken C (cr_random C (core_nextId s))) (adb_deletions t)
     = Some (new_token (core_nextId s + 1) uid (hashToken C (cr_random C (core_nextId s))) scheduled)"
proof -
  have "adb_deletions t = drop_unused uid (adb_deletions s)
      @ [new_token (core_nextId s + 1) uid (hashToken C (cr_random C (core_nextId s))) scheduled]"
    using assms by (simp add: deletion_requested_def)
  then show ?thesis
    using assms by (simp only:) (rule find_token_append, simp_all add: deletion_requested_def new_token_def)
qed

lemma distinct_find:
  assumes "distinct (map k xs)" "x \<in> set xs" shows "find_first (\<lambda>y. k y = k x) xs = Some x"
  by (rule find_unique_key [OF assms]) auto

lemma set_active_inverse:
  assumes "u \<in> set us" "user_isActive u" "distinct (map user_id us)" "user_id u = uid"
  shows "map (set_active uid True) (map (set_active uid False) us) = us"
proof -
  have "set_active uid True (set_active uid False x) = x" if "x \<in> set us" for x
    using distinct_key_eq [OF assms(3) that assms(1)] assms(2,4) by (auto simp: set_active_def)
  then show ?thesis by (simp add: map_idI)
qed

lemma cancelAccountDeletion_succeeds:
  assumes "find_token (hashToken C token) (adb_deletions t) = Some x" "find_user (tok_userId x) t = Some u"
    "account_of (user_id u) t = Some a" "token_usable (env_now E) x" "\<not> user_isActive u" "scheduled_after (env_now E) a"
    "fst (consume_token (env_now E) (tok_id x) (adb_deletions t)) = 1"
  shows "\<exists>v. cancelAccountDeletion E C token t = (Inr (), v) \<and> recovered (tok_userId x) (env_now E) (tok_id x) t v"
  using assms
  by (cases "consume_token (env_now E) (tok_id x) (adb_deletions t)")
    (simp add: cancelAccountDeletion_def Let_def with_account_def recovered_def account_state)

lemma set_deletion_twice: "set_deletion uid None None (set_deletion uid r d a) = (if acc_userId a = uid
    then a\<lparr>acc_version := acc_version a + 2, acc_deletionRequestedAt := None, acc_deletionScheduledAt := None\<rparr> else a)"
  by (simp add: set_deletion_def)

lemma cancelAccountDeletion_recovers:
  assumes "auth_ok C s" "requestAccountDeletion E C cfg uid pw s = (Inr scheduled, t)" "env_now E' < scheduled"
  shows "\<exists>v. cancelAccountDeletion E' C (cr_random C (core_nextId s)) t = (Inr (), v) \<and> core_users v = core_users s
     \<and> adb_accounts v = map (\<lambda>a. if acc_userId a = uid then a\<lparr>acc_version := acc_version a + 2,
          acc_deletionRequestedAt := None, acc_deletionScheduledAt := None\<rparr> else a) (adb_accounts s)"
proof -
  obtain u a where f: "findActive uid s = Some (u, a)" and d: "deletion_requested C E uid scheduled s t"
    using requestAccountDeletion_Inr [OF assms(2)] by blast
  have u: "u \<in> set (core_users s)" "user_id u = uid" "user_isActive u" "account_of uid s = Some a"
    using findActive_Some [OF f] by simp_all
  have ok: "auth_ok C t" using keep_deletion_requested [OF d f] assms(1) by (simp add: auth_keep_def)
  let ?h = "hashToken C (cr_random C (core_nextId s))"
  let ?tok = "new_token (core_nextId s + 1) uid ?h scheduled"
  have users: "distinct (map user_id (core_users s))" using assms(1) by (simp add: auth_ok_def users_ok_def)
  have "find_user uid t = Some (set_active uid False u)"
    using distinct_find [of user_id "core_users t" "set_active uid False u"] users u d
    by (simp add: find_user_def deletion_requested_def comp_def)
  moreover have "account_of uid t = Some (set_deletion uid (Some (env_now E)) (Some scheduled) a)"
    using u(4) d find_map_update [of "\<lambda>a. acc_userId a = uid" "\<lambda>a. set_deletion uid (Some (env_now E)) (Some scheduled) a" "adb_accounts s"]
    by (simp add: account_of_def deletion_requested_def set_deletion_def [abs_def] if_distrib cong: if_cong)
  moreover have "find_token ?h (adb_deletions t) = Some ?tok" by (rule deletion_token_found [OF d])
  moreover have "fst (consume_token (env_now E') (core_nextId s + 1) (adb_deletions t)) = 1"
  proof -
    show ?thesis
      unfolding consume_token_def update_many_simps
      by (rule distinct_key_count_1 [where k = tok_id and c = "core_nextId s + 1" and x = ?tok])
        (use assms(3) ok d in \<open>auto simp: new_token_def auth_ok_def tokens_ok_def deletion_requested_def\<close>)
  qed
  moreover have "acc_userId a = uid" using account_of_Some [OF u(4)] by simp
  ultimately have "\<exists>v. cancelAccountDeletion E' C (cr_random C (core_nextId s)) t = (Inr (), v)
      \<and> recovered uid (env_now E') (core_nextId s + 1) t v"
    using cancelAccountDeletion_succeeds [of C "cr_random C (core_nextId s)" t ?tok "set_active uid False u"] assms(3) u(2)
    by (simp add: new_token_def token_usable_def scheduled_after_def set_active_def set_deletion_def)
  then show ?thesis
    using set_active_inverse [OF u(1,3) users u(2)] d
    by (fastforce simp: recovered_def deletion_requested_def set_deletion_twice comp_def)
qed

lemma cancelAccountDeletion_late:
  assumes "find_token (hashToken C token) (adb_deletions t) = Some x" "tok_expiresAt x \<le> env_now E"
  shows "cancelAccountDeletion E C token t = (Inl (BadRequest ''Account recovery token is invalid or expired''), t)"
  using assms by (auto simp: cancelAccountDeletion_def Let_def token_usable_def split: option.split)

lemma login_inactive:
  assumes "findByEmail email t = Some (v, b)" "\<not> user_isActive v"
  shows "login E C cfg email pw md t = (Inl (Unauthorized ''Invalid email or password''), t)"
  using assms by (simp add: login_def Let_def)

lemma cancelAccountDeletion_refused:
  assumes "\<And>x. x \<in> set (adb_deletions t) \<Longrightarrow> tok_hash x = hashToken C token \<Longrightarrow> tok_usedAt x = None \<Longrightarrow> tok_expiresAt x \<le> env_now E"
  shows "cancelAccountDeletion E C token t = (Inl (BadRequest ''Account recovery token is invalid or expired''), t)"
proof -
  have "\<not> token_usable (env_now E) x" if "find_token (hashToken C token) (adb_deletions t) = Some x" for x
    using assms [of x] that by (auto simp: token_usable_def find_token_def dest!: find_SomeD)
  then show ?thesis by (auto simp: cancelAccountDeletion_def Let_def split: option.split)
qed

text \<open>Whatever is called after the request, a row with the digest of the recovery token expires at the scheduled time.\<close>

lemma recovery_token_expires:
  assumes "crypto_ok C" "auth_ok C t" "(auth_call C)\<^sup>*\<^sup>* t v" "deletion_requested C E uid scheduled s t"
    and "z \<in> set (adb_deletions v)" "tok_hash z = hashToken C (cr_random C (core_nextId s))" "tok_usedAt z = None"
  shows "tok_expiresAt z = scheduled"
proof -
  let ?h = "hashToken C (cr_random C (core_nextId s))"
  let ?tok = "new_token (core_nextId s + 1) uid ?h scheduled"
  have "tokens_from C (core_nextId t) (adb_deletions t) (adb_deletions v)"
    using auth_calls_keep [OF assms(3)] assms(2) by (simp add: auth_keep_def auth_from_def)
  then have "(\<exists>x \<in> set (adb_deletions t). tok_usedAt x = None \<and> tok_hash x = ?h \<and> tok_expiresAt x = tok_expiresAt z)
      \<or> (\<exists>j \<ge> core_nextId t. ?h = hashToken C (cr_random C j))"
    using assms(5-7) unfolding tokens_from_def by (metis (no_types, lifting))
  moreover have "?h \<noteq> hashToken C (cr_random C j)" if "core_nextId t \<le> j" for j
  proof
    assume "?h = hashToken C (cr_random C j)"
    then have "core_nextId s = j" using assms(1) by (auto simp: crypto_ok_def dest: injD)
    then show False using that assms(4) by (simp add: deletion_requested_def)
  qed
  ultimately obtain x where x: "x \<in> set (adb_deletions t)" "tok_hash x = ?h" "tok_expiresAt x = tok_expiresAt z" by auto
  have "?tok \<in> set (adb_deletions t)" using find_SomeD [OF deletion_token_found [OF assms(4), unfolded find_token_def]] by simp
  moreover have "distinct (map tok_hash (adb_deletions t))" using assms(2) by (simp add: auth_ok_def tokens_ok_def)
  ultimately have "x = ?tok" using distinct_key_eq [of tok_hash] x(1,2) by (metis new_token_def one_time_token.select_convs(3))
  then show ?thesis using x(3) by (simp add: new_token_def)
qed

text \<open>C29.  After a deletion request no session of the account is left and its owner cannot log in.  The request makes
  one recovery token: whenever it is used before the scheduled deletion, right after the request, it restores the account
  exactly as it was but for two more versions; and the same token is refused at any time from the scheduled deletion on,
  whatever was called in between.\<close>

theorem account_recovery:
  assumes "crypto_ok C" "auth_ok C s" "requestAccountDeletion E C cfg uid pw s = (Inr scheduled, t)"
  shows "\<exists>token.
     (\<forall>E'. env_now E' < scheduled \<longrightarrow> (\<exists>v. cancelAccountDeletion E' C token t = (Inr (), v)
         \<and> core_users v = core_users s \<and> adb_accounts v = map (\<lambda>a. if acc_userId a = uid
             then a\<lparr>acc_version := acc_version a + 2, acc_deletionRequestedAt := None, acc_deletionScheduledAt := None\<rparr>
             else a) (adb_accounts s)))
     \<and> (\<forall>E' v. (auth_call C)\<^sup>*\<^sup>* t v \<longrightarrow> scheduled \<le> env_now E' \<longrightarrow>
         cancelAccountDeletion E' C token v = (Inl (BadRequest ''Account recovery token is invalid or expired''), v))
     \<and> (\<forall>x \<in> set (adb_sessions t). ses_userId x \<noteq> uid)
     \<and> (\<forall>E' cfg' email pw' md v b. findByEmail email t = Some (v, b) \<longrightarrow> user_id v = uid \<longrightarrow>
         login E' C cfg' email pw' md t = (Inl (Unauthorized ''Invalid email or password''), t))"
proof -
  obtain u a where f: "findActive uid s = Some (u, a)" and d: "deletion_requested C E uid scheduled s t"
    using requestAccountDeletion_Inr [OF assms(3)] by blast
  have ok: "auth_ok C t" using keep_deletion_requested [OF d f] assms(2) by (simp add: auth_keep_def)
  have inactive: "\<not> user_isActive v" if "findByEmail email t = Some (v, b)" "user_id v = uid" for email v b
  proof -
    have users: "core_users t = map (set_active uid False) (core_users s)" using d by (simp add: deletion_requested_def)
    have "v \<in> set (core_users t)" using findByEmail_Some [OF that(1)] by simp
    then obtain w where w: "v = set_active uid False w" unfolding users by auto
    with that(2) have "user_id w = uid" by simp
    then show ?thesis unfolding w by (simp add: set_active_def)
  qed
  have late: "cancelAccountDeletion E' C (cr_random C (core_nextId s)) v
      = (Inl (BadRequest ''Account recovery token is invalid or expired''), v)"
    if "(auth_call C)\<^sup>*\<^sup>* t v" "scheduled \<le> env_now E'" for E' v
    by (rule cancelAccountDeletion_refused) (use recovery_token_expires [OF assms(1) ok that(1) d] that(2) in auto)
  show ?thesis
  proof (intro exI [of _ "cr_random C (core_nextId s)"] conjI allI impI)
    show "\<forall>x \<in> set (adb_sessions t). ses_userId x \<noteq> uid" using d by (simp add: deletion_requested_def)
  next
    fix E' cfg' email pw' md v b
    assume "findByEmail email t = Some (v, b)" "user_id v = uid"
    then show "login E' C cfg' email pw' md t = (Inl (Unauthorized ''Invalid email or password''), t)"
      by (intro login_inactive inactive)
  qed (use late cancelAccountDeletion_recovers [OF assms(2,3)] in auto)
qed

lemma account_recovery_witness:
  "\<exists>t. requestAccountDeletion moscow_env sample_crypto sample_auth_config 1 ''old'' sample_auth
        = (Inr (env_now moscow_env + 604800000), t)
     \<and> (\<exists>token v. cancelAccountDeletion moscow_env sample_crypto token t = (Inr (), v)
         \<and> core_users v = core_users sample_auth)"
proof -
  have "\<exists>t. requestAccountDeletion moscow_env sample_crypto sample_auth_config 1 ''old'' sample_auth
      = (Inr (env_now moscow_env + 604800000), t)"
    by (simp add: requestAccountDeletion_def Let_def findActive_def with_account_def active_user_def account_of_def
        sample_auth_def password_is_def or_null_def sample_crypto_def sample_auth_config_def durationToSeconds_def
        digit_value_def duration_unit_def fresh_def account_state hash_taken_def drop_unused_def write_user_def
        write_account_def)
  then obtain t where t: "requestAccountDeletion moscow_env sample_crypto sample_auth_config 1 ''old'' sample_auth
      = (Inr (env_now moscow_env + 604800000), t)" by blast
  have "env_now moscow_env < env_now moscow_env + 604800000" by simp
  with account_recovery [OF sample_crypto_ok sample_auth_ok t]
  have "\<exists>token v. cancelAccountDeletion moscow_env sample_crypto token t = (Inr (), v) \<and> core_users v = core_users sample_auth"
    by blast
  with t show ?thesis by blast
qed

end
