(* ===== verification/Messenger.thy ===== *)
theory Messenger
  imports Media
begin

text \<open>
  \<open>modules/messenger/messenger.service.ts\<close>: conversations between members of a family, their members
  with a role and a read position, and messages with text or media.  The tables extend those of the media
  service, whose \<open>findManyByIds\<close> answers the attachments of a message and whose rows a media message claims
  for the chat.  The link to the avatar of a user is not part of the model.
\<close>

subsection \<open>Rows\<close>

datatype conversation_type = DIRECT | GROUP
datatype conversation_status = ConversationActive | ConversationArchived
datatype conversation_role = OWNER | ADMIN | ConversationMember
datatype message_type = TEXT | IMAGE_MESSAGE | VIDEO_MESSAGE | VOICE

text \<open>A direct key is the sorted list of the two members, whose text is joined by a colon in the code.\<close>

record conversation =
  cv_id :: uuid
  cv_familyId :: uuid
  cv_createdById :: uuid
  cv_type :: conversation_type
  cv_directKey :: "uuid list option"
  cv_title :: "string option"
  cv_status :: conversation_status
  cv_createdAt :: timestamp
  cv_updatedAt :: timestamp

record conversation_member =
  cm_conversationId :: uuid
  cm_userId :: uuid
  cm_role :: conversation_role
  cm_joinedAt :: timestamp
  cm_lastReadAt :: "timestamp option"
  cm_lastReadMessageId :: "uuid option"

record message =
  msg_id :: uuid
  msg_conversationId :: uuid
  msg_senderId :: uuid
  msg_clientMessageId :: string
  msg_type :: message_type
  msg_text :: "string option"
  msg_createdAt :: timestamp
  msg_updatedAt :: timestamp
  msg_deletedAt :: "timestamp option"

record chat_db = media_db +
  cdb_conversations :: "conversation list"
  cdb_members :: "conversation_member list"
  cdb_messages :: "message list"

text \<open>A conversation with its included members.\<close>

type_synonym loaded_conversation = "conversation \<times> conversation_member list"

subsection \<open>Requests and responses\<close>

record create_conversation_dto =
  ccd_type :: conversation_type
  ccd_title :: "string option"
  ccd_memberIds :: "uuid list"

record create_message_dto =
  cmd_clientMessageId :: string
  cmd_type :: message_type
  cmd_text :: "string option"
  cmd_mediaIds :: "uuid list option"

record messages_query =
  msq_limit :: nat
  msq_beforeId :: "uuid option"
  msq_afterId :: "uuid option"

record participant =
  pt_id :: uuid
  pt_firstName :: string
  pt_lastName :: string

record message_media_response =
  mmr_mediaId :: uuid
  mmr_createdAt :: timestamp
  mmr_media :: "media_response option"

record message_response =
  msr_message :: message
  msr_sender :: "participant option"
  msr_media :: "message_media_response list"

record message_page =
  mpg_items :: "message_response list"
  mpg_hasMore :: bool
  mpg_nextCursor :: "uuid option"

record conversation_response =
  cvr_conversation :: conversation
  cvr_members :: "(conversation_member \<times> participant option) list"
  cvr_lastMessage :: "message_response option"
  cvr_unreadCount :: nat

definition participant_of :: "'a core_scheme \<Rightarrow> uuid \<Rightarrow> participant option" where
  "participant_of s i = map_option (\<lambda>u. \<lparr>pt_id = user_id u, pt_firstName = user_firstName u, pt_lastName = user_lastName u\<rparr>)
     (find_user i s)"

definition attachments_of :: "uuid \<Rightarrow> 'a media_db_scheme \<Rightarrow> message_media list" where
  "attachments_of messageId s = filter (\<lambda>a. mm_messageId a = messageId) (mdb_messageMedia s)"

definition toMessageResponse :: "storage \<Rightarrow> uuid \<Rightarrow> message \<Rightarrow> 'a media_db_scheme \<Rightarrow> api_error + message_response" where
  "toMessageResponse S userId m s = (
     case findManyByIds S userId (map mm_mediaId (attachments_of (msg_id m) s)) s of
       Inl e \<Rightarrow> Inl e
     | Inr found \<Rightarrow> Inr \<lparr>msr_message = m, msr_sender = participant_of s (msg_senderId m),
         msr_media = map (\<lambda>a. \<lparr>mmr_mediaId = mm_mediaId a, mmr_createdAt = mm_createdAt a,
           mmr_media = find_first (\<lambda>r. mer_id r = mm_mediaId a) found\<rparr>) (attachments_of (msg_id m) s)\<rparr>)"

text \<open>What the member has not read: the messages of others, not deleted, after the read position.\<close>

definition after_position :: "conversation_member \<Rightarrow> message \<Rightarrow> bool" where
  "after_position member m \<longleftrightarrow> (case cm_lastReadAt member of None \<Rightarrow> True
     | Some t \<Rightarrow> msg_createdAt m > t \<or> (msg_createdAt m = t
         \<and> (case cm_lastReadMessageId member of None \<Rightarrow> True | Some i \<Rightarrow> msg_id m > i)))"

definition unread :: "uuid \<Rightarrow> uuid \<Rightarrow> conversation_member option \<Rightarrow> message \<Rightarrow> bool" where
  "unread userId conversationId member m \<longleftrightarrow> msg_conversationId m = conversationId \<and> msg_senderId m \<noteq> userId
     \<and> msg_deletedAt m = None \<and> (case member of None \<Rightarrow> True | Some c \<Rightarrow> after_position c m)"

definition current_member :: "uuid \<Rightarrow> conversation_member list \<Rightarrow> conversation_member option" where
  "current_member userId members = find_first (\<lambda>c. cm_userId c = userId) members"

definition toConversationResponse ::
    "storage \<Rightarrow> uuid \<Rightarrow> loaded_conversation \<Rightarrow> message option \<Rightarrow> 'a chat_db_scheme \<Rightarrow> api_error + conversation_response" where
  "toConversationResponse S userId loaded latest s = (case loaded of (c, members) \<Rightarrow>
     let response = (\<lambda>lastMessage. \<lparr>cvr_conversation = c, cvr_members = map (\<lambda>m. (m, participant_of s (cm_userId m))) members,
           cvr_lastMessage = lastMessage,
           cvr_unreadCount = length (filter (unread userId (cv_id c) (current_member userId members)) (cdb_messages s))\<rparr>) in
     (case latest of None \<Rightarrow> Inr (response None)
      | Some m \<Rightarrow> (case toMessageResponse S userId m s of Inl e \<Rightarrow> Inl e | Inr r \<Rightarrow> Inr (response (Some r)))))"

subsection \<open>Finding a conversation\<close>

definition members_of :: "uuid \<Rightarrow> 'a chat_db_scheme \<Rightarrow> conversation_member list" where
  "members_of i s = filter (\<lambda>c. cm_conversationId c = i) (cdb_members s)"

definition member_in :: "uuid \<Rightarrow> uuid \<Rightarrow> 'a chat_db_scheme \<Rightarrow> bool" where
  "member_in userId i s \<longleftrightarrow> (\<exists>c \<in> set (members_of i s). cm_userId c = userId)"

definition open_to :: "uuid \<Rightarrow> uuid \<Rightarrow> 'a chat_db_scheme \<Rightarrow> conversation \<Rightarrow> bool" where
  "open_to userId familyId s c \<longleftrightarrow> cv_familyId c = familyId \<and> cv_status c = ConversationActive \<and> member_in userId (cv_id c) s"

definition requireConversation :: "uuid \<Rightarrow> uuid \<Rightarrow> 'a chat_db_scheme \<Rightarrow> api_error + loaded_conversation" where
  "requireConversation userId i s = (case requireMembership userId s of Inl e \<Rightarrow> Inl e
   | Inr ctx \<Rightarrow> (case find_first (\<lambda>c. cv_id c = i \<and> open_to userId (ctx_familyId ctx) s c) (cdb_conversations s) of
       None \<Rightarrow> Inl (NotFound ''Conversation not found'') | Some c \<Rightarrow> Inr (c, members_of i s)))"

definition getConversation :: "storage \<Rightarrow> uuid \<Rightarrow> uuid \<Rightarrow> 'a chat_db_scheme \<Rightarrow> api_error + conversation_response" where
  "getConversation S userId i s = (case requireConversation userId i s of Inl e \<Rightarrow> Inl e
   | Inr loaded \<Rightarrow> toConversationResponse S userId loaded None s)"

definition message_order :: "message \<Rightarrow> timestamp \<times> uuid" where
  "message_order m = (msg_createdAt m, msg_id m)"

definition listConversations :: "storage \<Rightarrow> uuid \<Rightarrow> 'a chat_db_scheme \<Rightarrow> api_error + conversation_response list" where
  "listConversations S userId s = (case requireMembership userId s of Inl e \<Rightarrow> Inl e
   | Inr ctx \<Rightarrow> all_ok (\<lambda>c. toConversationResponse S userId (c, members_of (cv_id c) s)
         (find_first (\<lambda>m. True) (rev (sort_key message_order
            (filter (\<lambda>m. msg_conversationId m = cv_id c \<and> msg_deletedAt m = None) (cdb_messages s))))) s)
       (rev (sort_key cv_updatedAt (filter (open_to userId (ctx_familyId ctx) s) (cdb_conversations s)))))"

definition getFamilyId :: "uuid \<Rightarrow> uuid \<Rightarrow> 'a chat_db_scheme \<Rightarrow> api_error + uuid" where
  "getFamilyId userId i s = (case requireConversation userId i s of Inl e \<Rightarrow> Inl e | Inr (c, _) \<Rightarrow> Inr (cv_familyId c))"

subsection \<open>Creating a conversation\<close>

text \<open>\<open>[...new Set(ids)]\<close>: the first occurrences, in their order.\<close>

definition unique_ids :: "uuid list \<Rightarrow> uuid list" where
  "unique_ids ids = rev (remdups (rev ids))"

definition createDirectKey :: "uuid list \<Rightarrow> uuid list" where
  "createDirectKey memberIds = sort memberIds"

definition family_members_among :: "uuid \<Rightarrow> uuid list \<Rightarrow> 'a core_scheme \<Rightarrow> family_member list" where
  "family_members_among familyId ids s = filter (\<lambda>m. member_familyId m = familyId \<and> member_userId m \<in> set ids
     \<and> (case find_family familyId s of None \<Rightarrow> False | Some f \<Rightarrow> family_status f = FamilyActive)) (core_members s)"

definition find_direct :: "uuid \<Rightarrow> uuid list \<Rightarrow> 'a chat_db_scheme \<Rightarrow> conversation option" where
  "find_direct familyId key s = find_first (\<lambda>c. cv_familyId c = familyId \<and> cv_directKey c = Some key) (cdb_conversations s)"

definition existing_response ::
    "storage \<Rightarrow> uuid \<Rightarrow> conversation \<Rightarrow> 'a chat_db_scheme \<Rightarrow> api_error + conversation_response \<times> bool" where
  "existing_response S userId c s = (case toConversationResponse S userId (c, members_of (cv_id c) s) None s of
     Inl e \<Rightarrow> Inl e | Inr r \<Rightarrow> Inr (r, False))"

text \<open>The code looks for the direct conversation before it inserts one, and once more when the unique key
  \<open>(familyId, directKey)\<close> shows that another request inserted it in between; both times it answers with the
  conversation it finds.  As a function of the state at the insertion that is one lookup.\<close>

definition insert_conversation ::
    "env \<Rightarrow> storage \<Rightarrow> uuid \<Rightarrow> uuid \<Rightarrow> create_conversation_dto \<Rightarrow> uuid list \<Rightarrow> 'a chat_db_scheme
       \<Rightarrow> (conversation_response \<times> bool, 'a chat_db_scheme) resp" where
  "insert_conversation E S userId familyId dto memberIds s = (
     let directKey = (if ccd_type dto = DIRECT then Some (createDirectKey memberIds) else None) in
     case (case directKey of None \<Rightarrow> None | Some key \<Rightarrow> find_direct familyId key s) of
       Some existing \<Rightarrow> (existing_response S userId existing s, s)
     | None \<Rightarrow> (case fresh s of (i, s1) \<Rightarrow>
         let c = \<lparr>cv_id = i, cv_familyId = familyId, cv_createdById = userId, cv_type = ccd_type dto, cv_directKey = directKey,
               cv_title = (if ccd_type dto = DIRECT then None else ccd_title dto), cv_status = ConversationActive,
               cv_createdAt = env_now E, cv_updatedAt = env_now E\<rparr>;
             s2 = s1\<lparr>cdb_conversations := cdb_conversations s1 @ [c],
               cdb_members := cdb_members s1 @ map (\<lambda>u. \<lparr>cm_conversationId = i, cm_userId = u,
                 cm_role = (if u = userId then OWNER else ConversationMember), cm_joinedAt = env_now E,
                 cm_lastReadAt = None, cm_lastReadMessageId = None\<rparr>) memberIds\<rparr>
         in (case toConversationResponse S userId (c, members_of i s2) None s2 of Inl e \<Rightarrow> (Inl e, s2)
            | Inr r \<Rightarrow> (Inr (r, True), s2))))"

definition createConversation ::
    "env \<Rightarrow> storage \<Rightarrow> uuid \<Rightarrow> create_conversation_dto \<Rightarrow> 'a chat_db_scheme
       \<Rightarrow> (conversation_response \<times> bool, 'a chat_db_scheme) resp" where
  "createConversation E S userId dto s = (case requireMembership userId s of Inl e \<Rightarrow> (Inl e, s)
   | Inr ctx \<Rightarrow>
     let memberIds = unique_ids (userId # ccd_memberIds dto) in
     if ccd_type dto = DIRECT \<and> length memberIds \<noteq> 2
     then (Inl (BadRequest ''A direct conversation must have exactly two members''), s)
     else if length (family_members_among (ctx_familyId ctx) memberIds s) \<noteq> length memberIds
     then (Inl (Forbidden ''All members must belong to your family''), s)
     else insert_conversation E S userId (ctx_familyId ctx) dto memberIds s)"


subsection \<open>Reading messages\<close>

definition messages_in :: "uuid \<Rightarrow> 'a chat_db_scheme \<Rightarrow> message list" where
  "messages_in i s = filter (\<lambda>m. msg_conversationId m = i) (cdb_messages s)"

definition after_cursor :: "message \<Rightarrow> message \<Rightarrow> bool" where
  "after_cursor cursor m \<longleftrightarrow> msg_createdAt m > msg_createdAt cursor
     \<or> (msg_createdAt m = msg_createdAt cursor \<and> msg_id m > msg_id cursor)"

definition before_cursor :: "message \<Rightarrow> message \<Rightarrow> bool" where
  "before_cursor cursor m \<longleftrightarrow> msg_createdAt m < msg_createdAt cursor
     \<or> (msg_createdAt m = msg_createdAt cursor \<and> msg_id m < msg_id cursor)"

text \<open>The rows of a page in the order in which they are returned, oldest first, and the filter of the cursor.\<close>

definition cursor_filter :: "messages_query \<Rightarrow> uuid \<Rightarrow> 'a chat_db_scheme \<Rightarrow> api_error + (message \<Rightarrow> bool)" where
  "cursor_filter q i s = (case (case msq_beforeId q of None \<Rightarrow> msq_afterId q | Some b \<Rightarrow> Some b) of
     None \<Rightarrow> Inr (\<lambda>m. True)
   | Some cursorId \<Rightarrow> (case find_first (\<lambda>m. msg_id m = cursorId \<and> msg_conversationId m = i) (cdb_messages s) of
       None \<Rightarrow> Inl (NotFound ''Message cursor not found'')
     | Some cursor \<Rightarrow> Inr (if msq_afterId q \<noteq> None then after_cursor cursor else before_cursor cursor)))"

definition page_items :: "messages_query \<Rightarrow> uuid \<Rightarrow> (message \<Rightarrow> bool) \<Rightarrow> 'a chat_db_scheme \<Rightarrow> message list" where
  "page_items q i P s = (let ordered = sort_key message_order (filter P (messages_in i s)) in
     if msq_afterId q \<noteq> None then take (msq_limit q) ordered else rev (take (msq_limit q) (rev ordered)))"

definition getMessages ::
    "storage \<Rightarrow> uuid \<Rightarrow> uuid \<Rightarrow> messages_query \<Rightarrow> 'a chat_db_scheme \<Rightarrow> api_error + message_page" where
  "getMessages S userId i q s = (case requireConversation userId i s of Inl e \<Rightarrow> Inl e
   | Inr _ \<Rightarrow>
     if msq_beforeId q \<noteq> None \<and> msq_afterId q \<noteq> None then Inl (BadRequest ''Use either beforeId or afterId, not both'') else
     (case cursor_filter q i s of Inl e \<Rightarrow> Inl e
      | Inr P \<Rightarrow> let items = page_items q i P s in
        (case all_ok (\<lambda>m. toMessageResponse S userId m s) items of Inl e \<Rightarrow> Inl e
         | Inr responses \<Rightarrow> Inr \<lparr>mpg_items = responses, mpg_hasMore = (length items = msq_limit q),
             mpg_nextCursor = (case items of [] \<Rightarrow> None | m # _ \<Rightarrow> Some (msg_id m))\<rparr>)))"

definition getMessageMedia :: "storage \<Rightarrow> uuid \<Rightarrow> uuid \<Rightarrow> uuid \<Rightarrow> 'a chat_db_scheme \<Rightarrow> api_error + media_response list" where
  "getMessageMedia S userId i messageId s = (case requireConversation userId i s of Inl e \<Rightarrow> Inl e
   | Inr _ \<Rightarrow> (case find_first (\<lambda>m. msg_id m = messageId \<and> msg_conversationId m = i) (cdb_messages s) of
       None \<Rightarrow> Inl (NotFound ''Message not found'')
     | Some m \<Rightarrow> findManyByIds S userId (map mm_mediaId (attachments_of messageId s)) s))"

definition requireMessageMedia :: "uuid \<Rightarrow> uuid \<Rightarrow> uuid \<Rightarrow> uuid \<Rightarrow> 'a chat_db_scheme \<Rightarrow> api_error + uuid" where
  "requireMessageMedia userId i messageId mediaId s = (case requireConversation userId i s of Inl e \<Rightarrow> Inl e
   | Inr _ \<Rightarrow> (case find_first (\<lambda>a. mm_messageId a = messageId \<and> mm_mediaId a = mediaId
         \<and> (\<exists>m \<in> set (cdb_messages s). msg_id m = messageId \<and> msg_conversationId m = i)) (mdb_messageMedia s) of
       None \<Rightarrow> Inl (NotFound ''Message media not found'') | Some a \<Rightarrow> Inr (mm_mediaId a)))"

subsection \<open>Sending a message\<close>

definition kind_of_message :: "message_type \<Rightarrow> media_kind" where
  "kind_of_message t = (if t = IMAGE_MESSAGE then IMAGE else if t = VIDEO_MESSAGE then VIDEO else AUDIO)"

definition usable_media :: "uuid list \<Rightarrow> uuid \<Rightarrow> media \<Rightarrow> bool" where
  "usable_media ids familyId m \<longleftrightarrow> med_id m \<in> set ids \<and> med_familyId m = familyId \<and> med_scope m \<in> {ALBUM, CHAT}"

definition check_media :: "message_type \<Rightarrow> uuid list \<Rightarrow> uuid \<Rightarrow> 'a media_db_scheme \<Rightarrow> api_error + unit" where
  "check_media t ids familyId s = (let found = filter (usable_media ids familyId) (mdb_media s) in
     if ids = [] then Inr ()
     else if length found \<noteq> length ids then Inl (Forbidden ''Media must belong to the conversation family'')
     else if \<exists>m \<in> set found. med_kind m \<noteq> kind_of_message t then Inl (BadRequest ''Media kind does not match message type'')
     else Inr ())"

text \<open>The text of the push notification; the code has the three names in Russian.\<close>

definition push_body :: "message \<Rightarrow> string option" where
  "push_body m = (case msg_text m of Some t \<Rightarrow> Some (js_trim t)
   | None \<Rightarrow> (case msg_type m of IMAGE_MESSAGE \<Rightarrow> Some ''Photo'' | VIDEO_MESSAGE \<Rightarrow> Some ''Video''
       | VOICE \<Rightarrow> Some ''Voice message'' | TEXT \<Rightarrow> None))"

definition sender_name :: "'a core_scheme \<Rightarrow> uuid \<Rightarrow> string" where
  "sender_name s i = (case find_user i s of None \<Rightarrow> [] | Some u \<Rightarrow> js_trim (user_firstName u @ '' '' @ user_lastName u))"

definition notify_recipients ::
    "env \<Rightarrow> conversation_member list \<Rightarrow> uuid \<Rightarrow> message \<Rightarrow> 'a core_scheme \<Rightarrow> 'a core_scheme" where
  "notify_recipients E members userId m s = (
     let recipients = filter (\<lambda>u. u \<noteq> userId) (map cm_userId members) in
     case push_body m of None \<Rightarrow> s
     | Some body \<Rightarrow> if body = [] \<or> recipients = [] then s else
         s\<lparr>core_feed := enqueueChatMessagePush E (msg_id m) (msg_conversationId m) (msg_senderId m) recipients
           (sender_name s (msg_senderId m)) body (msg_createdAt m) (core_feed s)\<rparr>)"

definition claim_media :: "uuid list \<Rightarrow> uuid \<Rightarrow> 'a media_db_scheme \<Rightarrow> (unit, 'a media_db_scheme) resp" where
  "claim_media ids familyId s = (if ids = [] then (Inr (), s) else
     (case update_many (usable_media ids familyId) (\<lambda>m. m\<lparr>med_scope := CHAT\<rparr>) (mdb_media s) of
       (count, ms) \<Rightarrow> if count \<noteq> length ids then (Inl (Forbidden ''Media is reserved for another domain''), s\<lparr>mdb_media := ms\<rparr>)
         else (Inr (), s\<lparr>mdb_media := ms\<rparr>)))"

text \<open>The keys of a message, and those of its attachments, are unique.\<close>

definition create_message_tx ::
    "env \<Rightarrow> loaded_conversation \<Rightarrow> uuid \<Rightarrow> create_message_dto \<Rightarrow> string \<Rightarrow> uuid list \<Rightarrow> 'a chat_db_scheme
       \<Rightarrow> (message, 'a chat_db_scheme) resp" where
  "create_message_tx E loaded userId dto body ids s = (
     if (\<exists>m \<in> set (cdb_messages s). msg_senderId m = userId \<and> msg_clientMessageId m = cmd_clientMessageId dto) \<or> \<not> distinct ids
     then (Inl P2002, s) else
     (case fresh s of (i, s1) \<Rightarrow>
       let m = \<lparr>msg_id = i, msg_conversationId = cv_id (fst loaded), msg_senderId = userId,
             msg_clientMessageId = cmd_clientMessageId dto, msg_type = cmd_type dto,
             msg_text = (if body = [] then None else Some body), msg_createdAt = env_now E, msg_updatedAt = env_now E,
             msg_deletedAt = None\<rparr>;
           s2 = s1\<lparr>cdb_messages := cdb_messages s1 @ [m],
             mdb_messageMedia := mdb_messageMedia s1 @ map (\<lambda>j. \<lparr>mm_messageId = i, mm_mediaId = j, mm_createdAt = env_now E\<rparr>) ids\<rparr>
       in and_then (claim_media ids (cv_familyId (fst loaded)) s2)
            (\<lambda>_ s3. (Inr m, notify_recipients E (snd loaded) userId m s3))))"

definition find_sent :: "uuid \<Rightarrow> string \<Rightarrow> 'a chat_db_scheme \<Rightarrow> message option" where
  "find_sent userId clientMessageId s =
     find_first (\<lambda>m. msg_senderId m = userId \<and> msg_clientMessageId m = clientMessageId) (cdb_messages s)"

definition createMessage ::
    "env \<Rightarrow> storage \<Rightarrow> uuid \<Rightarrow> uuid \<Rightarrow> create_message_dto \<Rightarrow> 'a chat_db_scheme \<Rightarrow> (message_response, 'a chat_db_scheme) resp" where
  "createMessage E S userId i dto s = (case requireConversation userId i s of Inl e \<Rightarrow> (Inl e, s)
   | Inr loaded \<Rightarrow>
     let body = (case cmd_text dto of None \<Rightarrow> [] | Some t \<Rightarrow> js_trim t);
         ids = (case cmd_mediaIds dto of None \<Rightarrow> [] | Some js \<Rightarrow> js) in
     if cmd_type dto = TEXT \<and> (body = [] \<or> ids \<noteq> [])
     then (Inl (BadRequest ''Text message requires text and cannot include media''), s)
     else if cmd_type dto \<noteq> TEXT \<and> (ids = [] \<or> body \<noteq> [])
     then (Inl (BadRequest ''Media message requires mediaIds and cannot include text''), s)
     else (case find_sent userId (cmd_clientMessageId dto) s of Some m \<Rightarrow> (toMessageResponse S userId m s, s)
     | None \<Rightarrow> (case check_media (cmd_type dto) ids (cv_familyId (fst loaded)) s of Inl e \<Rightarrow> (Inl e, s)
       | Inr _ \<Rightarrow> and_then (transaction s (create_message_tx E loaded userId dto body ids s))
           (\<lambda>m s1. (toMessageResponse S userId m s1, s1)))))"


subsection \<open>Changing a message\<close>

definition update_messages :: "uuid \<Rightarrow> (message \<Rightarrow> message) \<Rightarrow> 'a chat_db_scheme \<Rightarrow> 'a chat_db_scheme" where
  "update_messages messageId f s = s\<lparr>cdb_messages := map (\<lambda>m. if msg_id m = messageId then f m else m) (cdb_messages s)\<rparr>"

definition own_message :: "uuid \<Rightarrow> uuid \<Rightarrow> uuid \<Rightarrow> 'a chat_db_scheme \<Rightarrow> message option" where
  "own_message userId i messageId s = find_first (\<lambda>m. msg_id m = messageId \<and> msg_conversationId m = i
     \<and> msg_senderId m = userId \<and> msg_deletedAt m = None) (cdb_messages s)"

definition updateMessage ::
    "env \<Rightarrow> storage \<Rightarrow> uuid \<Rightarrow> uuid \<Rightarrow> uuid \<Rightarrow> string \<Rightarrow> 'a chat_db_scheme \<Rightarrow> (message_response, 'a chat_db_scheme) resp" where
  "updateMessage E S userId i messageId body s = (case requireConversation userId i s of Inl e \<Rightarrow> (Inl e, s)
   | Inr _ \<Rightarrow> (case own_message userId i messageId s of None \<Rightarrow> (Inl (NotFound ''Message not found''), s)
     | Some m \<Rightarrow> if msg_type m \<noteq> TEXT then (Inl (BadRequest ''Only text messages can be edited''), s) else
         let change = (\<lambda>m. m\<lparr>msg_text := Some (js_trim body), msg_updatedAt := env_now E\<rparr>);
             s1 = update_messages messageId change s
         in (toMessageResponse S userId (change m) s1, s1)))"

definition deleteMessage ::
    "env \<Rightarrow> storage \<Rightarrow> uuid \<Rightarrow> uuid \<Rightarrow> uuid \<Rightarrow> 'a chat_db_scheme \<Rightarrow> (message_response, 'a chat_db_scheme) resp" where
  "deleteMessage E S userId i messageId s = (case requireConversation userId i s of Inl e \<Rightarrow> (Inl e, s)
   | Inr _ \<Rightarrow> (case own_message userId i messageId s of None \<Rightarrow> (Inl (NotFound ''Message not found''), s)
     | Some m \<Rightarrow>
         let change = (\<lambda>m. m\<lparr>msg_text := None, msg_updatedAt := env_now E, msg_deletedAt := Some (env_now E)\<rparr>);
             s1 = update_messages messageId change s
         in (toMessageResponse S userId (change m) s1, s1)))"

subsection \<open>Members\<close>

definition update_member :: "uuid \<Rightarrow> uuid \<Rightarrow> (conversation_member \<Rightarrow> conversation_member) \<Rightarrow> 'a chat_db_scheme \<Rightarrow> 'a chat_db_scheme" where
  "update_member i userId f s = s\<lparr>cdb_members :=
     map (\<lambda>c. if cm_conversationId c = i \<and> cm_userId c = userId then f c else c) (cdb_members s)\<rparr>"

definition delete_member :: "uuid \<Rightarrow> uuid \<Rightarrow> 'a chat_db_scheme \<Rightarrow> 'a chat_db_scheme" where
  "delete_member i userId s = s\<lparr>cdb_members :=
     filter (\<lambda>c. \<not> (cm_conversationId c = i \<and> cm_userId c = userId)) (cdb_members s)\<rparr>"

text \<open>The read position of the member is that of the message, also when it was further.\<close>

definition markRead :: "uuid \<Rightarrow> uuid \<Rightarrow> uuid \<Rightarrow> 'a chat_db_scheme \<Rightarrow> (conversation_member option, 'a chat_db_scheme) resp" where
  "markRead userId i messageId s = (case requireConversation userId i s of Inl e \<Rightarrow> (Inl e, s)
   | Inr _ \<Rightarrow> (case find_first (\<lambda>m. msg_id m = messageId \<and> msg_conversationId m = i) (cdb_messages s) of
       None \<Rightarrow> (Inl (NotFound ''Message not found''), s)
     | Some m \<Rightarrow> let s1 = update_member i userId
           (\<lambda>c. c\<lparr>cm_lastReadAt := Some (msg_createdAt m), cm_lastReadMessageId := Some (msg_id m)\<rparr>) s
         in (Inr (current_member userId (members_of i s1)), s1)))"

definition reload :: "storage \<Rightarrow> uuid \<Rightarrow> uuid \<Rightarrow> 'a chat_db_scheme \<Rightarrow> (conversation_response, 'a chat_db_scheme) resp" where
  "reload S userId i s = (getConversation S userId i s, s)"

definition updateConversation ::
    "env \<Rightarrow> storage \<Rightarrow> uuid \<Rightarrow> uuid \<Rightarrow> string \<Rightarrow> 'a chat_db_scheme \<Rightarrow> (conversation_response, 'a chat_db_scheme) resp" where
  "updateConversation E S userId i title s = (case requireConversation userId i s of Inl e \<Rightarrow> (Inl e, s)
   | Inr (c, members) \<Rightarrow>
     if (case current_member userId members of None \<Rightarrow> True | Some a \<Rightarrow> cm_role a = ConversationMember)
     then (Inl (Forbidden ''Only group admins can update the conversation''), s)
     else if cv_type c \<noteq> GROUP then (Inl (BadRequest ''Direct conversations cannot be renamed''), s) else
     let change = (\<lambda>x. x\<lparr>cv_title := Some (js_trim title), cv_updatedAt := env_now E\<rparr>);
         s1 = s\<lparr>cdb_conversations := map (\<lambda>x. if cv_id x = i then change x else x) (cdb_conversations s)\<rparr>
     in (toConversationResponse S userId (change c, members_of i s1) None s1, s1))"

definition addMember ::
    "env \<Rightarrow> storage \<Rightarrow> uuid \<Rightarrow> uuid \<Rightarrow> uuid \<Rightarrow> 'a chat_db_scheme \<Rightarrow> (conversation_response, 'a chat_db_scheme) resp" where
  "addMember E S userId i memberId s = (case requireConversation userId i s of Inl e \<Rightarrow> (Inl e, s)
   | Inr (c, members) \<Rightarrow>
     if (case current_member userId members of None \<Rightarrow> True | Some a \<Rightarrow> cm_role a = ConversationMember)
     then (Inl (Forbidden ''Only group admins can manage members''), s)
     else if cv_type c \<noteq> GROUP then (Inl (BadRequest ''Members can only be managed in groups''), s)
     else if family_members_among (cv_familyId c) [memberId] s = []
     then (Inl (Forbidden ''User must belong to the conversation family''), s)
     else reload S userId i (if member_in memberId i s then s else
       s\<lparr>cdb_members := cdb_members s @ [\<lparr>cm_conversationId = i, cm_userId = memberId, cm_role = ConversationMember,
         cm_joinedAt = env_now E, cm_lastReadAt = None, cm_lastReadMessageId = None\<rparr>]\<rparr>))"

definition removeMember ::
    "storage \<Rightarrow> uuid \<Rightarrow> uuid \<Rightarrow> uuid \<Rightarrow> 'a chat_db_scheme \<Rightarrow> (conversation_response, 'a chat_db_scheme) resp" where
  "removeMember S userId i memberId s = (case requireConversation userId i s of Inl e \<Rightarrow> (Inl e, s)
   | Inr (c, members) \<Rightarrow> (case (current_member userId members, current_member memberId members) of
       (Some actor, Some target) \<Rightarrow>
         if cm_role actor = ConversationMember then (Inl (Forbidden ''Only group admins can manage members''), s)
         else if cv_type c \<noteq> GROUP then (Inl (BadRequest ''Members can only be managed in groups''), s)
         else if cm_role target = OWNER then (Inl (Forbidden ''The group owner cannot be removed''), s)
         else if cm_role actor \<noteq> OWNER \<and> cm_role target = ADMIN
         then (Inl (Forbidden ''Only the owner can remove an admin''), s)
         else reload S userId i (delete_member i memberId s)
     | _ \<Rightarrow> (Inl (Forbidden ''Only group admins can manage members''), s)))"

definition leaveConversation :: "uuid \<Rightarrow> uuid \<Rightarrow> 'a chat_db_scheme \<Rightarrow> (unit, 'a chat_db_scheme) resp" where
  "leaveConversation userId i s = (case requireConversation userId i s of Inl e \<Rightarrow> (Inl e, s)
   | Inr (c, members) \<Rightarrow>
     if (case current_member userId members of None \<Rightarrow> False | Some m \<Rightarrow> cm_role m = OWNER)
     then (Inl (Forbidden ''The group owner must transfer ownership before leaving''), s)
     else (Inr (), delete_member i userId s))"

definition transferOwnership ::
    "storage \<Rightarrow> uuid \<Rightarrow> uuid \<Rightarrow> uuid \<Rightarrow> 'a chat_db_scheme \<Rightarrow> (conversation_response, 'a chat_db_scheme) resp" where
  "transferOwnership S userId i targetId s = (case requireConversation userId i s of Inl e \<Rightarrow> (Inl e, s)
   | Inr (c, members) \<Rightarrow>
     if cv_type c \<noteq> GROUP then (Inl (BadRequest ''Ownership can only be transferred in groups''), s)
     else if (case current_member userId members of None \<Rightarrow> True | Some a \<Rightarrow> cm_role a \<noteq> OWNER)
     then (Inl (Forbidden ''Only the group owner can transfer ownership''), s)
     else (case current_member targetId members of
       None \<Rightarrow> (Inl (NotFound ''New owner must be a conversation member''), s)
     | Some target \<Rightarrow> if cm_userId target = userId then (Inl (BadRequest ''New owner must be another member''), s)
         else reload S userId i (update_member i targetId (\<lambda>m. m\<lparr>cm_role := OWNER\<rparr>)
           (update_member i userId (\<lambda>m. m\<lparr>cm_role := ADMIN\<rparr>) s))))"

end
