(* ===== verification/MediaSpec.thy ===== *)
theory MediaSpec
  imports Media
begin

text \<open>
  The object of every media row stays in the bucket: nothing that the service or the cleanup jobs delete
  belongs to a row or to an upload that is still open.  The bounds of a multipart upload, and what a
  run of the cleanup job does with each task.
\<close>

subsection \<open>Keys and the rows they belong to\<close>

text \<open>The identifier in a key is that of the media row or upload session it was made for.\<close>

definition key_id :: "object_key \<Rightarrow> uuid" where
  "key_id k = fst (snd (snd k))"

lemma key_id_simp [simp]: "key_id (p, owner, i, ext) = i"
  by (simp add: key_id_def)

definition no_owner :: "media list \<Rightarrow> upload_session list \<Rightarrow> uuid \<Rightarrow> bool" where
  "no_owner ms xs i \<longleftrightarrow> (\<forall>m \<in> set ms. med_id m \<noteq> i) \<and> (\<forall>x \<in> set xs. ups_id x = i \<longrightarrow> ups_status x \<noteq> INITIATED)"

definition media_row_ok :: "object_key list \<Rightarrow> media \<Rightarrow> bool" where
  "media_row_ok bucket m \<longleftrightarrow> med_objectKey m \<in> set bucket \<and> key_id (med_objectKey m) = med_id m
     \<and> (case med_previewObjectKey m of None \<Rightarrow> True | Some k \<Rightarrow> k \<in> set bucket \<and> key_id k = med_id m)"

definition session_row_ok :: "media list \<Rightarrow> upload_session \<Rightarrow> bool" where
  "session_row_ok ms x \<longleftrightarrow> key_id (ups_objectKey x) = ups_id x
     \<and> (ups_status x = INITIATED \<longrightarrow> (\<forall>m \<in> set ms. med_id m \<noteq> ups_id x))"

definition task_row_safe :: "media list \<Rightarrow> upload_session list \<Rightarrow> cleanup_task \<Rightarrow> bool" where
  "task_row_safe ms xs t \<longleftrightarrow> (clt_action t = DELETE_OBJECT \<longrightarrow> no_owner ms xs (key_id (clt_objectKey t)))"

definition attached_ok :: "media list \<Rightarrow> message_media list \<Rightarrow> bool" where
  "attached_ok ms mms \<longleftrightarrow> (\<forall>a \<in> set mms. \<exists>m \<in> set ms. med_id m = mm_mediaId a \<and> med_scope m = CHAT)"

definition media_ok :: "'a media_db_scheme \<Rightarrow> bool" where
  "media_ok s \<longleftrightarrow> distinct (map med_id (mdb_media s)) \<and> distinct (map ups_id (mdb_sessions s)) \<and> distinct (map clt_id (mdb_tasks s))
     \<and> (\<forall>m \<in> set (mdb_media s). med_id m < core_nextId s \<and> media_row_ok (mdb_bucket s) m)
     \<and> (\<forall>x \<in> set (mdb_sessions s). ups_id x < core_nextId s \<and> session_row_ok (mdb_media s) x)
     \<and> (\<forall>t \<in> set (mdb_tasks s). clt_id t < core_nextId s \<and> key_id (clt_objectKey t) < core_nextId s
          \<and> task_row_safe (mdb_media s) (mdb_sessions s) t)
     \<and> attached_ok (mdb_media s) (mdb_messageMedia s)"

definition media_keep :: "'a media_db_scheme \<Rightarrow> 'a media_db_scheme \<Rightarrow> bool" where
  "media_keep s t \<longleftrightarrow> (media_ok s \<longrightarrow> media_ok t \<and> core_nextId s \<le> core_nextId t)"

interpretation md: evolution media_keep
  by unfold_locales (auto simp: media_keep_def)

lemmas media_ok_defs = media_ok_def media_row_ok_def session_row_ok_def task_row_safe_def no_owner_def

text \<open>A step that leaves the tables and the bucket alone.\<close>

lemma media_keep_same:
  assumes "mdb_media t = mdb_media s" "mdb_sessions t = mdb_sessions s" "mdb_tasks t = mdb_tasks s"
    "mdb_messageMedia t = mdb_messageMedia s" "mdb_bucket t = mdb_bucket s" "core_nextId s \<le> core_nextId t"
  shows "media_keep s t"
  using assms by (fastforce simp: media_keep_def media_ok_def)

lemma media_row_ok_delete: "media_row_ok bucket m \<Longrightarrow> med_id m \<noteq> key_id k \<Longrightarrow> media_row_ok (filter (\<lambda>x. x \<noteq> k) bucket) m"
  by (auto simp: media_row_ok_def split: option.splits)

lemma media_row_ok_more: "media_row_ok bucket m \<Longrightarrow> media_row_ok (k # bucket) m"
  by (auto simp: media_row_ok_def split: option.splits)

lemma put_object_keep: "media_keep s (snd (put_object S k s))"
  by (auto simp: put_object_def media_keep_def media_ok_def media_row_ok_more)

lemma completeMultipartUpload_keep: "media_keep s (snd (completeMultipartUpload S k u ps s))"
  by (auto simp: completeMultipartUpload_def media_keep_def media_ok_def media_row_ok_more)

lemma deleteFile_keep:
  assumes "media_ok s \<Longrightarrow> no_owner (mdb_media s) (mdb_sessions s) (key_id k)"
  shows "media_keep s (snd (deleteFile S k s))"
  using assms by (auto simp: deleteFile_def media_keep_def media_ok_def no_owner_def intro!: media_row_ok_delete)

lemma enqueue_cleanup_keep:
  assumes "media_ok s \<Longrightarrow> key_id k < core_nextId s"
    "action = DELETE_OBJECT \<Longrightarrow> media_ok s \<Longrightarrow> no_owner (mdb_media s) (mdb_sessions s) (key_id k)"
  shows "media_keep s (enqueue_cleanup E action k u e s)"
proof -
  define g where "g = (\<lambda>t :: cleanup_task. if clt_dedupeKey t = (action, k, u) then t\<lparr>clt_nextAttemptAt := env_now E,
      clt_lockedUntil := None, clt_lastError := storage_message e\<rparr> else t)"
  have g: "clt_id (g t) = clt_id t" "clt_action (g t) = clt_action t" "clt_objectKey (g t) = clt_objectKey t" for t
    by (simp_all add: g_def)
  have "media_keep s (s\<lparr>mdb_tasks := map g (mdb_tasks s)\<rparr>)"
    using g by (simp add: media_keep_def media_ok_def comp_def task_row_safe_def)
  moreover have "media_keep s (s\<lparr>core_nextId := core_nextId s + 1, mdb_tasks := mdb_tasks s @
      [\<lparr>clt_id = core_nextId s, clt_dedupeKey = (action, k, u), clt_action = action, clt_objectKey = k, clt_uploadId = u,
        clt_attempts = 0, clt_nextAttemptAt = env_now E, clt_lockedUntil = None, clt_lastError = storage_message e\<rparr>]\<rparr>)"
    using assms by (fastforce simp: media_keep_def media_ok_def task_row_safe_def)
  ultimately show ?thesis
    unfolding enqueue_cleanup_def Let_def fresh_def prod.case g_def by auto
qed

lemma deleteFile_error [simp]: "deleteFile S k s = (Inl e, t) \<Longrightarrow> t = s"
  by (auto simp: deleteFile_def split: if_splits)

lemma deleteOrEnqueue_keep:
  assumes "media_ok s \<Longrightarrow> key_id k < core_nextId s \<and> no_owner (mdb_media s) (mdb_sessions s) (key_id k)"
  shows "media_keep s (deleteOrEnqueue E S k s)"
  using deleteFile_keep [of s k S] assms
  by (auto simp: deleteOrEnqueue_def intro!: enqueue_cleanup_keep dest!: deleteFile_error split: prod.split sum.split)

lemma abortOrEnqueue_keep:
  assumes "media_ok s \<Longrightarrow> key_id k < core_nextId s"
  shows "media_keep s (abortOrEnqueue E S k u s)"
  using assms by (auto simp: abortOrEnqueue_def intro!: enqueue_cleanup_keep md.evolution_refl split: sum.split)


text \<open>The status of a session, once it has left \<open>INITIATED\<close>.\<close>

lemma update_sessions_keep:
  assumes "st \<noteq> INITIATED"
  shows "media_keep s (snd (update_sessions P st s))"
proof -
  define g where "g = (\<lambda>x :: upload_session. if P x then x\<lparr>ups_status := st\<rparr> else x)"
  have g: "ups_id (g x) = ups_id x" "ups_objectKey (g x) = ups_objectKey x" "ups_status (g x) = INITIATED \<Longrightarrow> ups_status x = INITIATED" for x
    using assms by (auto simp: g_def split: if_splits)
  have "no_owner ms xs i \<Longrightarrow> no_owner ms (map g xs) i" for ms xs i
    using g by (auto simp: no_owner_def)
  moreover have "session_row_ok ms x \<Longrightarrow> session_row_ok ms (g x)" for ms x
    using g by (auto simp: session_row_ok_def)
  ultimately have "media_keep s (s\<lparr>mdb_sessions := map g (mdb_sessions s)\<rparr>)"
    by (simp add: media_keep_def media_ok_def comp_def g task_row_safe_def)
  then show ?thesis
    by (simp add: update_sessions_def g_def)
qed

lemma set_session_status_keep: "st \<noteq> INITIATED \<Longrightarrow> media_keep s (set_session_status i st s)"
  by (simp add: set_session_status_def update_sessions_keep)

lemma set_session_status_fields [simp]:
  "mdb_media (set_session_status i st s) = mdb_media s"
  "mdb_tasks (set_session_status i st s) = mdb_tasks s"
  "mdb_bucket (set_session_status i st s) = mdb_bucket s"
  "core_nextId (set_session_status i st s) = core_nextId s"
  by (simp_all add: set_session_status_def update_sessions_def)

text \<open>Cleaning up does not look at the sessions, so it may as well run after the status is written.\<close>

lemma cleanup_commutes:
  "set_session_status i st (deleteOrEnqueue E S k s) = deleteOrEnqueue E S k (set_session_status i st s)"
proof -
  have session_first: "set_session_status i st (enqueue_cleanup E a k u e s) = enqueue_cleanup E a k u e (set_session_status i st s)" for a u e
    unfolding set_session_status_def update_sessions_def snd_conv enqueue_cleanup_def Let_def fresh_def prod.case
    by (rule media_db.equality) simp_all
  have bucket_first: "set_session_status i st (s\<lparr>mdb_bucket := B\<rparr>) = (set_session_status i st s)\<lparr>mdb_bucket := B\<rparr>" for B
    unfolding set_session_status_def update_sessions_def snd_conv by (rule media_db.equality) simp_all
  show ?thesis
    by (cases "sto_delete S k") (simp_all add: deleteOrEnqueue_def deleteFile_def session_first bucket_first)
qed

definition unowned :: "uuid \<Rightarrow> 'a media_db_scheme \<Rightarrow> bool" where
  "unowned i s \<longleftrightarrow> i < core_nextId s \<and> no_owner (mdb_media s) (mdb_sessions s) i"

text \<open>The storage steps leave both tables alone.\<close>

definition same_rows :: "'a media_db_scheme \<Rightarrow> 'a media_db_scheme \<Rightarrow> bool" where
  "same_rows s t \<longleftrightarrow> media_keep s t \<and> core_nextId s \<le> core_nextId t \<and> mdb_media t = mdb_media s \<and> mdb_sessions t = mdb_sessions s"

interpretation sr: evolution same_rows
  by unfold_locales (auto simp: same_rows_def media_keep_def)

lemma same_rows_unowned: "same_rows s t \<Longrightarrow> unowned i s \<Longrightarrow> unowned i t"
  by (simp add: same_rows_def unowned_def)

lemma same_rows_keep: "same_rows s t \<Longrightarrow> media_keep s t"
  by (simp add: same_rows_def)

lemma put_object_same: "same_rows s (snd (put_object S k s))"
  using put_object_keep [of s S k] by (simp add: same_rows_def) (simp add: put_object_def)

lemma complete_same: "same_rows s (snd (completeMultipartUpload S k u ps s))"
  using completeMultipartUpload_keep [of s S k u ps] by (simp add: same_rows_def) (simp add: completeMultipartUpload_def)

lemma make_preview_same: "same_rows s (snd (make_preview S k k' s))"
  by (auto simp: make_preview_def put_object_same sr.evolution_refl split: option.split)

lemma enqueue_cleanup_fields [simp]:
  "mdb_media (enqueue_cleanup E a k u e s) = mdb_media s"
  "mdb_sessions (enqueue_cleanup E a k u e s) = mdb_sessions s"
  "mdb_messageMedia (enqueue_cleanup E a k u e s) = mdb_messageMedia s"
  "core_nextId s \<le> core_nextId (enqueue_cleanup E a k u e s)"
  by (simp_all add: enqueue_cleanup_def Let_def fresh_def)

lemma deleteOrEnqueue_fields [simp]:
  "mdb_media (deleteOrEnqueue E S k s) = mdb_media s"
  "mdb_sessions (deleteOrEnqueue E S k s) = mdb_sessions s"
  "mdb_messageMedia (deleteOrEnqueue E S k s) = mdb_messageMedia s"
  "core_nextId s \<le> core_nextId (deleteOrEnqueue E S k s)"
  by (simp_all add: deleteOrEnqueue_def deleteFile_def)

lemma deleteOrEnqueue_same:
  assumes "media_ok s \<Longrightarrow> unowned (key_id k) s"
  shows "same_rows s (deleteOrEnqueue E S k s)"
  using deleteOrEnqueue_keep [of s k E S] assms by (simp add: same_rows_def unowned_def)

lemma abortOrEnqueue_same:
  assumes "media_ok s \<Longrightarrow> key_id k < core_nextId s"
  shows "same_rows s (abortOrEnqueue E S k u s)"
  using abortOrEnqueue_keep [of s k E S u] assms
  by (simp add: same_rows_def) (simp add: abortOrEnqueue_def split: sum.split)


subsection \<open>The operations of the service\<close>

text \<open>A new row, whose objects were stored before it.\<close>

definition row_for :: "media \<Rightarrow> object_key list \<Rightarrow> bool" where
  "row_for m bucket \<longleftrightarrow> key_id (med_objectKey m) = med_id m \<and> med_objectKey m \<in> set bucket
     \<and> (case med_previewObjectKey m of None \<Rightarrow> True | Some k \<Rightarrow> key_id k = med_id m \<and> k \<in> set bucket)"

lemma row_for_ok: "row_for m bucket \<Longrightarrow> media_row_ok bucket m"
  by (auto simp: row_for_def media_row_ok_def split: option.splits)

text \<open>A row enters the table when its objects are stored and its identifier is nobody's target: no cleanup
  task deletes it, no open session has it.\<close>

definition untargeted :: "uuid \<Rightarrow> 'a media_db_scheme \<Rightarrow> bool" where
  "untargeted i s \<longleftrightarrow> (\<forall>t \<in> set (mdb_tasks s). clt_action t = DELETE_OBJECT \<longrightarrow> key_id (clt_objectKey t) \<noteq> i)"

lemma add_row_ok:
  assumes "media_ok s" "row_for m (mdb_bucket s)" "med_id m < core_nextId s" "untargeted (med_id m) s"
    "\<forall>x \<in> set (mdb_media s). med_id x \<noteq> med_id m"
    "\<forall>x \<in> set (mdb_sessions s). ups_id x = med_id m \<longrightarrow> ups_status x \<noteq> INITIATED"
  shows "media_ok (s\<lparr>mdb_media := mdb_media s @ [m]\<rparr>)"
proof -
  have "session_row_ok (mdb_media s @ [m]) x" if "x \<in> set (mdb_sessions s)" for x
    using assms that by (auto simp: media_ok_def session_row_ok_def)
  moreover have "task_row_safe (mdb_media s @ [m]) (mdb_sessions s) t" if "t \<in> set (mdb_tasks s)" for t
    using assms that by (auto simp: media_ok_def task_row_safe_def no_owner_def untargeted_def)
  moreover have "attached_ok (mdb_media s @ [m]) (mdb_messageMedia s)"
    using assms(1) by (auto simp: media_ok_def attached_ok_def)
  ultimately show ?thesis
    using assms row_for_ok [OF assms(2)] by (auto simp: media_ok_def)
qed


text \<open>Removing the objects of an identifier that no row has.\<close>

definition clean_preview :: "env \<Rightarrow> storage \<Rightarrow> object_key option \<Rightarrow> 'a media_db_scheme \<Rightarrow> 'a media_db_scheme" where
  "clean_preview E S preview = (case preview of None \<Rightarrow> id | Some k \<Rightarrow> deleteOrEnqueue E S k)"

definition preview_step :: "storage \<Rightarrow> object_key \<Rightarrow> object_key option \<Rightarrow> 'a media_db_scheme \<Rightarrow> (unit, 'a media_db_scheme) resp" where
  "preview_step S source preview s = (case preview of None \<Rightarrow> (Inr (), s) | Some k \<Rightarrow> make_preview S source k s)"

definition preview_key :: "uuid \<Rightarrow> object_key option \<Rightarrow> bool" where
  "preview_key i preview \<longleftrightarrow> (\<forall>k. preview = Some k \<longrightarrow> key_id k = i)"

lemma clean_preview_same:
  assumes "preview_key i preview" "media_ok s \<Longrightarrow> unowned i s"
  shows "same_rows s (clean_preview E S preview s)"
  using assms by (auto simp: clean_preview_def preview_key_def sr.evolution_refl intro!: deleteOrEnqueue_same split: option.split)

lemma clean_both_same:
  assumes "preview_key i preview" "key_id k = i" "unowned i s"
  shows "same_rows s (clean_preview E S preview (deleteOrEnqueue E S k s))"
    and "same_rows s (deleteOrEnqueue E S k (clean_preview E S preview s))"
proof -
  have delete: "same_rows t (deleteOrEnqueue E S k t)" if "unowned i t" for t
    using that assms(2) by (simp add: deleteOrEnqueue_same)
  have clean: "same_rows t (clean_preview E S preview t)" if "unowned i t" for t
    using that assms(1) by (simp add: clean_preview_same)
  show "same_rows s (clean_preview E S preview (deleteOrEnqueue E S k s))"
    by (rule sr.evolution_trans [OF delete [OF assms(3)]]) (rule clean, rule same_rows_unowned [OF delete], fact+)
  show "same_rows s (deleteOrEnqueue E S k (clean_preview E S preview s))"
    by (rule sr.evolution_trans [OF clean [OF assms(3)]]) (rule delete, rule same_rows_unowned [OF clean], fact+)
qed

lemma preview_step_same: "same_rows s (snd (preview_step S source preview s))"
  by (auto simp: preview_step_def make_preview_same sr.evolution_refl split: option.split)

lemma preview_step_tasks: "mdb_tasks (snd (preview_step S source preview s)) = mdb_tasks s"
  by (auto simp: preview_step_def make_preview_def put_object_def split: option.split)

lemma preview_step_stores:
  assumes "preview_step S source preview s = (Inr a, t)"
  shows "\<forall>k. preview = Some k \<longrightarrow> k \<in> set (mdb_bucket t)" "set (mdb_bucket s) \<subseteq> set (mdb_bucket t)"
  using assms by (auto simp: preview_step_def make_preview_def put_object_def split: option.splits if_splits)


text \<open>Storing the objects of a new row, and removing them again when a later step fails.\<close>

lemma created_keep:
  assumes "unowned (med_id m) s" "untargeted (med_id m) s" "key_id (med_objectKey m) = med_id m"
    "preview_key (med_id m) (med_previewObjectKey m)"
  shows "media_keep s (snd (case put_object S (med_objectKey m) s of (Inl e, s2) \<Rightarrow> (Inl e, deleteOrEnqueue E S (med_objectKey m) s2)
       | (Inr _, s2) \<Rightarrow>
       (case preview_step S (med_objectKey m) (med_previewObjectKey m) s2 of
         (Inl e, s3) \<Rightarrow> (Inl e, clean_preview E S (med_previewObjectKey m) (deleteOrEnqueue E S (med_objectKey m) s3))
       | (Inr _, s3) \<Rightarrow> (case insert_media m s3 of
           (Inl e, s4) \<Rightarrow> (Inl e, clean_preview E S (med_previewObjectKey m) (deleteOrEnqueue E S (med_objectKey m) s4))
         | (Inr _, s4) \<Rightarrow> (media_toResponse S m, s4)))))"
proof -
  let ?k = "med_objectKey m" and ?p = "med_previewObjectKey m"
  have clean: "same_rows t (clean_preview E S ?p (deleteOrEnqueue E S ?k t))" if "same_rows s t" for t
    using clean_both_same(1) [OF assms(4,3)] same_rows_unowned [OF that assms(1)] .
  have delete: "same_rows t (deleteOrEnqueue E S ?k t)" if "same_rows s t" for t
    using deleteOrEnqueue_same [of t ?k] same_rows_unowned [OF that assms(1)] assms(3) by simp
  obtain r2 s2 where put: "put_object S ?k s = (r2, s2)" by fastforce
  have s2: "same_rows s s2" "mdb_tasks s2 = mdb_tasks s" "r2 = Inr () \<Longrightarrow> ?k \<in> set (mdb_bucket s2)"
    using put put_object_same [of s S ?k] by (auto simp: put_object_def split: if_splits)
  obtain r3 s3 where prev: "preview_step S ?k ?p s2 = (r3, s3)" by fastforce
  have s3: "same_rows s s3" "mdb_tasks s3 = mdb_tasks s"
    using prev preview_step_same [of s2 S ?k ?p] preview_step_tasks [of S ?k ?p s2] s2 sr.evolution_trans by auto
  note via = same_rows_keep [OF sr.evolution_trans]
  show ?thesis
  proof (cases r2)
    case (Inl e)
    then show ?thesis using put delete [OF s2(1)] via [OF s2(1)] by simp
  next
    case r2: (Inr u)
    show ?thesis
    proof (cases r3)
      case (Inl e)
      then show ?thesis using put r2 prev clean [OF s3(1)] via [OF s3(1)] by simp
    next
      case r3: (Inr u')
      have stored: "row_for m (mdb_bucket s3)"
        using preview_step_stores [of S ?k ?p s2 u' s3] prev r3 r2 s2(3) assms(3,4)
        by (auto simp: row_for_def preview_key_def split: option.split)
      show ?thesis
      proof (cases "fst (insert_media m s3)")
        case (Inl e)
        then show ?thesis using put r2 prev r3 clean [OF s3(1)] via [OF s3(1)]
          by (auto simp: insert_media_def split: if_splits)
      next
        case (Inr v)
        have "media_ok s3 \<Longrightarrow> media_ok (s3\<lparr>mdb_media := mdb_media s3 @ [m]\<rparr>)"
          using stored assms(1,2) s3 by (intro add_row_ok) (auto simp: same_rows_def unowned_def no_owner_def untargeted_def)
        then have "media_keep s3 (s3\<lparr>mdb_media := mdb_media s3 @ [m]\<rparr>)" by (simp add: media_keep_def)
        then show ?thesis using put r2 prev r3 Inr md.evolution_trans [OF same_rows_keep [OF s3(1)]]
          by (auto simp: insert_media_def split: if_splits)
      qed
    qed
  qed
qed


lemma fresh_untargeted:
  assumes "media_ok s"
  shows "unowned (core_nextId s) (s\<lparr>core_nextId := core_nextId s + 1\<rparr>)" "untargeted (core_nextId s) (s\<lparr>core_nextId := core_nextId s + 1\<rparr>)"
  using assms by (fastforce simp: unowned_def no_owner_def untargeted_def media_ok_def)+

lemma fresh_keep: "media_keep s (s\<lparr>core_nextId := core_nextId s + 1\<rparr>)"
  by (rule media_keep_same) simp_all

lemma media_create_keep: "media_keep s (snd (media_create E S u file s))"
proof -
  have "media_keep s (snd (media_create E S u file s))" if ok: "media_ok s"
    unfolding media_create_def fresh_def prod.case Let_def
    apply (intro md.guard_option md.guard_if md.guard_sum)
    subgoal for kind ctx
      apply (rule md.evolution_trans [OF fresh_keep])
      apply (rule created_keep [where m = "\<lparr>med_id = core_nextId s, med_userId = u, med_familyId = ctx_familyId ctx,
            med_objectKey = (getMediaStoragePrefix kind, ctx_familyId ctx, core_nextId s, extension_of (uf_originalName file)),
            med_previewObjectKey = (if kind = IMAGE then Some (''previews'', ctx_familyId ctx, core_nextId s, ''.webp'') else None),
            med_originalName = uf_originalName file, med_mimeType = uf_mimeType file,
            med_kind = kind, med_scope = ALBUM, med_sizeBytes = uf_size file, med_createdAt = env_now E\<rparr>", unfolded media.simps clean_preview_def preview_step_def])
      using fresh_untargeted [OF ok] by (simp_all add: preview_key_def)
    done
  then show ?thesis by (auto simp: media_keep_def)
qed

lemma initiateUpload_keep: "media_keep s (snd (initiateUpload E S u input s))"
proof -
  have new: "media_keep s (s\<lparr>core_nextId := core_nextId s + 1, mdb_sessions := mdb_sessions s @ [x]\<rparr>)"
    if "ups_id x = core_nextId s" "key_id (ups_objectKey x) = ups_id x" for x
    using that by (fastforce simp: media_keep_def media_ok_def session_row_ok_def task_row_safe_def no_owner_def)
  have abort: "media_keep s (abortOrEnqueue E S k up (s\<lparr>core_nextId := core_nextId s + 1\<rparr>))" if "key_id k = core_nextId s" for k up
    using abortOrEnqueue_keep [of "s\<lparr>core_nextId := core_nextId s + 1\<rparr>" k E S up] that md.evolution_trans [OF fresh_keep] by simp
  show ?thesis
    unfolding initiateUpload_def fresh_def prod.case Let_def
    by (intro md.guards) (auto simp: fresh_keep simp del: One_nat_def intro!: new abort split: option.split sum.split)
qed

lemma find_session_Some: "find_session i u f s = Some x \<Longrightarrow> x \<in> set (mdb_sessions s) \<and> ups_id x = i"
  by (auto simp: find_session_def dest: find_SomeD)

lemma abortUpload_keep: "media_keep s (snd (abortUpload E S u i s))"
proof -
  have "media_keep s (abortOrEnqueue E S (ups_objectKey x) (ups_uploadId x) (set_session_status (ups_id x) ABORTED s))"
    if "x \<in> set (mdb_sessions s)" for x
  proof -
    have "key_id (ups_objectKey x) < core_nextId s" if "media_ok s"
      using that \<open>x \<in> set (mdb_sessions s)\<close> by (auto simp: media_ok_def session_row_ok_def)
    moreover have "media_keep s (set_session_status (ups_id x) ABORTED s)" by (simp add: set_session_status_keep)
    ultimately show ?thesis
      using abortOrEnqueue_keep [of "set_session_status (ups_id x) ABORTED s" "ups_objectKey x" E S "ups_uploadId x"]
      by (auto simp: media_keep_def)
  qed
  then show ?thesis
    unfolding abortUpload_def by (intro md.guards) (auto dest: find_session_Some)
qed

lemma media_remove_keep: "media_keep s (snd (media_remove E S u i s))"
proof -
  have gone: "media_keep s (s\<lparr>mdb_media := filter (\<lambda>x. med_id x \<noteq> med_id m) (mdb_media s)\<rparr>)"
    if "\<forall>a \<in> set (mdb_messageMedia s). mm_mediaId a \<noteq> med_id m" for m
    using that by (fastforce simp: media_keep_def media_ok_def distinct_map_filter session_row_ok_def task_row_safe_def
        no_owner_def attached_ok_def)
  have "media_keep s ((case med_previewObjectKey m of None \<Rightarrow> id | Some k \<Rightarrow> deleteOrEnqueue E S k)
      (deleteOrEnqueue E S (med_objectKey m) (s\<lparr>mdb_media := filter (\<lambda>x. med_id x \<noteq> med_id m) (mdb_media s)\<rparr>)))"
    if m: "m \<in> set (mdb_media s)" "\<forall>a \<in> set (mdb_messageMedia s). mm_mediaId a \<noteq> med_id m" and ok: "media_ok s" for m
  proof -
    let ?s = "s\<lparr>mdb_media := filter (\<lambda>x. med_id x \<noteq> med_id m) (mdb_media s)\<rparr>"
    have "unowned (med_id m) ?s" "preview_key (med_id m) (med_previewObjectKey m)" "key_id (med_objectKey m) = med_id m"
      using ok m(1) by (fastforce simp: unowned_def no_owner_def preview_key_def media_ok_def media_row_ok_def session_row_ok_def)+
    then show ?thesis
      using clean_both_same(1) [of "med_id m" _ _ ?s E S] md.evolution_trans [OF gone [OF m(2)] same_rows_keep]
      by (simp add: clean_preview_def)
  qed
  then have "media_ok s \<Longrightarrow> ?thesis"
    unfolding media_remove_def Let_def by (intro md.guards) (auto dest: find_SomeD)
  then show ?thesis by (auto simp: media_keep_def)
qed


text \<open>Completing an upload: once the session has left \<open>INITIATED\<close> its identifier has no owner.\<close>

lemma failed_keep:
  assumes "x \<in> set (mdb_sessions s)" "ups_status x = INITIATED" "preview_key (ups_id x) preview"
  shows "media_keep s (set_session_status (ups_id x) UPLOAD_FAILED (deleteOrEnqueue E S (ups_objectKey x)
      (clean_preview E S preview s)))"
proof (cases "media_ok s")
  case True
  let ?t = "set_session_status (ups_id x) UPLOAD_FAILED s"
  have x: "key_id (ups_objectKey x) = ups_id x" "ups_id x < core_nextId s" "\<forall>m \<in> set (mdb_media s). med_id m \<noteq> ups_id x"
    using assms True by (auto simp: media_ok_def session_row_ok_def)
  have "unowned (ups_id x) ?t"
    using x by (auto simp: unowned_def no_owner_def set_session_status_def update_sessions_def)
  then have "media_keep ?t (deleteOrEnqueue E S (ups_objectKey x) (clean_preview E S preview ?t))"
    by (rule same_rows_keep [OF clean_both_same(2) [OF assms(3) x(1)]])
  moreover have "set_session_status (ups_id x) UPLOAD_FAILED (clean_preview E S preview s) = clean_preview E S preview ?t"
    by (simp add: clean_preview_def cleanup_commutes split: option.split)
  moreover have "media_keep s ?t" by (simp add: set_session_status_keep)
  ultimately show ?thesis
    using md.evolution_trans [of s ?t] by (simp add: cleanup_commutes)
qed (simp add: media_keep_def)

lemma same_rows_session: "same_rows s t \<Longrightarrow> x \<in> set (mdb_sessions s) \<Longrightarrow> x \<in> set (mdb_sessions t)"
  by (simp add: same_rows_def)

lemma session_key:
  "media_ok s \<Longrightarrow> x \<in> set (mdb_sessions s) \<Longrightarrow> key_id (ups_objectKey x) = ups_id x \<and> ups_id x < core_nextId s"
  by (simp add: media_ok_def session_row_ok_def)

lemma session_untargeted:
  "media_ok s \<Longrightarrow> x \<in> set (mdb_sessions s) \<Longrightarrow> ups_status x = INITIATED \<Longrightarrow> untargeted (ups_id x) s"
  by (fastforce simp: media_ok_def task_row_safe_def no_owner_def untargeted_def)

text \<open>The transaction that stores the row and completes the session.\<close>

definition complete_tx :: "media \<Rightarrow> 'a media_db_scheme \<Rightarrow> (unit, 'a media_db_scheme) resp" where
  "complete_tx m s = transaction s (and_then (insert_media m s)
     (\<lambda>_ s3. (Inr (), set_session_status (med_id m) COMPLETED s3)))"

lemma complete_tx_cases:
  "(\<exists>e. complete_tx m s = (Inl e, s)) \<or>
   ((\<forall>y \<in> set (mdb_media s). med_id y \<noteq> med_id m) \<and>
    complete_tx m s = (Inr (), (set_session_status (med_id m) COMPLETED s)\<lparr>mdb_media := mdb_media s @ [m]\<rparr>))"
proof -
  have "set_session_status i st (s\<lparr>mdb_media := B\<rparr>) = (set_session_status i st s)\<lparr>mdb_media := B\<rparr>" for i st B
    unfolding set_session_status_def update_sessions_def snd_conv by (rule media_db.equality) simp_all
  then show ?thesis by (auto simp: complete_tx_def insert_media_def)
qed

lemma complete_tx_keep:
  assumes "x \<in> set (mdb_sessions s)" "ups_status x = INITIATED" "med_id m = ups_id x" "row_for m (mdb_bucket s)"
  shows "media_keep s (snd (complete_tx m s))"
proof (cases "\<exists>e. complete_tx m s = (Inl e, s)")
  case False
  let ?t = "set_session_status (med_id m) COMPLETED s"
  have tx: "complete_tx m s = (Inr (), ?t\<lparr>mdb_media := mdb_media s @ [m]\<rparr>)" "\<forall>y \<in> set (mdb_media s). med_id y \<noteq> med_id m"
    using False complete_tx_cases [of m s] by blast+
  have "media_ok (?t\<lparr>mdb_media := mdb_media ?t @ [m]\<rparr>)" if ok: "media_ok s"
  proof (rule add_row_ok)
    show "media_ok ?t" using set_session_status_keep [of COMPLETED s "med_id m"] ok by (simp add: media_keep_def)
    show "untargeted (med_id m) ?t" using session_untargeted [OF ok assms(1,2)] assms(3) by (simp add: untargeted_def)
    show "med_id m < core_nextId ?t" using session_key [OF ok assms(1)] assms(3) by simp
    show "\<forall>y \<in> set (mdb_sessions ?t). ups_id y = med_id m \<longrightarrow> ups_status y \<noteq> INITIATED"
      by (auto simp: set_session_status_def update_sessions_def)
  qed (use tx(2) assms(4) in simp_all)
  then show ?thesis using tx(1) by (simp add: media_keep_def)
qed (auto simp: md.evolution_refl)


lemma med_id_of_session: "med_id (media_of_session E x preview) = ups_id x"
  by (simp add: media_of_session_def)

lemma completeUpload_keep: "media_keep s (snd (completeUpload E S u i parts s))"
proof -
  have "media_keep s1 (snd (
      case preview_step S (ups_objectKey x) preview s1 of
        (Inl e, s2) \<Rightarrow> (Inl e, set_session_status (ups_id x) UPLOAD_FAILED (deleteOrEnqueue E S (ups_objectKey x)
          (clean_preview E S preview s2)))
      | (Inr _, s2) \<Rightarrow> (case complete_tx m s2 of
          (Inl e, s3) \<Rightarrow> (Inl e, set_session_status (ups_id x) UPLOAD_FAILED (deleteOrEnqueue E S (ups_objectKey x)
            (clean_preview E S preview s3)))
        | (Inr _, s3) \<Rightarrow> (media_toResponse S m, s3))))"
    if x: "x \<in> set (mdb_sessions s1)" "ups_status x = INITIATED" "ups_objectKey x \<in> set (mdb_bucket s1)"
      and p: "preview_key (ups_id x) preview" and m: "m = media_of_session E x preview" and ok: "media_ok s1"
    for s1 x preview m
  proof -
    obtain r s2 where prev: "preview_step S (ups_objectKey x) preview s1 = (r, s2)" by fastforce
    have s2: "same_rows s1 s2" using prev preview_step_same [of s1 S "ups_objectKey x" preview] by simp
    note fail = failed_keep [OF same_rows_session [OF s2 x(1)] x(2) p, of E S]
    show ?thesis
    proof (cases r)
      case (Inl e)
      then show ?thesis using prev md.evolution_trans [OF same_rows_keep [OF s2] fail] by simp
    next
      case r: (Inr v)
      have "row_for m (mdb_bucket s2)"
        using preview_step_stores [of S "ups_objectKey x" preview s1 v s2] prev r p x session_key [OF ok x(1)]
        by (auto simp: row_for_def m media_of_session_def preview_key_def split: option.split)
      then have "media_keep s2 (snd (complete_tx m s2))"
        using complete_tx_keep [OF same_rows_session [OF s2 x(1)] x(2)] by (simp add: m media_of_session_def)
      then show ?thesis
        using prev r fail complete_tx_cases [of m s2] md.evolution_trans [OF same_rows_keep [OF s2]] by auto
    qed
  qed
  note tail = this
  have after: "media_keep s1 (snd (if len \<noteq> ups_sizeBytes x then (Inl e, set_session_status (ups_id x) UPLOAD_FAILED (deleteOrEnqueue E S (ups_objectKey x) s1)) else y))"
    if "x \<in> set (mdb_sessions s1)" "ups_status x = INITIATED" "media_keep s1 (snd y)" for s1 x len e y
    using that failed_keep [of x s1 None E S] by (simp add: preview_key_def clean_preview_def)
  have stored: "ups_objectKey x \<in> set (mdb_bucket s1)" "same_rows s s1"
    if "completeMultipartUpload S (ups_objectKey x) (ups_uploadId x) parts s = (Inr a, s1)" for x a s1
    using that complete_same [of s S "ups_objectKey x" "ups_uploadId x" parts]
    by (auto simp: completeMultipartUpload_def split: if_splits)
  have "media_keep s (snd (completeUpload E S u i parts s))" if ok: "media_ok s"
    unfolding completeUpload_def
    apply (intro md.guard_sum md.guard_option md.guard_if)
    subgoal premises prems for ctx x
      apply (rule md.and_thenI [OF complete_same [THEN same_rows_keep]], rule md.guard_option)
      subgoal premises tx for a s1 len
      proof -
        have x: "x \<in> set (mdb_sessions s1)" "ups_status x = INITIATED" "media_ok s1"
          using find_session_Some [OF prems(2)] same_rows_session [OF stored(2) [OF tx(1)]] prems(3) ok
            same_rows_keep [OF stored(2) [OF tx(1)]] by (auto simp: media_keep_def)
        show ?thesis
          unfolding Let_def
          by (rule after [OF x(1,2)], rule tail [OF x(1,2) stored(1) [OF tx(1)] _ refl x(3),
                where preview1 = "if ups_kind x = IMAGE then Some (''previews'', ctx_familyId ctx, ups_id x, ''.webp'') else None",
                unfolded preview_step_def clean_preview_def complete_tx_def med_id_of_session])
            (simp add: preview_key_def)
      qed
      done
    done
  then show ?thesis by (auto simp: media_keep_def)
qed


subsection \<open>The cleanup jobs\<close>

lemma update_sessions_fields [simp]:
  "core_nextId (snd (update_sessions P st s)) = core_nextId s"
  by (simp add: update_sessions_def)

lemma abort_each_keep:
  assumes "\<forall>x \<in> set xs. key_id (ups_objectKey x) < core_nextId s"
  shows "media_keep s (snd (abort_each E S xs n s))"
  using assms
proof (induction xs arbitrary: n s)
  case (Cons x xs)
  let ?r = "update_sessions (\<lambda>y. ups_id y = ups_id x \<and> session_expired (env_now E) y) ABORTED s"
  let ?t = "abortOrEnqueue E S (ups_objectKey x) (ups_uploadId x) (snd ?r)"
  have claim: "media_keep s (snd ?r)" by (simp add: update_sessions_keep)
  have "same_rows (snd ?r) ?t" using Cons.prems by (intro abortOrEnqueue_same) simp
  then have t: "media_keep s ?t" "core_nextId s \<le> core_nextId ?t"
    using md.evolution_trans [OF claim same_rows_keep] by (auto simp: same_rows_def)
  then have "\<forall>x \<in> set xs. key_id (ups_objectKey x) < core_nextId ?t" using Cons.prems by auto
  then have "media_keep s (snd (abort_each E S xs (n + 1) ?t))"
    using md.evolution_trans [OF t(1) Cons.IH] by blast
  moreover have "media_keep s (snd (abort_each E S xs n (snd ?r)))"
    using Cons.prems by (intro md.evolution_trans [OF claim Cons.IH]) simp
  ultimately show ?case by (simp add: case_prod_beta)
qed (simp add: md.evolution_refl)

lemma purge_keep: "media_keep s (s\<lparr>mdb_sessions := filter P (mdb_sessions s)\<rparr>)"
  by (auto simp: media_keep_def media_ok_def distinct_map_filter task_row_safe_def no_owner_def)

lemma cleanupExpiredMultipartUploads_keep: "media_keep s (snd (cleanupExpiredMultipartUploads E S retentionMs s))"
proof -
  let ?xs = "take CLEANUP_BATCH_SIZE (sort_key ups_expiresAt (filter (session_expired (env_now E)) (mdb_sessions s)))"
  have "media_keep s (snd (abort_each E S ?xs 0 s))" if ok: "media_ok s"
    using session_key [OF ok] by (intro abort_each_keep) (auto dest!: in_set_takeD)
  then have "media_ok s \<Longrightarrow> ?thesis"
    by (auto simp: cleanupExpiredMultipartUploads_def case_prod_beta intro: md.evolution_trans [OF _ purge_keep])
  then show ?thesis by (auto simp: media_keep_def)
qed

text \<open>A task of a run is claimed, tried, and removed or rescheduled; it changes no row.\<close>

lemma tasks_kept:
  assumes "\<And>t. clt_id (g t) = clt_id t" "\<And>t. clt_action (g t) = clt_action t" "\<And>t. clt_objectKey (g t) = clt_objectKey t"
  shows "same_rows s (s\<lparr>mdb_tasks := map g (mdb_tasks s)\<rparr>)"
  using assms by (simp add: same_rows_def media_keep_def media_ok_def comp_def task_row_safe_def)

lemma task_gone: "same_rows s (s\<lparr>mdb_tasks := filter P (mdb_tasks s)\<rparr>)"
  by (auto simp: same_rows_def media_keep_def media_ok_def distinct_map_filter)

lemma run_task_same:
  assumes "task_row_safe (mdb_media s) (mdb_sessions s) t"
  shows "same_rows s (snd (run_task S t s))"
proof (cases "clt_action t = DELETE_OBJECT")
  case True
  then show ?thesis
    using assms deleteFile_keep [of s "clt_objectKey t" S]
    by (simp add: run_task_def task_row_safe_def same_rows_def) (simp add: deleteFile_def)
qed (simp add: run_task_def sr.evolution_refl split: option.split)

lemma process_task_same:
  assumes "task_row_safe (mdb_media s) (mdb_sessions s) t"
  shows "same_rows s (snd (process_task E S t s))"
proof -
  let ?P = "\<lambda>x. clt_id x = clt_id t \<and> task_due (env_now E) x"
  define s0 where "s0 = s\<lparr>mdb_tasks := map (\<lambda>x. if ?P x then x\<lparr>clt_lockedUntil := Some (env_now E + LOCK_MS)\<rparr> else x) (mdb_tasks s)\<rparr>"
  have s0: "same_rows s s0" unfolding s0_def by (rule tasks_kept) simp_all
  obtain r s1 where run: "run_task S t s0 = (r, s1)" by fastforce
  have s1: "same_rows s s1"
    using sr.evolution_trans [OF s0 run_task_same [of s0 t S]] assms run by (simp add: s0_def)
  have "same_rows s1 (s1\<lparr>mdb_tasks := map (\<lambda>x. if clt_id x = clt_id t
      then retry_task (env_now E) n e x else x) (mdb_tasks s1)\<rparr>)" for n e
    by (rule tasks_kept) (simp_all add: retry_task_def)
  then show ?thesis
    using s0 run sr.evolution_trans [OF s1] task_gone [of s1]
    by (simp add: process_task_def Let_def update_many_def flip: s0_def split: sum.split)
qed

lemma process_each_keep:
  assumes "\<forall>t \<in> set ts. task_row_safe (mdb_media s) (mdb_sessions s) t"
  shows "media_keep s (snd (process_each E S ts n s))"
  using assms
proof (induction E S ts n s rule: process_each.induct)
  case (2 E S t rest completed retried s)
  obtain b s1 where p: "process_task E S t s = (b, s1)" by fastforce
  have s1: "same_rows s s1"
    using "2.prems" p process_task_same [of s t E S] by simp
  with "2.prems" have "\<forall>t \<in> set rest. task_row_safe (mdb_media s1) (mdb_sessions s1) t"
    by (simp add: same_rows_def)
  with "2.IH" p show ?case
    by (auto intro: md.evolution_trans [OF same_rows_keep [OF s1]] split: option.split bool.split)
qed (simp add: md.evolution_refl)

lemma processDue_keep: "media_keep s (snd (processDue E S s))"
proof -
  have "media_ok s \<Longrightarrow> ?thesis"
    unfolding processDue_def by (rule process_each_keep) (auto dest!: in_set_takeD simp: media_ok_def)
  then show ?thesis by (auto simp: media_keep_def)
qed

subsection \<open>Every run of the service\<close>

inductive media_call :: "'a media_db_scheme \<Rightarrow> 'a media_db_scheme \<Rightarrow> bool" where
  call_create: "media_call s (snd (media_create E S u file s))"
| call_initiate: "media_call s (snd (initiateUpload E S u input s))"
| call_complete: "media_call s (snd (completeUpload E S u i parts s))"
| call_abort: "media_call s (snd (abortUpload E S u i s))"
| call_remove: "media_call s (snd (media_remove E S u i s))"
| call_sessions: "media_call s (snd (cleanupExpiredMultipartUploads E S retentionMs s))"
| call_tasks: "media_call s (snd (processDue E S s))"

lemma media_call_keep: "media_call s t \<Longrightarrow> media_keep s t"
  by (induction rule: media_call.induct) (rule media_create_keep initiateUpload_keep completeUpload_keep
      abortUpload_keep media_remove_keep cleanupExpiredMultipartUploads_keep processDue_keep)+


subsection \<open>A run of the cleanup job, task by task\<close>

text \<open>What becomes of a task: it is gone when its call succeeds and otherwise waits for its next attempt.\<close>

definition task_succeeds :: "storage \<Rightarrow> cleanup_task \<Rightarrow> bool" where
  "task_succeeds S t \<longleftrightarrow> (if clt_action t = DELETE_OBJECT then sto_delete S (clt_objectKey t)
     else clt_uploadId t = None \<or> clt_uploadId t = Some [] \<or> sto_abort S (clt_objectKey t) (the (clt_uploadId t)))"

definition task_error :: "cleanup_task \<Rightarrow> api_error" where
  "task_error t = storage_error (if clt_action t = DELETE_OBJECT then ''Media storage delete failed''
     else ''Media multipart upload abort failed'')"

definition settle :: "storage \<Rightarrow> timestamp \<Rightarrow> cleanup_task \<Rightarrow> cleanup_task option" where
  "settle S now t = (if task_succeeds S t then None else Some (retry_task now (clt_attempts t + 1) (task_error t) t))"

lemma run_task_result: "fst (run_task S t s) = (if task_succeeds S t then Inr () else Inl (task_error t))"
  by (auto simp: run_task_def task_succeeds_def task_error_def deleteFile_def abortMultipartUpload_def split: option.split)

lemma run_task_tasks [simp]: "mdb_tasks (snd (run_task S t s)) = mdb_tasks s"
  by (auto simp: run_task_def deleteFile_def split: option.split)

lemma map_filter_twice:
  "List.map_filter f (List.map_filter g xs) = List.map_filter (\<lambda>x. Option.bind (g x) f) xs"
  by (induction xs) (auto simp: List.map_filter_simps split: option.split)

lemma map_filter_eqI: "(\<And>x. x \<in> set xs \<Longrightarrow> f x = g x) \<Longrightarrow> List.map_filter f xs = List.map_filter g xs"
  by (induction xs) (auto simp: List.map_filter_simps split: option.split)

lemma set_map_filter_iff: "y \<in> set (List.map_filter f xs) \<longleftrightarrow> (\<exists>x \<in> set xs. f x = Some y)"
  by (induction xs) (auto simp: List.map_filter_simps split: option.split)

lemma process_task_settles:
  assumes "distinct (map clt_id (mdb_tasks s))" "t \<in> set (mdb_tasks s)" "task_due (env_now E) t"
  shows "fst (process_task E S t s) = Some (task_succeeds S t)"
    and "mdb_tasks (snd (process_task E S t s)) =
      List.map_filter (\<lambda>x. if x = t then settle S (env_now E) t else Some x) (mdb_tasks s)"
proof -
  let ?P = "\<lambda>x. clt_id x = clt_id t \<and> task_due (env_now E) x"
  let ?lock = "\<lambda>x. if ?P x then x\<lparr>clt_lockedUntil := Some (env_now E + LOCK_MS)\<rparr> else x"
  have key: "clt_id x = clt_id t \<longleftrightarrow> x = t" if "x \<in> set (mdb_tasks s)" for x
    using distinct_key_eq [OF assms(1)] that assms(2) by blast
  have one: "length (filter ?P (mdb_tasks s)) = 1"
    using distinct_key_count_1 [where k = clt_id and xs = "mdb_tasks s" and x = t and P = ?P] assms by simp
  have gone: "filter (\<lambda>x. clt_id x \<noteq> clt_id t) (map ?lock xs) =
      List.map_filter (\<lambda>x. if x = t then None else Some x) xs" if "set xs \<subseteq> set (mdb_tasks s)" for xs
    using that by (induction xs) (auto simp: List.map_filter_simps key)
  have retry: "map (\<lambda>x. if clt_id x = clt_id t then retry_task (env_now E) n e x else x) (map ?lock xs) =
      List.map_filter (\<lambda>x. if x = t then Some (retry_task (env_now E) n e t) else Some x) xs"
    if "set xs \<subseteq> set (mdb_tasks s)" for xs n e
    using that assms(3) by (induction xs) (auto simp: List.map_filter_simps key retry_task_def)
  define s0 where "s0 = s\<lparr>mdb_tasks := map ?lock (mdb_tasks s)\<rparr>"
  have step: "process_task E S t s = (case run_task S t s0 of
      (Inr _, s1) \<Rightarrow> (Some True, s1\<lparr>mdb_tasks := filter (\<lambda>x. clt_id x \<noteq> clt_id t) (mdb_tasks s1)\<rparr>)
    | (Inl e, s1) \<Rightarrow> (Some False, s1\<lparr>mdb_tasks := map (\<lambda>x. if clt_id x = clt_id t
          then retry_task (env_now E) (clt_attempts t + 1) e x else x) (mdb_tasks s1)\<rparr>))"
    unfolding process_task_def Let_def update_many_def prod.case s0_def using one by simp
  define s1 where "s1 = snd (run_task S t s0)"
  have run: "run_task S t s0 = (if task_succeeds S t then Inr () else Inl (task_error t), s1)"
      "mdb_tasks s1 = map ?lock (mdb_tasks s)"
    using run_task_result [of S t s0] by (simp_all add: prod_eq_iff s1_def) (simp add: s0_def)
  show "fst (process_task E S t s) = Some (task_succeeds S t)"
    unfolding step using run(1) by simp
  show "mdb_tasks (snd (process_task E S t s)) =
      List.map_filter (\<lambda>x. if x = t then settle S (env_now E) t else Some x) (mdb_tasks s)"
    unfolding step run(1) settle_def using gone [OF subset_refl] retry [OF subset_refl] run(2) by simp
qed


lemma distinct_keys_map_filter:
  assumes "distinct (map k xs)" "\<And>x y. f x = Some y \<Longrightarrow> k y = k x"
  shows "distinct (map k (List.map_filter f xs))"
  using assms
proof (induction xs)
  case (Cons x xs)
  have "k z \<in> k ` set xs" if "z \<in> set (List.map_filter f xs)" for z
    using that Cons.prems(2) by (auto simp: set_map_filter_iff image_iff)
  with Cons show ?case by (fastforce simp: List.map_filter_simps split: option.split)
qed (simp add: List.map_filter_simps)

lemma settle_id: "settle S now x = Some y \<Longrightarrow> clt_id y = clt_id x"
  by (auto simp: settle_def retry_task_def split: if_splits)

lemma process_each_settles:
  assumes "distinct (map clt_id (mdb_tasks s))" "distinct ts" "set ts \<subseteq> set (mdb_tasks s)" "\<forall>t \<in> set ts. task_due (env_now E) t"
  shows "fst (process_each E S ts (c, r) s) = (c + length (filter (task_succeeds S) ts), r + length (filter (\<lambda>t. \<not> task_succeeds S t) ts))
    \<and> mdb_tasks (snd (process_each E S ts (c, r) s)) =
      List.map_filter (\<lambda>x. if x \<in> set ts then settle S (env_now E) x else Some x) (mdb_tasks s)"
  using assms
proof (induction ts arbitrary: c r s)
  case (Cons t rest)
  let ?one = "\<lambda>x. if x = t then settle S (env_now E) t else Some x"
  obtain s1 where p: "process_task E S t s = (Some (task_succeeds S t), s1)" "mdb_tasks s1 = List.map_filter ?one (mdb_tasks s)"
    using process_task_settles [of s t E S] Cons.prems by (cases "process_task E S t s") auto
  have other: "x \<notin> set rest" if "?one t = Some x" for x
    using that settle_id [of S "env_now E" t x] distinct_key_eq [OF Cons.prems(1), of x t] Cons.prems(2,3) by auto
  have "distinct (map clt_id (mdb_tasks s1))"
    unfolding p(2) by (rule distinct_keys_map_filter [OF Cons.prems(1)]) (auto dest: settle_id split: if_splits)
  moreover have "set rest \<subseteq> set (mdb_tasks s1)"
  proof
    fix x assume "x \<in> set rest"
    with Cons.prems(2,3) have "x \<in> set (mdb_tasks s)" "x \<noteq> t" by auto
    then show "x \<in> set (mdb_tasks s1)" unfolding p(2) set_map_filter_iff by (intro bexI [of _ x]) simp_all
  qed
  ultimately have rest: "fst (process_each E S rest (c', r') s1) = (c' + length (filter (task_succeeds S) rest), r' + length (filter (\<lambda>t. \<not> task_succeeds S t) rest))
    \<and> mdb_tasks (snd (process_each E S rest (c', r') s1)) =
      List.map_filter (\<lambda>x. if x \<in> set rest then settle S (env_now E) x else Some x) (mdb_tasks s1)" for c' r'
    using Cons.prems by (intro Cons.IH) auto
  have "List.map_filter (\<lambda>x. if x \<in> set rest then settle S (env_now E) x else Some x) (mdb_tasks s1)
      = List.map_filter (\<lambda>x. if x \<in> set (t # rest) then settle S (env_now E) x else Some x) (mdb_tasks s)"
    unfolding p(2) map_filter_twice
  proof (rule map_filter_eqI)
    fix x
    show "Option.bind (?one x) (\<lambda>x. if x \<in> set rest then settle S (env_now E) x else Some x)
        = (if x \<in> set (t # rest) then settle S (env_now E) x else Some x)"
      using other Cons.prems(2) by (cases "x = t"; cases "settle S (env_now E) t") auto
  qed
  then show ?case using rest p(1) by simp
qed (simp add: List.map_filter_def)


lemma backoff_power: "backoffMs n = 1000 * 2 ^ min n 10"
proof -
  have "(2 :: int) ^ min n 10 \<le> 2 ^ 10" by (rule power_increasing) simp_all
  then show ?thesis by (simp add: backoffMs_def MAX_BACKOFF_MS_def)
qed

text \<open>C35. A run of the storage cleanup job is, on every table with at most one batch of due tasks, the
  function that visits each task once: a due task whose call succeeds disappears, one whose call fails stays with
  one more attempt, a released lock and its next attempt \<open>2^attempts\<close> seconds later (\<open>1024\<close> seconds at most),
  and every other task, locked or not yet due, stays as it was; the counters are the sizes of the two groups.\<close>

theorem cleanup_run_settles:
  assumes "distinct (map clt_id (mdb_tasks s))"
    "length (filter (task_due (env_now E)) (mdb_tasks s)) \<le> CLEANUP_BATCH_SIZE"
  shows "mdb_tasks (snd (processDue E S s)) =
      List.map_filter (\<lambda>t. if \<not> task_due (env_now E) t then Some t else if task_succeeds S t then None
        else Some (t\<lparr>clt_attempts := clt_attempts t + 1,
          clt_nextAttemptAt := env_now E + 1000 * 2 ^ min (clt_attempts t + 1) 10,
          clt_lockedUntil := None, clt_lastError := storage_message (task_error t)\<rparr>)) (mdb_tasks s) \<and>
    fst (processDue E S s) =
      (length (filter (\<lambda>t. task_due (env_now E) t \<and> task_succeeds S t) (mdb_tasks s)),
       length (filter (\<lambda>t. task_due (env_now E) t \<and> \<not> task_succeeds S t) (mdb_tasks s)))"
proof -
  define due where "due = sort_key clt_nextAttemptAt (filter (task_due (env_now E)) (mdb_tasks s))"
  have due: "set due = {t \<in> set (mdb_tasks s). task_due (env_now E) t}" "distinct due" "take CLEANUP_BATCH_SIZE due = due"
    using assms by (auto simp: due_def distinct_map)
  have count: "length (filter P due) = length (filter (\<lambda>t. task_due (env_now E) t \<and> P t) (mdb_tasks s))" for P
    by (simp add: due_def filter_sort conj_commute)
  have run: "processDue E S s = process_each E S due (0, 0) s"
    unfolding processDue_def due_def [symmetric] due(3) ..
  have settled: "fst (process_each E S due (0, 0) s) =
        (0 + length (filter (task_succeeds S) due), 0 + length (filter (\<lambda>t. \<not> task_succeeds S t) due)) \<and>
      mdb_tasks (snd (process_each E S due (0, 0) s)) =
        List.map_filter (\<lambda>x. if x \<in> set due then settle S (env_now E) x else Some x) (mdb_tasks s)"
    by (rule process_each_settles [OF assms(1) due(2)]) (auto simp: due(1))
  have "List.map_filter (\<lambda>x. if x \<in> set due then settle S (env_now E) x else Some x) (mdb_tasks s) =
      List.map_filter (\<lambda>t. if \<not> task_due (env_now E) t then Some t else if task_succeeds S t then None
        else Some (t\<lparr>clt_attempts := clt_attempts t + 1,
          clt_nextAttemptAt := env_now E + 1000 * 2 ^ min (clt_attempts t + 1) 10,
          clt_lockedUntil := None, clt_lastError := storage_message (task_error t)\<rparr>)) (mdb_tasks s)"
    by (rule map_filter_eqI) (simp add: due(1) settle_def retry_task_def backoff_power)
  with settled show ?thesis unfolding run count by simp
qed


subsection \<open>A sample database\<close>

definition sample_storage :: storage where
  "sample_storage = \<lparr>sto_put = \<lambda>_. True, sto_initiate = \<lambda>_. Some ''u1'', sto_partUrl = \<lambda>_ _ _. Some ''https://s3'',
     sto_parts = \<lambda>_ _. Some [], sto_complete = \<lambda>_ _ _. True, sto_head = \<lambda>_. Some 10485761, sto_preview = \<lambda>_. None,
     sto_delete = \<lambda>_. False, sto_abort = \<lambda>_ _. True, sto_url = \<lambda>_. Some ''https://s3'', sto_stream = \<lambda>_ _. Some 0\<rparr>"

definition album_db :: media_db where
  "album_db = \<lparr>core_users = [], core_families = [\<lparr>family_id = 5, family_status = FamilyActive,
       family_timeZone = ''UTC'', family_locale = ''ru'', family_defaultCurrency = ''RUB'', family_archivedAt = None,
       family_dissolvedAt = None, family_createdAt = 0\<rparr>],
     core_members = [\<lparr>member_id = 11, member_familyId = 5, member_userId = 1, member_role = PARTNER, member_joinedAt = 0\<rparr>],
     core_preferences = [], core_connections = [], core_devices = [], core_feed = empty_feed, core_nextId = 100,
     mdb_media = [], mdb_sessions = [], mdb_tasks = [], mdb_messageMedia = [], mdb_bucket = []\<rparr>"

lemma album_member:
  "requireMembership 1 album_db = Inr \<lparr>ctx_familyId = 5, ctx_memberId = 11, ctx_role = PARTNER, ctx_timeZone = ''UTC'',
     ctx_locale = ''ru'', ctx_defaultCurrency = ''RUB''\<rparr>"
  by (simp add: requireMembership_def find_member_def find_family_def album_db_def)

definition photo :: uploaded_file where
  "photo = \<lparr>uf_originalName = ''Sea.JPG'', uf_mimeType = ''image/jpeg'', uf_size = 1000\<rparr>"

definition video :: upload_init where
  "video = \<lparr>ui_originalName = ''a.mp4'', ui_mimeType = ''video/mp4'', ui_sizeBytes = 10485761, ui_scope = None\<rparr>"

subsection \<open>The properties\<close>

lemma media_calls_keep: "media_call\<^sup>*\<^sup>* s t \<Longrightarrow> media_keep s t"
  by (induction rule: rtranclp_induct) (auto intro: md.evolution_refl md.evolution_trans media_call_keep)

text \<open>C34. Starting from an empty album, whatever uploads, aborts, deletions and cleanup jobs run, in whatever
  order and with whatever failures of the object store, the object of every media row and its preview are in
  the bucket, and no pending cleanup task is about to delete them.\<close>

theorem media_objects_kept:
  assumes "mdb_media s = []" "mdb_sessions s = []" "mdb_tasks s = []" "mdb_messageMedia s = []"
    "media_call\<^sup>*\<^sup>* s t" "m \<in> set (mdb_media t)"
  shows "med_objectKey m \<in> set (mdb_bucket t)
    \<and> (case med_previewObjectKey m of None \<Rightarrow> True | Some k \<Rightarrow> k \<in> set (mdb_bucket t))
    \<and> \<not> (\<exists>task \<in> set (mdb_tasks t). clt_action task = DELETE_OBJECT
          \<and> (clt_objectKey task = med_objectKey m \<or> Some (clt_objectKey task) = med_previewObjectKey m))"
proof -
  have "media_ok s" using assms(1-4) by (simp add: media_ok_def attached_ok_def)
  with media_calls_keep [OF assms(5)] have ok: "media_ok t" by (simp add: media_keep_def)
  have row: "media_row_ok (mdb_bucket t) m" using ok assms(6) by (simp add: media_ok_def)
  moreover have "key_id (clt_objectKey task) \<noteq> med_id m"
    if "task \<in> set (mdb_tasks t)" "clt_action task = DELETE_OBJECT" for task
  proof -
    have "task_row_safe (mdb_media t) (mdb_sessions t) task" using ok that(1) by (simp add: media_ok_def)
    then show ?thesis using assms(6) that(2) by (auto simp: task_row_safe_def no_owner_def)
  qed
  ultimately show ?thesis
    by (fastforce simp: media_row_ok_def split: option.splits)
qed

lemma media_objects_kept_witness:
  "(''previews'', 5, 100, ''.webp'') \<in> set (mdb_bucket (snd (media_create moscow_env sample_storage 1 photo album_db)))"
proof -
  let ?t = "snd (media_create moscow_env sample_storage 1 photo album_db)"
  have "mdb_media ?t \<noteq> []" "\<forall>m \<in> set (mdb_media ?t). med_previewObjectKey m = Some (''previews'', 5, 100, ''.webp'')"
    unfolding media_create_def photo_def album_member
    by (simp_all add: getMediaKind_def getMediaMaxSize_def media_constants fresh_def put_object_def make_preview_def
        sample_storage_def insert_media_def album_member Let_def) (simp_all add: album_db_def)
  then obtain m where m: "m \<in> set (mdb_media ?t)" "med_previewObjectKey m = Some (''previews'', 5, 100, ''.webp'')"
    using hd_in_set by blast
  have "media_call\<^sup>*\<^sup>* album_db ?t" by (rule r_into_rtranclp) (rule call_create)
  from media_objects_kept [OF _ _ _ _ this m(1)] m(2) show ?thesis by (simp add: album_db_def)
qed


lemma all_ok_map: "all_ok f xs = Inr ys \<Longrightarrow> (\<And>x y. f x = Inr y \<Longrightarrow> g y = x) \<Longrightarrow> map g ys = xs"
  by (induction xs arbitrary: ys) (auto split: sum.splits)

lemma part_count_bounds:
  assumes "0 < bytes"
  shows "(int (part_count bytes) - 1) * MEDIA_UPLOAD_PART_SIZE_BYTES < bytes" "bytes \<le> int (part_count bytes) * MEDIA_UPLOAD_PART_SIZE_BYTES"
proof -
  define q where "q = (- bytes) div 10485760"
  have q: "- bytes = 10485760 * q + (- bytes) mod 10485760" "0 \<le> (- bytes) mod 10485760" "(- bytes) mod 10485760 < 10485760"
    unfolding q_def by simp_all
  then have "q < 0" using assms by linarith
  then have "int (part_count bytes) = - q" by (simp add: part_count_def MEDIA_UPLOAD_PART_SIZE_BYTES_def q_def)
  with q show "(int (part_count bytes) - 1) * MEDIA_UPLOAD_PART_SIZE_BYTES < bytes" "bytes \<le> int (part_count bytes) * MEDIA_UPLOAD_PART_SIZE_BYTES"
    by (simp_all add: MEDIA_UPLOAD_PART_SIZE_BYTES_def)
qed

text \<open>A multipart upload that was initiated for a file of positive size has the part numbers \<open>1..n\<close> in order, where
  \<open>n\<close> is exactly the number of parts of the announced part size the file needs: one less would be too few.
  There are never more than 50; the file fits the limit of its kind, and the open session that is
  added records it and expires an hour later.\<close>

theorem upload_parts_bounds:
  assumes "initiateUpload E S userId input s = (Inr r, t)" "0 < ui_sizeBytes input"
  shows "map fst (upr_parts r) = [1..<length (upr_parts r) + 1]
    \<and> (int (length (upr_parts r)) - 1) * upr_partSizeBytes r < ui_sizeBytes input
    \<and> ui_sizeBytes input \<le> int (length (upr_parts r)) * upr_partSizeBytes r
    \<and> 1 \<le> length (upr_parts r) \<and> length (upr_parts r) \<le> 50
    \<and> (\<exists>x kind. mdb_sessions t = mdb_sessions s @ [x] \<and> ups_id x = upr_sessionId r \<and> ups_status x = INITIATED
        \<and> getMediaKind (ui_mimeType input) = Some kind \<and> ups_kind x = kind
        \<and> ups_sizeBytes x = ui_sizeBytes input \<and> ui_sizeBytes input \<le> getMediaMaxSize kind
        \<and> ups_expiresAt x = env_now E + 3600000 \<and> upr_expiresAt r = ups_expiresAt x)"
proof -
  let ?n = "part_count (ui_sizeBytes input)"
  obtain kind key up parts x where kind: "getMediaKind (ui_mimeType input) = Some kind" "ui_sizeBytes input \<le> getMediaMaxSize kind"
    and parts: "all_ok (part_url S key up) [1..<?n + 1] = Inr parts" "upr_parts r = parts"
      "upr_partSizeBytes r = MEDIA_UPLOAD_PART_SIZE_BYTES"
    and x: "mdb_sessions t = mdb_sessions s @ [x]" "ups_id x = upr_sessionId r" "ups_status x = INITIATED" "ups_kind x = kind"
      "ups_sizeBytes x = ui_sizeBytes input" "ups_expiresAt x = env_now E + 3600000" "upr_expiresAt r = ups_expiresAt x"
    using assms(1)
    by (auto simp: initiateUpload_def Let_def fresh_def MEDIA_UPLOAD_URL_EXPIRES_IN_def simp del: One_nat_def upt_Suc
        split: option.splits sum.splits if_splits)
  have numbers: "map fst parts = [1..<?n + 1]"
    by (rule all_ok_map [OF parts(1)]) (auto simp: part_url_def split: option.splits)
  then have n: "length parts = ?n" by (metis length_map length_upt add_diff_cancel_right')
  have b: "(int ?n - 1) * MEDIA_UPLOAD_PART_SIZE_BYTES < ui_sizeBytes input" "ui_sizeBytes input \<le> int ?n * MEDIA_UPLOAD_PART_SIZE_BYTES"
    using part_count_bounds [OF assms(2)] by auto
  have "ui_sizeBytes input \<le> 500 * 1024 * 1024"
    using kind(2) by (auto simp: getMediaMaxSize_def media_constants split: if_splits)
  with b assms(2) have "1 \<le> ?n" "?n \<le> 50" by (auto simp: MEDIA_UPLOAD_PART_SIZE_BYTES_def)
  with b numbers n kind x parts show ?thesis by auto
qed

lemma upload_parts_bounds_witness:
  "\<exists>r t. initiateUpload moscow_env sample_storage 1 video album_db = (Inr r, t) \<and> map fst (upr_parts r) = [1, 2]"
proof -
  have "\<exists>r t. initiateUpload moscow_env sample_storage 1 video album_db = (Inr r, t)"
    unfolding initiateUpload_def album_member video_def
    by (simp add: getMediaKind_def VIDEO_MIME_TYPES_def getMediaMaxSize_def media_constants fresh_def Let_def part_count_def
        part_url_def sample_storage_def upt_rec) (simp add: album_db_def)
  then obtain r t where run: "initiateUpload moscow_env sample_storage 1 video album_db = (Inr r, t)" by blast
  have size: "ui_sizeBytes video = 10485761" by (simp add: video_def)
  have part: "upr_partSizeBytes r = 10485760"
    using run by (auto simp: initiateUpload_def Let_def MEDIA_UPLOAD_PART_SIZE_BYTES_def split: option.splits sum.splits if_splits prod.splits)
  have "map fst (upr_parts r) = [1..<length (upr_parts r) + 1]" "(int (length (upr_parts r)) - 1) * 10485760 < 10485761"
    "10485761 \<le> int (length (upr_parts r)) * 10485760"
    using upload_parts_bounds [OF run] by (simp_all add: size part)
  moreover from this have "1 < int (length (upr_parts r))" "int (length (upr_parts r)) < 3"
    by (linarith, simp add: left_diff_distrib)
  moreover from this have "length (upr_parts r) = 2" by linarith
  ultimately show ?thesis using run by (simp add: upt_rec)
qed

lemma cleanup_run_settles_witness:
  "mdb_tasks (snd (processDue moscow_env sample_storage (enqueue_cleanup moscow_env DELETE_OBJECT (''images'', 5, 7, ''.png'') None
       (storage_error ''offline'') album_db)))
   = [\<lparr>clt_id = 100, clt_dedupeKey = (DELETE_OBJECT, (''images'', 5, 7, ''.png''), None), clt_action = DELETE_OBJECT,
       clt_objectKey = (''images'', 5, 7, ''.png''), clt_uploadId = None, clt_attempts = 1,
       clt_nextAttemptAt = env_now moscow_env + 2000, clt_lockedUntil = None,
       clt_lastError = ''Media storage delete failed''\<rparr>]"
proof -
  let ?s = "enqueue_cleanup moscow_env DELETE_OBJECT (''images'', 5, 7, ''.png'') None (storage_error ''offline'') album_db"
  have s: "mdb_tasks ?s = [\<lparr>clt_id = 100, clt_dedupeKey = (DELETE_OBJECT, (''images'', 5, 7, ''.png''), None), clt_action = DELETE_OBJECT,
       clt_objectKey = (''images'', 5, 7, ''.png''), clt_uploadId = None, clt_attempts = 0,
       clt_nextAttemptAt = env_now moscow_env, clt_lockedUntil = None, clt_lastError = ''offline''\<rparr>]"
    by (simp add: enqueue_cleanup_def album_db_def fresh_def storage_message_def storage_error_def)
  have "distinct (map clt_id (mdb_tasks ?s))" "length (filter (task_due (env_now moscow_env)) (mdb_tasks ?s)) \<le> CLEANUP_BATCH_SIZE"
    by (simp_all add: s CLEANUP_BATCH_SIZE_def)
  from conjunct1 [OF cleanup_run_settles [OF this, of sample_storage]] show ?thesis
    unfolding s by (simp add: List.map_filter_def task_due_def task_succeeds_def sample_storage_def task_error_def storage_message_def storage_error_def)
qed

end
