(* ===== verification/MessengerSpec.thy ===== *)
theory MessengerSpec
  imports Messenger MediaSpec
begin

text \<open>
  The tables of the messenger stay consistent over every sequence of calls of the messenger and of the
  media service with its jobs; a message is stored once however often it is sent; reading back page by page
  returns every message once; and what happens to a member who leaves a direct conversation.
\<close>

subsection \<open>Media calls leave the messenger alone\<close>

definition framed :: "'a media_db_scheme \<Rightarrow> 'a media_db_scheme \<Rightarrow> bool" where
  "framed s t \<longleftrightarrow> media_db.more t = media_db.more s \<and> mdb_messageMedia t = mdb_messageMedia s
     \<and> core_nextId s \<le> core_nextId t \<and> core_members t = core_members s \<and> core_families t = core_families s"

interpretation fr: evolution framed
  by unfold_locales (auto simp: framed_def)

lemma enqueue_cleanup_framed: "framed s (enqueue_cleanup E a k u e s)"
  by (simp add: framed_def enqueue_cleanup_def Let_def fresh_def)

lemma deleteOrEnqueue_framed: "framed s (deleteOrEnqueue E S k s)"
  by (simp add: deleteOrEnqueue_def deleteFile_def enqueue_cleanup_framed) (simp add: framed_def)

lemma abortOrEnqueue_framed: "framed s (abortOrEnqueue E S k u s)"
  by (simp add: abortOrEnqueue_def enqueue_cleanup_framed fr.evolution_refl split: sum.split)

lemma clean_preview_framed: "framed s (clean_preview E S p s)"
  by (simp add: clean_preview_def deleteOrEnqueue_framed fr.evolution_refl split: option.split)

lemma put_object_framed: "framed s (snd (put_object S k s))"
  by (simp add: framed_def put_object_def)

lemma preview_step_framed: "framed s (snd (preview_step S k p s))"
  by (simp add: preview_step_def make_preview_def put_object_framed fr.evolution_refl split: option.split)

lemma insert_media_framed: "framed s (snd (insert_media m s))"
  by (simp add: framed_def insert_media_def)

lemma update_sessions_framed: "framed s (snd (update_sessions P st s))"
  by (simp add: framed_def update_sessions_def)

lemma set_session_status_framed: "framed s (set_session_status i st s)"
  by (simp add: set_session_status_def update_sessions_framed)

lemma complete_tx_framed: "framed s (snd (complete_tx m s))"
  unfolding complete_tx_def
  by (intro fr.transaction_stepI fr.and_thenI insert_media_framed) (simp add: set_session_status_framed)

lemma completeMultipartUpload_framed: "framed s (snd (completeMultipartUpload S k u ps s))"
  by (simp add: framed_def completeMultipartUpload_def)

lemmas step_framed = put_object_framed preview_step_framed insert_media_framed complete_tx_framed
  deleteOrEnqueue_framed clean_preview_framed set_session_status_framed


lemma fresh_framed: "framed s (s\<lparr>core_nextId := core_nextId s + 1\<rparr>)"
  by (simp add: framed_def)

lemma via_framed: "framed s t \<Longrightarrow> framed s (deleteOrEnqueue E S k t)" "framed s t \<Longrightarrow> framed s (clean_preview E S p t)"
  "framed s t \<Longrightarrow> framed s (set_session_status i st t)" "framed s t \<Longrightarrow> framed s (snd (put_object S k t))"
  "framed s t \<Longrightarrow> framed s (snd (preview_step S k p t))" "framed s t \<Longrightarrow> framed s (snd (insert_media m t))"
  "framed s t \<Longrightarrow> framed s (snd (complete_tx m t))" "framed s t \<Longrightarrow> framed s (abortOrEnqueue E S k u t)"
  by (blast intro: fr.evolution_trans step_framed abortOrEnqueue_framed)+

lemma media_create_framed: "framed s (snd (media_create E S u file s))"
  unfolding media_create_def fresh_def prod.case Let_def clean_preview_def [symmetric] preview_step_def [symmetric]
  by (intro fr.guard_option fr.guard_if fr.guard_sum fr.resp_cases via_framed fresh_framed;
      simp add: via_framed)

lemma initiateUpload_framed: "framed s (snd (initiateUpload E S u input s))"
  unfolding initiateUpload_def fresh_def prod.case Let_def
  by (intro fr.guard_option fr.guard_if fr.guard_sum)
    (auto simp: framed_def simp del: One_nat_def intro!: via_framed(8) [unfolded framed_def] split: option.split sum.split)

lemma completeUpload_framed: "framed s (snd (completeUpload E S u i parts s))"
proof -
  have tx: "transaction s2 (and_then (insert_media (media_of_session E x p) s2)
      (\<lambda>_ s3. (Inr (), set_session_status (ups_id x) COMPLETED s3))) = complete_tx (media_of_session E x p) s2" for s2 x p
    by (simp add: complete_tx_def med_id_of_session)
  show ?thesis
    unfolding completeUpload_def Let_def tx clean_preview_def [symmetric] preview_step_def [symmetric]
    apply (intro fr.guard_option fr.guard_if fr.guard_sum fr.and_thenI completeMultipartUpload_framed)
    apply (auto intro!: fr.resp_cases via_framed fr.evolution_refl)
    done
qed

lemma abortUpload_framed: "framed s (snd (abortUpload E S u i s))"
  unfolding abortUpload_def
  by (intro fr.guards) (simp add: via_framed set_session_status_framed)

lemma media_remove_framed: "framed s (snd (media_remove E S u i s))"
proof -
  have "framed s (s\<lparr>mdb_media := ms\<rparr>)" for ms by (simp add: framed_def)
  then show ?thesis
    unfolding media_remove_def Let_def clean_preview_def [symmetric]
    by (intro fr.guards) (simp add: via_framed)
qed

lemma abort_each_framed: "framed s (snd (abort_each E S xs n s))"
proof (induction xs arbitrary: n s)
  case (Cons x xs)
  show ?case
    using fr.evolution_trans [OF update_sessions_framed Cons.IH]
      fr.evolution_trans [OF via_framed(8) [OF update_sessions_framed] Cons.IH]
    by (simp add: case_prod_beta)
qed (simp add: fr.evolution_refl)

lemma cleanupExpired_framed: "framed s (snd (cleanupExpiredMultipartUploads E S retentionMs s))"
proof -
  have "framed s t \<Longrightarrow> framed s (t\<lparr>mdb_sessions := xs\<rparr>)" for t xs by (simp add: framed_def)
  then show ?thesis by (simp add: cleanupExpiredMultipartUploads_def case_prod_beta abort_each_framed)
qed

lemma process_task_framed: "framed s (snd (process_task E S t s))"
  by (simp add: process_task_def Let_def run_task_def deleteFile_def update_many_def framed_def split: option.split sum.split)

lemma process_each_framed: "framed s (snd (process_each E S ts n s))"
proof (induction E S ts n s rule: process_each.induct)
  case (2 E S t rest completed retried s)
  obtain b s1 where p: "process_task E S t s = (b, s1)" by fastforce
  have "framed s s1" using p process_task_framed [of s E S t] by simp
  with "2.IH" p show ?case by (auto intro: fr.evolution_trans split: option.split bool.split)
qed (simp add: fr.evolution_refl)

lemma media_call_framed: "media_call s t \<Longrightarrow> framed s t"
  by (induction rule: media_call.induct) (simp_all add: media_create_framed initiateUpload_framed completeUpload_framed
      abortUpload_framed media_remove_framed cleanupExpired_framed processDue_def process_each_framed)


subsection \<open>Consistent conversations\<close>

definition owner_is :: "conversation_member list \<Rightarrow> uuid \<Rightarrow> uuid \<Rightarrow> bool" where
  "owner_is ms i u \<longleftrightarrow> (\<exists>c \<in> set ms. cm_conversationId c = i \<and> cm_userId c = u)
     \<and> (\<forall>c \<in> set ms. cm_conversationId c = i \<longrightarrow> (cm_role c = OWNER \<longleftrightarrow> cm_userId c = u))"

definition direct_ok :: "conversation_member list \<Rightarrow> conversation \<Rightarrow> bool" where
  "direct_ok ms c \<longleftrightarrow> (case cv_directKey c of None \<Rightarrow> cv_type c = GROUP
     | Some key \<Rightarrow> cv_type c = DIRECT \<and> length key = 2
         \<and> (\<forall>m \<in> set ms. cm_conversationId m = cv_id c \<longrightarrow> cm_userId m \<in> set key))"

definition same_direct :: "conversation \<Rightarrow> conversation \<Rightarrow> bool" where
  "same_direct c d \<longleftrightarrow> cv_directKey c \<noteq> None \<and> cv_directKey c = cv_directKey d \<and> cv_familyId c = cv_familyId d"

definition convs_ok :: "conversation list \<Rightarrow> bool" where
  "convs_ok cs \<longleftrightarrow> distinct (map cv_id cs) \<and> (\<forall>c \<in> set cs. \<forall>d \<in> set cs. same_direct c d \<longrightarrow> cv_id c = cv_id d)"

definition members_ok :: "conversation list \<Rightarrow> conversation_member list \<Rightarrow> bool" where
  "members_ok cs ms \<longleftrightarrow> distinct (map (\<lambda>m. (cm_conversationId m, cm_userId m)) ms)
     \<and> (\<forall>m \<in> set ms. \<exists>c \<in> set cs. cv_id c = cm_conversationId m)
     \<and> (\<forall>c \<in> set cs. (\<exists>u. owner_is ms (cv_id c) u) \<and> direct_ok ms c)"

definition messages_ok :: "conversation list \<Rightarrow> message list \<Rightarrow> bool" where
  "messages_ok cs ms \<longleftrightarrow> distinct (map msg_id ms) \<and> distinct (map (\<lambda>m. (msg_senderId m, msg_clientMessageId m)) ms)
     \<and> (\<forall>m \<in> set ms. \<exists>c \<in> set cs. cv_id c = msg_conversationId m)"

definition attachments_ok :: "message list \<Rightarrow> message_media list \<Rightarrow> bool" where
  "attachments_ok ms mms \<longleftrightarrow> distinct (map (\<lambda>a. (mm_messageId a, mm_mediaId a)) mms)
     \<and> (\<forall>a \<in> set mms. \<exists>m \<in> set ms. msg_id m = mm_messageId a)"

definition chat_rows_ok :: "'a chat_db_scheme \<Rightarrow> bool" where
  "chat_rows_ok s \<longleftrightarrow> convs_ok (cdb_conversations s) \<and> members_ok (cdb_conversations s) (cdb_members s)
     \<and> messages_ok (cdb_conversations s) (cdb_messages s) \<and> attachments_ok (cdb_messages s) (mdb_messageMedia s)
     \<and> (\<forall>c \<in> set (cdb_conversations s). cv_id c < core_nextId s) \<and> (\<forall>m \<in> set (cdb_messages s). msg_id m < core_nextId s)"

definition chat_ok :: "'a chat_db_scheme \<Rightarrow> bool" where
  "chat_ok s \<longleftrightarrow> media_ok s \<and> chat_rows_ok s"

definition chat_keep :: "'a chat_db_scheme \<Rightarrow> 'a chat_db_scheme \<Rightarrow> bool" where
  "chat_keep s t \<longleftrightarrow> (chat_ok s \<longrightarrow> chat_ok t)"

interpretation ch: evolution chat_keep
  by unfold_locales (auto simp: chat_keep_def)

lemma framed_tables:
  assumes "framed s (t :: 'a chat_db_scheme)"
  shows "cdb_conversations t = cdb_conversations s" "cdb_members t = cdb_members s" "cdb_messages t = cdb_messages s"
  using assms by (cases s; cases t; simp add: framed_def)+

lemma media_call_chat_keep: "media_call s t \<Longrightarrow> chat_keep s t"
  using media_call_keep [of s t] media_call_framed [of s t] framed_tables [of s t]
  by (fastforce simp: chat_keep_def chat_ok_def chat_rows_ok_def media_keep_def framed_def)

text \<open>A step that leaves the media tables alone.\<close>

lemma chat_keepI:
  assumes "mdb_media t = mdb_media s" "mdb_sessions t = mdb_sessions s" "mdb_tasks t = mdb_tasks s"
    "mdb_messageMedia t = mdb_messageMedia s" "mdb_bucket t = mdb_bucket s" "core_nextId s \<le> core_nextId t"
    "chat_rows_ok s \<Longrightarrow> chat_rows_ok t"
  shows "chat_keep s t"
  using media_keep_same [of t s] assms by (simp add: chat_keep_def chat_ok_def media_keep_def)

lemma current_memberD:
  "current_member u (members_of i s) = Some c \<Longrightarrow> c \<in> set (cdb_members s) \<and> cm_conversationId c = i \<and> cm_userId c = u"
  by (auto simp: current_member_def members_of_def dest: find_SomeD)

lemma requireConversation_Inr:
  "requireConversation u i s = Inr (c, ms) \<Longrightarrow>
     c \<in> set (cdb_conversations s) \<and> cv_id c = i \<and> ms = members_of i s \<and> member_in u i s"
  by (auto simp: requireConversation_def open_to_def split: sum.splits option.splits dest: find_SomeD)

lemma update_member_keep:
  assumes "\<And>c. cm_conversationId (f c) = cm_conversationId c" "\<And>c. cm_userId (f c) = cm_userId c" "\<And>c. cm_role (f c) = cm_role c"
  shows "chat_keep s (update_member i u f s)"
proof (rule chat_keepI)
  define g where "g = (\<lambda>c. if cm_conversationId c = i \<and> cm_userId c = u then f c else c)"
  have g: "cm_conversationId (g c) = cm_conversationId c" "cm_userId (g c) = cm_userId c" "cm_role (g c) = cm_role c" for c
    using assms by (auto simp: g_def)
  assume "chat_rows_ok s"
  then have "members_ok (cdb_conversations s) (map g (cdb_members s))"
    by (simp add: chat_rows_ok_def members_ok_def comp_def g owner_is_def direct_ok_def cong: option.case_cong)
  with \<open>chat_rows_ok s\<close> show "chat_rows_ok (update_member i u f s)"
    by (simp add: chat_rows_ok_def update_member_def g_def)
qed (simp_all add: update_member_def)

lemma markRead_keep: "chat_keep s (snd (markRead u i j s))"
  unfolding markRead_def Let_def
  by (intro ch.guards) (auto simp: update_member_keep)


lemma delete_member_keep:
  assumes "\<And>c. chat_rows_ok s \<Longrightarrow> c \<in> set (cdb_members s) \<Longrightarrow> cm_conversationId c = i \<Longrightarrow> cm_userId c = u \<Longrightarrow> cm_role c \<noteq> OWNER"
  shows "chat_keep s (delete_member i u s)"
proof (rule chat_keepI)
  assume ok: "chat_rows_ok s"
  let ?ms = "filter (\<lambda>c. \<not> (cm_conversationId c = i \<and> cm_userId c = u)) (cdb_members s)"
  have "owner_is ?ms j v" if "owner_is (cdb_members s) j v" for j v
    using that assms [OF ok] unfolding owner_is_def by fastforce
  then have "members_ok (cdb_conversations s) ?ms"
    using ok by (fastforce simp: chat_rows_ok_def members_ok_def distinct_map_filter direct_ok_def split: option.splits)
  with ok show "chat_rows_ok (delete_member i u s)" by (simp add: chat_rows_ok_def delete_member_def)
qed (simp_all add: delete_member_def)

text \<open>The row of a member is the only one with its key.\<close>

lemma member_unique:
  assumes "chat_rows_ok s" "c \<in> set (cdb_members s)" "d \<in> set (cdb_members s)"
    "cm_conversationId c = cm_conversationId d" "cm_userId c = cm_userId d"
  shows "c = d"
  using assms distinct_key_eq [of "\<lambda>m. (cm_conversationId m, cm_userId m)" "cdb_members s" c d]
  by (simp add: chat_rows_ok_def members_ok_def)

lemma reload_snd [simp]: "snd (reload S u i s) = s"
  by (simp add: reload_def)

lemma removeMember_keep: "chat_keep s (snd (removeMember S u i v s))"
proof -
  have "chat_keep s (delete_member i v s)"
    if t: "current_member v (members_of i s) = Some target" "cm_role target \<noteq> OWNER" for target
  proof (rule delete_member_keep)
    fix c assume "chat_rows_ok s" "c \<in> set (cdb_members s)" "cm_conversationId c = i" "cm_userId c = v"
    with current_memberD [OF t(1)] have "c = target" by (intro member_unique) auto
    then show "cm_role c \<noteq> OWNER" using t(2) by simp
  qed
  then show ?thesis
    unfolding removeMember_def
    by (intro ch.guard_sum ch.guard_pair)
      (auto simp: ch.evolution_refl dest!: requireConversation_Inr split: option.split)
qed

lemma leaveConversation_keep: "chat_keep s (snd (leaveConversation u i s))"
proof -
  have "chat_keep s (delete_member i u s)"
    if m: "\<not> (case current_member u (members_of i s) of None \<Rightarrow> False | Some m \<Rightarrow> cm_role m = OWNER)" "member_in u i s"
  proof (rule delete_member_keep)
    fix c assume c: "chat_rows_ok s" "c \<in> set (cdb_members s)" "cm_conversationId c = i" "cm_userId c = u"
    have "current_member u (members_of i s) \<noteq> None"
      using m(2) by (auto simp: member_in_def current_member_def find_None_iff)
    then obtain d where d: "current_member u (members_of i s) = Some d" by blast
    from current_memberD [OF d] c have "c = d" by (intro member_unique) auto
    then show "cm_role c \<noteq> OWNER" using m(1) d by simp
  qed
  then show ?thesis
    unfolding leaveConversation_def
    by (intro ch.guards) (auto dest!: requireConversation_Inr)
qed

lemma addMember_keep: "chat_keep s (snd (addMember E S u i v s))"
proof -
  have "chat_keep s (s\<lparr>cdb_members := cdb_members s @ [\<lparr>cm_conversationId = i, cm_userId = v, cm_role = ConversationMember,
         cm_joinedAt = env_now E, cm_lastReadAt = None, cm_lastReadMessageId = None\<rparr>]\<rparr>)"
    if c: "c \<in> set (cdb_conversations s)" "cv_id c = i" "cv_type c = GROUP" and new: "\<not> member_in v i s" for c
  proof (rule chat_keepI)
    let ?new = "\<lparr>cm_conversationId = i, cm_userId = v, cm_role = ConversationMember,
         cm_joinedAt = env_now E, cm_lastReadAt = None, cm_lastReadMessageId = None\<rparr>"
    let ?ms = "cdb_members s @ [?new]"
    assume ok: "chat_rows_ok s"
    have no: "\<forall>m \<in> set (cdb_members s). cm_conversationId m = i \<longrightarrow> cm_userId m \<noteq> v"
      using new by (auto simp: member_in_def members_of_def)
    have "owner_is ?ms j w" if "owner_is (cdb_members s) j w" for j w
      using that no by (auto simp: owner_is_def)
    moreover have "direct_ok ?ms d" if "d \<in> set (cdb_conversations s)" "direct_ok (cdb_members s) d" for d
    proof -
      have same: "cv_id d = i \<Longrightarrow> d = c"
        using ok c that distinct_key_eq [of cv_id "cdb_conversations s" d c] by (simp add: chat_rows_ok_def convs_ok_def)
      show ?thesis
      proof (cases "cv_directKey d")
        case (Some key)
        then have "cv_type d = DIRECT" using that(2) by (simp add: direct_ok_def)
        with c(3) have "d \<noteq> c" by auto
        with same have "i \<noteq> cv_id d" by blast
        with Some that(2) show ?thesis by (simp add: direct_ok_def)
      qed (use that(2) in \<open>simp add: direct_ok_def\<close>)
    qed
    moreover have "distinct (map (\<lambda>m. (cm_conversationId m, cm_userId m)) ?ms)"
      using ok no by (auto simp: chat_rows_ok_def members_ok_def)
    moreover have "\<forall>m \<in> set ?ms. \<exists>d \<in> set (cdb_conversations s). cv_id d = cm_conversationId m"
      using ok c by (auto simp: chat_rows_ok_def members_ok_def)
    moreover have "\<forall>d \<in> set (cdb_conversations s). (\<exists>w. owner_is (cdb_members s) (cv_id d) w) \<and> direct_ok (cdb_members s) d"
      using ok by (simp add: chat_rows_ok_def members_ok_def)
    ultimately have "members_ok (cdb_conversations s) ?ms"
      unfolding members_ok_def by blast
    with ok show "chat_rows_ok (s\<lparr>cdb_members := ?ms\<rparr>)" by (simp add: chat_rows_ok_def)
  qed simp_all
  then show ?thesis
    unfolding addMember_def
    by (intro ch.guards) (auto simp: ch.evolution_refl dest!: requireConversation_Inr)
qed


lemma transfer_keep:
  assumes a: "a \<in> set (cdb_members s)" "cm_conversationId a = i" "cm_userId a = u" "cm_role a = OWNER"
    and t: "b \<in> set (cdb_members s)" "cm_conversationId b = i" "cm_userId b = v" "v \<noteq> u"
  shows "chat_keep s (update_member i v (\<lambda>m. m\<lparr>cm_role := OWNER\<rparr>) (update_member i u (\<lambda>m. m\<lparr>cm_role := ADMIN\<rparr>) s))"
    (is "chat_keep s ?t")
proof (rule chat_keepI)
  define g where "g = (\<lambda>c :: conversation_member. if cm_conversationId c = i \<and> cm_userId c = v then c\<lparr>cm_role := OWNER\<rparr>
      else if cm_conversationId c = i \<and> cm_userId c = u then c\<lparr>cm_role := ADMIN\<rparr> else c)"
  have g: "cm_conversationId (g c) = cm_conversationId c" "cm_userId (g c) = cm_userId c"
      "cm_role (g c) = (if cm_conversationId c = i \<and> cm_userId c = v then OWNER
         else if cm_conversationId c = i \<and> cm_userId c = u then ADMIN else cm_role c)" for c by (simp_all add: g_def)
  have tables: "cdb_members ?t = map g (cdb_members s)"
    using t(4) by (auto simp: update_member_def g_def)
  assume ok: "chat_rows_ok s"
  have "\<exists>w. owner_is (map g (cdb_members s)) j w" if "owner_is (cdb_members s) j x" for j x
  proof (cases "j = i")
    case True
    have "cm_role c = OWNER \<longleftrightarrow> cm_userId c = u" if "c \<in> set (cdb_members s)" "cm_conversationId c = i" for c
      using \<open>owner_is (cdb_members s) j x\<close> a that True by (fastforce simp: owner_is_def)
    then have "owner_is (map g (cdb_members s)) i v"
      using t by (simp only: owner_is_def set_map bex_simps ball_simps g) auto
    then show ?thesis using True by blast
  next
    case False
    then have "owner_is (map g (cdb_members s)) j x"
      using that by (simp only: owner_is_def set_map bex_simps ball_simps g) auto
    then show ?thesis by blast
  qed
  moreover have "direct_ok (map g (cdb_members s)) c = direct_ok (cdb_members s) c" for c
    by (simp add: direct_ok_def g split: option.split)
  ultimately have "members_ok (cdb_conversations s) (map g (cdb_members s))"
    using ok by (simp add: chat_rows_ok_def members_ok_def comp_def g) blast
  with ok show "chat_rows_ok ?t"
    unfolding chat_rows_ok_def tables by (simp add: update_member_def)
qed (simp_all add: update_member_def)

lemma transferOwnership_keep: "chat_keep s (snd (transferOwnership S u i v s))"
proof -
  have "chat_keep s (update_member i v (\<lambda>m. m\<lparr>cm_role := OWNER\<rparr>) (update_member i u (\<lambda>m. m\<lparr>cm_role := ADMIN\<rparr>) s))"
    if "current_member u (members_of i s) = Some a" "cm_role a = OWNER" "current_member v (members_of i s) = Some b" "cm_userId b \<noteq> u" for a b
    using that current_memberD [OF that(1)] current_memberD [OF that(3)] by (intro transfer_keep [of a s i u b v]) auto
  then show ?thesis
    unfolding transferOwnership_def
    by (intro ch.guard_sum ch.guard_pair) (auto simp: ch.evolution_refl dest!: requireConversation_Inr split: option.split option.split_asm)
qed

lemma updateConversation_keep: "chat_keep s (snd (updateConversation E S u i title s))"
proof -
  have "chat_keep s (s\<lparr>cdb_conversations := map (\<lambda>x. if cv_id x = i then x\<lparr>cv_title := a, cv_updatedAt := b\<rparr> else x) (cdb_conversations s)\<rparr>)" for a b
  proof (rule chat_keepI)
    define g where "g = (\<lambda>x :: conversation. if cv_id x = i then x\<lparr>cv_title := a, cv_updatedAt := b\<rparr> else x)"
    have g: "cv_id (g x) = cv_id x" "cv_directKey (g x) = cv_directKey x" "cv_type (g x) = cv_type x"
        "cv_familyId (g x) = cv_familyId x" for x by (simp_all add: g_def)
    have same: "same_direct (g c) (g d) = same_direct c d" "direct_ok ms (g c) = direct_ok ms c" for c d ms
      by (simp_all add: same_direct_def direct_ok_def g split: option.split)
    assume "chat_rows_ok s"
    then have "chat_rows_ok (s\<lparr>cdb_conversations := map g (cdb_conversations s)\<rparr>)"
      by (simp add: chat_rows_ok_def convs_ok_def members_ok_def messages_ok_def comp_def g same)
    then show "chat_rows_ok (s\<lparr>cdb_conversations := map (\<lambda>x. if cv_id x = i then x\<lparr>cv_title := a, cv_updatedAt := b\<rparr> else x) (cdb_conversations s)\<rparr>)"
      by (simp add: g_def)
  qed simp_all
  then show ?thesis
    unfolding updateConversation_def Let_def by (intro ch.guards) simp
qed

lemma update_messages_keep:
  assumes "\<And>m. msg_id (f m) = msg_id m" "\<And>m. msg_senderId (f m) = msg_senderId m"
    "\<And>m. msg_clientMessageId (f m) = msg_clientMessageId m" "\<And>m. msg_conversationId (f m) = msg_conversationId m"
  shows "chat_keep s (update_messages j f s)"
proof (rule chat_keepI)
  define g where "g = (\<lambda>m. if msg_id m = j then f m else m)"
  have g: "msg_id (g m) = msg_id m" "msg_senderId (g m) = msg_senderId m" "msg_clientMessageId (g m) = msg_clientMessageId m"
      "msg_conversationId (g m) = msg_conversationId m" for m
    using assms by (simp_all add: g_def)
  assume "chat_rows_ok s"
  then have "chat_rows_ok (s\<lparr>cdb_messages := map g (cdb_messages s)\<rparr>)"
    by (simp add: chat_rows_ok_def messages_ok_def attachments_ok_def comp_def g)
  then show "chat_rows_ok (update_messages j f s)" by (simp add: update_messages_def g_def)
qed (simp_all add: update_messages_def)

lemma updateMessage_keep: "chat_keep s (snd (updateMessage E S u i j body s))"
  unfolding updateMessage_def Let_def by (intro ch.guards) (simp add: update_messages_keep)

lemma deleteMessage_keep: "chat_keep s (snd (deleteMessage E S u i j s))"
  unfolding deleteMessage_def Let_def by (intro ch.guards) (simp add: update_messages_keep)


text \<open>A new conversation with its members.\<close>

definition added :: "conversation \<Rightarrow> conversation_member list \<Rightarrow> 'a chat_db_scheme \<Rightarrow> 'a chat_db_scheme" where
  "added c ms s = s\<lparr>core_nextId := core_nextId s + 1, cdb_conversations := cdb_conversations s @ [c], cdb_members := cdb_members s @ ms\<rparr>"

lemma added_keep:
  assumes "cv_id c = core_nextId s" "\<forall>m \<in> set ms. cm_conversationId m = cv_id c" "distinct (map cm_userId ms)"
    "owner_is ms (cv_id c) u" "direct_ok ms c" "\<And>d. d \<in> set (cdb_conversations s) \<Longrightarrow> \<not> same_direct d c \<and> \<not> same_direct c d"
  shows "chat_keep s (added c ms s)"
proof (rule chat_keepI)
  assume ok: "chat_rows_ok s"
  have new: "\<forall>d \<in> set (cdb_conversations s). cv_id d \<noteq> cv_id c" using ok assms(1) by (auto simp: chat_rows_ok_def)
  then have old: "\<forall>m \<in> set (cdb_members s). cm_conversationId m \<noteq> cv_id c"
    using ok by (fastforce simp: chat_rows_ok_def members_ok_def)
  have convs: "convs_ok (cdb_conversations s @ [c])"
    using ok new assms(6) by (auto simp: chat_rows_ok_def convs_ok_def)
  let ?ms = "cdb_members s @ ms"
  have keys: "distinct (map (\<lambda>m. (cm_conversationId m, cm_userId m)) ?ms)"
  proof -
    have "distinct (map (\<lambda>m. (cm_conversationId m, cm_userId m)) ms)"
      using assms(3) by (auto simp: distinct_map inj_on_def)
    then show ?thesis using ok old assms(2) by (auto simp: chat_rows_ok_def members_ok_def)
  qed
  have old_conv: "(\<exists>w. owner_is ?ms (cv_id d) w) \<and> direct_ok ?ms d" if "d \<in> set (cdb_conversations s)" for d
  proof -
    have "cv_id d \<noteq> cv_id c" using new that by blast
    moreover have "owner_is (cdb_members s) (cv_id d) w \<Longrightarrow> owner_is ?ms (cv_id d) w" for w
      using calculation assms(2) by (auto simp: owner_is_def)
    moreover have "direct_ok (cdb_members s) d \<Longrightarrow> direct_ok ?ms d"
      using calculation(1) assms(2) by (auto simp: direct_ok_def split: option.splits)
    ultimately show ?thesis using ok that unfolding chat_rows_ok_def members_ok_def by blast
  qed
  have new_conv: "owner_is ?ms (cv_id c) u" "direct_ok ?ms c"
    using assms(4,5) old by (auto simp: owner_is_def direct_ok_def split: option.splits)
  have belongs: "\<forall>m \<in> set ?ms. \<exists>d \<in> set (cdb_conversations s @ [c]). cv_id d = cm_conversationId m"
    using ok assms(2) by (auto simp: chat_rows_ok_def members_ok_def)
  have "members_ok (cdb_conversations s @ [c]) ?ms"
    unfolding members_ok_def using keys belongs old_conv new_conv by auto
  moreover have "messages_ok (cdb_conversations s @ [c]) (cdb_messages s)"
    using ok by (auto simp: chat_rows_ok_def messages_ok_def)
  ultimately show "chat_rows_ok (added c ms s)"
    using ok convs assms(1) by (auto simp: chat_rows_ok_def added_def)
qed (simp_all add: added_def)

lemma insert_conversation_cases:
  assumes "distinct ids" "userId \<in> set ids" "ccd_type dto = DIRECT \<Longrightarrow> length ids = 2"
  shows "snd (insert_conversation E S userId familyId dto ids s) = s
    \<or> (\<exists>c ms. snd (insert_conversation E S userId familyId dto ids s) = added c ms s \<and> chat_keep s (added c ms s)
         \<and> cv_id c = core_nextId s \<and> (\<forall>m \<in> set ms. cm_conversationId m = cv_id c))"
proof (cases "case (if ccd_type dto = DIRECT then Some (createDirectKey ids) else None) of None \<Rightarrow> None
    | Some key \<Rightarrow> find_direct familyId key s")
  case None
  let ?c = "\<lparr>cv_id = core_nextId s, cv_familyId = familyId, cv_createdById = userId, cv_type = ccd_type dto,
      cv_directKey = (if ccd_type dto = DIRECT then Some (createDirectKey ids) else None),
      cv_title = (if ccd_type dto = DIRECT then None else ccd_title dto), cv_status = ConversationActive,
      cv_createdAt = env_now E, cv_updatedAt = env_now E\<rparr>"
  let ?ms = "map (\<lambda>u. \<lparr>cm_conversationId = core_nextId s, cm_userId = u, cm_role = (if u = userId then OWNER else ConversationMember),
      cm_joinedAt = env_now E, cm_lastReadAt = None, cm_lastReadMessageId = None\<rparr>) ids"
  have "chat_keep s (added ?c ?ms s)"
  proof (rule added_keep)
    show "owner_is ?ms (cv_id ?c) userId" using assms(2) by (auto simp: owner_is_def)
    show "direct_ok ?ms ?c" using assms(3) conversation_type.exhaust [of "ccd_type dto"]
      by (auto simp: direct_ok_def createDirectKey_def)
    show "\<not> same_direct d ?c \<and> \<not> same_direct ?c d" if "d \<in> set (cdb_conversations s)" for d
      using None that by (auto simp: same_direct_def find_direct_def find_None_iff split: if_splits)
  qed (use assms(1) in \<open>simp_all add: comp_def\<close>)
  moreover have "snd (insert_conversation E S userId familyId dto ids s) = added ?c ?ms s"
    unfolding insert_conversation_def Let_def None option.case fresh_def prod.case
    by (auto simp: added_def split: sum.split)
  moreover have "cv_id ?c = core_nextId s" "\<forall>m \<in> set ?ms. cm_conversationId m = cv_id ?c" by simp_all
  ultimately show ?thesis by blast
qed (simp add: insert_conversation_def)

lemma insert_conversation_keep:
  assumes "distinct ids" "userId \<in> set ids" "ccd_type dto = DIRECT \<Longrightarrow> length ids = 2"
  shows "chat_keep s (snd (insert_conversation E S userId familyId dto ids s))"
  using insert_conversation_cases [OF assms] ch.evolution_refl by metis

lemma createConversation_keep: "chat_keep s (snd (createConversation E S u dto s))"
  unfolding createConversation_def Let_def
  by (intro ch.guard_sum ch.guard_if insert_conversation_keep) (auto simp: unique_ids_def)


subsection \<open>Sending keeps both invariants\<close>

text \<open>As many matching rows as requested identifiers: each identifier has its row.\<close>

lemma all_found:
  assumes "distinct (map k xs)" "length (filter P xs) = length ids" "distinct ids" "\<And>x. P x \<Longrightarrow> k x \<in> set ids" "j \<in> set ids"
  shows "\<exists>x \<in> set xs. P x \<and> k x = j"
proof -
  have "card (set (map k (filter P xs))) = length (map k (filter P xs))"
    by (rule distinct_card [OF distinct_map_filter [OF assms(1)]])
  with assms(2) distinct_card [OF assms(3)] have "card (set (map k (filter P xs))) = card (set ids)" by simp
  moreover have "set (map k (filter P xs)) \<subseteq> set ids" using assms(4) by auto
  ultimately have "set (map k (filter P xs)) = set ids" by (intro card_subset_eq) simp_all
  with assms(5) have "j \<in> set (map k (filter P xs))" by simp
  then show ?thesis by auto
qed

definition claimed :: "uuid list \<Rightarrow> uuid \<Rightarrow> media list \<Rightarrow> media list" where
  "claimed ids familyId ms = map (\<lambda>m. if usable_media ids familyId m then m\<lparr>med_scope := CHAT\<rparr> else m) ms"

lemma claimed_ok:
  assumes "media_ok s" "\<forall>a \<in> set new. \<exists>x \<in> set (mdb_media s). usable_media ids familyId x \<and> med_id x = mm_mediaId a"
    "mdb_media t = claimed ids familyId (mdb_media s)" "mdb_sessions t = mdb_sessions s" "mdb_tasks t = mdb_tasks s"
    "mdb_bucket t = mdb_bucket s" "mdb_messageMedia t = mdb_messageMedia s @ new" "core_nextId t = core_nextId s + 1"
  shows "media_ok t"
proof -
  define g where "g = (\<lambda>m :: media. if usable_media ids familyId m then m\<lparr>med_scope := CHAT\<rparr> else m)"
  have g: "med_id (g m) = med_id m" "med_objectKey (g m) = med_objectKey m" "med_previewObjectKey (g m) = med_previewObjectKey m"
      "med_scope (g m) = (if usable_media ids familyId m then CHAT else med_scope m)" for m by (simp_all add: g_def)
  have media: "mdb_media t = map g (mdb_media s)" using assms(3) by (simp add: claimed_def g_def)
  have "attached_ok (map g (mdb_media s)) (mdb_messageMedia s @ new)"
    unfolding attached_ok_def
  proof
    fix a assume a: "a \<in> set (mdb_messageMedia s @ new)"
    then obtain x where "x \<in> set (mdb_media s)" "med_id x = mm_mediaId a" "usable_media ids familyId x \<or> med_scope x = CHAT"
      using assms(1,2) unfolding media_ok_def attached_ok_def set_append by blast
    then show "\<exists>m \<in> set (map g (mdb_media s)). med_id m = mm_mediaId a \<and> med_scope m = CHAT"
      unfolding set_map bex_simps g by auto
  qed
  moreover have "media_row_ok b (g m) = media_row_ok b m" for b m by (simp add: media_row_ok_def g split: option.split)
  moreover have "session_row_ok (map g ms) x = session_row_ok ms x" for ms x by (simp add: session_row_ok_def g)
  moreover have "task_row_safe (map g ms) xs k = task_row_safe ms xs k" for ms xs k by (simp add: task_row_safe_def no_owner_def g)
  moreover have "(\<forall>m \<in> set (mdb_media s). med_id m < core_nextId s \<and> media_row_ok (mdb_bucket s) m)"
      "(\<forall>x \<in> set (mdb_sessions s). ups_id x < core_nextId s \<and> session_row_ok (mdb_media s) x)"
      "(\<forall>k \<in> set (mdb_tasks s). clt_id k < core_nextId s \<and> key_id (clt_objectKey k) < core_nextId s
          \<and> task_row_safe (mdb_media s) (mdb_sessions s) k)"
      "distinct (map med_id (mdb_media s))" "distinct (map ups_id (mdb_sessions s))" "distinct (map clt_id (mdb_tasks s))"
    using assms(1) by (simp_all add: media_ok_def)
  ultimately show ?thesis
    unfolding media_ok_def media assms(4-8) by (simp add: comp_def g less_SucI)
qed

lemma sent_rows_ok:
  assumes "chat_rows_ok s" "msg_id m = core_nextId s" "c \<in> set (cdb_conversations s)" "cv_id c = msg_conversationId m"
    "\<forall>x \<in> set (cdb_messages s). \<not> (msg_senderId x = msg_senderId m \<and> msg_clientMessageId x = msg_clientMessageId m)"
    "distinct ids" "new = map (\<lambda>j. \<lparr>mm_messageId = msg_id m, mm_mediaId = j, mm_createdAt = now\<rparr>) ids"
    "cdb_conversations t = cdb_conversations s" "cdb_members t = cdb_members s" "cdb_messages t = cdb_messages s @ [m]"
    "mdb_messageMedia t = mdb_messageMedia s @ new" "core_nextId t = core_nextId s + 1"
  shows "chat_rows_ok t"
proof -
  have fresh: "\<forall>x \<in> set (cdb_messages s). msg_id x \<noteq> msg_id m" using assms(1,2) by (auto simp: chat_rows_ok_def)
  then have old: "\<forall>a \<in> set (mdb_messageMedia s). mm_messageId a \<noteq> msg_id m"
    using assms(1) by (fastforce simp: chat_rows_ok_def attachments_ok_def)
  have "distinct (map msg_id (cdb_messages s @ [m]))"
      "distinct (map (\<lambda>m. (msg_senderId m, msg_clientMessageId m)) (cdb_messages s @ [m]))"
    using assms(1,5) fresh by (auto simp: chat_rows_ok_def messages_ok_def)
  then have "messages_ok (cdb_conversations s) (cdb_messages s @ [m])"
    using assms(1,3,4) by (auto simp: chat_rows_ok_def messages_ok_def)
  moreover have "distinct (map (\<lambda>a. (mm_messageId a, mm_mediaId a)) (mdb_messageMedia s @ new))"
    using assms(1,6) old by (auto simp: chat_rows_ok_def attachments_ok_def assms(7) comp_def distinct_map inj_on_def)
  then have "attachments_ok (cdb_messages s @ [m]) (mdb_messageMedia s @ new)"
    using assms(1) by (auto simp: chat_rows_ok_def attachments_ok_def assms(7))
  ultimately show ?thesis
    using assms(1,2) unfolding chat_rows_ok_def assms(8-12) by (auto simp: less_SucI)
qed


lemma notify_recipients_fields [simp]:
  "mdb_media (notify_recipients E ms u m s) = mdb_media s" "mdb_sessions (notify_recipients E ms u m s) = mdb_sessions s"
  "mdb_tasks (notify_recipients E ms u m s) = mdb_tasks s" "mdb_bucket (notify_recipients E ms u m s) = mdb_bucket s"
  "mdb_messageMedia (notify_recipients E ms u m s) = mdb_messageMedia s" "core_nextId (notify_recipients E ms u m s) = core_nextId s"
  "media_db.more (notify_recipients E ms u m s) = media_db.more s" "core_members (notify_recipients E ms u m s) = core_members s"
  "core_families (notify_recipients E ms u m s) = core_families s"
  for s :: "'a media_db_scheme"
  by (simp_all add: notify_recipients_def Let_def split: option.split)

lemma notify_recipients_tables [simp]:
  "cdb_conversations (notify_recipients E ms u m s) = cdb_conversations s"
  "cdb_members (notify_recipients E ms u m s) = cdb_members s"
  "cdb_messages (notify_recipients E ms u m s) = cdb_messages s"
  for s :: "'a chat_db_scheme"
  by (simp_all add: notify_recipients_def Let_def split: option.split)

text \<open>The effect of a successful transaction that stores a message.\<close>

lemma create_message_tx_effect:
  assumes "create_message_tx E loaded u dto body ids s = (Inr m, t)" "media_ok s"
  shows "msg_id m = core_nextId s" "msg_conversationId m = cv_id (fst loaded)" "msg_senderId m = u"
    "msg_clientMessageId m = cmd_clientMessageId dto" "msg_type m = cmd_type dto" "msg_deletedAt m = None"
    "\<forall>x \<in> set (cdb_messages s). \<not> (msg_senderId x = u \<and> msg_clientMessageId x = cmd_clientMessageId dto)" "distinct ids"
    "\<forall>j \<in> set ids. \<exists>x \<in> set (mdb_media s). usable_media ids (cv_familyId (fst loaded)) x \<and> med_id x = j"
    "cdb_conversations t = cdb_conversations s" "cdb_members t = cdb_members s" "cdb_messages t = cdb_messages s @ [m]"
    "mdb_messageMedia t = mdb_messageMedia s @ map (\<lambda>j. \<lparr>mm_messageId = msg_id m, mm_mediaId = j, mm_createdAt = env_now E\<rparr>) ids"
    "mdb_media t = claimed ids (cv_familyId (fst loaded)) (mdb_media s)" "mdb_sessions t = mdb_sessions s"
    "mdb_tasks t = mdb_tasks s" "mdb_bucket t = mdb_bucket s" "core_nextId t = core_nextId s + 1"
proof -
  have none: "claimed [] f ms = ms" for f ms by (simp add: claimed_def usable_media_def)
  have found: "\<exists>x \<in> set (mdb_media s). usable_media ids f x \<and> med_id x = j"
    if "length (filter (usable_media ids f) (mdb_media s)) = length ids" "distinct ids" "j \<in> set ids" for f j
    using all_found [of med_id "mdb_media s" "usable_media ids f" ids j] that assms(2) by (auto simp: media_ok_def usable_media_def)
  show "msg_id m = core_nextId s" "msg_conversationId m = cv_id (fst loaded)" "msg_senderId m = u"
    "msg_clientMessageId m = cmd_clientMessageId dto" "msg_type m = cmd_type dto" "msg_deletedAt m = None"
    "\<forall>x \<in> set (cdb_messages s). \<not> (msg_senderId x = u \<and> msg_clientMessageId x = cmd_clientMessageId dto)" "distinct ids"
    "\<forall>j \<in> set ids. \<exists>x \<in> set (mdb_media s). usable_media ids (cv_familyId (fst loaded)) x \<and> med_id x = j"
    "cdb_conversations t = cdb_conversations s" "cdb_members t = cdb_members s" "cdb_messages t = cdb_messages s @ [m]"
    "mdb_messageMedia t = mdb_messageMedia s @ map (\<lambda>j. \<lparr>mm_messageId = msg_id m, mm_mediaId = j, mm_createdAt = env_now E\<rparr>) ids"
    "mdb_media t = claimed ids (cv_familyId (fst loaded)) (mdb_media s)" "mdb_sessions t = mdb_sessions s"
    "mdb_tasks t = mdb_tasks s" "mdb_bucket t = mdb_bucket s" "core_nextId t = core_nextId s + 1"
    using assms(1) none found
    by (auto simp: create_message_tx_def fresh_def Let_def claim_media_def update_many_def claimed_def split: if_splits)
qed


lemma create_message_tx_keep:
  assumes "fst loaded \<in> set (cdb_conversations s)" "create_message_tx E loaded u dto body ids s = (Inr m, t)"
  shows "chat_keep s t"
proof -
  have "chat_ok t" if ok: "chat_ok s"
  proof -
    have "media_ok s" using ok by (simp add: chat_ok_def)
    note eff = create_message_tx_effect [OF assms(2) this]
    let ?new = "map (\<lambda>j. \<lparr>mm_messageId = msg_id m, mm_mediaId = j, mm_createdAt = env_now E\<rparr>) ids"
    have "media_ok t"
      by (rule claimed_ok [OF \<open>media_ok s\<close> _ eff(14-17) eff(13) eff(18)]) (use eff(9) in simp)
    moreover have "chat_rows_ok t"
      by (rule sent_rows_ok [OF _ eff(1) assms(1) eff(2) [symmetric] _ eff(8) refl eff(10-13) eff(18)])
        (use ok eff(3,4,7) in \<open>simp_all add: chat_ok_def\<close>)
    ultimately show ?thesis by (simp add: chat_ok_def)
  qed
  then show ?thesis by (simp add: chat_keep_def)
qed

lemma createMessage_keep: "chat_keep s (snd (createMessage E S u i dto s))"
proof -
  have tx: "chat_keep s (snd (transaction s (create_message_tx E loaded u dto body ids s)))"
    if "requireConversation u i s = Inr loaded" for loaded body ids
    using requireConversation_Inr [of u i s "fst loaded" "snd loaded"] that
    by (intro ch.transactionI create_message_tx_keep) auto
  show ?thesis
    unfolding createMessage_def Let_def
    apply (intro ch.guard_sum ch.guard_if)
    subgoal premises prems for loaded
    proof -
      have "chat_keep s (snd (and_then (transaction s (create_message_tx E loaded u dto body ids s))
          (\<lambda>m s1. (toMessageResponse S u m s1, s1))))" for body ids
        by (rule ch.and_thenI [OF tx [OF prems(1)]]) (simp add: ch.evolution_refl)
      then show ?thesis by (auto simp: ch.evolution_refl split: option.split sum.split)
    qed
    done
qed

subsection \<open>Every run of the messenger\<close>

inductive chat_call :: "'a chat_db_scheme \<Rightarrow> 'a chat_db_scheme \<Rightarrow> bool" where
  chat_create: "chat_call s (snd (createConversation E S u cdto s))"
| chat_send: "chat_call s (snd (createMessage E S u i dto s))"
| chat_read: "chat_call s (snd (markRead u i j s))"
| chat_rename: "chat_call s (snd (updateConversation E S u i title s))"
| chat_add: "chat_call s (snd (addMember E S u i v s))"
| chat_remove: "chat_call s (snd (removeMember S u i v s))"
| chat_leave: "chat_call s (snd (leaveConversation u i s))"
| chat_transfer: "chat_call s (snd (transferOwnership S u i v s))"
| chat_edit: "chat_call s (snd (updateMessage E S u i j body s))"
| chat_delete: "chat_call s (snd (deleteMessage E S u i j s))"
| chat_media: "media_call s t \<Longrightarrow> chat_call s t"

lemma chat_call_keep: "chat_call s t \<Longrightarrow> chat_keep s t"
  by (induction rule: chat_call.induct) (simp_all add: createConversation_keep createMessage_keep markRead_keep
      updateConversation_keep addMember_keep removeMember_keep leaveConversation_keep transferOwnership_keep
      updateMessage_keep deleteMessage_keep media_call_chat_keep)

lemma chat_calls_keep: "chat_call\<^sup>*\<^sup>* s t \<Longrightarrow> chat_keep s t"
  by (induction rule: rtranclp_induct) (auto intro: ch.evolution_refl ch.evolution_trans chat_call_keep)

lemma empty_chat_ok:
  "mdb_media s = [] \<Longrightarrow> mdb_sessions s = [] \<Longrightarrow> mdb_tasks s = [] \<Longrightarrow> mdb_messageMedia s = [] \<Longrightarrow>
   cdb_conversations s = [] \<Longrightarrow> cdb_members s = [] \<Longrightarrow> cdb_messages s = [] \<Longrightarrow> chat_ok s"
  by (simp add: chat_ok_def media_ok_def attached_ok_def chat_rows_ok_def convs_ok_def members_ok_def messages_ok_def attachments_ok_def)


subsection \<open>What a call leaves of messages and direct conversations\<close>

definition message_key :: "message \<Rightarrow> uuid \<times> uuid \<times> uuid \<times> string \<times> message_type" where
  "message_key m = (msg_id m, msg_conversationId m, msg_senderId m, msg_clientMessageId m, msg_type m)"

definition conversation_key :: "conversation \<Rightarrow> uuid \<times> uuid \<times> conversation_type \<times> uuid list option" where
  "conversation_key c = (cv_id c, cv_familyId c, cv_type c, cv_directKey c)"

text \<open>Messages and conversations are only added, and a direct conversation gets no further members.\<close>

definition chat_grows :: "'a chat_db_scheme \<Rightarrow> 'a chat_db_scheme \<Rightarrow> bool" where
  "chat_grows s t \<longleftrightarrow> (chat_ok s \<longrightarrow> chat_ok t
     \<and> (\<exists>new. map message_key (cdb_messages t) = map message_key (cdb_messages s) @ new)
     \<and> (\<exists>new. map conversation_key (cdb_conversations t) = map conversation_key (cdb_conversations s) @ new)
     \<and> (\<forall>c \<in> set (cdb_conversations s). \<forall>u. cv_type c = DIRECT \<longrightarrow> member_in u (cv_id c) t \<longrightarrow> member_in u (cv_id c) s))"

lemma conversation_key_kept:
  assumes "map conversation_key ds = map conversation_key cs @ new" "c \<in> set cs"
  shows "\<exists>d \<in> set ds. conversation_key d = conversation_key c"
proof -
  have "conversation_key c \<in> set (map conversation_key ds)" using assms by auto
  then show ?thesis by auto
qed

lemma chat_grows_trans:
  assumes "chat_grows a b" "chat_grows b d"
  shows "chat_grows a d"
proof -
  have "member_in u (cv_id c) a"
    if h: "chat_ok a" "c \<in> set (cdb_conversations a)" "cv_type c = DIRECT" "member_in u (cv_id c) d" for c u
  proof -
    obtain c' where "c' \<in> set (cdb_conversations b)" "conversation_key c' = conversation_key c"
      using assms(1) h(1,2) conversation_key_kept unfolding chat_grows_def by blast
    then have "member_in u (cv_id c) b"
      using assms h by (auto simp: chat_grows_def conversation_key_def)
    then show ?thesis using assms(1) h by (simp add: chat_grows_def)
  qed
  then show ?thesis using assms by (auto simp: chat_grows_def)
qed

interpretation cg: evolution chat_grows
proof unfold_locales
  show "chat_grows s s" for s :: "'a chat_db_scheme" by (simp add: chat_grows_def)
qed (rule chat_grows_trans)

text \<open>The usual case: no new rows.\<close>

lemma chat_growsI:
  assumes "chat_keep s t" "map message_key (cdb_messages t) = map message_key (cdb_messages s)"
    "map conversation_key (cdb_conversations t) = map conversation_key (cdb_conversations s)"
    "\<And>u i c. chat_ok s \<Longrightarrow> c \<in> set (cdb_conversations s) \<Longrightarrow> cv_type c = DIRECT \<Longrightarrow> member_in u (cv_id c) t \<Longrightarrow> member_in u (cv_id c) s"
  shows "chat_grows s t"
  using assms by (simp add: chat_grows_def chat_keep_def)


lemma chat_grows_tables:
  assumes "chat_keep s t" "cdb_messages t = cdb_messages s" "cdb_conversations t = cdb_conversations s" "cdb_members t = cdb_members s"
  shows "chat_grows s t"
  using assms by (intro chat_growsI) (simp_all add: member_in_def members_of_def)

lemma member_in_update [simp]:
  assumes "\<And>c. cm_conversationId (f c) = cm_conversationId c" "\<And>c. cm_userId (f c) = cm_userId c"
  shows "member_in u j (update_member i v f s) = member_in u j s"
proof -
  define g where "g = (\<lambda>c. if cm_conversationId c = i \<and> cm_userId c = v then f c else c)"
  have g: "cm_conversationId (g c) = cm_conversationId c" "cm_userId (g c) = cm_userId c" for c using assms by (simp_all add: g_def)
  have "member_in u j (s\<lparr>cdb_members := map g (cdb_members s)\<rparr>) = member_in u j s"
    by (simp add: member_in_def members_of_def g) (metis g)
  then show ?thesis by (simp add: update_member_def g_def)
qed

lemma update_member_tables [simp]:
  "cdb_messages (update_member i v f s) = cdb_messages s" "cdb_conversations (update_member i v f s) = cdb_conversations s"
  "cdb_messages (delete_member i v s) = cdb_messages s" "cdb_conversations (delete_member i v s) = cdb_conversations s"
  by (simp_all add: update_member_def delete_member_def)

lemma member_in_delete: "member_in u j (delete_member i v s) \<longleftrightarrow> member_in u j s \<and> \<not> (j = i \<and> u = v)"
  by (auto simp: member_in_def members_of_def delete_member_def)

lemma markRead_grows: "chat_grows s (snd (markRead u i j s))"
proof (rule chat_growsI [OF markRead_keep])
  show "member_in w (cv_id c) s" if "member_in w (cv_id c) (snd (markRead u i j s))" for w c
    using that by (auto simp: markRead_def Let_def split: sum.splits option.splits)
qed (simp_all add: markRead_def Let_def split: sum.split option.split)

lemma removeMember_grows: "chat_grows s (snd (removeMember S u i v s))"
proof (rule chat_growsI [OF removeMember_keep])
  show "member_in w (cv_id c) s" if "member_in w (cv_id c) (snd (removeMember S u i v s))" for w c
    using that by (auto simp: removeMember_def member_in_delete split: sum.splits prod.splits option.splits if_splits)
qed (simp_all add: removeMember_def split: sum.split prod.split option.split)

lemma leaveConversation_grows: "chat_grows s (snd (leaveConversation u i s))"
proof (rule chat_growsI [OF leaveConversation_keep])
  show "member_in w (cv_id c) s" if "member_in w (cv_id c) (snd (leaveConversation u i s))" for w c
    using that by (auto simp: leaveConversation_def member_in_delete split: sum.splits prod.splits option.splits if_splits)
qed (simp_all add: leaveConversation_def split: sum.split prod.split option.split)

lemma transferOwnership_grows: "chat_grows s (snd (transferOwnership S u i v s))"
proof (rule chat_growsI [OF transferOwnership_keep])
  show "member_in w (cv_id c) s" if "member_in w (cv_id c) (snd (transferOwnership S u i v s))" for w c
    using that by (auto simp: transferOwnership_def split: sum.splits prod.splits option.splits if_splits)
qed (simp_all add: transferOwnership_def split: sum.split prod.split option.split)

lemma updateConversation_grows: "chat_grows s (snd (updateConversation E S u i title s))"
proof (rule chat_growsI [OF updateConversation_keep])
  show "member_in w (cv_id c) s" if "member_in w (cv_id c) (snd (updateConversation E S u i title s))" for w c
    using that by (auto simp: updateConversation_def Let_def member_in_def members_of_def split: sum.splits prod.splits if_splits)
qed (simp_all add: updateConversation_def Let_def conversation_key_def split: sum.split prod.split)

lemma update_messages_key:
  assumes "\<And>m. message_key (f m) = message_key m"
  shows "map message_key (cdb_messages (update_messages j f s)) = map message_key (cdb_messages s)"
  using assms by (simp add: update_messages_def)

lemma updateMessage_grows: "chat_grows s (snd (updateMessage E S u i j body s))"
proof (rule chat_growsI [OF updateMessage_keep])
  show "member_in w (cv_id c) s" if "member_in w (cv_id c) (snd (updateMessage E S u i j body s))" for w c
    using that by (auto simp: updateMessage_def Let_def update_messages_def member_in_def members_of_def split: sum.splits option.splits if_splits)
qed (simp_all add: updateMessage_def Let_def update_messages_def message_key_def split: sum.split option.split)

lemma deleteMessage_grows: "chat_grows s (snd (deleteMessage E S u i j s))"
proof (rule chat_growsI [OF deleteMessage_keep])
  show "member_in w (cv_id c) s" if "member_in w (cv_id c) (snd (deleteMessage E S u i j s))" for w c
    using that by (auto simp: deleteMessage_def Let_def update_messages_def member_in_def members_of_def split: sum.splits option.splits if_splits)
qed (simp_all add: deleteMessage_def Let_def update_messages_def message_key_def split: sum.split option.split)


lemma addMember_grows: "chat_grows s (snd (addMember E S u i v s))"
proof (rule chat_growsI [OF addMember_keep])
  fix w :: uuid and c
  assume ok: "chat_ok s" "c \<in> set (cdb_conversations s)" "cv_type c = DIRECT"
    and m: "member_in w (cv_id c) (snd (addMember E S u i v s))"
  show "member_in w (cv_id c) s"
  proof (cases "snd (addMember E S u i v s) = s")
    case False
    then obtain d ms where d: "requireConversation u i s = Inr (d, ms)" "cv_type d = GROUP"
      by (auto simp: addMember_def split: sum.splits prod.splits if_splits)
    have "cv_id c \<noteq> i"
    proof
      assume "cv_id c = i"
      with requireConversation_Inr [OF d(1)] ok(1,2) distinct_key_eq [of cv_id "cdb_conversations s" c d]
      have "c = d" by (simp add: chat_ok_def chat_rows_ok_def convs_ok_def)
      then show False using ok(3) d(2) by simp
    qed
    then show ?thesis
      using m by (auto simp: addMember_def member_in_def members_of_def split: sum.splits prod.splits if_splits)
  qed (use m in simp)
qed (simp_all add: addMember_def split: sum.split prod.split)

lemma added_grows:
  assumes "chat_keep s (added c ms s)" "cv_id c = core_nextId s" "\<forall>m \<in> set ms. cm_conversationId m = cv_id c"
  shows "chat_grows s (added c ms s)"
proof -
  have "member_in u (cv_id d) s"
    if "chat_ok s" "d \<in> set (cdb_conversations s)" "member_in u (cv_id d) (added c ms s)" for d u
  proof -
    have "cv_id d \<noteq> cv_id c" using that(1,2) assms(2) by (auto simp: chat_ok_def chat_rows_ok_def)
    then show ?thesis using that(3) assms(3) by (auto simp: added_def member_in_def members_of_def)
  qed
  then show ?thesis using assms(1) by (auto simp: chat_grows_def chat_keep_def added_def)
qed


lemma createConversation_grows: "chat_grows s (snd (createConversation E S u dto s))"
proof -
  have "chat_grows s (snd (insert_conversation E S u f dto ids s))"
    if "distinct ids" "u \<in> set ids" "ccd_type dto = DIRECT \<Longrightarrow> length ids = 2" for f ids
    using insert_conversation_cases [OF that, where E = E and S = S and familyId = f and s = s] cg.evolution_refl [of s] added_grows [of s] by metis
  then show ?thesis
    unfolding createConversation_def Let_def
    by (intro cg.guard_sum cg.guard_if) (auto simp: unique_ids_def)
qed

lemma create_message_tx_grows:
  assumes "fst loaded \<in> set (cdb_conversations s)" "create_message_tx E loaded u dto body ids s = (Inr m, t)"
  shows "chat_grows s t"
proof (cases "chat_ok s")
  case True
  then have "media_ok s" by (simp add: chat_ok_def)
  note eff = create_message_tx_effect [OF assms(2) this]
  show ?thesis
    using create_message_tx_keep [OF assms] eff(10-12) by (simp add: chat_grows_def chat_keep_def member_in_def members_of_def)
qed (simp add: chat_grows_def)

lemma createMessage_grows: "chat_grows s (snd (createMessage E S u i dto s))"
proof -
  have tx: "chat_grows s (snd (transaction s (create_message_tx E loaded u dto body ids s)))"
    if "requireConversation u i s = Inr loaded" for loaded body ids
    using requireConversation_Inr [of u i s "fst loaded" "snd loaded"] that
    by (intro cg.transactionI create_message_tx_grows) auto
  show ?thesis
    unfolding createMessage_def Let_def
    apply (intro cg.guard_sum cg.guard_if)
    subgoal premises prems for loaded
    proof -
      have "chat_grows s (snd (and_then (transaction s (create_message_tx E loaded u dto body ids s))
          (\<lambda>m s1. (toMessageResponse S u m s1, s1))))" for body ids
        by (rule cg.and_thenI [OF tx [OF prems(1)]]) (simp add: cg.evolution_refl)
      then show ?thesis by (auto simp: cg.evolution_refl split: option.split sum.split)
    qed
    done
qed

lemma media_call_grows: "media_call s t \<Longrightarrow> chat_grows s t"
  using framed_tables [OF media_call_framed, of s t] by (intro chat_grows_tables media_call_chat_keep) auto

lemma chat_calls_grow: "chat_call\<^sup>*\<^sup>* s t \<Longrightarrow> chat_grows s t"
proof (induction rule: rtranclp_induct)
  case (step t v)
  have "chat_grows t v" using step.hyps(2)
    by (induction rule: chat_call.induct) (simp_all add: createConversation_grows createMessage_grows markRead_grows
      updateConversation_grows addMember_grows removeMember_grows leaveConversation_grows transferOwnership_grows
      updateMessage_grows deleteMessage_grows media_call_grows)
  with step.IH show ?case by (rule chat_grows_trans)
qed (rule cg.evolution_refl)


subsection \<open>A message is sent once\<close>

lemma toMessageResponse_message: "toMessageResponse S u m s = Inr r \<Longrightarrow> msr_message r = m"
  by (auto simp: toMessageResponse_def split: sum.splits)

lemma find_sent_iff:
  assumes "chat_rows_ok s"
  shows "find_sent u k s = Some m \<longleftrightarrow> m \<in> set (cdb_messages s) \<and> msg_senderId m = u \<and> msg_clientMessageId m = k"
proof
  assume "find_sent u k s = Some m"
  then show "m \<in> set (cdb_messages s) \<and> msg_senderId m = u \<and> msg_clientMessageId m = k"
    by (auto simp: find_sent_def dest: find_SomeD)
next
  assume m: "m \<in> set (cdb_messages s) \<and> msg_senderId m = u \<and> msg_clientMessageId m = k"
  then obtain d where d: "find_sent u k s = Some d"
    by (cases "find_sent u k s") (auto simp: find_sent_def find_None_iff)
  moreover from this have "d \<in> set (cdb_messages s)" "msg_senderId d = u" "msg_clientMessageId d = k"
    by (auto simp: find_sent_def dest: find_SomeD)
  ultimately show "find_sent u k s = Some m"
    using m assms distinct_key_eq [of "\<lambda>m. (msg_senderId m, msg_clientMessageId m)" "cdb_messages s" d m]
    by (simp add: chat_rows_ok_def messages_ok_def)
qed

text \<open>Sending under a key that is taken changes nothing and answers with the message, if it answers.\<close>

lemma createMessage_again:
  assumes "find_sent u (cmd_clientMessageId dto) s = Some m"
  shows "snd (createMessage E S u i dto s) = s" "fst (createMessage E S u i dto s) = Inr r \<Longrightarrow> msr_message r = m"
  using assms toMessageResponse_message
  by (auto simp: createMessage_def Let_def split: sum.splits if_splits)

lemma createMessage_stores:
  assumes "chat_ok s" "createMessage E S u i dto s = (Inr r, s1)"
  shows "find_sent u (cmd_clientMessageId dto) s1 = Some (msr_message r)"
proof (cases "find_sent u (cmd_clientMessageId dto) s")
  case (Some m)
  then show ?thesis using createMessage_again [OF Some, of E S i] assms(2) by simp
next
  case None
  then obtain loaded body ids m where
    tx: "requireConversation u i s = Inr loaded" "create_message_tx E loaded u dto body ids s = (Inr m, s1)" "toMessageResponse S u m s1 = Inr r"
    using assms(2) by (auto simp: createMessage_def Let_def and_then_Inr transaction_Inr split: sum.splits if_splits)
  have "media_ok s" using assms(1) by (simp add: chat_ok_def)
  note eff = create_message_tx_effect [OF tx(2) this]
  have "chat_ok s1" using createMessage_keep [of s E S u i dto] assms by (simp add: chat_keep_def)
  then show ?thesis
    using eff(3,4,12) toMessageResponse_message [OF tx(3)] by (simp add: find_sent_iff chat_ok_def)
qed


lemma message_survives:
  assumes "chat_grows s t" "chat_ok s" "find_sent u k s = Some m"
  shows "\<exists>m'. find_sent u k t = Some m' \<and> message_key m' = message_key m"
proof -
  have rows: "chat_rows_ok s" "chat_rows_ok t" using assms(1,2) by (auto simp: chat_grows_def chat_ok_def)
  obtain new where "map message_key (cdb_messages t) = map message_key (cdb_messages s) @ new"
    using assms(1,2) by (auto simp: chat_grows_def)
  moreover have "message_key m \<in> set (map message_key (cdb_messages s) @ new)"
    using assms(3) by (simp add: find_sent_iff [OF rows(1)])
  ultimately have "message_key m \<in> set (map message_key (cdb_messages t))" by metis
  then obtain m' where "m' \<in> set (cdb_messages t)" "message_key m' = message_key m" by auto
  moreover from this assms(3) have "msg_senderId m' = u" "msg_clientMessageId m' = k"
    by (simp_all add: message_key_def find_sent_iff [OF rows(1)])
  ultimately show ?thesis by (auto simp: find_sent_iff [OF rows(2)])
qed

text \<open>C31. A message is sent once: after a successful call, whatever the members do in between, a call that
  repeats the client's message id changes nothing, also when it names another conversation or content; if it
  answers, it answers with the message stored first, in its conversation and with its type.\<close>

theorem message_sent_once:
  assumes "chat_ok s" "createMessage E S u i dto s = (Inr r, s1)" "chat_call\<^sup>*\<^sup>* s1 t"
    "cmd_clientMessageId dto' = cmd_clientMessageId dto"
  shows "snd (createMessage E' S' u i' dto' t) = t
    \<and> (\<forall>r'. fst (createMessage E' S' u i' dto' t) = Inr r' \<longrightarrow> message_key (msr_message r') = message_key (msr_message r))"
proof -
  have "chat_ok s1" using createMessage_keep [of s E S u i dto] assms(1,2) by (simp add: chat_keep_def)
  from message_survives [OF chat_calls_grow [OF assms(3)] this createMessage_stores [OF assms(1,2)]]
  obtain m where m: "find_sent u (cmd_clientMessageId dto') t = Some m" "message_key m = message_key (msr_message r)"
    unfolding assms(4) by blast
  show ?thesis
    using createMessage_again(1) [OF m(1)] createMessage_again(2) [OF m(1)] m(2) by metis
qed

subsection \<open>Leaving a direct conversation\<close>

lemma requireConversation_member: "requireConversation u i s = Inr l \<Longrightarrow> member_in u i s"
  by (auto simp: requireConversation_def open_to_def split: sum.splits option.splits dest: find_SomeD)

lemma leaveConversation_leaves: "leaveConversation u i s = (Inr (), t) \<Longrightarrow> \<not> member_in u i t"
  by (auto simp: leaveConversation_def member_in_delete split: sum.splits prod.splits if_splits)

lemma existing_response_conversation:
  "existing_response S u c s = Inr (r, b) \<Longrightarrow> cvr_conversation r = c \<and> \<not> b"
  by (auto simp: existing_response_def toConversationResponse_def split: sum.splits option.splits)

text \<open>C33. A member who leaves a direct conversation is locked out of it for good: whatever is called later, every
  access is refused, and creating the direct conversation of the same two members again answers with
  that old conversation and creates nothing.\<close>

theorem left_direct_locked:
  assumes "chat_ok s" "leaveConversation v i s = (Inr (), s1)" "c \<in> set (cdb_conversations s)" "cv_id c = i"
    "cv_type c = DIRECT" "chat_call\<^sup>*\<^sup>* s1 t"
    and again: "requireMembership v t = Inr ctx" "ctx_familyId ctx = cv_familyId c" "ccd_type dto = DIRECT"
      "cv_directKey c = Some (createDirectKey (unique_ids (v # ccd_memberIds dto)))"
  shows "isl (requireConversation v i t) \<and> snd (createConversation E S v dto t) = t
    \<and> (case fst (createConversation E S v dto t) of Inl _ \<Rightarrow> True | Inr (r, created) \<Rightarrow> cv_id (cvr_conversation r) = i \<and> \<not> created)"
proof (intro conjI)
  have s1: "chat_grows s s1" using leaveConversation_grows [of s v i] assms(2) by simp
  then have grows: "chat_grows s t" "chat_grows s1 t" using chat_grows_trans chat_calls_grow [OF assms(6)] by auto
  obtain c1 where c1: "c1 \<in> set (cdb_conversations s1)" "conversation_key c1 = conversation_key c"
    using s1 assms(1,3) conversation_key_kept unfolding chat_grows_def by blast
  have "chat_ok s1" using s1 assms(1) by (simp add: chat_grows_def)
  with c1 grows(2) leaveConversation_leaves [OF assms(2)] assms(4,5) have out: "\<not> member_in v i t"
    by (auto simp: chat_grows_def conversation_key_def)
  then show "isl (requireConversation v i t)"
    by (cases "requireConversation v i t") (auto dest: requireConversation_member)
  obtain d where d: "d \<in> set (cdb_conversations t)" "conversation_key d = conversation_key c"
    using grows(1) assms(1,3) conversation_key_kept unfolding chat_grows_def by blast
  have ok: "convs_ok (cdb_conversations t)" using grows(1) assms(1) by (simp add: chat_grows_def chat_ok_def chat_rows_ok_def)
  let ?key = "createDirectKey (unique_ids (v # ccd_memberIds dto))"
  obtain e where e: "find_direct (cv_familyId c) ?key t = Some e"
    using d again by (cases "find_direct (cv_familyId c) ?key t") (auto simp: find_direct_def find_None_iff conversation_key_def)
  then have "e \<in> set (cdb_conversations t)" "same_direct e d"
    using d again by (auto simp: find_direct_def same_direct_def conversation_key_def dest: find_SomeD)
  then have "cv_id e = i" using ok d assms(4) by (auto simp: convs_ok_def conversation_key_def)
  have insert: "insert_conversation E S v (cv_familyId c) dto (unique_ids (v # ccd_memberIds dto)) t = (existing_response S v e t, t)"
    using e again(3) by (simp add: insert_conversation_def)
  have run: "snd (createConversation E S v dto t) = t"
      "fst (createConversation E S v dto t) = Inr x \<Longrightarrow> existing_response S v e t = Inr x" for x
    unfolding createConversation_def again(1) sum.case Let_def again(2) insert by (simp_all split: if_splits)
  show "snd (createConversation E S v dto t) = t" by (rule run(1))
  show "case fst (createConversation E S v dto t) of Inl _ \<Rightarrow> True | Inr (r, created) \<Rightarrow> cv_id (cvr_conversation r) = i \<and> \<not> created"
  proof (cases "fst (createConversation E S v dto t)")
    case (Inr x)
    obtain r created where x: "x = (r, created)" by fastforce
    from existing_response_conversation [OF run(2) [OF Inr, unfolded x]] \<open>cv_id e = i\<close> show ?thesis
      unfolding Inr x by simp
  qed simp
qed


subsection \<open>The invariant\<close>

text \<open>C30. Starting from empty tables, whatever the members of families do with conversations, messages and media
  and whatever the cleanup jobs do: every conversation has exactly one owner, a direct conversation has no
  members but its two and is the only one of this pair in the family, no message is stored twice under a
  client's id, and every attachment belongs to a stored message and to a media row that is claimed for
  the chat and whose object is in the bucket.\<close>

theorem chats_invariant:
  assumes "mdb_media s = []" "mdb_sessions s = []" "mdb_tasks s = []" "mdb_messageMedia s = []"
    "cdb_conversations s = []" "cdb_members s = []" "cdb_messages s = []" "chat_call\<^sup>*\<^sup>* s t"
  shows "(\<forall>c \<in> set (cdb_conversations t).
        (\<exists>!m. m \<in> set (cdb_members t) \<and> cm_conversationId m = cv_id c \<and> cm_role m = OWNER)
        \<and> (cv_type c = DIRECT \<longrightarrow> (\<exists>a b. cv_directKey c = Some [a, b] \<and> (\<forall>u. member_in u (cv_id c) t \<longrightarrow> u = a \<or> u = b)))
        \<and> (\<forall>d \<in> set (cdb_conversations t). same_direct c d \<longrightarrow> c = d))
    \<and> distinct (map (\<lambda>m. (msg_senderId m, msg_clientMessageId m)) (cdb_messages t))
    \<and> (\<forall>a \<in> set (mdb_messageMedia t). (\<exists>m \<in> set (cdb_messages t). msg_id m = mm_messageId a)
        \<and> (\<exists>x \<in> set (mdb_media t). med_id x = mm_mediaId a \<and> med_scope x = CHAT \<and> med_objectKey x \<in> set (mdb_bucket t)))"
proof (intro conjI ballI impI)
  have "chat_ok t" using chat_calls_keep [OF assms(8)] empty_chat_ok [OF assms(1-7)] by (simp add: chat_keep_def)
  then have rows: "chat_rows_ok t" and media: "media_ok t" by (simp_all add: chat_ok_def)
  show "distinct (map (\<lambda>m. (msg_senderId m, msg_clientMessageId m)) (cdb_messages t))"
    using rows by (simp add: chat_rows_ok_def messages_ok_def)
  show "\<exists>m \<in> set (cdb_messages t). msg_id m = mm_messageId a" if "a \<in> set (mdb_messageMedia t)" for a
    using rows that by (simp add: chat_rows_ok_def attachments_ok_def)
  show "\<exists>x \<in> set (mdb_media t). med_id x = mm_mediaId a \<and> med_scope x = CHAT \<and> med_objectKey x \<in> set (mdb_bucket t)"
    if "a \<in> set (mdb_messageMedia t)" for a
    using media that unfolding media_ok_def attached_ok_def media_row_ok_def by blast
  fix c assume c: "c \<in> set (cdb_conversations t)"
  obtain u where u: "owner_is (cdb_members t) (cv_id c) u" and direct: "direct_ok (cdb_members t) c"
    using rows c unfolding chat_rows_ok_def members_ok_def by blast
  then obtain o1 where o1: "o1 \<in> set (cdb_members t)" "cm_conversationId o1 = cv_id c" "cm_userId o1 = u"
    by (auto simp: owner_is_def)
  show "\<exists>!m. m \<in> set (cdb_members t) \<and> cm_conversationId m = cv_id c \<and> cm_role m = OWNER"
  proof (rule ex1I [of _ o1])
    show "o1 \<in> set (cdb_members t) \<and> cm_conversationId o1 = cv_id c \<and> cm_role o1 = OWNER"
      using o1 u by (auto simp: owner_is_def)
    show "m = o1" if "m \<in> set (cdb_members t) \<and> cm_conversationId m = cv_id c \<and> cm_role m = OWNER" for m
      using that o1 u by (intro member_unique [OF rows]) (auto simp: owner_is_def)
  qed
  show "\<exists>a b. cv_directKey c = Some [a, b] \<and> (\<forall>u. member_in u (cv_id c) t \<longrightarrow> u = a \<or> u = b)" if dir: "cv_type c = DIRECT"
  proof -
    obtain key where key: "cv_directKey c = Some key" "length key = 2"
        "\<forall>m \<in> set (cdb_members t). cm_conversationId m = cv_id c \<longrightarrow> cm_userId m \<in> set key"
      using direct dir by (auto simp: direct_ok_def split: option.splits)
    then obtain a b where "key = [a, b]" by (auto simp: length_Suc_conv numeral_2_eq_2)
    with key show ?thesis by (fastforce simp: member_in_def members_of_def)
  qed
  show "c = d" if "d \<in> set (cdb_conversations t)" "same_direct c d" for d
  proof -
    have "cv_id c = cv_id d" using rows c that by (simp add: chat_rows_ok_def convs_ok_def)
    with rows c that(1) show ?thesis
      using distinct_key_eq [of cv_id "cdb_conversations t" c d] by (simp add: chat_rows_ok_def convs_ok_def)
  qed
qed

subsection \<open>Reading the history back\<close>

text \<open>The client asks for the newest page and then, while there may be more, for the page before the cursor.\<close>

fun read_back :: "nat \<Rightarrow> (messages_query \<Rightarrow> api_error + message_page) \<Rightarrow> nat \<Rightarrow> uuid option \<Rightarrow> message_response list option" where
  "read_back 0 get limit cursor = None"
| "read_back (Suc n) get limit cursor = (case get \<lparr>msq_limit = limit, msq_beforeId = cursor, msq_afterId = None\<rparr> of
     Inl _ \<Rightarrow> None
   | Inr p \<Rightarrow> if mpg_hasMore p then map_option (\<lambda>older. older @ mpg_items p) (read_back n get limit (mpg_nextCursor p))
       else Some (mpg_items p))"

lemma strict_prefix_filter:
  assumes "sorted (map f xs)" "distinct (map f xs)" "k < length xs"
  shows "filter (\<lambda>x. f x < f (xs ! k)) xs = take k xs"
  using assms
proof (induction xs arbitrary: k)
  case (Cons x xs)
  show ?case
  proof (cases k)
    case 0
    have "\<not> f y < f x" if "y \<in> set xs" for y using Cons.prems(1) that by (auto simp: not_less)
    then show ?thesis using 0 by (simp add: filter_empty_conv)
  next
    case (Suc j)
    have "xs ! j \<in> set xs" using Cons.prems(3) Suc by simp
    then have "f x \<le> f (xs ! j)" "f x \<noteq> f (xs ! j)" using Cons.prems(1,2) by auto
    then have "f x < f (xs ! j)" by (simp add: less_le)
    then show ?thesis using Suc Cons by simp
  qed
qed simp

lemma before_cursor_order: "before_cursor c = (\<lambda>m. message_order m < message_order c)"
  by (auto simp: fun_eq_iff before_cursor_def message_order_def less_prod_def)


text \<open>The page before position \<open>k\<close> of the history.\<close>

lemma history_page:
  assumes "chat_rows_ok s" "requireConversation u i s = Inr l" "\<forall>m \<in> set (messages_in i s). \<not> isl (toMessageResponse S u m s)"
    "xs = sort_key message_order (messages_in i s)"
    "k = length xs \<and> cursor = None \<or> k < length xs \<and> cursor = Some (msg_id (xs ! k))"
  shows "\<exists>p. getMessages S u i \<lparr>msq_limit = limit, msq_beforeId = cursor, msq_afterId = None\<rparr> s = Inr p
    \<and> map msr_message (mpg_items p) = drop (k - limit) (take k xs)
    \<and> mpg_hasMore p = (length (drop (k - limit) (take k xs)) = limit)
    \<and> mpg_nextCursor p = (case drop (k - limit) (take k xs) of [] \<Rightarrow> None | m # _ \<Rightarrow> Some (msg_id m))"
proof -
  let ?q = "\<lparr>msq_limit = limit, msq_beforeId = cursor, msq_afterId = None\<rparr>"
  have set: "set xs = set (messages_in i s)" by (simp add: assms(4))
  have "distinct (map msg_id (cdb_messages s))" using assms(1) by (simp add: chat_rows_ok_def messages_ok_def)
  then have ids: "distinct (map msg_id (messages_in i s))" by (simp add: messages_in_def distinct_map_filter)
  have "distinct (map message_order (messages_in i s))"
    using ids by (auto simp: distinct_map inj_on_def message_order_def)
  then have keys: "distinct (map message_order xs)"
    by (auto simp: assms(4) distinct_map)
  have sorted: "sorted (map message_order xs)" by (simp add: assms(4))
  have "\<exists>P. cursor_filter ?q i s = Inr P \<and> filter P xs = take k xs"
    using assms(5)
  proof
    assume k: "k < length xs \<and> cursor = Some (msg_id (xs ! k))"
    then have "xs ! k \<in> set (messages_in i s)" using set nth_mem by blast
    then have "find_first (\<lambda>m. msg_id m = msg_id (xs ! k) \<and> msg_conversationId m = i) (cdb_messages s) = Some (xs ! k)"
      using \<open>distinct (map msg_id (cdb_messages s))\<close>
      by (intro find_unique_key [where k = msg_id and c = "msg_id (xs ! k)"]) (auto simp: messages_in_def)
    moreover have "filter (before_cursor (xs ! k)) xs = take k xs"
      using strict_prefix_filter [OF sorted keys conjunct1 [OF k]] by (simp add: before_cursor_order)
    ultimately show ?thesis using k by (simp add: cursor_filter_def)
  qed (auto simp: cursor_filter_def intro: exI [of _ "\<lambda>m. True"])
  then obtain P where P: "cursor_filter ?q i s = Inr P" "filter P xs = take k xs" by blast
  have "sort_key message_order (filter P (messages_in i s)) = take k xs"
    using P(2) by (simp add: assms(4) filter_sort)
  then have items: "page_items ?q i P s = drop (k - limit) (take k xs)"
    using assms(5) by (auto simp: page_items_def take_rev)
  have sub: "set (drop (k - limit) (take k xs)) \<subseteq> set (messages_in i s)"
    unfolding set [symmetric] by (meson order.trans set_drop_subset set_take_subset)
  have "\<exists>rs. all_ok (\<lambda>m. toMessageResponse S u m s) ms = Inr rs \<and> map msr_message rs = ms"
    if "set ms \<subseteq> set (messages_in i s)" for ms
    using that assms(3)
  proof (induction ms)
    case (Cons m ms)
    then obtain r rs where "toMessageResponse S u m s = Inr r" "all_ok (\<lambda>m. toMessageResponse S u m s) ms = Inr rs" "map msr_message rs = ms"
      by (cases "toMessageResponse S u m s") auto
    then show ?case by (simp add: toMessageResponse_message)
  qed simp
  from this [OF sub] obtain rs where "all_ok (\<lambda>m. toMessageResponse S u m s) (drop (k - limit) (take k xs)) = Inr rs"
      "map msr_message rs = drop (k - limit) (take k xs)" by blast
  then show ?thesis by (simp add: getMessages_def assms(2) P(1) items Let_def)
qed


text \<open>C32. A client that reads the history of a conversation backwards, with pages of at least one message, gets to
  its beginning: \<open>length div limit + 1\<close> requests are enough, and the pages put together are all messages of
  the conversation, each once and oldest first.  (The attachments must be readable.)\<close>

theorem history_read_back:
  assumes "chat_ok s" "requireConversation u i s = Inr l" "\<forall>m \<in> set (messages_in i s). \<not> isl (toMessageResponse S u m s)"
    "0 < limit"
  shows "\<exists>items. read_back (length (messages_in i s) div limit + 1) (\<lambda>q. getMessages S u i q s) limit None = Some items
    \<and> map msr_message items = sort_key message_order (messages_in i s)"
proof -
  define xs where "xs = sort_key message_order (messages_in i s)"
  have rows: "chat_rows_ok s" using assms(1) by (simp add: chat_ok_def)
  have "\<exists>items. read_back (k div limit + 1) (\<lambda>q. getMessages S u i q s) limit cursor = Some items \<and> map msr_message items = take k xs"
    if "k = length xs \<and> cursor = None \<or> k < length xs \<and> cursor = Some (msg_id (xs ! k))" for k cursor
    using that
  proof (induction k arbitrary: cursor rule: less_induct)
    case (less k)
    let ?page = "drop (k - limit) (take k xs)"
    obtain p where p: "getMessages S u i \<lparr>msq_limit = limit, msq_beforeId = cursor, msq_afterId = None\<rparr> s = Inr p"
        "map msr_message (mpg_items p) = ?page" "mpg_hasMore p = (length ?page = limit)"
        "mpg_nextCursor p = (case ?page of [] \<Rightarrow> None | m # _ \<Rightarrow> Some (msg_id m))"
      using history_page [OF rows assms(2,3) xs_def less.prems] by blast
    have k: "k \<le> length xs" using less.prems by auto
    show ?case
    proof (cases "limit \<le> k")
      case False
      then show ?thesis using p k by simp
    next
      case True
      then have more: "mpg_hasMore p" using p(3) k by simp
      have j: "k - limit < length xs" "k - limit < k" using True k assms(4) by auto
      then have "?page = xs ! (k - limit) # drop (Suc (k - limit)) (take k xs)"
        by (simp add: Cons_nth_drop_Suc [symmetric] k)
      then have cursor: "mpg_nextCursor p = Some (msg_id (xs ! (k - limit)))" using p(4) by simp
      obtain older where older: "read_back ((k - limit) div limit + 1) (\<lambda>q. getMessages S u i q s) limit (mpg_nextCursor p) = Some older"
          "map msr_message older = take (k - limit) xs"
        using less.IH [OF j(2), of "mpg_nextCursor p"] j(1) cursor by blast
      have "k div limit = (k - limit) div limit + 1" using True assms(4) by (simp add: le_div_geq)
      moreover have "take (k - limit) xs @ ?page = take k xs"
        by (metis append_take_drop_id j(2) less_imp_le_nat min.absorb1 take_take)
      ultimately show ?thesis using p(1,2) more older by simp
    qed
  qed
  from this [of "length xs" None] show ?thesis by (simp add: xs_def)
qed


subsection \<open>A sample conversation\<close>

definition pair_db :: chat_db where
  "pair_db = \<lparr>core_users = [], core_families = [\<lparr>family_id = 5, family_status = FamilyActive,
       family_timeZone = ''UTC'', family_locale = ''ru'', family_defaultCurrency = ''RUB'', family_archivedAt = None,
       family_dissolvedAt = None, family_createdAt = 0\<rparr>],
     core_members = [\<lparr>member_id = 11, member_familyId = 5, member_userId = 1, member_role = PARTNER, member_joinedAt = 0\<rparr>,
       \<lparr>member_id = 12, member_familyId = 5, member_userId = 2, member_role = PARTNER, member_joinedAt = 0\<rparr>],
     core_preferences = [], core_connections = [], core_devices = [], core_feed = empty_feed, core_nextId = 100,
     mdb_media = [], mdb_sessions = [], mdb_tasks = [], mdb_messageMedia = [], mdb_bucket = [],
     cdb_conversations = [], cdb_members = [], cdb_messages = []\<rparr>"

definition direct_dto :: "uuid \<Rightarrow> create_conversation_dto" where
  "direct_dto other = \<lparr>ccd_type = DIRECT, ccd_title = None, ccd_memberIds = [other]\<rparr>"

definition direct_row :: conversation where
  "direct_row = \<lparr>cv_id = 100, cv_familyId = 5, cv_createdById = 1, cv_type = DIRECT, cv_directKey = Some [1, 2], cv_title = None,
     cv_status = ConversationActive, cv_createdAt = env_now moscow_env, cv_updatedAt = env_now moscow_env\<rparr>"

definition sample_member :: "uuid \<Rightarrow> conversation_role \<Rightarrow> conversation_member" where
  "sample_member u role = \<lparr>cm_conversationId = 100, cm_userId = u, cm_role = role, cm_joinedAt = env_now moscow_env,
     cm_lastReadAt = None, cm_lastReadMessageId = None\<rparr>"

definition direct_db :: chat_db where
  "direct_db = pair_db\<lparr>core_nextId := 101, cdb_conversations := [direct_row],
     cdb_members := [sample_member 1 OWNER, sample_member 2 ConversationMember]\<rparr>"

lemma pair_member:
  "requireMembership 1 pair_db = Inr \<lparr>ctx_familyId = 5, ctx_memberId = 11, ctx_role = PARTNER, ctx_timeZone = ''UTC'',
     ctx_locale = ''ru'', ctx_defaultCurrency = ''RUB''\<rparr>"
  "requireMembership 2 pair_db = Inr \<lparr>ctx_familyId = 5, ctx_memberId = 12, ctx_role = PARTNER, ctx_timeZone = ''UTC'',
     ctx_locale = ''ru'', ctx_defaultCurrency = ''RUB''\<rparr>"
  by (simp_all add: requireMembership_def find_member_def find_family_def pair_db_def)

lemma direct_created: "snd (createConversation moscow_env sample_storage 1 (direct_dto 2) pair_db) = direct_db"
  unfolding createConversation_def pair_member sum.case Let_def
  by (simp add: direct_dto_def unique_ids_def family_members_among_def find_family_def insert_conversation_def createDirectKey_def
      find_direct_def fresh_def toConversationResponse_def direct_db_def direct_row_def sample_member_def Let_def)
    (simp add: pair_db_def fresh_def toConversationResponse_def Let_def)

lemma direct_reached: "chat_call\<^sup>*\<^sup>* pair_db direct_db"
  unfolding direct_created [symmetric] by (rule r_into_rtranclp) (rule chat_create)

lemma direct_ok: "chat_ok direct_db"
  using chat_calls_keep [OF direct_reached] empty_chat_ok [of pair_db] by (simp add: chat_keep_def pair_db_def)

lemma chats_invariant_witness:
  "\<exists>!m. m \<in> set (cdb_members direct_db) \<and> cm_conversationId m = 100 \<and> cm_role m = OWNER"
  using chats_invariant [OF _ _ _ _ _ _ _ direct_reached] by (simp add: pair_db_def direct_db_def direct_row_def)


definition hello :: "string \<Rightarrow> create_message_dto" where
  "hello words = \<lparr>cmd_clientMessageId = ''k1'', cmd_type = TEXT, cmd_text = Some words, cmd_mediaIds = None\<rparr>"

lemma direct_tables [simp]:
  "cdb_conversations direct_db = [direct_row]" "cdb_members direct_db = [sample_member 1 OWNER, sample_member 2 ConversationMember]"
  "cdb_messages direct_db = []" "mdb_messageMedia direct_db = []" "core_users direct_db = []" "core_feed direct_db = empty_feed"
  "core_members direct_db = core_members pair_db" "core_families direct_db = core_families pair_db"
  by (simp_all add: direct_db_def pair_db_def)

lemma direct_member: "requireMembership u direct_db = requireMembership u pair_db"
  by (rule requireMembership_cong) simp_all

lemma direct_open:
  "requireConversation 1 100 direct_db = Inr (direct_row, cdb_members direct_db)"
  "requireConversation 2 100 direct_db = Inr (direct_row, cdb_members direct_db)"
  unfolding requireConversation_def direct_member pair_member
  by (simp_all add: open_to_def member_in_def members_of_def direct_row_def sample_member_def)

lemma text_response:
  assumes "mdb_messageMedia t = []" "core_members t = core_members pair_db" "core_families t = core_families pair_db"
  shows "\<exists>r. toMessageResponse S 1 m t = Inr r"
proof -
  have "requireMembership 1 t = requireMembership 1 pair_db" using assms by (intro requireMembership_cong) simp_all
  then show ?thesis by (simp add: toMessageResponse_def attachments_of_def assms(1) findManyByIds_def pair_member Let_def del: One_nat_def)
qed

lemma message_sent_once_witness:
  "\<exists>r t. createMessage moscow_env sample_storage 1 100 (hello ''Hi'') direct_db = (Inr r, t)
     \<and> snd (createMessage moscow_env sample_storage 1 100 (hello ''Hello again'') t) = t"
proof -
  have "\<exists>r t. createMessage moscow_env sample_storage 1 100 (hello ''Hi'') direct_db = (Inr r, t)"
    unfolding createMessage_def direct_open
    by (simp add: hello_def Let_def find_sent_def check_media_def create_message_tx_def fresh_def claim_media_def js_trim_def js_space_def
        notify_recipients_def push_body_def text_response [unfolded One_nat_def])
  then obtain r t where sent: "createMessage moscow_env sample_storage 1 100 (hello ''Hi'') direct_db = (Inr r, t)" by blast
  from message_sent_once [OF direct_ok sent rtranclp.rtrancl_refl, of "hello ''Hello again''" moscow_env sample_storage 100] sent
  show ?thesis by (auto simp: hello_def)
qed

lemma left_direct_locked_witness:
  "isl (requireConversation 2 100 (delete_member 100 2 direct_db))
     \<and> snd (createConversation moscow_env sample_storage 2 (direct_dto 1) (delete_member 100 2 direct_db)) = delete_member 100 2 direct_db"
proof -
  have left: "leaveConversation 2 100 direct_db = (Inr (), delete_member 100 2 direct_db)"
    unfolding leaveConversation_def using direct_open(2)
    by (simp add: current_member_def direct_db_def sample_member_def)
  have member: "requireMembership 2 (delete_member 100 2 direct_db) = requireMembership 2 pair_db"
    by (rule requireMembership_cong) (simp_all add: delete_member_def direct_db_def)
  show ?thesis
    using left_direct_locked [OF direct_ok left, of direct_row "delete_member 100 2 direct_db" _ "direct_dto 1" moscow_env sample_storage]
    unfolding member pair_member
    by (simp add: direct_db_def direct_row_def direct_dto_def createDirectKey_def unique_ids_def)
qed

text \<open>Three messages, stored in another order than they were sent in, read in pages of two.\<close>

definition spoken :: "uuid \<Rightarrow> message" where
  "spoken i = \<lparr>msg_id = i, msg_conversationId = 100, msg_senderId = 1, msg_clientMessageId = replicate i (CHR ''k''), msg_type = TEXT,
     msg_text = Some ''Hi'', msg_createdAt = int i, msg_updatedAt = int i, msg_deletedAt = None\<rparr>"

definition spoken_db :: chat_db where
  "spoken_db = direct_db\<lparr>cdb_messages := [spoken 2, spoken 3, spoken 1]\<rparr>"

lemma spoken_ok: "chat_ok spoken_db"
proof -
  have n: "core_nextId direct_db = 101" by (simp add: direct_db_def)
  have "media_ok spoken_db" using direct_ok by (simp add: chat_ok_def spoken_db_def media_ok_def)
  moreover have "chat_rows_ok spoken_db"
    using direct_ok
    by (simp add: chat_ok_def chat_rows_ok_def spoken_db_def messages_ok_def attachments_ok_def spoken_def direct_row_def n
        replicate_eq_replicate [of _ _ 1 "CHR ''k''", simplified])
  ultimately show ?thesis by (simp add: chat_ok_def)
qed

lemma spoken_open: "requireConversation 1 100 spoken_db = Inr (direct_row, cdb_members spoken_db)"
proof -
  have "requireMembership 1 spoken_db = requireMembership 1 pair_db"
    by (rule requireMembership_cong) (simp_all add: spoken_db_def)
  then show ?thesis
    unfolding requireConversation_def pair_member
    by (simp add: spoken_db_def open_to_def member_in_def members_of_def direct_row_def sample_member_def pair_member)
qed

lemma history_read_back_witness:
  "\<exists>items. read_back 2 (\<lambda>q. getMessages sample_storage 1 100 q spoken_db) 2 None = Some items
     \<and> map (\<lambda>r. msg_id (msr_message r)) items = [1, 2, 3]"
proof -
  have stored: "messages_in 100 spoken_db = [spoken 2, spoken 3, spoken 1]"
    by (simp add: messages_in_def spoken_db_def spoken_def)
  have sorted: "sort_key message_order [spoken 2, spoken 3, spoken 1] = [spoken 1, spoken 2, spoken 3]"
    by (simp add: sort_key_def message_order_def spoken_def)
  have two: "length [spoken 2, spoken 3, spoken 1] div 2 + 1 = 2" by simp
  have "\<exists>r. toMessageResponse sample_storage 1 m spoken_db = Inr r" for m
    by (rule text_response) (simp_all add: spoken_db_def)
  then have "\<forall>m \<in> set [spoken 2, spoken 3, spoken 1]. \<not> isl (toMessageResponse sample_storage 1 m spoken_db)"
    by (metis sum.disc(2))
  from history_read_back [OF spoken_ok spoken_open, unfolded stored sorted, OF this, of 2, unfolded two]
  obtain items where items: "read_back 2 (\<lambda>q. getMessages sample_storage 1 100 q spoken_db) 2 None = Some items"
    "map msr_message items = [spoken 1, spoken 2, spoken 3]" by auto
  have "map msg_id (map msr_message items) = [1, 2, 3]" unfolding items(2) by (simp add: spoken_def)
  then show ?thesis using items(1) by (auto simp: o_def)
qed

end
