(* ===== verification/Wellbeing.thy ===== *)
theory Wellbeing
  imports Tasks
begin

text \<open>
  The wellbeing diary: \<open>modules/wellbeing/wellbeing.service.ts\<close>.  Check-ins belong to one member; what a
  partner sees of them is decided by consent grants with scopes and an expiry.  Besides, there are
  assessments, gratitudes, support requests, rituals and couple meetings whose answers are published.
  None of the operations but \<open>deleteAll\<close> runs in a transaction.
\<close>

subsection \<open>Rows and requests\<close>

record check_in =
  wci_id :: uuid
  wci_familyId :: uuid
  wci_ownerId :: uuid
  wci_mood :: int
  wci_energy :: int
  wci_stress :: int
  wci_note :: "string option"
  wci_supportRequest :: bool
  wci_createdAt :: timestamp
  wci_updatedAt :: timestamp

record consent_grant =
  wcg_id :: uuid
  wcg_familyId :: uuid
  wcg_ownerId :: uuid
  wcg_recipientId :: uuid
  wcg_scopes :: "string list"
  wcg_expiresAt :: "timestamp option"
  wcg_revokedAt :: "timestamp option"
  wcg_createdAt :: timestamp

record assessment =
  was_id :: uuid
  was_familyId :: uuid
  was_ownerId :: uuid
  was_answers :: "int list"
  was_score :: int
  was_createdAt :: timestamp

record gratitude =
  wgr_id :: uuid
  wgr_familyId :: uuid
  wgr_authorId :: uuid
  wgr_recipientId :: uuid
  wgr_message :: string
  wgr_createdAt :: timestamp

datatype support_status = SupportOpen | SupportAcknowledged | SupportClosed

record support_request =
  wsr_id :: uuid
  wsr_familyId :: uuid
  wsr_requesterId :: uuid
  wsr_recipientId :: uuid
  wsr_message :: "string option"
  wsr_status :: support_status
  wsr_createdAt :: timestamp

record ritual =
  wri_id :: uuid
  wri_familyId :: uuid
  wri_createdById :: uuid
  wri_title :: string
  wri_description :: "string option"
  wri_cadence :: string
  wri_nextAt :: timestamp
  wri_isActive :: bool
  wri_createdAt :: timestamp

record couple_meeting =
  wcm_id :: uuid
  wcm_familyId :: uuid
  wcm_createdById :: uuid
  wcm_title :: string
  wcm_scheduledAt :: timestamp
  wcm_sections :: "string list"
  wcm_responses :: "(uuid \<times> string) list"
  wcm_publishedAt :: "timestamp option"
  wcm_sharedDecision :: "string option"
  wcm_createdAt :: timestamp

record wellbeing_db = core +
  wdb_checkIns :: "check_in list"
  wdb_grants :: "consent_grant list"
  wdb_assessments :: "assessment list"
  wdb_gratitudes :: "gratitude list"
  wdb_supports :: "support_request list"
  wdb_rituals :: "ritual list"
  wdb_meetings :: "couple_meeting list"

record check_in_dto =
  cid_mood :: int
  cid_energy :: int
  cid_stress :: int
  cid_note :: "string option"
  cid_supportRequest :: "bool option"

record consent_dto =
  ccd_recipientId :: uuid
  ccd_scopes :: "string list"
  ccd_expiresAt :: "timestamp option"

record ritual_dto =
  crd_title :: string
  crd_description :: "string option"
  crd_cadence :: string
  crd_nextAt :: timestamp

record update_ritual_dto =
  urd_title :: "string option"
  urd_description :: "string option"
  urd_cadence :: "string option"
  urd_nextAt :: "timestamp option"
  urd_isActive :: "bool option"

record meeting_dto =
  cmd_title :: string
  cmd_scheduledAt :: timestamp
  cmd_sections :: "string list"

record update_meeting_dto =
  umd_title :: "string option"
  umd_scheduledAt :: "timestamp option"
  umd_sections :: "string list option"

definition WELLBEING_SCOPES :: "string list" where
  "WELLBEING_SCOPES = [''mood'', ''energy'', ''stress'', ''supportRequest'']"

subsection \<open>Check-ins\<close>

definition wellbeing_create :: "env \<Rightarrow> uuid \<Rightarrow> check_in_dto \<Rightarrow> wellbeing_db \<Rightarrow> (check_in, wellbeing_db) resp" where
  "wellbeing_create E userId dto s = (case requireMembership userId s of Inl e \<Rightarrow> (Inl e, s)
   | Inr ctx \<Rightarrow> (case fresh s of (i, s1) \<Rightarrow>
       let row = \<lparr>wci_id = i, wci_familyId = ctx_familyId ctx, wci_ownerId = userId, wci_mood = cid_mood dto,
           wci_energy = cid_energy dto, wci_stress = cid_stress dto, wci_note = cid_note dto,
           wci_supportRequest = keep (cid_supportRequest dto) False, wci_createdAt = env_now E, wci_updatedAt = env_now E\<rparr>
       in (Inr row, s1\<lparr>wdb_checkIns := wdb_checkIns s1 @ [row]\<rparr>)))"

definition own_check_ins :: "uuid \<Rightarrow> wellbeing_db \<Rightarrow> check_in list" where
  "own_check_ins userId s = filter (\<lambda>c. wci_ownerId c = userId) (wdb_checkIns s)"

definition wellbeing_list :: "uuid \<Rightarrow> wellbeing_db \<Rightarrow> api_error + check_in list" where
  "wellbeing_list userId s = (case requireMembership userId s of Inl e \<Rightarrow> Inl e
   | Inr _ \<Rightarrow> Inr (sort_key (\<lambda>c. - wci_createdAt c) (own_check_ins userId s)))"

definition wellbeing_findOne :: "uuid \<Rightarrow> uuid \<Rightarrow> wellbeing_db \<Rightarrow> api_error + check_in" where
  "wellbeing_findOne userId i s = (case requireMembership userId s of Inl e \<Rightarrow> Inl e
   | Inr _ \<Rightarrow> (case find_first (\<lambda>c. wci_id c = i \<and> wci_ownerId c = userId) (wdb_checkIns s) of
       None \<Rightarrow> Inl (NotFound ''The wellbeing check-in does not exist'') | Some c \<Rightarrow> Inr c))"

definition wellbeing_remove :: "uuid \<Rightarrow> uuid \<Rightarrow> wellbeing_db \<Rightarrow> (unit, wellbeing_db) resp" where
  "wellbeing_remove userId i s = (case wellbeing_findOne userId i s of Inl e \<Rightarrow> (Inl e, s)
   | Inr _ \<Rightarrow> (Inr (), s\<lparr>wdb_checkIns := filter (\<lambda>c. wci_id c \<noteq> i) (wdb_checkIns s)\<rparr>))"

subsection \<open>Consents\<close>

definition partner_in :: "uuid \<Rightarrow> uuid \<Rightarrow> 'a core_scheme \<Rightarrow> bool" where
  "partner_in familyId userId s \<longleftrightarrow> find_first (\<lambda>m. member_familyId m = familyId \<and> member_userId m = userId
     \<and> member_role m = PARTNER) (core_members s) \<noteq> None"

definition grant_pair :: "uuid \<Rightarrow> uuid \<Rightarrow> consent_grant \<Rightarrow> bool" where
  "grant_pair ownerId recipientId g \<longleftrightarrow> wcg_ownerId g = ownerId \<and> wcg_recipientId g = recipientId"

definition grantConsent :: "env \<Rightarrow> uuid \<Rightarrow> consent_dto \<Rightarrow> wellbeing_db \<Rightarrow> (consent_grant, wellbeing_db) resp" where
  "grantConsent E userId dto s = (case requireMembership userId s of Inl e \<Rightarrow> (Inl e, s)
   | Inr ctx \<Rightarrow>
     if ccd_recipientId dto = userId \<or> ccd_scopes dto = [] then
       (Inl (BadRequest ''A partner and at least one wellbeing scope are required''), s)
     else if (case ccd_expiresAt dto of None \<Rightarrow> False | Some t \<Rightarrow> t \<le> env_now E) then
       (Inl (BadRequest ''Wellbeing consent expiry must be in the future''), s)
     else if \<not> partner_in (ctx_familyId ctx) (ccd_recipientId dto) s then
       (Inl (NotFound ''The partner does not exist in this family''), s)
     else (case find_first (grant_pair userId (ccd_recipientId dto)) (wdb_grants s) of
       None \<Rightarrow> (case fresh s of (i, s1) \<Rightarrow>
         let g = \<lparr>wcg_id = i, wcg_familyId = ctx_familyId ctx, wcg_ownerId = userId,
               wcg_recipientId = ccd_recipientId dto, wcg_scopes = ccd_scopes dto,
               wcg_expiresAt = ccd_expiresAt dto, wcg_revokedAt = None, wcg_createdAt = env_now E\<rparr>
         in (Inr g, s1\<lparr>wdb_grants := wdb_grants s1 @ [g]\<rparr>))
     | Some g0 \<Rightarrow>
         let w = (\<lambda>g. g\<lparr>wcg_familyId := ctx_familyId ctx, wcg_scopes := ccd_scopes dto,
               wcg_expiresAt := ccd_expiresAt dto, wcg_revokedAt := None\<rparr>)
         in (Inr (w g0), s\<lparr>wdb_grants := map (\<lambda>g. if grant_pair userId (ccd_recipientId dto) g then w g else g)
               (wdb_grants s)\<rparr>)))"

definition listConsents :: "uuid \<Rightarrow> wellbeing_db \<Rightarrow> api_error + consent_grant list" where
  "listConsents userId s = (case requireMembership userId s of Inl e \<Rightarrow> Inl e
   | Inr ctx \<Rightarrow> Inr (sort_key (\<lambda>g. - wcg_createdAt g)
       (filter (\<lambda>g. wcg_familyId g = ctx_familyId ctx \<and> wcg_ownerId g = userId) (wdb_grants s))))"

definition revokeConsent :: "env \<Rightarrow> uuid \<Rightarrow> uuid \<Rightarrow> wellbeing_db \<Rightarrow> (unit, wellbeing_db) resp" where
  "revokeConsent E userId i s =
    (case update_many (\<lambda>g. wcg_id g = i \<and> wcg_ownerId g = userId \<and> wcg_revokedAt g = None)
        (\<lambda>g. g\<lparr>wcg_revokedAt := Some (env_now E)\<rparr>) (wdb_grants s) of
      (count, gs) \<Rightarrow> ((if count = 0 then Inl (NotFound ''The wellbeing consent does not exist'') else Inr ()),
        s\<lparr>wdb_grants := gs\<rparr>))"

text \<open>What a partner sees of a check-in: its identity and the granted columns.  The object of columns is a
  map from the names to the values.\<close>

datatype column_value = ColumnNumber int | ColumnFlag bool

definition check_in_column :: "check_in \<Rightarrow> string \<Rightarrow> column_value" where
  "check_in_column c scope =
    (if scope = ''mood'' then ColumnNumber (wci_mood c) else if scope = ''energy'' then ColumnNumber (wci_energy c)
     else if scope = ''stress'' then ColumnNumber (wci_stress c) else ColumnFlag (wci_supportRequest c))"

record shared_check_in =
  sci_id :: uuid
  sci_ownerId :: uuid
  sci_createdAt :: timestamp
  sci_updatedAt :: timestamp
  sci_owner :: "uuid \<times> string \<times> string"
  sci_columns :: "string \<Rightarrow> column_value option"

definition shared_row :: "consent_grant \<Rightarrow> user \<Rightarrow> check_in \<Rightarrow> shared_check_in" where
  "shared_row g u c = \<lparr>sci_id = wci_id c, sci_ownerId = wci_ownerId c, sci_createdAt = wci_createdAt c,
     sci_updatedAt = wci_updatedAt c, sci_owner = (user_id u, user_firstName u, user_lastName u),
     sci_columns = map_of (map (\<lambda>scope. (scope, check_in_column c scope))
       (filter (\<lambda>scope. List.member WELLBEING_SCOPES scope) (wcg_scopes g)))\<rparr>"

definition owner_shares :: "uuid \<Rightarrow> uuid \<Rightarrow> 'a core_scheme \<Rightarrow> bool" where
  "owner_shares familyId ownerId s \<longleftrightarrow> (case find_user ownerId s of None \<Rightarrow> False | Some u \<Rightarrow> user_isActive u)
     \<and> (case find_member ownerId s of None \<Rightarrow> False | Some m \<Rightarrow> member_familyId m = familyId)"

definition family_is_active :: "uuid \<Rightarrow> 'a core_scheme \<Rightarrow> bool" where
  "family_is_active familyId s \<longleftrightarrow> (case find_family familyId s of None \<Rightarrow> False | Some f \<Rightarrow> family_status f = FamilyActive)"

definition grant_usable :: "env \<Rightarrow> uuid \<Rightarrow> uuid \<Rightarrow> wellbeing_db \<Rightarrow> consent_grant \<Rightarrow> bool" where
  "grant_usable E familyId userId s g \<longleftrightarrow> wcg_familyId g = familyId \<and> wcg_recipientId g = userId
     \<and> family_is_active familyId s \<and> owner_shares familyId (wcg_ownerId g) s \<and> wcg_revokedAt g = None
     \<and> (case wcg_expiresAt g of None \<Rightarrow> True | Some t \<Rightarrow> t > env_now E)"

definition sharedWithMe :: "env \<Rightarrow> uuid \<Rightarrow> wellbeing_db \<Rightarrow> api_error + shared_check_in list" where
  "sharedWithMe E userId s = (case requireMembership userId s of Inl e \<Rightarrow> Inl e
   | Inr ctx \<Rightarrow>
     let grants = filter (grant_usable E (ctx_familyId ctx) userId s) (wdb_grants s);
         rows = concat (map (\<lambda>g. case find_user (wcg_ownerId g) s of None \<Rightarrow> []
           | Some u \<Rightarrow> map (shared_row g u) (sort_key (\<lambda>c. - wci_createdAt c)
               (filter (\<lambda>c. wci_ownerId c = wcg_ownerId g \<and> wci_familyId c = ctx_familyId ctx) (wdb_checkIns s)))) grants)
     in Inr (sort_key (\<lambda>r. - sci_createdAt r) rows))"

subsection \<open>Assessments, trends, export and deletion\<close>

definition createAssessment :: "env \<Rightarrow> uuid \<Rightarrow> int list \<Rightarrow> wellbeing_db \<Rightarrow> (assessment, wellbeing_db) resp" where
  "createAssessment E userId answers s = (case requireMembership userId s of Inl e \<Rightarrow> (Inl e, s)
   | Inr ctx \<Rightarrow> (case fresh s of (i, s1) \<Rightarrow>
       let row = \<lparr>was_id = i, was_familyId = ctx_familyId ctx, was_ownerId = userId, was_answers = answers,
           was_score = fold (\<lambda>answer sum. sum + answer) answers 0, was_createdAt = env_now E\<rparr>
       in (Inr row, s1\<lparr>wdb_assessments := wdb_assessments s1 @ [row]\<rparr>)))"

definition own_assessments :: "uuid \<Rightarrow> wellbeing_db \<Rightarrow> assessment list" where
  "own_assessments userId s = filter (\<lambda>a. was_ownerId a = userId) (wdb_assessments s)"

definition listAssessments :: "uuid \<Rightarrow> wellbeing_db \<Rightarrow> api_error + assessment list" where
  "listAssessments userId s = (case requireMembership userId s of Inl e \<Rightarrow> Inl e
   | Inr _ \<Rightarrow> Inr (sort_key (\<lambda>a. - was_createdAt a) (own_assessments userId s)))"

text \<open>A point of the trends: identifier, mood, energy, stress, support request and time; an assessment: identifier,
  score and time.\<close>

definition trends :: "uuid \<Rightarrow> wellbeing_db
    \<Rightarrow> api_error + (uuid \<times> int \<times> int \<times> int \<times> bool \<times> timestamp) list \<times> (uuid \<times> int \<times> timestamp) list" where
  "trends userId s = (case wellbeing_list userId s of Inl e \<Rightarrow> Inl e
   | Inr checkIns \<Rightarrow> (case listAssessments userId s of Inl e \<Rightarrow> Inl e
     | Inr assessments \<Rightarrow> Inr (map (\<lambda>c. (wci_id c, wci_mood c, wci_energy c, wci_stress c, wci_supportRequest c,
           wci_createdAt c)) checkIns,
         map (\<lambda>a. (was_id a, was_score a, was_createdAt a)) assessments)))"

definition of_author :: "uuid \<Rightarrow> gratitude \<Rightarrow> bool" where
  "of_author userId g \<longleftrightarrow> wgr_authorId g = userId \<or> wgr_recipientId g = userId"

definition of_requester :: "uuid \<Rightarrow> support_request \<Rightarrow> bool" where
  "of_requester userId r \<longleftrightarrow> wsr_requesterId r = userId \<or> wsr_recipientId r = userId"

record wellbeing_export =
  wex_checkIns :: "check_in list"
  wex_assessments :: "assessment list"
  wex_gratitudes :: "gratitude list"
  wex_supportRequests :: "support_request list"
  wex_rituals :: "ritual list"
  wex_coupleMeetings :: "couple_meeting list"

definition wellbeing_exportData :: "uuid \<Rightarrow> wellbeing_db \<Rightarrow> api_error + wellbeing_export" where
  "wellbeing_exportData userId s = (case requireMembership userId s of Inl e \<Rightarrow> Inl e
   | Inr _ \<Rightarrow> Inr \<lparr>wex_checkIns = sort_key wci_createdAt (own_check_ins userId s),
       wex_assessments = sort_key was_createdAt (own_assessments userId s),
       wex_gratitudes = sort_key wgr_createdAt (filter (of_author userId) (wdb_gratitudes s)),
       wex_supportRequests = sort_key wsr_createdAt (filter (of_requester userId) (wdb_supports s)),
       wex_rituals = sort_key wri_createdAt (filter (\<lambda>r. wri_createdById r = userId) (wdb_rituals s)),
       wex_coupleMeetings = sort_key wcm_createdAt (filter (\<lambda>m. wcm_createdById m = userId) (wdb_meetings s))\<rparr>)"

definition wellbeing_deleteAll :: "uuid \<Rightarrow> wellbeing_db \<Rightarrow> (unit, wellbeing_db) resp" where
  "wellbeing_deleteAll userId s = (case requireMembership userId s of Inl e \<Rightarrow> (Inl e, s)
   | Inr _ \<Rightarrow> (Inr (), s\<lparr>
       wdb_grants := filter (\<lambda>g. \<not> (wcg_ownerId g = userId \<or> wcg_recipientId g = userId)) (wdb_grants s),
       wdb_assessments := filter (\<lambda>a. was_ownerId a \<noteq> userId) (wdb_assessments s),
       wdb_checkIns := filter (\<lambda>c. wci_ownerId c \<noteq> userId) (wdb_checkIns s),
       wdb_gratitudes := filter (\<lambda>g. \<not> of_author userId g) (wdb_gratitudes s),
       wdb_supports := filter (\<lambda>r. \<not> of_requester userId r) (wdb_supports s),
       wdb_rituals := filter (\<lambda>r. wri_createdById r \<noteq> userId) (wdb_rituals s),
       wdb_meetings := filter (\<lambda>m. wcm_createdById m \<noteq> userId) (wdb_meetings s)\<rparr>))"

subsection \<open>Gratitudes and support requests\<close>

definition createGratitude :: "env \<Rightarrow> uuid \<Rightarrow> uuid \<Rightarrow> string \<Rightarrow> wellbeing_db \<Rightarrow> (gratitude, wellbeing_db) resp" where
  "createGratitude E userId recipientId message s = (case requireMembership userId s of Inl e \<Rightarrow> (Inl e, s)
   | Inr ctx \<Rightarrow>
     if recipientId = userId then (Inl (BadRequest ''You cannot thank yourself''), s)
     else if \<not> partner_in (ctx_familyId ctx) recipientId s then
       (Inl (NotFound ''The partner does not exist in this family''), s)
     else (case fresh s of (i, s1) \<Rightarrow>
       let row = \<lparr>wgr_id = i, wgr_familyId = ctx_familyId ctx, wgr_authorId = userId, wgr_recipientId = recipientId,
             wgr_message = message, wgr_createdAt = env_now E\<rparr>
       in and_then (notifyUser E \<lparr>dn_userId = recipientId, dn_familyId = Some (ctx_familyId ctx),
             dn_type = ''WELLBEING_GRATITUDE_RECEIVED'', dn_title = ''New gratitude'',
             dn_body = Some ''Your partner sent you a gratitude message.''\<rparr>
             (s1\<lparr>wdb_gratitudes := wdb_gratitudes s1 @ [row]\<rparr>))
           (\<lambda>_ s2. (Inr row, s2))))"

definition listGratitudes :: "uuid \<Rightarrow> wellbeing_db \<Rightarrow> api_error + gratitude list" where
  "listGratitudes userId s = (case requireMembership userId s of Inl e \<Rightarrow> Inl e
   | Inr ctx \<Rightarrow> Inr (sort_key (\<lambda>g. - wgr_createdAt g)
       (filter (\<lambda>g. wgr_familyId g = ctx_familyId ctx \<and> of_author userId g) (wdb_gratitudes s))))"

definition removeGratitude :: "uuid \<Rightarrow> uuid \<Rightarrow> wellbeing_db \<Rightarrow> (unit, wellbeing_db) resp" where
  "removeGratitude userId i s =
    (case delete_many (\<lambda>g. wgr_id g = i \<and> wgr_authorId g = userId) (wdb_gratitudes s) of
      (count, gs) \<Rightarrow> ((if count = 0 then Inl (NotFound ''The wellbeing gratitude does not exist'') else Inr ()),
        s\<lparr>wdb_gratitudes := gs\<rparr>))"

definition createSupportRequest ::
    "env \<Rightarrow> uuid \<Rightarrow> uuid \<Rightarrow> string option \<Rightarrow> wellbeing_db \<Rightarrow> (support_request, wellbeing_db) resp" where
  "createSupportRequest E userId recipientId message s = (case requireMembership userId s of Inl e \<Rightarrow> (Inl e, s)
   | Inr ctx \<Rightarrow>
     if recipientId = userId then (Inl (BadRequest ''You cannot request support from yourself''), s)
     else if \<not> partner_in (ctx_familyId ctx) recipientId s then
       (Inl (NotFound ''The partner does not exist in this family''), s)
     else (case fresh s of (i, s1) \<Rightarrow>
       let row = \<lparr>wsr_id = i, wsr_familyId = ctx_familyId ctx, wsr_requesterId = userId, wsr_recipientId = recipientId,
             wsr_message = message, wsr_status = SupportOpen, wsr_createdAt = env_now E\<rparr>
       in and_then (notifyUser E \<lparr>dn_userId = recipientId, dn_familyId = Some (ctx_familyId ctx),
             dn_type = ''WELLBEING_SUPPORT_REQUESTED'', dn_title = ''Your partner requested support'',
             dn_body = Some ''Your partner asked for support.''\<rparr>
             (s1\<lparr>wdb_supports := wdb_supports s1 @ [row]\<rparr>))
           (\<lambda>_ s2. (Inr row, s2))))"

definition listSupportRequests :: "uuid \<Rightarrow> wellbeing_db \<Rightarrow> api_error + support_request list" where
  "listSupportRequests userId s = (case requireMembership userId s of Inl e \<Rightarrow> Inl e
   | Inr ctx \<Rightarrow> Inr (sort_key (\<lambda>r. - wsr_createdAt r)
       (filter (\<lambda>r. wsr_familyId r = ctx_familyId ctx \<and> of_requester userId r) (wdb_supports s))))"

definition updateSupportRequest ::
    "uuid \<Rightarrow> uuid \<Rightarrow> support_status \<Rightarrow> wellbeing_db \<Rightarrow> (support_request, wellbeing_db) resp" where
  "updateSupportRequest userId i status s =
    (case update_many (\<lambda>r. wsr_id r = i \<and> wsr_recipientId r = userId) (\<lambda>r. r\<lparr>wsr_status := status\<rparr>) (wdb_supports s) of
      (count, rs) \<Rightarrow> let s1 = s\<lparr>wdb_supports := rs\<rparr> in
        if count = 0 then (Inl (NotFound ''The wellbeing support request does not exist''), s1)
        else (case find_first (\<lambda>r. wsr_id r = i) rs of None \<Rightarrow> (Inl P2025, s1) | Some r \<Rightarrow> (Inr r, s1)))"

subsection \<open>Rituals\<close>

definition createRitual :: "env \<Rightarrow> uuid \<Rightarrow> ritual_dto \<Rightarrow> wellbeing_db \<Rightarrow> (ritual, wellbeing_db) resp" where
  "createRitual E userId dto s = (case requireMembership userId s of Inl e \<Rightarrow> (Inl e, s)
   | Inr ctx \<Rightarrow> (case fresh s of (i, s1) \<Rightarrow>
       let row = \<lparr>wri_id = i, wri_familyId = ctx_familyId ctx, wri_createdById = userId, wri_title = js_trim (crd_title dto),
           wri_description = trim_or_null (crd_description dto), wri_cadence = js_trim (crd_cadence dto),
           wri_nextAt = crd_nextAt dto, wri_isActive = True, wri_createdAt = env_now E\<rparr>
       in (Inr row, s1\<lparr>wdb_rituals := wdb_rituals s1 @ [row]\<rparr>)))"

definition listRituals :: "uuid \<Rightarrow> wellbeing_db \<Rightarrow> api_error + ritual list" where
  "listRituals userId s = (case requireMembership userId s of Inl e \<Rightarrow> Inl e
   | Inr ctx \<Rightarrow> Inr (sort_key wri_nextAt (filter (\<lambda>r. wri_familyId r = ctx_familyId ctx) (wdb_rituals s))))"

definition own_ritual :: "uuid \<Rightarrow> uuid \<Rightarrow> uuid \<Rightarrow> ritual \<Rightarrow> bool" where
  "own_ritual i familyId userId r \<longleftrightarrow> wri_id r = i \<and> wri_familyId r = familyId \<and> wri_createdById r = userId"

definition change_ritual :: "update_ritual_dto \<Rightarrow> ritual \<Rightarrow> ritual" where
  "change_ritual dto r = r\<lparr>wri_title := keep (map_option js_trim (urd_title dto)) (wri_title r),
     wri_description := (case urd_description dto of None \<Rightarrow> wri_description r | Some d \<Rightarrow> trim_or_null (Some d)),
     wri_cadence := keep (map_option js_trim (urd_cadence dto)) (wri_cadence r),
     wri_nextAt := keep (urd_nextAt dto) (wri_nextAt r), wri_isActive := keep (urd_isActive dto) (wri_isActive r)\<rparr>"

definition updateRitual :: "uuid \<Rightarrow> uuid \<Rightarrow> update_ritual_dto \<Rightarrow> wellbeing_db \<Rightarrow> (ritual, wellbeing_db) resp" where
  "updateRitual userId i dto s = (case requireMembership userId s of Inl e \<Rightarrow> (Inl e, s)
   | Inr ctx \<Rightarrow> (case update_many (own_ritual i (ctx_familyId ctx) userId) (change_ritual dto) (wdb_rituals s) of
       (count, rs) \<Rightarrow> let s1 = s\<lparr>wdb_rituals := rs\<rparr> in
         if count = 0 then (Inl (NotFound ''The wellbeing ritual does not exist''), s1)
         else (case find_first (\<lambda>r. wri_id r = i) rs of None \<Rightarrow> (Inl P2025, s1) | Some r \<Rightarrow> (Inr r, s1))))"

definition removeRitual :: "uuid \<Rightarrow> uuid \<Rightarrow> wellbeing_db \<Rightarrow> (unit, wellbeing_db) resp" where
  "removeRitual userId i s = (case requireMembership userId s of Inl e \<Rightarrow> (Inl e, s)
   | Inr ctx \<Rightarrow> (case delete_many (own_ritual i (ctx_familyId ctx) userId) (wdb_rituals s) of
       (count, rs) \<Rightarrow> ((if count = 0 then Inl (NotFound ''The wellbeing ritual does not exist'') else Inr ()),
         s\<lparr>wdb_rituals := rs\<rparr>)))"

subsection \<open>Couple meetings\<close>

definition createCoupleMeeting :: "env \<Rightarrow> uuid \<Rightarrow> meeting_dto \<Rightarrow> wellbeing_db \<Rightarrow> (couple_meeting, wellbeing_db) resp" where
  "createCoupleMeeting E userId dto s = (case requirePartner userId s of Inl e \<Rightarrow> (Inl e, s)
   | Inr ctx \<Rightarrow>
     if cmd_scheduledAt dto \<le> env_now E then (Inl (BadRequest ''Meeting date must be in the future''), s)
     else (case fresh s of (i, s1) \<Rightarrow>
       let row = \<lparr>wcm_id = i, wcm_familyId = ctx_familyId ctx, wcm_createdById = userId, wcm_title = js_trim (cmd_title dto),
           wcm_scheduledAt = cmd_scheduledAt dto, wcm_sections = map js_trim (cmd_sections dto), wcm_responses = [],
           wcm_publishedAt = None, wcm_sharedDecision = None, wcm_createdAt = env_now E\<rparr>
       in (Inr row, s1\<lparr>wdb_meetings := wdb_meetings s1 @ [row]\<rparr>)))"

definition listCoupleMeetings :: "uuid \<Rightarrow> wellbeing_db \<Rightarrow> api_error + couple_meeting list" where
  "listCoupleMeetings userId s = (case requirePartner userId s of Inl e \<Rightarrow> Inl e
   | Inr ctx \<Rightarrow> Inr (sort_key wcm_scheduledAt (filter (\<lambda>m. wcm_familyId m = ctx_familyId ctx) (wdb_meetings s))))"

definition find_meeting :: "uuid \<Rightarrow> uuid \<Rightarrow> wellbeing_db \<Rightarrow> couple_meeting option" where
  "find_meeting i familyId s = find_first (\<lambda>m. wcm_id m = i \<and> wcm_familyId m = familyId) (wdb_meetings s)"

text \<open>\<open>{ ...responses, [userId]: response }\<close>: an existing answer is replaced in its place.\<close>

definition set_response :: "uuid \<Rightarrow> string \<Rightarrow> (uuid \<times> string) list \<Rightarrow> (uuid \<times> string) list" where
  "set_response userId response rs =
    (if userId \<in> fst ` set rs then map (\<lambda>(u, r). (u, if u = userId then response else r)) rs
     else rs @ [(userId, response)])"

datatype meeting_change =
    ChangeMeeting update_meeting_dto
  | AnswerMeeting uuid string
  | PublishMeeting timestamp
  | DecideMeeting string

definition write_meeting :: "meeting_change \<Rightarrow> couple_meeting \<Rightarrow> couple_meeting" where
  "write_meeting c m = (case c of
     ChangeMeeting d \<Rightarrow> m\<lparr>wcm_title := keep (map_option js_trim (umd_title d)) (wcm_title m),
       wcm_scheduledAt := keep (umd_scheduledAt d) (wcm_scheduledAt m),
       wcm_sections := keep (map_option (map js_trim) (umd_sections d)) (wcm_sections m)\<rparr>
   | AnswerMeeting u r \<Rightarrow> m\<lparr>wcm_responses := set_response u r (wcm_responses m)\<rparr>
   | PublishMeeting now \<Rightarrow> m\<lparr>wcm_publishedAt := Some now\<rparr>
   | DecideMeeting d \<Rightarrow> m\<lparr>wcm_sharedDecision := Some d\<rparr>)"

text \<open>\<open>update({ where: { id } })\<close> of a meeting that was read before.\<close>

definition update_meeting :: "meeting_change \<Rightarrow> couple_meeting \<Rightarrow> wellbeing_db \<Rightarrow> (couple_meeting, wellbeing_db) resp" where
  "update_meeting c m s = (Inr (write_meeting c m),
     s\<lparr>wdb_meetings := map (\<lambda>x. if wcm_id x = wcm_id m then write_meeting c x else x) (wdb_meetings s)\<rparr>)"

definition updateCoupleMeeting ::
    "uuid \<Rightarrow> uuid \<Rightarrow> update_meeting_dto \<Rightarrow> wellbeing_db \<Rightarrow> (couple_meeting, wellbeing_db) resp" where
  "updateCoupleMeeting userId i dto s = (case requirePartner userId s of Inl e \<Rightarrow> (Inl e, s)
   | Inr ctx \<Rightarrow> (case find_meeting i (ctx_familyId ctx) s of
       None \<Rightarrow> (Inl (NotFound ''The wellbeing couple meeting does not exist''), s)
     | Some current \<Rightarrow>
         if wcm_createdById current \<noteq> userId then (Inl (Forbidden ''Only the meeting creator can update it''), s)
         else if wcm_publishedAt current \<noteq> None then (Inl (Conflict ''A published meeting cannot be updated''), s)
         else update_meeting (ChangeMeeting dto) current s))"

definition respondToCoupleMeeting ::
    "uuid \<Rightarrow> uuid \<Rightarrow> string \<Rightarrow> wellbeing_db \<Rightarrow> (couple_meeting, wellbeing_db) resp" where
  "respondToCoupleMeeting userId i response s = (case requirePartner userId s of Inl e \<Rightarrow> (Inl e, s)
   | Inr ctx \<Rightarrow> (case find_meeting i (ctx_familyId ctx) s of
       None \<Rightarrow> (Inl (NotFound ''The wellbeing couple meeting does not exist''), s)
     | Some meeting \<Rightarrow>
         if wcm_publishedAt meeting \<noteq> None then
           (Inl (Conflict ''Meeting responses have already been published''), s)
         else update_meeting (AnswerMeeting userId (js_trim response)) meeting s))"

definition publishCoupleMeeting :: "env \<Rightarrow> uuid \<Rightarrow> uuid \<Rightarrow> wellbeing_db \<Rightarrow> (couple_meeting, wellbeing_db) resp" where
  "publishCoupleMeeting E userId i s = (case requirePartner userId s of Inl e \<Rightarrow> (Inl e, s)
   | Inr ctx \<Rightarrow> (case find_meeting i (ctx_familyId ctx) s of
       None \<Rightarrow> (Inl (NotFound ''The wellbeing couple meeting does not exist''), s)
     | Some meeting \<Rightarrow>
         if wcm_createdById meeting \<noteq> userId then (Inl (Forbidden ''Only the meeting creator can publish it''), s)
         else if wcm_publishedAt meeting \<noteq> None then
           (Inl (Conflict ''Meeting responses have already been published''), s)
         else update_meeting (PublishMeeting (env_now E)) meeting s))"

definition setCoupleMeetingDecision ::
    "uuid \<Rightarrow> uuid \<Rightarrow> string \<Rightarrow> wellbeing_db \<Rightarrow> (couple_meeting, wellbeing_db) resp" where
  "setCoupleMeetingDecision userId i decision s = (case requirePartner userId s of Inl e \<Rightarrow> (Inl e, s)
   | Inr ctx \<Rightarrow> (case find_meeting i (ctx_familyId ctx) s of
       None \<Rightarrow> (Inl (NotFound ''The wellbeing couple meeting does not exist''), s)
     | Some meeting \<Rightarrow>
         if wcm_publishedAt meeting = None then
           (Inl (Conflict ''Publish meeting responses before setting a decision''), s)
         else update_meeting (DecideMeeting (js_trim decision)) meeting s))"

end
