(* ===== verification/WellbeingSpec.thy ===== *)
theory WellbeingSpec
  imports Wellbeing
begin

text \<open>
  What the wellbeing diary promises: a partner's view is determined by what was granted, deleting one's data
  leaves nothing behind that the diary shows, and published meetings are final.
\<close>

subsection \<open>What a partner may learn\<close>













text \<open>A diary of member 31 who shares the mood with 32.\<close>

definition diary_entry :: "int \<Rightarrow> string option \<Rightarrow> check_in" where
  "diary_entry stress note = \<lparr>wci_id = 20, wci_familyId = 7, wci_ownerId = 31, wci_mood = 4, wci_energy = 3, wci_stress = stress,
     wci_note = note, wci_supportRequest = False, wci_createdAt = 5, wci_updatedAt = 5\<rparr>"

definition mood_grant :: consent_grant where
  "mood_grant = \<lparr>wcg_id = 21, wcg_familyId = 7, wcg_ownerId = 31, wcg_recipientId = 32, wcg_scopes = [''mood''],
     wcg_expiresAt = None, wcg_revokedAt = None, wcg_createdAt = 6\<rparr>"

definition diary_db :: "check_in list \<Rightarrow> couple_meeting list \<Rightarrow> wellbeing_db" where
  "diary_db cs ms = \<lparr>core_users = [\<lparr>user_id = 31, user_firstName = ''Ann'', user_lastName = ''A'', user_email = ''a'',
       user_isActive = True, user_locale = ''en'', user_timeZone = ''UTC''\<rparr>],
     core_families = [\<lparr>family_id = 7, family_status = FamilyActive, family_timeZone = ''UTC'',
       family_locale = ''en'', family_defaultCurrency = ''EUR'', family_archivedAt = None, family_dissolvedAt = None,
       family_createdAt = 0\<rparr>],
     core_members = [\<lparr>member_id = 11, member_familyId = 7, member_userId = 31, member_role = PARTNER, member_joinedAt = 0\<rparr>,
       \<lparr>member_id = 12, member_familyId = 7, member_userId = 32, member_role = PARTNER, member_joinedAt = 0\<rparr>],
     core_preferences = [], core_connections = [], core_devices = [],
     core_feed = \<lparr>feed_audits = [], feed_notifications = [], feed_outbox = [], feed_nextId = 0\<rparr>, core_nextId = 25,
     wdb_checkIns = cs, wdb_grants = [mood_grant], wdb_assessments = [], wdb_gratitudes = [], wdb_supports = [],
     wdb_rituals = [], wdb_meetings = ms\<rparr>"

definition diary_env :: env where
  "diary_env = \<lparr>env_now = 10, env_localParts = (\<lambda>t z. None)\<rparr>"

lemma diary_member:
  "requireMembership 32 (diary_db cs ms) = Inr \<lparr>ctx_familyId = 7, ctx_memberId = 12, ctx_role = PARTNER, ctx_timeZone = ''UTC'',
     ctx_locale = ''en'', ctx_defaultCurrency = ''EUR''\<rparr>"
  "requireMembership 31 (diary_db cs ms) = Inr \<lparr>ctx_familyId = 7, ctx_memberId = 11, ctx_role = PARTNER, ctx_timeZone = ''UTC'',
     ctx_locale = ''en'', ctx_defaultCurrency = ''EUR''\<rparr>"
  by (simp_all add: requireMembership_def find_member_def find_family_def diary_db_def)


subsection \<open>Deleting one's data\<close>

text \<open>After a member deleted the wellbeing data, the export of the member is empty, nobody is shown a
  check-in of the member, the member is shown none, and the rows of everybody else are still there.\<close>

theorem wellbeing_deletion_complete:
  assumes "wellbeing_deleteAll u s = (Inr (), t)"
  shows "wellbeing_exportData u t = Inr \<lparr>wex_checkIns = [], wex_assessments = [], wex_gratitudes = [], wex_supportRequests = [],
        wex_rituals = [], wex_coupleMeetings = []\<rparr>
     \<and> sharedWithMe E u t = Inr []
     \<and> (\<forall>v r rs. sharedWithMe E v t = Inr rs \<and> r \<in> set rs \<longrightarrow> sci_ownerId r \<noteq> u)
     \<and> (\<forall>v. v \<noteq> u \<longrightarrow> own_check_ins v t = own_check_ins v s \<and> own_assessments v t = own_assessments v s)"
proof -
  obtain ctx where ctx: "requireMembership u s = Inr ctx"
    using assms by (auto simp: wellbeing_deleteAll_def split: sum.splits)
  then have t: "t = s\<lparr>wdb_grants := filter (\<lambda>g. \<not> (wcg_ownerId g = u \<or> wcg_recipientId g = u)) (wdb_grants s),
       wdb_assessments := filter (\<lambda>a. was_ownerId a \<noteq> u) (wdb_assessments s),
       wdb_checkIns := filter (\<lambda>c. wci_ownerId c \<noteq> u) (wdb_checkIns s),
       wdb_gratitudes := filter (\<lambda>g. \<not> of_author u g) (wdb_gratitudes s),
       wdb_supports := filter (\<lambda>r. \<not> of_requester u r) (wdb_supports s),
       wdb_rituals := filter (\<lambda>r. wri_createdById r \<noteq> u) (wdb_rituals s),
       wdb_meetings := filter (\<lambda>m. wcm_createdById m \<noteq> u) (wdb_meetings s)\<rparr>"
    using assms by (simp add: wellbeing_deleteAll_def)
  have ctx': "requireMembership u t = Inr ctx"
    using ctx requireMembership_cong [of t s u] by (simp add: t)
  have gone: "filter (\<lambda>x. P x \<and> \<not> P x) xs = []" for P :: "'a \<Rightarrow> bool" and xs by (simp add: filter_empty_conv)
  have "wellbeing_exportData u t = Inr \<lparr>wex_checkIns = [], wex_assessments = [], wex_gratitudes = [], wex_supportRequests = [],
        wex_rituals = [], wex_coupleMeetings = []\<rparr>"
    unfolding wellbeing_exportData_def ctx' by (simp add: t own_check_ins_def own_assessments_def filter_empty_conv)
  moreover have "sharedWithMe E u t = Inr []"
  proof -
    have "filter (grant_usable E (ctx_familyId ctx) u t) (wdb_grants t) = []"
      by (auto simp: filter_empty_conv grant_usable_def t)
    then show ?thesis unfolding sharedWithMe_def ctx' by (simp add: Let_def)
  qed
  moreover have "sci_ownerId r \<noteq> u" if "sharedWithMe E v t = Inr rs" "r \<in> set rs" for v r rs
    using that by (auto simp: sharedWithMe_def Let_def shared_row_def t split: sum.splits option.splits)
  moreover have "own_check_ins v t = own_check_ins v s \<and> own_assessments v t = own_assessments v s" if "v \<noteq> u" for v
    using that by (auto simp: t own_check_ins_def own_assessments_def intro!: filter_cong)
  ultimately show ?thesis by blast
qed

lemma wellbeing_deletion_complete_witness:
  "sharedWithMe diary_env 31 (snd (wellbeing_deleteAll 31 (diary_db [diary_entry 1 None] []))) = Inr []"
proof -
  have "wellbeing_deleteAll 31 (diary_db [diary_entry 1 None] []) = (Inr (), snd (wellbeing_deleteAll 31 (diary_db [diary_entry 1 None] [])))"
    by (simp add: wellbeing_deleteAll_def diary_member)
  from wellbeing_deletion_complete [OF this] show ?thesis by blast
qed

subsection \<open>The tables stay consistent and published meetings are final\<close>

definition meeting_ok :: "couple_meeting \<Rightarrow> bool" where
  "meeting_ok m \<longleftrightarrow> (wcm_sharedDecision m \<noteq> None \<longrightarrow> wcm_publishedAt m \<noteq> None) \<and> distinct (map fst (wcm_responses m))"

definition meetings_ok :: "uuid \<Rightarrow> couple_meeting list \<Rightarrow> bool" where
  "meetings_ok n ms \<longleftrightarrow> distinct (map wcm_id ms) \<and> (\<forall>m \<in> set ms. wcm_id m < n \<and> meeting_ok m)"

definition grants_ok :: "consent_grant list \<Rightarrow> bool" where
  "grants_ok gs \<longleftrightarrow> distinct (map (\<lambda>g. (wcg_ownerId g, wcg_recipientId g)) gs)
     \<and> (\<forall>g \<in> set gs. wcg_ownerId g \<noteq> wcg_recipientId g \<and> wcg_scopes g \<noteq> [])"

definition exchanges_ok :: "wellbeing_db \<Rightarrow> bool" where
  "exchanges_ok s \<longleftrightarrow> (\<forall>a \<in> set (wdb_assessments s). was_score a = sum_list (was_answers a))
     \<and> (\<forall>g \<in> set (wdb_gratitudes s). wgr_authorId g \<noteq> wgr_recipientId g)
     \<and> (\<forall>r \<in> set (wdb_supports s). wsr_requesterId r \<noteq> wsr_recipientId r)"

definition wellbeing_ok :: "wellbeing_db \<Rightarrow> bool" where
  "wellbeing_ok s \<longleftrightarrow> meetings_ok (core_nextId s) (wdb_meetings s) \<and> grants_ok (wdb_grants s) \<and> exchanges_ok s"

text \<open>A meeting after some calls: once published only the shared decision may change, and it does not disappear.\<close>

definition meeting_step :: "couple_meeting \<Rightarrow> couple_meeting \<Rightarrow> bool" where
  "meeting_step m n \<longleftrightarrow> wcm_id n = wcm_id m \<and> wcm_familyId n = wcm_familyId m \<and> wcm_createdById n = wcm_createdById m
     \<and> (wcm_publishedAt m \<noteq> None \<longrightarrow> n = m\<lparr>wcm_sharedDecision := wcm_sharedDecision n\<rparr>)
     \<and> (wcm_sharedDecision m \<noteq> None \<longrightarrow> wcm_sharedDecision n \<noteq> None)"

text \<open>Rows may be deleted, so the relation of the tables looks back: every row that is not new comes from one before.\<close>

definition meetings_follow :: "uuid \<Rightarrow> couple_meeting list \<Rightarrow> couple_meeting list \<Rightarrow> bool" where
  "meetings_follow n ms ms' \<longleftrightarrow> (\<forall>m' \<in> set ms'. wcm_id m' < n \<longrightarrow> (\<exists>m \<in> set ms. meeting_step m m'))"

definition wellbeing_evolve :: "wellbeing_db \<Rightarrow> wellbeing_db \<Rightarrow> bool" where
  "wellbeing_evolve s t \<longleftrightarrow> (wellbeing_ok s \<longrightarrow> wellbeing_ok t \<and> core_nextId s \<le> core_nextId t
     \<and> meetings_follow (core_nextId s) (wdb_meetings s) (wdb_meetings t))"

lemma meeting_step_refl [simp]: "meeting_step m m"
  by (simp add: meeting_step_def)

lemma meeting_step_id: "meeting_step m n \<Longrightarrow> wcm_id n = wcm_id m"
  by (simp add: meeting_step_def)

lemma meeting_step_trans:
  assumes "meeting_step a b" "meeting_step b c" shows "meeting_step a c"
proof -
  have "c = a\<lparr>wcm_sharedDecision := wcm_sharedDecision c\<rparr>" if a: "wcm_publishedAt a \<noteq> None"
  proof -
    have b: "b = a\<lparr>wcm_sharedDecision := wcm_sharedDecision b\<rparr>" using assms(1) a by (simp add: meeting_step_def)
    then have "wcm_publishedAt b = wcm_publishedAt a" by (metis couple_meeting.select_convs(8) couple_meeting.surjective couple_meeting.update_convs(9))
    then have "c = b\<lparr>wcm_sharedDecision := wcm_sharedDecision c\<rparr>" using assms(2) a by (simp add: meeting_step_def)
    also have "\<dots> = a\<lparr>wcm_sharedDecision := wcm_sharedDecision c\<rparr>" by (subst b) simp
    finally show ?thesis .
  qed
  with assms show ?thesis by (simp add: meeting_step_def)
qed

lemma meetings_follow_refl [simp]: "meetings_follow n ms ms"
  unfolding meetings_follow_def by (meson meeting_step_refl)

lemma meetings_follow_rows:
  "(\<And>m. m \<in> set ms' \<Longrightarrow> m \<in> set ms \<or> n \<le> wcm_id m) \<Longrightarrow> meetings_follow n ms ms'"
  unfolding meetings_follow_def by (meson meeting_step_refl not_less)

lemma meetings_follow_trans:
  assumes "meetings_follow n a b" "meetings_follow m b c" "n \<le> m"
  shows "meetings_follow n a c"
  unfolding meetings_follow_def
proof (intro ballI impI)
  fix z assume z: "z \<in> set c" "wcm_id z < n"
  then obtain y where y: "y \<in> set b" "meeting_step y z"
    using assms(2,3) by (auto simp: meetings_follow_def)
  moreover from this z have "wcm_id y < n" by (simp add: meeting_step_def)
  ultimately obtain x where "x \<in> set a" "meeting_step x y" using assms(1) by (auto simp: meetings_follow_def)
  with y show "\<exists>x \<in> set a. meeting_step x z" by (blast intro: meeting_step_trans)
qed

interpretation we: evolution wellbeing_evolve
  by unfold_locales (auto simp: wellbeing_evolve_def intro: meetings_follow_trans)

lemma wellbeing_ok_feed [simp]: "wellbeing_ok (s\<lparr>core_feed := d\<rparr>) = wellbeing_ok s"
  by (simp add: wellbeing_ok_def exchanges_ok_def)

lemma we_notify: "wellbeing_evolve s t \<Longrightarrow> wellbeing_evolve s (snd (notifyUser E n t))"
  by (simp add: notifyUser_frame wellbeing_evolve_def)

lemma meetings_ok_mono: "meetings_ok n ms \<Longrightarrow> n \<le> m \<Longrightarrow> meetings_ok m ms"
  by (auto simp: meetings_ok_def)

text \<open>Changes that leave the meetings alone.\<close>

lemma we_other:
  assumes "wdb_meetings t = wdb_meetings s" "core_nextId s \<le> core_nextId t"
    and "grants_ok (wdb_grants s) \<Longrightarrow> grants_ok (wdb_grants t)" "exchanges_ok s \<Longrightarrow> exchanges_ok t"
  shows "wellbeing_evolve s t"
  using assms by (auto simp: wellbeing_evolve_def wellbeing_ok_def intro: meetings_ok_mono)

lemma we_meetings:
  assumes "wellbeing_ok s \<Longrightarrow> meetings_ok (core_nextId t) (wdb_meetings t)"
    and "wellbeing_ok s \<Longrightarrow> meetings_follow (core_nextId s) (wdb_meetings s) (wdb_meetings t)"
    and "core_nextId s \<le> core_nextId t" "wdb_grants t = wdb_grants s" "wdb_assessments t = wdb_assessments s"
    "wdb_gratitudes t = wdb_gratitudes s" "wdb_supports t = wdb_supports s"
  shows "wellbeing_evolve s t"
  using assms by (auto simp: wellbeing_evolve_def wellbeing_ok_def exchanges_ok_def)

lemma set_response_distinct: "distinct (map fst rs) \<Longrightarrow> distinct (map fst (set_response u r rs))"
  by (auto simp: set_response_def comp_def case_prod_beta)

text \<open>Writing a meeting that was found: the write is allowed by the state of publication.\<close>

definition write_allowed :: "meeting_change \<Rightarrow> couple_meeting \<Rightarrow> bool" where
  "write_allowed c m \<longleftrightarrow> (case c of DecideMeeting _ \<Rightarrow> wcm_publishedAt m \<noteq> None | _ \<Rightarrow> wcm_publishedAt m = None)"

lemma write_meeting_ok:
  assumes "write_allowed c m" "meeting_ok m"
  shows "meeting_ok (write_meeting c m) \<and> meeting_step m (write_meeting c m)"
  using assms by (cases c) (auto simp: write_allowed_def meeting_ok_def meeting_step_def write_meeting_def set_response_distinct)

lemma we_update_meeting:
  assumes "find_meeting i fam s = Some m" "write_allowed c m"
  shows "wellbeing_evolve s (snd (update_meeting c m s))"
proof -
  define g where "g = (\<lambda>x. if wcm_id x = wcm_id m then write_meeting c x else x)"
  have t: "snd (update_meeting c m s) = s\<lparr>wdb_meetings := map g (wdb_meetings s)\<rparr>"
    by (simp add: update_meeting_def g_def)
  have m: "m \<in> set (wdb_meetings s)" using assms(1) by (auto simp: find_meeting_def dest: find_SomeD)
  have id: "wcm_id (g x) = wcm_id x" for x by (simp add: g_def write_meeting_def split: meeting_change.split)
  have row: "meeting_ok (g x) \<and> meeting_step x (g x)" if ok: "wellbeing_ok s" and x: "x \<in> set (wdb_meetings s)" for x
  proof (cases "wcm_id x = wcm_id m")
    case True
    then have "x = m" using distinct_key_eq [of wcm_id "wdb_meetings s" x m] ok x m by (simp add: wellbeing_ok_def meetings_ok_def)
    then show ?thesis using write_meeting_ok [OF assms(2)] ok x by (simp add: wellbeing_ok_def meetings_ok_def g_def)
  qed (use ok x in \<open>simp add: wellbeing_ok_def meetings_ok_def g_def\<close>)
  show ?thesis unfolding t
  proof (rule we_meetings)
    assume ok: "wellbeing_ok s"
    have "map wcm_id (map g (wdb_meetings s)) = map wcm_id (wdb_meetings s)" using id by simp
    then show "meetings_ok (core_nextId (s\<lparr>wdb_meetings := map g (wdb_meetings s)\<rparr>)) (wdb_meetings (s\<lparr>wdb_meetings := map g (wdb_meetings s)\<rparr>))"
      using ok row [OF ok] by (simp add: wellbeing_ok_def meetings_ok_def id del: map_map)
    show "meetings_follow (core_nextId s) (wdb_meetings s) (wdb_meetings (s\<lparr>wdb_meetings := map g (wdb_meetings s)\<rparr>))"
      using row [OF ok] by (auto simp: meetings_follow_def)
  qed simp_all
qed

lemma we_meeting_guarded:
  "find_meeting i fam s = Some m \<Longrightarrow> (\<not> b \<Longrightarrow> write_allowed c m)
     \<Longrightarrow> wellbeing_evolve s (snd (if b then (Inl e, s) else update_meeting c m s))"
  by (auto intro: we_update_meeting we.evolution_refl)

text \<open>The operations.\<close>

lemma score_sum: "fold (\<lambda>answer sum. sum + answer) as (k::int) = k + sum_list as"
  by (induction as arbitrary: k) auto

lemma create_keeps: "wellbeing_evolve s (snd (wellbeing_create E u dto s))"
  unfolding wellbeing_create_def fresh_def prod.case Let_def
  by (intro we.guards) (auto intro!: we_other simp: exchanges_ok_def)

lemma remove_keeps: "wellbeing_evolve s (snd (wellbeing_remove u i s))"
  unfolding wellbeing_remove_def by (intro we.guards) (auto intro!: we_other simp: exchanges_ok_def)

lemma grant_keeps: "wellbeing_evolve s (snd (grantConsent E u dto s))"
proof -
  have upd: "grants_ok (map (\<lambda>g. if grant_pair u v g then w g else g) gs)"
    if "grants_ok gs" "\<And>g. wcg_ownerId (w g) = wcg_ownerId g" "\<And>g. wcg_recipientId (w g) = wcg_recipientId g"
      "\<And>g. wcg_scopes (w g) \<noteq> []" for gs w v
  proof -
    define h where "h = (\<lambda>g :: consent_grant. if grant_pair u v g then w g else g)"
    have "wcg_ownerId (h g) = wcg_ownerId g" "wcg_recipientId (h g) = wcg_recipientId g"
      "wcg_scopes g \<noteq> [] \<Longrightarrow> wcg_scopes (h g) \<noteq> []" for g using that by (simp_all add: h_def)
    then show ?thesis using that(1) unfolding h_def [symmetric] by (simp add: grants_ok_def comp_def)
  qed
  have "wellbeing_evolve s (snd (case find_first (grant_pair u (ccd_recipientId dto)) (wdb_grants s) of
       None \<Rightarrow> (case (core_nextId s, s\<lparr>core_nextId := core_nextId s + 1\<rparr>) of (i, s1) \<Rightarrow>
         let g = \<lparr>wcg_id = i, wcg_familyId = ctx_familyId ctx, wcg_ownerId = u,
               wcg_recipientId = ccd_recipientId dto, wcg_scopes = ccd_scopes dto,
               wcg_expiresAt = ccd_expiresAt dto, wcg_revokedAt = None, wcg_createdAt = env_now E\<rparr>
         in (Inr g, s1\<lparr>wdb_grants := wdb_grants s1 @ [g]\<rparr>))
     | Some g0 \<Rightarrow>
         let w = (\<lambda>g. g\<lparr>wcg_familyId := ctx_familyId ctx, wcg_scopes := ccd_scopes dto,
               wcg_expiresAt := ccd_expiresAt dto, wcg_revokedAt := None\<rparr>)
         in (Inr (w g0), s\<lparr>wdb_grants := map (\<lambda>g. if grant_pair u (ccd_recipientId dto) g then w g else g)
               (wdb_grants s)\<rparr>)))"
    if "\<not> (ccd_recipientId dto = u \<or> ccd_scopes dto = [])" for ctx :: family_context
  proof (cases "find_first (grant_pair u (ccd_recipientId dto)) (wdb_grants s)")
    case None
    then have "\<forall>g \<in> set (wdb_grants s). \<not> grant_pair u (ccd_recipientId dto) g" by (simp add: find_None_iff)
    with None that show ?thesis
      by (auto intro!: we_other simp: exchanges_ok_def grants_ok_def grant_pair_def Let_def) metis
  next
    case (Some g)
    then show ?thesis using that unfolding Let_def Some option.case snd_conv
      by (intro we_other) (auto simp: exchanges_ok_def intro!: upd)
  qed
  then show ?thesis unfolding grantConsent_def fresh_def by (intro we.guards)
qed

lemma revoke_keeps: "wellbeing_evolve s (snd (revokeConsent E u i s))"
proof -
  define h where "h = (\<lambda>g :: consent_grant. if wcg_id g = i \<and> wcg_ownerId g = u \<and> wcg_revokedAt g = None then g\<lparr>wcg_revokedAt := Some (env_now E)\<rparr> else g)"
  have "wcg_ownerId (h g) = wcg_ownerId g" "wcg_recipientId (h g) = wcg_recipientId g" "wcg_scopes (h g) = wcg_scopes g" for g
    by (simp_all add: h_def)
  then have "grants_ok (map h gs) = grants_ok gs" for gs by (simp add: grants_ok_def comp_def)
  then show ?thesis unfolding revokeConsent_def update_many_def prod.case snd_conv h_def [symmetric]
    by (intro we_other) (auto simp: exchanges_ok_def)
qed

lemma assessment_keeps: "wellbeing_evolve s (snd (createAssessment E u as s))"
  unfolding createAssessment_def fresh_def prod.case Let_def score_sum
  by (intro we.guards) (auto intro!: we_other simp: exchanges_ok_def)

lemma deleteAll_keeps: "wellbeing_evolve s (snd (wellbeing_deleteAll u s))"
proof -
  have "grants_ok (filter P gs)" if "grants_ok gs" for P gs
    using that by (auto simp: grants_ok_def intro: distinct_map_filter)
  moreover have "meetings_ok n (filter P ms)" if "meetings_ok n ms" for P n ms
    using that by (auto simp: meetings_ok_def intro: distinct_map_filter)
  moreover have "meetings_follow n ms (filter P ms)" for n P ms
    by (rule meetings_follow_rows) simp
  ultimately show ?thesis
    unfolding wellbeing_deleteAll_def
    by (intro we.guards) (simp add: wellbeing_evolve_def wellbeing_ok_def exchanges_ok_def)
qed

lemma gratitude_keeps: "wellbeing_evolve s (snd (createGratitude E u v msg s))"
  unfolding createGratitude_def fresh_def prod.case Let_def
  by (intro we.guards we.and_thenI we_notify) (auto intro: we.evolution_refl intro!: we_other simp: exchanges_ok_def)

lemma remove_gratitude_keeps: "wellbeing_evolve s (snd (removeGratitude u i s))"
  unfolding removeGratitude_def delete_many_def prod.case snd_conv by (intro we_other) (auto simp: exchanges_ok_def)

lemma support_keeps: "wellbeing_evolve s (snd (createSupportRequest E u v msg s))"
  unfolding createSupportRequest_def fresh_def prod.case Let_def
  by (intro we.guards we.and_thenI we_notify) (auto intro: we.evolution_refl intro!: we_other simp: exchanges_ok_def)

lemma update_support_keeps: "wellbeing_evolve s (snd (updateSupportRequest u i st s))"
proof -
  define h where "h = (\<lambda>r :: support_request. if wsr_id r = i \<and> wsr_recipientId r = u then r\<lparr>wsr_status := st\<rparr> else r)"
  have "wsr_requesterId (h r) = wsr_requesterId r" "wsr_recipientId (h r) = wsr_recipientId r" for r by (simp_all add: h_def)
  then have "wellbeing_evolve s (s\<lparr>wdb_supports := map h (wdb_supports s)\<rparr>)"
    by (intro we_other) (auto simp: exchanges_ok_def)
  then show ?thesis
    by (auto simp: updateSupportRequest_def update_many_def Let_def h_def [symmetric] split: option.split)
qed

lemma ritual_keeps:
  "wellbeing_evolve s (snd (createRitual E u rdto s))" "wellbeing_evolve s (snd (updateRitual u i udto s))"
  "wellbeing_evolve s (snd (removeRitual u i s))"
proof -
  have any: "wellbeing_evolve s (s\<lparr>wdb_rituals := rs\<rparr>)" for rs
    by (intro we_other) (auto simp: exchanges_ok_def)
  show "wellbeing_evolve s (snd (createRitual E u rdto s))"
    unfolding createRitual_def fresh_def prod.case Let_def
    by (intro we.guards) (auto intro!: we_other simp: exchanges_ok_def)
  show "wellbeing_evolve s (snd (updateRitual u i udto s))"
    unfolding updateRitual_def update_many_def by (intro we.guard_sum) (auto simp: Let_def any split: option.split)
  show "wellbeing_evolve s (snd (removeRitual u i s))"
    unfolding removeRitual_def delete_many_def by (intro we.guard_sum) (auto simp: any)
qed

lemma create_meeting_keeps: "wellbeing_evolve s (snd (createCoupleMeeting E u dto s))"
proof -
  have "wellbeing_evolve s (s\<lparr>core_nextId := core_nextId s + 1, wdb_meetings := wdb_meetings s @ [m]\<rparr>)"
    if "wcm_id m = core_nextId s" "meeting_ok m" for m
    by (rule we_meetings)
      (use that in \<open>auto simp: wellbeing_ok_def meetings_ok_def less_Suc_eq intro!: meetings_follow_rows\<close>)
  then show ?thesis
    unfolding createCoupleMeeting_def fresh_def prod.case Let_def
    by (intro we.guards) (simp add: meeting_ok_def)
qed

lemma change_meeting_keeps:
  "wellbeing_evolve s (snd (updateCoupleMeeting u i dto s))" "wellbeing_evolve s (snd (respondToCoupleMeeting u i r s))"
  "wellbeing_evolve s (snd (publishCoupleMeeting E u i s))" "wellbeing_evolve s (snd (setCoupleMeetingDecision u i d s))"
  unfolding updateCoupleMeeting_def respondToCoupleMeeting_def publishCoupleMeeting_def setCoupleMeetingDecision_def
  by (intro we.guards we_update_meeting; force simp: write_allowed_def)+

inductive wellbeing_call :: "wellbeing_db \<Rightarrow> wellbeing_db \<Rightarrow> bool" where
  create: "wellbeing_call s (snd (wellbeing_create E u cdto s))"
| remove: "wellbeing_call s (snd (wellbeing_remove u i s))"
| grant: "wellbeing_call s (snd (grantConsent E u gdto s))"
| revoke: "wellbeing_call s (snd (revokeConsent E u i s))"
| assess: "wellbeing_call s (snd (createAssessment E u answers s))"
| erase: "wellbeing_call s (snd (wellbeing_deleteAll u s))"
| thank: "wellbeing_call s (snd (createGratitude E u v message s))"
| unthank: "wellbeing_call s (snd (removeGratitude u i s))"
| ask: "wellbeing_call s (snd (createSupportRequest E u v note s))"
| support: "wellbeing_call s (snd (updateSupportRequest u i status s))"
| create_ritual: "wellbeing_call s (snd (createRitual E u rdto s))"
| update_ritual: "wellbeing_call s (snd (updateRitual u i urdto s))"
| remove_ritual: "wellbeing_call s (snd (removeRitual u i s))"
| create_meeting: "wellbeing_call s (snd (createCoupleMeeting E u mdto s))"
| update_meeting: "wellbeing_call s (snd (updateCoupleMeeting u i umdto s))"
| respond: "wellbeing_call s (snd (respondToCoupleMeeting u i response s))"
| publish: "wellbeing_call s (snd (publishCoupleMeeting E u i s))"
| decide: "wellbeing_call s (snd (setCoupleMeetingDecision u i decision s))"

lemma wellbeing_call_evolve: "wellbeing_call s t \<Longrightarrow> wellbeing_evolve s t"
  by (induction rule: wellbeing_call.induct)
    (simp_all add: create_keeps remove_keeps grant_keeps revoke_keeps assessment_keeps deleteAll_keeps gratitude_keeps
      remove_gratitude_keeps support_keeps update_support_keeps ritual_keeps create_meeting_keeps change_meeting_keeps)

lemma wellbeing_calls_evolve: "wellbeing_call\<^sup>*\<^sup>* s t \<Longrightarrow> wellbeing_evolve s t"
  by (induction rule: rtranclp_induct) (auto intro: we.evolution_refl we.evolution_trans wellbeing_call_evolve)

text \<open>C21. Over every sequence of calls the diary stays consistent (one grant per pair, scores that are the sums of
  their answers, one answer per member and meeting, decisions only about published meetings), and a published
  meeting is final: as long as its row exists only its shared decision changes, and that is not withdrawn.\<close>

theorem wellbeing_invariant:
  assumes run: "wellbeing_call\<^sup>*\<^sup>* s t" and ok: "wellbeing_ok s"
  shows "wellbeing_ok t \<and> (\<forall>m \<in> set (wdb_meetings s). \<forall>n \<in> set (wdb_meetings t).
     wcm_id n = wcm_id m \<and> wcm_publishedAt m \<noteq> None \<longrightarrow> n = m\<lparr>wcm_sharedDecision := wcm_sharedDecision n\<rparr>
       \<and> (wcm_sharedDecision m \<noteq> None \<longrightarrow> wcm_sharedDecision n \<noteq> None))"
proof -
  have ev: "wellbeing_ok t" "meetings_follow (core_nextId s) (wdb_meetings s) (wdb_meetings t)"
    using wellbeing_calls_evolve [OF run] ok by (simp_all add: wellbeing_evolve_def)
  have "n = m\<lparr>wcm_sharedDecision := wcm_sharedDecision n\<rparr> \<and> (wcm_sharedDecision m \<noteq> None \<longrightarrow> wcm_sharedDecision n \<noteq> None)"
    if m: "m \<in> set (wdb_meetings s)" and n: "n \<in> set (wdb_meetings t)" "wcm_id n = wcm_id m" and published: "wcm_publishedAt m \<noteq> None" for m n
  proof -
    have "wcm_id n < core_nextId s" using ok m n(2) by (auto simp: wellbeing_ok_def meetings_ok_def)
    then obtain m' where m': "m' \<in> set (wdb_meetings s)" "meeting_step m' n"
      using ev(2) n(1) by (auto simp: meetings_follow_def)
    then have "m' = m"
      using distinct_key_eq [of wcm_id "wdb_meetings s" m' m] ok m n(2) meeting_step_id [OF m'(2)]
      by (simp add: wellbeing_ok_def meetings_ok_def)
    with m'(2) published show ?thesis unfolding meeting_step_def by iprover
  qed
  then have "\<forall>m \<in> set (wdb_meetings s). \<forall>n \<in> set (wdb_meetings t). wcm_id n = wcm_id m \<and> wcm_publishedAt m \<noteq> None
     \<longrightarrow> n = m\<lparr>wcm_sharedDecision := wcm_sharedDecision n\<rparr> \<and> (wcm_sharedDecision m \<noteq> None \<longrightarrow> wcm_sharedDecision n \<noteq> None)"
    by blast
  with ev(1) show ?thesis by (rule conjI)
qed

definition weekly_meeting :: couple_meeting where
  "weekly_meeting = \<lparr>wcm_id = 22, wcm_familyId = 7, wcm_createdById = 31, wcm_title = ''Week'', wcm_scheduledAt = 20,
     wcm_sections = [], wcm_responses = [(31, ''good'')], wcm_publishedAt = Some 8, wcm_sharedDecision = None, wcm_createdAt = 1\<rparr>"

lemma wellbeing_invariant_witness:
  "wdb_meetings (snd (setCoupleMeetingDecision 32 22 ''rest'' (diary_db [] [weekly_meeting])))
     = [weekly_meeting\<lparr>wcm_sharedDecision := Some ''rest''\<rparr>]
   \<and> wellbeing_ok (snd (setCoupleMeetingDecision 32 22 ''rest'' (diary_db [] [weekly_meeting])))"
proof -
  have "js_trim ''rest'' = ''rest''" by (simp add: js_trim_def js_space_def Let_def)
  moreover have "wdb_meetings (diary_db cs ms) = ms" for cs ms by (simp add: diary_db_def)
  ultimately have t: "wdb_meetings (snd (setCoupleMeetingDecision 32 22 ''rest'' (diary_db [] [weekly_meeting])))
     = [weekly_meeting\<lparr>wcm_sharedDecision := Some ''rest''\<rparr>]"
    by (simp add: setCoupleMeetingDecision_def requirePartner_def diary_member find_meeting_def update_meeting_def
        write_meeting_def weekly_meeting_def)
  have "wellbeing_ok (diary_db [] [weekly_meeting])"
    by (simp add: wellbeing_ok_def meetings_ok_def grants_ok_def exchanges_ok_def meeting_ok_def diary_db_def weekly_meeting_def
        mood_grant_def)
  moreover have "wellbeing_call\<^sup>*\<^sup>* (diary_db [] [weekly_meeting])
      (snd (setCoupleMeetingDecision 32 22 ''rest'' (diary_db [] [weekly_meeting])))"
    by (intro r_into_rtranclp wellbeing_call.decide)
  ultimately show ?thesis using wellbeing_invariant t by blast
qed

end
