(* ===== verification/Idempotency.thy ===== *)
theory Idempotency
  imports Core "HOL-Library.Multiset"
begin

text \<open>
  The idempotency interceptor of the HTTP layer: \<open>common/idempotency/idempotency.interceptor.ts\<close>.  A request with
  an idempotency key reserves a record, runs the handler, and stores the answer in the record; a repeated
  request is answered from the record.

  A request consists of two steps between which other requests run: up to the call of the handler
  (\<open>reserve_request\<close>) and after it (\<open>finish_request\<close>).  The handler acts on a world of its own, the type
  parameter; SHA-256 and the collation of \<open>localeCompare\<close> are arguments.
\<close>

subsection \<open>Canonical JSON\<close>

text \<open>A JSON value; a number is represented by its JavaScript text.\<close>

datatype jvalue =
    VNull
  | VBool bool
  | VNumber string
  | VString string
  | VArray "jvalue list"
  | VObject "(string \<times> jvalue) list"

definition hex_digit :: "nat \<Rightarrow> char" where
  "hex_digit n = char_of (if n < 10 then 48 + n else 87 + n)"

definition quote_char :: "char \<Rightarrow> string" where
  "quote_char c = (let n = (of_char c :: nat) in
     if n = 34 then [char_of (92::nat), c] else if n = 92 then [c, c]
     else if n = 8 then [char_of (92::nat), CHR ''b''] else if n = 12 then [char_of (92::nat), CHR ''f'']
     else if n = 10 then [char_of (92::nat), CHR ''n''] else if n = 13 then [char_of (92::nat), CHR ''r'']
     else if n = 9 then [char_of (92::nat), CHR ''t'']
     else if n < 32 then char_of (92::nat) # ''u00'' @ [hex_digit (n div 16), hex_digit (n mod 16)] else [c])"

definition quote_string :: "string \<Rightarrow> string" where
  "quote_string cs = [char_of (34::nat)] @ concat (map quote_char cs) @ [char_of (34::nat)]"

definition join_commas :: "string list \<Rightarrow> string" where
  "join_commas xs = concat (case xs of [] \<Rightarrow> [] | y # ys \<Rightarrow> y # map (\<lambda>z. '','' @ z) ys)"

fun canonicalJson :: "(string \<Rightarrow> string) \<Rightarrow> jvalue \<Rightarrow> string" where
  "canonicalJson collate (VArray xs) = ''['' @ join_commas (map (canonicalJson collate) xs) @ '']''"
| "canonicalJson collate (VObject ob) = ''{'' @ join_commas (map snd (sort_key (collate \<circ> fst)
     (map (\<lambda>(k, v). (k, quote_string k @ '':'' @ canonicalJson collate v)) ob))) @ ''}''"
| "canonicalJson collate VNull = ''null''"
| "canonicalJson collate (VBool b) = (if b then ''true'' else ''false'')"
| "canonicalJson collate (VNumber n) = n"
| "canonicalJson collate (VString cs) = quote_string cs"

subsection \<open>Records\<close>

datatype idem_status = IdemProcessing | IdemCompleted

record idem_record =
  idr_id :: uuid
  idr_userId :: uuid
  idr_scope :: string
  idr_key :: string
  idr_requestHash :: string
  idr_status :: idem_status
  idr_responseStatus :: "int option"
  idr_responseBody :: "jvalue option"
  idr_expiresAt :: timestamp

record 'w idem_state =
  ids_records :: "idem_record list"
  ids_nextId :: uuid
  ids_world :: 'w

definition has_key :: "uuid \<Rightarrow> string \<Rightarrow> string \<Rightarrow> idem_record \<Rightarrow> bool" where
  "has_key userId scope key r \<longleftrightarrow> idr_userId r = userId \<and> idr_scope r = scope \<and> idr_key r = key"

definition day_ms :: int where "day_ms = 24 * 60 * 60 * 1000"

definition reclaim :: "string \<Rightarrow> timestamp \<Rightarrow> idem_record \<Rightarrow> idem_record" where
  "reclaim requestHash expiresAt r = r\<lparr>idr_requestHash := requestHash, idr_status := IdemProcessing,
     idr_responseStatus := None, idr_responseBody := None, idr_expiresAt := expiresAt\<rparr>"

text \<open>The record and whether the caller owns it.\<close>

definition reserve ::
    "env \<Rightarrow> uuid \<Rightarrow> string \<Rightarrow> string \<Rightarrow> string \<Rightarrow> 'w idem_state \<Rightarrow> (idem_record \<times> bool) \<times> 'w idem_state" where
  "reserve E userId scope key requestHash s = (
     let expiresAt = env_now E + day_ms in
     case find_first (has_key userId scope key) (ids_records s) of
       None \<Rightarrow> (let r = \<lparr>idr_id = ids_nextId s, idr_userId = userId, idr_scope = scope, idr_key = key,
           idr_requestHash = requestHash, idr_status = IdemProcessing, idr_responseStatus = None,
           idr_responseBody = None, idr_expiresAt = expiresAt\<rparr>
         in ((r, True), s\<lparr>ids_records := ids_records s @ [r], ids_nextId := ids_nextId s + 1\<rparr>))
     | Some existing \<Rightarrow>
         if idr_expiresAt existing \<le> env_now E then
           (case update_many (\<lambda>r. idr_id r = idr_id existing \<and> idr_expiresAt r \<le> env_now E)
               (reclaim requestHash expiresAt) (ids_records s) of
             (n, rs) \<Rightarrow> if n = 1
               then ((existing\<lparr>idr_requestHash := requestHash, idr_status := IdemProcessing\<rparr>, True), s\<lparr>ids_records := rs\<rparr>)
               else ((existing, False), s\<lparr>ids_records := rs\<rparr>))
         else ((existing, False), s))"

subsection \<open>The interceptor\<close>

datatype idem_outcome = PassThrough | Proceed uuid | Replay int "jvalue option"

definition reserve_request ::
    "env \<Rightarrow> uuid \<Rightarrow> string \<Rightarrow> string \<Rightarrow> string \<Rightarrow> 'w idem_state \<Rightarrow> (idem_outcome, 'w idem_state) resp" where
  "reserve_request E userId scope key requestHash s = (case reserve E userId scope key requestHash s of
     ((r, created), s1) \<Rightarrow>
       if created then (Inr (Proceed (idr_id r)), s1)
       else if idr_requestHash r \<noteq> requestHash then (Inl (Conflict ''IDEMPOTENCY_KEY_REUSED''), s1)
       else if idr_status r = IdemCompleted then
         (Inr (Replay (case idr_responseStatus r of None \<Rightarrow> 200 | Some n \<Rightarrow> n) (idr_responseBody r)), s1)
       else (Inl (Conflict ''IDEMPOTENCY_IN_PROGRESS''), s1))"

definition key_char :: "char \<Rightarrow> bool" where
  "key_char c = (let n = (of_char c :: nat) in (65 \<le> n \<and> n \<le> 90) \<or> (97 \<le> n \<and> n \<le> 122) \<or> (48 \<le> n \<and> n \<le> 57)
     \<or> c = CHR ''.'' \<or> c = CHR ''_'' \<or> c = CHR '':'' \<or> c = CHR ''-'')"

definition valid_idempotency_key :: "string \<Rightarrow> bool" where
  "valid_idempotency_key key \<longleftrightarrow> 8 \<le> length key \<and> length key \<le> 128 \<and> list_all key_char key"

record http_request =
  hr_key :: "string option"
  hr_user :: "uuid option"
  hr_body :: jvalue
  hr_params :: jvalue

definition request_hash :: "(string \<Rightarrow> string) \<Rightarrow> (string \<Rightarrow> string) \<Rightarrow> http_request \<Rightarrow> string" where
  "request_hash sha collate q = sha (canonicalJson collate (VObject [(''body'', hr_body q), (''params'', hr_params q)]))"

definition intercept_begin ::
    "env \<Rightarrow> (string \<Rightarrow> string) \<Rightarrow> (string \<Rightarrow> string) \<Rightarrow> string option \<Rightarrow> http_request \<Rightarrow> 'w idem_state
       \<Rightarrow> (idem_outcome, 'w idem_state) resp" where
  "intercept_begin E sha collate scope q s = (case or_null scope of None \<Rightarrow> (Inr PassThrough, s)
   | Some sc \<Rightarrow> (case hr_key q of None \<Rightarrow> (Inr PassThrough, s)
     | Some key \<Rightarrow>
         if \<not> valid_idempotency_key key then (Inl (BadRequest
           ''Idempotency-Key must contain 8-128 letters, digits, dots, underscores, colons or hyphens''), s)
         else (case hr_user q of None \<Rightarrow> (Inl (BadRequest ''Idempotency requires an authenticated user''), s)
           | Some userId \<Rightarrow> reserve_request E userId sc key (request_hash sha collate q) s)))"

definition complete_record :: "int \<Rightarrow> jvalue \<Rightarrow> idem_record \<Rightarrow> idem_record" where
  "complete_record status body r = r\<lparr>idr_status := IdemCompleted, idr_responseStatus := Some status,
     idr_responseBody := Some body\<rparr>"

text \<open>After the handler: a failure frees the key, a result is stored; \<open>update\<close> throws when the record is gone.\<close>

definition finish_request ::
    "uuid \<Rightarrow> api_error + int \<times> jvalue \<Rightarrow> 'w idem_state \<Rightarrow> (int \<times> jvalue, 'w idem_state) resp" where
  "finish_request i result s = (case result of
     Inl e \<Rightarrow> (Inl e, s\<lparr>ids_records := filter (\<lambda>r. idr_id r \<noteq> i) (ids_records s)\<rparr>)
   | Inr (status, body) \<Rightarrow>
       if find_first (\<lambda>r. idr_id r = i) (ids_records s) = None then (Inl P2025, s)
       else (Inr (status, body), s\<lparr>ids_records := map (\<lambda>r. if idr_id r = i then complete_record status body r else r)
               (ids_records s)\<rparr>))"

text \<open>The whole interceptor, when no other request runs between its two steps.\<close>

definition intercept ::
    "env \<Rightarrow> (string \<Rightarrow> string) \<Rightarrow> (string \<Rightarrow> string) \<Rightarrow> string option \<Rightarrow> http_request
       \<Rightarrow> ('w \<Rightarrow> (int \<times> jvalue, 'w) resp) \<Rightarrow> 'w idem_state \<Rightarrow> (int \<times> jvalue option, 'w idem_state) resp" where
  "intercept E sha collate scope q handler s = and_then (intercept_begin E sha collate scope q s) (\<lambda>outcome s1.
     (case outcome of
       Replay status body \<Rightarrow> (Inr (status, body), s1)
     | PassThrough \<Rightarrow> (case handler (ids_world s1) of
         (Inl e, w) \<Rightarrow> (Inl e, s1\<lparr>ids_world := w\<rparr>)
       | (Inr (status, body), w) \<Rightarrow> (Inr (status, Some body), s1\<lparr>ids_world := w\<rparr>))
     | Proceed i \<Rightarrow> (case handler (ids_world s1) of (result, w) \<Rightarrow>
         and_then (finish_request i result (s1\<lparr>ids_world := w\<rparr>)) (\<lambda>r s2. (Inr (fst r, Some (snd r)), s2)))))"

subsection \<open>Interleaved requests\<close>




















subsection \<open>A key runs its handler once\<close>





subsection \<open>The order of members does not matter\<close>

text \<open>Two objects with the same members in another order have the same canonical text, when the collation
  tells their names apart.\<close>

lemma canonical_order:
  assumes "distinct (map (collate \<circ> fst) ob)" "mset ob' = mset ob"
  shows "canonicalJson collate (VObject ob') = canonicalJson collate (VObject ob)"
proof -
  let ?f = "\<lambda>(k, v). (k, quote_string k @ '':'' @ canonicalJson collate v)"
  have keys: "map (collate \<circ> fst) (map ?f ob) = map (collate \<circ> fst) ob" by auto
  have "mset (map ?f ob') = mset (map ?f ob)" using assms(2) by simp
  moreover have "inj_on (collate \<circ> fst) (set (map ?f ob))"
    using assms(1) unfolding keys [symmetric] by (rule distinct_map [THEN iffD1, THEN conjunct2])
  ultimately have "sort_key (collate \<circ> fst) (map ?f ob') = sort_key (collate \<circ> fst) (map ?f ob)"
    by (metis (no_types, lifting) properties_for_sort_key sort_key_inj_key_eq sorted_sort_key mset_sort)
  then show ?thesis by simp
qed

end
