(* ===== verification/FinancialMeetings.thy ===== *)
theory FinancialMeetings
  imports Outbox
begin

text \<open>
  The financial meetings of the two partners: \<open>modules/finance/financial-meetings.service.ts\<close>.  A meeting
  is planned, changed or cancelled by its creator and completed by either partner; on a meeting the partners
  propose decisions that the other one agrees to or rejects.  Every write runs in one transaction with its
  audit event and the notification of the other partner.
\<close>

subsection \<open>Rows and requests\<close>

datatype fmeeting_status = MeetingScheduled | MeetingCompleted | MeetingCancelled
datatype fdecision_status = DecisionProposed | DecisionAgreed | DecisionRejected

record fmeeting =
  fm_id :: uuid
  fm_familyId :: uuid
  fm_createdById :: uuid
  fm_title :: string
  fm_scheduledAt :: timestamp
  fm_notes :: "string option"
  fm_status :: fmeeting_status
  fm_version :: int
  fm_createdAt :: timestamp
  fm_updatedAt :: timestamp

record fdecision =
  fd_id :: uuid
  fd_meetingId :: uuid
  fd_createdById :: uuid
  fd_respondedById :: "uuid option"
  fd_title :: string
  fd_description :: "string option"
  fd_status :: fdecision_status
  fd_respondedAt :: "timestamp option"
  fd_version :: int
  fd_createdAt :: timestamp
  fd_updatedAt :: timestamp

record fmeetings_db = core +
  fmdb_meetings :: "fmeeting list"
  fmdb_decisions :: "fdecision list"

text \<open>A date of a request is a text in ISO 8601; \<open>new Date\<close> does not read every such text (a week date, say),
  and then the time value is \<open>NaN\<close>.\<close>

datatype meeting_instant = ReadableDate timestamp | UnreadableDate

record create_fmeeting_dto =
  cfm_title :: string
  cfm_scheduledAt :: meeting_instant
  cfm_notes :: "string option"

text \<open>\<open>IsOptional\<close> lets an explicit \<open>null\<close> of every field through.\<close>

record update_fmeeting_dto =
  ufm_title :: "string option option"
  ufm_scheduledAt :: "meeting_instant option option"
  ufm_notes :: "string option option"

record create_fdecision_dto =
  cfd_title :: string
  cfd_description :: "string option"

subsection \<open>Helpers\<close>

definition future_date :: "env \<Rightarrow> meeting_instant \<Rightarrow> api_error + timestamp" where
  "future_date E value = (case value of
     UnreadableDate \<Rightarrow> Inl (BadRequest ''Meeting date must be in the future'')
   | ReadableDate t \<Rightarrow> if t \<le> env_now E then Inl (BadRequest ''Meeting date must be in the future'') else Inr t)"

definition fmeeting_in :: "uuid \<Rightarrow> uuid \<Rightarrow> fmeeting \<Rightarrow> bool" where
  "fmeeting_in i familyId m \<longleftrightarrow> fm_id m = i \<and> fm_familyId m = familyId"

definition find_fmeeting :: "uuid \<Rightarrow> uuid \<Rightarrow> fmeetings_db \<Rightarrow> api_error + fmeeting" where
  "find_fmeeting i familyId s = (case find_first (fmeeting_in i familyId) (fmdb_meetings s) of
     None \<Rightarrow> Inl (NotFound ''Financial meeting not found'') | Some m \<Rightarrow> Inr m)"

definition otherPartner :: "uuid \<Rightarrow> uuid \<Rightarrow> 'a core_scheme \<Rightarrow> api_error + uuid" where
  "otherPartner familyId userId s =
     (case find_first (\<lambda>m. member_familyId m = familyId \<and> member_role m = PARTNER \<and> member_userId m \<noteq> userId)
        (core_members s) of
        None \<Rightarrow> Inl (Conflict ''A second partner is required for financial meetings'')
      | Some m \<Rightarrow> Inr (member_userId m))"

text \<open>The last steps of a handler: the notification of the other partner, who is looked up for its argument.\<close>

definition notify_partner ::
    "env \<Rightarrow> uuid \<Rightarrow> uuid \<Rightarrow> string \<Rightarrow> string \<Rightarrow> string \<Rightarrow> fmeetings_db \<Rightarrow> (unit, fmeetings_db) resp" where
  "notify_partner E familyId userId type title body s = (case otherPartner familyId userId s of Inl e \<Rightarrow> (Inl e, s)
   | Inr recipient \<Rightarrow> notifyUserInTransaction E \<lparr>dn_userId = recipient, dn_familyId = Some familyId,
       dn_type = type, dn_title = title, dn_body = Some body\<rparr> s)"

definition fmeeting_audit :: "uuid \<Rightarrow> uuid \<Rightarrow> string \<Rightarrow> uuid \<Rightarrow> audit_input" where
  "fmeeting_audit userId familyId action i =
     audit_of userId familyId (''financial_meeting.'' @ action) ''financial_meeting'' i"

definition fdecision_audit :: "uuid \<Rightarrow> uuid \<Rightarrow> string \<Rightarrow> uuid \<Rightarrow> audit_input" where
  "fdecision_audit userId familyId action i =
     audit_of userId familyId (''financial_decision.'' @ action) ''financial_decision'' i"

text \<open>A meeting with its decisions by time of creation, as \<open>meetingInclude\<close> reads it and the response shows it.\<close>

definition decisions_of :: "fmeetings_db \<Rightarrow> uuid \<Rightarrow> fdecision list" where
  "decisions_of s i = sort_key fd_createdAt (filter (\<lambda>d. fd_meetingId d = i) (fmdb_decisions s))"

definition fmeeting_view :: "fmeetings_db \<Rightarrow> fmeeting \<Rightarrow> fmeeting \<times> fdecision list" where
  "fmeeting_view s m = (m, decisions_of s (fm_id m))"

subsection \<open>Writes\<close>

datatype fmeeting_change =
    ChangeMeeting update_fmeeting_dto timestamp
  | SetMeeting fmeeting_status

definition write_fmeeting :: "timestamp \<times> fmeeting_change \<Rightarrow> fmeeting \<Rightarrow> fmeeting" where
  "write_fmeeting nc m = (let m1 = (case snd nc of
       ChangeMeeting dto at \<Rightarrow> m\<lparr>
         fm_title := (case ufm_title dto of Some (Some t) \<Rightarrow> js_trim t | _ \<Rightarrow> fm_title m),
         fm_scheduledAt := at,
         fm_notes := (case ufm_notes dto of None \<Rightarrow> fm_notes m | Some v \<Rightarrow> trim_or_null v)\<rparr>
     | SetMeeting status \<Rightarrow> m\<lparr>fm_status := status\<rparr>)
   in m1\<lparr>fm_version := fm_version m + 1, fm_updatedAt := fst nc\<rparr>)"

interpretation fmeeting_rows: versioned_rows fm_id fm_version write_fmeeting
  by unfold_locales (simp_all add: write_fmeeting_def Let_def split: fmeeting_change.split)

definition update_fmeetings ::
    "(fmeeting \<Rightarrow> bool) \<Rightarrow> (fmeeting \<Rightarrow> fmeeting) \<Rightarrow> fmeetings_db \<Rightarrow> nat \<times> fmeetings_db" where
  "update_fmeetings P f s = (fst (update_many P f (fmdb_meetings s)),
     s\<lparr>fmdb_meetings := snd (update_many P f (fmdb_meetings s))\<rparr>)"

text \<open>The \<open>where\<close> clause of every write on a meeting; without an expected version it is the one just read.\<close>

definition still_scheduled :: "uuid \<Rightarrow> uuid \<Rightarrow> int option \<Rightarrow> fmeeting \<Rightarrow> fmeeting \<Rightarrow> bool" where
  "still_scheduled i familyId expectedVersion current m \<longleftrightarrow> fmeeting_in i familyId m \<and> fm_status m = MeetingScheduled
     \<and> fm_version m = (case expectedVersion of None \<Rightarrow> fm_version current | Some v \<Rightarrow> v)"

text \<open>What \<open>update\<close>, \<open>cancel\<close> and \<open>setMeetingStatus\<close> do once the guards have passed: the conditional write, the row
  read back, the audit event and the notification. \<open>cancel\<close> does not read the row back and puts the title it
  found before into the notification, which is the same text.\<close>

definition change_fmeeting ::
    "env \<Rightarrow> uuid \<Rightarrow> uuid \<Rightarrow> fmeeting \<Rightarrow> int option \<Rightarrow> fmeeting_change \<Rightarrow> string \<Rightarrow> string \<Rightarrow> string \<Rightarrow> fmeetings_db
       \<Rightarrow> (fmeeting \<times> fdecision list, fmeetings_db) resp" where
  "change_fmeeting E familyId userId current expectedVersion change action type title s =
     (case update_fmeetings (still_scheduled (fm_id current) familyId expectedVersion current)
        (write_fmeeting (env_now E, change)) s of
      (written, s1) \<Rightarrow>
        if written \<noteq> 1 then (Inl (Conflict ''Financial meeting was changed concurrently''), s1)
        else (case find_first (\<lambda>m. fm_id m = fm_id current) (fmdb_meetings s1) of
          None \<Rightarrow> (Inl P2025, s1)
        | Some updated \<Rightarrow>
            and_then (notify_partner E familyId userId type title (fm_title updated)
                (audit_record E (fmeeting_audit userId familyId action (fm_id current)) s1))
              (\<lambda>_ s2. (Inr (fmeeting_view s1 updated), s2))))"

subsection \<open>FinancialMeetingsService\<close>

definition new_fmeeting :: "env \<Rightarrow> uuid \<Rightarrow> uuid \<Rightarrow> uuid \<Rightarrow> create_fmeeting_dto \<Rightarrow> timestamp \<Rightarrow> fmeeting" where
  "new_fmeeting E i familyId userId dto at = \<lparr>fm_id = i, fm_familyId = familyId, fm_createdById = userId,
     fm_title = js_trim (cfm_title dto), fm_scheduledAt = at, fm_notes = trim_or_null (cfm_notes dto),
     fm_status = MeetingScheduled, fm_version = 1, fm_createdAt = env_now E, fm_updatedAt = env_now E\<rparr>"

definition fmeetings_create_tx ::
    "env \<Rightarrow> uuid \<Rightarrow> uuid \<Rightarrow> create_fmeeting_dto \<Rightarrow> timestamp \<Rightarrow> fmeetings_db
       \<Rightarrow> (fmeeting \<times> fdecision list, fmeetings_db) resp" where
  "fmeetings_create_tx E familyId userId dto at s = (case otherPartner familyId userId s of Inl e \<Rightarrow> (Inl e, s)
   | Inr recipient \<Rightarrow> (case fresh s of (i, s1) \<Rightarrow>
       let m = new_fmeeting E i familyId userId dto at;
           s2 = audit_record E (fmeeting_audit userId familyId ''created'' i) (s1\<lparr>fmdb_meetings := fmdb_meetings s1 @ [m]\<rparr>)
       in and_then (notifyUserInTransaction E \<lparr>dn_userId = recipient, dn_familyId = Some familyId,
              dn_type = ''FINANCIAL_MEETING_SCHEDULED'', dn_title = ''Financial meeting planned'',
              dn_body = Some (fm_title m)\<rparr> s2)
            (\<lambda>_ s3. (Inr (fmeeting_view s2 m), s3))))"

definition fmeetings_create ::
    "env \<Rightarrow> uuid \<Rightarrow> create_fmeeting_dto \<Rightarrow> fmeetings_db \<Rightarrow> (fmeeting \<times> fdecision list, fmeetings_db) resp" where
  "fmeetings_create E userId dto s = (case requirePartner userId s of Inl e \<Rightarrow> (Inl e, s)
   | Inr ctx \<Rightarrow> (case future_date E (cfm_scheduledAt dto) of Inl e \<Rightarrow> (Inl e, s)
     | Inr at \<Rightarrow> transaction s (fmeetings_create_tx E (ctx_familyId ctx) userId dto at s)))"

definition fmeetings_list :: "uuid \<Rightarrow> fmeetings_db \<Rightarrow> api_error + (fmeeting \<times> fdecision list) list" where
  "fmeetings_list userId s = (case requirePartner userId s of Inl e \<Rightarrow> Inl e
   | Inr ctx \<Rightarrow> Inr (map (fmeeting_view s) (sort_key (\<lambda>m. (fm_scheduledAt m, fm_createdAt m))
       (filter (\<lambda>m. fm_familyId m = ctx_familyId ctx) (fmdb_meetings s)))))"

definition fmeetings_update_tx ::
    "env \<Rightarrow> uuid \<Rightarrow> uuid \<Rightarrow> uuid \<Rightarrow> update_fmeeting_dto \<Rightarrow> int option \<Rightarrow> fmeetings_db
       \<Rightarrow> (fmeeting \<times> fdecision list, fmeetings_db) resp" where
  "fmeetings_update_tx E familyId userId i dto expectedVersion s = (case find_fmeeting i familyId s of Inl e \<Rightarrow> (Inl e, s)
   | Inr current \<Rightarrow>
     if fm_createdById current \<noteq> userId then (Inl (Forbidden ''Only the meeting creator can update it''), s)
     else if fm_status current \<noteq> MeetingScheduled then
       (Inl (Conflict ''Only scheduled meetings can be updated''), s)
     else (case (case ufm_scheduledAt dto of Some (Some v) \<Rightarrow> future_date E v | _ \<Rightarrow> Inr (fm_scheduledAt current)) of
         Inl e \<Rightarrow> (Inl e, s)
       | Inr at \<Rightarrow> change_fmeeting E familyId userId current expectedVersion (ChangeMeeting dto at)
           ''updated'' ''FINANCIAL_MEETING_UPDATED'' ''Financial meeting changed'' s))"

definition fmeetings_update ::
    "env \<Rightarrow> uuid \<Rightarrow> uuid \<Rightarrow> update_fmeeting_dto \<Rightarrow> int option \<Rightarrow> fmeetings_db
       \<Rightarrow> (fmeeting \<times> fdecision list, fmeetings_db) resp" where
  "fmeetings_update E userId i dto expectedVersion s =
    (if ufm_title dto = None \<and> ufm_scheduledAt dto = None \<and> ufm_notes dto = None then
       (Inl (BadRequest ''At least one field must be provided''), s)
     else case requirePartner userId s of Inl e \<Rightarrow> (Inl e, s)
     | Inr ctx \<Rightarrow> transaction s (fmeetings_update_tx E (ctx_familyId ctx) userId i dto expectedVersion s))"

definition setMeetingStatus ::
    "env \<Rightarrow> uuid \<Rightarrow> uuid \<Rightarrow> fmeeting_status \<Rightarrow> int option \<Rightarrow> fmeetings_db
       \<Rightarrow> (fmeeting \<times> fdecision list, fmeetings_db) resp" where
  "setMeetingStatus E userId i status expectedVersion s = (case requirePartner userId s of Inl e \<Rightarrow> (Inl e, s)
   | Inr ctx \<Rightarrow> transaction s (case find_fmeeting i (ctx_familyId ctx) s of Inl e \<Rightarrow> (Inl e, s)
     | Inr current \<Rightarrow>
       if fm_status current \<noteq> MeetingScheduled then
         (Inl (Conflict ''Only scheduled meetings can be completed''), s)
       else change_fmeeting E (ctx_familyId ctx) userId current expectedVersion (SetMeeting status)
         ''completed'' ''FINANCIAL_MEETING_COMPLETED'' ''Financial meeting completed'' s))"

definition fmeetings_complete ::
    "env \<Rightarrow> uuid \<Rightarrow> uuid \<Rightarrow> int option \<Rightarrow> fmeetings_db \<Rightarrow> (fmeeting \<times> fdecision list, fmeetings_db) resp" where
  "fmeetings_complete E userId i expectedVersion s = setMeetingStatus E userId i MeetingCompleted expectedVersion s"

definition fmeetings_cancel ::
    "env \<Rightarrow> uuid \<Rightarrow> uuid \<Rightarrow> int option \<Rightarrow> fmeetings_db \<Rightarrow> (unit, fmeetings_db) resp" where
  "fmeetings_cancel E userId i expectedVersion s = (case requirePartner userId s of Inl e \<Rightarrow> (Inl e, s)
   | Inr ctx \<Rightarrow> transaction s (case find_fmeeting i (ctx_familyId ctx) s of Inl e \<Rightarrow> (Inl e, s)
     | Inr current \<Rightarrow>
       if fm_createdById current \<noteq> userId then (Inl (Forbidden ''Only the meeting creator can cancel it''), s)
       else if fm_status current \<noteq> MeetingScheduled then
         (Inl (Conflict ''Only scheduled meetings can be cancelled''), s)
       else and_then (change_fmeeting E (ctx_familyId ctx) userId current expectedVersion (SetMeeting MeetingCancelled)
           ''cancelled'' ''FINANCIAL_MEETING_CANCELLED'' ''Financial meeting cancelled'' s)
         (\<lambda>_ s1. (Inr (), s1))))"

definition new_fdecision :: "env \<Rightarrow> uuid \<Rightarrow> uuid \<Rightarrow> uuid \<Rightarrow> create_fdecision_dto \<Rightarrow> fdecision" where
  "new_fdecision E i meetingId userId dto = \<lparr>fd_id = i, fd_meetingId = meetingId, fd_createdById = userId,
     fd_respondedById = None, fd_title = js_trim (cfd_title dto), fd_description = trim_or_null (cfd_description dto),
     fd_status = DecisionProposed, fd_respondedAt = None, fd_version = 1, fd_createdAt = env_now E,
     fd_updatedAt = env_now E\<rparr>"

definition createDecision ::
    "env \<Rightarrow> uuid \<Rightarrow> uuid \<Rightarrow> create_fdecision_dto \<Rightarrow> fmeetings_db \<Rightarrow> (fdecision, fmeetings_db) resp" where
  "createDecision E userId meetingId dto s = (case requirePartner userId s of Inl e \<Rightarrow> (Inl e, s)
   | Inr ctx \<Rightarrow> transaction s (case find_fmeeting meetingId (ctx_familyId ctx) s of Inl e \<Rightarrow> (Inl e, s)
     | Inr meeting \<Rightarrow>
       if fm_status meeting = MeetingCancelled then
         (Inl (Conflict ''A cancelled meeting cannot have decisions''), s)
       else (case fresh s of (i, s1) \<Rightarrow>
         let d = new_fdecision E i meetingId userId dto;
             s2 = audit_record E (fdecision_audit userId (ctx_familyId ctx) ''proposed'' i)
               (s1\<lparr>fmdb_decisions := fmdb_decisions s1 @ [d]\<rparr>)
         in and_then (notify_partner E (ctx_familyId ctx) userId ''FINANCIAL_DECISION_PROPOSED''
               ''A financial decision is needed'' (fd_title d) s2)
             (\<lambda>_ s3. (Inr d, s3)))))"

definition update_fdecisions ::
    "(fdecision \<Rightarrow> bool) \<Rightarrow> (fdecision \<Rightarrow> fdecision) \<Rightarrow> fmeetings_db \<Rightarrow> nat \<times> fmeetings_db" where
  "update_fdecisions P f s = (fst (update_many P f (fmdb_decisions s)),
     s\<lparr>fmdb_decisions := snd (update_many P f (fmdb_decisions s))\<rparr>)"

definition write_answer :: "timestamp \<times> fdecision_status \<times> uuid \<Rightarrow> fdecision \<Rightarrow> fdecision" where
  "write_answer a d = (case a of (now, status, userId) \<Rightarrow> d\<lparr>fd_status := status, fd_respondedById := Some userId,
     fd_respondedAt := Some now, fd_version := fd_version d + 1, fd_updatedAt := now\<rparr>)"

interpretation fdecision_rows: versioned_rows fd_id fd_version write_answer
  by unfold_locales (simp_all add: write_answer_def split: prod.split)

datatype decision_answer = Agree | Reject

definition answer_status :: "decision_answer \<Rightarrow> fdecision_status" where
  "answer_status a = (case a of Agree \<Rightarrow> DecisionAgreed | Reject \<Rightarrow> DecisionRejected)"

text \<open>The body of the transaction of \<open>respond\<close>.\<close>

definition respond_tx ::
    "env \<Rightarrow> uuid \<Rightarrow> uuid \<Rightarrow> uuid \<Rightarrow> uuid \<Rightarrow> decision_answer \<Rightarrow> int option \<Rightarrow> fmeetings_db
       \<Rightarrow> (fdecision, fmeetings_db) resp" where
  "respond_tx E familyId userId meetingId decisionId answer expectedVersion s =
    (case find_fmeeting meetingId familyId s of Inl e \<Rightarrow> (Inl e, s)
     | Inr _ \<Rightarrow>
    (case find_first (\<lambda>d. fd_id d = decisionId \<and> fd_meetingId d = meetingId) (fmdb_decisions s) of
       None \<Rightarrow> (Inl (NotFound ''Financial decision not found''), s)
     | Some decision \<Rightarrow>
       if fd_createdById decision = userId then
         (Inl (Forbidden ''The decision creator cannot respond to it''), s)
       else if fd_status decision \<noteq> DecisionProposed then
         (Inl (Conflict ''Financial decision has already been answered''), s)
       else (case update_fdecisions (\<lambda>d. fd_id d = fd_id decision \<and> fd_status d = DecisionProposed
             \<and> fd_version d = (case expectedVersion of None \<Rightarrow> fd_version decision | Some v \<Rightarrow> v))
           (write_answer (env_now E, answer_status answer, userId)) s of
         (written, s1) \<Rightarrow>
           if written \<noteq> 1 then (Inl (Conflict ''Financial decision was changed concurrently''), s1)
           else (case find_first (\<lambda>d. fd_id d = fd_id decision) (fmdb_decisions s1) of
             None \<Rightarrow> (Inl P2025, s1)
           | Some responded \<Rightarrow>
               and_then (notifyUserInTransaction E \<lparr>dn_userId = fd_createdById decision, dn_familyId = Some familyId,
                   dn_type = (case answer of Agree \<Rightarrow> ''FINANCIAL_DECISION_AGREED'' | Reject \<Rightarrow> ''FINANCIAL_DECISION_REJECTED''),
                   dn_title = (case answer of Agree \<Rightarrow> ''Financial decision agreed'' | Reject \<Rightarrow> ''Financial decision rejected''),
                   dn_body = Some (fd_title decision)\<rparr>
                   (audit_record E (fdecision_audit userId familyId (case answer of Agree \<Rightarrow> ''agreed'' | Reject \<Rightarrow> ''rejected'')
                     (fd_id decision)) s1))
                 (\<lambda>_ s2. (Inr responded, s2))))))"

definition fmeetings_respond ::
    "env \<Rightarrow> uuid \<Rightarrow> uuid \<Rightarrow> uuid \<Rightarrow> decision_answer \<Rightarrow> int option \<Rightarrow> fmeetings_db \<Rightarrow> (fdecision, fmeetings_db) resp" where
  "fmeetings_respond E userId meetingId decisionId answer expectedVersion s = (case requirePartner userId s of
     Inl e \<Rightarrow> (Inl e, s)
   | Inr ctx \<Rightarrow> transaction s
       (respond_tx E (ctx_familyId ctx) userId meetingId decisionId answer expectedVersion s))"

end
