(* ===== verification/FinancialMeetingsSpec.thy ===== *)
theory FinancialMeetingsSpec
  imports FinancialMeetings
begin

text \<open>
  What the financial meetings promise, whoever calls the operations in whatever order: which rows are
  consistent (\<open>fmeetings_ok\<close>), how a meeting and a decision may change and through whom (\<open>fmeeting_step\<close>,
  \<open>fdecision_step\<close>, where \<open>U\<close> are the users that act), and that every operation follows this
  (\<open>fmeetings_evolve\<close>).
\<close>

subsection \<open>The rows\<close>

definition fmeeting_ok :: "uuid \<Rightarrow> fmeeting \<Rightarrow> bool" where
  "fmeeting_ok n m \<longleftrightarrow> fm_id m < n \<and> 1 \<le> fm_version m \<and> (fm_status m \<noteq> MeetingScheduled \<longrightarrow> 2 \<le> fm_version m)"

definition fdecision_ok :: "uuid \<Rightarrow> uuid set \<Rightarrow> fdecision \<Rightarrow> bool" where
  "fdecision_ok n ms d \<longleftrightarrow> fd_id d < n \<and> fd_meetingId d \<in> ms
     \<and> (if fd_status d = DecisionProposed
        then fd_version d = 1 \<and> fd_respondedById d = None \<and> fd_respondedAt d = None
        else fd_version d = 2 \<and> fd_respondedAt d \<noteq> None
          \<and> (case fd_respondedById d of None \<Rightarrow> False | Some u \<Rightarrow> u \<noteq> fd_createdById d))"

definition fmeetings_ok :: "fmeetings_db \<Rightarrow> bool" where
  "fmeetings_ok s \<longleftrightarrow> distinct (map fm_id (fmdb_meetings s)) \<and> distinct (map fd_id (fmdb_decisions s))
     \<and> (\<forall>m \<in> set (fmdb_meetings s). fmeeting_ok (core_nextId s) m)
     \<and> (\<forall>d \<in> set (fmdb_decisions s). fdecision_ok (core_nextId s) (fm_id ` set (fmdb_meetings s)) d)"

subsection \<open>How the rows change\<close>

definition is_partner :: "'a core_scheme \<Rightarrow> uuid \<Rightarrow> uuid \<Rightarrow> bool" where
  "is_partner s familyId u \<longleftrightarrow> (\<exists>m \<in> set (core_members s). member_familyId m = familyId \<and> member_userId m = u
     \<and> member_role m = PARTNER)"

definition fm_terms :: "fmeeting \<Rightarrow> string \<times> timestamp \<times> string option" where
  "fm_terms m = (fm_title m, fm_scheduledAt m, fm_notes m)"

definition fmeeting_step :: "uuid set \<Rightarrow> fmeetings_db \<Rightarrow> fmeeting \<Rightarrow> fmeeting \<Rightarrow> bool" where
  "fmeeting_step U s m m' \<longleftrightarrow> fm_id m' = fm_id m \<and> fm_familyId m' = fm_familyId m
     \<and> fm_createdById m' = fm_createdById m \<and> fm_createdAt m' = fm_createdAt m
     \<and> (m' = m \<or> fm_status m = MeetingScheduled \<and> fm_version m < fm_version m'
          \<and> (\<exists>u \<in> U. is_partner s (fm_familyId m) u))
     \<and> (fm_terms m' \<noteq> fm_terms m \<or> fm_status m' = MeetingCancelled \<and> fm_status m \<noteq> MeetingCancelled
          \<longrightarrow> fm_createdById m \<in> U)"

text \<open>Who may answer on a meeting: the partners of its family.\<close>

definition may_answer :: "fmeetings_db \<Rightarrow> uuid \<Rightarrow> uuid \<Rightarrow> bool" where
  "may_answer s i u \<longleftrightarrow> (\<exists>m \<in> set (fmdb_meetings s). fm_id m = i \<and> is_partner s (fm_familyId m) u)"

definition fdecision_step :: "uuid set \<Rightarrow> fmeetings_db \<Rightarrow> fdecision \<Rightarrow> fdecision \<Rightarrow> bool" where
  "fdecision_step U s d d' \<longleftrightarrow> fd_id d' = fd_id d \<and> fd_meetingId d' = fd_meetingId d
     \<and> fd_createdById d' = fd_createdById d \<and> fd_title d' = fd_title d \<and> fd_description d' = fd_description d
     \<and> fd_createdAt d' = fd_createdAt d
     \<and> (d' = d \<or> fd_status d = DecisionProposed \<and> fd_status d' \<noteq> DecisionProposed
          \<and> (\<exists>u \<in> U. fd_respondedById d' = Some u \<and> may_answer s (fd_meetingId d) u))"

text \<open>A cancelled meeting gets no further decisions; those it has can still be answered.\<close>

definition decision_ids :: "fmeetings_db \<Rightarrow> uuid \<Rightarrow> uuid list" where
  "decision_ids s i = map fd_id (filter (\<lambda>d. fd_meetingId d = i) (fmdb_decisions s))"

definition cancelled_closed :: "fmeetings_db \<Rightarrow> fmeetings_db \<Rightarrow> bool" where
  "cancelled_closed s t \<longleftrightarrow> (\<forall>m \<in> set (fmdb_meetings s). fm_status m = MeetingCancelled
     \<longrightarrow> decision_ids t (fm_id m) = decision_ids s (fm_id m))"

definition fmeetings_follow :: "uuid set \<Rightarrow> fmeetings_db \<Rightarrow> fmeetings_db \<Rightarrow> bool" where
  "fmeetings_follow U s t \<longleftrightarrow> core_members t = core_members s
     \<and> rows_kept (fmeeting_step U s) (fmdb_meetings s) (fmdb_meetings t)
     \<and> rows_kept (fdecision_step U s) (fmdb_decisions s) (fmdb_decisions t)
     \<and> cancelled_closed s t"

definition fmeetings_evolve :: "uuid set \<Rightarrow> fmeetings_db \<Rightarrow> fmeetings_db \<Rightarrow> bool" where
  "fmeetings_evolve U s t \<longleftrightarrow> (fmeetings_ok s \<longrightarrow> fmeetings_ok t \<and> fmeetings_follow U s t)"

lemma fmeeting_step_refl [simp]: "fmeeting_step U s m m"
  by (simp add: fmeeting_step_def)

lemma fdecision_step_refl [simp]: "fdecision_step U s d d"
  by (simp add: fdecision_step_def)

lemma is_partner_cong: "core_members t = core_members s \<Longrightarrow> is_partner t = is_partner s"
  by (simp add: is_partner_def fun_eq_iff)

lemma fmeeting_step_trans:
  assumes "core_members t = core_members s" "fmeeting_step U s a b" "fmeeting_step U t b c"
  shows "fmeeting_step U s a c"
proof -
  have "fm_terms b \<noteq> fm_terms a \<or> fm_terms c \<noteq> fm_terms b" if "fm_terms c \<noteq> fm_terms a"
    using that by metis
  moreover have "b = c \<or> a = b \<or> fm_version a < fm_version c"
    using assms(2,3) by (auto simp: fmeeting_step_def)
  ultimately show ?thesis
    using assms(2,3) unfolding fmeeting_step_def is_partner_cong [OF assms(1)] by metis
qed

lemma kept_meeting:
  assumes "rows_kept (fmeeting_step U s) (fmdb_meetings s) (fmdb_meetings t)" "m \<in> set (fmdb_meetings s)"
  shows "\<exists>m' \<in> set (fmdb_meetings t). fmeeting_step U s m m'"
  using rows_kept_rowD [OF assms] .

lemma may_answer_before:
  assumes t: "core_members t = core_members s" and ok: "fmeetings_ok t"
    and kept: "rows_kept (fmeeting_step U s) (fmdb_meetings s) (fmdb_meetings t)"
    and i: "i \<in> fm_id ` set (fmdb_meetings s)" and may: "may_answer t i u"
  shows "may_answer s i u"
proof -
  obtain m where m: "m \<in> set (fmdb_meetings s)" "fm_id m = i" using i by auto
  obtain m' where m': "m' \<in> set (fmdb_meetings t)" "fmeeting_step U s m m'" using kept_meeting [OF kept m(1)] by auto
  obtain n where n: "n \<in> set (fmdb_meetings t)" "fm_id n = i" "is_partner t (fm_familyId n) u"
    using may by (auto simp: may_answer_def)
  have "n = m'" using ok m' m(2) n(1,2)
    by (intro distinct_key_eq [where k = fm_id and xs = "fmdb_meetings t"]) (auto simp: fmeetings_ok_def fmeeting_step_def)
  then show ?thesis using m m'(2) n(3) is_partner_cong [OF t] by (auto simp: may_answer_def fmeeting_step_def)
qed

lemma fmeetings_follow_trans:
  assumes ok: "fmeetings_ok a" "fmeetings_ok b" and ab: "fmeetings_follow U a b" and bc: "fmeetings_follow U b c"
  shows "fmeetings_follow U a c"
proof -
  have members: "core_members b = core_members a" "core_members c = core_members a"
    and rows: "rows_kept (fmeeting_step U a) (fmdb_meetings a) (fmdb_meetings b)"
    using ab bc by (simp_all add: fmeetings_follow_def)
  have "rows_kept (fmeeting_step U a) (fmdb_meetings a) (fmdb_meetings c)"
    using ab bc fmeeting_step_trans [OF members(1)] unfolding fmeetings_follow_def
    by (blast intro: rows_kept_compose)
  moreover have "rows_kept (fdecision_step U a) (fmdb_decisions a) (fmdb_decisions c)"
  proof (rule rows_kept_compose)
    show "rows_kept (fdecision_step U a) (fmdb_decisions a) (fmdb_decisions b)"
      "rows_kept (fdecision_step U b) (fmdb_decisions b) (fmdb_decisions c)"
      using ab bc by (simp_all add: fmeetings_follow_def)
    fix d d' d'' assume d: "d \<in> set (fmdb_decisions a)" and s: "fdecision_step U a d d'" "fdecision_step U b d' d''"
    have "fd_meetingId d \<in> fm_id ` set (fmdb_meetings a)"
      using ok(1) d by (auto simp: fmeetings_ok_def fdecision_ok_def)
    then have "may_answer b (fd_meetingId d) u \<Longrightarrow> may_answer a (fd_meetingId d) u" for u
      by (rule may_answer_before [OF members(1) ok(2) rows])
    with s show "fdecision_step U a d d''" unfolding fdecision_step_def by metis
  qed
  moreover have "cancelled_closed a c"
    unfolding cancelled_closed_def
  proof (intro ballI impI)
    fix m assume m: "m \<in> set (fmdb_meetings a)" "fm_status m = MeetingCancelled"
    obtain m' where m': "m' \<in> set (fmdb_meetings b)" "fmeeting_step U a m m'" using kept_meeting [OF rows m(1)] by auto
    then have "m' = m" using m(2) by (auto simp: fmeeting_step_def)
    with m m'(1) ab bc show "decision_ids c (fm_id m) = decision_ids a (fm_id m)"
      by (simp add: fmeetings_follow_def cancelled_closed_def)
  qed
  ultimately show ?thesis using members by (simp add: fmeetings_follow_def)
qed

interpretation fme: evolution "fmeetings_evolve U" for U
proof
  show "fmeetings_evolve U s s" for s
    by (simp add: fmeetings_evolve_def fmeetings_follow_def cancelled_closed_def rows_kept_refl)
  show "fmeetings_evolve U a c" if "fmeetings_evolve U a b" "fmeetings_evolve U b c" for a b c
    using that fmeetings_follow_trans unfolding fmeetings_evolve_def by blast
qed

subsection \<open>Single changes\<close>

lemma fm_feed: "fmeetings_evolve U s t \<Longrightarrow> fmeetings_evolve U s (t\<lparr>core_feed := d\<rparr>)"
  by (simp add: fmeetings_evolve_def fmeetings_ok_def fmeetings_follow_def cancelled_closed_def decision_ids_def)

lemma fm_audit: "fmeetings_evolve U s t \<Longrightarrow> fmeetings_evolve U s (audit_record E i t)"
  by (simp add: audit_record_def fm_feed)

lemma fm_notify: "fmeetings_evolve U s t \<Longrightarrow> fmeetings_evolve U s (snd (notifyUserInTransaction E n t))"
  using notifyUserInTransaction_frame [of E n t] fm_feed by auto

lemma fm_notify_partner: "fmeetings_evolve U s t \<Longrightarrow> fmeetings_evolve U s (snd (notify_partner E fam u ty ti b t))"
  by (auto simp: notify_partner_def fm_notify split: sum.split)

lemma fm_okI: "(fmeetings_ok s \<Longrightarrow> fmeetings_evolve U s t) \<Longrightarrow> fmeetings_evolve U s t"
  by (auto simp: fmeetings_evolve_def)

lemma fm_map_meetings:
  assumes "\<And>m n. m \<in> set (fmdb_meetings s) \<Longrightarrow> fmeeting_ok n m \<Longrightarrow> fmeeting_ok n (g m) \<and> fmeeting_step U s m (g m)"
  shows "fmeetings_evolve U s (s\<lparr>fmdb_meetings := map g (fmdb_meetings s)\<rparr>)"
proof -
  let ?t = "s\<lparr>fmdb_meetings := map g (fmdb_meetings s)\<rparr>"
  have "fmeetings_ok ?t \<and> fmeetings_follow U s ?t" if ok: "fmeetings_ok s"
  proof -
    have row: "fmeeting_ok (core_nextId s) (g m) \<and> fmeeting_step U s m (g m)" if "m \<in> set (fmdb_meetings s)" for m
      using assms [OF that, of "core_nextId s"] ok that by (simp add: fmeetings_ok_def)
    then have ids: "map fm_id (map g (fmdb_meetings s)) = map fm_id (fmdb_meetings s)"
      by (simp add: fmeeting_step_def)
    then have "fm_id ` set (map g (fmdb_meetings s)) = fm_id ` set (fmdb_meetings s)"
      by (metis set_map)
    with ok row ids have "fmeetings_ok ?t"
      by (simp add: fmeetings_ok_def del: map_map set_map) auto
    moreover have "fmeetings_follow U s ?t"
      using row by (auto simp: fmeetings_follow_def cancelled_closed_def decision_ids_def
        intro!: rows_kept_refl rows_kept_map)
    ultimately show ?thesis by simp
  qed
  then show ?thesis by (simp add: fmeetings_evolve_def)
qed

lemma fm_map_decisions:
  assumes "\<And>d n ms. d \<in> set (fmdb_decisions s) \<Longrightarrow> fdecision_ok n ms d \<Longrightarrow> fdecision_ok n ms (g d) \<and> fdecision_step U s d (g d)"
  shows "fmeetings_evolve U s (s\<lparr>fmdb_decisions := map g (fmdb_decisions s)\<rparr>)"
proof -
  let ?t = "s\<lparr>fmdb_decisions := map g (fmdb_decisions s)\<rparr>"
  have "fmeetings_ok ?t \<and> fmeetings_follow U s ?t" if ok: "fmeetings_ok s"
  proof -
    have row: "fdecision_ok (core_nextId s) (fm_id ` set (fmdb_meetings s)) (g d) \<and> fdecision_step U s d (g d)"
      if "d \<in> set (fmdb_decisions s)" for d
      using assms [OF that, of "core_nextId s" "fm_id ` set (fmdb_meetings s)"] ok that by (simp add: fmeetings_ok_def)
    then have ids: "map fd_id (map g (fmdb_decisions s)) = map fd_id (fmdb_decisions s)"
      by (simp add: fdecision_step_def)
    with ok row have "fmeetings_ok ?t"
      by (simp add: fmeetings_ok_def del: map_map)
    moreover have "decision_ids ?t i = decision_ids s i" for i
    proof -
      have "filter (\<lambda>d. fd_meetingId (g d) = i) (fmdb_decisions s) = filter (\<lambda>d. fd_meetingId d = i) (fmdb_decisions s)"
        using row by (intro filter_cong) (auto simp: fdecision_step_def)
      then show ?thesis using row by (auto simp: decision_ids_def filter_map o_def fdecision_step_def)
    qed
    then have "fmeetings_follow U s ?t"
      using row by (auto simp: fmeetings_follow_def cancelled_closed_def intro!: rows_kept_refl rows_kept_map)
    ultimately show ?thesis by simp
  qed
  then show ?thesis by (simp add: fmeetings_evolve_def)
qed

lemma fmeeting_ok_later: "fmeeting_ok n m \<Longrightarrow> fmeeting_ok (Suc n) m"
  by (simp add: fmeeting_ok_def)

lemma fdecision_ok_later: "fdecision_ok n ms d \<Longrightarrow> ms \<subseteq> ms' \<Longrightarrow> fdecision_ok (Suc n) ms' d"
  unfolding fdecision_ok_def by (meson less_SucI subsetD)

lemma fmeetings_ids:
  assumes "fmeetings_ok s"
  shows "core_nextId s \<notin> fm_id ` set (fmdb_meetings s)" "core_nextId s \<notin> fd_id ` set (fmdb_decisions s)"
  using assms by (auto simp: fmeetings_ok_def fmeeting_ok_def fdecision_ok_def)

lemma fm_add_meeting:
  assumes "fm_id m = core_nextId s" "fm_version m = 1" "fm_status m = MeetingScheduled"
  shows "fmeetings_evolve U s (s\<lparr>core_nextId := core_nextId s + 1, fmdb_meetings := fmdb_meetings s @ [m]\<rparr>)"
proof -
  let ?t = "s\<lparr>core_nextId := core_nextId s + 1, fmdb_meetings := fmdb_meetings s @ [m]\<rparr>"
  have "fmeetings_ok ?t" if ok: "fmeetings_ok s"
  proof -
    have "fmeeting_ok (Suc (core_nextId s)) m" using assms by (simp add: fmeeting_ok_def)
    moreover have "fdecision_ok (Suc (core_nextId s)) (insert (core_nextId s) (fm_id ` set (fmdb_meetings s))) d"
      if "d \<in> set (fmdb_decisions s)" for d
      using ok that by (intro fdecision_ok_later) (auto simp: fmeetings_ok_def)
    ultimately show ?thesis using ok assms(1) fmeetings_ids [OF ok]
      by (simp add: fmeetings_ok_def fmeeting_ok_later)
  qed
  then show ?thesis
    by (simp add: fmeetings_evolve_def fmeetings_follow_def cancelled_closed_def decision_ids_def rows_kept_refl rows_kept_append)
qed

lemma fm_add_decision:
  assumes "fd_id d = core_nextId s" "fd_version d = 1" "fd_status d = DecisionProposed" "fd_respondedById d = None"
    "fd_respondedAt d = None" and m: "m \<in> set (fmdb_meetings s)" "fm_id m = fd_meetingId d" "fm_status m \<noteq> MeetingCancelled"
  shows "fmeetings_evolve U s (s\<lparr>core_nextId := core_nextId s + 1, fmdb_decisions := fmdb_decisions s @ [d]\<rparr>)"
proof -
  let ?t = "s\<lparr>core_nextId := core_nextId s + 1, fmdb_decisions := fmdb_decisions s @ [d]\<rparr>"
  have "fmeetings_ok ?t \<and> fmeetings_follow U s ?t" if ok: "fmeetings_ok s"
  proof -
    have new: "fdecision_ok (Suc (core_nextId s)) (fm_id ` set (fmdb_meetings s)) d"
    proof -
      have "fd_meetingId d \<in> fm_id ` set (fmdb_meetings s)" using m(1) m(2) [symmetric] by simp
      with assms(1-5) show ?thesis by (simp add: fdecision_ok_def)
    qed
    have old: "fdecision_ok (Suc (core_nextId s)) (fm_id ` set (fmdb_meetings s)) e" if "e \<in> set (fmdb_decisions s)" for e
      using ok that by (intro fdecision_ok_later) (auto simp: fmeetings_ok_def)
    have "fmeetings_ok ?t" using ok assms(1) fmeetings_ids [OF ok] new old
      by (simp add: fmeetings_ok_def fmeeting_ok_later)
    moreover have same: "n = m" if "n \<in> set (fmdb_meetings s)" "fm_id n = fd_meetingId d" for n
      using ok m(1,2) that
      by (intro distinct_key_eq [where k = fm_id and xs = "fmdb_meetings s"]) (auto simp: fmeetings_ok_def)
    have "cancelled_closed s ?t"
      unfolding cancelled_closed_def using same m(3) by (auto simp: decision_ids_def)
    then have "fmeetings_follow U s ?t" by (simp add: fmeetings_follow_def rows_kept_refl rows_kept_append)
    ultimately show ?thesis by simp
  qed
  then show ?thesis by (simp add: fmeetings_evolve_def)
qed

subsection \<open>The operations\<close>

lemma requirePartner_partner: "requirePartner u s = Inr ctx \<Longrightarrow> is_partner s (ctx_familyId ctx) u"
  by (auto simp: requirePartner_Inr requireMembership_def find_member_def is_partner_def
    split: option.splits if_splits dest!: find_SomeD)

lemma find_fmeeting_InrD:
  "find_fmeeting i fam s = Inr m \<Longrightarrow> m \<in> set (fmdb_meetings s) \<and> fm_id m = i \<and> fm_familyId m = fam"
  by (auto simp: find_fmeeting_def fmeeting_in_def split: option.splits dest!: find_SomeD)

definition change_allowed :: "uuid \<Rightarrow> fmeeting \<Rightarrow> fmeeting_change \<Rightarrow> bool" where
  "change_allowed u m c \<longleftrightarrow> fm_createdById m = u \<or> c = SetMeeting MeetingCompleted"

lemma write_fmeeting_row:
  assumes "fmeeting_ok n m" "fm_status m = MeetingScheduled" "u \<in> U" "is_partner s (fm_familyId m) u" "change_allowed u m c"
    "c \<noteq> SetMeeting MeetingScheduled"
  shows "fmeeting_ok n (write_fmeeting (now, c) m) \<and> fmeeting_step U s m (write_fmeeting (now, c) m)"
  using assms
  by (cases c) (auto simp: fmeeting_ok_def fmeeting_step_def write_fmeeting_def change_allowed_def fm_terms_def)

lemma fm_write:
  assumes "fmeetings_ok s \<Longrightarrow> fmeetings_evolve U s (snd p)"
    and "\<And>t. fmeetings_evolve U s t \<Longrightarrow> fmeetings_evolve U s (snd (g t))"
  shows "fmeetings_evolve U s (snd (case p of (n, t) \<Rightarrow> if n \<noteq> 1 then (Inl e, t) else g t))"
  using assms by (cases p) (auto intro: fm_okI)

lemma change_fmeeting_evolve:
  assumes "u \<in> U" "is_partner s fam u" "current \<in> set (fmdb_meetings s)" "fm_familyId current = fam"
    "change_allowed u current c" "c \<noteq> SetMeeting MeetingScheduled"
  shows "fmeetings_evolve U s (snd (change_fmeeting E fam u current ver c ac ty ti s))"
proof (rule fm_okI)
  assume ok: "fmeetings_ok s"
  let ?w = "update_fmeetings (still_scheduled (fm_id current) fam ver current) (write_fmeeting (env_now E, c)) s"
  have "fmeetings_evolve U s (snd ?w)"
    unfolding update_fmeetings_def snd_conv update_many_simps
  proof (intro fm_map_meetings)
    fix m n assume m: "m \<in> set (fmdb_meetings s)" "fmeeting_ok n m"
    have "m = current" if "fm_id m = fm_id current"
      using ok m(1) assms(3) that
      by (intro distinct_key_eq [where k = fm_id and xs = "fmdb_meetings s"]) (auto simp: fmeetings_ok_def)
    then show "fmeeting_ok n (if still_scheduled (fm_id current) fam ver current m then write_fmeeting (env_now E, c) m else m)
      \<and> fmeeting_step U s m (if still_scheduled (fm_id current) fam ver current m then write_fmeeting (env_now E, c) m else m)"
      using m write_fmeeting_row [OF m(2) _ assms(1) _ _ assms(6)] assms(2,4,5)
      by (auto simp: still_scheduled_def fmeeting_in_def)
  qed
  then show "fmeetings_evolve U s (snd (change_fmeeting E fam u current ver c ac ty ti s))"
    unfolding change_fmeeting_def
    by (cases ?w) (auto simp: fm_notify_partner fm_audit split: option.split)
qed

lemma fmeetings_create_evolve: "fmeetings_evolve U s (snd (fmeetings_create E u dto s))"
proof -
  have add: "fmeetings_evolve U s (s\<lparr>core_nextId := core_nextId s + 1,
      fmdb_meetings := fmdb_meetings s @ [new_fmeeting E (core_nextId s) fam u dto at]\<rparr>)" for fam at
    by (rule fm_add_meeting) (simp_all add: new_fmeeting_def)
  show ?thesis
    unfolding fmeetings_create_def fmeetings_create_tx_def fresh_def prod.case Let_def
    by (intro fme.guards fme.transaction_stepI fm_notify fm_audit; simp; intro fm_notify fm_audit; use add in simp)
qed

lemma fmeetings_update_evolve: "u \<in> U \<Longrightarrow> fmeetings_evolve U s (snd (fmeetings_update E u i dto ver s))"
  unfolding fmeetings_update_def fmeetings_update_tx_def
  by (intro fme.guards fme.transaction_stepI change_fmeeting_evolve)
    (auto simp: change_allowed_def dest: requirePartner_partner find_fmeeting_InrD)

lemma setMeetingStatus_evolve:
  "u \<in> U \<Longrightarrow> fmeetings_evolve U s (snd (setMeetingStatus E u i MeetingCompleted ver s))"
  unfolding setMeetingStatus_def
  by (intro fme.guards fme.transaction_stepI change_fmeeting_evolve)
    (auto simp: change_allowed_def dest: requirePartner_partner find_fmeeting_InrD)

lemma fmeetings_cancel_evolve: "u \<in> U \<Longrightarrow> fmeetings_evolve U s (snd (fmeetings_cancel E u i ver s))"
  unfolding fmeetings_cancel_def snd_and_then_return
  by (intro fme.guards fme.transaction_stepI; simp?; intro change_fmeeting_evolve)
    (auto simp: change_allowed_def dest: requirePartner_partner find_fmeeting_InrD)

lemma createDecision_evolve: "fmeetings_evolve U s (snd (createDecision E u i dto s))"
proof -
  have add: "fmeetings_evolve U s (s\<lparr>core_nextId := core_nextId s + 1,
      fmdb_decisions := fmdb_decisions s @ [new_fdecision E (core_nextId s) i u dto]\<rparr>)"
    if "find_fmeeting i fam s = Inr m" "fm_status m \<noteq> MeetingCancelled" for fam m
    using find_fmeeting_InrD [OF that(1)] that(2)
    by (intro fm_add_decision [of _ _ m]) (auto simp: new_fdecision_def)
  show ?thesis
    unfolding createDecision_def fresh_def prod.case Let_def
    by (intro fme.guards fme.transaction_stepI; simp; intro fm_notify_partner fm_audit; use add in simp)
qed

lemma write_answer_row:
  assumes "fdecision_ok n ms d" "fd_status d = DecisionProposed" "fd_createdById d \<noteq> u" "u \<in> U"
    "may_answer s (fd_meetingId d) u"
  shows "fdecision_ok n ms (write_answer (now, answer_status a, u) d)
    \<and> fdecision_step U s d (write_answer (now, answer_status a, u) d)"
  using assms by (cases a) (auto simp: fdecision_ok_def fdecision_step_def write_answer_def answer_status_def)

lemma respond_tx_evolve:
  assumes "u \<in> U" "is_partner s fam u"
  shows "fmeetings_evolve U s (snd (respond_tx E fam u i j a ver s))"
proof -
  have step: "fmeetings_evolve U s (snd (update_fdecisions (\<lambda>d. fd_id d = fd_id c \<and> fd_status d = DecisionProposed
        \<and> fd_version d = v) (write_answer (now, answer_status a, u)) s))"
    if ok: "fmeetings_ok s" and m: "find_fmeeting i fam s = Inr m"
      and c: "find_first (\<lambda>d. fd_id d = j \<and> fd_meetingId d = i) (fmdb_decisions s) = Some c" "fd_createdById c \<noteq> u"
    for m c v now
    unfolding update_fdecisions_def snd_conv update_many_simps
  proof (intro fm_map_decisions)
    fix d n ms assume d: "d \<in> set (fmdb_decisions s)" "fdecision_ok n ms d"
    have "d = c" if "fd_id d = fd_id c"
      using ok d(1) find_SomeD [OF c(1)] that
      by (intro distinct_key_eq [where k = fd_id and xs = "fmdb_decisions s"]) (auto simp: fmeetings_ok_def)
    moreover have "may_answer s (fd_meetingId c) u"
      using find_fmeeting_InrD [OF m] find_SomeD [OF c(1)] assms(2) by (auto simp: may_answer_def)
    ultimately show "fdecision_ok n ms (if fd_id d = fd_id c \<and> fd_status d = DecisionProposed \<and> fd_version d = v
          then write_answer (now, answer_status a, u) d else d)
      \<and> fdecision_step U s d (if fd_id d = fd_id c \<and> fd_status d = DecisionProposed \<and> fd_version d = v
          then write_answer (now, answer_status a, u) d else d)"
      using d c(2) write_answer_row [OF d(2) _ _ assms(1)] by auto
  qed
  show ?thesis
    unfolding respond_tx_def
    by (intro fme.guards fm_write fme.later_option; (rule step)?; simp add: fm_notify fm_audit)
qed

lemma fmeetings_respond_evolve: "u \<in> U \<Longrightarrow> fmeetings_evolve U s (snd (fmeetings_respond E u i j a ver s))"
  unfolding fmeetings_respond_def
  by (intro fme.guards fme.transaction_stepI respond_tx_evolve) (auto dest: requirePartner_partner)

subsection \<open>Every sequence of calls\<close>

inductive fmeetings_call :: "uuid \<Rightarrow> fmeetings_db \<Rightarrow> fmeetings_db \<Rightarrow> bool" where
  create: "fmeetings_call u s (snd (fmeetings_create E u dto s))"
| update: "fmeetings_call u s (snd (fmeetings_update E u i udto ver s))"
| complete: "fmeetings_call u s (snd (fmeetings_complete E u i ver s))"
| cancel: "fmeetings_call u s (snd (fmeetings_cancel E u i ver s))"
| decide: "fmeetings_call u s (snd (createDecision E u i ddto s))"
| respond: "fmeetings_call u s (snd (fmeetings_respond E u i j a ver s))"

text \<open>The users of \<open>U\<close> call the operations.\<close>

inductive fmeetings_calls :: "uuid set \<Rightarrow> fmeetings_db \<Rightarrow> fmeetings_db \<Rightarrow> bool" for U where
  start: "fmeetings_calls U s s"
| more: "fmeetings_calls U s t \<Longrightarrow> u \<in> U \<Longrightarrow> fmeetings_call u t v \<Longrightarrow> fmeetings_calls U s v"

lemma fmeetings_call_evolve: "fmeetings_call u s t \<Longrightarrow> u \<in> U \<Longrightarrow> fmeetings_evolve U s t"
  by (induction rule: fmeetings_call.induct)
    (simp_all add: fmeetings_create_evolve fmeetings_update_evolve fmeetings_complete_def setMeetingStatus_evolve
      fmeetings_cancel_evolve createDecision_evolve fmeetings_respond_evolve)

lemma fmeetings_calls_evolve: "fmeetings_calls U s t \<Longrightarrow> fmeetings_evolve U s t"
  by (induction rule: fmeetings_calls.induct)
    (auto intro: fme.evolution_refl fme.evolution_trans fmeetings_call_evolve)

text \<open>Two partners with a planned meeting, a cancelled one and an open proposal, for the witness.\<close>

definition planning_db :: fmeetings_db where
  "planning_db = \<lparr>core_users = [], core_families = [\<lparr>family_id = 7, family_status = FamilyActive, family_timeZone = ''UTC'',
       family_locale = ''en'', family_defaultCurrency = ''EUR'', family_archivedAt = None, family_dissolvedAt = None,
       family_createdAt = 0\<rparr>],
     core_members = [\<lparr>member_id = 11, member_familyId = 7, member_userId = 31, member_role = PARTNER, member_joinedAt = 0\<rparr>,
       \<lparr>member_id = 12, member_familyId = 7, member_userId = 32, member_role = PARTNER, member_joinedAt = 0\<rparr>],
     core_preferences = [], core_connections = [], core_devices = [], core_feed = empty_feed, core_nextId = 20,
     fmdb_meetings = [\<lparr>fm_id = 14, fm_familyId = 7, fm_createdById = 31, fm_title = ''budget'', fm_scheduledAt = 900,
         fm_notes = None, fm_status = MeetingScheduled, fm_version = 1, fm_createdAt = 5, fm_updatedAt = 5\<rparr>],
     fmdb_decisions = [\<lparr>fd_id = 15, fd_meetingId = 14, fd_createdById = 31, fd_respondedById = None, fd_title = ''save'',
         fd_description = None, fd_status = DecisionProposed, fd_respondedAt = None, fd_version = 1, fd_createdAt = 6,
         fd_updatedAt = 6\<rparr>]\<rparr>"

definition planning_clock :: env where
  "planning_clock = \<lparr>env_now = 50, env_localParts = (\<lambda>x z. Some (parts_at x))\<rparr>"

lemma planning_ok: "fmeetings_ok planning_db"
  by (simp add: planning_db_def fmeetings_ok_def fmeeting_ok_def fdecision_ok_def)

text \<open>C9. The users of a set \<open>U\<close> call the operations on financial meetings in any order, with any requests and expected
  versions.  The tables stay consistent: versions grow with every change, and a decision is open, or it was answered
  exactly once, by somebody else than the one who proposed it.  A meeting that was completed or cancelled is
  final, and an answered decision is.  A meeting changes only through a partner of its family; its terms change, and it
  is cancelled, only when its creator is among the callers.  A decision is answered only by a caller who is a
  partner of the family of its meeting.  A cancelled meeting gets no further decisions.\<close>

theorem fmeetings_lifecycle:
  assumes "fmeetings_ok s" "fmeetings_calls U s t"
  shows "fmeetings_ok t \<and> core_members t = core_members s
    \<and> rows_kept (fmeeting_step U s) (fmdb_meetings s) (fmdb_meetings t)
    \<and> rows_kept (fdecision_step U s) (fmdb_decisions s) (fmdb_decisions t)
    \<and> cancelled_closed s t"
  using fmeetings_calls_evolve [OF assms(2)] assms(1) by (simp add: fmeetings_evolve_def fmeetings_follow_def)

lemma fmeetings_lifecycle_witness:
  "let t = snd (fmeetings_respond planning_clock 32 14 15 Agree None planning_db) in
     map fd_status (fmdb_decisions t) = [DecisionAgreed] \<and> fmeetings_ok t
     \<and> rows_kept (fdecision_step {32} planning_db) (fmdb_decisions planning_db) (fmdb_decisions t)"
proof -
  let ?t = "snd (fmeetings_respond planning_clock 32 14 15 Agree None planning_db)"
  have "fmeetings_calls {32} planning_db ?t"
    by (rule fmeetings_calls.more [OF fmeetings_calls.start, of 32]) (auto intro: fmeetings_call.respond)
  from fmeetings_lifecycle [OF planning_ok this] have "fmeetings_ok ?t"
    "rows_kept (fdecision_step {32} planning_db) (fmdb_decisions planning_db) (fmdb_decisions ?t)" by simp_all
  moreover have "map fd_status (fmdb_decisions ?t) = [DecisionAgreed]" by code_simp
  ultimately show ?thesis by (simp add: Let_def)
qed

end
