(* ===== verification/Shopping.thy ===== *)
theory Shopping
  imports Media
begin

text \<open>
  The shopping lists of a family: \<open>modules/shopping/shopping.service.ts\<close>.  Any member adds items and checks
  them; lists are archived and restored.  The service writes, audits and notifies in separate steps, without a
  transaction.  The tables extend those of the media service, because the meal plans, which generate shopping
  items, need both; the operations are stated for every such extension.
\<close>

subsection \<open>Rows and requests\<close>

record shopping_list =
  sl_id :: uuid
  sl_familyId :: uuid
  sl_createdById :: uuid
  sl_name :: string
  sl_archived :: bool
  sl_version :: int
  sl_createdAt :: timestamp
  sl_updatedAt :: timestamp

text \<open>The source key \<open>meal-plan:<plan>:ingredient:<ingredient>\<close> of a generated item is the pair of the two identifiers
  in its text.\<close>

record shopping_item =
  si_id :: uuid
  si_listId :: uuid
  si_addedById :: uuid
  si_name :: string
  si_quantity :: "string option"
  si_checked :: bool
  si_checkedById :: "uuid option"
  si_checkedAt :: "timestamp option"
  si_version :: int
  si_createdAt :: timestamp
  si_updatedAt :: timestamp
  si_sourceKey :: "(uuid \<times> uuid) option"

record shopping_db = media_db +
  sdb_lists :: "shopping_list list"
  sdb_items :: "shopping_item list"

record shopping_item_dto =
  sid_name :: string
  sid_quantity :: "string option"

subsection \<open>Reading\<close>

definition items_of :: "'a shopping_db_scheme \<Rightarrow> uuid \<Rightarrow> shopping_item list" where
  "items_of s i = sort_key (\<lambda>x. (si_checked x, si_createdAt x)) (filter (\<lambda>x. si_listId x = i) (sdb_items s))"

definition list_view :: "'a shopping_db_scheme \<Rightarrow> shopping_list \<Rightarrow> shopping_list \<times> shopping_item list" where
  "list_view s l = (l, items_of s (sl_id l))"

definition lists_where ::
    "bool \<Rightarrow> uuid \<Rightarrow> 'a shopping_db_scheme \<Rightarrow> api_error + (shopping_list \<times> shopping_item list) list" where
  "lists_where archived userId s = (case requireMembership userId s of Inl e \<Rightarrow> Inl e
   | Inr ctx \<Rightarrow> Inr (map (list_view s) (sort_key (\<lambda>l. - sl_updatedAt l)
       (filter (\<lambda>l. sl_familyId l = ctx_familyId ctx \<and> sl_archived l = archived) (sdb_lists s)))))"

definition shopping_lists :: "uuid \<Rightarrow> 'a shopping_db_scheme \<Rightarrow> api_error + (shopping_list \<times> shopping_item list) list" where
  "shopping_lists userId s = lists_where False userId s"

definition archivedLists :: "uuid \<Rightarrow> 'a shopping_db_scheme \<Rightarrow> api_error + (shopping_list \<times> shopping_item list) list" where
  "archivedLists userId s = lists_where True userId s"

subsection \<open>Writing\<close>

text \<open>The audit event and the notification of the other members, after the write.\<close>

definition audit_and_notify ::
    "env \<Rightarrow> uuid \<Rightarrow> uuid \<Rightarrow> string \<Rightarrow> string \<Rightarrow> uuid \<Rightarrow> string \<Rightarrow> string \<Rightarrow> string option \<Rightarrow> 'a core_scheme
       \<Rightarrow> (unit, 'a core_scheme) resp" where
  "audit_and_notify E userId familyId action resource i type title body s =
     notifyFamilyMembers E familyId userId type title body
       (audit_record E (audit_of userId familyId action resource i) s)"

definition new_shopping_list :: "env \<Rightarrow> uuid \<Rightarrow> uuid \<Rightarrow> uuid \<Rightarrow> string \<Rightarrow> shopping_list" where
  "new_shopping_list E i familyId userId nm = \<lparr>sl_id = i, sl_familyId = familyId, sl_createdById = userId,
     sl_name = js_trim nm, sl_archived = False, sl_version = 1, sl_createdAt = env_now E, sl_updatedAt = env_now E\<rparr>"

definition createList ::
    "env \<Rightarrow> uuid \<Rightarrow> string \<Rightarrow> 'a shopping_db_scheme \<Rightarrow> (shopping_list \<times> shopping_item list, 'a shopping_db_scheme) resp" where
  "createList E userId nm s = (case requireMembership userId s of Inl e \<Rightarrow> (Inl e, s)
   | Inr ctx \<Rightarrow> (case fresh s of (i, s1) \<Rightarrow>
       let l = new_shopping_list E i (ctx_familyId ctx) userId nm in
       and_then (audit_and_notify E userId (ctx_familyId ctx) ''shopping_list.created'' ''shopping_list'' i
           ''SHOPPING_LIST_CREATED'' ''Shopping list created'' (Some (sl_name l)) (s1\<lparr>sdb_lists := sdb_lists s1 @ [l]\<rparr>))
         (\<lambda>_ s2. (Inr (l, []), s2))))"

definition find_list :: "uuid \<Rightarrow> uuid \<Rightarrow> 'a shopping_db_scheme \<Rightarrow> shopping_list option" where
  "find_list i familyId s = find_first (\<lambda>l. sl_id l = i \<and> sl_familyId l = familyId) (sdb_lists s)"

definition find_open_list :: "uuid \<Rightarrow> uuid \<Rightarrow> 'a shopping_db_scheme \<Rightarrow> shopping_list option" where
  "find_open_list i familyId s =
     find_first (\<lambda>l. sl_id l = i \<and> sl_familyId l = familyId \<and> \<not> sl_archived l) (sdb_lists s)"

definition new_shopping_item ::
    "env \<Rightarrow> uuid \<Rightarrow> uuid \<Rightarrow> uuid \<Rightarrow> string \<Rightarrow> string option \<Rightarrow> (uuid \<times> uuid) option \<Rightarrow> shopping_item" where
  "new_shopping_item E i listId userId nm quantity sourceKey = \<lparr>si_id = i, si_listId = listId, si_addedById = userId,
     si_name = nm, si_quantity = quantity, si_checked = False, si_checkedById = None, si_checkedAt = None,
     si_version = 1, si_createdAt = env_now E, si_updatedAt = env_now E, si_sourceKey = sourceKey\<rparr>"

definition addItem ::
    "env \<Rightarrow> uuid \<Rightarrow> uuid \<Rightarrow> shopping_item_dto \<Rightarrow> 'a shopping_db_scheme \<Rightarrow> (shopping_item, 'a shopping_db_scheme) resp" where
  "addItem E userId listId dto s = (case requireMembership userId s of Inl e \<Rightarrow> (Inl e, s)
   | Inr ctx \<Rightarrow> (case find_open_list listId (ctx_familyId ctx) s of
       None \<Rightarrow> (Inl (NotFound ''Shopping list not found''), s)
     | Some _ \<Rightarrow> (case fresh s of (i, s1) \<Rightarrow>
         let item = new_shopping_item E i listId userId (js_trim (sid_name dto)) (trim_or_null (sid_quantity dto)) None in
         and_then (audit_and_notify E userId (ctx_familyId ctx) ''shopping_item.created'' ''shopping_item'' i
             ''SHOPPING_ITEM_CREATED'' ''New item on the list'' (Some (si_name item)) (s1\<lparr>sdb_items := sdb_items s1 @ [item]\<rparr>))
           (\<lambda>_ s2. (Inr item, s2)))))"

definition update_items ::
    "(shopping_item \<Rightarrow> bool) \<Rightarrow> (shopping_item \<Rightarrow> shopping_item) \<Rightarrow> 'a shopping_db_scheme \<Rightarrow> nat \<times> 'a shopping_db_scheme" where
  "update_items P f s = (fst (update_many P f (sdb_items s)), s\<lparr>sdb_items := snd (update_many P f (sdb_items s))\<rparr>)"

definition check_row :: "timestamp \<times> bool \<times> uuid \<Rightarrow> shopping_item \<Rightarrow> shopping_item" where
  "check_row c x = (case c of (now, checked, userId) \<Rightarrow> x\<lparr>si_checked := checked,
     si_checkedById := (if checked then Some userId else None), si_checkedAt := (if checked then Some now else None),
     si_version := si_version x + 1, si_updatedAt := now\<rparr>)"

interpretation shopping_item_rows: versioned_rows si_id si_version check_row
  by unfold_locales (simp_all add: check_row_def split: prod.split)

text \<open>An item is visible to a check when its list is an open list of the family.\<close>

definition find_item :: "uuid \<Rightarrow> uuid \<Rightarrow> uuid \<Rightarrow> 'a shopping_db_scheme \<Rightarrow> shopping_item option" where
  "find_item itemId listId familyId s =
     find_first (\<lambda>x. si_id x = itemId \<and> si_listId x = listId \<and> find_open_list (si_listId x) familyId s \<noteq> None) (sdb_items s)"

definition checkItem ::
    "env \<Rightarrow> uuid \<Rightarrow> uuid \<Rightarrow> uuid \<Rightarrow> bool \<Rightarrow> int option \<Rightarrow> 'a shopping_db_scheme
       \<Rightarrow> (shopping_item, 'a shopping_db_scheme) resp" where
  "checkItem E userId listId itemId checked expectedVersion s = (case requireMembership userId s of Inl e \<Rightarrow> (Inl e, s)
   | Inr ctx \<Rightarrow> (case find_item itemId listId (ctx_familyId ctx) s of
       None \<Rightarrow> (Inl (NotFound ''Shopping item not found''), s)
     | Some item \<Rightarrow> (case update_items (\<lambda>x. si_id x = itemId \<and> si_listId x = listId
           \<and> si_version x = (case expectedVersion of None \<Rightarrow> si_version item | Some v \<Rightarrow> v) \<and> si_checked x \<noteq> checked)
         (check_row (env_now E, checked, userId)) s of
       (written, s1) \<Rightarrow>
         if written \<noteq> 1 then (Inl (Conflict ''Shopping item was changed concurrently''), s1)
         else (case find_first (\<lambda>x. si_id x = itemId) (sdb_items s1) of
           None \<Rightarrow> (Inl P2025, s1)
         | Some updated \<Rightarrow>
             and_then (audit_and_notify E userId (ctx_familyId ctx)
                 (if checked then ''shopping_item.checked'' else ''shopping_item.unchecked'') ''shopping_item'' itemId
                 (if checked then ''SHOPPING_ITEM_CHECKED'' else ''SHOPPING_ITEM_UNCHECKED'')
                 (if checked then ''Item checked'' else ''Item back on the list'') (Some (si_name updated)) s1)
               (\<lambda>_ s2. (Inr updated, s2))))))"

definition update_lists ::
    "(shopping_list \<Rightarrow> bool) \<Rightarrow> (shopping_list \<Rightarrow> shopping_list) \<Rightarrow> 'a shopping_db_scheme \<Rightarrow> nat \<times> 'a shopping_db_scheme" where
  "update_lists P f s = (fst (update_many P f (sdb_lists s)), s\<lparr>sdb_lists := snd (update_many P f (sdb_lists s))\<rparr>)"

definition archive_list_row :: "timestamp \<times> bool \<Rightarrow> shopping_list \<Rightarrow> shopping_list" where
  "archive_list_row c l = l\<lparr>sl_archived := snd c, sl_version := sl_version l + 1, sl_updatedAt := fst c\<rparr>"

interpretation shopping_list_rows: versioned_rows sl_id sl_version archive_list_row
  by unfold_locales (simp_all add: archive_list_row_def)

text \<open>The conditional write of \<open>archiveList\<close> and \<open>restoreList\<close>, with the error for a list of another state or version.\<close>

definition set_archived ::
    "env \<Rightarrow> uuid \<Rightarrow> uuid \<Rightarrow> bool \<Rightarrow> int option \<Rightarrow> 'a shopping_db_scheme \<Rightarrow> (unit, 'a shopping_db_scheme) resp" where
  "set_archived E familyId listId archived expectedVersion s =
     (case update_lists (\<lambda>l. sl_id l = listId \<and> sl_familyId l = familyId \<and> sl_archived l = (\<not> archived)
          \<and> version_is expectedVersion (sl_version l)) (archive_list_row (env_now E, archived)) s of
        (written, s1) \<Rightarrow> if written = 0 then
            (Inl (case find_list listId familyId s1 of None \<Rightarrow> NotFound ''Shopping list not found''
               | Some _ \<Rightarrow> Conflict ''Shopping list was changed concurrently''), s1)
          else (Inr (), s1))"

definition archiveList ::
    "env \<Rightarrow> uuid \<Rightarrow> uuid \<Rightarrow> int option \<Rightarrow> 'a shopping_db_scheme \<Rightarrow> (unit, 'a shopping_db_scheme) resp" where
  "archiveList E userId listId expectedVersion s = (case requireMembership userId s of Inl e \<Rightarrow> (Inl e, s)
   | Inr ctx \<Rightarrow> and_then (set_archived E (ctx_familyId ctx) listId True expectedVersion s)
       (\<lambda>_ s1. audit_and_notify E userId (ctx_familyId ctx) ''shopping_list.archived'' ''shopping_list'' listId
          ''SHOPPING_LIST_ARCHIVED'' ''Shopping list archived'' None s1))"

definition restoreList ::
    "env \<Rightarrow> uuid \<Rightarrow> uuid \<Rightarrow> int option \<Rightarrow> 'a shopping_db_scheme
       \<Rightarrow> (shopping_list \<times> shopping_item list, 'a shopping_db_scheme) resp" where
  "restoreList E userId listId expectedVersion s = (case requireMembership userId s of Inl e \<Rightarrow> (Inl e, s)
   | Inr ctx \<Rightarrow> and_then (set_archived E (ctx_familyId ctx) listId False expectedVersion s)
       (\<lambda>_ s1. (case find_first (\<lambda>l. sl_id l = listId) (sdb_lists s1) of
            None \<Rightarrow> (Inl P2025, s1)
          | Some restored \<Rightarrow> (Inr (list_view s1 restored), audit_record E
              (audit_of userId (ctx_familyId ctx) ''shopping_list.restored'' ''shopping_list'' listId) s1))))"

end
