(* ===== verification/Meals.thy ===== *)
theory Meals
  imports Shopping
begin

text \<open>
  Recipes, meal plans and the shopping items generated from them: \<open>modules/meals/meals.service.ts\<close>.  A recipe
  keeps its ingredients and dietary labels in tables of their own, which an update replaces as a whole.  A plan
  puts a recipe on a date and a slot.  The tables extend those of media and shopping.
\<close>

subsection \<open>Rows and requests\<close>

record recipe =
  rcp_id :: uuid
  rcp_familyId :: uuid
  rcp_createdById :: uuid
  rcp_name :: string
  rcp_instructions :: "string option"
  rcp_archived :: bool
  rcp_version :: int
  rcp_createdAt :: timestamp
  rcp_updatedAt :: timestamp

record recipe_ingredient =
  ing_id :: uuid
  ing_recipeId :: uuid
  ing_name :: string
  ing_quantity :: "string option"

record recipe_label =
  lab_id :: uuid
  lab_recipeId :: uuid
  lab_label :: string

record recipe_media =
  rme_recipeId :: uuid
  rme_mediaId :: uuid
  rme_createdAt :: timestamp

record meal_plan =
  mp_id :: uuid
  mp_familyId :: uuid
  mp_createdById :: uuid
  mp_recipeId :: uuid
  mp_plannedFor :: timestamp
  mp_mealSlot :: string
  mp_servings :: int
  mp_version :: int
  mp_createdAt :: timestamp
  mp_updatedAt :: timestamp

record meals_db = shopping_db +
  mldb_recipes :: "recipe list"
  mldb_ingredients :: "recipe_ingredient list"
  mldb_labels :: "recipe_label list"
  mldb_recipeMedia :: "recipe_media list"
  mldb_plans :: "meal_plan list"

record ingredient_dto =
  igd_name :: string
  igd_quantity :: "string option"

record create_recipe_dto =
  crd_name :: string
  crd_instructions :: "string option"
  crd_ingredients :: "ingredient_dto list"
  crd_dietaryLabels :: "string list option"

text \<open>In an update \<open>IsOptional\<close> lets an explicit \<open>null\<close> of every field through.\<close>

record update_recipe_dto =
  urd_name :: "string option option"
  urd_instructions :: "string option option"
  urd_ingredients :: "ingredient_dto list option option"
  urd_dietaryLabels :: "string list option option"

text \<open>The code appends the midnight in UTC to the text of a date.  The validator admits texts with a time as well, for
  which the result is not a date: Prisma rejects the query.\<close>

datatype day_text = DayOnly ymd | DayAndTime

record create_plan_dto =
  cpd_plannedFor :: day_text
  cpd_mealSlot :: string
  cpd_recipeId :: uuid
  cpd_servings :: "int option"

text \<open>The fields of an update are taken when they are truthy: absent, \<open>null\<close> and the empty text are alike.\<close>

record update_plan_dto =
  upd_plannedFor :: "day_text option"
  upd_mealSlot :: "string option"
  upd_recipeId :: "uuid option"
  upd_servings :: "int option"

definition day_instant :: "day_text \<Rightarrow> api_error + timestamp" where
  "day_instant d = (case d of DayOnly y \<Rightarrow> Inr (make_day (ymd_year y) (ymd_month y - 1) (ymd_day y) * ms_per_day)
     | DayAndTime \<Rightarrow> Inl (PlainError ''PrismaClientValidationError''))"

subsection \<open>Recipes with what belongs to them\<close>

definition ingredients_of :: "meals_db \<Rightarrow> uuid \<Rightarrow> recipe_ingredient list" where
  "ingredients_of s i = filter (\<lambda>x. ing_recipeId x = i) (mldb_ingredients s)"

definition labels_of :: "meals_db \<Rightarrow> uuid \<Rightarrow> recipe_label list" where
  "labels_of s i = filter (\<lambda>x. lab_recipeId x = i) (mldb_labels s)"

type_synonym recipe_view = "recipe \<times> recipe_ingredient list \<times> recipe_label list"

definition recipe_view_of :: "meals_db \<Rightarrow> recipe \<Rightarrow> recipe_view" where
  "recipe_view_of s r = (r, ingredients_of s (rcp_id r), labels_of s (rcp_id r))"

definition find_recipe_in :: "uuid \<Rightarrow> uuid \<Rightarrow> meals_db \<Rightarrow> recipe option" where
  "find_recipe_in i familyId s = find_first (\<lambda>r. rcp_id r = i \<and> rcp_familyId r = familyId) (mldb_recipes s)"

definition find_recipe_as :: "bool \<Rightarrow> uuid \<Rightarrow> uuid \<Rightarrow> meals_db \<Rightarrow> recipe option" where
  "find_recipe_as archived i familyId s =
     find_first (\<lambda>r. rcp_id r = i \<and> rcp_familyId r = familyId \<and> rcp_archived r = archived) (mldb_recipes s)"

definition recipe_by_id :: "uuid \<Rightarrow> meals_db \<Rightarrow> recipe option" where
  "recipe_by_id i s = find_first (\<lambda>r. rcp_id r = i) (mldb_recipes s)"

text \<open>The labels in lower case without empty ones and without repetitions; a \<open>Set\<close> keeps the first of equal entries.\<close>

definition first_occurrences :: "'a list \<Rightarrow> 'a list" where
  "first_occurrences xs = rev (remdups (rev xs))"

definition normalizeDietaryLabels :: "string list \<Rightarrow> string list" where
  "normalizeDietaryLabels labels = first_occurrences (filter (\<lambda>l. l \<noteq> []) (map (\<lambda>l. js_lower (js_trim l)) labels))"

fun add_ingredients :: "uuid \<Rightarrow> ingredient_dto list \<Rightarrow> meals_db \<Rightarrow> meals_db" where
  "add_ingredients recipeId [] s = s"
| "add_ingredients recipeId (d # ds) s = (case fresh s of (i, s1) \<Rightarrow>
     add_ingredients recipeId ds (s1\<lparr>mldb_ingredients := mldb_ingredients s1 @ [\<lparr>ing_id = i, ing_recipeId = recipeId,
       ing_name = js_trim (igd_name d), ing_quantity = trim_or_null (igd_quantity d)\<rparr>]\<rparr>))"

fun add_labels :: "uuid \<Rightarrow> string list \<Rightarrow> meals_db \<Rightarrow> meals_db" where
  "add_labels recipeId [] s = s"
| "add_labels recipeId (l # ls) s = (case fresh s of (i, s1) \<Rightarrow>
     add_labels recipeId ls (s1\<lparr>mldb_labels := mldb_labels s1 @ [\<lparr>lab_id = i, lab_recipeId = recipeId, lab_label = l\<rparr>]\<rparr>))"

subsection \<open>Audit and notification\<close>

definition recordAndNotifyRecipe ::
    "env \<Rightarrow> uuid \<Rightarrow> uuid \<Rightarrow> uuid \<Rightarrow> string \<Rightarrow> string \<Rightarrow> string \<Rightarrow> string option \<Rightarrow> meals_db \<Rightarrow> (unit, meals_db) resp" where
  "recordAndNotifyRecipe E actorId familyId i action upper title nm s =
     audit_and_notify E actorId familyId (''recipe.'' @ action) ''recipe'' i (''RECIPE_'' @ upper) title (or_null nm) s"

definition recordAndNotifyMealPlan ::
    "env \<Rightarrow> uuid \<Rightarrow> uuid \<Rightarrow> uuid \<Rightarrow> string \<Rightarrow> string \<Rightarrow> string \<Rightarrow> string option \<Rightarrow> meals_db \<Rightarrow> (unit, meals_db) resp" where
  "recordAndNotifyMealPlan E actorId familyId i action upper title nm s =
     audit_and_notify E actorId familyId (''meal_plan.'' @ action) ''meal_plan'' i (''MEAL_PLAN_'' @ upper) title (or_null nm) s"

subsection \<open>Media of a recipe\<close>

definition recipe_mediaIds :: "uuid \<Rightarrow> meals_db \<Rightarrow> uuid list" where
  "recipe_mediaIds i s = map rme_mediaId (sort_key rme_createdAt (filter (\<lambda>a. rme_recipeId a = i) (mldb_recipeMedia s)))"

definition listRecipeMedia :: "storage \<Rightarrow> uuid \<Rightarrow> uuid \<Rightarrow> meals_db \<Rightarrow> api_error + media_response list" where
  "listRecipeMedia S recipeId userId s = (case requireMembership userId s of Inl e \<Rightarrow> Inl e
   | Inr ctx \<Rightarrow> (case find_recipe_in recipeId (ctx_familyId ctx) s of
       None \<Rightarrow> Inl (NotFound ''Recipe not found'')
     | Some r \<Rightarrow> findManyByIds S userId (recipe_mediaIds (rcp_id r) s) s))"

definition attach_recipe_row :: "env \<Rightarrow> uuid \<Rightarrow> uuid \<Rightarrow> recipe_media list \<Rightarrow> recipe_media list" where
  "attach_recipe_row E recipeId mediaId rows =
    (if \<exists>a \<in> set rows. rme_recipeId a = recipeId \<and> rme_mediaId a = mediaId then rows
     else rows @ [\<lparr>rme_recipeId = recipeId, rme_mediaId = mediaId, rme_createdAt = env_now E\<rparr>])"

definition attachRecipeMedia ::
    "env \<Rightarrow> storage \<Rightarrow> uuid \<Rightarrow> uuid \<Rightarrow> uuid \<Rightarrow> meals_db \<Rightarrow> (media_response list, meals_db) resp" where
  "attachRecipeMedia E S recipeId userId mediaId s = (case requireMembership userId s of Inl e \<Rightarrow> (Inl e, s)
   | Inr ctx \<Rightarrow> (case find_recipe_as False recipeId (ctx_familyId ctx) s of
       None \<Rightarrow> (Inl (NotFound ''Recipe not found''), s)
     | Some r \<Rightarrow> (case find_first (\<lambda>m. med_id m = mediaId \<and> med_familyId m = ctx_familyId ctx) (mdb_media s) of
         None \<Rightarrow> (Inl (NotFound ''Media not found''), s)
       | Some _ \<Rightarrow> let s1 = s\<lparr>mldb_recipeMedia := attach_recipe_row E (rcp_id r) mediaId (mldb_recipeMedia s)\<rparr>
           in (listRecipeMedia S (rcp_id r) userId s1, s1))))"

definition detachRecipeMedia :: "uuid \<Rightarrow> uuid \<Rightarrow> uuid \<Rightarrow> meals_db \<Rightarrow> (unit, meals_db) resp" where
  "detachRecipeMedia recipeId userId mediaId s = (case requireMembership userId s of Inl e \<Rightarrow> (Inl e, s)
   | Inr ctx \<Rightarrow> (case find_recipe_as False recipeId (ctx_familyId ctx) s of
       None \<Rightarrow> (Inl (NotFound ''Recipe not found''), s)
     | Some r \<Rightarrow> (Inr (), s\<lparr>mldb_recipeMedia :=
         filter (\<lambda>a. \<not> (rme_recipeId a = rcp_id r \<and> rme_mediaId a = mediaId)) (mldb_recipeMedia s)\<rparr>)))"

subsection \<open>Recipes\<close>

definition recipes_where :: "bool \<Rightarrow> uuid \<Rightarrow> meals_db \<Rightarrow> api_error + recipe_view list" where
  "recipes_where archived userId s = (case requireMembership userId s of Inl e \<Rightarrow> Inl e
   | Inr ctx \<Rightarrow> Inr (map (recipe_view_of s) (sort_key (\<lambda>r. - rcp_updatedAt r)
       (filter (\<lambda>r. rcp_familyId r = ctx_familyId ctx \<and> rcp_archived r = archived) (mldb_recipes s)))))"

definition recipes_list :: "uuid \<Rightarrow> meals_db \<Rightarrow> api_error + recipe_view list" where
  "recipes_list userId s = recipes_where False userId s"

definition recipes_listArchived :: "uuid \<Rightarrow> meals_db \<Rightarrow> api_error + recipe_view list" where
  "recipes_listArchived userId s = recipes_where True userId s"

definition new_recipe :: "env \<Rightarrow> uuid \<Rightarrow> uuid \<Rightarrow> uuid \<Rightarrow> create_recipe_dto \<Rightarrow> recipe" where
  "new_recipe E i familyId userId dto = \<lparr>rcp_id = i, rcp_familyId = familyId, rcp_createdById = userId,
     rcp_name = js_trim (crd_name dto), rcp_instructions = trim_or_null (crd_instructions dto), rcp_archived = False,
     rcp_version = 1, rcp_createdAt = env_now E, rcp_updatedAt = env_now E\<rparr>"

definition recipes_create :: "env \<Rightarrow> uuid \<Rightarrow> create_recipe_dto \<Rightarrow> meals_db \<Rightarrow> (recipe_view, meals_db) resp" where
  "recipes_create E userId dto s = (case requireMembership userId s of Inl e \<Rightarrow> (Inl e, s)
   | Inr ctx \<Rightarrow> (case fresh s of (i, s1) \<Rightarrow>
       let r = new_recipe E i (ctx_familyId ctx) userId dto;
           labels = normalizeDietaryLabels (case crd_dietaryLabels dto of None \<Rightarrow> [] | Some ls \<Rightarrow> ls);
           s2 = add_labels i labels (add_ingredients i (crd_ingredients dto) (s1\<lparr>mldb_recipes := mldb_recipes s1 @ [r]\<rparr>))
       in and_then (recordAndNotifyRecipe E userId (ctx_familyId ctx) i ''created'' ''CREATED'' ''Recipe created''
             (Some (rcp_name r)) s2)
           (\<lambda>_ s3. (Inr (recipe_view_of s2 r), s3))))"

datatype recipe_change = ArchiveRecipe bool | ChangeRecipe "string option option" "string option option"

definition write_recipe :: "timestamp \<times> recipe_change \<Rightarrow> recipe \<Rightarrow> recipe" where
  "write_recipe nc r = (let r1 = (case snd nc of
       ArchiveRecipe b \<Rightarrow> r\<lparr>rcp_archived := b\<rparr>
     | ChangeRecipe nm ins \<Rightarrow> r\<lparr>rcp_name := (case nm of Some (Some t) \<Rightarrow> js_trim t | _ \<Rightarrow> rcp_name r),
         rcp_instructions := (case ins of None \<Rightarrow> rcp_instructions r | Some v \<Rightarrow> trim_or_null v)\<rparr>)
   in r1\<lparr>rcp_version := rcp_version r + 1, rcp_updatedAt := fst nc\<rparr>)"

interpretation recipe_rows: versioned_rows rcp_id rcp_version write_recipe
  by unfold_locales (simp_all add: write_recipe_def Let_def split: recipe_change.split)

text \<open>The conditional write that \<open>archive\<close>, \<open>restore\<close> and \<open>update\<close> share.\<close>

definition change_recipe ::
    "env \<Rightarrow> uuid \<Rightarrow> uuid \<Rightarrow> bool \<Rightarrow> int option \<Rightarrow> recipe_change \<Rightarrow> meals_db \<Rightarrow> (unit, meals_db) resp" where
  "change_recipe E i familyId archived expectedVersion c s =
    (let P = (\<lambda>r. rcp_id r = i \<and> rcp_familyId r = familyId \<and> rcp_archived r = archived
           \<and> version_is expectedVersion (rcp_version r));
         w = update_many P (write_recipe (env_now E, c)) (mldb_recipes s);
         s1 = s\<lparr>mldb_recipes := snd w\<rparr>
     in if fst w = 0 then (Inl (write_error expectedVersion (NotFound ''Recipe not found'')), s1) else (Inr (), s1))"

definition recipes_archive :: "env \<Rightarrow> uuid \<Rightarrow> uuid \<Rightarrow> int option \<Rightarrow> meals_db \<Rightarrow> (unit, meals_db) resp" where
  "recipes_archive E userId i expectedVersion s = (case requireMembership userId s of Inl e \<Rightarrow> (Inl e, s)
   | Inr ctx \<Rightarrow> (case find_recipe_as False i (ctx_familyId ctx) s of
       None \<Rightarrow> (Inl (NotFound ''Recipe not found''), s)
     | Some _ \<Rightarrow> and_then (change_recipe E i (ctx_familyId ctx) False expectedVersion (ArchiveRecipe True) s)
         (\<lambda>_ s1. recordAndNotifyRecipe E userId (ctx_familyId ctx) i ''archived'' ''ARCHIVED'' ''Recipe archived'' None s1)))"

definition recipes_restore :: "env \<Rightarrow> uuid \<Rightarrow> uuid \<Rightarrow> int option \<Rightarrow> meals_db \<Rightarrow> (recipe_view, meals_db) resp" where
  "recipes_restore E userId i expectedVersion s = (case requireMembership userId s of Inl e \<Rightarrow> (Inl e, s)
   | Inr ctx \<Rightarrow> (case find_recipe_as True i (ctx_familyId ctx) s of
       None \<Rightarrow> (Inl (NotFound ''Recipe not found''), s)
     | Some _ \<Rightarrow> and_then (change_recipe E i (ctx_familyId ctx) True expectedVersion (ArchiveRecipe False) s)
         (\<lambda>_ s1. (case recipe_by_id i s1 of
            None \<Rightarrow> (Inl P2025, s1)
          | Some r \<Rightarrow> and_then (recordAndNotifyRecipe E userId (ctx_familyId ctx) i ''restored'' ''RESTORED''
                ''Recipe restored'' (Some (rcp_name r)) s1)
              (\<lambda>_ s2. (Inr (recipe_view_of s1 r), s2))))))"

text \<open>Replacing the ingredients and the labels.  A \<open>null\<close> passes the comparison with \<open>undefined\<close>, and then reading it
  throws.\<close>

definition type_error :: api_error where
  "type_error = PlainError ''TypeError: Cannot read properties of null''"

definition replace_ingredients ::
    "uuid \<Rightarrow> ingredient_dto list option option \<Rightarrow> meals_db \<Rightarrow> (unit, meals_db) resp" where
  "replace_ingredients i v s = (case v of None \<Rightarrow> (Inr (), s)
   | Some v' \<Rightarrow> let s1 = s\<lparr>mldb_ingredients := filter (\<lambda>x. ing_recipeId x \<noteq> i) (mldb_ingredients s)\<rparr> in
       (case v' of None \<Rightarrow> (Inl type_error, s1) | Some ds \<Rightarrow> (Inr (), add_ingredients i ds s1)))"

definition replace_labels :: "uuid \<Rightarrow> string list option option \<Rightarrow> meals_db \<Rightarrow> (unit, meals_db) resp" where
  "replace_labels i v s = (case v of None \<Rightarrow> (Inr (), s)
   | Some v' \<Rightarrow> let s1 = s\<lparr>mldb_labels := filter (\<lambda>x. lab_recipeId x \<noteq> i) (mldb_labels s)\<rparr> in
       (case v' of None \<Rightarrow> (Inl type_error, s1) | Some ls \<Rightarrow> (Inr (), add_labels i (normalizeDietaryLabels ls) s1)))"

definition recipes_update_tx ::
    "env \<Rightarrow> uuid \<Rightarrow> uuid \<Rightarrow> update_recipe_dto \<Rightarrow> int option \<Rightarrow> meals_db \<Rightarrow> (recipe_view, meals_db) resp" where
  "recipes_update_tx E i familyId dto expectedVersion s =
    (if urd_name dto = Some None then (Inl type_error, s)
     else and_then (change_recipe E i familyId False expectedVersion (ChangeRecipe (urd_name dto) (urd_instructions dto)) s)
       (\<lambda>_ s1. and_then (replace_ingredients i (urd_ingredients dto) s1)
       (\<lambda>_ s2. and_then (replace_labels i (urd_dietaryLabels dto) s2)
       (\<lambda>_ s3. (case recipe_by_id i s3 of None \<Rightarrow> (Inl P2025, s3) | Some r \<Rightarrow> (Inr (recipe_view_of s3 r), s3))))))"

definition recipes_update ::
    "env \<Rightarrow> uuid \<Rightarrow> uuid \<Rightarrow> update_recipe_dto \<Rightarrow> int option \<Rightarrow> meals_db \<Rightarrow> (recipe_view, meals_db) resp" where
  "recipes_update E userId i dto expectedVersion s = (case requireMembership userId s of Inl e \<Rightarrow> (Inl e, s)
   | Inr ctx \<Rightarrow> (case find_recipe_as False i (ctx_familyId ctx) s of
       None \<Rightarrow> (Inl (NotFound ''Recipe not found''), s)
     | Some _ \<Rightarrow> and_then (transaction s (recipes_update_tx E i (ctx_familyId ctx) dto expectedVersion s))
         (\<lambda>v s1. and_then (recordAndNotifyRecipe E userId (ctx_familyId ctx) i ''updated'' ''UPDATED'' ''Recipe changed''
              (Some (rcp_name (fst v))) s1)
            (\<lambda>_ s2. (Inr v, s2)))))"

subsection \<open>Meal plans\<close>

definition plan_slot :: "meal_plan \<Rightarrow> uuid \<times> timestamp \<times> string" where
  "plan_slot p = (mp_familyId p, mp_plannedFor p, mp_mealSlot p)"

definition slot_message :: string where
  "slot_message = ''A meal plan already exists for this date and slot''"

text \<open>A plan with its recipe; the foreign key makes sure that there is one.\<close>

definition plan_view :: "meals_db \<Rightarrow> meal_plan \<Rightarrow> meal_plan \<times> recipe_view option" where
  "plan_view s p = (p, map_option (recipe_view_of s) (recipe_by_id (mp_recipeId p) s))"

definition plan_recipe_name :: "meals_db \<Rightarrow> meal_plan \<Rightarrow> string option" where
  "plan_recipe_name s p = map_option rcp_name (recipe_by_id (mp_recipeId p) s)"

definition new_meal_plan :: "env \<Rightarrow> uuid \<Rightarrow> uuid \<Rightarrow> uuid \<Rightarrow> create_plan_dto \<Rightarrow> timestamp \<Rightarrow> meal_plan" where
  "new_meal_plan E i familyId userId dto at = \<lparr>mp_id = i, mp_familyId = familyId, mp_createdById = userId,
     mp_recipeId = cpd_recipeId dto, mp_plannedFor = at, mp_mealSlot = js_trim (cpd_mealSlot dto),
     mp_servings = (case cpd_servings dto of None \<Rightarrow> 1 | Some n \<Rightarrow> n), mp_version = 1,
     mp_createdAt = env_now E, mp_updatedAt = env_now E\<rparr>"

definition insert_plan :: "meal_plan \<Rightarrow> meals_db \<Rightarrow> (unit, meals_db) resp" where
  "insert_plan p s = (if plan_slot p \<in> plan_slot ` set (mldb_plans s) then (Inl P2002, s)
     else (Inr (), s\<lparr>mldb_plans := mldb_plans s @ [p]\<rparr>))"

definition createPlan ::
    "env \<Rightarrow> uuid \<Rightarrow> create_plan_dto \<Rightarrow> meals_db \<Rightarrow> (meal_plan \<times> recipe_view option, meals_db) resp" where
  "createPlan E userId dto s = (case requireMembership userId s of Inl e \<Rightarrow> (Inl e, s)
   | Inr ctx \<Rightarrow> (case find_recipe_as False (cpd_recipeId dto) (ctx_familyId ctx) s of
       None \<Rightarrow> (Inl (NotFound ''Recipe not found''), s)
     | Some _ \<Rightarrow> catch_prisma [''P2002''] slot_message (case day_instant (cpd_plannedFor dto) of Inl e \<Rightarrow> (Inl e, s)
         | Inr at \<Rightarrow> (case fresh s of (i, s1) \<Rightarrow>
             let p = new_meal_plan E i (ctx_familyId ctx) userId dto at in
             and_then (insert_plan p s1)
               (\<lambda>_ s2. and_then (recordAndNotifyMealPlan E userId (ctx_familyId ctx) i ''created'' ''CREATED''
                    ''Meal added to the plan'' (plan_recipe_name s2 p) s2)
                  (\<lambda>_ s3. (Inr (plan_view s2 p), s3)))))))"

definition within_days :: "timestamp option \<Rightarrow> timestamp option \<Rightarrow> timestamp \<Rightarrow> bool" where
  "within_days a b t \<longleftrightarrow> (case a of None \<Rightarrow> True | Some x \<Rightarrow> x \<le> t) \<and> (case b of None \<Rightarrow> True | Some x \<Rightarrow> t \<le> x)"

definition optional_day :: "day_text option \<Rightarrow> api_error + timestamp option" where
  "optional_day d = (case d of None \<Rightarrow> Inr None
     | Some v \<Rightarrow> (case day_instant v of Inl e \<Rightarrow> Inl e | Inr t \<Rightarrow> Inr (Some t)))"

definition listPlans ::
    "uuid \<Rightarrow> day_text option \<Rightarrow> day_text option \<Rightarrow> meals_db \<Rightarrow> api_error + (meal_plan \<times> recipe_view option) list" where
  "listPlans userId dateFrom dateTo s = (case requireMembership userId s of Inl e \<Rightarrow> Inl e
   | Inr ctx \<Rightarrow> (case optional_day dateFrom of Inl e \<Rightarrow> Inl e
     | Inr a \<Rightarrow> (case optional_day dateTo of Inl e \<Rightarrow> Inl e
       | Inr b \<Rightarrow> Inr (map (plan_view s) (sort_key (\<lambda>p. (mp_plannedFor p, mp_mealSlot p))
           (filter (\<lambda>p. mp_familyId p = ctx_familyId ctx \<and> within_days a b (mp_plannedFor p)) (mldb_plans s)))))))"

text \<open>The new values of an update; \<open>at\<close> is the instant of its date.\<close>

definition write_plan :: "timestamp \<times> update_plan_dto \<times> timestamp option \<Rightarrow> meal_plan \<Rightarrow> meal_plan" where
  "write_plan c p = (case c of (now, dto, at) \<Rightarrow> p\<lparr>
     mp_recipeId := (case upd_recipeId dto of None \<Rightarrow> mp_recipeId p | Some r \<Rightarrow> r),
     mp_plannedFor := (case at of None \<Rightarrow> mp_plannedFor p | Some t \<Rightarrow> t),
     mp_mealSlot := (case or_null (upd_mealSlot dto) of None \<Rightarrow> mp_mealSlot p | Some t \<Rightarrow> js_trim t),
     mp_servings := (case upd_servings dto of None \<Rightarrow> mp_servings p | Some n \<Rightarrow> if n = 0 then mp_servings p else n),
     mp_version := mp_version p + 1, mp_updatedAt := now\<rparr>)"

interpretation plan_rows: versioned_rows mp_id mp_version write_plan
  by unfold_locales (simp_all add: write_plan_def split: prod.split)

text \<open>\<open>updateMany\<close> under the unique index of family, date and slot.\<close>

definition update_plans ::
    "(meal_plan \<Rightarrow> bool) \<Rightarrow> (meal_plan \<Rightarrow> meal_plan) \<Rightarrow> meals_db \<Rightarrow> (nat, meals_db) resp" where
  "update_plans P f s = (let w = update_many P f (mldb_plans s) in
     if distinct (map plan_slot (snd w)) then (Inr (fst w), s\<lparr>mldb_plans := snd w\<rparr>) else (Inl P2002, s))"

definition updatePlan ::
    "env \<Rightarrow> uuid \<Rightarrow> uuid \<Rightarrow> update_plan_dto \<Rightarrow> int option \<Rightarrow> meals_db
       \<Rightarrow> (meal_plan \<times> recipe_view option, meals_db) resp" where
  "updatePlan E userId i dto expectedVersion s = (case requireMembership userId s of Inl e \<Rightarrow> (Inl e, s)
   | Inr ctx \<Rightarrow> (case find_first (\<lambda>p. mp_id p = i \<and> mp_familyId p = ctx_familyId ctx) (mldb_plans s) of
       None \<Rightarrow> (Inl (NotFound ''Meal plan not found''), s)
     | Some _ \<Rightarrow>
       if (case upd_recipeId dto of None \<Rightarrow> False | Some r \<Rightarrow> find_recipe_as False r (ctx_familyId ctx) s = None) then
         (Inl (NotFound ''Recipe not found''), s)
       else catch_prisma [''P2002''] slot_message (case optional_day (upd_plannedFor dto) of Inl e \<Rightarrow> (Inl e, s)
         | Inr at \<Rightarrow> and_then (update_plans (\<lambda>p. mp_id p = i \<and> mp_familyId p = ctx_familyId ctx
                \<and> version_is expectedVersion (mp_version p)) (write_plan (env_now E, dto, at)) s)
             (\<lambda>written s1.
                if written \<noteq> 1 then (Inl (write_error expectedVersion (NotFound ''Meal plan not found'')), s1)
                else (case find_first (\<lambda>p. mp_id p = i) (mldb_plans s1) of
                  None \<Rightarrow> (Inl P2025, s1)
                | Some p \<Rightarrow> and_then (recordAndNotifyMealPlan E userId (ctx_familyId ctx) i ''updated'' ''UPDATED''
                      ''Meal plan changed'' (plan_recipe_name s1 p) s1)
                    (\<lambda>_ s2. (Inr (plan_view s1 p), s2)))))))"

definition deletePlan :: "env \<Rightarrow> uuid \<Rightarrow> uuid \<Rightarrow> meals_db \<Rightarrow> (unit, meals_db) resp" where
  "deletePlan E userId i s = (case requireMembership userId s of Inl e \<Rightarrow> (Inl e, s)
   | Inr ctx \<Rightarrow> let w = delete_many (\<lambda>p. mp_id p = i \<and> mp_familyId p = ctx_familyId ctx) (mldb_plans s);
         s1 = s\<lparr>mldb_plans := snd w\<rparr> in
       if fst w \<noteq> 1 then (Inl (NotFound ''Meal plan not found''), s1)
       else recordAndNotifyMealPlan E userId (ctx_familyId ctx) i ''cancelled'' ''CANCELLED'' ''Meal removed from the plan'' None s1)"

subsection \<open>Shopping for a plan\<close>

text \<open>The upsert of the item of one ingredient by its source key.\<close>

definition upsert_item ::
    "env \<Rightarrow> uuid \<Rightarrow> uuid \<Rightarrow> uuid \<Rightarrow> recipe_ingredient \<Rightarrow> meals_db \<Rightarrow> shopping_item \<times> meals_db" where
  "upsert_item E userId planId listId g s = (let key = Some (planId, ing_id g) in
     case find_first (\<lambda>x. si_sourceKey x = key) (sdb_items s) of
       Some x \<Rightarrow> (x\<lparr>si_listId := listId, si_updatedAt := env_now E\<rparr>, s\<lparr>sdb_items := map (\<lambda>y. if si_sourceKey y = key
           then y\<lparr>si_listId := listId, si_updatedAt := env_now E\<rparr> else y) (sdb_items s)\<rparr>)
     | None \<Rightarrow> (case fresh s of (i, s1) \<Rightarrow>
         let x = new_shopping_item E i listId userId (ing_name g) (ing_quantity g) key in
         (x, s1\<lparr>sdb_items := sdb_items s1 @ [x]\<rparr>)))"

fun upsert_items ::
    "env \<Rightarrow> uuid \<Rightarrow> uuid \<Rightarrow> uuid \<Rightarrow> recipe_ingredient list \<Rightarrow> meals_db \<Rightarrow> shopping_item list \<times> meals_db" where
  "upsert_items E userId planId listId [] s = ([], s)"
| "upsert_items E userId planId listId (g # gs) s = (case upsert_item E userId planId listId g s of
     (x, s1) \<Rightarrow> (case upsert_items E userId planId listId gs s1 of (xs, s2) \<Rightarrow> (x # xs, s2)))"

definition generateShopping ::
    "env \<Rightarrow> uuid \<Rightarrow> uuid \<Rightarrow> uuid \<Rightarrow> meals_db \<Rightarrow> (shopping_item list, meals_db) resp" where
  "generateShopping E userId planId listId s = (case requireMembership userId s of Inl e \<Rightarrow> (Inl e, s)
   | Inr ctx \<Rightarrow> (case find_first (\<lambda>p. mp_id p = planId \<and> mp_familyId p = ctx_familyId ctx) (mldb_plans s) of
       None \<Rightarrow> (Inl (NotFound ''Meal plan not found''), s)
     | Some plan \<Rightarrow> (case find_open_list listId (ctx_familyId ctx) s of
         None \<Rightarrow> (Inl (NotFound ''Shopping list not found''), s)
       | Some _ \<Rightarrow> (case upsert_items E userId (mp_id plan) listId (ingredients_of s (mp_recipeId plan)) s of
           (items, s1) \<Rightarrow> (Inr items, audit_record E ((audit_of userId (ctx_familyId ctx) ''meal_plan.shopping_generated''
               ''meal_plan'' planId)\<lparr>ain_metadata := JObj [(''shoppingListId'', JUuid listId),
                 (''itemCount'', JNum (int (length items)))]\<rparr>) s1)))))"

end
