(* ===== verification/MealsSpec.thy ===== *)
theory MealsSpec
  imports Meals
begin

text \<open>
  What the shopping lists, the recipes and the meal plans promise together: \<open>pantry_ok\<close> says which tables are
  consistent, \<open>pantry_evolve\<close> that every operation of the two services keeps them so and follows the steps of
  the rows, and the last part what generating the shopping of a plan does to the items.
\<close>

subsection \<open>The tables\<close>

definition item_ok :: "uuid \<Rightarrow> uuid set \<Rightarrow> shopping_item \<Rightarrow> bool" where
  "item_ok n ls x \<longleftrightarrow> si_id x < n \<and> si_listId x \<in> ls \<and> 1 \<le> si_version x
     \<and> (si_checkedAt x \<noteq> None \<longleftrightarrow> si_checked x) \<and> (si_checkedById x \<noteq> None \<longleftrightarrow> si_checked x)"

definition source_keys :: "shopping_item list \<Rightarrow> (uuid \<times> uuid) list" where
  "source_keys xs = List.map_filter si_sourceKey xs"

definition shopping_ok :: "uuid \<Rightarrow> shopping_list list \<Rightarrow> shopping_item list \<Rightarrow> bool" where
  "shopping_ok n ls xs \<longleftrightarrow> distinct (map sl_id ls) \<and> (\<forall>l \<in> set ls. sl_id l < n \<and> 1 \<le> sl_version l)
     \<and> distinct (map si_id xs) \<and> distinct (source_keys xs) \<and> (\<forall>x \<in> set xs. item_ok n (sl_id ` set ls) x)"

definition label_key :: "recipe_label \<Rightarrow> uuid \<times> string" where
  "label_key x = (lab_recipeId x, lab_label x)"

definition recipes_ok :: "uuid \<Rightarrow> recipe list \<Rightarrow> recipe_ingredient list \<Rightarrow> recipe_label list \<Rightarrow> bool" where
  "recipes_ok n rs gs ls \<longleftrightarrow> distinct (map rcp_id rs) \<and> (\<forall>r \<in> set rs. rcp_id r < n \<and> 1 \<le> rcp_version r)
     \<and> distinct (map ing_id gs) \<and> (\<forall>g \<in> set gs. ing_id g < n \<and> ing_recipeId g \<in> rcp_id ` set rs)
     \<and> distinct (map label_key ls) \<and> (\<forall>l \<in> set ls. lab_label l \<noteq> [] \<and> lab_recipeId l \<in> rcp_id ` set rs)"

definition plans_ok :: "uuid \<Rightarrow> recipe list \<Rightarrow> meal_plan list \<Rightarrow> bool" where
  "plans_ok n rs ps \<longleftrightarrow> distinct (map mp_id ps) \<and> distinct (map plan_slot ps)
     \<and> (\<forall>p \<in> set ps. mp_id p < n \<and> 1 \<le> mp_version p
          \<and> (mp_recipeId p, mp_familyId p) \<in> (\<lambda>r. (rcp_id r, rcp_familyId r)) ` set rs)"

definition recipe_media_key :: "recipe_media \<Rightarrow> uuid \<times> uuid" where
  "recipe_media_key a = (rme_recipeId a, rme_mediaId a)"

definition pantry_ok :: "meals_db \<Rightarrow> bool" where
  "pantry_ok s \<longleftrightarrow> shopping_ok (core_nextId s) (sdb_lists s) (sdb_items s)
     \<and> recipes_ok (core_nextId s) (mldb_recipes s) (mldb_ingredients s) (mldb_labels s)
     \<and> plans_ok (core_nextId s) (mldb_recipes s) (mldb_plans s)
     \<and> distinct (map recipe_media_key (mldb_recipeMedia s))"

subsection \<open>How the rows change\<close>

definition list_step :: "shopping_list \<Rightarrow> shopping_list \<Rightarrow> bool" where
  "list_step l l' \<longleftrightarrow> sl_id l' = sl_id l \<and> sl_familyId l' = sl_familyId l \<and> sl_createdById l' = sl_createdById l
     \<and> sl_name l' = sl_name l \<and> (l' = l \<or> sl_version l < sl_version l')"

definition item_step :: "shopping_item \<Rightarrow> shopping_item \<Rightarrow> bool" where
  "item_step x x' \<longleftrightarrow> si_id x' = si_id x \<and> si_name x' = si_name x \<and> si_quantity x' = si_quantity x
     \<and> si_addedById x' = si_addedById x \<and> si_sourceKey x' = si_sourceKey x
     \<and> (si_checked x' = si_checked x \<or> si_version x < si_version x') \<and> si_version x \<le> si_version x'
     \<and> (si_sourceKey x = None \<longrightarrow> si_listId x' = si_listId x)"

definition recipe_step :: "recipe \<Rightarrow> recipe \<Rightarrow> bool" where
  "recipe_step r r' \<longleftrightarrow> rcp_id r' = rcp_id r \<and> rcp_familyId r' = rcp_familyId r
     \<and> rcp_createdById r' = rcp_createdById r \<and> (r' = r \<or> rcp_version r < rcp_version r')"

lemma list_step_refl [simp]: "list_step l l"
  by (simp add: list_step_def)

lemma item_step_refl [simp]: "item_step x x"
  by (simp add: item_step_def)

lemma recipe_step_refl [simp]: "recipe_step r r"
  by (simp add: recipe_step_def)

lemma list_step_trans: "list_step a b \<Longrightarrow> list_step b c \<Longrightarrow> list_step a c"
  by (auto simp: list_step_def)

lemma item_step_trans: "item_step a b \<Longrightarrow> item_step b c \<Longrightarrow> item_step a c"
  by (auto simp: item_step_def)

lemma recipe_step_trans: "recipe_step a b \<Longrightarrow> recipe_step b c \<Longrightarrow> recipe_step a c"
  by (auto simp: recipe_step_def)

lemma lists_kept: "rows_kept list_step a b \<Longrightarrow> rows_kept list_step b c \<Longrightarrow> rows_kept list_step a c"
  by (rule rows_kept_trans) (rule list_step_trans)

lemma items_kept: "rows_kept item_step a b \<Longrightarrow> rows_kept item_step b c \<Longrightarrow> rows_kept item_step a c"
  by (rule rows_kept_trans) (rule item_step_trans)

lemma recipes_kept: "rows_kept recipe_step a b \<Longrightarrow> rows_kept recipe_step b c \<Longrightarrow> rows_kept recipe_step a c"
  by (rule rows_kept_trans) (rule recipe_step_trans)

definition pantry_follow :: "meals_db \<Rightarrow> meals_db \<Rightarrow> bool" where
  "pantry_follow s t \<longleftrightarrow> core_nextId s \<le> core_nextId t \<and> rows_kept list_step (sdb_lists s) (sdb_lists t)
     \<and> rows_kept item_step (sdb_items s) (sdb_items t) \<and> rows_kept recipe_step (mldb_recipes s) (mldb_recipes t)"

definition pantry_evolve :: "meals_db \<Rightarrow> meals_db \<Rightarrow> bool" where
  "pantry_evolve s t \<longleftrightarrow> (pantry_ok s \<longrightarrow> pantry_ok t \<and> pantry_follow s t)"

interpretation pan: evolution pantry_evolve
proof
  show "pantry_evolve s s" for s by (simp add: pantry_evolve_def pantry_follow_def rows_kept_refl)
  show "pantry_evolve a c" if "pantry_evolve a b" "pantry_evolve b c" for a b c
    using that unfolding pantry_evolve_def pantry_follow_def
    by (metis order_trans lists_kept items_kept recipes_kept)
qed

subsection \<open>Changes of single tables\<close>

lemma shopping_ok_later: "shopping_ok n ls xs \<Longrightarrow> n \<le> k \<Longrightarrow> shopping_ok k ls xs"
  by (fastforce simp: shopping_ok_def item_ok_def)

lemma recipes_ok_later: "recipes_ok n rs gs ls \<Longrightarrow> n \<le> k \<Longrightarrow> recipes_ok k rs gs ls"
  by (fastforce simp: recipes_ok_def)

lemma plans_ok_later: "plans_ok n rs ps \<Longrightarrow> n \<le> k \<Longrightarrow> plans_ok k rs ps"
  by (fastforce simp: plans_ok_def)

lemma pantry_ok_later:
  assumes "pantry_ok s" "core_nextId s \<le> n"
  shows "shopping_ok n (sdb_lists s) (sdb_items s) \<and> plans_ok n (mldb_recipes s) (mldb_plans s)
    \<and> recipes_ok n (mldb_recipes s) (mldb_ingredients s) (mldb_labels s)"
  using assms unfolding pantry_ok_def by (meson shopping_ok_later plans_ok_later recipes_ok_later)

lemma plans_ok_recipes:
  assumes "plans_ok n rs ps" "(\<lambda>r. (rcp_id r, rcp_familyId r)) ` set rs \<subseteq> (\<lambda>r. (rcp_id r, rcp_familyId r)) ` set rs'"
  shows "plans_ok n rs' ps"
  using assms by (auto simp: plans_ok_def)

lemma kept_recipe_keys:
  assumes "rows_kept recipe_step rs rs'"
  shows "(\<lambda>r. (rcp_id r, rcp_familyId r)) ` set rs \<subseteq> (\<lambda>r. (rcp_id r, rcp_familyId r)) ` set rs'"
proof
  fix k assume "k \<in> (\<lambda>r. (rcp_id r, rcp_familyId r)) ` set rs"
  then obtain r where r: "r \<in> set rs" "k = (rcp_id r, rcp_familyId r)" by auto
  obtain r' where "r' \<in> set rs'" "recipe_step r r'" using rows_kept_rowD [OF assms r(1)] by auto
  moreover have "k = (\<lambda>r. (rcp_id r, rcp_familyId r)) r'" using r(2) calculation(2) by (simp add: recipe_step_def)
  ultimately show "k \<in> (\<lambda>r. (rcp_id r, rcp_familyId r)) ` set rs'" by blast
qed

text \<open>The tables of the two parts are independent.\<close>

lemma pan_shopping:
  assumes "core_nextId s \<le> core_nextId t" "mldb_recipes t = mldb_recipes s" "mldb_ingredients t = mldb_ingredients s"
    "mldb_labels t = mldb_labels s" "mldb_plans t = mldb_plans s" "mldb_recipeMedia t = mldb_recipeMedia s"
    and "pantry_ok s \<Longrightarrow> shopping_ok (core_nextId t) (sdb_lists t) (sdb_items t)
      \<and> rows_kept list_step (sdb_lists s) (sdb_lists t) \<and> rows_kept item_step (sdb_items s) (sdb_items t)"
  shows "pantry_evolve s t"
  using assms by (auto simp: pantry_evolve_def pantry_ok_def pantry_follow_def rows_kept_refl
    intro: recipes_ok_later plans_ok_later)

lemma pan_recipes:
  assumes "core_nextId s \<le> core_nextId t" "sdb_lists t = sdb_lists s" "sdb_items t = sdb_items s"
    "mldb_plans t = mldb_plans s" "mldb_recipeMedia t = mldb_recipeMedia s"
    and "pantry_ok s \<Longrightarrow> recipes_ok (core_nextId t) (mldb_recipes t) (mldb_ingredients t) (mldb_labels t)
      \<and> rows_kept recipe_step (mldb_recipes s) (mldb_recipes t)"
  shows "pantry_evolve s t"
proof -
  have "plans_ok (core_nextId t) (mldb_recipes t) (mldb_plans s)" if "pantry_ok s"
  proof (rule plans_ok_recipes)
    show "plans_ok (core_nextId t) (mldb_recipes s) (mldb_plans s)"
      using pantry_ok_later [OF that assms(1)] by simp
    show "(\<lambda>r. (rcp_id r, rcp_familyId r)) ` set (mldb_recipes s) \<subseteq> (\<lambda>r. (rcp_id r, rcp_familyId r)) ` set (mldb_recipes t)"
      using assms(6) [OF that] by (intro kept_recipe_keys) simp
  qed
  moreover have "shopping_ok (core_nextId t) (sdb_lists s) (sdb_items s)" if "pantry_ok s"
    using pantry_ok_later [OF that assms(1)] by simp
  ultimately show ?thesis
    using assms by (simp add: pantry_evolve_def pantry_ok_def pantry_follow_def rows_kept_refl)
qed

lemma pan_plans:
  assumes "core_nextId s \<le> core_nextId t" "sdb_lists t = sdb_lists s" "sdb_items t = sdb_items s"
    "mldb_recipes t = mldb_recipes s" "mldb_ingredients t = mldb_ingredients s" "mldb_labels t = mldb_labels s"
    and "pantry_ok s \<Longrightarrow> plans_ok (core_nextId t) (mldb_recipes t) (mldb_plans t)
      \<and> distinct (map recipe_media_key (mldb_recipeMedia t))"
  shows "pantry_evolve s t"
  using assms by (auto simp: pantry_evolve_def pantry_ok_def pantry_follow_def rows_kept_refl
    intro: shopping_ok_later recipes_ok_later)

lemma pan_feed: "pantry_evolve s t \<Longrightarrow> pantry_evolve s (t\<lparr>core_feed := d\<rparr>)"
  by (simp add: pantry_evolve_def pantry_ok_def pantry_follow_def)

lemma pan_audit: "pantry_evolve s t \<Longrightarrow> pantry_evolve s (audit_record E i t)"
  by (simp add: audit_record_def pan_feed)

lemma pan_noted: "pantry_evolve s t \<Longrightarrow> pantry_evolve s (snd (audit_and_notify E u fam a r i ty ti b t))"
  by (simp add: audit_and_notify_def notifyFamilyMembers_frame pan_audit pan_feed)

lemma pan_noted_recipe: "pantry_evolve s t \<Longrightarrow> pantry_evolve s (snd (recordAndNotifyRecipe E u fam i a up ti n t))"
  by (simp add: recordAndNotifyRecipe_def pan_noted)

lemma pan_noted_plan: "pantry_evolve s t \<Longrightarrow> pantry_evolve s (snd (recordAndNotifyMealPlan E u fam i a up ti n t))"
  by (simp add: recordAndNotifyMealPlan_def pan_noted)

lemma pan_okI: "(pantry_ok s \<Longrightarrow> pantry_evolve s t) \<Longrightarrow> pantry_evolve s t"
  by (auto simp: pantry_evolve_def)

subsection \<open>Changes of rows\<close>

lemma source_keys_append [simp]: "source_keys (xs @ ys) = source_keys xs @ source_keys ys"
  by (simp add: source_keys_def map_filter_def)

lemma source_keys_map: "(\<And>x. x \<in> set xs \<Longrightarrow> si_sourceKey (g x) = si_sourceKey x) \<Longrightarrow> source_keys (map g xs) = source_keys xs"
  by (induction xs) (simp_all add: source_keys_def map_filter_simps cong: option.case_cong)

lemma source_keys_set: "k \<in> set (source_keys xs) \<longleftrightarrow> (\<exists>x \<in> set xs. si_sourceKey x = Some k)"
  by (induction xs) (auto simp: source_keys_def map_filter_simps split: option.split)

lemma shopping_ok_add_list:
  assumes "shopping_ok n ls xs" "sl_id l = n" "sl_version l = 1"
  shows "shopping_ok (Suc n) (ls @ [l]) xs"
proof -
  have "n \<notin> sl_id ` set ls" using assms(1) by (auto simp: shopping_ok_def)
  with assms show ?thesis by (auto simp: shopping_ok_def item_ok_def less_Suc_eq)
qed

lemma shopping_ok_add_item:
  assumes "shopping_ok n ls xs" "si_id x = n" "item_ok (Suc n) (sl_id ` set ls) x"
    "\<And>k. si_sourceKey x = Some k \<Longrightarrow> k \<notin> set (source_keys xs)"
  shows "shopping_ok (Suc n) ls (xs @ [x])"
proof -
  have "n \<notin> si_id ` set xs" using assms(1) by (auto simp: shopping_ok_def item_ok_def)
  moreover have "distinct (source_keys (xs @ [x]))"
  proof (cases "si_sourceKey x")
    case None
    then have "source_keys [x] = []" by (simp add: source_keys_def map_filter_simps)
    then show ?thesis using assms(1) by (simp add: shopping_ok_def)
  next
    case (Some k)
    then have "source_keys [x] = [k]" by (simp add: source_keys_def map_filter_simps)
    then show ?thesis using assms(1) assms(4) [OF Some] by (simp add: shopping_ok_def)
  qed
  ultimately show ?thesis
    using shopping_ok_later [OF assms(1), of "Suc n"] assms(2,3) by (auto simp: shopping_ok_def)
qed

lemma shopping_ok_map_lists:
  assumes "shopping_ok n ls xs" "\<And>l. l \<in> set ls \<Longrightarrow> list_step l (g l)"
  shows "shopping_ok n (map g ls) xs"
proof -
  have "map sl_id (map g ls) = map sl_id ls" using assms(2) by (simp add: list_step_def)
  moreover from this have "sl_id ` set (map g ls) = sl_id ` set ls" by (metis set_map)
  moreover have "sl_id (g l) < n \<and> 1 \<le> sl_version (g l)" if "l \<in> set ls" for l
    using assms(1) assms(2) [OF that] that by (auto simp: shopping_ok_def list_step_def)
  ultimately show ?thesis using assms(1) by (simp add: shopping_ok_def del: map_map set_map) auto
qed

lemma shopping_ok_map_items:
  assumes "shopping_ok n ls xs"
    "\<And>x. x \<in> set xs \<Longrightarrow> item_ok n (sl_id ` set ls) x \<Longrightarrow> item_step x (g x) \<and> item_ok n (sl_id ` set ls) (g x)"
  shows "shopping_ok n ls (map g xs)" "rows_kept item_step xs (map g xs)"
proof -
  have row: "item_step x (g x) \<and> item_ok n (sl_id ` set ls) (g x)" if "x \<in> set xs" for x
    using assms that by (auto simp: shopping_ok_def)
  then show "rows_kept item_step xs (map g xs)" by (simp add: rows_kept_map)
  have "map si_id (map g xs) = map si_id xs" using row by (simp add: item_step_def)
  moreover have "source_keys (map g xs) = source_keys xs" using row by (intro source_keys_map) (simp add: item_step_def)
  ultimately show "shopping_ok n ls (map g xs)" using assms(1) row by (simp add: shopping_ok_def del: map_map)
qed

lemma recipes_ok_map:
  assumes "recipes_ok n rs gs ls" "\<And>r. r \<in> set rs \<Longrightarrow> recipe_step r (g r)"
  shows "recipes_ok n (map g rs) gs ls"
proof -
  have "map rcp_id (map g rs) = map rcp_id rs" using assms(2) by (simp add: recipe_step_def)
  moreover from this have "rcp_id ` set (map g rs) = rcp_id ` set rs" by (metis set_map)
  moreover have "rcp_id (g r) < n \<and> 1 \<le> rcp_version (g r)" if "r \<in> set rs" for r
    using assms(1) assms(2) [OF that] that by (auto simp: recipes_ok_def recipe_step_def)
  ultimately show ?thesis using assms(1) by (simp add: recipes_ok_def del: map_map set_map) auto
qed

subsection \<open>Ingredients and labels\<close>

lemma first_occurrences_simps [simp]: "set (first_occurrences xs) = set xs" "distinct (first_occurrences xs)"
  by (simp_all add: first_occurrences_def)

lemma normalized_labels: "[] \<notin> set (normalizeDietaryLabels ls)" "distinct (normalizeDietaryLabels ls)"
  by (simp_all add: normalizeDietaryLabels_def)

lemma add_ingredients_recipes [simp]: "mldb_recipes (add_ingredients i ds s) = mldb_recipes s"
  by (induction ds arbitrary: s) (simp_all add: fresh_def)

lemma add_ingredients_labels [simp]: "mldb_labels (add_ingredients i ds s) = mldb_labels s"
  by (induction ds arbitrary: s) (simp_all add: fresh_def)

lemma add_labels_recipes [simp]: "mldb_recipes (add_labels i ls s) = mldb_recipes s"
  by (induction ls arbitrary: s) (simp_all add: fresh_def)

lemma add_ingredients_evolve:
  "i \<in> rcp_id ` set (mldb_recipes s) \<Longrightarrow> pantry_evolve s (add_ingredients i ds s)"
proof (induction ds arbitrary: s)
  case (Cons d ds)
  let ?g = "\<lparr>ing_id = core_nextId s, ing_recipeId = i, ing_name = js_trim (igd_name d), ing_quantity = trim_or_null (igd_quantity d)\<rparr>"
  let ?t = "s\<lparr>core_nextId := core_nextId s + 1, mldb_ingredients := mldb_ingredients s @ [?g]\<rparr>"
  have "pantry_evolve s ?t"
  proof (intro pan_recipes)
    assume "pantry_ok s"
    then have "recipes_ok (core_nextId s) (mldb_recipes s) (mldb_ingredients s) (mldb_labels s)" by (simp add: pantry_ok_def)
    with Cons.prems show "recipes_ok (core_nextId ?t) (mldb_recipes ?t) (mldb_ingredients ?t) (mldb_labels ?t)
      \<and> rows_kept recipe_step (mldb_recipes s) (mldb_recipes ?t)"
      by (fastforce simp: recipes_ok_def rows_kept_refl)
  qed simp_all
  moreover have "pantry_evolve ?t (add_ingredients i ds ?t)" using Cons.prems by (intro Cons.IH) simp
  ultimately show ?case by (simp add: fresh_def pan.evolution_trans)
qed (simp add: pan.evolution_refl)

lemma add_labels_evolve:
  "i \<in> rcp_id ` set (mldb_recipes s) \<Longrightarrow> distinct ls \<Longrightarrow> [] \<notin> set ls
    \<Longrightarrow> (\<And>l. l \<in> set ls \<Longrightarrow> (i, l) \<notin> label_key ` set (mldb_labels s)) \<Longrightarrow> pantry_evolve s (add_labels i ls s)"
proof (induction ls arbitrary: s)
  case (Cons l ls)
  let ?x = "\<lparr>lab_id = core_nextId s, lab_recipeId = i, lab_label = l\<rparr>"
  let ?t = "s\<lparr>core_nextId := core_nextId s + 1, mldb_labels := mldb_labels s @ [?x]\<rparr>"
  have "pantry_evolve s ?t"
  proof (intro pan_recipes)
    assume "pantry_ok s"
    then have ok: "recipes_ok (core_nextId s) (mldb_recipes s) (mldb_ingredients s) (mldb_labels s)" by (simp add: pantry_ok_def)
    have "label_key ?x \<notin> label_key ` set (mldb_labels s)" using Cons.prems(4) [of l] by (simp add: label_key_def)
    then show "recipes_ok (core_nextId ?t) (mldb_recipes ?t) (mldb_ingredients ?t) (mldb_labels ?t)
      \<and> rows_kept recipe_step (mldb_recipes s) (mldb_recipes ?t)"
      using recipes_ok_later [OF ok, of "core_nextId s + 1"] Cons.prems(1,3) by (auto simp: recipes_ok_def rows_kept_refl)
  qed simp_all
  moreover have "pantry_evolve ?t (add_labels i ls ?t)"
    using Cons.prems by (intro Cons.IH) (auto simp: label_key_def)
  ultimately show ?case by (simp add: fresh_def pan.evolution_trans)
qed (simp add: pan.evolution_refl)

subsection \<open>The operations on lists\<close>

lemma find_open_listD: "find_open_list i fam s = Some l \<Longrightarrow> i \<in> sl_id ` set (sdb_lists s)"
  by (auto simp: find_open_list_def dest!: find_SomeD)

lemma pan_add_list:
  assumes "sl_id l = core_nextId s" "sl_version l = 1"
  shows "pantry_evolve s (s\<lparr>core_nextId := core_nextId s + 1, sdb_lists := sdb_lists s @ [l]\<rparr>)"
  using assms by (intro pan_shopping) (auto simp: pantry_ok_def rows_kept_refl rows_kept_append intro: shopping_ok_add_list)

lemma pan_add_item:
  assumes "si_id x = core_nextId s" "item_ok (Suc (core_nextId s)) (sl_id ` set (sdb_lists s)) x"
    "\<And>k. si_sourceKey x = Some k \<Longrightarrow> k \<notin> set (source_keys (sdb_items s))"
  shows "pantry_evolve s (s\<lparr>core_nextId := core_nextId s + 1, sdb_items := sdb_items s @ [x]\<rparr>)"
  using assms by (intro pan_shopping) (auto simp: pantry_ok_def rows_kept_refl rows_kept_append intro: shopping_ok_add_item)

lemma pan_map_items:
  assumes "\<And>x n. item_ok n (sl_id ` set (sdb_lists s)) x \<Longrightarrow> item_step x (g x) \<and> item_ok n (sl_id ` set (sdb_lists s)) (g x)"
  shows "pantry_evolve s (s\<lparr>sdb_items := map g (sdb_items s)\<rparr>)"
proof (intro pan_shopping)
  assume "pantry_ok s"
  then have "shopping_ok (core_nextId s) (sdb_lists s) (sdb_items s)" by (simp add: pantry_ok_def)
  from shopping_ok_map_items [OF this assms]
  show "shopping_ok (core_nextId (s\<lparr>sdb_items := map g (sdb_items s)\<rparr>)) (sdb_lists (s\<lparr>sdb_items := map g (sdb_items s)\<rparr>))
      (sdb_items (s\<lparr>sdb_items := map g (sdb_items s)\<rparr>))
    \<and> rows_kept list_step (sdb_lists s) (sdb_lists (s\<lparr>sdb_items := map g (sdb_items s)\<rparr>))
    \<and> rows_kept item_step (sdb_items s) (sdb_items (s\<lparr>sdb_items := map g (sdb_items s)\<rparr>))"
    by (simp add: rows_kept_refl)
qed simp_all

lemma pan_map_lists:
  assumes "\<And>l. list_step l (g l)"
  shows "pantry_evolve s (s\<lparr>sdb_lists := map g (sdb_lists s)\<rparr>)"
  using assms by (intro pan_shopping) (auto simp: pantry_ok_def rows_kept_refl rows_kept_map intro: shopping_ok_map_lists)

lemma createList_evolve: "pantry_evolve s (snd (createList E u nm s))"
  unfolding createList_def fresh_def prod.case Let_def
  by (intro pan.guards; simp; intro pan_noted; use pan_add_list in \<open>simp add: new_shopping_list_def\<close>)

lemma addItem_evolve: "pantry_evolve s (snd (addItem E u i dto s))"
proof -
  have "pantry_evolve s (s\<lparr>core_nextId := core_nextId s + 1, sdb_items := sdb_items s @ [new_shopping_item E (core_nextId s) i u nm q None]\<rparr>)"
    if "find_open_list i fam s = Some l" for fam l nm q
    using find_open_listD [OF that] by (intro pan_add_item) (simp_all add: new_shopping_item_def item_ok_def)
  then show ?thesis
    unfolding addItem_def fresh_def prod.case Let_def by (intro pan.guards; simp; intro pan_noted; simp)
qed

lemma checkItem_evolve: "pantry_evolve s (snd (checkItem E u i j b ver s))"
proof -
  have checked: "pantry_evolve s (snd (update_items P (check_row (now, b, u)) s))" if "\<And>x. P x \<Longrightarrow> si_checked x \<noteq> b" for P now
    unfolding update_items_def snd_conv update_many_simps
    by (intro pan_map_items) (auto simp: item_ok_def item_step_def check_row_def)
  show ?thesis
    unfolding checkItem_def
    by (intro pan.guard_sum pan.guard_option pan.counted_write pan.later_option checked)
      (simp_all add: pan_noted)
qed

lemma set_archived_evolve: "pantry_evolve s (snd (set_archived E fam i b ver s))"
proof -
  have written: "pantry_evolve s (snd (update_lists P (archive_list_row (now, b)) s))" for P now
    unfolding update_lists_def snd_conv update_many_simps
    by (intro pan_map_lists) (auto simp: list_step_def archive_list_row_def)
  have eq: "snd (set_archived E fam i b ver s) = snd (update_lists (\<lambda>l. sl_id l = i \<and> sl_familyId l = fam
      \<and> sl_archived l = (\<not> b) \<and> version_is ver (sl_version l)) (archive_list_row (env_now E, b)) s)"
    by (simp add: set_archived_def split: prod.split)
  show ?thesis unfolding eq by (rule written)
qed

lemma archiveList_evolve: "pantry_evolve s (snd (archiveList E u i ver s))"
  unfolding archiveList_def
  by (intro pan.guards pan.and_thenI set_archived_evolve pan_noted pan.evolution_refl)

lemma restoreList_evolve: "pantry_evolve s (snd (restoreList E u i ver s))"
  unfolding restoreList_def
  by (intro pan.guards pan.and_thenI set_archived_evolve) (auto simp: pan_audit pan.evolution_refl split: option.split)

subsection \<open>The operations on recipes\<close>

lemma pan_add_recipe:
  assumes "rcp_id r = core_nextId s" "rcp_version r = 1"
  shows "pantry_evolve s (s\<lparr>core_nextId := core_nextId s + 1, mldb_recipes := mldb_recipes s @ [r]\<rparr>)"
proof (intro pan_recipes)
  assume "pantry_ok s"
  then have ok: "recipes_ok (core_nextId s) (mldb_recipes s) (mldb_ingredients s) (mldb_labels s)" by (simp add: pantry_ok_def)
  then have "core_nextId s \<notin> rcp_id ` set (mldb_recipes s)" by (auto simp: recipes_ok_def)
  then have "recipes_ok (Suc (core_nextId s)) (mldb_recipes s @ [r]) (mldb_ingredients s) (mldb_labels s)"
    using recipes_ok_later [OF ok, of "Suc (core_nextId s)"] assms by (auto simp: recipes_ok_def)
  then show "recipes_ok (core_nextId (s\<lparr>core_nextId := core_nextId s + 1, mldb_recipes := mldb_recipes s @ [r]\<rparr>))
      (mldb_recipes (s\<lparr>core_nextId := core_nextId s + 1, mldb_recipes := mldb_recipes s @ [r]\<rparr>))
      (mldb_ingredients (s\<lparr>core_nextId := core_nextId s + 1, mldb_recipes := mldb_recipes s @ [r]\<rparr>))
      (mldb_labels (s\<lparr>core_nextId := core_nextId s + 1, mldb_recipes := mldb_recipes s @ [r]\<rparr>))
    \<and> rows_kept recipe_step (mldb_recipes s) (mldb_recipes (s\<lparr>core_nextId := core_nextId s + 1, mldb_recipes := mldb_recipes s @ [r]\<rparr>))"
    by (simp add: rows_kept_append)
qed simp_all

lemma new_recipe_labels:
  assumes "pantry_ok s" shows "(core_nextId s, l) \<notin> label_key ` set (mldb_labels s)"
  using assms by (fastforce simp: pantry_ok_def recipes_ok_def label_key_def)

lemma recipes_create_evolve: "pantry_evolve s (snd (recipes_create E u dto s))"
proof -
  have built: "pantry_evolve s (add_labels (core_nextId s) (normalizeDietaryLabels ls) (add_ingredients (core_nextId s) gs
      (s\<lparr>core_nextId := core_nextId s + 1, mldb_recipes := mldb_recipes s @ [new_recipe E (core_nextId s) fam u dto]\<rparr>)))"
    for ls gs fam
  proof (rule pan_okI)
    assume ok: "pantry_ok s"
    let ?t = "s\<lparr>core_nextId := core_nextId s + 1, mldb_recipes := mldb_recipes s @ [new_recipe E (core_nextId s) fam u dto]\<rparr>"
    have "pantry_evolve s ?t" by (rule pan_add_recipe) (simp_all add: new_recipe_def)
    moreover have "pantry_evolve ?t (add_ingredients (core_nextId s) gs ?t)"
      by (rule add_ingredients_evolve) (simp add: new_recipe_def)
    moreover have "pantry_evolve (add_ingredients (core_nextId s) gs ?t)
        (add_labels (core_nextId s) (normalizeDietaryLabels ls) (add_ingredients (core_nextId s) gs ?t))"
      using new_recipe_labels [OF ok] normalized_labels by (intro add_labels_evolve) (simp_all add: new_recipe_def)
    ultimately show "pantry_evolve s (add_labels (core_nextId s) (normalizeDietaryLabels ls) (add_ingredients (core_nextId s) gs ?t))"
      by (blast intro: pan.evolution_trans)
  qed
  show ?thesis
    unfolding recipes_create_def fresh_def prod.case Let_def
    by (intro pan.guards; simp; intro pan_noted_recipe; use built in simp)
qed

lemma change_recipe_evolve: "pantry_evolve s (snd (change_recipe E i fam b ver c s))"
proof -
  have step: "recipe_step r (if P r then write_recipe (now, c) r else r)" for P r now
    by (cases c) (auto simp: recipe_step_def write_recipe_def)
  have "pantry_evolve s (s\<lparr>mldb_recipes := map g (mldb_recipes s)\<rparr>)" if "\<And>r. recipe_step r (g r)" for g
    using that by (intro pan_recipes) (auto simp: pantry_ok_def rows_kept_map intro: recipes_ok_map)
  from this [OF step] show ?thesis by (simp add: change_recipe_def Let_def)
qed

lemma change_recipe_Inr:
  assumes "change_recipe E i fam b ver c s = (Inr x, t)" shows "i \<in> rcp_id ` set (mldb_recipes t)"
proof -
  let ?P = "\<lambda>r. rcp_id r = i \<and> rcp_familyId r = fam \<and> rcp_archived r = b \<and> version_is ver (rcp_version r)"
  have t: "t = s\<lparr>mldb_recipes := map (\<lambda>r. if ?P r then write_recipe (env_now E, c) r else r) (mldb_recipes s)\<rparr>"
    "0 < length (filter ?P (mldb_recipes s))"
    using assms by (auto simp: change_recipe_def Let_def split: if_splits)
  obtain r where r: "r \<in> set (mldb_recipes s)" "?P r" using t(2) length_filter_pos_iff [of ?P "mldb_recipes s"] by blast
  have "rcp_id (write_recipe (env_now E, c) r) = i" using r(2) by (cases c) (simp_all add: write_recipe_def)
  then show ?thesis using r unfolding t(1) by force
qed

lemma recipes_archive_evolve: "pantry_evolve s (snd (recipes_archive E u i ver s))"
  unfolding recipes_archive_def
  by (intro pan.guards pan.and_thenI change_recipe_evolve pan_noted_recipe pan.evolution_refl)

lemma recipes_restore_evolve: "pantry_evolve s (snd (recipes_restore E u i ver s))"
  unfolding recipes_restore_def
  by (intro pan.guards pan.and_thenI change_recipe_evolve)
    (auto simp: pan_noted_recipe pan.evolution_refl split: option.split)

lemma pan_filter_ingredients: "pantry_evolve s (s\<lparr>mldb_ingredients := filter P (mldb_ingredients s)\<rparr>)"
  by (intro pan_recipes) (auto simp: pantry_ok_def recipes_ok_def rows_kept_refl intro: distinct_map_filter)

lemma pan_filter_labels: "pantry_evolve s (s\<lparr>mldb_labels := filter P (mldb_labels s)\<rparr>)"
  by (intro pan_recipes) (auto simp: pantry_ok_def recipes_ok_def rows_kept_refl intro: distinct_map_filter)

lemma replace_ingredients_evolve:
  assumes "i \<in> rcp_id ` set (mldb_recipes s)"
  shows "pantry_evolve s (snd (replace_ingredients i v s))"
proof -
  let ?t = "s\<lparr>mldb_ingredients := filter (\<lambda>x. ing_recipeId x \<noteq> i) (mldb_ingredients s)\<rparr>"
  have "pantry_evolve ?t (add_ingredients i ds ?t)" for ds using assms by (intro add_ingredients_evolve) simp
  then have "pantry_evolve s (add_ingredients i ds ?t)" for ds
    using pan.evolution_trans [OF pan_filter_ingredients] by blast
  then show ?thesis
    by (auto simp: replace_ingredients_def Let_def pan.evolution_refl pan_filter_ingredients split: option.split)
qed

lemma replace_ingredients_recipes: "mldb_recipes (snd (replace_ingredients i v s)) = mldb_recipes s"
  by (simp add: replace_ingredients_def Let_def split: option.split)

lemma replace_labels_evolve:
  assumes "i \<in> rcp_id ` set (mldb_recipes s)"
  shows "pantry_evolve s (snd (replace_labels i v s))"
proof -
  let ?t = "s\<lparr>mldb_labels := filter (\<lambda>x. lab_recipeId x \<noteq> i) (mldb_labels s)\<rparr>"
  have "pantry_evolve ?t (add_labels i (normalizeDietaryLabels ls) ?t)" for ls
    using assms normalized_labels by (intro add_labels_evolve) (auto simp: label_key_def)
  then have "pantry_evolve s (add_labels i (normalizeDietaryLabels ls) ?t)" for ls
    using pan.evolution_trans [OF pan_filter_labels] by blast
  then show ?thesis
    by (auto simp: replace_labels_def Let_def pan.evolution_refl pan_filter_labels split: option.split)
qed

lemma recipes_update_tx_evolve: "pantry_evolve s (snd (recipes_update_tx E i fam dto ver s))"
proof -
  have rest: "pantry_evolve t (snd (and_then (replace_ingredients i gs t) (\<lambda>_ s2. and_then (replace_labels i ls s2)
      (\<lambda>_ s3. (case recipe_by_id i s3 of None \<Rightarrow> (Inl P2025, s3) | Some r \<Rightarrow> (Inr (recipe_view_of s3 r), s3))))))"
    if t: "i \<in> rcp_id ` set (mldb_recipes t)" for t gs ls
  proof (intro pan.and_thenI replace_ingredients_evolve [OF t])
    fix x u assume "replace_ingredients i gs t = (Inr x, u)"
    then have "mldb_recipes u = mldb_recipes t" using replace_ingredients_recipes [of i gs t] by simp
    then show "pantry_evolve u (snd (replace_labels i ls u))" using t by (intro replace_labels_evolve) simp
  qed (auto simp: pan.evolution_refl split: option.split)
  show ?thesis
    unfolding recipes_update_tx_def
    by (rule pan.guard_if, rule pan.and_thenI [OF change_recipe_evolve], rule rest, erule change_recipe_Inr)
qed

lemma recipes_update_evolve: "pantry_evolve s (snd (recipes_update E u i dto ver s))"
  unfolding recipes_update_def
  by (intro pan.guards pan.and_thenI pan.transaction_stepI recipes_update_tx_evolve)
    (simp_all add: pan_noted_recipe pan.evolution_refl)

subsection \<open>The operations on plans\<close>

lemma find_recipe_asD:
  "find_recipe_as b i fam s = Some r \<Longrightarrow> (i, fam) \<in> (\<lambda>r. (rcp_id r, rcp_familyId r)) ` set (mldb_recipes s)"
  by (force simp: find_recipe_as_def dest!: find_SomeD)

lemma pan_set_plans:
  assumes "pantry_ok s \<Longrightarrow> plans_ok (core_nextId s) (mldb_recipes s) ps"
  shows "pantry_evolve s (s\<lparr>mldb_plans := ps\<rparr>)"
  using assms by (intro pan_plans) (auto simp: pantry_ok_def)

lemma pan_fresh: "pantry_evolve s (s\<lparr>core_nextId := core_nextId s + 1\<rparr>)"
  by (intro pan_plans) (auto simp: pantry_ok_def intro: plans_ok_later)

lemma pan_insert_plan:
  assumes "mp_id p = core_nextId s" "mp_version p = 1"
    "(mp_recipeId p, mp_familyId p) \<in> (\<lambda>r. (rcp_id r, rcp_familyId r)) ` set (mldb_recipes s)"
  shows "pantry_evolve s (snd (insert_plan p (s\<lparr>core_nextId := core_nextId s + 1\<rparr>)))"
proof (cases "plan_slot p \<in> plan_slot ` set (mldb_plans s)")
  case False
  have "pantry_evolve s (s\<lparr>core_nextId := core_nextId s + 1, mldb_plans := mldb_plans s @ [p]\<rparr>)"
  proof (intro pan_plans)
    assume "pantry_ok s"
    then have ok: "plans_ok (core_nextId s) (mldb_recipes s) (mldb_plans s)"
      and media: "distinct (map recipe_media_key (mldb_recipeMedia s))" by (simp_all add: pantry_ok_def)
    from ok have "core_nextId s \<notin> mp_id ` set (mldb_plans s)" by (auto simp: plans_ok_def)
    then have "plans_ok (Suc (core_nextId s)) (mldb_recipes s) (mldb_plans s @ [p])"
      using plans_ok_later [OF ok, of "Suc (core_nextId s)"] assms False by (auto simp: plans_ok_def)
    with media show "plans_ok (core_nextId (s\<lparr>core_nextId := core_nextId s + 1, mldb_plans := mldb_plans s @ [p]\<rparr>))
        (mldb_recipes (s\<lparr>core_nextId := core_nextId s + 1, mldb_plans := mldb_plans s @ [p]\<rparr>))
        (mldb_plans (s\<lparr>core_nextId := core_nextId s + 1, mldb_plans := mldb_plans s @ [p]\<rparr>))
      \<and> distinct (map recipe_media_key (mldb_recipeMedia (s\<lparr>core_nextId := core_nextId s + 1, mldb_plans := mldb_plans s @ [p]\<rparr>)))"
      by simp
  qed simp_all
  then show ?thesis using False by (simp add: insert_plan_def)
qed (use pan_fresh [of s] in \<open>simp add: insert_plan_def\<close>)

lemma createPlan_evolve: "pantry_evolve s (snd (createPlan E u dto s))"
proof -
  have "pantry_evolve s (snd (insert_plan (new_meal_plan E (core_nextId s) fam u dto at) (s\<lparr>core_nextId := core_nextId s + 1\<rparr>)))"
    if "find_recipe_as False (cpd_recipeId dto) fam s = Some r" for fam at r
    using find_recipe_asD [OF that] by (intro pan_insert_plan) (simp_all add: new_meal_plan_def)
  then show ?thesis
    unfolding createPlan_def fresh_def prod.case Let_def snd_catch_prisma
    by (intro pan.guard_sum pan.guard_option; simp; intro pan.guard_sum pan.and_thenI; simp add: pan_noted_plan pan.evolution_refl)
qed

lemma update_plans_evolve:
  assumes "\<And>p. p \<in> set (mldb_plans s) \<Longrightarrow> P p \<Longrightarrow> plans_ok (core_nextId s) (mldb_recipes s) (mldb_plans s) \<Longrightarrow>
      mp_id (g p) = mp_id p \<and> 1 \<le> mp_version (g p)
      \<and> (mp_recipeId (g p), mp_familyId (g p)) \<in> (\<lambda>r. (rcp_id r, rcp_familyId r)) ` set (mldb_recipes s)"
  shows "pantry_evolve s (snd (update_plans P g s))"
proof (cases "distinct (map plan_slot (snd (update_many P g (mldb_plans s))))")
  case True
  let ?ps = "map (\<lambda>p. if P p then g p else p) (mldb_plans s)"
  have "plans_ok (core_nextId s) (mldb_recipes s) ?ps" if ok: "plans_ok (core_nextId s) (mldb_recipes s) (mldb_plans s)"
  proof -
    have "map mp_id ?ps = map mp_id (mldb_plans s)" using assms [OF _ _ ok] by simp
    then have "distinct (map mp_id ?ps)" using ok by (simp add: plans_ok_def del: map_map)
    moreover have "\<forall>p \<in> set ?ps. mp_id p < core_nextId s \<and> 1 \<le> mp_version p
        \<and> (mp_recipeId p, mp_familyId p) \<in> (\<lambda>r. (rcp_id r, rcp_familyId r)) ` set (mldb_recipes s)"
      using ok assms [OF _ _ ok] by (auto simp: plans_ok_def)
    ultimately show ?thesis using True by (simp add: plans_ok_def del: map_map)
  qed
  then show ?thesis using True by (simp add: update_plans_def Let_def) (intro pan_set_plans, simp add: pantry_ok_def)
qed (simp add: update_plans_def Let_def pan.evolution_refl)

lemma updatePlan_evolve: "pantry_evolve s (snd (updatePlan E u i dto ver s))"
proof -
  have written: "pantry_evolve s (snd (update_plans (\<lambda>p. mp_id p = i \<and> mp_familyId p = fam \<and> version_is ver (mp_version p))
      (write_plan (now, dto, at)) s))"
    if "\<not> (case upd_recipeId dto of None \<Rightarrow> False | Some r \<Rightarrow> find_recipe_as False r fam s = None)" for fam now at
  proof (rule update_plans_evolve)
    fix p assume p: "p \<in> set (mldb_plans s)" "mp_id p = i \<and> mp_familyId p = fam \<and> version_is ver (mp_version p)"
      "plans_ok (core_nextId s) (mldb_recipes s) (mldb_plans s)"
    then have old: "1 \<le> mp_version p" "(mp_recipeId p, fam) \<in> (\<lambda>r. (rcp_id r, rcp_familyId r)) ` set (mldb_recipes s)"
      by (auto simp: plans_ok_def)
    have "(case upd_recipeId dto of None \<Rightarrow> mp_recipeId p | Some r \<Rightarrow> r, fam)
        \<in> (\<lambda>r. (rcp_id r, rcp_familyId r)) ` set (mldb_recipes s)"
      using that old(2) find_recipe_asD by (auto split: option.splits)
    with p(2) old(1) show "mp_id (write_plan (now, dto, at) p) = mp_id p \<and> 1 \<le> mp_version (write_plan (now, dto, at) p)
      \<and> (mp_recipeId (write_plan (now, dto, at) p), mp_familyId (write_plan (now, dto, at) p))
          \<in> (\<lambda>r. (rcp_id r, rcp_familyId r)) ` set (mldb_recipes s)"
      by (simp add: write_plan_def)
  qed
  show ?thesis
    unfolding updatePlan_def
    by (intro pan.guard_sum pan.guard_option pan.guard_if, simp only: snd_catch_prisma,
        intro pan.guard_sum pan.and_thenI written)
      (auto simp: pan_noted_plan pan.evolution_refl split: option.split)
qed

lemma deletePlan_evolve: "pantry_evolve s (snd (deletePlan E u i s))"
proof -
  have gone: "pantry_evolve s (s\<lparr>mldb_plans := filter P (mldb_plans s)\<rparr>)" for P
    by (intro pan_set_plans) (auto simp: pantry_ok_def plans_ok_def intro: distinct_map_filter)
  show ?thesis
    unfolding deletePlan_def Let_def delete_many_simps
    by (intro pan.guard_sum) (auto simp: gone pan_noted_plan)
qed

lemma pan_recipe_media:
  assumes "distinct (map recipe_media_key (mldb_recipeMedia s)) \<Longrightarrow> distinct (map recipe_media_key rows)"
  shows "pantry_evolve s (s\<lparr>mldb_recipeMedia := rows\<rparr>)"
  using assms by (intro pan_plans) (auto simp: pantry_ok_def)

lemma attachRecipeMedia_evolve: "pantry_evolve s (snd (attachRecipeMedia E S i u m s))"
  unfolding attachRecipeMedia_def Let_def
  by (intro pan.guards; simp; intro pan_recipe_media; auto simp: attach_recipe_row_def recipe_media_key_def)

lemma detachRecipeMedia_evolve: "pantry_evolve s (snd (detachRecipeMedia i u m s))"
  unfolding detachRecipeMedia_def
  by (intro pan.guards; simp; intro pan_recipe_media distinct_map_filter)

subsection \<open>Shopping for a plan\<close>

lemma find_key_None:
  "find_first (\<lambda>x. si_sourceKey x = Some k) xs = None \<Longrightarrow> k \<notin> set (source_keys xs)"
  by (auto simp: source_keys_set dest: find_NoneD)

lemma upsert_item_lists [simp]: "sdb_lists (snd (upsert_item E u p l g s)) = sdb_lists s"
  by (simp add: upsert_item_def Let_def fresh_def split: option.split)

lemma upsert_item_evolve:
  assumes "l \<in> sl_id ` set (sdb_lists s)"
  shows "pantry_evolve s (snd (upsert_item E u p l g s))"
proof (cases "find_first (\<lambda>x. si_sourceKey x = Some (p, ing_id g)) (sdb_items s)")
  case None
  have "pantry_evolve s (s\<lparr>core_nextId := core_nextId s + 1, sdb_items := sdb_items s
      @ [new_shopping_item E (core_nextId s) l u (ing_name g) (ing_quantity g) (Some (p, ing_id g))]\<rparr>)"
    using assms find_key_None [OF None] by (intro pan_add_item) (simp_all add: new_shopping_item_def item_ok_def)
  then show ?thesis using None by (simp add: upsert_item_def Let_def fresh_def)
next
  case (Some x)
  then show ?thesis using assms
    by (simp add: upsert_item_def Let_def) (intro pan_map_items, auto simp: item_step_def item_ok_def)
qed

lemma upsert_items_evolve:
  "l \<in> sl_id ` set (sdb_lists s) \<Longrightarrow> pantry_evolve s (snd (upsert_items E u p l gs s))"
proof (induction gs arbitrary: s)
  case (Cons g gs)
  have "pantry_evolve (snd (upsert_item E u p l g s)) (snd (upsert_items E u p l gs (snd (upsert_item E u p l g s))))"
    using Cons.prems by (intro Cons.IH) simp
  with upsert_item_evolve [OF Cons.prems] show ?case
    by (simp split: prod.split) (metis pan.evolution_trans snd_conv)
qed (simp add: pan.evolution_refl)

lemma generateShopping_evolve: "pantry_evolve s (snd (generateShopping E u p l s))"
proof -
  have "pantry_evolve s t" if "find_open_list l fam s = Some x" "upsert_items E u q l gs s = (items, t)" for fam x q gs items t
    using upsert_items_evolve [OF find_open_listD [OF that(1)], of E u q gs] that(2) by simp
  then show ?thesis
    unfolding generateShopping_def by (intro pan.guards; simp; intro pan_audit; blast)
qed

text \<open>The items after generating, in one step: those of an ingredient are moved to the list, and an ingredient without
  an item gets a new one.\<close>

definition moved_item :: "env \<Rightarrow> uuid \<Rightarrow> shopping_item \<Rightarrow> shopping_item" where
  "moved_item E l x = x\<lparr>si_listId := l, si_updatedAt := env_now E\<rparr>"

definition plan_keys :: "uuid \<Rightarrow> recipe_ingredient list \<Rightarrow> (uuid \<times> uuid) option set" where
  "plan_keys p gs = (\<lambda>g. Some (p, ing_id g)) ` set gs"

definition without_item :: "uuid \<Rightarrow> recipe_ingredient list \<Rightarrow> shopping_item list \<Rightarrow> recipe_ingredient list" where
  "without_item p gs xs = filter (\<lambda>g. Some (p, ing_id g) \<notin> si_sourceKey ` set xs) gs"

definition ingredient_item :: "env \<Rightarrow> uuid \<Rightarrow> uuid \<Rightarrow> uuid \<Rightarrow> nat \<times> recipe_ingredient \<Rightarrow> shopping_item" where
  "ingredient_item E u p l k = new_shopping_item E (fst k) l u (ing_name (snd k)) (ing_quantity (snd k)) (Some (p, ing_id (snd k)))"

definition with_shopping ::
    "env \<Rightarrow> uuid \<Rightarrow> uuid \<Rightarrow> uuid \<Rightarrow> recipe_ingredient list \<Rightarrow> uuid \<Rightarrow> shopping_item list \<Rightarrow> shopping_item list" where
  "with_shopping E u p l gs n xs = map (\<lambda>x. if si_sourceKey x \<in> plan_keys p gs then moved_item E l x else x) xs
     @ map (ingredient_item E u p l) (enumerate n (without_item p gs xs))"

lemma moved_item_simps [simp]:
  "si_sourceKey (moved_item E l x) = si_sourceKey x" "si_id (moved_item E l x) = si_id x" "si_listId (moved_item E l x) = l"
  "moved_item E l (moved_item E l x) = moved_item E l x"
  by (simp_all add: moved_item_def)

lemma ingredient_item_simps [simp]:
  "si_sourceKey (ingredient_item E u p l k) = Some (p, ing_id (snd k))" "si_listId (ingredient_item E u p l k) = l"
  by (simp_all add: ingredient_item_def new_shopping_item_def)

lemma upsert_item_state:
  "snd (upsert_item E u p l g s) =
    (if Some (p, ing_id g) \<in> si_sourceKey ` set (sdb_items s)
     then s\<lparr>sdb_items := map (\<lambda>x. if si_sourceKey x = Some (p, ing_id g) then moved_item E l x else x) (sdb_items s)\<rparr>
     else s\<lparr>core_nextId := core_nextId s + 1, sdb_items := sdb_items s @ [ingredient_item E u p l (core_nextId s, g)]\<rparr>)"
proof (cases "find_first (\<lambda>x. si_sourceKey x = Some (p, ing_id g)) (sdb_items s)")
  case None
  then have "Some (p, ing_id g) \<notin> si_sourceKey ` set (sdb_items s)" by (auto dest: find_NoneD)
  with None show ?thesis by (simp add: upsert_item_def Let_def fresh_def ingredient_item_def)
next
  case (Some x)
  then have "Some (p, ing_id g) \<in> si_sourceKey ` set (sdb_items s)"
    using find_SomeD [OF Some] by (auto intro: image_eqI [of _ _ x])
  with Some show ?thesis by (simp add: upsert_item_def Let_def moved_item_def)
qed

lemma upsert_items_state:
  "distinct (map ing_id gs) \<Longrightarrow> snd (upsert_items E u p l gs s) =
     s\<lparr>core_nextId := core_nextId s + length (without_item p gs (sdb_items s)),
       sdb_items := with_shopping E u p l gs (core_nextId s) (sdb_items s)\<rparr>"
proof (induction gs arbitrary: s)
  case Nil
  then show ?case by (simp add: with_shopping_def plan_keys_def without_item_def)
next
  case (Cons g gs)
  let ?t = "snd (upsert_item E u p l g s)"
  have IH: "snd (upsert_items E u p l gs ?t) = ?t\<lparr>core_nextId := core_nextId ?t + length (without_item p gs (sdb_items ?t)),
       sdb_items := with_shopping E u p l gs (core_nextId ?t) (sdb_items ?t)\<rparr>"
    using Cons.prems by (intro Cons.IH) simp
  have new: "Some (p, ing_id g) \<notin> plan_keys p gs" using Cons.prems by (auto simp: plan_keys_def)
  have step: "snd (upsert_items E u p l (g # gs) s) = snd (upsert_items E u p l gs ?t)" by (simp split: prod.split)
  show ?case
  proof (cases "Some (p, ing_id g) \<in> si_sourceKey ` set (sdb_items s)")
    case True
    let ?xs = "map (\<lambda>x. if si_sourceKey x = Some (p, ing_id g) then moved_item E l x else x) (sdb_items s)"
    have t: "?t = s\<lparr>sdb_items := ?xs\<rparr>" using True by (simp add: upsert_item_state)
    have "si_sourceKey ` set ?xs = si_sourceKey ` set (sdb_items s)"
      unfolding set_map image_image by (rule image_cong) simp_all
    then have left: "without_item p gs ?xs = without_item p (g # gs) (sdb_items s)" using True by (simp add: without_item_def)
    have "with_shopping E u p l gs (core_nextId s) ?xs = with_shopping E u p l (g # gs) (core_nextId s) (sdb_items s)"
      unfolding with_shopping_def left by (auto simp: plan_keys_def)
    then show ?thesis unfolding step IH unfolding t using left by simp
  next
    case False
    let ?x = "ingredient_item E u p l (core_nextId s, g)"
    have t: "?t = s\<lparr>core_nextId := core_nextId s + 1, sdb_items := sdb_items s @ [?x]\<rparr>" using False by (simp add: upsert_item_state)
    have "Some (p, ing_id h) \<noteq> Some (p, ing_id g)" if "h \<in> set gs" for h
      using new imageI [OF that, of "\<lambda>g. Some (p, ing_id g)"] unfolding plan_keys_def by metis
    then have left: "without_item p gs (sdb_items s @ [?x]) = without_item p gs (sdb_items s)"
      unfolding without_item_def by (intro filter_cong) auto
    have all: "without_item p (g # gs) (sdb_items s) = g # without_item p gs (sdb_items s)"
      using False by (simp add: without_item_def)
    have "si_sourceKey x \<noteq> Some (p, ing_id g)" if "x \<in> set (sdb_items s)" for x
      using False that by (metis image_eqI)
    then have "with_shopping E u p l gs (core_nextId s + 1) (sdb_items s @ [?x]) = with_shopping E u p l (g # gs) (core_nextId s) (sdb_items s)"
      unfolding with_shopping_def left all using new by (auto simp: plan_keys_def enumerate_simps)
    then show ?thesis unfolding step IH unfolding t using left all by simp
  qed
qed

lemma single_item:
  assumes "distinct (source_keys xs)" "x \<in> set xs" "si_sourceKey x = Some k"
  shows "filter (\<lambda>y. si_sourceKey y = Some k) xs = [x]"
  using assms
proof (induction xs)
  case (Cons y ys)
  show ?case
  proof (cases "si_sourceKey y = Some k")
    case True
    then have "k \<notin> set (source_keys ys)" "distinct (source_keys ys)"
      using Cons.prems(1) by (simp_all add: source_keys_def map_filter_simps)
    then have "filter (\<lambda>z. si_sourceKey z = Some k) ys = []" by (auto simp: filter_empty_conv source_keys_set)
    moreover have "x = y" using Cons.prems(2,3) \<open>k \<notin> set (source_keys ys)\<close> by (auto simp: source_keys_set)
    ultimately show ?thesis using True by simp
  next
    case False
    then have "distinct (source_keys ys)" "x \<in> set ys"
      using Cons.prems by (auto simp: source_keys_def map_filter_simps split: option.splits)
    with False Cons show ?thesis by simp
  qed
qed simp

lemma generateShopping_Inr:
  assumes "generateShopping E u p l s = (Inr xs, t)" "pantry_ok s"
  shows "\<exists>plan \<in> set (mldb_plans s). mp_id plan = p
    \<and> sdb_items t = with_shopping E u p l (ingredients_of s (mp_recipeId plan)) (core_nextId s) (sdb_items s)"
proof -
  from assms(1) have "\<exists>plan v. plan \<in> set (mldb_plans s) \<and> mp_id plan = p
      \<and> upsert_items E u p l (ingredients_of s (mp_recipeId plan)) s = (xs, v) \<and> sdb_items t = sdb_items v"
    by (auto simp: generateShopping_def audit_record_def split: sum.splits option.splits prod.splits dest!: find_SomeD)
  then obtain plan v where plan: "plan \<in> set (mldb_plans s)" "mp_id plan = p"
    and v: "upsert_items E u p l (ingredients_of s (mp_recipeId plan)) s = (xs, v)" "sdb_items t = sdb_items v" by blast
  have "distinct (map ing_id (ingredients_of s (mp_recipeId plan)))"
    using assms(2) by (simp add: ingredients_of_def pantry_ok_def recipes_ok_def distinct_map_filter)
  from upsert_items_state [OF this, of E u p l s] v
  have "sdb_items t = with_shopping E u p l (ingredients_of s (mp_recipeId plan)) (core_nextId s) (sdb_items s)" by simp
  with plan show ?thesis by blast
qed

lemma with_shopping_key:
  assumes "g \<in> set gs"
  shows "\<exists>x \<in> set (with_shopping E u p l gs n xs). si_sourceKey x = Some (p, ing_id g) \<and> si_listId x = l"
proof (cases "Some (p, ing_id g) \<in> si_sourceKey ` set xs")
  case True
  then obtain x where "x \<in> set xs" "si_sourceKey x = Some (p, ing_id g)" by (auto simp: image_iff)
  then show ?thesis using assms
    by (intro bexI [of _ "moved_item E l x"]) (auto simp: with_shopping_def plan_keys_def image_iff intro!: bexI [of _ x])
next
  case False
  with assms have "g \<in> set (map snd (enumerate n (without_item p gs xs)))" by (simp add: without_item_def)
  then obtain k where "k \<in> set (enumerate n (without_item p gs xs))" "snd k = g" unfolding set_map by blast
  then show ?thesis by (intro bexI [of _ "ingredient_item E u p l k"]) (auto simp: with_shopping_def)
qed

text \<open>When every ingredient has an item, none is added.\<close>

lemma with_shopping_again:
  assumes "\<And>g. g \<in> set gs \<Longrightarrow> \<exists>x \<in> set xs. si_sourceKey x = Some (p, ing_id g)"
  shows "map si_id (with_shopping E u p l gs n xs) = map si_id xs"
proof -
  have "without_item p gs xs = []"
    using assms by (auto simp: without_item_def filter_empty_conv) (metis image_eqI)
  then show ?thesis by (simp add: with_shopping_def)
qed

subsection \<open>Every sequence of calls\<close>

inductive pantry_call :: "meals_db \<Rightarrow> meals_db \<Rightarrow> bool" where
  create_list: "pantry_call s (snd (createList E u nm s))"
| add_item: "pantry_call s (snd (addItem E u i item s))"
| check_item: "pantry_call s (snd (checkItem E u i j b ver s))"
| archive_list: "pantry_call s (snd (archiveList E u i ver s))"
| restore_list: "pantry_call s (snd (restoreList E u i ver s))"
| create_recipe: "pantry_call s (snd (recipes_create E u cr s))"
| update_recipe: "pantry_call s (snd (recipes_update E u i ur ver s))"
| archive_recipe: "pantry_call s (snd (recipes_archive E u i ver s))"
| restore_recipe: "pantry_call s (snd (recipes_restore E u i ver s))"
| attach: "pantry_call s (snd (attachRecipeMedia E S i u m s))"
| detach: "pantry_call s (snd (detachRecipeMedia i u m s))"
| create_plan: "pantry_call s (snd (createPlan E u cp s))"
| update_plan: "pantry_call s (snd (updatePlan E u i up ver s))"
| delete_plan: "pantry_call s (snd (deletePlan E u i s))"
| shop: "pantry_call s (snd (generateShopping E u i j s))"

lemmas pantry_operations =
  createList_evolve addItem_evolve checkItem_evolve archiveList_evolve restoreList_evolve recipes_create_evolve
  recipes_update_evolve recipes_archive_evolve recipes_restore_evolve attachRecipeMedia_evolve detachRecipeMedia_evolve
  createPlan_evolve updatePlan_evolve deletePlan_evolve generateShopping_evolve

lemma pantry_call_evolve: "pantry_call s t \<Longrightarrow> pantry_evolve s t"
  by (induction rule: pantry_call.induct) (rule pantry_operations)+

lemma pantry_calls_evolve: "pantry_call\<^sup>*\<^sup>* s t \<Longrightarrow> pantry_evolve s t"
  by (induction rule: rtranclp_induct) (auto intro: pan.evolution_refl pan.evolution_trans pantry_call_evolve)

text \<open>A family with a soup planned and an open list, for the witnesses.\<close>

definition kitchen_clock :: env where
  "kitchen_clock = \<lparr>env_now = 50, env_localParts = (\<lambda>x z. Some (parts_at x))\<rparr>"

definition kitchen :: meals_db where
  "kitchen = \<lparr>core_users = [], core_families = [\<lparr>family_id = 7, family_status = FamilyActive, family_timeZone = ''UTC'',
       family_locale = ''en'', family_defaultCurrency = ''EUR'', family_archivedAt = None, family_dissolvedAt = None,
       family_createdAt = 0\<rparr>],
     core_members = [\<lparr>member_id = 11, member_familyId = 7, member_userId = 31, member_role = PARTNER, member_joinedAt = 0\<rparr>],
     core_preferences = [], core_connections = [], core_devices = [], core_feed = empty_feed, core_nextId = 20,
     mdb_media = [], mdb_sessions = [], mdb_tasks = [], mdb_messageMedia = [], mdb_bucket = [],
     sdb_lists = [\<lparr>sl_id = 12, sl_familyId = 7, sl_createdById = 31, sl_name = ''market'', sl_archived = False, sl_version = 1,
       sl_createdAt = 0, sl_updatedAt = 0\<rparr>],
     sdb_items = [],
     mldb_recipes = [\<lparr>rcp_id = 13, rcp_familyId = 7, rcp_createdById = 31, rcp_name = ''soup'', rcp_instructions = None,
       rcp_archived = False, rcp_version = 1, rcp_createdAt = 0, rcp_updatedAt = 0\<rparr>],
     mldb_ingredients = [\<lparr>ing_id = 14, ing_recipeId = 13, ing_name = ''leek'', ing_quantity = None\<rparr>,
       \<lparr>ing_id = 15, ing_recipeId = 13, ing_name = ''salt'', ing_quantity = None\<rparr>],
     mldb_labels = [], mldb_recipeMedia = [],
     mldb_plans = [\<lparr>mp_id = 16, mp_familyId = 7, mp_createdById = 31, mp_recipeId = 13, mp_plannedFor = 0, mp_mealSlot = ''dinner'',
       mp_servings = 2, mp_version = 1, mp_createdAt = 0, mp_updatedAt = 0\<rparr>]\<rparr>"

lemma kitchen_ok: "pantry_ok kitchen"
  by (simp add: kitchen_def pantry_ok_def shopping_ok_def recipes_ok_def plans_ok_def source_keys_def map_filter_simps
    plan_slot_def label_key_def)

lemma kitchen_shops: "\<exists>xs. fst (generateShopping kitchen_clock 31 16 12 kitchen) = Inr xs
    \<and> map si_name (sdb_items (snd (generateShopping kitchen_clock 31 16 12 kitchen))) = [''leek'', ''salt'']"
  by (simp add: generateShopping_def kitchen_def kitchen_clock_def requireMembership_def find_member_def find_family_def
    find_open_list_def ingredients_of_def upsert_item_def fresh_def audit_record_def new_shopping_item_def Let_def)



text \<open>C18. Generating the shopping of a plan is, in one step: the items of the plan's ingredients are moved to the chosen list
  with their check marks, the ingredients without an item get one, and every other item stays as it is.  After it, each
  ingredient has exactly one item, on the chosen list.  Whatever is called afterwards, generating again, by any member
  and for any list, adds no item as long as the ingredients of the plan's recipe are the same.\<close>

theorem shopping_generated:
  assumes "pantry_ok s" "generateShopping E u p l s = (Inr xs, t)"
  shows "\<exists>plan \<in> set (mldb_plans s). mp_id plan = p \<and> (let gs = ingredients_of s (mp_recipeId plan) in
    sdb_items t = with_shopping E u p l gs (core_nextId s) (sdb_items s)
    \<and> (\<forall>g \<in> set gs. \<exists>x. filter (\<lambda>y. si_sourceKey y = Some (p, ing_id g)) (sdb_items t) = [x] \<and> si_listId x = l)
    \<and> (\<forall>v F u' l' ys w. pantry_call\<^sup>*\<^sup>* t v \<longrightarrow> generateShopping F u' p l' v = (Inr ys, w)
         \<longrightarrow> (\<forall>q \<in> set (mldb_plans v). mp_id q = p \<longrightarrow> set (ingredients_of v (mp_recipeId q)) \<subseteq> set gs)
         \<longrightarrow> map si_id (sdb_items w) = map si_id (sdb_items v)))"
proof -
  obtain plan where plan: "plan \<in> set (mldb_plans s)" "mp_id plan = p"
    and items: "sdb_items t = with_shopping E u p l (ingredients_of s (mp_recipeId plan)) (core_nextId s) (sdb_items s)"
    using generateShopping_Inr [OF assms(2,1)] by blast
  let ?gs = "ingredients_of s (mp_recipeId plan)"
  have ok: "pantry_ok t" using generateShopping_evolve [of s E u p l] assms by (simp add: pantry_evolve_def)
  then have keys: "distinct (source_keys (sdb_items t))" by (simp add: pantry_ok_def shopping_ok_def)
  have found: "\<exists>x \<in> set (sdb_items t). si_sourceKey x = Some (p, ing_id g) \<and> si_listId x = l" if "g \<in> set ?gs" for g
    using with_shopping_key [OF that] items by simp
  have "\<exists>x. filter (\<lambda>y. si_sourceKey y = Some (p, ing_id g)) (sdb_items t) = [x] \<and> si_listId x = l" if "g \<in> set ?gs" for g
    using found [OF that] single_item [OF keys] by blast
  moreover have "map si_id (sdb_items w) = map si_id (sdb_items v)"
    if v: "pantry_call\<^sup>*\<^sup>* t v" and w: "generateShopping F u' p l' v = (Inr ys, w)"
      and same: "\<forall>q \<in> set (mldb_plans v). mp_id q = p \<longrightarrow> set (ingredients_of v (mp_recipeId q)) \<subseteq> set ?gs" for v F u' l' ys w
  proof -
    have vok: "pantry_ok v" and kept: "rows_kept item_step (sdb_items t) (sdb_items v)"
      using pantry_calls_evolve [OF v] ok by (simp_all add: pantry_evolve_def pantry_follow_def)
    obtain q where q: "q \<in> set (mldb_plans v)" "mp_id q = p"
      "sdb_items w = with_shopping F u' p l' (ingredients_of v (mp_recipeId q)) (core_nextId v) (sdb_items v)"
      using generateShopping_Inr [OF w vok] by blast
    have "\<exists>x \<in> set (sdb_items v). si_sourceKey x = Some (p, ing_id g)" if "g \<in> set (ingredients_of v (mp_recipeId q))" for g
    proof -
      have "g \<in> set ?gs" using same q(1,2) that by blast
      then obtain x where "x \<in> set (sdb_items t)" "si_sourceKey x = Some (p, ing_id g)" using found by blast
      then show ?thesis using rows_kept_rowD [OF kept] by (metis item_step_def)
    qed
    then show ?thesis unfolding q(3) by (rule with_shopping_again)
  qed
  ultimately show ?thesis using plan items unfolding Let_def by blast
qed

lemma shopping_generated_witness:
  "\<exists>plan \<in> set (mldb_plans kitchen). mp_id plan = 16 \<and> sdb_items (snd (generateShopping kitchen_clock 31 16 12 kitchen))
     = with_shopping kitchen_clock 31 16 12 (ingredients_of kitchen (mp_recipeId plan)) 20 []"
proof -
  obtain xs where "fst (generateShopping kitchen_clock 31 16 12 kitchen) = Inr xs" using kitchen_shops by blast
  then have g: "generateShopping kitchen_clock 31 16 12 kitchen = (Inr xs, snd (generateShopping kitchen_clock 31 16 12 kitchen))"
    by (metis prod.collapse)
  have "core_nextId kitchen = 20" "sdb_items kitchen = []" by (simp_all add: kitchen_def)
  then show ?thesis using shopping_generated [OF kitchen_ok g] unfolding Let_def by metis
qed

end
