(* ===== verification/Reports.thy ===== *)
theory Reports
  imports Recurring "HOL-Library.AList"
begin

text \<open>
  The read models over the ledger: \<open>modules/finance/expense-statistics.service.ts\<close> (who spent what on which
  category), \<open>financial-summary.service.ts\<close> (categories and budgets of a month) and
  \<open>financial-analytics.service.ts\<close> (cash flow by month, mandatory payments and a forecast of balances).

  A JavaScript \<open>Map\<close> is an association list in the order of first insertion, with \<open>AList.update\<close> for \<open>set\<close>.
  The argument \<open>collate\<close> gives the sort key of a text under \<open>localeCompare\<close>.  The loops over due dates may not
  end for an arbitrary interval, so they, and the analytics, are optional values.  Amounts are shown as decimal
  texts in the code and are integers here.
\<close>

subsection \<open>Amounts by currency\<close>

text \<open>\<open>amounts.set(currency, (amounts.get(currency) ?? 0n) + amount)\<close>.\<close>

definition amount_in :: "('k \<times> int) list \<Rightarrow> 'k \<Rightarrow> int" where
  "amount_in m k = (case map_of m k of None \<Rightarrow> 0 | Some n \<Rightarrow> n)"

definition add_amount :: "'k \<Rightarrow> int \<Rightarrow> ('k \<times> int) list \<Rightarrow> ('k \<times> int) list" where
  "add_amount k n m = AList.update k (amount_in m k + n) m"

definition serialize_amounts :: "(string \<Rightarrow> 'c::linorder) \<Rightarrow> (string \<times> int) list \<Rightarrow> (string \<times> int) list" where
  "serialize_amounts collate m = sort_key (collate \<circ> fst) (filter (\<lambda>p. snd p \<noteq> 0) m)"

text \<open>The sum of the entries in wallets; the counter entry of an income or an expense has no wallet.\<close>

definition in_wallets :: "ledger_transaction \<Rightarrow> int" where
  "in_wallets t = (\<Sum>e\<leftarrow>ltx_entries t. if entry_walletId e = None then 0 else entry_amountMinor e)"

definition month_key :: "timestamp \<Rightarrow> ymd" where
  "month_key t = (iso_date t)\<lparr>ymd_day := 1\<rparr>"

text \<open>\<open>periodStart\<close> of the summary and of the analytics; without a value the current month.\<close>

definition report_start :: "env \<Rightarrow> ymd option \<Rightarrow> api_error + timestamp" where
  "report_start E v = periodStart (case v of None \<Rightarrow> month_key (env_now E) | Some d \<Rightarrow> d)"

definition addMonths :: "timestamp \<Rightarrow> int \<Rightarrow> timestamp" where
  "addMonths t months = setUTCMonth t (getUTCMonth t + months)"

subsection \<open>ExpenseStatisticsService\<close>

record statistics_query =
  sq_dateFrom :: "ymd option"
  sq_dateTo :: "ymd option"

definition statistics_date :: "string \<Rightarrow> ymd \<Rightarrow> api_error + timestamp" where
  "statistics_date field v = (case parse_date v of
     None \<Rightarrow> Inl (BadRequest (field @ '' must be a valid calendar date''))
   | Some t \<Rightarrow> if iso_date t \<noteq> v then Inl (BadRequest (field @ '' must be a valid calendar date'')) else Inr t)"

definition optional_statistics_date :: "string \<Rightarrow> ymd option \<Rightarrow> api_error + timestamp option" where
  "optional_statistics_date field v = (case v of None \<Rightarrow> Inr None
   | Some d \<Rightarrow> (case statistics_date field d of Inl e \<Rightarrow> Inl e | Inr t \<Rightarrow> Inr (Some t)))"

text \<open>The filter on \<open>occurredAt\<close>: from the first day to the end of the last.\<close>

definition statistics_range :: "statistics_query \<Rightarrow> api_error + (timestamp \<Rightarrow> bool)" where
  "statistics_range q = (case optional_statistics_date ''dateFrom'' (sq_dateFrom q) of Inl e \<Rightarrow> Inl e
   | Inr a \<Rightarrow> (case optional_statistics_date ''dateTo'' (sq_dateTo q) of Inl e \<Rightarrow> Inl e
     | Inr b \<Rightarrow>
       if (case a of None \<Rightarrow> False | Some x \<Rightarrow> (case b of None \<Rightarrow> False | Some y \<Rightarrow> x > y)) then
         Inl (BadRequest ''dateFrom must not be after dateTo'')
       else Inr (\<lambda>t. (case a of None \<Rightarrow> True | Some x \<Rightarrow> x \<le> t)
         \<and> (case b of None \<Rightarrow> True | Some y \<Rightarrow> t < setUTCDate y (getUTCDate y + 1)))))"

record category_totals =
  ct_id :: "uuid option"
  ct_name :: string
  ct_totals :: "(string \<times> int) list"

record member_totals =
  mt_firstName :: string
  mt_lastName :: string
  mt_totals :: "(string \<times> int) list"
  mt_categories :: "(uuid option \<times> category_totals) list"

text \<open>What the code reads of a transaction: the reversed one, the owner, the category and its name.\<close>

definition reversed_by :: "'a finance_db_scheme \<Rightarrow> ledger_transaction \<Rightarrow> ledger_transaction option" where
  "reversed_by s t = (case ltx_reversesId t of None \<Rightarrow> None | Some i \<Rightarrow> find_transaction i s)"

definition counts_as_expense :: "'a finance_db_scheme \<Rightarrow> ledger_transaction \<Rightarrow> bool" where
  "counts_as_expense s t \<longleftrightarrow> \<not> (ltx_type t = REVERSAL
     \<and> (case reversed_by s t of None \<Rightarrow> True | Some u \<Rightarrow> ltx_type u \<noteq> EXPENSE))"

definition spending_owner :: "'a finance_db_scheme \<Rightarrow> ledger_transaction \<Rightarrow> uuid" where
  "spending_owner s t = (case reversed_by s t of None \<Rightarrow> ltx_createdById t | Some u \<Rightarrow> ltx_createdById u)"

definition spending_category :: "'a finance_db_scheme \<Rightarrow> ledger_transaction \<Rightarrow> uuid option" where
  "spending_category s t = (case reversed_by s t of None \<Rightarrow> ltx_categoryId t
     | Some u \<Rightarrow> (case ltx_categoryId u of None \<Rightarrow> ltx_categoryId t | Some c \<Rightarrow> Some c))"

definition category_name_of :: "'a finance_db_scheme \<Rightarrow> uuid option \<Rightarrow> string option" where
  "category_name_of s c = (case c of None \<Rightarrow> None
     | Some i \<Rightarrow> map_option cat_name (find_first (\<lambda>x. cat_id x = i) (fin_categories s)))"

definition spending_category_name :: "'a finance_db_scheme \<Rightarrow> ledger_transaction \<Rightarrow> string" where
  "spending_category_name s t =
     (case (case reversed_by s t of None \<Rightarrow> None | Some u \<Rightarrow> category_name_of s (ltx_categoryId u)) of
        Some n \<Rightarrow> n
      | None \<Rightarrow> (case category_name_of s (ltx_categoryId t) of Some n \<Rightarrow> n | None \<Rightarrow> ''No category''))"

definition author_names :: "'a core_scheme \<Rightarrow> ledger_transaction \<Rightarrow> string \<times> string" where
  "author_names s t = (case find_user (ltx_createdById t) s of None \<Rightarrow> ([], [])
     | Some u \<Rightarrow> (user_firstName u, user_lastName u))"

definition add_category ::
    "uuid option \<Rightarrow> string \<Rightarrow> string \<Rightarrow> int \<Rightarrow> (uuid option \<times> category_totals) list \<Rightarrow> (uuid option \<times> category_totals) list" where
  "add_category c nm currency n m = (let old = (case map_of m c of
       None \<Rightarrow> \<lparr>ct_id = c, ct_name = nm, ct_totals = []\<rparr> | Some x \<Rightarrow> x)
     in AList.update c (old\<lparr>ct_totals := add_amount currency n (ct_totals old)\<rparr>) m)"

text \<open>The body of the loop over the transactions.\<close>

definition statistics_step ::
    "'a finance_db_scheme \<Rightarrow> ledger_transaction \<Rightarrow> (string \<times> int) list \<times> (uuid \<times> member_totals) list
       \<Rightarrow> (string \<times> int) list \<times> (uuid \<times> member_totals) list" where
  "statistics_step s t acc = (case acc of (overall, members) \<Rightarrow>
     if \<not> counts_as_expense s t then acc else
     let amt = - in_wallets t in
     if amt = 0 then acc else
     let owner = spending_owner s t;
         m = (case map_of members owner of
            None \<Rightarrow> \<lparr>mt_firstName = fst (author_names s t), mt_lastName = snd (author_names s t), mt_totals = [], mt_categories = []\<rparr>
          | Some x \<Rightarrow> x)
     in (add_amount (ltx_currency t) amt overall,
         AList.update owner (m\<lparr>mt_totals := add_amount (ltx_currency t) amt (mt_totals m),
           mt_categories := add_category (spending_category s t) (spending_category_name s t) (ltx_currency t) amt
             (mt_categories m)\<rparr>) members))"

record member_report =
  mr_userId :: uuid
  mr_firstName :: string
  mr_lastName :: string
  mr_totals :: "(string \<times> int) list"
  mr_categories :: "(uuid option \<times> string \<times> (string \<times> int) list) list"

definition member_report_of :: "(string \<Rightarrow> 'c::linorder) \<Rightarrow> uuid \<times> member_totals \<Rightarrow> member_report" where
  "member_report_of collate p = (case p of (u, m) \<Rightarrow> \<lparr>mr_userId = u, mr_firstName = mt_firstName m, mr_lastName = mt_lastName m,
     mr_totals = serialize_amounts collate (mt_totals m),
     mr_categories = map (\<lambda>c. (ct_id c, ct_name c, serialize_amounts collate (ct_totals c)))
       (sort_key (\<lambda>c. collate (ct_name c)) (map snd (mt_categories m)))\<rparr>)"

record statistics_report =
  sr_dateFrom :: "ymd option"
  sr_dateTo :: "ymd option"
  sr_totals :: "(string \<times> int) list"
  sr_members :: "member_report list"

definition statistics_transactions ::
    "uuid \<Rightarrow> (timestamp \<Rightarrow> bool) \<Rightarrow> 'a finance_db_scheme \<Rightarrow> ledger_transaction list" where
  "statistics_transactions familyId within s =
     filter (\<lambda>t. ltx_familyId t = familyId \<and> ltx_type t \<in> {EXPENSE, REVERSAL} \<and> within (ltx_occurredAt t)) (fin_transactions s)"

definition statistics_get ::
    "(string \<Rightarrow> 'c::linorder) \<Rightarrow> uuid \<Rightarrow> statistics_query \<Rightarrow> 'a finance_db_scheme \<Rightarrow> api_error + statistics_report" where
  "statistics_get collate userId q s = (case requirePartner userId s of Inl e \<Rightarrow> Inl e
   | Inr ctx \<Rightarrow> (case statistics_range q of Inl e \<Rightarrow> Inl e
     | Inr within \<Rightarrow> (case fold (statistics_step s) (statistics_transactions (ctx_familyId ctx) within s) ([], []) of
         (overall, members) \<Rightarrow> Inr \<lparr>sr_dateFrom = sq_dateFrom q, sr_dateTo = sq_dateTo q,
           sr_totals = serialize_amounts collate overall,
           sr_members = map (member_report_of collate)
             (sort_key (\<lambda>p. collate (mt_firstName (snd p) @ '' '' @ mt_lastName (snd p))) members)\<rparr>)))"

subsection \<open>FinancialSummaryService\<close>

definition summary_transactions ::
    "(ledger_transaction \<Rightarrow> bool) \<Rightarrow> timestamp \<Rightarrow> timestamp \<Rightarrow> 'a finance_db_scheme \<Rightarrow> ledger_transaction list" where
  "summary_transactions visible a b s = filter (\<lambda>t. visible t \<and> ltx_categoryId t \<noteq> None
     \<and> ltx_type t \<in> {INCOME, EXPENSE, REVERSAL} \<and> a \<le> ltx_occurredAt t \<and> ltx_occurredAt t < b) (fin_transactions s)"

definition amounts_of :: "('k \<times> (string \<times> int) list) list \<Rightarrow> 'k \<Rightarrow> (string \<times> int) list" where
  "amounts_of m k = (case map_of m k of None \<Rightarrow> [] | Some x \<Rightarrow> x)"

definition summary_step ::
    "category list \<Rightarrow> ledger_transaction \<Rightarrow> (uuid \<times> (string \<times> int) list) list \<Rightarrow> (uuid \<times> (string \<times> int) list) list" where
  "summary_step cats t acc = (case ltx_categoryId t of None \<Rightarrow> acc
   | Some i \<Rightarrow> (case find_first (\<lambda>c. cat_id c = i) cats of None \<Rightarrow> acc
     | Some c \<Rightarrow> let amt = (if cat_kind c = KExpense then - in_wallets t else in_wallets t) in
         AList.update (cat_id c) (add_amount (ltx_currency t) amt (amounts_of acc (cat_id c))) acc))"

record summary_budget =
  sb_id :: uuid
  sb_limitMinor :: int
  sb_actualMinor :: int
  sb_remainingMinor :: int
  sb_version :: int

record summary_category =
  sc_id :: uuid
  sc_name :: string
  sc_kind :: category_kind
  sc_archived :: bool
  sc_actual :: "(string \<times> int) list"
  sc_budget :: "summary_budget option"

definition summary_category_of ::
    "(string \<Rightarrow> 'c::linorder) \<Rightarrow> string \<Rightarrow> (uuid \<times> (string \<times> int) list) list \<Rightarrow> (uuid \<times> budget) list \<Rightarrow> category
       \<Rightarrow> summary_category" where
  "summary_category_of collate defaultCurrency amounts budgets c = (
     let actual = amount_in (amounts_of amounts (cat_id c)) defaultCurrency in
     \<lparr>sc_id = cat_id c, sc_name = cat_name c, sc_kind = cat_kind c, sc_archived = (cat_archivedAt c \<noteq> None),
      sc_actual = serialize_amounts collate (amounts_of amounts (cat_id c)),
      sc_budget = map_option (\<lambda>b. \<lparr>sb_id = budget_id b, sb_limitMinor = budget_limitMinor b, sb_actualMinor = actual,
        sb_remainingMinor = budget_limitMinor b - actual, sb_version = budget_version b\<rparr>) (map_of budgets (cat_id c))\<rparr>)"

record summary_report =
  su_periodStart :: ymd
  su_defaultCurrency :: string
  su_categories :: "summary_category list"

text \<open>\<open>new Map(budgets.map(...))\<close>: a later budget of a category would replace an earlier one.\<close>

definition budgets_by_category :: "budget list \<Rightarrow> (uuid \<times> budget) list" where
  "budgets_by_category bs = fold (\<lambda>b. AList.update (budget_categoryId b) b) bs []"

definition summary_get ::
    "env \<Rightarrow> (string \<Rightarrow> 'c::linorder) \<Rightarrow> uuid \<Rightarrow> ymd option \<Rightarrow> 'a finance_db_scheme \<Rightarrow> api_error + summary_report" where
  "summary_get E collate userId q s = (case requireMembership userId s of Inl e \<Rightarrow> Inl e
   | Inr ctx \<Rightarrow> (case report_start E q of Inl e \<Rightarrow> Inl e
     | Inr period \<Rightarrow>
       let periodEnd = addMonths period 1;
           cats = sort_key (\<lambda>c. (kind_rank (cat_kind c), cat_name c))
             (filter (\<lambda>c. cat_familyId c = ctx_familyId ctx) (fin_categories s));
           budgets = filter (\<lambda>b. budget_familyId b = ctx_familyId ctx \<and> budget_periodStart b = period) (fin_budgets s);
           amounts = fold (summary_step cats) (summary_transactions
             (visibleWhere userId (ctx_familyId ctx) (ctx_role ctx) None s) period periodEnd s) []
       in Inr \<lparr>su_periodStart = iso_date period, su_defaultCurrency = ctx_defaultCurrency ctx,
            su_categories = map (summary_category_of collate (ctx_defaultCurrency ctx) amounts (budgets_by_category budgets)) cats\<rparr>))"

subsection \<open>FinancialAnalyticsService\<close>

record flow =
  flow_income :: int
  flow_expense :: int

definition no_flow :: flow where
  "no_flow = \<lparr>flow_income = 0, flow_expense = 0\<rparr>"

definition flow_of :: "('k \<times> flow) list \<Rightarrow> 'k \<Rightarrow> flow" where
  "flow_of m k = (case map_of m k of None \<Rightarrow> no_flow | Some f \<Rightarrow> f)"

definition addAmount :: "string \<Rightarrow> int \<Rightarrow> (string \<times> flow) list \<Rightarrow> (string \<times> flow) list" where
  "addAmount currency n m = (let f = flow_of m currency in
     AList.update currency (if n \<ge> 0 then f\<lparr>flow_income := flow_income f + n\<rparr>
       else f\<lparr>flow_expense := flow_expense f - n\<rparr>) m)"

definition flows_in :: "(ymd \<times> (string \<times> flow) list) list \<Rightarrow> ymd \<Rightarrow> (string \<times> flow) list" where
  "flows_in m month = (case map_of m month of None \<Rightarrow> [] | Some v \<Rightarrow> v)"

definition add_to_month ::
    "ymd \<Rightarrow> string \<Rightarrow> int \<Rightarrow> (ymd \<times> (string \<times> flow) list) list \<Rightarrow> (ymd \<times> (string \<times> flow) list) list" where
  "add_to_month month currency n m = AList.update month (addAmount currency n (flows_in m month)) m"

record currency_flow =
  cf_currency :: string
  cf_incomeMinor :: int
  cf_expenseMinor :: int
  cf_netMinor :: int

definition serialize_flows :: "(string \<Rightarrow> 'c::linorder) \<Rightarrow> (string \<times> flow) list \<Rightarrow> currency_flow list" where
  "serialize_flows collate m = map (\<lambda>(c, f). \<lparr>cf_currency = c, cf_incomeMinor = flow_income f,
       cf_expenseMinor = flow_expense f, cf_netMinor = flow_income f - flow_expense f\<rparr>)
     (sort_key (collate \<circ> fst) (filter (\<lambda>(c, f). flow_income f \<noteq> 0 \<or> flow_expense f \<noteq> 0) m))"

text \<open>The second loop of \<open>occurrences\<close>.  The condition \<open>dueAt < start\<close> of the first one is \<open>dueAt \<le> start - 1\<close> on time
  values.\<close>

partial_function (option) dates_until :: "(int \<Rightarrow> int) \<Rightarrow> int \<Rightarrow> int \<Rightarrow> int list option" where
  "dates_until f end_at t = (if t < end_at
     then Option.bind (dates_until f end_at (f t)) (\<lambda>ds. Some (t # ds)) else Some [])"

definition occurrences :: "payment \<Rightarrow> timestamp \<Rightarrow> timestamp \<Rightarrow> timestamp list option" where
  "occurrences p start end_at = (let step = due_step (pay_frequency p) (pay_interval p) in
     case step_past step (start - 1) (pay_nextDueAt p) of None \<Rightarrow> None | Some t \<Rightarrow> dates_until step end_at t)"

definition signed_amount :: "payment \<Rightarrow> int" where
  "signed_amount p = (if pay_type p = KIncome then pay_amountMinor p else - pay_amountMinor p)"

definition payment_currency :: "'a finance_db_scheme \<Rightarrow> payment \<Rightarrow> string" where
  "payment_currency s p = (case payment_wallet p s of None \<Rightarrow> [] | Some w \<Rightarrow> wallet_currency w)"

text \<open>The loop over the payments, which fills the mandatory months and the forecast.\<close>

fun plan_payments ::
    "'a finance_db_scheme \<Rightarrow> timestamp \<Rightarrow> timestamp \<Rightarrow> timestamp \<Rightarrow> timestamp \<Rightarrow> payment list
       \<Rightarrow> (ymd \<times> (string \<times> flow) list) list \<times> (string \<times> flow) list
       \<Rightarrow> ((ymd \<times> (string \<times> flow) list) list \<times> (string \<times> flow) list) option" where
  "plan_payments s a b now through [] acc = Some acc"
| "plan_payments s a b now through (p # ps) acc =
     (case occurrences p a b of None \<Rightarrow> None
      | Some ds \<Rightarrow> (case occurrences p now through of None \<Rightarrow> None
        | Some fs \<Rightarrow> plan_payments s a b now through ps
            (fold (\<lambda>d. add_to_month (month_key d) (payment_currency s p) (signed_amount p)) ds (fst acc),
             fold (\<lambda>_. addAmount (payment_currency s p) (signed_amount p)) fs (snd acc))))"

record analytics_query =
  aq_periodStart :: "ymd option"
  aq_months :: "int option"
  aq_forecastDays :: "int option"

record month_flow =
  mf_periodStart :: ymd
  mf_actual :: "currency_flow list"
  mf_mandatory :: "currency_flow list"

record balance_forecast =
  bf_currency :: string
  bf_currentBalanceMinor :: int
  bf_plannedIncomeMinor :: int
  bf_plannedExpenseMinor :: int
  bf_projectedBalanceMinor :: int

record analytics_report =
  ar_periodStart :: ymd
  ar_months :: int
  ar_cashFlow :: "month_flow list"
  ar_forecastAsOf :: timestamp
  ar_forecastThrough :: timestamp
  ar_balanceForecast :: "balance_forecast list"

definition cash_transactions ::
    "(ledger_transaction \<Rightarrow> bool) \<Rightarrow> timestamp \<Rightarrow> timestamp \<Rightarrow> 'a finance_db_scheme \<Rightarrow> ledger_transaction list" where
  "cash_transactions visible a b s = filter (\<lambda>t. visible t \<and> ltx_type t \<in> {INCOME, EXPENSE, REVERSAL}
     \<and> a \<le> ltx_occurredAt t \<and> ltx_occurredAt t < b) (fin_transactions s)"

definition active_payments :: "uuid \<Rightarrow> family_context \<Rightarrow> recurring_db \<Rightarrow> payment list" where
  "active_payments userId ctx s = filter (\<lambda>p. pay_familyId p = ctx_familyId ctx \<and> pay_active p \<and> pay_archivedAt p = None
     \<and> wallet_is (\<lambda>w. wallet_archivedAt w = None \<and> visibleTo userId (ctx_role ctx) w) s p) (rec_payments s)"

text \<open>The entries in visible wallets of visible transactions, each with the currency of its wallet.\<close>

definition visible_entries ::
    "uuid \<Rightarrow> family_context \<Rightarrow> (ledger_transaction \<Rightarrow> bool) \<Rightarrow> 'a finance_db_scheme \<Rightarrow> (string \<times> int) list" where
  "visible_entries userId ctx visible s = concat (map (\<lambda>t. List.map_filter (\<lambda>e.
       case entry_walletId e of None \<Rightarrow> None
       | Some i \<Rightarrow> (case find_wallet i s of None \<Rightarrow> None
         | Some w \<Rightarrow> if wallet_familyId w = ctx_familyId ctx \<and> visibleTo userId (ctx_role ctx) w
             then Some (wallet_currency w, entry_amountMinor e) else None)) (ltx_entries t))
     (filter visible (fin_transactions s)))"

definition forecast_row :: "(string \<times> int) list \<Rightarrow> (string \<times> flow) list \<Rightarrow> string \<Rightarrow> balance_forecast" where
  "forecast_row held planned c = (let cur = amount_in held c; f = flow_of planned c in
     \<lparr>bf_currency = c, bf_currentBalanceMinor = cur, bf_plannedIncomeMinor = flow_income f,
      bf_plannedExpenseMinor = flow_expense f, bf_projectedBalanceMinor = cur + flow_income f - flow_expense f\<rparr>)"

definition analytics_get ::
    "env \<Rightarrow> (string \<Rightarrow> 'c::linorder) \<Rightarrow> uuid \<Rightarrow> analytics_query \<Rightarrow> recurring_db \<Rightarrow> (api_error + analytics_report) option" where
  "analytics_get E collate userId q s = (case requireMembership userId s of Inl e \<Rightarrow> Some (Inl e)
   | Inr ctx \<Rightarrow> (case report_start E (aq_periodStart q) of Inl e \<Rightarrow> Some (Inl e)
     | Inr period \<Rightarrow>
       let months = (case aq_months q of None \<Rightarrow> 6 | Some n \<Rightarrow> n);
           periodEnd = addMonths period months;
           now = env_now E;
           through = now + (case aq_forecastDays q of None \<Rightarrow> 30 | Some n \<Rightarrow> n) * 86400000;
           visible = visibleWhere userId (ctx_familyId ctx) (ctx_role ctx) None s;
           actual = fold (\<lambda>t. add_to_month (month_key (ltx_occurredAt t)) (ltx_currency t) (in_wallets t))
             (cash_transactions visible period periodEnd s) [];
           held = fold (\<lambda>p. add_amount (fst p) (snd p)) (visible_entries userId ctx visible s) []
       in (case plan_payments s period periodEnd now through (active_payments userId ctx s) ([], []) of None \<Rightarrow> None
         | Some (mandatory, planned) \<Rightarrow> Some (Inr \<lparr>ar_periodStart = month_key period, ar_months = months,
             ar_cashFlow = map (\<lambda>i. let key = month_key (addMonths period (int i)) in
               \<lparr>mf_periodStart = key, mf_actual = serialize_flows collate (flows_in actual key),
                mf_mandatory = serialize_flows collate (flows_in mandatory key)\<rparr>) [0..<nat months],
             ar_forecastAsOf = now, ar_forecastThrough = through,
             ar_balanceForecast = map (forecast_row held planned)
               (sort (remdups (map fst held @ map fst planned)))\<rparr>))))"

end
