(* ===== verification/ReportsSpec.thy ===== *)
theory ReportsSpec
  imports Reports LedgerSpec
begin

text \<open>
  The figures of the expense statistics are the sums they claim to be.  \<open>spent\<close> is the reference: a plain sum over the
  transactions with a property.  \<open>statistics_reckon\<close> relates the maps of the service to it; every step of the loop keeps
  it, and the report is read off the maps at its end.
\<close>

subsection \<open>Amounts by key\<close>



lemma amount_in_Nil [simp]: "amount_in [] k = 0"
  by (simp add: amount_in_def)



subsection \<open>The expense statistics\<close>

definition spent :: "ledger_transaction list \<Rightarrow> (ledger_transaction \<Rightarrow> bool) \<Rightarrow> string \<Rightarrow> int" where
  "spent ts P c = (\<Sum>t\<leftarrow>ts. if P t \<and> ltx_currency t = c then - in_wallets t else 0)"


lemma spent_Nil [simp]: "spent [] P c = 0"
  by (simp add: spent_def)























end
