(* ===== verification/Intimacy.thy ===== *)
theory Intimacy
  imports QuietHours
begin

text \<open>
  The private calendar of a couple: \<open>modules/intimacy/intimacy.service.ts\<close>.  Each partner answers for a day; of the
  answer of the other only an aggregate is shown, and only to who has answered.  Events are one row for a family and
  day.  The rows of preferences refer to their check-in, and deleting a check-in deletes them (\<open>onDelete: Cascade\<close>).
\<close>

subsection \<open>Rows and requests\<close>

datatype intimacy_mood = MoodSex | MoodTenderness | MoodCloseness | MoodExperiment | MoodNotToday | MoodUnsure

datatype intimacy_preference = PrefKissing | PrefMassage | PrefSex | PrefShower | PrefRomantic | PrefExperiment | PrefOther

datatype intimacy_rating = RatingGreat | RatingGood | RatingNeutral

record intimacy_check_in =
  ici_id :: uuid
  ici_familyId :: uuid
  ici_userId :: uuid
  ici_date :: timestamp
  ici_mood :: intimacy_mood
  ici_desireLevel :: int
  ici_createdAt :: timestamp
  ici_updatedAt :: timestamp

record intimacy_event =
  iev_id :: uuid
  iev_familyId :: uuid
  iev_date :: timestamp
  iev_createdByUserId :: uuid
  iev_occurred :: bool
  iev_rating :: "intimacy_rating option"
  iev_createdAt :: timestamp
  iev_updatedAt :: timestamp

text \<open>A row of \<open>IntimacyCheckInPreference\<close>: the check-in and the preference, which together are its key.\<close>

type_synonym preference_row = "uuid \<times> intimacy_preference"

record intimacy_db = core +
  idb_checkIns :: "intimacy_check_in list"
  idb_preferences :: "preference_row list"
  idb_events :: "intimacy_event list"

record intimacy_answer =
  ian_mood :: intimacy_mood
  ian_desireLevel :: int
  ian_preferences :: "intimacy_preference list"

record event_dto =
  ied_occurred :: bool
  ied_rating :: "intimacy_rating option"

record intimacy_aggregate =
  iag_hasMutualInterest :: bool
  iag_matchedPreferences :: "intimacy_preference list"

record check_in_response =
  icr_date :: ymd
  icr_myCheckIn :: "intimacy_answer option"
  icr_partnerHasAnswered :: bool
  icr_aggregate :: "intimacy_aggregate option"

record calendar_day =
  icd_date :: ymd
  icd_myCheckInExists :: bool
  icd_partnerCheckInExists :: bool
  icd_hasMutualInterest :: "bool option"
  icd_intimacyEventExists :: bool

subsection \<open>Dates and partners\<close>

definition dateValue :: "string \<Rightarrow> ymd \<Rightarrow> api_error + timestamp" where
  "dateValue field v = (case parse_date v of
     None \<Rightarrow> Inl (BadRequest (field @ '' must be a valid calendar date''))
   | Some t \<Rightarrow> if iso_date t \<noteq> v then Inl (BadRequest (field @ '' must be a valid calendar date'')) else Inr t)"

definition nextUTCDate :: "timestamp \<Rightarrow> timestamp" where
  "nextUTCDate t = setUTCDate t (getUTCDate t + 1)"

definition partner_id :: "uuid \<Rightarrow> uuid \<Rightarrow> 'a core_scheme \<Rightarrow> uuid option" where
  "partner_id familyId userId s = map_option member_userId (find_first (\<lambda>m. member_familyId m = familyId
     \<and> member_role m = PARTNER \<and> member_userId m \<noteq> userId) (core_members s))"

definition intimacy_context :: "uuid \<Rightarrow> 'a core_scheme \<Rightarrow> api_error + family_context \<times> uuid option" where
  "intimacy_context userId s = (case requirePartner userId s of Inl e \<Rightarrow> Inl e
   | Inr ctx \<Rightarrow> Inr (ctx, partner_id (ctx_familyId ctx) userId s))"

subsection \<open>The aggregate\<close>

definition INTERESTING_MOODS :: "intimacy_mood list" where
  "INTERESTING_MOODS = [MoodSex, MoodTenderness, MoodCloseness, MoodExperiment]"

text \<open>A check-in with its preferences (\<open>include: { preferences: true }\<close>).\<close>

definition preferences_of :: "intimacy_check_in \<Rightarrow> intimacy_db \<Rightarrow> intimacy_preference list" where
  "preferences_of c s = map snd (filter (\<lambda>p. fst p = ici_id c) (idb_preferences s))"

definition check_in_answer :: "intimacy_check_in \<Rightarrow> intimacy_db \<Rightarrow> intimacy_answer" where
  "check_in_answer c s = \<lparr>ian_mood = ici_mood c, ian_desireLevel = ici_desireLevel c, ian_preferences = preferences_of c s\<rparr>"

definition aggregate :: "intimacy_answer \<Rightarrow> intimacy_answer \<Rightarrow> intimacy_aggregate" where
  "aggregate my other = \<lparr>
     iag_hasMutualInterest = (ian_desireLevel my \<ge> 3 \<and> ian_desireLevel other \<ge> 3
       \<and> List.member INTERESTING_MOODS (ian_mood my) \<and> List.member INTERESTING_MOODS (ian_mood other)),
     iag_matchedPreferences = filter (\<lambda>p. List.member (ian_preferences other) p) (ian_preferences my)\<rparr>"

definition ownResponse :: "ymd \<Rightarrow> intimacy_answer option \<Rightarrow> intimacy_answer option \<Rightarrow> check_in_response" where
  "ownResponse date my other = \<lparr>icr_date = date, icr_myCheckIn = my, icr_partnerHasAnswered = (other \<noteq> None),
     icr_aggregate = (case my of None \<Rightarrow> None | Some a \<Rightarrow> map_option (aggregate a) other)\<rparr>"

subsection \<open>Check-ins\<close>

definition check_ins_at :: "uuid \<Rightarrow> timestamp \<Rightarrow> uuid list \<Rightarrow> intimacy_db \<Rightarrow> intimacy_check_in list" where
  "check_ins_at familyId t users s = filter (\<lambda>c. ici_familyId c = familyId \<and> ici_date c = t
     \<and> List.member users (ici_userId c)) (idb_checkIns s)"

definition couple_ids :: "uuid \<Rightarrow> uuid option \<Rightarrow> uuid list" where
  "couple_ids userId partnerId = (case partnerId of None \<Rightarrow> [userId] | Some p \<Rightarrow> [userId, p])"

definition getCheckIn :: "uuid \<Rightarrow> ymd \<Rightarrow> intimacy_db \<Rightarrow> api_error + check_in_response" where
  "getCheckIn userId date s = (case dateValue ''date'' date of Inl e \<Rightarrow> Inl e
   | Inr t \<Rightarrow> (case intimacy_context userId s of Inl e \<Rightarrow> Inl e
     | Inr (ctx, partnerId) \<Rightarrow>
       let records = check_ins_at (ctx_familyId ctx) t (couple_ids userId partnerId) s in
       Inr (ownResponse date
         (map_option (\<lambda>c. check_in_answer c s) (find_first (\<lambda>c. ici_userId c = userId) records))
         (map_option (\<lambda>c. check_in_answer c s) (find_first (\<lambda>c. Some (ici_userId c) = partnerId) records)))))"

text \<open>The row of a user and day is unique whatever the family.\<close>

definition save_check_in ::
    "env \<Rightarrow> uuid \<Rightarrow> uuid \<Rightarrow> timestamp \<Rightarrow> intimacy_answer \<Rightarrow> intimacy_db \<Rightarrow> (intimacy_check_in, intimacy_db) resp" where
  "save_check_in E userId familyId t dto s = (case find_first (\<lambda>c. ici_userId c = userId \<and> ici_date c = t) (idb_checkIns s) of
     Some existing \<Rightarrow>
       if ici_familyId existing \<noteq> familyId then (Inl (NotFound ''Intimacy check-in not found''), s)
       else let w = (\<lambda>c. c\<lparr>ici_mood := ian_mood dto, ici_desireLevel := ian_desireLevel dto, ici_updatedAt := env_now E\<rparr>)
         in (Inr (w existing), s\<lparr>idb_checkIns := snd (update_many (\<lambda>c. ici_id c = ici_id existing) w (idb_checkIns s))\<rparr>)
   | None \<Rightarrow> (case fresh s of (i, s1) \<Rightarrow>
       let row = \<lparr>ici_id = i, ici_familyId = familyId, ici_userId = userId, ici_date = t, ici_mood = ian_mood dto,
             ici_desireLevel = ian_desireLevel dto, ici_createdAt = env_now E, ici_updatedAt = env_now E\<rparr>
       in (Inr row, s1\<lparr>idb_checkIns := idb_checkIns s1 @ [row]\<rparr>)))"

text \<open>\<open>deleteMany\<close> and \<open>createMany\<close> on the preferences; a preference named twice violates the key.\<close>

definition replace_preferences ::
    "intimacy_check_in \<Rightarrow> intimacy_preference list \<Rightarrow> intimacy_db \<Rightarrow> (intimacy_check_in, intimacy_db) resp" where
  "replace_preferences saved ps s =
    (if \<not> distinct ps then (Inl P2002, s)
     else (Inr saved, s\<lparr>idb_preferences := filter (\<lambda>p. fst p \<noteq> ici_id saved) (idb_preferences s)
         @ map (\<lambda>p. (ici_id saved, p)) ps\<rparr>))"

text \<open>The response takes the check-in of anybody else in the family, not only of the current partner.\<close>

definition upsertCheckIn ::
    "env \<Rightarrow> uuid \<Rightarrow> ymd \<Rightarrow> intimacy_answer \<Rightarrow> intimacy_db \<Rightarrow> (check_in_response, intimacy_db) resp" where
  "upsertCheckIn E userId date dto s = (case dateValue ''date'' date of Inl e \<Rightarrow> (Inl e, s)
   | Inr t \<Rightarrow> (case intimacy_context userId s of Inl e \<Rightarrow> (Inl e, s)
     | Inr (ctx, _) \<Rightarrow> and_then
       (transaction s (and_then (save_check_in E userId (ctx_familyId ctx) t dto s)
          (\<lambda>saved. replace_preferences saved (ian_preferences dto))))
       (\<lambda>saved s'. (Inr (ownResponse date (Some (check_in_answer saved s'))
          (map_option (\<lambda>c. check_in_answer c s') (find_first (\<lambda>c. ici_familyId c = ctx_familyId ctx \<and> ici_userId c \<noteq> userId
             \<and> ici_date c = t) (idb_checkIns s')))), s'))))"

definition delete_check_ins :: "(intimacy_check_in \<Rightarrow> bool) \<Rightarrow> intimacy_db \<Rightarrow> intimacy_db" where
  "delete_check_ins P s = s\<lparr>idb_checkIns := filter (\<lambda>c. \<not> P c) (idb_checkIns s),
     idb_preferences := filter (\<lambda>p. \<not> (\<exists>c \<in> set (idb_checkIns s). P c \<and> ici_id c = fst p)) (idb_preferences s)\<rparr>"

definition deleteCheckIn :: "uuid \<Rightarrow> ymd \<Rightarrow> intimacy_db \<Rightarrow> (unit, intimacy_db) resp" where
  "deleteCheckIn userId date s = (case intimacy_context userId s of Inl e \<Rightarrow> (Inl e, s)
   | Inr (ctx, _) \<Rightarrow> (case dateValue ''date'' date of Inl e \<Rightarrow> (Inl e, s)
     | Inr t \<Rightarrow> (Inr (), delete_check_ins (\<lambda>c. ici_familyId c = ctx_familyId ctx \<and> ici_userId c = userId \<and> ici_date c = t) s)))"

subsection \<open>The calendar\<close>

definition calendar_day_of ::
    "uuid \<Rightarrow> uuid option \<Rightarrow> intimacy_check_in list \<Rightarrow> intimacy_event list \<Rightarrow> intimacy_db \<Rightarrow> timestamp \<Rightarrow> calendar_day" where
  "calendar_day_of userId partnerId checkIns events s date = (
     let day = iso_date date;
         my = find_first (\<lambda>c. ici_userId c = userId \<and> iso_date (ici_date c) = day) checkIns;
         other = find_first (\<lambda>c. Some (ici_userId c) = partnerId \<and> iso_date (ici_date c) = day) checkIns
     in \<lparr>icd_date = day, icd_myCheckInExists = (my \<noteq> None), icd_partnerCheckInExists = (other \<noteq> None),
          icd_hasMutualInterest = (case my of None \<Rightarrow> None
            | Some a \<Rightarrow> map_option (\<lambda>b. iag_hasMutualInterest (aggregate (check_in_answer a s) (check_in_answer b s))) other),
          icd_intimacyEventExists = list_ex (\<lambda>v. iso_date (iev_date v) = day) events\<rparr>)"

text \<open>The loop \<open>for (let date = start; date <= end; date = nextDate(date))\<close>.\<close>

function days_between :: "timestamp \<Rightarrow> timestamp \<Rightarrow> timestamp list" where
  "days_between date end_at = (if date \<le> end_at then date # days_between (nextUTCDate date) end_at else [])"
  by pat_completeness auto

termination days_between
  by (relation "measure (\<lambda>(date, end_at). nat (end_at + 1 - date))")
    (use setUTCDate_increases [of 1] in \<open>auto simp: nextUTCDate_def\<close>)

declare days_between.simps [simp del]

definition intimacy_calendar :: "uuid \<Rightarrow> ymd \<Rightarrow> ymd \<Rightarrow> intimacy_db \<Rightarrow> api_error + calendar_day list" where
  "intimacy_calendar userId from to s = (case dateValue ''from'' from of Inl e \<Rightarrow> Inl e
   | Inr start \<Rightarrow> (case dateValue ''to'' to of Inl e \<Rightarrow> Inl e
     | Inr end_at \<Rightarrow>
       if start > end_at then Inl (BadRequest ''from must be before or equal to to'')
       else if (end_at - start) div 86400000 + 1 > 366 then Inl (BadRequest ''The calendar range cannot exceed 366 days'')
       else (case intimacy_context userId s of Inl e \<Rightarrow> Inl e
         | Inr (ctx, partnerId) \<Rightarrow>
           let checkIns = filter (\<lambda>c. ici_familyId c = ctx_familyId ctx \<and> List.member (couple_ids userId partnerId) (ici_userId c)
                 \<and> start \<le> ici_date c \<and> ici_date c \<le> end_at) (idb_checkIns s);
               events = filter (\<lambda>v. iev_familyId v = ctx_familyId ctx \<and> start \<le> iev_date v \<and> iev_date v \<le> end_at) (idb_events s)
           in Inr (map (calendar_day_of userId partnerId checkIns events s) (days_between start end_at)))))"

subsection \<open>Events\<close>

definition event_at :: "uuid \<Rightarrow> timestamp \<Rightarrow> intimacy_event \<Rightarrow> bool" where
  "event_at familyId t v \<longleftrightarrow> iev_familyId v = familyId \<and> iev_date v = t"

definition upsertEvent :: "env \<Rightarrow> uuid \<Rightarrow> ymd \<Rightarrow> event_dto \<Rightarrow> intimacy_db \<Rightarrow> (intimacy_event, intimacy_db) resp" where
  "upsertEvent E userId date dto s = (case intimacy_context userId s of Inl e \<Rightarrow> (Inl e, s)
   | Inr (ctx, _) \<Rightarrow> (case dateValue ''date'' date of Inl e \<Rightarrow> (Inl e, s)
     | Inr t \<Rightarrow> (case find_first (event_at (ctx_familyId ctx) t) (idb_events s) of
         Some v \<Rightarrow>
           let w = (\<lambda>v. v\<lparr>iev_occurred := ied_occurred dto, iev_rating := ied_rating dto, iev_updatedAt := env_now E\<rparr>)
           in (Inr (w v), s\<lparr>idb_events := snd (update_many (event_at (ctx_familyId ctx) t) w (idb_events s))\<rparr>)
       | None \<Rightarrow> (case fresh s of (i, s1) \<Rightarrow>
           let row = \<lparr>iev_id = i, iev_familyId = ctx_familyId ctx, iev_date = t, iev_createdByUserId = userId,
                 iev_occurred = ied_occurred dto, iev_rating = ied_rating dto, iev_createdAt = env_now E,
                 iev_updatedAt = env_now E\<rparr>
           in (Inr row, s1\<lparr>idb_events := idb_events s1 @ [row]\<rparr>)))))"

definition getEvent :: "uuid \<Rightarrow> ymd \<Rightarrow> intimacy_db \<Rightarrow> api_error + intimacy_event" where
  "getEvent userId date s = (case intimacy_context userId s of Inl e \<Rightarrow> Inl e
   | Inr (ctx, _) \<Rightarrow> (case dateValue ''date'' date of Inl e \<Rightarrow> Inl e
     | Inr t \<Rightarrow> (case find_first (event_at (ctx_familyId ctx) t) (idb_events s) of
         None \<Rightarrow> Inl (NotFound ''Intimacy event not found'') | Some v \<Rightarrow> Inr v)))"

definition deleteEvent :: "uuid \<Rightarrow> ymd \<Rightarrow> intimacy_db \<Rightarrow> (unit, intimacy_db) resp" where
  "deleteEvent userId date s = (case intimacy_context userId s of Inl e \<Rightarrow> (Inl e, s)
   | Inr (ctx, _) \<Rightarrow> (case dateValue ''date'' date of Inl e \<Rightarrow> (Inl e, s)
     | Inr t \<Rightarrow> (Inr (), s\<lparr>idb_events := snd (delete_many (event_at (ctx_familyId ctx) t) (idb_events s))\<rparr>)))"

end
