(* ===== verification/IntimacySpec.thy ===== *)
theory IntimacySpec
  imports Intimacy
begin

text \<open>
  What the private calendar promises.  \<open>intimacy_ok\<close> is the consistency of its tables and \<open>intimacy_keeps\<close> what every
  call keeps: the consistency, and the answers of everybody but the caller.  The reads are brought to one function,
  \<open>answer_at\<close>, the answer of a user for a day; from it follow that the calendar shows what the single days show, and
  what of a partner's answer can be learned.
\<close>

subsection \<open>Dates\<close>

definition midnight :: "timestamp \<Rightarrow> bool" where
  "midnight t \<longleftrightarrow> time_within_day t = 0"

lemma iso_date_inject: "midnight t \<Longrightarrow> midnight u \<Longrightarrow> iso_date t = iso_date u \<longleftrightarrow> t = u"
proof
  assume m: "midnight t" "midnight u" and eq: "iso_date t = iso_date u"
  have day: "day_of x = make_day (ymd_year (iso_date x)) (ymd_month (iso_date x) - 1) (ymd_day (iso_date x))" for x
    using day_decomposition [of "day_of x"] by (simp add: iso_date_def getUTCFullYear_def getUTCMonth_def getUTCDate_def)
  have "day_of t = day_of u" unfolding day eq ..
  then show "t = u" using m day_time_split [of t] day_time_split [of u] by (simp add: midnight_def)
qed simp

lemma dateValue_Inr: "dateValue field v = Inr t \<Longrightarrow> iso_date t = v \<and> midnight t"
  by (auto simp: dateValue_def parse_date_def midnight_def split: option.splits if_splits)

lemma dateValue_iso_date: "midnight t \<Longrightarrow> dateValue field (iso_date t) = Inr t"
proof -
  assume t: "midnight t"
  have "valid_ymd (iso_date t)" by (rule valid_ymd_iso_date)
  then obtain u where "parse_date (iso_date t) = Some u" "iso_date u = iso_date t"
    using parse_iso_date_roundtrip [of "iso_date t"] by (auto split: option.splits)
  moreover from this have "midnight u" by (auto simp: parse_date_def midnight_def split: if_splits)
  ultimately show ?thesis using t by (simp add: dateValue_def iso_date_inject)
qed

lemma nextUTCDate_add: "nextUTCDate t = t + ms_per_day"
  by (simp add: nextUTCDate_def setUTCDate_add)

text \<open>The loop visits every day of the period once, in order.\<close>

lemma days_between_map:
  "days_between a b = map (\<lambda>i. a + int i * ms_per_day) [0..<nat ((b - a) div ms_per_day + 1)]"
proof (induction a b rule: days_between.induct)
  case (1 a b)
  show ?case
  proof (cases "a \<le> b")
    case True
    let ?n = "(b - a) div ms_per_day"
    have n: "(b - nextUTCDate a) div ms_per_day = ?n - 1" "0 \<le> ?n"
      using True by (simp_all add: nextUTCDate_add ms_per_day_def pos_imp_zdiv_nonneg_iff)
    then have "[0..<nat (?n + 1)] = 0 # map Suc [0..<nat ?n]"
      by (simp add: nat_add_distrib map_Suc_upt upt_conv_Cons del: upt_Suc)
    then show ?thesis using 1 [OF True] True n
      by (subst days_between.simps) (simp add: nextUTCDate_add o_def algebra_simps del: upt_Suc)
  next
    case False
    then have "(b - a) div ms_per_day < 0" by (simp add: ms_per_day_def div_less_iff_less_mult) 
    then show ?thesis using False by (subst days_between.simps) simp
  qed
qed

lemma midnight_days: "midnight t \<Longrightarrow> midnight (t + k * ms_per_day)"
  by (simp add: midnight_def time_within_day_def)

subsection \<open>Consistent tables\<close>

definition check_in_ok :: "uuid \<Rightarrow> intimacy_check_in \<Rightarrow> bool" where
  "check_in_ok n c \<longleftrightarrow> ici_id c < n \<and> midnight (ici_date c) \<and> 1 \<le> ici_desireLevel c \<and> ici_desireLevel c \<le> 5"

definition intimacy_ok :: "intimacy_db \<Rightarrow> bool" where
  "intimacy_ok s \<longleftrightarrow> distinct (map ici_id (idb_checkIns s)) \<and> (\<forall>c \<in> set (idb_checkIns s). check_in_ok (core_nextId s) c)
     \<and> distinct (map (\<lambda>c. (ici_userId c, ici_date c)) (idb_checkIns s))
     \<and> distinct (idb_preferences s) \<and> (\<forall>p \<in> set (idb_preferences s). fst p \<in> ici_id ` set (idb_checkIns s))
     \<and> distinct (map (\<lambda>v. (iev_familyId v, iev_date v)) (idb_events s)) \<and> (\<forall>v \<in> set (idb_events s). midnight (iev_date v))"

subsection \<open>The reads\<close>

definition answer_at :: "uuid \<Rightarrow> uuid \<Rightarrow> timestamp \<Rightarrow> intimacy_db \<Rightarrow> intimacy_answer option" where
  "answer_at familyId u t s = map_option (\<lambda>c. check_in_answer c s)
     (find_first (\<lambda>c. ici_familyId c = familyId \<and> ici_date c = t \<and> ici_userId c = u) (idb_checkIns s))"

definition partner_answer :: "uuid \<Rightarrow> uuid option \<Rightarrow> timestamp \<Rightarrow> intimacy_db \<Rightarrow> intimacy_answer option" where
  "partner_answer familyId partnerId t s = (case partnerId of None \<Rightarrow> None | Some p \<Rightarrow> answer_at familyId p t s)"

lemma find_filter: "List.find P (filter Q xs) = List.find (\<lambda>x. Q x \<and> P x) xs"
  by (induction xs) auto

lemma find_cong_iff: "(\<And>x. x \<in> set xs \<Longrightarrow> P x = Q x) \<Longrightarrow> List.find P xs = List.find Q xs"
  by (rule find_cong_pred)

lemma find_False [simp]: "List.find (\<lambda>x. False) xs = None"
  by (induction xs) auto

lemma getCheckIn_answers:
  "getCheckIn userId date s = (case dateValue ''date'' date of Inl e \<Rightarrow> Inl e
   | Inr t \<Rightarrow> (case intimacy_context userId s of Inl e \<Rightarrow> Inl e
     | Inr (ctx, partnerId) \<Rightarrow> Inr (ownResponse date (answer_at (ctx_familyId ctx) userId t s)
         (partner_answer (ctx_familyId ctx) partnerId t s))))"
proof -
  have "List.find (\<lambda>c. ici_userId c = userId) (check_ins_at f t (couple_ids userId p) s)
      = List.find (\<lambda>c. ici_familyId c = f \<and> ici_date c = t \<and> ici_userId c = userId) (idb_checkIns s)" for f t p
    unfolding check_ins_at_def find_filter by (rule find_cong_pred) (auto simp: couple_ids_def split: option.split)
  moreover have "List.find (\<lambda>c. Some (ici_userId c) = Some p) (check_ins_at f t (couple_ids userId (Some p)) s)
      = List.find (\<lambda>c. ici_familyId c = f \<and> ici_date c = t \<and> ici_userId c = p) (idb_checkIns s)" for f t p
    unfolding check_ins_at_def find_filter by (rule find_cong_pred) (auto simp: couple_ids_def)
  ultimately show ?thesis
    by (auto simp: getCheckIn_def answer_at_def partner_answer_def Let_def split: sum.split option.split)
qed

text \<open>A day of the calendar, made from what reading the day gives.\<close>

definition day_shown :: "ymd \<Rightarrow> check_in_response \<Rightarrow> bool \<Rightarrow> calendar_day" where
  "day_shown d r event = \<lparr>icd_date = d, icd_myCheckInExists = (icr_myCheckIn r \<noteq> None),
     icd_partnerCheckInExists = icr_partnerHasAnswered r,
     icd_hasMutualInterest = map_option iag_hasMutualInterest (icr_aggregate r), icd_intimacyEventExists = event\<rparr>"

lemma day_shown_ownResponse:
  "day_shown d (ownResponse d my other) event = \<lparr>icd_date = d, icd_myCheckInExists = (my \<noteq> None),
     icd_partnerCheckInExists = (other \<noteq> None),
     icd_hasMutualInterest = (case my of None \<Rightarrow> None | Some a \<Rightarrow> map_option (\<lambda>b. iag_hasMutualInterest (aggregate a b)) other),
     icd_intimacyEventExists = event\<rparr>"
  by (simp add: day_shown_def ownResponse_def option.map_comp o_def split: option.split)

lemma shown_day_answers:
  assumes ok: "intimacy_ok s" and t: "midnight t" "start \<le> t" "t \<le> end_at"
  shows "calendar_day_of userId partnerId
      (filter (\<lambda>c. ici_familyId c = f \<and> List.member (couple_ids userId partnerId) (ici_userId c)
         \<and> start \<le> ici_date c \<and> ici_date c \<le> end_at) (idb_checkIns s))
      (filter (\<lambda>v. iev_familyId v = f \<and> start \<le> iev_date v \<and> iev_date v \<le> end_at) (idb_events s)) s t
    = day_shown (iso_date t) (ownResponse (iso_date t) (answer_at f userId t s) (partner_answer f partnerId t s))
        (find_first (event_at f t) (idb_events s) \<noteq> None)"
proof -
  let ?cs = "filter (\<lambda>c. ici_familyId c = f \<and> List.member (couple_ids userId partnerId) (ici_userId c)
     \<and> start \<le> ici_date c \<and> ici_date c \<le> end_at) (idb_checkIns s)"
  have day: "iso_date (ici_date c) = iso_date t \<longleftrightarrow> ici_date c = t" if "c \<in> set (idb_checkIns s)" for c
    using ok t(1) that by (simp add: intimacy_ok_def check_in_ok_def iso_date_inject)
  have my: "List.find (\<lambda>c. ici_userId c = userId \<and> iso_date (ici_date c) = iso_date t) ?cs
      = List.find (\<lambda>c. ici_familyId c = f \<and> ici_date c = t \<and> ici_userId c = userId) (idb_checkIns s)"
    unfolding find_filter
    by (rule find_cong_pred) (use day t in \<open>auto simp: couple_ids_def split: option.split\<close>)
  have other: "map_option (\<lambda>c. check_in_answer c s) (List.find (\<lambda>c. Some (ici_userId c) = partnerId \<and> iso_date (ici_date c) = iso_date t) ?cs)
      = partner_answer f partnerId t s"
  proof (cases partnerId)
    case (Some p)
    have "List.find (\<lambda>c. Some (ici_userId c) = partnerId \<and> iso_date (ici_date c) = iso_date t) ?cs
        = List.find (\<lambda>c. ici_familyId c = f \<and> ici_date c = t \<and> ici_userId c = p) (idb_checkIns s)"
      unfolding find_filter by (rule find_cong_pred) (use day t Some in \<open>auto simp: couple_ids_def\<close>)
    then show ?thesis by (simp add: Some partner_answer_def answer_at_def)
  qed (simp add: partner_answer_def)
  have event: "list_ex (\<lambda>v. iso_date (iev_date v) = iso_date t) (filter (\<lambda>v. iev_familyId v = f \<and> start \<le> iev_date v \<and> iev_date v \<le> end_at) (idb_events s))
      \<longleftrightarrow> List.find (event_at f t) (idb_events s) \<noteq> None"
    using ok t by (auto simp: list_ex_iff find_None_iff event_at_def intimacy_ok_def iso_date_inject)
  show ?thesis
    unfolding calendar_day_of_def day_shown_ownResponse Let_def my event other [symmetric] answer_at_def
    by (auto simp: option.map_comp o_def split: option.split)
qed

lemma getEvent_Inr:
  assumes "intimacy_context userId s = Inr (ctx, p)" "midnight t"
  shows "(\<exists>v. getEvent userId (iso_date t) s = Inr v) \<longleftrightarrow> find_first (event_at (ctx_familyId ctx) t) (idb_events s) \<noteq> None"
  using assms by (auto simp: getEvent_def dateValue_iso_date split: option.split)

text \<open>The calendar as a list of what the days show.\<close>

definition shown_days :: "uuid \<Rightarrow> uuid \<Rightarrow> uuid option \<Rightarrow> timestamp list \<Rightarrow> intimacy_db \<Rightarrow> calendar_day list" where
  "shown_days f userId partnerId ts s = map (\<lambda>t. day_shown (iso_date t)
     (ownResponse (iso_date t) (answer_at f userId t s) (partner_answer f partnerId t s))
     (find_first (event_at f t) (idb_events s) \<noteq> None)) ts"

lemma days_between_member: "midnight start \<Longrightarrow> t \<in> set (days_between start end_at) \<Longrightarrow> midnight t \<and> start \<le> t \<and> t \<le> end_at"
proof (induction start end_at rule: days_between.induct)
  case (1 a b)
  show ?case
  proof (cases "t = a")
    case False
    with 1(3) have "a \<le> b" "t \<in> set (days_between (nextUTCDate a) b)"
      by (auto simp: days_between.simps [of a b] split: if_splits)
    moreover have "midnight (nextUTCDate a)" using midnight_days [OF 1(2), of 1] by (simp add: nextUTCDate_add)
    ultimately show ?thesis using 1(1) by (fastforce simp: nextUTCDate_add ms_per_day_def)
  next
    case True
    with 1(2,3) show ?thesis by (auto simp: days_between.simps [of a b] split: if_splits)
  qed
qed

lemma intimacy_calendar_days:
  assumes "intimacy_ok s"
  shows "intimacy_calendar userId from to s = (case dateValue ''from'' from of Inl e \<Rightarrow> Inl e
   | Inr start \<Rightarrow> (case dateValue ''to'' to of Inl e \<Rightarrow> Inl e
     | Inr end_at \<Rightarrow>
       if start > end_at then Inl (BadRequest ''from must be before or equal to to'')
       else if (end_at - start) div ms_per_day + 1 > 366 then Inl (BadRequest ''The calendar range cannot exceed 366 days'')
       else (case intimacy_context userId s of Inl e \<Rightarrow> Inl e
         | Inr (ctx, partnerId) \<Rightarrow> Inr (shown_days (ctx_familyId ctx) userId partnerId (days_between start end_at) s))))"
proof -
  have "map (calendar_day_of userId p
      (filter (\<lambda>c. ici_familyId c = f \<and> List.member (couple_ids userId p) (ici_userId c)
         \<and> start \<le> ici_date c \<and> ici_date c \<le> end_at) (idb_checkIns s))
      (filter (\<lambda>v. iev_familyId v = f \<and> start \<le> iev_date v \<and> iev_date v \<le> end_at) (idb_events s)) s) (days_between start end_at)
    = shown_days f userId p (days_between start end_at) s" if "dateValue ''from'' from = Inr start" for start end_at f p
    unfolding shown_days_def
    by (rule map_cong [OF refl], rule shown_day_answers [OF assms])
      (use days_between_member dateValue_Inr [OF that] in blast)+
  then show ?thesis unfolding intimacy_calendar_def Let_def
    by (auto simp: ms_per_day_def split: sum.split)
qed

subsection \<open>The properties of the reads\<close>

text \<open>The calendar of a period shows every day of it once, in order and at most 366 of them, and of each day exactly
  what reading the check-in and the event of that day gives.\<close>

theorem calendar_shows_days:
  assumes "intimacy_ok s" "intimacy_calendar userId from to s = Inr days"
  shows "\<exists>start end_at. dateValue ''from'' from = Inr start \<and> dateValue ''to'' to = Inr end_at
    \<and> end_at = start + (int (length days) - 1) * ms_per_day \<and> 1 \<le> length days \<and> length days \<le> 366
    \<and> (\<forall>i < length days. let d = iso_date (start + int i * ms_per_day) in
        \<exists>r. getCheckIn userId d s = Inr r \<and> days ! i = day_shown d r (\<exists>v. getEvent userId d s = Inr v))"
proof -
  obtain start end_at ctx p where c: "dateValue ''from'' from = Inr start" "dateValue ''to'' to = Inr end_at"
    "start \<le> end_at" "(end_at - start) div ms_per_day + 1 \<le> 366" "intimacy_context userId s = Inr (ctx, p)"
    "days = shown_days (ctx_familyId ctx) userId p (days_between start end_at) s"
    using assms(2) unfolding intimacy_calendar_days [OF assms(1)] by (auto split: sum.splits if_splits)
  let ?n = "(end_at - start) div ms_per_day"
  have m: "midnight start" "midnight end_at" using c(1,2) dateValue_Inr by blast+
  have "ms_per_day dvd end_at - start"
    using m by (simp add: midnight_def time_within_day_def mod_eq_0_iff_dvd dvd_diff)
  then have n: "end_at = start + ?n * ms_per_day" by simp
  have n0: "0 \<le> ?n" using c(3) by (simp add: ms_per_day_def pos_imp_zdiv_nonneg_iff)
  have len: "length days = nat (?n + 1)" by (simp add: c(6) shown_days_def days_between_map)
  have "\<exists>r. getCheckIn userId d s = Inr r \<and> days ! i = day_shown d r (\<exists>v. getEvent userId d s = Inr v)"
    if i: "i < length days" and d: "d = iso_date (start + int i * ms_per_day)" for i d
    using i c(5) midnight_days [OF m(1), of "int i"] getEvent_Inr [OF c(5)]
    by (simp add: d c(6) shown_days_def days_between_map getCheckIn_answers dateValue_iso_date)
  then show ?thesis using c(1,2,4) len n n0 unfolding Let_def by (intro exI [of _ start] exI [of _ end_at]) auto
qed

text \<open>What a user may learn of the partner's answers: that there is one, and, of a day the user answered too, whether the
  interest is mutual and which of the user's own preferences the partner shares.\<close>

definition interested :: "intimacy_answer \<Rightarrow> bool" where
  "interested a \<longleftrightarrow> ian_desireLevel a \<ge> 3 \<and> ian_mood a \<in> {MoodSex, MoodTenderness, MoodCloseness, MoodExperiment}"

definition told_alike :: "intimacy_answer option \<Rightarrow> intimacy_answer option \<Rightarrow> intimacy_answer option \<Rightarrow> bool" where
  "told_alike my a b \<longleftrightarrow> (a = None \<longleftrightarrow> b = None) \<and> (\<forall>m x y. my = Some m \<and> a = Some x \<and> b = Some y \<longrightarrow>
     (interested m \<longrightarrow> interested x = interested y) \<and>
     (\<forall>p \<in> set (ian_preferences m). p \<in> set (ian_preferences x) \<longleftrightarrow> p \<in> set (ian_preferences y)))"

lemma ownResponse_alike:
  assumes "told_alike my a b"
  shows "ownResponse d my a = ownResponse d my b"
proof -
  have none: "a = None \<longleftrightarrow> b = None" using assms by (simp add: told_alike_def)
  show ?thesis
  proof (cases "my = None \<or> a = None")
    case True
    then show ?thesis using none by (auto simp: ownResponse_def)
  next
    case False
    then obtain m x y where some: "my = Some m" "a = Some x" "b = Some y" using none by auto
    then have "aggregate m x = aggregate m y"
      using assms by (auto simp: told_alike_def aggregate_def interested_def INTERESTING_MOODS_def intro!: filter_cong)
    then show ?thesis by (simp add: some ownResponse_def)
  qed
qed

text \<open>C22. A partner's answers stay private: if two databases agree on the members, the families, the events and the user's own answers,
  and the partner's answers of every day tell the user alike (whether there is one and, where the user has answered, the
  mutual interest and the common preferences), then every read of the user gives the same.  In particular nothing but its
  existence is told of an answer for a day the user has not answered.\<close>

theorem partner_answers_private:
  assumes "intimacy_ok s" "intimacy_ok s'"
    and "core_members s' = core_members s" "core_families s' = core_families s" "idb_events s' = idb_events s"
    and "\<And>f t. answer_at f userId t s' = answer_at f userId t s"
    and "\<And>f p t. told_alike (answer_at f userId t s) (partner_answer f p t s) (partner_answer f p t s')"
  shows "getCheckIn userId date s' = getCheckIn userId date s \<and> getEvent userId date s' = getEvent userId date s
    \<and> intimacy_calendar userId from to s' = intimacy_calendar userId from to s"
proof -
  have ctx: "intimacy_context userId s' = intimacy_context userId s"
    unfolding intimacy_context_def requirePartner_def requireMembership_def find_member_def find_family_def partner_id_def assms(3,4) ..
  have alike: "ownResponse d (answer_at f userId t s') (partner_answer f p t s')
      = ownResponse d (answer_at f userId t s) (partner_answer f p t s)" for d f t p
    using ownResponse_alike [OF assms(7)] by (simp add: assms(6))
  have "getCheckIn userId date s' = getCheckIn userId date s" unfolding getCheckIn_answers ctx alike ..
  moreover have "getEvent userId date s' = getEvent userId date s" unfolding getEvent_def ctx assms(5) ..
  moreover have shown: "shown_days f userId p ts s' = shown_days f userId p ts s" for f p ts
    unfolding shown_days_def alike assms(5) ..
  ultimately show ?thesis unfolding intimacy_calendar_days [OF assms(1)] intimacy_calendar_days [OF assms(2)] ctx shown by simp
qed

subsection \<open>The writes\<close>

definition answer_valid :: "intimacy_answer \<Rightarrow> bool" where
  "answer_valid dto \<longleftrightarrow> 1 \<le> ian_desireLevel dto \<and> ian_desireLevel dto \<le> 5 \<and> distinct (ian_preferences dto)"

lemma answer_at_Some:
  assumes "intimacy_ok s"
  shows "answer_at f u t s = Some a \<longleftrightarrow> (\<exists>c \<in> set (idb_checkIns s). ici_familyId c = f \<and> ici_date c = t \<and> ici_userId c = u
    \<and> check_in_answer c s = a)"
proof
  assume "answer_at f u t s = Some a"
  then show "\<exists>c \<in> set (idb_checkIns s). ici_familyId c = f \<and> ici_date c = t \<and> ici_userId c = u \<and> check_in_answer c s = a"
    by (auto simp: answer_at_def dest: find_SomeD)
next
  assume "\<exists>c \<in> set (idb_checkIns s). ici_familyId c = f \<and> ici_date c = t \<and> ici_userId c = u \<and> check_in_answer c s = a"
  then obtain c where c: "c \<in> set (idb_checkIns s)" "ici_familyId c = f" "ici_date c = t" "ici_userId c = u" "check_in_answer c s = a" by blast
  have "List.find (\<lambda>c. ici_familyId c = f \<and> ici_date c = t \<and> ici_userId c = u) (idb_checkIns s) = Some c"
    by (rule find_unique_key [where k = "\<lambda>c. (ici_userId c, ici_date c)" and c = "(u, t)"])
      (use assms c in \<open>simp_all add: intimacy_ok_def\<close>)
  then show "answer_at f u t s = Some a" by (simp add: answer_at_def c(5))
qed

lemma option_eqI: "(\<And>a. x = Some a \<longleftrightarrow> y = Some a) \<Longrightarrow> x = y"
  by (cases x; cases y) auto

text \<open>Saving a check-in: the row of the user and day is replaced or added, and nothing else.\<close>

definition stored :: "uuid \<Rightarrow> uuid \<Rightarrow> timestamp \<Rightarrow> intimacy_answer \<Rightarrow> intimacy_check_in \<Rightarrow> intimacy_db \<Rightarrow> intimacy_db \<Rightarrow> bool" where
  "stored f u t dto c s s1 \<longleftrightarrow> set (idb_checkIns s1) = insert c {d \<in> set (idb_checkIns s). ici_id d \<noteq> ici_id c}
     \<and> ici_familyId c = f \<and> ici_userId c = u \<and> ici_date c = t \<and> ici_mood c = ian_mood dto \<and> ici_desireLevel c = ian_desireLevel dto
     \<and> (\<forall>d \<in> set (idb_checkIns s). ici_id d = ici_id c \<longleftrightarrow> ici_userId d = u \<and> ici_date d = t)
     \<and> idb_preferences s1 = idb_preferences s \<and> core_members s1 = core_members s \<and> core_families s1 = core_families s"

lemma save_check_in_stored:
  assumes ok: "intimacy_ok s" and t: "midnight t" and dto: "answer_valid dto"
    and saved: "save_check_in E u f t dto s = (Inr c, s1)"
  shows "stored f u t dto c s s1 \<and> intimacy_ok s1"
proof (cases "find_first (\<lambda>c. ici_userId c = u \<and> ici_date c = t) (idb_checkIns s)")
  case None
  then have new: "c = \<lparr>ici_id = core_nextId s, ici_familyId = f, ici_userId = u, ici_date = t, ici_mood = ian_mood dto,
      ici_desireLevel = ian_desireLevel dto, ici_createdAt = env_now E, ici_updatedAt = env_now E\<rparr>"
    "s1 = s\<lparr>core_nextId := core_nextId s + 1, idb_checkIns := idb_checkIns s @ [c]\<rparr>"
    using saved by (auto simp: save_check_in_def fresh_def Let_def)
  have other: "ici_id d \<noteq> core_nextId s \<and> \<not> (ici_userId d = u \<and> ici_date d = t)" if "d \<in> set (idb_checkIns s)" for d
    using ok that find_NoneD [OF None that] by (auto simp: intimacy_ok_def check_in_ok_def)
  have "intimacy_ok s1"
    using ok dto t other by (auto simp: new intimacy_ok_def check_in_ok_def answer_valid_def)
  moreover have "stored f u t dto c s s1" using other by (auto simp: new stored_def)
  ultimately show ?thesis by blast
next
  case (Some old)
  let ?w = "\<lambda>c. c\<lparr>ici_mood := ian_mood dto, ici_desireLevel := ian_desireLevel dto, ici_updatedAt := env_now E\<rparr>"
  have old: "old \<in> set (idb_checkIns s)" "ici_userId old = u" "ici_date old = t" using find_SomeD [OF Some] by auto
  have c: "ici_familyId old = f" "c = ?w old"
    "s1 = s\<lparr>idb_checkIns := map (\<lambda>d. if ici_id d = ici_id old then ?w d else d) (idb_checkIns s)\<rparr>"
    using saved Some by (auto simp: save_check_in_def Let_def split: if_splits)
  have same: "ici_id d = ici_id old \<longleftrightarrow> ici_userId d = u \<and> ici_date d = t" "ici_id d = ici_id old \<longleftrightarrow> d = old"
    if "d \<in> set (idb_checkIns s)" for d
    using ok that old by (auto simp: intimacy_ok_def distinct_map dest: inj_onD)
  have keys: "map ici_id (idb_checkIns s1) = map ici_id (idb_checkIns s)"
    "map (\<lambda>c. (ici_userId c, ici_date c)) (idb_checkIns s1) = map (\<lambda>c. (ici_userId c, ici_date c)) (idb_checkIns s)"
    by (simp_all add: c(3))
  moreover have "ici_id ` set (idb_checkIns s1) = ici_id ` set (idb_checkIns s)" using keys(1) by (metis set_map)
  moreover have "\<forall>c \<in> set (idb_checkIns s1). check_in_ok (core_nextId s1) c"
    using ok dto by (auto simp: c(3) intimacy_ok_def check_in_ok_def answer_valid_def)
  moreover have "idb_preferences s1 = idb_preferences s" "idb_events s1 = idb_events s" by (simp_all add: c(3))
  ultimately have "intimacy_ok s1" using ok by (simp add: intimacy_ok_def)
  moreover have "stored f u t dto c s s1" using old same by (auto simp: c stored_def)
  ultimately show ?thesis by blast
qed

lemma replace_preferences_stored:
  assumes ok: "intimacy_ok s1" and st: "stored f u t dto c s s1" and replaced: "replace_preferences c (ian_preferences dto) s1 = (Inr c', s2)"
    and oks: "intimacy_ok s"
  shows "c' = c \<and> intimacy_ok s2 \<and> core_members s2 = core_members s \<and> core_families s2 = core_families s
    \<and> answer_at f u t s2 = Some dto \<and> (\<forall>g v x. (v, x) \<noteq> (u, t) \<longrightarrow> answer_at g v x s2 = answer_at g v x s)"
proof -
  have s2: "s2 = s1\<lparr>idb_preferences := filter (\<lambda>p. fst p \<noteq> ici_id c) (idb_preferences s1) @ map (\<lambda>p. (ici_id c, p)) (ian_preferences dto)\<rparr>"
    "distinct (ian_preferences dto)" "c' = c"
    using replaced by (auto simp: replace_preferences_def split: if_splits)
  have member: "c \<in> set (idb_checkIns s1)" using st by (simp add: stored_def)
  have ok2: "intimacy_ok s2"
    using ok s2(2) member by (auto simp: s2(1) intimacy_ok_def distinct_map inj_on_def)
  have own: "check_in_answer c s2 = dto"
    using st by (simp add: check_in_answer_def preferences_of_def s2(1) stored_def o_def)
  have other: "check_in_answer d s2 = check_in_answer d s" if "ici_id d \<noteq> ici_id c" for d
  proof -
    have "filter (\<lambda>p. fst p = ici_id d) (idb_preferences s2) = filter (\<lambda>p. fst p = ici_id d) (idb_preferences s)"
      using that st by (auto simp: s2(1) stored_def filter_empty_conv intro!: filter_cong)
    then show ?thesis by (simp add: check_in_answer_def preferences_of_def)
  qed
  have "answer_at f u t s2 = Some dto"
    unfolding answer_at_Some [OF ok2] using st member own by (auto simp: s2(1) stored_def)
  moreover have "answer_at g v x s2 = answer_at g v x s" if "(v, x) \<noteq> (u, t)" for g v x
  proof (rule option_eqI)
    fix a
    have "d \<in> set (idb_checkIns s2) \<longleftrightarrow> d \<in> set (idb_checkIns s)" "d \<in> set (idb_checkIns s) \<Longrightarrow> ici_id d \<noteq> ici_id c"
      if "ici_userId d = v" "ici_date d = x" for d
      using st that \<open>(v, x) \<noteq> (u, t)\<close> by (auto simp: s2(1) stored_def)
    then have "d \<in> set (idb_checkIns s2) \<and> check_in_answer d s2 = a \<longleftrightarrow> d \<in> set (idb_checkIns s) \<and> check_in_answer d s = a"
      if "ici_userId d = v" "ici_date d = x" for d
      using that other by metis
    then show "answer_at g v x s2 = Some a \<longleftrightarrow> answer_at g v x s = Some a"
      unfolding answer_at_Some [OF ok2] answer_at_Some [OF oks] Bex_def by (intro ex_cong1) blast
  qed
  ultimately show ?thesis using ok2 st s2(3) by (simp add: s2(1) stored_def)
qed

lemma upsertCheckIn_cases:
  assumes ok: "intimacy_ok s" and dto: "answer_valid dto"
  obtains (refused) e where "upsertCheckIn E u date dto s = (Inl e, s)"
  | (written) t ctx p c s' where "dateValue ''date'' date = Inr t" "intimacy_context u s = Inr (ctx, p)"
    "upsertCheckIn E u date dto s = (Inr (ownResponse date (Some dto) (map_option (\<lambda>c. check_in_answer c s')
       (find_first (\<lambda>c. ici_familyId c = ctx_familyId ctx \<and> ici_userId c \<noteq> u \<and> ici_date c = t) (idb_checkIns s')))), s')"
    "intimacy_ok s'" "core_members s' = core_members s" "core_families s' = core_families s"
    "answer_at (ctx_familyId ctx) u t s' = Some dto" "\<And>g v x. (v, x) \<noteq> (u, t) \<Longrightarrow> answer_at g v x s' = answer_at g v x s"
    "set (idb_checkIns s') = insert c {d \<in> set (idb_checkIns s). ici_id d \<noteq> ici_id c}" "ici_userId c = u"
proof -
  show ?thesis
  proof (cases "fst (upsertCheckIn E u date dto s)")
    case (Inl e)
    then have "upsertCheckIn E u date dto s = (Inl e, s)"
      by (auto simp: upsertCheckIn_def transaction_def and_then_def split: sum.splits prod.splits)
    then show ?thesis by (rule refused)
  next
    case (Inr r)
    obtain t ctx p where t: "dateValue ''date'' date = Inr t" and ctx: "intimacy_context u s = Inr (ctx, p)"
      using Inr by (auto simp: upsertCheckIn_def split: sum.splits)
    let ?f = "ctx_familyId ctx"
    obtain c s1 c' s2 where c: "save_check_in E u ?f t dto s = (Inr c, s1)"
      "replace_preferences c (ian_preferences dto) s1 = (Inr c', s2)"
      "upsertCheckIn E u date dto s = (Inr (ownResponse date (Some (check_in_answer c' s2)) (map_option (\<lambda>c. check_in_answer c s2)
       (find_first (\<lambda>c. ici_familyId c = ?f \<and> ici_userId c \<noteq> u \<and> ici_date c = t) (idb_checkIns s2)))), s2)"
      using Inr t ctx by (auto simp: upsertCheckIn_def transaction_def and_then_def split: sum.splits prod.splits)
    have m: "midnight t" using dateValue_Inr [OF t] by simp
    note st = save_check_in_stored [OF ok m dto c(1)]
    note rp = replace_preferences_stored [OF conjunct2 [OF st] conjunct1 [OF st] c(2) ok]
    have rows: "idb_checkIns s2 = idb_checkIns s1" using c(2) by (auto simp: replace_preferences_def split: if_splits)
    have set: "set (idb_checkIns s2) = insert c {d \<in> set (idb_checkIns s). ici_id d \<noteq> ici_id c}" "ici_userId c = u"
      "ici_familyId c = ?f" "ici_date c = t"
      using st by (simp_all add: stored_def rows)
    have "answer_at ?f u t s2 = Some (check_in_answer c s2)"
      using rp set by (subst answer_at_Some) auto
    then have own: "check_in_answer c' s2 = dto" using rp by simp
    show ?thesis
      by (rule written [OF t ctx c(3) [unfolded own]]) (use rp set in auto)
  qed
qed

text \<open>C23. Saving an answer and reading it back: after a successful call the day shows the caller exactly the saved answer, the
  answers of everybody else and of other days are what they were, and, if nobody but the two partners has ever answered for the
  day in the family, the response of the call is what reading the day gives.\<close>

theorem saved_answer_read_back:
  assumes "intimacy_ok s" "answer_valid dto" "upsertCheckIn E u date dto s = (Inr r, s')"
  shows "\<exists>ctx p t r'. intimacy_context u s = Inr (ctx, p) \<and> dateValue ''date'' date = Inr t
    \<and> getCheckIn u date s' = Inr r' \<and> icr_myCheckIn r' = Some dto \<and> icr_myCheckIn r = Some dto
    \<and> (\<forall>f v x. (v, x) \<noteq> (u, t) \<longrightarrow> answer_at f v x s' = answer_at f v x s)
    \<and> ((\<forall>c \<in> set (idb_checkIns s). ici_familyId c = ctx_familyId ctx \<and> ici_date c = t
          \<longrightarrow> ici_userId c = u \<or> Some (ici_userId c) = p) \<longrightarrow> r' = r)"
  using assms(1,2)
proof (cases rule: upsertCheckIn_cases [where E = E and u = u and date = date])
  case (refused e)
  with assms(3) show ?thesis by simp
next
  case (written t ctx p c s'')
  let ?f = "ctx_familyId ctx"
  have s'': "s'' = s'" and r: "r = ownResponse date (Some dto) (map_option (\<lambda>c. check_in_answer c s')
      (find_first (\<lambda>c. ici_familyId c = ?f \<and> ici_userId c \<noteq> u \<and> ici_date c = t) (idb_checkIns s')))"
    using written(3) assms(3) by auto
  have ctx: "intimacy_context u s' = Inr (ctx, p)"
    using written(2) unfolding intimacy_context_def requirePartner_def requireMembership_def find_member_def find_family_def
      partner_id_def written(5,6) [unfolded s''] .
  have read: "getCheckIn u date s' = Inr (ownResponse date (Some dto) (partner_answer ?f p t s'))"
    using written(1,7) ctx by (simp add: getCheckIn_answers s'')
  have "ownResponse date (Some dto) (partner_answer ?f p t s') = r"
    if "\<forall>c \<in> set (idb_checkIns s). ici_familyId c = ?f \<and> ici_date c = t \<longrightarrow> ici_userId c = u \<or> Some (ici_userId c) = p"
  proof -
    have q: "q \<noteq> u" if "p = Some q" for q
      using written(2) that by (auto simp: intimacy_context_def partner_id_def dest!: find_SomeD split: sum.splits)
    have "partner_answer ?f p t s' = map_option (\<lambda>c. check_in_answer c s')
        (find_first (\<lambda>d. ici_familyId d = ?f \<and> ici_date d = t \<and> Some (ici_userId d) = p) (idb_checkIns s'))"
      by (cases p) (simp_all add: partner_answer_def answer_at_def)
    also have "find_first (\<lambda>d. ici_familyId d = ?f \<and> ici_date d = t \<and> Some (ici_userId d) = p) (idb_checkIns s')
        = find_first (\<lambda>c. ici_familyId c = ?f \<and> ici_userId c \<noteq> u \<and> ici_date c = t) (idb_checkIns s')"
      by (rule find_cong_pred) (use that q written(9,10) s'' in auto)
    finally show ?thesis by (simp add: r)
  qed
  then show ?thesis using written(1,2,8) read by (simp add: r s'' ownResponse_def)
qed

subsection \<open>Sequences of calls\<close>

text \<open>A call of a user; \<open>elsewhere\<close> stands for the other services, which change members, families and the feed and draw
  identifiers but never touch these tables.\<close>

inductive intimacy_call :: "uuid \<Rightarrow> intimacy_db \<Rightarrow> intimacy_db \<Rightarrow> bool" where
  upsert_check_in: "answer_valid dto \<Longrightarrow> intimacy_call u s (snd (upsertCheckIn E u date dto s))"
| delete_check_in: "intimacy_call u s (snd (deleteCheckIn u date s))"
| upsert_event: "intimacy_call u s (snd (upsertEvent E u date ed s))"
| delete_event: "intimacy_call u s (snd (deleteEvent u date s))"
| elsewhere: "idb_checkIns t = idb_checkIns s \<Longrightarrow> idb_preferences t = idb_preferences s \<Longrightarrow> idb_events t = idb_events s
    \<Longrightarrow> core_nextId s \<le> core_nextId t \<Longrightarrow> intimacy_call u s t"

inductive intimacy_calls :: "uuid list \<Rightarrow> intimacy_db \<Rightarrow> intimacy_db \<Rightarrow> bool" where
  no_calls: "intimacy_calls [] s s"
| more_calls: "intimacy_call u s t \<Longrightarrow> intimacy_calls us t v \<Longrightarrow> intimacy_calls (u # us) s v"

definition intimacy_keeps :: "uuid \<Rightarrow> intimacy_db \<Rightarrow> intimacy_db \<Rightarrow> bool" where
  "intimacy_keeps u s t \<longleftrightarrow> (intimacy_ok s \<longrightarrow> intimacy_ok t \<and> (\<forall>f v x. v \<noteq> u \<longrightarrow> answer_at f v x t = answer_at f v x s))"

interpretation ik: evolution "intimacy_keeps u" for u
  by unfold_locales (auto simp: intimacy_keeps_def)

lemma keeps_same_answers:
  assumes "intimacy_ok s \<Longrightarrow> intimacy_ok t" "idb_checkIns t = idb_checkIns s" "idb_preferences t = idb_preferences s"
  shows "intimacy_keeps u s t"
  using assms by (simp add: intimacy_keeps_def answer_at_def check_in_answer_def preferences_of_def)

lemma upsertCheckIn_keeps:
  assumes "answer_valid dto"
  shows "intimacy_keeps u s (snd (upsertCheckIn E u date dto s))"
  unfolding intimacy_keeps_def
proof
  assume "intimacy_ok s"
  from this assms show "intimacy_ok (snd (upsertCheckIn E u date dto s))
    \<and> (\<forall>f v x. v \<noteq> u \<longrightarrow> answer_at f v x (snd (upsertCheckIn E u date dto s)) = answer_at f v x s)"
    by (cases rule: upsertCheckIn_cases [where E = E and u = u and date = date]) (use \<open>intimacy_ok s\<close> in simp_all)
qed

lemma delete_check_ins_keeps:
  assumes P: "\<And>c. P c \<Longrightarrow> ici_userId c = u"
  shows "intimacy_keeps u s (delete_check_ins P s)"
  unfolding intimacy_keeps_def
proof
  let ?t = "delete_check_ins P s"
  assume ok: "intimacy_ok s"
  have ids: "c = d" if "c \<in> set (idb_checkIns s)" "d \<in> set (idb_checkIns s)" "ici_id c = ici_id d" for c d
    using ok that by (auto simp: intimacy_ok_def distinct_map dest: inj_onD)
  have ok2: "intimacy_ok ?t"
    using ok by (fastforce simp: intimacy_ok_def delete_check_ins_def distinct_map_filter)
  moreover have "answer_at f v x ?t = answer_at f v x s" if "v \<noteq> u" for f v x
  proof (rule option_eqI)
    fix a
    have "check_in_answer d ?t = check_in_answer d s" if "d \<in> set (idb_checkIns s)" "\<not> P d" for d
    proof -
      have "filter (\<lambda>p. fst p = ici_id d) (idb_preferences ?t) = filter (\<lambda>p. fst p = ici_id d) (idb_preferences s)"
        using that by (auto simp: delete_check_ins_def intro!: filter_cong dest: ids)
      then show ?thesis by (simp add: check_in_answer_def preferences_of_def)
    qed
    then have "d \<in> set (idb_checkIns ?t) \<and> check_in_answer d ?t = a \<longleftrightarrow> d \<in> set (idb_checkIns s) \<and> check_in_answer d s = a"
      if "ici_userId d = v" for d
      using that \<open>v \<noteq> u\<close> P by (auto simp: delete_check_ins_def)
    then show "answer_at f v x ?t = Some a \<longleftrightarrow> answer_at f v x s = Some a"
      unfolding answer_at_Some [OF ok2] answer_at_Some [OF ok] Bex_def by (intro ex_cong1) blast
  qed
  ultimately show "intimacy_ok ?t \<and> (\<forall>f v x. v \<noteq> u \<longrightarrow> answer_at f v x ?t = answer_at f v x s)" by blast
qed

lemma upsertEvent_ok:
  assumes "intimacy_ok s"
  shows "intimacy_ok (snd (upsertEvent E u date dto s))"
proof (cases "fst (upsertEvent E u date dto s)")
  case (Inl e)
  then have "snd (upsertEvent E u date dto s) = s"
    by (auto simp: upsertEvent_def fresh_def Let_def split: sum.splits option.splits prod.splits)
  then show ?thesis using assms by simp
next
  case (Inr r)
  then obtain ctx p t where t: "intimacy_context u s = Inr (ctx, p)" "dateValue ''date'' date = Inr t"
    by (auto simp: upsertEvent_def split: sum.splits)
  then have m: "midnight t" using dateValue_Inr by blast
  show ?thesis
  proof (cases "find_first (event_at (ctx_familyId ctx) t) (idb_events s)")
    case None
    then have new: "\<not> (iev_familyId v = ctx_familyId ctx \<and> iev_date v = t)" if "v \<in> set (idb_events s)" for v
      using find_NoneD [OF None that] by (simp add: event_at_def)
    show ?thesis
      using assms t None m new
      by (fastforce simp: upsertEvent_def fresh_def Let_def intimacy_ok_def check_in_ok_def)
  next
    case (Some v)
    obtain s' where s': "s' = snd (upsertEvent E u date dto s)" by blast
    have "map (\<lambda>v. (iev_familyId v, iev_date v)) (idb_events s') = map (\<lambda>v. (iev_familyId v, iev_date v)) (idb_events s)"
      "\<forall>v \<in> set (idb_events s'). midnight (iev_date v)" "idb_checkIns s' = idb_checkIns s"
      "idb_preferences s' = idb_preferences s" "core_nextId s' = core_nextId s"
      using Some assms t by (auto simp: s' upsertEvent_def Let_def intimacy_ok_def)
    then show ?thesis using assms unfolding s' [symmetric] intimacy_ok_def by simp
  qed
qed

lemma intimacy_call_keeps: "intimacy_call u s t \<Longrightarrow> intimacy_keeps u s t"
proof (induction rule: intimacy_call.induct)
  case (upsert_check_in dto u s E date)
  then show ?case by (rule upsertCheckIn_keeps)
next
  case (delete_check_in u s date)
  show ?case unfolding deleteCheckIn_def by (intro ik.guards) (auto intro!: ik.guards delete_check_ins_keeps split: prod.split)
next
  case (upsert_event u s E date ed)
  show ?case
    by (rule keeps_same_answers [OF upsertEvent_ok])
      (auto simp: upsertEvent_def fresh_def Let_def split: sum.splits option.splits prod.splits)
next
  case (delete_event u s date)
  show ?case
    by (rule keeps_same_answers)
      (auto simp: deleteEvent_def intimacy_ok_def distinct_map_filter split: sum.splits prod.splits)
next
  case (elsewhere t s u)
  show ?case by (rule keeps_same_answers) (use elsewhere in \<open>auto simp: intimacy_ok_def check_in_ok_def\<close>)
qed

text \<open>Over every sequence of calls the tables stay consistent, and who calls nothing keeps the answers.\<close>

theorem intimacy_calls_ok:
  assumes "intimacy_calls us s t" "intimacy_ok s"
  shows "intimacy_ok t \<and> (\<forall>f v x. v \<notin> set us \<longrightarrow> answer_at f v x t = answer_at f v x s)"
  using assms
  by (induction rule: intimacy_calls.induct) (auto dest!: intimacy_call_keeps simp: intimacy_keeps_def)

subsection \<open>A sample database\<close>

text \<open>Two partners, of whom the second has answered for the first day of 1970.\<close>

definition diary :: "intimacy_mood \<Rightarrow> int \<Rightarrow> intimacy_preference list \<Rightarrow> intimacy_db" where
  "diary mood level ps = \<lparr>core_users = [], core_families = [\<lparr>family_id = 5, family_status = FamilyActive,
       family_timeZone = ''Europe/Moscow'', family_locale = ''ru-RU'', family_defaultCurrency = ''RUB'',
       family_archivedAt = None, family_dissolvedAt = None, family_createdAt = 0\<rparr>],
     core_members = map (\<lambda>u. \<lparr>member_id = u, member_familyId = 5, member_userId = u, member_role = PARTNER,
       member_joinedAt = 0\<rparr>) [1, 2], core_preferences = [], core_connections = [],
     core_devices = [], core_feed = empty_feed, core_nextId = 100,
     idb_checkIns = [\<lparr>ici_id = 10, ici_familyId = 5, ici_userId = 2, ici_date = 0, ici_mood = mood,
       ici_desireLevel = level, ici_createdAt = 0, ici_updatedAt = 0\<rparr>],
     idb_preferences = map (\<lambda>p. (10, p)) ps, idb_events = []\<rparr>"

definition first_day :: ymd where
  "first_day = \<lparr>ymd_year = 1970, ymd_month = 1, ymd_day = 1\<rparr>"

lemma diary_ok: "1 \<le> level \<Longrightarrow> level \<le> 5 \<Longrightarrow> distinct ps \<Longrightarrow> intimacy_ok (diary mood level ps)"
  by (auto simp: diary_def intimacy_ok_def check_in_ok_def midnight_def time_within_day_def distinct_map inj_on_def)

lemma diary_context: "intimacy_context 1 (diary mood level ps) = Inr (\<lparr>ctx_familyId = 5, ctx_memberId = 1,
    ctx_role = PARTNER, ctx_timeZone = ''Europe/Moscow'', ctx_locale = ''ru-RU'', ctx_defaultCurrency = ''RUB''\<rparr>, Some 2)"
  by (simp add: diary_def intimacy_context_def requirePartner_def requireMembership_def find_member_def find_family_def partner_id_def)

lemma first_day_date: "dateValue field first_day = Inr 0"
  using dateValue_iso_date [of 0 field]
  by (simp add: midnight_def time_within_day_def first_day_def iso_date_def getUTCFullYear_def getUTCMonth_def getUTCDate_def
      day_of_def year_of_day_def month_of_day_def date_of_day_def day_from_year_def month_of_yearday_def days_before_def
      leap_year_def Let_def)

theorem partner_answers_private_witness:
  "getCheckIn 1 first_day (diary MoodNotToday 1 []) = getCheckIn 1 first_day (diary MoodSex 4 [PrefKissing])"
proof -
  let ?s = "diary MoodSex 4 [PrefKissing]" and ?t = "diary MoodNotToday 1 []"
  have rest: "core_members ?t = core_members ?s" "core_families ?t = core_families ?s" "idb_events ?t = idb_events ?s"
    by (simp_all add: diary_def)
  have none: "answer_at f 1 t (diary mood level ps) = None" for f t mood level ps by (simp add: answer_at_def diary_def)
  have told: "told_alike (answer_at f 1 t ?s) (partner_answer f p t ?s) (partner_answer f p t ?t)" for f p t
    by (simp add: none told_alike_def partner_answer_def answer_at_def diary_def split: option.split)
  show ?thesis
    using partner_answers_private [OF _ _ rest _ told] none by (simp add: diary_ok)
qed

theorem saved_answer_read_back_witness:
  "\<exists>r s'. upsertCheckIn moscow_env 1 first_day \<lparr>ian_mood = MoodTenderness, ian_desireLevel = 3, ian_preferences = [PrefKissing]\<rparr>
      (diary MoodSex 4 [PrefKissing]) = (Inr r, s') \<and> getCheckIn 1 first_day s' = Inr r"
proof -
  let ?s = "diary MoodSex 4 [PrefKissing]"
  let ?dto = "\<lparr>ian_mood = MoodTenderness, ian_desireLevel = 3, ian_preferences = [PrefKissing]\<rparr>"
  have ok: "intimacy_ok ?s" by (simp add: diary_ok)
  have dto: "answer_valid ?dto" by (simp add: answer_valid_def)
  have "find_first (\<lambda>c. ici_userId c = Suc 0 \<and> ici_date c = 0) (idb_checkIns ?s) = None" by (simp add: diary_def)
  then obtain r s' where r: "upsertCheckIn moscow_env 1 first_day ?dto ?s = (Inr r, s')"
    using diary_context [of MoodSex 4 "[PrefKissing]"]
    by (simp add: upsertCheckIn_def first_day_date save_check_in_def fresh_def Let_def replace_preferences_def
        transaction_def)
  have "\<forall>c \<in> set (idb_checkIns ?s). ici_userId c = 1 \<or> Some (ici_userId c) = Some 2" by (simp add: diary_def)
  then have "getCheckIn 1 first_day s' = Inr r"
    using saved_answer_read_back [OF ok dto r] unfolding diary_context by auto
  then show ?thesis using r by blast
qed

end
