(* ===== verification/Spec2Isabelle.thy ===== *)
theory Spec2Isabelle
  imports GoalSpec RecurringSpec Wishes TaskSpec Calendar AuthSpec MessengerSpec WellbeingSpec CanonicalJson FinancialMeetingsSpec MealsSpec ReportsSpec IntimacySpec
begin

text \<open>
  A verification development for the back end of the family application (TypeScript, NestJS and Prisma)
  under \<open>src/src\<close>.

  The program.  Every feature is a NestJS service whose methods are the handlers of HTTP requests, and all
  state is in the tables of one PostgreSQL database (\<open>prisma/schema.prisma\<close>).  A handler first asks
  \<open>FamilyMembershipService\<close> for the caller's family, checks its guards, reads and writes rows, often inside a
  transaction and with an optimistic version, and finally writes audit events, inbox notifications and
  outbox events.  Background jobs (\<open>common/maintenance\<close>, \<open>common/outbox\<close>) work through due rows.

  How it is modelled.  A table is a list of records with the columns of the schema (columns that no modelled
  operation reads, such as \<open>updatedAt\<close> of some tables, are left out), a group of tables is a record, and every
  operation is a function \<open>state \<Rightarrow> (error + result) \<times> state\<close> with all guards and early returns of the code.
  A transaction (\<open>Prelude.transaction\<close>) returns to the state at its beginning when its body fails.
  The state records extend one another: \<open>core\<close> holds users, families, members, preferences, devices and the
  feed (audit, inbox, outbox), and each group of services adds its tables, so that all of them share the
  membership and notification code.  The clock and the time zone database are the parameter \<open>env\<close>;
  every request and every job run takes an arbitrary one, so nothing is assumed about how clocks relate.
  Identifiers are numbers taken from a counter: what the code gets from \<open>randomUUID\<close> is only ever
  compared for equality or, in an order by creation time, to break ties.  Texts in Russian are rendered in English.

  Theories, in the order in which they build on each other, with their sources under \<open>src/src\<close>:
   - \<open>Prelude\<close>: errors, results, transactions, the locales \<open>evolution\<close> (how every handler is shown to keep a
     relation between old and new state) and \<open>versioned_rows\<close> (optimistic concurrency), lists and texts;
   - \<open>JsDate\<close>: JavaScript dates, their parts, overflow of months and days, parsing and printing;
   - \<open>Core\<close>: the shared tables; \<open>modules/family-members\<close>, \<open>common/audit\<close>, pagination, read policy;
   - \<open>QuietHours\<close>: \<open>common/notifications/quiet-hours.service.ts\<close>;
   - \<open>Outbox\<close>: \<open>common/outbox\<close>, \<open>notification-producer.service.ts\<close>, \<open>modules/push\<close> (enqueueing, claiming,
     delivery, retries);
   - \<open>Families\<close>, \<open>Invitations\<close>: \<open>modules/families\<close> (families, public and private invitations, dissolution);
   - \<open>Wallets\<close>, \<open>Ledger\<close>, \<open>Budgets\<close>, \<open>Goals\<close>, \<open>Finance\<close>, \<open>FinanceOps\<close>, \<open>FinanceSpec\<close>: \<open>modules/finance\<close> (wallets,
     double entry ledger with idempotent commands, history, categories, budgets, goals), their shared
     invariant and its preservation; \<open>LedgerSpec\<close>, \<open>WalletSpec\<close>, \<open>GoalSpec\<close>: the properties, among them the
     refinement of an abstract account book;
   - \<open>Recurring\<close>, \<open>RecurringSpec\<close>: recurring payments, their forecasts, reminders and generation job;
   - \<open>Wishes\<close>: \<open>modules/family-wishes\<close> with the refinement of its life cycle;
   - \<open>Tasks\<close>, \<open>TaskSpec\<close>: \<open>modules/tasks\<close> and \<open>modules/notifications/reminders.service.ts\<close> with their jobs;
   - \<open>Auth\<close>, \<open>AuthSpec\<close>: \<open>modules/auth\<close>, the parts of \<open>modules/users\<close> it calls, and the account jobs of
     \<open>common/maintenance\<close>;
   - \<open>Media\<close>, \<open>MediaSpec\<close>: \<open>modules/media\<close> with the object storage cleanup jobs;
   - \<open>Messenger\<close>, \<open>MessengerSpec\<close>: \<open>modules/messenger/messenger.service.ts\<close>;
   - \<open>FamilyEvents\<close>, \<open>FamilyEventsSpec\<close>: \<open>modules/family-events\<close> (events, local dates, the status shown) and the
     reminder job; \<open>Calendar\<close>: \<open>modules/calendar\<close>, equal to sorting all entries of the period at once;
   - \<open>Wellbeing\<close>, \<open>WellbeingSpec\<close>: \<open>modules/wellbeing\<close> (the diary, consents and the shared view, couple meetings);
   - \<open>Idempotency\<close>, \<open>CanonicalJson\<close>: \<open>common/idempotency\<close>, the interceptor as two steps around a handler with
     the requests interleaved between them, and the canonical text of a request;
   - \<open>FinancialMeetings\<close>, \<open>FinancialMeetingsSpec\<close>: \<open>modules/finance/financial-meetings.service.ts\<close>;
   - \<open>Shopping\<close>, \<open>Meals\<close>, \<open>MealsSpec\<close>: \<open>modules/shopping\<close> and \<open>modules/meals\<close>, with the shopping items
     generated from a meal plan;
   - \<open>Reports\<close>: the read models over the ledger, \<open>expense-statistics.service.ts\<close>, \<open>financial-summary.service.ts\<close>
     and \<open>financial-analytics.service.ts\<close>; \<open>ReportsSpec\<close>: the expense statistics are the sums they claim to be;
   - \<open>Intimacy\<close>, \<open>IntimacySpec\<close>: \<open>modules/intimacy\<close>, the private calendar of a couple, and what one partner can learn
     of the answers of the other.

  Interfaces.  The locale \<open>evolution\<close> is interpreted once for every relation that all operations of a group keep
  (\<open>fam_evolves\<close>, \<open>fin_evolves\<close>, \<open>rec_evolves\<close>, \<open>tasks_keep\<close>, \<open>auth_keep\<close>, \<open>media_keep\<close>, \<open>chat_keep\<close>,
  \<open>events_evolve\<close>, \<open>wellbeing_evolve\<close>, \<open>fmeetings_evolve\<close>, \<open>pantry_evolve\<close>, \<open>intimacy_keeps\<close> and so on): its rules
  take a handler apart along its guards, transactions and continuations.  \<open>versioned_rows\<close> is interpreted
  for the tables with a version column, and \<open>schedule\<close> for the functions that compute next due dates.  The step relations
  (\<open>families_step\<close>, \<open>finance_step\<close>, \<open>recurring_step\<close>, \<open>task_call\<close>, \<open>auth_call\<close>, \<open>media_call\<close>, \<open>chat_call\<close>,
  \<open>events_call\<close>, \<open>wellbeing_call\<close>, \<open>fmeetings_call\<close>, \<open>pantry_call\<close> and others) list the operations and jobs of a group, and the invariants
  are proved over their reflexive transitive closure, so for every interleaving of whole requests.  For financial
  meetings and the private calendar (\<open>intimacy_calls\<close>) the relation also names the acting users, and says who may
  change what.

  Parameters.  Code that is not in the repository is an argument of the definitions: Argon2, SHA-256, random
  bytes and the mail encryption (record \<open>crypto\<close>), the S3 client and the image library (record \<open>storage\<close>),
  the mail, Telegram and push providers (record of senders in \<open>Outbox\<close>), and \<open>Intl.DateTimeFormat\<close> (\<open>env\<close>,
  and \<open>sec\<close> for the seconds that the local dates of events need), and the order of \<open>localeCompare\<close> (\<open>collate\<close>).
  Whether a call of them succeeds is their choice, per request.

  Loops.  Loops over a list of rows are structural recursion.  The search for the next date of a routine or a
  recurring payment is \<open>partial_function (option)\<close>; that they return for the intervals the services admit is proved
  (\<open>routines_run_once\<close>, \<open>nextDueAt_advances\<close>).  The loop over the days of the private calendar is a \<open>function\<close> with a measure.
  The client loop of \<open>MessengerSpec.history_read_back\<close> takes fuel, and the property states how much is enough.

  Not modelled.  HTTP controllers, guards and decorators (routing and validation of requests; the checks
  that a theorem needs are among its hypotheses), the Socket.IO gateway, configuration, health checks, logging
  and metrics; the links to avatars; of \<open>modules\<close> the profile and the export of a user, child profiles, first date,
  the Telegram connection, the inbox with its preferences and the attachments of transactions; the
  interleaving of two requests between two statements of one handler, except where the code re-checks in a
  conditional write, whose count the model keeps, in the two statements of an outbox claim (\<open>Outbox.held_step\<close>) and in
  the idempotency interceptor.
\<close>

end
